(* ===== verification/Prelude.thy ===== *)
theory Prelude
  imports Complex_Main
begin

text \<open>
  Shared vocabulary of the development: the exceptions the code raises as values of a sum
  type, points in time, the row tables behind the SQLite store with the three statements
  the store uses on them (select by key, conditional update with its row count, insert),
  the immediate transaction, and the locale of bounded holds that the capacity ledger, the
  refund ledger and the local payment rail share.
\<close>

section \<open>Exceptions as values\<close>

text \<open>
  The classes of \<open>aeep/errors.py\<close> and of the standard library that the modelled code
  raises. A message keeps the literal part of the source's f-string.
\<close>

datatype error =
    ConfigurationError string
  | ApprovalRequired string string string
  | ValueError string
  | TypeError string
  | AssertionError string
  | IntegrityError string
  | ExternalError string

type_synonym 'a result = "error + 'a"

abbreviation Err :: "error \<Rightarrow> 'a result" where "Err \<equiv> Inl"
abbreviation Ok :: "'a \<Rightarrow> 'a result" where "Ok \<equiv> Inr"

definition is_ok :: "'a result \<Rightarrow> bool" where
  "is_ok r = (case r of Inl _ \<Rightarrow> False | Inr _ \<Rightarrow> True)"

lemma is_ok_simps [simp]: "is_ok (Inr v) = True" "is_ok (Inl e) = False"
  by (simp_all add: is_ok_def)

lemma is_ok_iff: "is_ok r \<longleftrightarrow> (\<exists>v. r = Inr v)"
  by (cases r) auto

text \<open>
  A check that raises, followed by the rest of the function, is written as a chain of
  conditionals; a validator that only accepts or rejects returns \<open>Ok ()\<close>.
\<close>

fun first_error :: "(bool \<times> error) list \<Rightarrow> unit result" where
  "first_error [] = Ok ()"
| "first_error ((bad, e) # rest) = (if bad then Err e else first_error rest)"

text \<open>A chain of checks succeeds when no check raises and the tail succeeds.\<close>

lemma if_raise_ok [simp]:
  "(if b then Inl e else x) = Inr v \<longleftrightarrow> \<not> b \<and> x = Inr v"
  "(if b then x else Inl e) = Inr v \<longleftrightarrow> b \<and> x = Inr v"
  by auto

lemma is_ok_if [simp]:
  "is_ok (if b then Inl e else x) \<longleftrightarrow> \<not> b \<and> is_ok x"
  "is_ok (if b then x else Inl e) \<longleftrightarrow> b \<and> is_ok x"
  by auto

lemma first_error_iff: "first_error cs = Inr u \<longleftrightarrow> (\<forall>(bad, e) \<in> set cs. \<not> bad)"
  by (induction cs rule: first_error.induct) auto

section \<open>Points in time\<close>

text \<open>
  A Python \<open>datetime\<close> either carries a timezone, and then denotes an instant (microseconds
  of UTC), or is naive. Only instants are ever ordered by validated code; the instance
  puts naive values first so that the library's order applies to the type.
\<close>

datatype datetime = Naive int | Aware int

primrec aware :: "datetime \<Rightarrow> bool" where
  "aware (Naive _) = False"
| "aware (Aware _) = True"

primrec instant :: "datetime \<Rightarrow> int" where
  "instant (Naive t) = t"
| "instant (Aware t) = t"

instantiation datetime :: linorder
begin

definition less_eq_datetime :: "datetime \<Rightarrow> datetime \<Rightarrow> bool" where
  "less_eq_datetime x y =
     (if aware x = aware y then instant x \<le> instant y else aware y)"

definition less_datetime :: "datetime \<Rightarrow> datetime \<Rightarrow> bool" where
  "less_datetime x y =
     (if aware x = aware y then instant x < instant y else aware y)"

instance
proof
  fix x y z :: datetime
  show "(x < y) = (x \<le> y \<and> \<not> y \<le> x)"
    by (auto simp: less_eq_datetime_def less_datetime_def)
  show "x \<le> x"
    by (simp add: less_eq_datetime_def)
  show "x \<le> z" if "x \<le> y" "y \<le> z"
    using that by (auto simp: less_eq_datetime_def split: if_splits)
  show "x = y" if "x \<le> y" "y \<le> x"
    using that by (cases x; cases y) (auto simp: less_eq_datetime_def)
  show "x \<le> y \<or> y \<le> x"
    by (auto simp: less_eq_datetime_def)
qed

end

lemma Aware_le [simp]: "Aware a \<le> Aware b \<longleftrightarrow> a \<le> b"
  and Aware_less [simp]: "Aware a < Aware b \<longleftrightarrow> a < b"
  and Naive_le_Aware [simp]: "Naive c \<le> Aware b"
  by (simp_all add: less_eq_datetime_def less_datetime_def)

section \<open>Text tests\<close>

definition lower_hex :: "char \<Rightarrow> bool" where
  "lower_hex c = (c \<in> set ''0123456789abcdef'')"

definition hex64 :: "string \<Rightarrow> bool" where
  "hex64 s = (length s = 64 \<and> list_all lower_hex s)"

text \<open>The pattern \<open>^sha256:[a-f0-9]{64}$\<close>.\<close>

definition sha256_digest :: "string \<Rightarrow> bool" where
  "sha256_digest s = (take 7 s = ''sha256:'' \<and> hex64 (drop 7 s))"

text \<open>The pattern \<open>^(?:sha256:)?[a-f0-9]{64}$\<close>.\<close>

definition plain_or_tagged_digest :: "string \<Rightarrow> bool" where
  "plain_or_tagged_digest s = (hex64 s \<or> sha256_digest s)"

text \<open>A string field with \<open>min_length\<close> and \<open>max_length\<close>, and an optional field with a bound.\<close>

definition text_len :: "nat \<Rightarrow> nat \<Rightarrow> string \<Rightarrow> bool" where
  "text_len lo hi s = (lo \<le> length s \<and> length s \<le> hi)"

definition opt_all :: "('a \<Rightarrow> bool) \<Rightarrow> 'a option \<Rightarrow> bool" where
  "opt_all P x = (case x of None \<Rightarrow> True | Some v \<Rightarrow> P v)"

lemma opt_all_simps [simp]: "opt_all P None" "opt_all P (Some v) = P v"
  by (simp_all add: opt_all_def)

text \<open>Truthiness of an optional string: neither \<open>None\<close> nor empty.\<close>

definition truthy :: "string option \<Rightarrow> bool" where
  "truthy s = (case s of None \<Rightarrow> False | Some t \<Rightarrow> t \<noteq> [])"

lemma truthy_simps [simp]: "\<not> truthy None" "truthy (Some t) = (t \<noteq> [])"
  by (simp_all add: truthy_def)

section \<open>Decimal arguments\<close>

text \<open>
  A \<open>Decimal\<close> that a caller passes may be a NaN or an infinity; the code tests
  \<open>is_finite()\<close> before it computes with it. Stored decimals are finite.
\<close>

datatype decimal = Finite rat | NonFinite

primrec finite_decimal :: "decimal \<Rightarrow> bool" where
  "finite_decimal (Finite _) = True"
| "finite_decimal NonFinite = False"

primrec decimal_value :: "decimal \<Rightarrow> rat" where
  "decimal_value (Finite q) = q"
| "decimal_value NonFinite = 0"

definition finite_nonneg :: "decimal \<Rightarrow> bool" where
  "finite_nonneg d = (finite_decimal d \<and> 0 \<le> decimal_value d)"

lemma finite_nonneg_iff: "finite_nonneg d \<longleftrightarrow> (\<exists>q. d = Finite q \<and> 0 \<le> q)"
  by (cases d) (simp_all add: finite_nonneg_def)

section \<open>Tables\<close>

text \<open>
  A table of the store is the list of its rows in rowid order. A select with a unique match
  is the first row that satisfies the condition; an update rewrites the rows that satisfy
  it and reports how many there were.
\<close>

definition select_row :: "('r \<Rightarrow> bool) \<Rightarrow> 'r list \<Rightarrow> 'r option" where
  "select_row p t = List.find p t"

definition update_rows :: "('r \<Rightarrow> bool) \<Rightarrow> ('r \<Rightarrow> 'r) \<Rightarrow> 'r list \<Rightarrow> 'r list" where
  "update_rows p f t = map (\<lambda>r. if p r then f r else r) t"

definition rowcount :: "('r \<Rightarrow> bool) \<Rightarrow> 'r list \<Rightarrow> nat" where
  "rowcount p t = length (filter p t)"

named_theorems table_simps "rewriting for selects, updates and row counts"

lemma select_row_None [table_simps]: "select_row p t = None \<longleftrightarrow> (\<forall>r \<in> set t. \<not> p r)"
  by (auto simp: select_row_def find_None_iff)

lemma select_row_SomeD: "select_row p t = Some r \<Longrightarrow> r \<in> set t \<and> p r"
  by (auto simp: select_row_def find_Some_iff)

lemma select_row_Nil [simp]: "select_row p [] = None"
  by (simp add: select_row_def)

lemma select_row_Cons [simp]:
  "select_row p (r # t) = (if p r then Some r else select_row p t)"
  by (simp add: select_row_def)

lemma select_row_append:
  "select_row p (t @ u) = (case select_row p t of Some r \<Rightarrow> Some r | None \<Rightarrow> select_row p u)"
  by (induction t) auto

lemma select_row_fresh:
  "(\<forall>x \<in> set t. \<not> p x) \<Longrightarrow> p r \<Longrightarrow> select_row p (t @ [r]) = Some r"
  by (induction t) auto

lemma update_rows_Nil [simp]: "update_rows p f [] = []"
  by (simp add: update_rows_def)

lemma update_rows_Cons [simp]:
  "update_rows p f (r # t) = (if p r then f r else r) # update_rows p f t"
  by (simp add: update_rows_def)

lemma rowcount_Nil [simp]: "rowcount p [] = 0"
  by (simp add: rowcount_def)

lemma rowcount_Cons [simp]: "rowcount p (r # t) = (if p r then Suc (rowcount p t) else rowcount p t)"
  by (simp add: rowcount_def)

lemma rowcount_0 [table_simps]: "rowcount p t = 0 \<longleftrightarrow> (\<forall>r \<in> set t. \<not> p r)"
  by (induction t) auto

lemma length_update_rows [simp]: "length (update_rows p f t) = length t"
  by (simp add: update_rows_def)

lemma set_update_rows: "set (update_rows p f t) = (\<lambda>r. if p r then f r else r) ` set t"
  by (simp add: update_rows_def)

lemma map_key_update_rows [table_simps]:
  assumes "\<And>r. key (f r) = key r"
  shows "map key (update_rows p f t) = map key t"
  using assms by (simp add: update_rows_def)

text \<open>With a primary key a row is found by its key, and stays where it was after an update.\<close>

lemma select_key_Some:
  assumes "distinct (map key t)" and "r \<in> set t"
  shows "select_row (\<lambda>x. key x = key r) t = Some r"
  using assms by (induction t) auto

lemma select_key_update:
  assumes keep: "\<And>r. key (f r) = key r"
  shows "select_row (\<lambda>x. key x = k) (update_rows (\<lambda>x. key x = k) f t)
    = map_option f (select_row (\<lambda>x. key x = k) t)"
  by (induction t) (auto simp: keep)

lemma select_key_update_other:
  assumes keep: "\<And>r. key (f r) = key r" and "k \<noteq> k'"
  shows "select_row (\<lambda>x. key x = k) (update_rows (\<lambda>x. key x = k') f t)
    = select_row (\<lambda>x. key x = k) t"
  using assms(2) by (induction t) (auto simp: keep)

lemma rowcount_key:
  assumes "distinct (map key t)"
  shows "rowcount (\<lambda>x. key x = k \<and> q x) t =
    (case select_row (\<lambda>x. key x = k) t of None \<Rightarrow> 0 | Some r \<Rightarrow> if q r then 1 else 0)"
  using assms
proof (induction t)
  case (Cons a t)
  show ?case
  proof (cases "key a = k")
    case True
    with Cons.prems have "\<forall>x \<in> set t. key x \<noteq> k"
      by (metis distinct.simps(2) image_eqI list.map(2) list.set_map)
    then have "rowcount (\<lambda>x. key x = k \<and> q x) t = 0" by (auto simp: rowcount_0)
    with True show ?thesis by simp
  next
    case False
    with Cons show ?thesis by simp
  qed
qed simp

lemma rowcount_update_le:
  assumes "\<And>x. x \<in> set t \<Longrightarrow> q x \<Longrightarrow> p (f x) \<Longrightarrow> p x"
  shows "rowcount p (update_rows q f t) \<le> rowcount p t"
  using assms by (induction t) (auto simp: le_SucI)

text \<open>Filtering by a condition that the update keeps commutes with it.\<close>

lemma filter_update_rows:
  assumes "\<And>x. x \<in> set t \<Longrightarrow> q x \<Longrightarrow> p (f x) = p x"
  shows "filter p (update_rows q f t) = update_rows q f (filter p t)"
  using assms by (induction t) auto

text \<open>An update by primary key rewrites the one row with that key.\<close>

lemma update_rows_cong:
  assumes "\<And>x. x \<in> set t \<Longrightarrow> p x = q x"
  shows "update_rows p f t = update_rows q f t"
  using assms by (induction t) auto

text \<open>Replacing the row of a key changes a sum by the difference of the two rows.\<close>

lemma update_rows_absent: "(\<forall>x \<in> set t. \<not> p x) \<Longrightarrow> update_rows p f t = t"
  by (induction t) auto

lemma sum_update_key:
  fixes c :: "'r \<Rightarrow> rat"
  assumes "distinct (map key t)" and "x \<in> set t" and "key x = k"
  shows "sum_list (map c (update_rows (\<lambda>y. key y = k) (\<lambda>_. r) t)) = sum_list (map c t) - c x + c r"
  using assms
proof (induction t)
  case (Cons a t)
  show ?case
  proof (cases "key a = k")
    case True
    with Cons.prems have "\<forall>y \<in> set t. key y \<noteq> k" "x = a" by (auto simp: image_iff)
    with True show ?thesis by (simp add: update_rows_absent)
  next
    case False
    with Cons show ?thesis by auto
  qed
qed simp

lemma sum_filter_if: "sum_list (map f (filter p xs)) = sum_list (map (\<lambda>x. if p x then f x else (0::rat)) xs)"
  by (induction xs) auto

section \<open>Immediate transactions\<close>

text \<open>
  \<open>ReceiptStore._immediate_transaction\<close>: the body runs under an exclusive write lock; an
  exception rolls every change of the body back and is raised again.
\<close>

definition immediate_transaction :: "('s \<Rightarrow> 'a result \<times> 's) \<Rightarrow> 's \<Rightarrow> 'a result \<times> 's" where
  "immediate_transaction body s =
     (case body s of (Inl e, _) \<Rightarrow> (Inl e, s) | (Inr v, s') \<Rightarrow> (Inr v, s'))"

lemma transaction_error: "immediate_transaction body s = (Inl e, s') \<Longrightarrow> s' = s"
  by (auto simp: immediate_transaction_def split: prod.splits sum.splits)

lemma transaction_ok: "immediate_transaction body s = (Inr v, s') \<longleftrightarrow> body s = (Inr v, s')"
  by (auto simp: immediate_transaction_def split: prod.splits sum.splits)

lemma transaction_result: "fst (immediate_transaction body s) = fst (body s)"
  by (auto simp: immediate_transaction_def split: prod.splits sum.splits)

section \<open>Bounded holds\<close>

text \<open>
  The contract shared by every ledger of the program that admits holds against a limit: a
  row holds an amount at a time, and holds only lapse as time passes. The clients insert a
  row after comparing the held total with the limit, and otherwise apply updates that keep
  the amount and never revive a hold.
\<close>

locale bounded_holds =
  fixes amount :: "'r \<Rightarrow> rat"
    and held :: "'t::linorder \<Rightarrow> 'r \<Rightarrow> bool"
  assumes lapse: "t \<le> t' \<Longrightarrow> held t' r \<Longrightarrow> held t r"
begin

definition total :: "'t \<Rightarrow> 'r list \<Rightarrow> rat" where
  "total t rows = sum_list (map amount (filter (held t) rows))"

definition nonneg :: "'r list \<Rightarrow> bool" where
  "nonneg rows = (\<forall>r \<in> set rows. 0 \<le> amount r)"

lemma total_Nil [simp]: "total t [] = 0"
  by (simp add: total_def)

lemma total_Cons [simp]:
  "total t (r # rows) = (if held t r then amount r else 0) + total t rows"
  by (simp add: total_def)

lemma total_append: "total t (rows @ more) = total t rows + total t more"
  by (simp add: total_def)

lemma total_nonneg: "nonneg rows \<Longrightarrow> 0 \<le> total t rows"
  by (induction rows) (auto simp: nonneg_def)

lemma total_later: "t \<le> t' \<Longrightarrow> nonneg rows \<Longrightarrow> total t' rows \<le> total t rows"
proof (induction rows)
  case (Cons r rows)
  then have "total t' rows \<le> total t rows" by (auto simp: nonneg_def)
  moreover have "(if held t' r then amount r else 0) \<le> (if held t r then amount r else 0)"
    using Cons.prems lapse [of t t' r] by (auto simp: nonneg_def)
  ultimately show ?case by simp
qed simp

lemma total_update_le:
  assumes "nonneg rows"
    and "\<And>r. r \<in> set rows \<Longrightarrow> p r \<Longrightarrow> held t (f r) \<Longrightarrow> held t r \<and> amount (f r) \<le> amount r"
  shows "total t (update_rows p f rows) \<le> total t rows"
  using assms
proof (induction rows)
  case (Cons r rows)
  then have "total t (update_rows p f rows) \<le> total t rows"
    by (auto simp: nonneg_def)
  moreover have "(if held t (if p r then f r else r) then amount (if p r then f r else r) else 0)
      \<le> (if held t r then amount r else 0)"
    using Cons.prems(1) Cons.prems(2) [of r] by (auto simp: nonneg_def)
  ultimately show ?case by simp
qed simp

lemma total_admit:
  assumes "total t rows + amount r \<le> limit" and "0 \<le> amount r"
  shows "total t (rows @ [r]) \<le> limit"
  using assms by (simp add: total_append)

lemma total_member:
  assumes "nonneg rows" and "r \<in> set rows" and "held t r"
  shows "amount r \<le> total t rows"
  using assms
proof (induction rows)
  case (Cons x rows)
  have nn: "nonneg rows" and x: "0 \<le> amount x" using Cons.prems(1) by (auto simp: nonneg_def)
  show ?case
  proof (cases "r = x")
    case True
    with Cons.prems(3) total_nonneg [OF nn, of t] show ?thesis by simp
  next
    case False
    with Cons nn have "amount r \<le> total t rows" by simp
    with x show ?thesis by simp
  qed
qed simp

text \<open>
  What a client may do to the rows at one time under a limit: leave them, append a row that
  fits (or holds nothing), or rewrite rows so that no hold is revived or grows. Such changes
  at non-decreasing times keep the held total within the limit.
\<close>

inductive change :: "rat \<Rightarrow> 't \<Rightarrow> 'r list \<Rightarrow> 'r list \<Rightarrow> bool" for limit t where
  keep: "change limit t rows rows"
| admit: "0 \<le> amount r \<Longrightarrow> (held t r \<Longrightarrow> amount r \<noteq> 0 \<Longrightarrow> total t rows + amount r \<le> limit)
    \<Longrightarrow> change limit t rows (rows @ [r])"
| revise: "(\<And>r. r \<in> set rows \<Longrightarrow> p r \<Longrightarrow> 0 \<le> amount (f r)
      \<and> (held t (f r) \<longrightarrow> held t r \<and> amount (f r) \<le> amount r))
    \<Longrightarrow> change limit t rows (update_rows p f rows)"

lemma change_nonneg: "change limit t rows rows' \<Longrightarrow> nonneg rows \<Longrightarrow> nonneg rows'"
  by (induction rule: change.induct) (auto simp: nonneg_def set_update_rows)

lemma change_now:
  "change limit t rows rows' \<Longrightarrow> nonneg rows \<Longrightarrow> total t rows \<le> limit \<Longrightarrow> total t rows' \<le> limit"
proof (induction rule: change.induct)
  case (admit r rows)
  then show ?case by (cases "held t r \<and> amount r \<noteq> 0") (auto simp: total_append)
next
  case (revise rows p f)
  have "total t (update_rows p f rows) \<le> total t rows"
    by (rule total_update_le [OF revise.prems(1)]) (use revise.hyps in blast)
  with revise.prems(2) show ?case by simp
qed simp

lemma change_bounded:
  assumes "change limit t' rows rows'" and "t \<le> t'" and "nonneg rows" and "total t rows \<le> limit"
  shows "nonneg rows' \<and> total t' rows' \<le> limit"
  using change_nonneg [OF assms(1,3)] change_now [OF assms(1,3)] total_later [OF assms(2,3)] assms(4)
  by auto

end

end
