(* ===== verification/Capacity_Models.thy ===== *)
theory Capacity_Models
  imports Prelude "HOL-Library.Product_Lexorder" "HOL-Library.List_Lexorder"
    "HOL-Library.Option_ord" "HOL-Library.Char_ord"
begin

text \<open>
  The provider-neutral capacity contracts of \<open>aeep/capacity/models.py\<close>: windows,
  observations, reservations, authorization evidence, entitlements and redemption receipts,
  each a record with the validator its class runs on construction, and the subscription
  quota of \<open>aeep/models.py\<close> that an observation is reduced to. Decimals and the
  \<open>confidence\<close> floats are rationals: this file only compares them, takes minima and adds
  or subtracts stored decimals.
\<close>

section \<open>Enumerations\<close>

datatype CapacityTransferability =
    Xfer_SELF_ONLY | Xfer_SAME_PRINCIPAL | Xfer_PROVIDER_AUTHORIZED | Xfer_TRANSFERABLE

datatype CapacitySettlementMode =
    Settle_NONE | Settle_SUBSCRIPTION_USAGE | Settle_X402_BATCH | Settle_X402_EXACT

datatype CapacityReservationStatus =
    Cap_RESERVED | Cap_CLAIMED | Cap_RELEASED | Cap_EXPIRED | Cap_CONSUMED

datatype EntitlementRedemptionStatus = Redeem_PARTIAL | Redeem_CONSUMED

datatype QuotaState =
    Quota_ABUNDANT | Quota_NORMAL | Quota_TIGHT | Quota_CRITICAL | Quota_EXHAUSTED
  | Quota_UNKNOWN

datatype QuotaSource =
    Src_USER | Src_HOST | Src_OFFICIAL_CLI | Src_RATE_LIMIT | Src_HEURISTIC | Src_OBSERVED

text \<open>\<open>QuotaState.pressure\<close>; \<open>None\<close> is the positive infinity of an exhausted quota.\<close>

fun quota_pressure :: "QuotaState \<Rightarrow> rat option" where
  "quota_pressure Quota_ABUNDANT = Some (1/10)"
| "quota_pressure Quota_NORMAL = Some (1/2)"
| "quota_pressure Quota_TIGHT = Some 2"
| "quota_pressure Quota_CRITICAL = Some 8"
| "quota_pressure Quota_EXHAUSTED = None"
| "quota_pressure Quota_UNKNOWN = Some 1"

section \<open>Evidence and windows\<close>

record CapacitySignature =
  cs_algorithm :: string
  cs_key_id :: string
  cs_value :: string

definition validate_signature :: "CapacitySignature \<Rightarrow> unit result" where
  "validate_signature s = first_error
     [(\<not> text_len 1 50 (cs_algorithm s), ValueError ''algorithm''),
      (\<not> text_len 1 200 (cs_key_id s), ValueError ''key_id''),
      (\<not> text_len 1 2048 (cs_value s), ValueError ''value'')]"

record CapacityEvidence =
  ce_evidence_id :: string
  ce_source :: string
  ce_source_digest :: string
  ce_observed_at :: datetime
  ce_confidence :: rat

definition validate_evidence :: "CapacityEvidence \<Rightarrow> unit result" where
  "validate_evidence e = first_error
     [(\<not> text_len 1 100 (ce_source e), ValueError ''source''),
      (\<not> sha256_digest (ce_source_digest e), ValueError ''source_digest''),
      (\<not> (0 \<le> ce_confidence e \<and> ce_confidence e \<le> 1), ValueError ''confidence''),
      (\<not> aware (ce_observed_at e),
       ValueError ''capacity evidence time must be timezone-aware'')]"

record CapacityWindow =
  cw_window_id :: string
  cw_unit :: string
  cw_used_percent :: "rat option"
  cw_allowance :: "rat option"
  cw_remaining :: "rat option"
  cw_reset_at :: "datetime option"
  cw_duration_seconds :: "int option"
  cw_hard_limit :: bool
  cw_exhausted :: bool
  cw_confidence :: rat
  cw_evidence :: "CapacityEvidence list"

text \<open>\<open>remaining > allowance\<close> when both are reported.\<close>

definition exceeds :: "rat option \<Rightarrow> rat option \<Rightarrow> bool" where
  "exceeds r a = (case (r, a) of (Some x, Some y) \<Rightarrow> x > y | _ \<Rightarrow> False)"

lemma exceeds_simps [simp]:
  "exceeds None a = False" "exceeds r None = False" "exceeds (Some x) (Some y) = (x > y)"
  by (simp_all add: exceeds_def split: option.splits)

definition window_fields_ok :: "CapacityWindow \<Rightarrow> bool" where
  "window_fields_ok w =
     (text_len 1 200 (cw_window_id w) \<and> text_len 1 100 (cw_unit w)
      \<and> opt_all (\<lambda>p. 0 \<le> p \<and> p \<le> 100) (cw_used_percent w)
      \<and> opt_all (\<lambda>q. 0 \<le> q) (cw_allowance w) \<and> opt_all (\<lambda>q. 0 \<le> q) (cw_remaining w)
      \<and> opt_all (\<lambda>d. 0 < d) (cw_duration_seconds w)
      \<and> 0 \<le> cw_confidence w \<and> cw_confidence w \<le> 1
      \<and> list_all (\<lambda>e. is_ok (validate_evidence e)) (cw_evidence w))"

definition validate_window :: "CapacityWindow \<Rightarrow> unit result" where
  "validate_window w = first_error
     [(\<not> window_fields_ok w, ValueError ''window field''),
      (exceeds (cw_remaining w) (cw_allowance w),
       ValueError ''capacity remaining cannot exceed allowance''),
      (\<not> opt_all aware (cw_reset_at w),
       ValueError ''capacity reset time must be timezone-aware''),
      (cw_exhausted w \<and> cw_remaining w \<notin> {None, Some 0},
       ValueError ''an exhausted window cannot report positive remaining capacity'')]"

datatype metadata_value = Meta_str string | Meta_int int | Meta_bool bool | Meta_none

record CapacityObservation =
  co_observation_id :: string
  co_resource_id :: string
  co_windows :: "CapacityWindow list"
  co_source :: string
  co_observed_at :: datetime
  co_metadata :: "(string \<times> metadata_value) list"

text \<open>\<open>str.lower\<close> on ASCII and the substring test \<open>part in text\<close>.\<close>

definition lower_char :: "char \<Rightarrow> char" where
  "lower_char c =
     (let n = (of_char c :: nat) in if 65 \<le> n \<and> n \<le> 90 then char_of (n + 32) else c)"

definition lower :: "string \<Rightarrow> string" where
  "lower s = map lower_char s"

definition starts_with :: "string \<Rightarrow> string \<Rightarrow> bool" where
  "starts_with part text = (take (length part) text = part)"

fun contains :: "string \<Rightarrow> string \<Rightarrow> bool" where
  "contains part [] = (part = [])"
| "contains part (c # cs) = (starts_with part (c # cs) \<or> contains part cs)"

definition sensitive_metadata :: "string list" where
  "sensitive_metadata =
     [''account'', ''auth'', ''cookie'', ''display_name'', ''email'', ''secret'', ''token'']"

definition metadata_leaks :: "(string \<times> metadata_value) list \<Rightarrow> bool" where
  "metadata_leaks m =
     list_ex (\<lambda>(key, _). list_ex (\<lambda>part. contains part (lower key)) sensitive_metadata) m"

definition validate_observation :: "CapacityObservation \<Rightarrow> unit result" where
  "validate_observation ob = first_error
     [(\<not> text_len 1 200 (co_resource_id ob), ValueError ''resource_id''),
      (co_windows ob = [], ValueError ''windows''),
      (\<not> list_all (\<lambda>w. is_ok (validate_window w)) (co_windows ob), ValueError ''windows''),
      (\<not> text_len 1 100 (co_source ob), ValueError ''source''),
      (\<not> aware (co_observed_at ob),
       ValueError ''capacity observation time must be timezone-aware''),
      (metadata_leaks (co_metadata ob),
       ValueError ''provider metadata contains an identity or secret field'')]"

section \<open>Subscription quota\<close>

record SubscriptionQuota =
  sq_state :: QuotaState
  sq_reset_at :: "datetime option"
  sq_observed_at :: "datetime option"
  sq_confidence :: rat
  sq_source :: QuotaSource
  sq_unit :: string
  sq_allowance_units :: "rat option"
  sq_remaining_units :: "rat option"
  sq_used_percent :: "rat option"
  sq_window_duration_seconds :: "int option"
  sq_window_count :: int
  sq_evidence_digest :: "string option"

definition quota_fields_ok :: "SubscriptionQuota \<Rightarrow> bool" where
  "quota_fields_ok q =
     (0 \<le> sq_confidence q \<and> sq_confidence q \<le> 1 \<and> text_len 1 100 (sq_unit q)
      \<and> opt_all (\<lambda>x. 0 \<le> x) (sq_allowance_units q)
      \<and> opt_all (\<lambda>x. 0 \<le> x) (sq_remaining_units q)
      \<and> opt_all (\<lambda>x. 0 \<le> x \<and> x \<le> 100) (sq_used_percent q)
      \<and> opt_all (\<lambda>x. 0 < x) (sq_window_duration_seconds q)
      \<and> 1 \<le> sq_window_count q
      \<and> opt_all sha256_digest (sq_evidence_digest q))"

definition validate_quota :: "SubscriptionQuota \<Rightarrow> unit result" where
  "validate_quota q = first_error
     [(\<not> quota_fields_ok q, ValueError ''quota field''),
      (exceeds (sq_remaining_units q) (sq_allowance_units q),
       ValueError ''remaining_units cannot exceed allowance_units''),
      (\<not> opt_all aware (sq_reset_at q) \<or> \<not> opt_all aware (sq_observed_at q),
       ValueError ''subscription quota times must be timezone-aware'')]"

text \<open>Construction of a quota: the record when the validator accepts it.\<close>

definition mk_quota :: "SubscriptionQuota \<Rightarrow> SubscriptionQuota result" where
  "mk_quota q = (case validate_quota q of Inl e \<Rightarrow> Err e | Inr _ \<Rightarrow> Ok q)"

section \<open>Reservations, evidence, entitlements, receipts\<close>

record CapacityReservation =
  cr_reservation_id :: string
  cr_resource_id :: string
  cr_execution_id :: string
  cr_maximum_quantity :: rat
  cr_unit :: string
  cr_expires_at :: datetime
  cr_status :: CapacityReservationStatus
  cr_idempotency_key :: string
  cr_claim_token :: "string option"
  cr_version :: int
  cr_created_at :: datetime
  cr_updated_at :: datetime

definition validate_reservation :: "CapacityReservation \<Rightarrow> unit result" where
  "validate_reservation r = first_error
     [(\<not> text_len 1 200 (cr_resource_id r), ValueError ''resource_id''),
      (\<not> text_len 1 200 (cr_execution_id r), ValueError ''execution_id''),
      (\<not> 0 \<le> cr_maximum_quantity r, ValueError ''maximum_quantity''),
      (\<not> text_len 1 100 (cr_unit r), ValueError ''unit''),
      (\<not> text_len 1 500 (cr_idempotency_key r), ValueError ''idempotency_key''),
      (\<not> opt_all (text_len 0 500) (cr_claim_token r), ValueError ''claim_token''),
      (\<not> 0 \<le> cr_version r, ValueError ''version''),
      (\<not> aware (cr_expires_at r) \<or> \<not> aware (cr_created_at r) \<or> \<not> aware (cr_updated_at r),
       ValueError ''capacity reservation times must be timezone-aware''),
      (cr_status r = Cap_CLAIMED \<and> \<not> truthy (cr_claim_token r),
       ValueError ''claimed capacity requires a claim token'')]"

record CapacityAuthorizationEvidence =
  ca_evidence_id :: string
  ca_provider_id :: string
  ca_resource_id :: string
  ca_resource_fingerprint :: string
  ca_issuer_principal_digest :: string
  ca_authorized_beneficiary_digest :: "string option"
  ca_transferability :: CapacityTransferability
  ca_issued_at :: datetime
  ca_expires_at :: datetime
  ca_signature :: CapacitySignature

definition validate_authorization :: "CapacityAuthorizationEvidence \<Rightarrow> unit result" where
  "validate_authorization a = first_error
     [(\<not> text_len 1 200 (ca_provider_id a), ValueError ''provider_id''),
      (\<not> text_len 1 200 (ca_resource_id a), ValueError ''resource_id''),
      (\<not> sha256_digest (ca_resource_fingerprint a), ValueError ''resource_fingerprint''),
      (\<not> sha256_digest (ca_issuer_principal_digest a), ValueError ''issuer_principal_digest''),
      (\<not> opt_all sha256_digest (ca_authorized_beneficiary_digest a),
       ValueError ''authorized_beneficiary_digest''),
      (ca_transferability a \<notin> {Xfer_PROVIDER_AUTHORIZED, Xfer_TRANSFERABLE},
       ValueError ''transferability''),
      (\<not> is_ok (validate_signature (ca_signature a)), ValueError ''signature''),
      (\<not> aware (ca_issued_at a) \<or> \<not> aware (ca_expires_at a),
       ValueError ''authorization evidence times must be timezone-aware''),
      (ca_expires_at a \<le> ca_issued_at a,
       ValueError ''authorization evidence must expire after issuance'')]"

record ExecutionEntitlement =
  ee_entitlement_id :: string
  ee_issuer_principal_digest :: string
  ee_beneficiary_principal_digest :: string
  ee_backing_resource_id :: string
  ee_backing_resource_fingerprint :: string
  ee_capability :: string
  ee_action_digest :: string
  ee_maximum_quantity :: rat
  ee_unit :: string
  ee_expires_at :: datetime
  ee_nonce :: string
  ee_transferability_basis :: CapacityTransferability
  ee_authorization_evidence_id :: "string option"
  ee_signature :: CapacitySignature
  ee_issued_at :: datetime

definition entitlement_fields_ok :: "ExecutionEntitlement \<Rightarrow> bool" where
  "entitlement_fields_ok e =
     (sha256_digest (ee_issuer_principal_digest e)
      \<and> sha256_digest (ee_beneficiary_principal_digest e)
      \<and> text_len 1 200 (ee_backing_resource_id e)
      \<and> sha256_digest (ee_backing_resource_fingerprint e)
      \<and> text_len 1 200 (ee_capability e) \<and> sha256_digest (ee_action_digest e)
      \<and> 0 < ee_maximum_quantity e \<and> text_len 1 100 (ee_unit e)
      \<and> text_len 16 500 (ee_nonce e)
      \<and> opt_all (text_len 0 200) (ee_authorization_evidence_id e)
      \<and> is_ok (validate_signature (ee_signature e)))"

definition validate_entitlement :: "ExecutionEntitlement \<Rightarrow> unit result" where
  "validate_entitlement e = first_error
     [(\<not> entitlement_fields_ok e, ValueError ''entitlement field''),
      (\<not> aware (ee_issued_at e) \<or> \<not> aware (ee_expires_at e),
       ValueError ''entitlement times must be timezone-aware''),
      (ee_expires_at e \<le> ee_issued_at e, ValueError ''entitlement must expire after issuance''),
      (ee_transferability_basis e \<in> {Xfer_SELF_ONLY, Xfer_SAME_PRINCIPAL}
         \<and> ee_issuer_principal_digest e \<noteq> ee_beneficiary_principal_digest e,
       ValueError ''self-only capacity cannot name an external beneficiary''),
      (ee_transferability_basis e \<in> {Xfer_PROVIDER_AUTHORIZED, Xfer_TRANSFERABLE}
         \<and> \<not> truthy (ee_authorization_evidence_id e),
       ValueError ''transferable capacity requires provider authorization evidence'')]"

record EntitlementRedemptionReceipt =
  er_redemption_id :: string
  er_entitlement_id :: string
  er_attempt_id :: string
  er_quantity_consumed :: rat
  er_remaining_quantity :: rat
  er_status :: EntitlementRedemptionStatus
  er_evidence_digest :: string
  er_timestamp :: datetime

definition validate_redemption :: "EntitlementRedemptionReceipt \<Rightarrow> unit result" where
  "validate_redemption r = first_error
     [(\<not> text_len 1 200 (er_entitlement_id r), ValueError ''entitlement_id''),
      (\<not> text_len 1 200 (er_attempt_id r), ValueError ''attempt_id''),
      (\<not> 0 < er_quantity_consumed r, ValueError ''quantity_consumed''),
      (\<not> 0 \<le> er_remaining_quantity r, ValueError ''remaining_quantity''),
      (\<not> sha256_digest (er_evidence_digest r), ValueError ''evidence_digest''),
      (\<not> aware (er_timestamp r), ValueError ''redemption time must be timezone-aware'')]"

end
