(* ===== verification/Attempt_Models.thy ===== *)
theory Attempt_Models
  imports Prelude
begin

text \<open>
  \<open>aeep/attempts.py\<close>: the durable execution attempt, its transition table and its
  validator, and the side-effect ranking of \<open>aeep/models.py\<close> they use. The locale
  \<open>lifecycle\<close> states what every table of states of the program promises; it is
  interpreted here on the attempt table.
\<close>

section \<open>Side effects\<close>

datatype SideEffect = SE_NONE | SE_READ | SE_WRITE | SE_DESTRUCTIVE | SE_FINANCIAL

fun side_effect_rank :: "SideEffect \<Rightarrow> nat" where
  "side_effect_rank SE_NONE = 0"
| "side_effect_rank SE_READ = 1"
| "side_effect_rank SE_WRITE = 2"
| "side_effect_rank SE_DESTRUCTIVE = 3"
| "side_effect_rank SE_FINANCIAL = 4"

instantiation SideEffect :: linorder
begin

definition less_eq_SideEffect :: "SideEffect \<Rightarrow> SideEffect \<Rightarrow> bool" where
  "less_eq_SideEffect a b = (side_effect_rank a \<le> side_effect_rank b)"

definition less_SideEffect :: "SideEffect \<Rightarrow> SideEffect \<Rightarrow> bool" where
  "less_SideEffect a b = (side_effect_rank a < side_effect_rank b)"

lemma side_effect_rank_inj: "side_effect_rank a = side_effect_rank b \<Longrightarrow> a = b"
  by (cases a; cases b) simp_all

instance
  by standard
    (auto simp: less_eq_SideEffect_def less_SideEffect_def intro: side_effect_rank_inj)

end

section \<open>Lifecycles\<close>

text \<open>
  A lifecycle is a successor table with final states. A path is a sequence of states each
  of which the table allows after the one before.
\<close>

locale lifecycle =
  fixes successors :: "'s \<Rightarrow> 's list"
    and final :: "'s \<Rightarrow> bool"
  assumes final_stuck: "final s \<longleftrightarrow> successors s = []"
    and no_self_loop: "s \<notin> set (successors s)"
begin

fun path :: "'s \<Rightarrow> 's list \<Rightarrow> bool" where
  "path s [] = True"
| "path s (t # ts) = (t \<in> set (successors s) \<and> path t ts)"

lemma path_from_final: "final s \<Longrightarrow> path s ts \<Longrightarrow> ts = []"
  by (cases ts) (auto simp: final_stuck)

lemma not_final_progress: "\<not> final s \<Longrightarrow> \<exists>t. path s [t]"
  by (cases "successors s") (auto simp: final_stuck)

lemma path_append: "path s (ts @ us) \<longleftrightarrow> path s ts \<and> path (last (s # ts)) us"
  by (induction ts arbitrary: s) auto

lemma final_only_last: "path s ts \<Longrightarrow> t \<in> set (butlast (s # ts)) \<Longrightarrow> \<not> final t"
  by (induction ts arbitrary: s) (auto simp: final_stuck split: if_splits)

end

section \<open>Attempt states\<close>

datatype ExecutionAttemptState =
    Att_CREATED | Att_CLAIMED | Att_RESERVED | Att_INVOKING | Att_VALIDATING | Att_SETTLING
  | Att_COMPLETED | Att_FAILED | Att_REJECTED | Att_CANCELLED | Att_INDETERMINATE
  | Att_DISPUTED

text \<open>The table \<open>_TRANSITIONS\<close>.\<close>

fun attempt_transitions :: "ExecutionAttemptState \<Rightarrow> ExecutionAttemptState list" where
  "attempt_transitions Att_CREATED = [Att_CLAIMED, Att_CANCELLED, Att_REJECTED, Att_FAILED]"
| "attempt_transitions Att_CLAIMED = [Att_RESERVED, Att_CANCELLED, Att_FAILED]"
| "attempt_transitions Att_RESERVED =
     [Att_INVOKING, Att_CANCELLED, Att_FAILED, Att_INDETERMINATE]"
| "attempt_transitions Att_INVOKING =
     [Att_VALIDATING, Att_FAILED, Att_INDETERMINATE, Att_DISPUTED]"
| "attempt_transitions Att_VALIDATING =
     [Att_SETTLING, Att_FAILED, Att_REJECTED, Att_INDETERMINATE]"
| "attempt_transitions Att_SETTLING =
     [Att_COMPLETED, Att_FAILED, Att_REJECTED, Att_INDETERMINATE, Att_DISPUTED]"
| "attempt_transitions Att_INDETERMINATE = [Att_SETTLING, Att_DISPUTED]"
| "attempt_transitions Att_DISPUTED = [Att_SETTLING]"
| "attempt_transitions Att_COMPLETED = []"
| "attempt_transitions Att_FAILED = []"
| "attempt_transitions Att_REJECTED = []"
| "attempt_transitions Att_CANCELLED = []"

definition terminal_attempt :: "ExecutionAttemptState \<Rightarrow> bool" where
  "terminal_attempt s = (s \<in> {Att_COMPLETED, Att_FAILED, Att_REJECTED, Att_CANCELLED})"

interpretation attempt_life: lifecycle attempt_transitions terminal_attempt
proof
  fix s
  show "terminal_attempt s \<longleftrightarrow> attempt_transitions s = []"
    by (cases s) (simp_all add: terminal_attempt_def)
  show "s \<notin> set (attempt_transitions s)"
    by (cases s) simp_all
qed

section \<open>The attempt record\<close>

record ExecutionAttempt =
  ea_task_scope_digest :: "string option"
  ea_attempt_id :: string
  ea_decision_id :: string
  ea_prepared_id :: "string option"
  ea_action_digest :: string
  ea_executor_id :: string
  ea_executor_fingerprint :: string
  ea_side_effect :: SideEffect
  ea_idempotent :: bool
  ea_owner_id :: "string option"
  ea_lease_expires_at :: "datetime option"
  ea_heartbeat_at :: "datetime option"
  ea_version :: int
  ea_state :: ExecutionAttemptState
  ea_external_attempt_digest :: "string option"
  ea_external_thread_digest :: "string option"
  ea_external_turn_digest :: "string option"
  ea_cash_reservation_ids :: "string list"
  ea_capacity_reservation_ids :: "string list"
  ea_invocation_start_digest :: "string option"
  ea_retry_eligible :: bool
  ea_recovery_reason :: "string option"
  ea_terminal_receipt_ids :: "string list"
  ea_created_at :: datetime
  ea_updated_at :: datetime

definition attempt_fields_ok :: "ExecutionAttempt \<Rightarrow> bool" where
  "attempt_fields_ok a =
     (opt_all hex64 (ea_task_scope_digest a) \<and> text_len 1 200 (ea_attempt_id a)
      \<and> text_len 1 200 (ea_decision_id a) \<and> opt_all (text_len 0 200) (ea_prepared_id a)
      \<and> plain_or_tagged_digest (ea_action_digest a) \<and> text_len 1 200 (ea_executor_id a)
      \<and> plain_or_tagged_digest (ea_executor_fingerprint a)
      \<and> opt_all (text_len 0 200) (ea_owner_id a) \<and> 0 \<le> ea_version a
      \<and> opt_all sha256_digest (ea_external_attempt_digest a)
      \<and> opt_all sha256_digest (ea_external_thread_digest a)
      \<and> opt_all sha256_digest (ea_external_turn_digest a)
      \<and> opt_all sha256_digest (ea_invocation_start_digest a)
      \<and> opt_all (text_len 0 2000) (ea_recovery_reason a))"

text \<open>\<open>ExecutionAttempt.valid_attempt\<close>, after the field constraints.\<close>

definition validate_attempt :: "ExecutionAttempt \<Rightarrow> unit result" where
  "validate_attempt a = first_error
     [(\<not> attempt_fields_ok a, ValueError ''execution attempt field''),
      (\<not> aware (ea_created_at a) \<or> \<not> aware (ea_updated_at a)
         \<or> \<not> opt_all aware (ea_lease_expires_at a) \<or> \<not> opt_all aware (ea_heartbeat_at a),
       ValueError ''execution-attempt times must be timezone-aware''),
      (ea_updated_at a < ea_created_at a,
       ValueError ''execution attempt cannot be updated before creation''),
      (ea_state a \<noteq> Att_CREATED \<and> ea_owner_id a = None,
       ValueError ''claimed execution attempts require an owner''),
      (ea_state a = Att_INVOKING \<and> ea_invocation_start_digest a = None,
       ValueError ''INVOKING requires durable invocation-start evidence''),
      (ea_retry_eligible a
         \<and> (\<not> ea_idempotent a \<or> side_effect_rank (ea_side_effect a) > side_effect_rank SE_READ),
       ValueError ''only idempotent read-or-safer attempts may be retry eligible''),
      (\<not> distinct (ea_cash_reservation_ids a), ValueError ''cash reservation IDs must be unique''),
      (\<not> distinct (ea_capacity_reservation_ids a),
       ValueError ''capacity reservation IDs must be unique'')]"

definition can_transition_to :: "ExecutionAttempt \<Rightarrow> ExecutionAttemptState \<Rightarrow> bool" where
  "can_transition_to a s = (s \<in> set (attempt_transitions (ea_state a)))"

text \<open>Construction from a dictionary: the attempt when the validator accepts it.\<close>

definition mk_attempt :: "ExecutionAttempt \<Rightarrow> ExecutionAttempt result" where
  "mk_attempt a = (case validate_attempt a of Inl e \<Rightarrow> Err e | Inr _ \<Rightarrow> Ok a)"

lemma mk_attempt_ok: "mk_attempt a = Inr b \<longleftrightarrow> b = a \<and> validate_attempt a = Inr ()"
  by (auto simp: mk_attempt_def split: sum.splits)

text \<open>
  \<open>TaskScope\<close>: the operator's finite delegation that scoped attempts are checked
  against. Whether the project root is an absolute canonical path is a question to the
  filesystem, so that test is an argument of the validator.
\<close>

record TaskScope =
  ts_scope_id :: string
  ts_project_root :: string
  ts_executor_fingerprints :: "(string \<times> string) list"
  ts_approval_ceiling :: SideEffect
  ts_max_attempts :: nat
  ts_max_attempt_seconds :: rat
  ts_expires_at :: datetime

definition validate_task_scope :: "(string \<Rightarrow> bool) \<Rightarrow> TaskScope \<Rightarrow> unit result" where
  "validate_task_scope canonical_path t = first_error
     [(\<not> text_len 1 200 (ts_scope_id t), ValueError ''scope_id''),
      (\<not> (1 \<le> length (ts_executor_fingerprints t) \<and> length (ts_executor_fingerprints t) \<le> 32),
       ValueError ''executor_fingerprints''),
      (\<not> (1 \<le> ts_max_attempts t \<and> ts_max_attempts t \<le> 1000), ValueError ''max_attempts''),
      (\<not> (0 < ts_max_attempt_seconds t \<and> ts_max_attempt_seconds t \<le> 3600),
       ValueError ''max_attempt_seconds''),
      (\<not> aware (ts_expires_at t), ValueError ''task scope expiry must be timezone-aware''),
      (\<not> canonical_path (ts_project_root t),
       ValueError ''task scope project must be an absolute canonical path''),
      (side_effect_rank (ts_approval_ceiling t) > side_effect_rank SE_WRITE,
       ValueError ''task scope v1 does not delegate consequential external or financial operations''),
      (\<not> list_all (\<lambda>(_, v). sha256_digest v) (ts_executor_fingerprints t),
       ValueError ''task scope requires exact executor fingerprints'')]"

end
