(* ===== verification/Economic_Models.thy ===== *)
theory Economic_Models
  imports Attempt_Models
begin

text \<open>
  The canonical economic records of \<open>aeep/models.py\<close>: currency amounts, metered pricing
  rules and their evaluation, quotes, payment reservations, settlement and refund receipts,
  with the validators their classes run. Decimals are rationals: every amount is a finite
  decimal, and sums and differences of stored amounts are exact within the 28 digits of
  Python's default context.
\<close>

section \<open>Amounts\<close>

definition upper_letter :: "char \<Rightarrow> bool" where
  "upper_letter c = (c \<in> set ''ABCDEFGHIJKLMNOPQRSTUVWXYZ'')"

definition lower_letter :: "char \<Rightarrow> bool" where
  "lower_letter c = (c \<in> set ''abcdefghijklmnopqrstuvwxyz'')"

definition decimal_digit :: "char \<Rightarrow> bool" where
  "decimal_digit c = (c \<in> set ''0123456789'')"

text \<open>\<open>_IDENTIFIER_PATTERN\<close> with a length range.\<close>

definition identifier_char :: "char \<Rightarrow> bool" where
  "identifier_char c =
     (upper_letter c \<or> lower_letter c \<or> decimal_digit c \<or> c \<in> set ''_.:-'')"

definition ident :: "nat \<Rightarrow> nat \<Rightarrow> string \<Rightarrow> bool" where
  "ident lo hi s = (text_len lo hi s \<and> s \<noteq> [] \<and> list_all identifier_char s)"

definition currency_code :: "string \<Rightarrow> bool" where
  "currency_code s = (length s = 3 \<and> list_all upper_letter s)"

definition upper_char :: "char \<Rightarrow> char" where
  "upper_char c =
     (let n = (of_char c :: nat) in if 97 \<le> n \<and> n \<le> 122 then char_of (n - 32) else c)"

text \<open>\<open>CurrencyAmount.normalize_currency\<close> on a string.\<close>

definition normalize_currency :: "string \<Rightarrow> string result" where
  "normalize_currency s =
     (if length s = 3 \<and> list_all (\<lambda>c. upper_letter c \<or> lower_letter c) s
      then Ok (map upper_char s) else Err (ValueError ''currency must be a three-letter code''))"

record CurrencyAmount =
  amount :: rat
  currency :: string

definition valid_amount :: "CurrencyAmount \<Rightarrow> bool" where
  "valid_amount a = (0 \<le> amount a \<and> currency_code (currency a))"

definition mk_amount :: "rat \<Rightarrow> string \<Rightarrow> CurrencyAmount result" where
  "mk_amount q c =
     (if q < 0 then Err (ValueError ''economic decimals cannot be negative'')
      else case normalize_currency c of Inl e \<Rightarrow> Err e
           | Inr code \<Rightarrow> Ok \<lparr>amount = q, currency = code\<rparr>)"

definition require_currency :: "CurrencyAmount \<Rightarrow> string \<Rightarrow> unit result" where
  "require_currency a c =
     (if currency a \<noteq> c then Err (ValueError ''currency mismatch'') else Ok ())"

definition zero_amount :: "string \<Rightarrow> CurrencyAmount" where
  "zero_amount c = \<lparr>amount = 0, currency = c\<rparr>"

lemma zero_amount_simps [simp]: "amount (zero_amount c) = 0" "currency (zero_amount c) = c"
  by (simp_all add: zero_amount_def)

text \<open>One optional amount above another, when both are present.\<close>

definition exceeds_amount :: "CurrencyAmount option \<Rightarrow> CurrencyAmount option \<Rightarrow> bool" where
  "exceeds_amount x y = (case (x, y) of (Some a, Some b) \<Rightarrow> amount a > amount b | _ \<Rightarrow> False)"

lemma exceeds_amount_simps [simp]:
  "\<not> exceeds_amount None y" "\<not> exceeds_amount x None"
  "exceeds_amount (Some a) (Some b) = (amount a > amount b)"
  by (simp_all add: exceeds_amount_def split: option.splits)

section \<open>Pricing rules\<close>

datatype PricingRoundingMode =
    Round_UP | Round_DOWN | Round_CEILING | Round_FLOOR | Round_HALF_UP | Round_HALF_EVEN

text \<open>\<open>Decimal.to_integral_value\<close> under the modes of \<open>PricingRoundingMode\<close>.\<close>

fun to_integral :: "PricingRoundingMode \<Rightarrow> rat \<Rightarrow> int" where
  "to_integral Round_UP q = (if q < 0 then \<lfloor>q\<rfloor> else \<lceil>q\<rceil>)"
| "to_integral Round_DOWN q = (if q < 0 then \<lceil>q\<rceil> else \<lfloor>q\<rfloor>)"
| "to_integral Round_CEILING q = \<lceil>q\<rceil>"
| "to_integral Round_FLOOR q = \<lfloor>q\<rfloor>"
| "to_integral Round_HALF_UP q = (if q < 0 then \<lceil>q - 1/2\<rceil> else \<lfloor>q + 1/2\<rfloor>)"
| "to_integral Round_HALF_EVEN q =
     (let f = \<lfloor>q\<rfloor>; d = q - of_int f in
      if d < 1/2 then f else if d > 1/2 then f + 1 else if even f then f else f + 1)"

record PricingRule =
  pr_rule_id :: string
  pr_meter :: "string option"
  pr_unit :: "string option"
  pr_fixed_amount :: "CurrencyAmount option"
  pr_per_unit_amount :: "CurrencyAmount option"
  pr_free_quantity :: "rat option"
  pr_minimum_amount :: "CurrencyAmount option"
  pr_maximum_amount :: "CurrencyAmount option"
  pr_rounding_mode :: PricingRoundingMode
  pr_quantity_increment :: "rat option"

definition rule_amounts :: "PricingRule \<Rightarrow> CurrencyAmount list" where
  "rule_amounts p = List.map_filter id
     [pr_fixed_amount p, pr_per_unit_amount p, pr_minimum_amount p, pr_maximum_amount p]"

text \<open>\<open>PricingRule.valid_rule\<close>, after the constraints of the amount and quantity fields.\<close>

definition validate_rule :: "PricingRule \<Rightarrow> unit result" where
  "validate_rule p = first_error
     [(\<not> (ident 1 200 (pr_rule_id p) \<and> list_all valid_amount (rule_amounts p)
          \<and> opt_all (\<lambda>q. 0 \<le> q) (pr_free_quantity p)
          \<and> opt_all (\<lambda>q. 0 < q) (pr_quantity_increment p)), ValueError ''pricing rule field''),
      (pr_fixed_amount p = None \<and> pr_per_unit_amount p = None,
       ValueError ''pricing rule requires a fixed or per-unit amount''),
      ((pr_per_unit_amount p \<noteq> None) \<noteq> (pr_meter p \<noteq> None \<and> pr_unit p \<noteq> None),
       ValueError ''per-unit pricing requires both meter and unit''),
      (pr_per_unit_amount p = None
         \<and> (pr_free_quantity p \<noteq> None \<or> pr_quantity_increment p \<noteq> None),
       ValueError ''free quantity and quantity increment require per-unit pricing''),
      (card (set (map currency (rule_amounts p))) \<noteq> 1,
       ValueError ''all pricing-rule amounts must use one currency''),
      (exceeds_amount (pr_minimum_amount p) (pr_maximum_amount p),
       ValueError ''minimum amount cannot exceed maximum amount'')]"

definition rule_currency :: "PricingRule \<Rightarrow> string result" where
  "rule_currency p = (case pr_fixed_amount p of
     Some a \<Rightarrow> Ok (currency a)
   | None \<Rightarrow> (case pr_per_unit_amount p of
       Some a \<Rightarrow> Ok (currency a)
     | None \<Rightarrow> Err (AssertionError ''validated pricing rule has no amount'')))"

text \<open>
  \<open>PricingRule.evaluate\<close>: the quantity billed after the free allowance and the rounding to
  increments, the total before the bounds, and the bounded amount.
\<close>

definition billable_quantity :: "PricingRule \<Rightarrow> rat \<Rightarrow> rat" where
  "billable_quantity p measured =
     (let billable = max 0 (measured - (case pr_free_quantity p of Some f \<Rightarrow> f | None \<Rightarrow> 0)) in
      case pr_quantity_increment p of
        None \<Rightarrow> billable
      | Some inc \<Rightarrow> of_int (to_integral (pr_rounding_mode p) (billable / inc)) * inc)"

definition unbounded_total :: "PricingRule \<Rightarrow> rat \<Rightarrow> rat" where
  "unbounded_total p measured =
     (case pr_fixed_amount p of Some a \<Rightarrow> amount a | None \<Rightarrow> 0)
     + (case pr_per_unit_amount p of
          Some a \<Rightarrow> billable_quantity p measured * amount a | None \<Rightarrow> 0)"

definition bounded_total :: "PricingRule \<Rightarrow> rat \<Rightarrow> rat" where
  "bounded_total p tot =
     (let low = (case pr_minimum_amount p of Some a \<Rightarrow> max tot (amount a) | None \<Rightarrow> tot) in
      case pr_maximum_amount p of Some a \<Rightarrow> min low (amount a) | None \<Rightarrow> low)"

definition evaluate_rule :: "PricingRule \<Rightarrow> rat \<Rightarrow> CurrencyAmount result" where
  "evaluate_rule p quantity =
     (if quantity < 0 then Err (ValueError ''economic decimals cannot be negative'')
      else case rule_currency p of
        Inl e \<Rightarrow> Err e
      | Inr code \<Rightarrow> mk_amount (bounded_total p (unbounded_total p quantity)) code)"

section \<open>Enumerations\<close>

datatype EconomicEvidenceLevel =
    Ev_UNKNOWN | Ev_STATIC_PRIOR | Ev_PUBLISHED_OFFER | Ev_SIGNED_QUOTE
  | Ev_SIGNED_USAGE_STATEMENT | Ev_PAYMENT_SETTLEMENT | Ev_BILLING_RECONCILED
  | Ev_OPERATOR_ATTESTED

fun evidence_rank :: "EconomicEvidenceLevel \<Rightarrow> nat" where
  "evidence_rank Ev_UNKNOWN = 0"
| "evidence_rank Ev_STATIC_PRIOR = 10"
| "evidence_rank Ev_PUBLISHED_OFFER = 20"
| "evidence_rank Ev_SIGNED_QUOTE = 30"
| "evidence_rank Ev_SIGNED_USAGE_STATEMENT = 40"
| "evidence_rank Ev_OPERATOR_ATTESTED = 45"
| "evidence_rank Ev_PAYMENT_SETTLEMENT = 50"
| "evidence_rank Ev_BILLING_RECONCILED = 60"

definition is_payment_evidence :: "EconomicEvidenceLevel \<Rightarrow> bool" where
  "is_payment_evidence l = (l \<in> {Ev_PAYMENT_SETTLEMENT, Ev_BILLING_RECONCILED})"

datatype AuthorizationKind = Auth_SIGNED_QUOTE | Auth_PUBLISHED_OFFER | Auth_PINNED_RATE_CARD

datatype BillingTrigger =
    Bill_ON_SUCCESS | Bill_ON_ATTEMPT | Bill_ON_ACCEPTED_RESULT | Bill_ON_PROVIDER_START
  | Bill_MANUAL_RECONCILIATION

datatype FailureChargePolicy =
    Fail_NO_CHARGE | Fail_CHARGE_ACTUAL_USAGE | Fail_CHARGE_FIXED_ATTEMPT_FEE
  | Fail_CHARGE_MAXIMUM | Fail_MANUAL_RECONCILIATION

datatype RetryChargePolicy =
    Retry_EACH_ATTEMPT | Retry_FIRST_ATTEMPT_ONLY | Retry_SUCCESSFUL_ATTEMPT_ONLY
  | Retry_MANUAL_RECONCILIATION

datatype ProviderExecutionStatus =
    Prov_SUCCESS | Prov_FAILED | Prov_TIMEOUT | Prov_REJECTED | Prov_INDETERMINATE

datatype PaymentReservationState =
    Pay_RESERVED | Pay_SETTLING | Pay_SETTLED | Pay_RELEASED | Pay_INDETERMINATE | Pay_DISPUTED

datatype SettlementStatus =
    Set_PENDING | Set_COMPLETED | Set_SETTLED | Set_RELEASED | Set_INDETERMINATE
  | Set_DISPUTED | Set_REFUNDED | Set_FAILED

datatype PreparedDecisionState =
    Prep_PREPARED | Prep_RESERVED | Prep_INVOKING | Prep_AWAITING_USAGE | Prep_SETTLING
  | Prep_SETTLED | Prep_RELEASED | Prep_INDETERMINATE | Prep_DISPUTED | Prep_EXPIRED
  | Prep_CANCELLED

text \<open>The table \<open>_PREPARED_TRANSITIONS\<close>.\<close>

fun prepared_transitions :: "PreparedDecisionState \<Rightarrow> PreparedDecisionState list" where
  "prepared_transitions Prep_PREPARED = [Prep_RESERVED, Prep_INVOKING, Prep_EXPIRED, Prep_CANCELLED]"
| "prepared_transitions Prep_RESERVED =
     [Prep_INVOKING, Prep_RELEASED, Prep_CANCELLED, Prep_INDETERMINATE]"
| "prepared_transitions Prep_INVOKING =
     [Prep_AWAITING_USAGE, Prep_SETTLING, Prep_INDETERMINATE, Prep_DISPUTED]"
| "prepared_transitions Prep_AWAITING_USAGE = [Prep_SETTLING, Prep_INDETERMINATE, Prep_DISPUTED]"
| "prepared_transitions Prep_SETTLING = [Prep_SETTLED, Prep_INDETERMINATE, Prep_DISPUTED]"
| "prepared_transitions Prep_INDETERMINATE = [Prep_SETTLING, Prep_SETTLED, Prep_DISPUTED]"
| "prepared_transitions Prep_DISPUTED = [Prep_SETTLED]"
| "prepared_transitions Prep_SETTLED = []"
| "prepared_transitions Prep_RELEASED = []"
| "prepared_transitions Prep_EXPIRED = []"
| "prepared_transitions Prep_CANCELLED = []"

definition terminal_prepared :: "PreparedDecisionState \<Rightarrow> bool" where
  "terminal_prepared s = (s \<in> {Prep_SETTLED, Prep_RELEASED, Prep_EXPIRED, Prep_CANCELLED})"

interpretation prepared_life: lifecycle prepared_transitions terminal_prepared
proof
  fix s
  show "terminal_prepared s \<longleftrightarrow> prepared_transitions s = []"
    by (cases s) (simp_all add: terminal_prepared_def)
  show "s \<notin> set (prepared_transitions s)"
    by (cases s) simp_all
qed

section \<open>Records\<close>

record SignatureEnvelopeV2 =
  sv_ed25519 :: bool
  sv_key_id :: string
  sv_value :: string
  sv_rfc8785 :: bool

definition base64url_char :: "char \<Rightarrow> bool" where
  "base64url_char c = (upper_letter c \<or> lower_letter c \<or> decimal_digit c \<or> c \<in> set ''_-'')"

definition valid_signature_v2 :: "SignatureEnvelopeV2 \<Rightarrow> bool" where
  "valid_signature_v2 s =
     (ident 1 200 (sv_key_id s) \<and> text_len 1 4096 (sv_value s)
      \<and> list_all base64url_char (sv_value s))"

text \<open>The pattern of meters and units, and \<open>namespace_custom_meter\<close>.\<close>

definition lower_token :: "nat \<Rightarrow> bool \<Rightarrow> string \<Rightarrow> bool" where
  "lower_token hi digit_first s =
     (text_len 1 hi s
      \<and> (case s of [] \<Rightarrow> False | c # _ \<Rightarrow> lower_letter c \<or> (digit_first \<and> decimal_digit c))
      \<and> list_all (\<lambda>c. lower_letter c \<or> decimal_digit c \<or> c \<in> set ''_.-'') s)"

record MeterQuantity =
  mq_meter :: string
  mq_unit :: string
  mq_quantity :: rat

definition valid_meter :: "string set \<Rightarrow> MeterQuantity \<Rightarrow> bool" where
  "valid_meter standard m =
     (lower_token 200 True (mq_meter m) \<and> lower_token 100 False (mq_unit m)
      \<and> 0 \<le> mq_quantity m
      \<and> (mq_meter m \<in> standard \<or> CHR ''.'' \<in> set (mq_meter m)))"

definition unique_meters :: "MeterQuantity list \<Rightarrow> bool" where
  "unique_meters ms = distinct (map (\<lambda>m. (mq_meter m, mq_unit m)) ms)"

record BoundedQuote =
  bq_quote_id :: string
  bq_quote_request_id :: string
  bq_offer_id :: "string option"
  bq_provider_id :: string
  bq_capability :: string
  bq_executor_id :: string
  bq_executor_fingerprint :: string
  bq_action_digest :: string
  bq_nonce :: string
  bq_expected_amount :: "CurrencyAmount option"
  bq_maximum_amount :: CurrencyAmount
  bq_estimated_meters :: "MeterQuantity list"
  bq_billing_trigger :: BillingTrigger
  bq_failure_charge_policy :: FailureChargePolicy
  bq_retry_charge_policy :: RetryChargePolicy
  bq_fixed_attempt_fee :: "CurrencyAmount option"
  bq_terms_digest :: string
  bq_issued_at :: datetime
  bq_expires_at :: datetime
  bq_signature :: SignatureEnvelopeV2

definition differ_currency :: "CurrencyAmount option \<Rightarrow> CurrencyAmount \<Rightarrow> bool" where
  "differ_currency x y = (case x of None \<Rightarrow> False | Some a \<Rightarrow> currency a \<noteq> currency y)"

lemma differ_currency_simps [simp]:
  "\<not> differ_currency None y" "differ_currency (Some a) y = (currency a \<noteq> currency y)"
  by (simp_all add: differ_currency_def)

text \<open>
  \<open>BoundedQuote\<close>: the constraints of its fields, then \<open>valid_quote\<close>. The capability
  pattern and the set of standard meters are arguments.
\<close>

definition quote_fields_ok ::
  "(string \<Rightarrow> bool) \<Rightarrow> string set \<Rightarrow> BoundedQuote \<Rightarrow> bool"
where
  "quote_fields_ok capability_ok standard q =
     (ident 1 200 (bq_quote_id q) \<and> ident 1 200 (bq_quote_request_id q)
      \<and> opt_all (ident 0 200) (bq_offer_id q) \<and> ident 1 200 (bq_provider_id q)
      \<and> text_len 3 200 (bq_capability q) \<and> capability_ok (bq_capability q)
      \<and> ident 1 200 (bq_executor_id q) \<and> sha256_digest (bq_executor_fingerprint q)
      \<and> sha256_digest (bq_action_digest q) \<and> text_len 8 256 (bq_nonce q)
      \<and> list_all base64url_char (bq_nonce q)
      \<and> opt_all valid_amount (bq_expected_amount q) \<and> valid_amount (bq_maximum_amount q)
      \<and> list_all (valid_meter standard) (bq_estimated_meters q)
      \<and> unique_meters (bq_estimated_meters q)
      \<and> opt_all valid_amount (bq_fixed_attempt_fee q) \<and> sha256_digest (bq_terms_digest q)
      \<and> aware (bq_issued_at q) \<and> aware (bq_expires_at q)
      \<and> valid_signature_v2 (bq_signature q))"

definition valid_quote :: "BoundedQuote \<Rightarrow> unit result" where
  "valid_quote q = first_error
     [(bq_expires_at q \<le> bq_issued_at q, ValueError ''quote must expire after it is issued''),
      (differ_currency (bq_expected_amount q) (bq_maximum_amount q),
       ValueError ''expected and maximum quote currencies must match''),
      (exceeds_amount (bq_expected_amount q) (Some (bq_maximum_amount q)),
       ValueError ''expected amount cannot exceed maximum amount''),
      ((bq_failure_charge_policy q = Fail_CHARGE_FIXED_ATTEMPT_FEE)
         \<noteq> (bq_fixed_attempt_fee q \<noteq> None),
       ValueError ''fixed attempt fee is required only for CHARGE_FIXED_ATTEMPT_FEE''),
      (differ_currency (bq_fixed_attempt_fee q) (bq_maximum_amount q),
       ValueError ''fixed attempt fee currency must match quote currency''),
      (exceeds_amount (bq_fixed_attempt_fee q) (Some (bq_maximum_amount q)),
       ValueError ''fixed attempt fee cannot exceed maximum amount'')]"

record PaymentReservationV2 =
  pv_reservation_id :: string
  pv_charge_id :: string
  pv_prepared_id :: string
  pv_quote_id :: "string option"
  pv_authorization_kind :: "AuthorizationKind option"
  pv_authorization_id :: "string option"
  pv_action_id :: string
  pv_attempt_id :: string
  pv_maximum_amount :: CurrencyAmount
  pv_adapter :: string
  pv_idempotency_key :: string
  pv_state :: PaymentReservationState
  pv_created_at :: datetime
  pv_updated_at :: datetime
  pv_indeterminate_reason :: "string option"

definition payment_fields_ok :: "PaymentReservationV2 \<Rightarrow> bool" where
  "payment_fields_ok r =
     (ident 1 200 (pv_reservation_id r) \<and> ident 1 200 (pv_charge_id r)
      \<and> ident 1 200 (pv_prepared_id r) \<and> opt_all (ident 1 200) (pv_quote_id r)
      \<and> opt_all (ident 1 200) (pv_authorization_id r) \<and> ident 1 200 (pv_action_id r)
      \<and> ident 1 200 (pv_attempt_id r) \<and> valid_amount (pv_maximum_amount r)
      \<and> ident 1 100 (pv_adapter r) \<and> text_len 1 256 (pv_idempotency_key r)
      \<and> aware (pv_created_at r) \<and> aware (pv_updated_at r)
      \<and> opt_all (text_len 0 2000) (pv_indeterminate_reason r))"

text \<open>The authorization basis shared by reservations and settlement receipts.\<close>

definition authorization_errors ::
  "AuthorizationKind option \<Rightarrow> string option \<Rightarrow> string option \<Rightarrow> (bool \<times> error) list"
where
  "authorization_errors kind authorization_id quote_id =
     [(kind = None \<or> authorization_id = None,
       ValueError ''requires an immutable authorization basis''),
      (kind = Some Auth_SIGNED_QUOTE \<and> quote_id \<noteq> authorization_id,
       ValueError ''signed-quote record must match quote ID''),
      (kind \<noteq> Some Auth_SIGNED_QUOTE \<and> quote_id \<noteq> None,
       ValueError ''offer and rate-card records cannot carry a quote ID'')]"

definition validate_payment :: "PaymentReservationV2 \<Rightarrow> unit result" where
  "validate_payment r = first_error
     ([(\<not> payment_fields_ok r, ValueError ''payment reservation field''),
       (pv_updated_at r < pv_created_at r,
        ValueError ''reservation updated_at cannot precede created_at''),
       (pv_state r = Pay_INDETERMINATE \<and> \<not> truthy (pv_indeterminate_reason r),
        ValueError ''indeterminate reservation requires a reason''),
       (pv_state r \<noteq> Pay_INDETERMINATE \<and> truthy (pv_indeterminate_reason r),
        ValueError ''only an indeterminate reservation may carry an indeterminate reason'')]
      @ authorization_errors (pv_authorization_kind r) (pv_authorization_id r) (pv_quote_id r))"

record SettlementEvidence =
  se_charge_id :: string
  se_evidence_level :: EconomicEvidenceLevel
  se_usage_statement_id :: "string option"
  se_evidence_digest :: "string option"
  se_external_reference :: "string option"
  se_provider_calculated_amount :: "CurrencyAmount option"

record SettlementReceipt =
  sr_settlement_id :: string
  sr_charge_id :: string
  sr_prepared_id :: string
  sr_quote_id :: "string option"
  sr_authorization_kind :: "AuthorizationKind option"
  sr_authorization_id :: "string option"
  sr_reservation_id :: string
  sr_attempt_id :: string
  sr_reserved_amount :: CurrencyAmount
  sr_captured_amount :: CurrencyAmount
  sr_released_amount :: CurrencyAmount
  sr_payment_rail :: string
  sr_external_reference :: "string option"
  sr_status :: SettlementStatus
  sr_evidence_level :: EconomicEvidenceLevel
  sr_settled_at :: datetime
  sr_signature :: "SignatureEnvelopeV2 option"

definition settlement_fields_ok :: "SettlementReceipt \<Rightarrow> bool" where
  "settlement_fields_ok s =
     (ident 1 200 (sr_settlement_id s) \<and> ident 1 200 (sr_charge_id s)
      \<and> ident 1 200 (sr_prepared_id s) \<and> opt_all (ident 1 200) (sr_quote_id s)
      \<and> opt_all (ident 1 200) (sr_authorization_id s) \<and> ident 1 200 (sr_reservation_id s)
      \<and> ident 1 200 (sr_attempt_id s) \<and> valid_amount (sr_reserved_amount s)
      \<and> valid_amount (sr_captured_amount s) \<and> valid_amount (sr_released_amount s)
      \<and> ident 1 100 (sr_payment_rail s) \<and> opt_all (text_len 0 500) (sr_external_reference s)
      \<and> aware (sr_settled_at s) \<and> opt_all valid_signature_v2 (sr_signature s))"

definition final_settlement :: "SettlementStatus \<Rightarrow> bool" where
  "final_settlement st = (st \<in> {Set_COMPLETED, Set_SETTLED, Set_RELEASED})"

definition validate_settlement :: "SettlementReceipt \<Rightarrow> unit result" where
  "validate_settlement s =
     (let reserved = amount (sr_reserved_amount s); captured = amount (sr_captured_amount s);
          accounted = captured + amount (sr_released_amount s) in
      first_error
       ([(\<not> settlement_fields_ok s, ValueError ''settlement receipt field''),
         (card {currency (sr_reserved_amount s), currency (sr_captured_amount s),
                currency (sr_released_amount s)} \<noteq> 1,
          ValueError ''settlement amounts must use one currency''),
         (captured > reserved, ValueError ''captured amount cannot exceed reserved amount''),
         (accounted > reserved,
          ValueError ''captured plus released cannot exceed reserved amount''),
         (final_settlement (sr_status s) \<and> accounted \<noteq> reserved,
          ValueError ''completed settlement must account for the full reservation''),
         (final_settlement (sr_status s) \<and> \<not> is_payment_evidence (sr_evidence_level s),
          ValueError ''completed settlement requires payment-settlement evidence'')]
        @ authorization_errors (sr_authorization_kind s) (sr_authorization_id s) (sr_quote_id s)))"

record RefundReceiptV2 =
  rr_refund_id :: string
  rr_settlement_id :: string
  rr_charge_id :: string
  rr_amount :: CurrencyAmount
  rr_reason :: string
  rr_idempotency_key :: string
  rr_refunded_at :: datetime
  rr_external_reference :: "string option"
  rr_signature :: "SignatureEnvelopeV2 option"

definition validate_refund :: "RefundReceiptV2 \<Rightarrow> unit result" where
  "validate_refund r = first_error
     [(\<not> (ident 1 200 (rr_refund_id r) \<and> ident 1 200 (rr_settlement_id r)
          \<and> ident 1 200 (rr_charge_id r) \<and> valid_amount (rr_amount r)
          \<and> text_len 1 2000 (rr_reason r) \<and> text_len 1 256 (rr_idempotency_key r)
          \<and> aware (rr_refunded_at r) \<and> opt_all (text_len 0 500) (rr_external_reference r)
          \<and> opt_all valid_signature_v2 (rr_signature r)),
       ValueError ''refund receipt field'')]"

text \<open>
  \<open>_migrate_quote_authorization\<close>: a legacy quote-bound record without an explicit basis gets
  its quote as the basis, before the fields are validated.
\<close>

definition migrate_quote_authorization ::
  "AuthorizationKind option \<Rightarrow> string option \<Rightarrow> string option
     \<Rightarrow> AuthorizationKind option \<times> string option"
where
  "migrate_quote_authorization kind authorization_id quote_id =
     (if kind \<noteq> None \<or> authorization_id \<noteq> None then (kind, authorization_id)
      else case quote_id of
        None \<Rightarrow> (kind, authorization_id)
      | Some q \<Rightarrow> (Some Auth_SIGNED_QUOTE, Some q))"

definition mk_payment :: "PaymentReservationV2 \<Rightarrow> PaymentReservationV2 result" where
  "mk_payment r =
     (let (kind, aid) = migrate_quote_authorization (pv_authorization_kind r)
        (pv_authorization_id r) (pv_quote_id r);
          r' = r\<lparr>pv_authorization_kind := kind, pv_authorization_id := aid\<rparr>
      in case validate_payment r' of Inl e \<Rightarrow> Err e | Inr _ \<Rightarrow> Ok r')"

definition mk_settlement :: "SettlementReceipt \<Rightarrow> SettlementReceipt result" where
  "mk_settlement s =
     (let (kind, aid) = migrate_quote_authorization (sr_authorization_kind s)
        (sr_authorization_id s) (sr_quote_id s);
          s' = s\<lparr>sr_authorization_kind := kind, sr_authorization_id := aid\<rparr>
      in case validate_settlement s' of Inl e \<Rightarrow> Err e | Inr _ \<Rightarrow> Ok s')"

definition mk_refund :: "RefundReceiptV2 \<Rightarrow> RefundReceiptV2 result" where
  "mk_refund r = (case validate_refund r of Inl e \<Rightarrow> Err e | Inr _ \<Rightarrow> Ok r)"

text \<open>On a record that already has a basis, construction is validation.\<close>

lemma migrate_explicit [simp]: "migrate_quote_authorization (Some k) aid q = (Some k, aid)"
  by (simp add: migrate_quote_authorization_def)

lemma mk_payment_ok:
  assumes "pv_authorization_kind r = Some k"
  shows "mk_payment r = Inr r' \<longleftrightarrow> r' = r \<and> validate_payment r = Inr ()"
  using assms by (cases r) (auto simp: mk_payment_def Let_def split: sum.splits)

lemma mk_settlement_ok:
  assumes "sr_authorization_kind s = Some k"
  shows "mk_settlement s = Inr s' \<longleftrightarrow> s' = s \<and> validate_settlement s = Inr ()"
  using assms by (cases s) (auto simp: mk_settlement_def Let_def split: sum.splits)

end
