(* ===== verification/Authorization_Basis.thy ===== *)
theory Authorization_Basis
  imports Economic_Models
begin

text \<open>
  What may authorize a cash payment besides a signed quote: published offers and rate cards
  pinned by the operator (\<open>aeep/models.py\<close>), and the two functions of \<open>aeep/store.py\<close> that
  recompute the authorized maximum from them before money is reserved or an action is
  invoked. The digest of a snapshot's content is an argument.
\<close>

section \<open>Names of capabilities and meters\<close>

definition standard_meters :: "string set" where
  "standard_meters = {''browser_minutes'', ''bytes'', ''compute_seconds'', ''input_tokens'',
     ''output_tokens'', ''pages'', ''records'', ''requests'', ''seconds''}"

fun split_char :: "char \<Rightarrow> string \<Rightarrow> string list" where
  "split_char sep [] = [[]]"
| "split_char sep (c # cs) =
     (if c = sep then [] # split_char sep cs
      else case split_char sep cs of [] \<Rightarrow> [[c]] | part # parts \<Rightarrow> (c # part) # parts)"

text \<open>The pattern of a capability: a name, an at sign, and one to three version numbers.\<close>

definition versioned_capability :: "string \<Rightarrow> bool" where
  "versioned_capability s =
     (let name = takeWhile (\<lambda>c. c \<noteq> CHR ''@'') s; rest = dropWhile (\<lambda>c. c \<noteq> CHR ''@'') s;
          parts = split_char (CHR ''.'') (tl rest) in
      lower_token (length s) True name \<and> rest \<noteq> []
      \<and> length parts \<le> 3 \<and> list_all (\<lambda>p. p \<noteq> [] \<and> list_all decimal_digit p) parts)"

record AuthorizationMeterQuantity = MeterQuantity +
  aq_rate_id :: string

definition valid_authorization_meter :: "AuthorizationMeterQuantity \<Rightarrow> bool" where
  "valid_authorization_meter q =
     (valid_meter standard_meters (MeterQuantity.truncate q) \<and> ident 1 200 (aq_rate_id q))"

section \<open>Offers\<close>

record CapabilityOffer =
  co_offer_id :: string
  co_provider_id :: string
  co_capability :: string
  co_executor_id :: string
  co_executor_fingerprint :: string
  co_pricing_rules :: "PricingRule list"
  co_billing_trigger :: BillingTrigger
  co_failure_charge_policy :: FailureChargePolicy
  co_retry_charge_policy :: RetryChargePolicy
  co_fixed_attempt_fee :: "CurrencyAmount option"
  co_region :: "string option"
  co_account_tier :: "string option"
  co_settlement_currency :: string
  co_valid_from :: datetime
  co_valid_until :: datetime
  co_terms_digest :: string
  co_issued_at :: datetime
  co_signature :: SignatureEnvelopeV2

definition offer_fields_ok :: "CapabilityOffer \<Rightarrow> bool" where
  "offer_fields_ok f =
     (ident 1 200 (co_offer_id f) \<and> ident 1 200 (co_provider_id f)
      \<and> text_len 3 200 (co_capability f) \<and> versioned_capability (co_capability f)
      \<and> ident 1 200 (co_executor_id f) \<and> sha256_digest (co_executor_fingerprint f)
      \<and> co_pricing_rules f \<noteq> [] \<and> list_all (\<lambda>r. is_ok (validate_rule r)) (co_pricing_rules f)
      \<and> opt_all valid_amount (co_fixed_attempt_fee f) \<and> opt_all (text_len 0 100) (co_region f)
      \<and> opt_all (text_len 0 100) (co_account_tier f) \<and> currency_code (co_settlement_currency f)
      \<and> aware (co_valid_from f) \<and> aware (co_valid_until f) \<and> sha256_digest (co_terms_digest f)
      \<and> aware (co_issued_at f) \<and> valid_signature_v2 (co_signature f))"

definition valid_offer :: "CapabilityOffer \<Rightarrow> unit result" where
  "valid_offer f = first_error
     [(\<not> offer_fields_ok f, ValueError ''capability offer field''),
      (co_valid_until f \<le> co_valid_from f,
       ValueError ''offer valid_until must be later than valid_from''),
      (co_valid_until f < co_issued_at f, ValueError ''offer cannot be issued after it expires''),
      (\<not> distinct (map pr_rule_id (co_pricing_rules f)), ValueError ''duplicate pricing rule ID''),
      (list_ex (\<lambda>r. rule_currency r \<noteq> Inr (co_settlement_currency f)) (co_pricing_rules f),
       ValueError ''pricing-rule currency must match settlement currency''),
      ((co_failure_charge_policy f = Fail_CHARGE_FIXED_ATTEMPT_FEE) \<noteq> (co_fixed_attempt_fee f \<noteq> None),
       ValueError ''fixed attempt fee is required only for CHARGE_FIXED_ATTEMPT_FEE''),
      (case co_fixed_attempt_fee f of None \<Rightarrow> False | Some a \<Rightarrow> currency a \<noteq> co_settlement_currency f,
       ValueError ''fixed attempt fee currency must match settlement currency'')]"

definition offer_valid_at :: "CapabilityOffer \<Rightarrow> datetime \<Rightarrow> bool result" where
  "offer_valid_at f moment =
     (if \<not> aware moment then Err (ValueError ''economic timestamps must be timezone-aware'')
      else Ok (co_valid_from f \<le> moment \<and> moment < co_valid_until f))"

text \<open>Values of JSON primitives among the features disclosed with a quote request.\<close>

datatype json_primitive = JSON_text string | JSON_int int | JSON_bool bool | JSON_null

text \<open>
  \<open>_offer_authorized_maximum\<close>: the rules are evaluated one after the other on what was
  disclosed; a metered rule without a disclosed integer counts its maximum.
\<close>

definition offer_rule_amount ::
  "(string \<rightharpoonup> json_primitive) \<Rightarrow> PricingRule \<Rightarrow> CurrencyAmount result"
where
  "offer_rule_amount disclosed r =
     (if pr_per_unit_amount r = None then evaluate_rule r 0
      else case disclosed (case pr_meter r of None \<Rightarrow> [] | Some m \<Rightarrow> m) of
        Some (JSON_int n) \<Rightarrow> evaluate_rule r (of_int n)
      | _ \<Rightarrow> (case pr_maximum_amount r of
               None \<Rightarrow> Err (ConfigurationError ''offer rule has no bounded disclosed quantity'')
             | Some a \<Rightarrow> Ok a))"

fun offer_rules_total ::
  "(string \<rightharpoonup> json_primitive) \<Rightarrow> string \<Rightarrow> PricingRule list \<Rightarrow> rat \<Rightarrow> rat result"
where
  "offer_rules_total disclosed cur [] acc = Ok acc"
| "offer_rules_total disclosed cur (r # rs) acc =
     (case offer_rule_amount disclosed r of
        Inl e \<Rightarrow> Err e
      | Inr a \<Rightarrow>
          if currency a \<noteq> cur
          then Err (ConfigurationError ''offer pricing-rule currency is inconsistent'')
          else offer_rules_total disclosed cur rs (acc + amount a))"

definition offer_authorized_maximum ::
  "CapabilityOffer \<Rightarrow> (string \<rightharpoonup> json_primitive) \<Rightarrow> CurrencyAmount result"
where
  "offer_authorized_maximum f disclosed =
     (case offer_rules_total disclosed (co_settlement_currency f) (co_pricing_rules f) 0 of
        Inl e \<Rightarrow> Err e
      | Inr subtotal \<Rightarrow>
          (case co_fixed_attempt_fee f of
             None \<Rightarrow> mk_amount subtotal (co_settlement_currency f)
           | Some fee \<Rightarrow>
               if currency fee \<noteq> co_settlement_currency f
               then Err (ConfigurationError ''offer attempt-fee currency is inconsistent'')
               else mk_amount (max subtotal (amount fee)) (co_settlement_currency f)))"

section \<open>Rate cards\<close>

datatype RateType =
    Rate_INPUT_TOKEN | Rate_CACHED_INPUT_TOKEN | Rate_OUTPUT_TOKEN | Rate_CACHE_WRITE_TOKEN
  | Rate_TOOL_CALL | Rate_SUBSCRIPTION_UNIT | Rate_OTHER

record RateCardRate =
  rc_rate_id :: string
  rc_rate_type :: RateType
  rc_meter :: string
  rc_input_unit :: string
  rc_output_unit :: string
  rc_unit_quantity :: rat
  rc_rate_amount :: rat
  rc_service_tier :: "string option"
  rc_region :: "string option"
  rc_tool_name :: "string option"
  rc_long_context_min :: "int option"
  rc_long_context_max :: "int option"
  rc_multiplier :: "rat option"
  rc_rule :: "string option"

definition validate_rate :: "RateCardRate \<Rightarrow> unit result" where
  "validate_rate r = first_error
     [(\<not> (text_len 1 200 (rc_rate_id r) \<and> text_len 1 200 (rc_meter r)
          \<and> text_len 1 100 (rc_input_unit r) \<and> text_len 1 100 (rc_output_unit r)
          \<and> 0 < rc_unit_quantity r \<and> 0 \<le> rc_rate_amount r
          \<and> opt_all (text_len 0 100) (rc_service_tier r) \<and> opt_all (text_len 0 100) (rc_region r)
          \<and> opt_all (text_len 0 200) (rc_tool_name r) \<and> opt_all (\<lambda>n. 0 \<le> n) (rc_long_context_min r)
          \<and> opt_all (\<lambda>n. 0 \<le> n) (rc_long_context_max r) \<and> opt_all (\<lambda>q. 0 < q) (rc_multiplier r)
          \<and> opt_all (text_len 0 1000) (rc_rule r)), ValueError ''rate card rate field''),
      (case (rc_long_context_min r, rc_long_context_max r) of (Some a, Some b) \<Rightarrow> b < a | _ \<Rightarrow> False,
       ValueError ''long_context_max must be >= long_context_min'')]"

record RateCardSnapshot =
  rs_snapshot_id :: "string option"
  rs_provider :: string
  rs_product :: string
  rs_model :: string
  rs_effective_from :: datetime
  rs_effective_until :: "datetime option"
  rs_retrieved_at :: datetime
  rs_source_uri :: string
  rs_source_published_at :: "datetime option"
  rs_source_content_sha256 :: string
  rs_currency :: "string option"
  rs_rates :: "RateCardRate list"

text \<open>The key under which rates are grouped, and the key that must not repeat.\<close>

definition rate_group ::
  "RateCardRate \<Rightarrow> RateType \<times> string \<times> string option \<times> string option \<times> string option"
where
  "rate_group r = (rc_rate_type r, rc_meter r, rc_service_tier r, rc_region r, rc_tool_name r)"

definition rate_semantic_key :: "RateCardRate \<Rightarrow> _" where
  "rate_semantic_key r = (rate_group r, rc_long_context_min r, rc_long_context_max r)"

definition bounded_rate :: "RateCardRate \<Rightarrow> bool" where
  "bounded_rate r = (rc_long_context_min r \<noteq> None \<or> rc_long_context_max r \<noteq> None)"

definition context_min :: "RateCardRate \<Rightarrow> int" where
  "context_min r = (case rc_long_context_min r of None \<Rightarrow> 0 | Some n \<Rightarrow> n)"

text \<open>\<open>max(left_min, right_min) <= min(left_max, right_max)\<close>, where a missing maximum is infinite.\<close>

definition below_maximum :: "int \<Rightarrow> RateCardRate \<Rightarrow> bool" where
  "below_maximum n r = (case rc_long_context_max r of None \<Rightarrow> True | Some m \<Rightarrow> n \<le> m)"

definition ranges_overlap :: "RateCardRate \<Rightarrow> RateCardRate \<Rightarrow> bool" where
  "ranges_overlap l r =
     (let low = max (context_min l) (context_min r) in below_maximum low l \<and> below_maximum low r)"

fun pairwise_overlap :: "RateCardRate list \<Rightarrow> bool" where
  "pairwise_overlap [] = False"
| "pairwise_overlap (l # rs) = (list_ex (ranges_overlap l) rs \<or> pairwise_overlap rs)"

definition monetary_rates :: "RateCardSnapshot \<Rightarrow> RateCardRate list" where
  "monetary_rates s = filter (\<lambda>r. rc_rate_type r \<noteq> Rate_SUBSCRIPTION_UNIT) (rs_rates s)"

text \<open>\<open>validate_snapshot\<close> checks the content and then sets the id derived from it.\<close>

definition validate_snapshot :: "(RateCardSnapshot \<Rightarrow> string) \<Rightarrow> RateCardSnapshot \<Rightarrow> RateCardSnapshot result" where
  "validate_snapshot content_id s =
     (let rates = rs_rates s; expected = content_id (s\<lparr>rs_snapshot_id := None\<rparr>) in
      case first_error
        [(\<not> (text_len 1 100 (rs_provider s) \<and> text_len 1 200 (rs_product s) \<and> text_len 1 200 (rs_model s)
             \<and> text_len 1 2000 (rs_source_uri s) \<and> opt_all currency_code (rs_currency s)
             \<and> rates \<noteq> [] \<and> list_all (\<lambda>r. is_ok (validate_rate r)) rates), ValueError ''rate card field''),
         (case rs_effective_until s of None \<Rightarrow> False | Some u \<Rightarrow> u \<le> rs_effective_from s,
          ValueError ''effective_until must be after effective_from''),
         (\<not> distinct (map rc_rate_id rates), ValueError ''duplicate rate_id''),
         (\<not> distinct (map rate_semantic_key rates), ValueError ''ambiguous duplicate rate''),
         (monetary_rates s \<noteq> [] \<and> \<not> truthy (rs_currency s),
          ValueError ''monetary rate cards require currency''),
         (truthy (rs_currency s)
            \<and> list_ex (\<lambda>r. rc_output_unit r \<noteq> the (rs_currency s)) (monetary_rates s),
          ValueError ''monetary rate output_unit must match snapshot currency''),
         (list_ex (\<lambda>g. pairwise_overlap (filter (\<lambda>r. rate_group r = rate_group g \<and> bounded_rate r) rates)) rates,
          ValueError ''ambiguous overlapping long-context rates''),
         (rs_snapshot_id s \<noteq> None \<and> rs_snapshot_id s \<noteq> Some expected,
          ValueError ''snapshot_id does not match canonical content'')] of
        Inl e \<Rightarrow> Err e
      | Inr _ \<Rightarrow> Ok (s\<lparr>rs_snapshot_id := Some expected\<rparr>))"

section \<open>Authorized maxima of rate cards\<close>

text \<open>\<open>{rate.rate_id: rate for rate in snapshot.rates}\<close>: the last rate of an id counts.\<close>

definition rate_of :: "RateCardSnapshot \<Rightarrow> string \<Rightarrow> RateCardRate option" where
  "rate_of s i = select_row (\<lambda>r. rc_rate_id r = i) (rev (rs_rates s))"

definition conditional_rate :: "RateCardRate \<Rightarrow> bool" where
  "conditional_rate r =
     (rc_service_tier r \<noteq> None \<or> rc_region r \<noteq> None \<or> rc_tool_name r \<noteq> None
      \<or> rc_long_context_min r \<noteq> None \<or> rc_long_context_max r \<noteq> None \<or> rc_rule r \<noteq> None)"

definition rate_charge :: "RateCardRate \<Rightarrow> rat \<Rightarrow> rat" where
  "rate_charge r q = q / rc_unit_quantity r * rc_rate_amount r
     * (case rc_multiplier r of None \<Rightarrow> 1 | Some m \<Rightarrow> if m = 0 then 1 else m)"

text \<open>
  \<open>_rate_card_authorized_maximum\<close> and \<open>PinnedRateCardAuthorizationConfig.authorized_maximum\<close>
  run the same loop with exceptions of a different class.
\<close>

fun rate_card_total ::
  "(string \<Rightarrow> error) \<Rightarrow> RateCardSnapshot \<Rightarrow> AuthorizationMeterQuantity list \<Rightarrow> rat \<Rightarrow> rat result"
where
  "rate_card_total exn s [] acc = Ok acc"
| "rate_card_total exn s (q # qs) acc =
     (case rate_of s (aq_rate_id q) of
        None \<Rightarrow> Err (exn ''authorization names an unknown rate'')
      | Some r \<Rightarrow>
          if rc_rate_type r = Rate_SUBSCRIPTION_UNIT
          then Err (exn ''subscription units cannot authorize cash'')
          else if conditional_rate r then Err (exn ''conditional pinned rates cannot authorize cash'')
          else if rc_meter r \<noteq> mq_meter q \<or> rc_input_unit r \<noteq> mq_unit q
          then Err (exn ''authorization quantity does not match pinned rate'')
          else rate_card_total exn s qs (acc + rate_charge r (mq_quantity q)))"

definition rate_card_authorized_maximum ::
  "RateCardSnapshot \<Rightarrow> AuthorizationMeterQuantity list \<Rightarrow> CurrencyAmount result"
where
  "rate_card_authorized_maximum s qs =
     (case rs_currency s of
        None \<Rightarrow> Err (ConfigurationError ''subscription-only rate card cannot authorize cash'')
      | Some cur \<Rightarrow>
          (case rate_card_total ConfigurationError s qs 0 of
             Inl e \<Rightarrow> Err e | Inr q \<Rightarrow> mk_amount q cur))"

record PinnedRateCardAuthorizationConfig =
  pc_rate_card_snapshot_id :: string
  pc_meter_quantities :: "AuthorizationMeterQuantity list"

definition validate_pinned :: "PinnedRateCardAuthorizationConfig \<Rightarrow> unit result" where
  "validate_pinned c = first_error
     [(\<not> (take 5 (pc_rate_card_snapshot_id c) = ''rate_'' \<and> hex64 (drop 5 (pc_rate_card_snapshot_id c))
          \<and> pc_meter_quantities c \<noteq> [] \<and> list_all valid_authorization_meter (pc_meter_quantities c)),
       ValueError ''pinned rate-card field''),
      (\<not> distinct (map aq_rate_id (pc_meter_quantities c)),
       ValueError ''pinned rate-card quantities require unique rate IDs'')]"

definition authorized_maximum ::
  "PinnedRateCardAuthorizationConfig \<Rightarrow> RateCardSnapshot \<Rightarrow> datetime \<Rightarrow> CurrencyAmount result"
where
  "authorized_maximum c s moment =
     (if rs_snapshot_id s \<noteq> Some (pc_rate_card_snapshot_id c)
      then Err (ValueError ''pinned rate-card snapshot does not match operator configuration'')
      else case rs_currency s of
        None \<Rightarrow> Err (ValueError ''subscription-only rate card cannot authorize cash'')
      | Some cur \<Rightarrow>
          if \<not> aware moment \<or> \<not> aware (rs_effective_from s) \<or> \<not> opt_all aware (rs_effective_until s)
          then Err (ValueError ''economic timestamps must be timezone-aware'')
          else if moment < rs_effective_from s \<or> \<not> opt_all (\<lambda>u. moment < u) (rs_effective_until s)
          then Err (ValueError ''pinned rate-card snapshot is not currently effective'')
          else case rate_card_total ValueError s (pc_meter_quantities c) 0 of
            Inl e \<Rightarrow> Err e
          | Inr q \<Rightarrow> mk_amount q cur)"

section \<open>A pinned maximum covers what it was pinned for\<close>

lemma rate_card_total_class:
  "rate_card_total exn s qs acc = Inr q \<longleftrightarrow> rate_card_total exn' s qs acc = Inr q"
  by (induction qs arbitrary: acc) (auto split: option.split)

definition within_quantity :: "AuthorizationMeterQuantity \<Rightarrow> AuthorizationMeterQuantity \<Rightarrow> bool" where
  "within_quantity u q =
     (aq_rate_id u = aq_rate_id q \<and> mq_meter u = mq_meter q \<and> mq_unit u = mq_unit q
      \<and> 0 \<le> mq_quantity u \<and> mq_quantity u \<le> mq_quantity q)"

definition sound_rates :: "RateCardSnapshot \<Rightarrow> bool" where
  "sound_rates s = list_all (\<lambda>r. is_ok (validate_rate r)) (rs_rates s)"

lemma validated_sound: "validate_snapshot cid s0 = Inr s \<Longrightarrow> sound_rates s"
  by (auto simp: validate_snapshot_def sound_rates_def Let_def split: sum.splits if_splits)

lemma rate_charge_mono:
  assumes "is_ok (validate_rate r)" and "0 \<le> u" and "u \<le> q"
  shows "0 \<le> rate_charge r u \<and> rate_charge r u \<le> rate_charge r q"
proof -
  have pos: "0 < rc_unit_quantity r" "0 \<le> rc_rate_amount r" "opt_all (\<lambda>m. 0 < m) (rc_multiplier r)"
    using assms(1) by (auto simp: validate_rate_def split: if_splits)
  define m where "m = (case rc_multiplier r of None \<Rightarrow> 1 | Some m \<Rightarrow> if m = 0 then 1 else m)"
  have m: "0 \<le> m" using pos(3) by (auto simp: m_def split: option.split)
  show ?thesis
    using assms(2,3) pos(1,2) m
    by (simp add: rate_charge_def m_def [symmetric] mult_right_mono divide_right_mono)
qed

lemma rate_of_sound: "sound_rates s \<Longrightarrow> rate_of s i = Some r \<Longrightarrow> is_ok (validate_rate r)"
  using select_row_SomeD [of _ "rev (rs_rates s)" r]
  by (auto simp: rate_of_def sound_rates_def list_all_iff)

lemma rate_card_total_within:
  assumes "sound_rates s" and "list_all2 within_quantity us qs"
    and "rate_card_total exn s qs acc = Inr q" and "acc' \<le> acc"
  shows "\<exists>q'. rate_card_total exn s us acc' = Inr q' \<and> q' \<le> q \<and> acc' \<le> q'"
  using assms(2-4)
proof (induction us qs arbitrary: acc acc' rule: list_all2_induct)
  case (Cons u us x qs)
  then obtain r where r: "rate_of s (aq_rate_id x) = Some r" "rc_rate_type r \<noteq> Rate_SUBSCRIPTION_UNIT"
      "\<not> conditional_rate r" "rc_meter r = mq_meter x" "rc_input_unit r = mq_unit x"
      "rate_card_total exn s qs (acc + rate_charge r (mq_quantity x)) = Inr q"
    by (auto split: option.splits if_splits)
  have w: "within_quantity u x" by (rule Cons.hyps)
  have mono: "0 \<le> rate_charge r (mq_quantity u)"
      "rate_charge r (mq_quantity u) \<le> rate_charge r (mq_quantity x)"
    using rate_charge_mono [OF rate_of_sound [OF assms(1) r(1)], of "mq_quantity u" "mq_quantity x"] w
    by (auto simp: within_quantity_def)
  obtain q' where q': "rate_card_total exn s us (acc' + rate_charge r (mq_quantity u)) = Inr q'"
      "q' \<le> q" "acc' + rate_charge r (mq_quantity u) \<le> q'"
    using Cons.IH [OF r(6), of "acc' + rate_charge r (mq_quantity u)"] Cons.prems(2) mono by auto
  with r w mono(1) show ?case by (auto simp: within_quantity_def)
qed simp

text \<open>
  The amount an operator's pinned rate card authorizes is the amount the store recomputes
  before it reserves money, and it covers every use within the pinned quantities: metering
  less of each rate costs no more and is charged in the same currency.
\<close>

theorem pinned_maximum_covers:
  assumes "authorized_maximum c s moment = Inr m" and "validate_snapshot cid s0 = Inr s"
    and "list_all2 within_quantity us (pc_meter_quantities c)"
  shows "rate_card_authorized_maximum s (pc_meter_quantities c) = Inr m
    \<and> (\<exists>used. rate_card_authorized_maximum s us = Inr used \<and> currency used = currency m
         \<and> 0 \<le> amount used \<and> amount used \<le> amount m)"
proof -
  obtain cur q where cur: "rs_currency s = Some cur"
      "rate_card_total ValueError s (pc_meter_quantities c) 0 = Inr q" "mk_amount q cur = Inr m"
    using assms(1) by (auto simp: authorized_maximum_def split: option.splits sum.splits if_splits)
  then have total: "rate_card_total ConfigurationError s (pc_meter_quantities c) 0 = Inr q"
    using rate_card_total_class by blast
  obtain q' where q': "rate_card_total ConfigurationError s us 0 = Inr q'" "q' \<le> q" "0 \<le> q'"
    using rate_card_total_within [OF validated_sound [OF assms(2)] assms(3) total, of 0] by auto
  then show ?thesis
    using cur total by (auto simp: rate_card_authorized_maximum_def mk_amount_def split: sum.splits if_splits)
qed

section \<open>A rate card is unambiguous\<close>

definition rate_applies :: "int \<Rightarrow> RateCardRate \<Rightarrow> bool" where
  "rate_applies n r = (context_min r \<le> n \<and> below_maximum n r)"

lemma below_maximum_mono: "m \<le> n \<Longrightarrow> below_maximum n r \<Longrightarrow> below_maximum m r"
  by (auto simp: below_maximum_def split: option.splits)

lemma applies_overlap: "rate_applies n l \<Longrightarrow> rate_applies n r \<Longrightarrow> ranges_overlap l r"
  by (auto simp: rate_applies_def ranges_overlap_def Let_def intro: below_maximum_mono)

lemma no_overlap_unique:
  "\<not> pairwise_overlap rs \<Longrightarrow> l \<in> set rs \<Longrightarrow> r \<in> set rs \<Longrightarrow> rate_applies n l \<Longrightarrow> rate_applies n r \<Longrightarrow> l = r"
  by (induction rs) (auto simp: list_ex_iff dest: applies_overlap)

text \<open>
  A validated rate card never gives two prices for the same use: among the rates bounded
  by context length that share type, meter, tier, region and tool, at most one applies to a
  context of a given length; and rates with the same id are the same rate.
\<close>

theorem rate_card_unambiguous:
  assumes "validate_snapshot cid s0 = Inr s" and "l \<in> set (rs_rates s)" and "r \<in> set (rs_rates s)"
    and "rc_rate_id l = rc_rate_id r
      \<or> rate_group l = rate_group r \<and> bounded_rate l \<and> bounded_rate r \<and> rate_applies n l \<and> rate_applies n r"
  shows "l = r"
proof -
  have s: "rs_rates s = rs_rates s0" and ids: "distinct (map rc_rate_id (rs_rates s0))"
    and free: "\<not> list_ex (\<lambda>g. pairwise_overlap (filter (\<lambda>r. rate_group r = rate_group g \<and> bounded_rate r)
        (rs_rates s0))) (rs_rates s0)"
    using assms(1) by (auto simp: validate_snapshot_def Let_def split: sum.splits if_splits)
  from assms(4) show ?thesis
  proof
    assume "rc_rate_id l = rc_rate_id r"
    with ids assms(2,3) show ?thesis by (simp add: s distinct_map inj_on_def)
  next
    assume a: "rate_group l = rate_group r \<and> bounded_rate l \<and> bounded_rate r \<and> rate_applies n l \<and> rate_applies n r"
    have "\<not> pairwise_overlap (filter (\<lambda>x. rate_group x = rate_group r \<and> bounded_rate x) (rs_rates s0))"
      using free assms(3) by (auto simp: s list_ex_iff)
    from no_overlap_unique [OF this, of l r n] a assms(2,3) show ?thesis by (simp add: s)
  qed
qed

section \<open>A sample rate card\<close>

definition sample_rate :: "string \<Rightarrow> int option \<Rightarrow> int option \<Rightarrow> rat \<Rightarrow> RateCardRate" where
  "sample_rate i low high q =
     \<lparr>rc_rate_id = i, rc_rate_type = Rate_OUTPUT_TOKEN, rc_meter = ''output_tokens'',
      rc_input_unit = ''token'', rc_output_unit = ''USD'', rc_unit_quantity = 1000, rc_rate_amount = q,
      rc_service_tier = None, rc_region = None, rc_tool_name = None, rc_long_context_min = low,
      rc_long_context_max = high, rc_multiplier = None, rc_rule = None\<rparr>"

definition sample_card :: RateCardSnapshot where
  "sample_card =
     \<lparr>rs_snapshot_id = Some ''rate_1'', rs_provider = ''p'', rs_product = ''x'', rs_model = ''m'',
      rs_effective_from = Aware 0, rs_effective_until = None, rs_retrieved_at = Aware 0,
      rs_source_uri = ''u'', rs_source_published_at = None, rs_source_content_sha256 = [],
      rs_currency = Some ''USD'',
      rs_rates = [sample_rate ''flat'' None None 2, sample_rate ''short'' None (Some 9) 3,
                  sample_rate ''long'' (Some 10) None 4]\<rparr>"

definition sample_use :: "rat \<Rightarrow> AuthorizationMeterQuantity" where
  "sample_use q = \<lparr>mq_meter = ''output_tokens'', mq_unit = ''token'', mq_quantity = q, aq_rate_id = ''flat''\<rparr>"

lemma sample_card_valid: "validate_snapshot (\<lambda>_. ''rate_1'') sample_card = Inr sample_card"
  by (simp add: validate_snapshot_def sample_card_def sample_rate_def text_len_def currency_code_def
      upper_letter_def validate_rate_def monetary_rates_def rate_semantic_key_def rate_group_def
      bounded_rate_def ranges_overlap_def context_min_def below_maximum_def)

lemma sample_card_maximum:
  "authorized_maximum \<lparr>pc_rate_card_snapshot_id = ''rate_1'', pc_meter_quantities = [sample_use 5000]\<rparr>
     sample_card (Aware 1) = Inr \<lparr>amount = 10, currency = ''USD''\<rparr>"
  by (simp add: authorized_maximum_def sample_card_def sample_rate_def sample_use_def rate_of_def
      conditional_rate_def rate_charge_def mk_amount_def normalize_currency_def currency_code_def
      upper_char_def upper_letter_def lower_letter_def)

theorem pinned_maximum_covers_witness:
  "\<exists>used. rate_card_authorized_maximum sample_card [sample_use 1000] = Inr used \<and> amount used \<le> 10"
  using pinned_maximum_covers [OF sample_card_maximum sample_card_valid, of "[sample_use 1000]"]
  by (auto simp: within_quantity_def sample_use_def)

theorem rate_card_unambiguous_witness:
  "sample_rate ''long'' (Some 10) None 4
     = hd (filter (\<lambda>r. bounded_rate r \<and> rate_applies 12 r) (rs_rates sample_card))"
  by (rule rate_card_unambiguous [OF sample_card_valid, where n = 12])
    (simp_all add: sample_card_def sample_rate_def bounded_rate_def rate_applies_def context_min_def
      below_maximum_def rate_group_def)

end
