(* ===== verification/Cash_Accounting.thy ===== *)
theory Cash_Accounting
  imports Prelude "HOL-Library.Multiset"
begin

text \<open>
  Cash evidence in \<open>aeep/models.py\<close>: one charge may be reported by several sources of
  different strength. The accounting keeps the strongest evidence of each charge, marks
  charges whose strongest sources disagree, and names an actual cost only when every charge
  is settled by sufficient evidence.
\<close>

section \<open>Evidence\<close>

datatype TrustLevel = Trust_UNTRUSTED | Trust_SELF_ASSERTED | Trust_OBSERVED | Trust_VERIFIED | Trust_ATTESTED

datatype EvidenceStatus = Stat_COMPLETE | Stat_PARTIAL | Stat_CONFLICT | Stat_UNAVAILABLE

datatype EvidenceSource =
    Src_BILLING_RECORD | Src_LOCAL_METER | Src_PRICED_MEASURED_BILLABLE_USAGE
  | Src_CONFIRMED_NO_INCREMENTAL_CHARGE | Src_PROVIDER_REPORT | Src_PINNED_RATE_TABLE
  | Src_OPERATOR_REPORT | Src_STATIC_ESTIMATE | Src_LEGACY_UNSPECIFIED | Src_UNAVAILABLE

datatype CashClassification =
    Cash_VERIFIED | Cash_BILLING_RECONCILED | Cash_PINNED_RATE_BILLABLE_USAGE | Cash_ESTIMATED
  | Cash_UNAVAILABLE

record MeasurementEvidence =
  me_status :: EvidenceStatus
  me_source :: EvidenceSource
  me_trust :: TrustLevel
  me_evidence_id :: "string option"
  me_source_reference :: "string option"
  me_digest :: "string option"
  me_observed_at :: "datetime option"

definition validate_measurement :: "MeasurementEvidence \<Rightarrow> unit result" where
  "validate_measurement m = first_error
     [(\<not> (opt_all (text_len 0 200) (me_evidence_id m)
          \<and> opt_all (text_len 0 500) (me_source_reference m)), ValueError ''measurement evidence field''),
      (me_status m = Stat_UNAVAILABLE \<and> me_source m \<noteq> Src_UNAVAILABLE,
       ValueError ''unavailable evidence must use source=unavailable''),
      (me_status m \<noteq> Stat_UNAVAILABLE \<and> me_source m = Src_UNAVAILABLE,
       ValueError ''available evidence requires a source'')]"

definition unavailable_evidence :: MeasurementEvidence where
  "unavailable_evidence =
     \<lparr>me_status = Stat_UNAVAILABLE, me_source = Src_UNAVAILABLE, me_trust = Trust_UNTRUSTED,
      me_evidence_id = None, me_source_reference = None, me_digest = None, me_observed_at = None\<rparr>"

record CashEstimate =
  cs_amount_usd :: "rat option"
  cs_upper_bound_usd :: "rat option"
  cs_evidence :: MeasurementEvidence

definition validate_cash_estimate :: "CashEstimate \<Rightarrow> unit result" where
  "validate_cash_estimate c = first_error
     [(\<not> (opt_all (\<lambda>q. 0 \<le> q) (cs_amount_usd c) \<and> opt_all (\<lambda>q. 0 \<le> q) (cs_upper_bound_usd c)),
       ValueError ''cash estimate field''),
      (cs_amount_usd c \<noteq> None \<and> me_status (cs_evidence c) = Stat_UNAVAILABLE,
       ValueError ''a cash amount requires evidence''),
      (cs_upper_bound_usd c \<noteq> None \<and> me_status (cs_evidence c) = Stat_UNAVAILABLE,
       ValueError ''a cash upper bound requires evidence''),
      (case (cs_amount_usd c, cs_upper_bound_usd c) of (Some a, Some u) \<Rightarrow> u < a | _ \<Rightarrow> False,
       ValueError ''upper_bound_usd must be >= amount_usd'')]"

record CashEvidence =
  ce_charge_id :: string
  ce_amount :: "rat option"
  ce_currency :: string
  ce_classification :: CashClassification
  ce_evidence :: MeasurementEvidence
  ce_rate_snapshot_id :: "string option"
  ce_billing_record_id :: "string option"
  ce_usage_fingerprint :: "string option"
  ce_applied_rate_ids :: "string list"
  ce_applied_meter_quantities :: "(string \<times> rat) list"

definition iso_currency :: "string \<Rightarrow> bool" where
  "iso_currency c = (length c = 3 \<and> list_all (\<lambda>x. x \<in> set ''ABCDEFGHIJKLMNOPQRSTUVWXYZ'') c)"

definition validate_cash_evidence :: "CashEvidence \<Rightarrow> unit result" where
  "validate_cash_evidence c = first_error
     [(\<not> (text_len 1 200 (ce_charge_id c) \<and> opt_all (\<lambda>q. 0 \<le> q) (ce_amount c)
          \<and> iso_currency (ce_currency c) \<and> opt_all (text_len 0 100) (ce_rate_snapshot_id c)
          \<and> opt_all (text_len 0 200) (ce_billing_record_id c)
          \<and> opt_all (text_len 0 128) (ce_usage_fingerprint c)), ValueError ''cash evidence field''),
      ((ce_classification c = Cash_UNAVAILABLE) \<noteq> (ce_amount c = None),
       ValueError ''unavailable cash must omit amount; known cash must include amount''),
      (ce_amount c \<noteq> None \<and> me_status (ce_evidence c) = Stat_UNAVAILABLE,
       ValueError ''known cash requires evidence''),
      (ce_classification c = Cash_PINNED_RATE_BILLABLE_USAGE \<and> \<not> truthy (ce_rate_snapshot_id c),
       ValueError ''priced billable usage requires rate_snapshot_id'')]"

section \<open>The strongest evidence\<close>

text \<open>\<open>_CASH_CLASSIFICATION_STRENGTH\<close>; unavailable evidence has no entry and is never looked up.\<close>

fun cash_strength :: "CashClassification \<Rightarrow> nat" where
  "cash_strength Cash_UNAVAILABLE = 0"
| "cash_strength Cash_ESTIMATED = 1"
| "cash_strength Cash_PINNED_RATE_BILLABLE_USAGE = 2"
| "cash_strength Cash_VERIFIED = 3"
| "cash_strength Cash_BILLING_RECONCILED = 4"

definition known_cash :: "CashEvidence \<Rightarrow> bool" where
  "known_cash c = (ce_amount c \<noteq> None \<and> ce_classification c \<noteq> Cash_UNAVAILABLE)"

definition strongest_cash_evidence :: "CashEvidence list \<Rightarrow> CashEvidence list" where
  "strongest_cash_evidence cs =
     (let known = filter known_cash cs in
      if known = [] then []
      else let strongest = Max (set (map (\<lambda>c. cash_strength (ce_classification c)) known)) in
           filter (\<lambda>c. cash_strength (ce_classification c) = strongest) known)"

section \<open>Accounting\<close>

record CashAccounting =
  ca_status :: EvidenceStatus
  ca_components :: "CashEvidence list"

definition charge_choices :: "CashEvidence list \<Rightarrow> string \<Rightarrow> CashEvidence list" where
  "charge_choices cs i = strongest_cash_evidence (filter (\<lambda>c. ce_charge_id c = i) cs)"

definition claims :: "CashEvidence list \<Rightarrow> (rat option \<times> string) set" where
  "claims cs = set (map (\<lambda>c. (ce_amount c, ce_currency c)) cs)"

text \<open>Construction: \<open>detect_conflicts\<close> runs on every instance.\<close>

definition mk_cash_accounting :: "EvidenceStatus \<Rightarrow> CashEvidence list \<Rightarrow> CashAccounting result" where
  "mk_cash_accounting status cs =
     (if status = Stat_COMPLETE \<and> cs = []
      then Err (ValueError ''complete cash accounting requires at least one charge component'')
      else Ok \<lparr>ca_status = (if list_ex (\<lambda>c. card (claims (charge_choices cs (ce_charge_id c))) > 1) cs
                          then Stat_CONFLICT else status),
               ca_components = cs\<rparr>)"

text \<open>The charge ids in order of first occurrence, as \<open>dict.fromkeys\<close> lists them.\<close>

definition charge_ids :: "CashEvidence list \<Rightarrow> string list" where
  "charge_ids cs = rev (remdups (rev (map ce_charge_id cs)))"

definition resolved_components :: "CashAccounting \<Rightarrow> CashEvidence list" where
  "resolved_components a =
     map (\<lambda>i. hd (charge_choices (ca_components a) i))
       (filter (\<lambda>i. card (claims (charge_choices (ca_components a) i)) = 1)
         (charge_ids (ca_components a)))"

definition amount_or_zero :: "CashEvidence \<Rightarrow> rat" where
  "amount_or_zero c = (case ce_amount c of None \<Rightarrow> 0 | Some q \<Rightarrow> q)"

definition known_subtotal :: "CashAccounting \<Rightarrow> string \<Rightarrow> rat" where
  "known_subtotal a cur =
     sum_list (map amount_or_zero (filter (\<lambda>c. ce_currency c = cur) (resolved_components a)))"

definition eligible_cash :: "CashClassification \<Rightarrow> bool" where
  "eligible_cash k = (k \<in> {Cash_VERIFIED, Cash_BILLING_RECONCILED, Cash_PINNED_RATE_BILLABLE_USAGE})"

definition actual_cash_cost :: "CashAccounting \<Rightarrow> string \<Rightarrow> rat option" where
  "actual_cash_cost a cur =
     (if ca_status a \<noteq> Stat_COMPLETE \<or> ca_components a = [] then None
      else let resolved = resolved_components a in
        if length resolved \<noteq> card (set (map ce_charge_id (ca_components a))) then None
        else if list_ex (\<lambda>c. \<not> eligible_cash (ce_classification c) \<or> ce_currency c \<noteq> cur) resolved
        then None
        else if (resolved = [] \<or> list_all (\<lambda>c. ce_amount c = Some 0) resolved)
             \<and> (resolved = [] \<or> list_ex (\<lambda>c. ce_classification c
                   \<notin> {Cash_VERIFIED, Cash_BILLING_RECONCILED}) resolved)
        then None
        else Some (sum_list (map amount_or_zero resolved)))"

section \<open>What the strongest evidence is\<close>

text \<open>What the accounting reads from a component.\<close>

definition cash_facts :: "CashEvidence \<Rightarrow> rat option \<times> string \<times> CashClassification" where
  "cash_facts c = (ce_amount c, ce_currency c, ce_classification c)"

lemma cash_strength_inj: "cash_strength k = cash_strength l \<Longrightarrow> k = l"
  by (cases k; cases l) simp_all

lemma strongest_iff:
  "c \<in> set (strongest_cash_evidence cs) \<longleftrightarrow> c \<in> set cs \<and> known_cash c
     \<and> (\<forall>d \<in> set cs. known_cash d
          \<longrightarrow> cash_strength (ce_classification d) \<le> cash_strength (ce_classification c))"
  (is "?in \<longleftrightarrow> ?spec")
proof (cases "filter known_cash cs = []")
  case True
  then show ?thesis by (auto simp: strongest_cash_evidence_def filter_empty_conv)
next
  case False
  let ?S = "(\<lambda>c. cash_strength (ce_classification c)) ` {d \<in> set cs. known_cash d}"
  have S: "finite ?S" "?S \<noteq> {}" using False by (auto simp: filter_empty_conv)
  have "strongest_cash_evidence cs =
      filter (\<lambda>c. cash_strength (ce_classification c) = Max ?S) (filter known_cash cs)"
    using False by (simp add: strongest_cash_evidence_def Let_def)
  moreover have "cash_strength (ce_classification c) = Max ?S \<longleftrightarrow>
      (\<forall>d \<in> set cs. known_cash d \<longrightarrow> cash_strength (ce_classification d) \<le> cash_strength (ce_classification c))"
    if "c \<in> set cs" "known_cash c" for c
    using S that by (subst eq_commute, subst Max_eq_iff) auto
  ultimately show ?thesis by auto
qed

lemma set_strongest_cong: "set cs = set ds \<Longrightarrow> set (strongest_cash_evidence cs) = set (strongest_cash_evidence ds)"
  by (rule set_eqI) (simp only: strongest_iff)

lemma set_choices_cong: "set cs = set ds \<Longrightarrow> set (charge_choices cs i) = set (charge_choices ds i)"
  unfolding charge_choices_def by (rule set_strongest_cong) simp

lemma claims_cong: "set cs = set ds \<Longrightarrow> claims (charge_choices cs i) = claims (charge_choices ds i)"
  by (simp add: claims_def set_choices_cong [of cs ds])

text \<open>When the strongest sources agree, any of them gives the same facts.\<close>

lemma agreed_facts:
  assumes "card (claims (charge_choices cs i)) = 1"
    and "c \<in> set (charge_choices cs i)" and "d \<in> set (charge_choices cs i)"
  shows "cash_facts c = cash_facts d"
proof -
  obtain x where "claims (charge_choices cs i) = {x}" using assms(1) by (auto simp: card_1_singleton_iff)
  moreover have "(ce_amount c, ce_currency c) \<in> claims (charge_choices cs i)"
    "(ce_amount d, ce_currency d) \<in> claims (charge_choices cs i)"
    using assms(2,3) by (auto simp: claims_def)
  moreover have "cash_strength (ce_classification c) = cash_strength (ce_classification d)"
    using assms(2,3) by (auto simp: charge_choices_def strongest_iff intro: order_antisym)
  ultimately show ?thesis by (auto simp: cash_facts_def dest: cash_strength_inj)
qed

lemma choices_nonempty: "card (claims (charge_choices cs i)) = 1 \<Longrightarrow> charge_choices cs i \<noteq> []"
  by (auto simp: claims_def)

lemma hd_facts_cong:
  assumes "set cs = set ds" and one: "card (claims (charge_choices cs i)) = 1"
  shows "cash_facts (hd (charge_choices cs i)) = cash_facts (hd (charge_choices ds i))"
proof (rule agreed_facts [OF one])
  have "charge_choices ds i \<noteq> []"
    by (rule choices_nonempty) (simp only: one claims_cong [OF assms(1), symmetric])
  then show "hd (charge_choices ds i) \<in> set (charge_choices cs i)"
    by (simp only: set_choices_cong [OF assms(1)] hd_in_set not_False_eq_True)
  show "hd (charge_choices cs i) \<in> set (charge_choices cs i)"
    by (rule hd_in_set [OF choices_nonempty [OF one]])
qed

section \<open>Order and repetition do not matter\<close>

lemma charge_ids_facts: "distinct (charge_ids cs)" "set (charge_ids cs) = ce_charge_id ` set cs"
  by (simp_all add: charge_ids_def)

definition agreed_ids :: "CashEvidence list \<Rightarrow> string set" where
  "agreed_ids cs = {i \<in> ce_charge_id ` set cs. card (claims (charge_choices cs i)) = 1}"

lemma agreed_ids_cong: "set cs = set ds \<Longrightarrow> agreed_ids cs = agreed_ids ds"
  unfolding agreed_ids_def using claims_cong [of cs ds] by auto

lemma sum_resolved:
  "sum_list (map f (resolved_components a)) =
     (\<Sum>i \<in> agreed_ids (ca_components a). f (hd (charge_choices (ca_components a) i)) :: rat)"
proof -
  have "distinct (filter (\<lambda>i. card (claims (charge_choices (ca_components a) i)) = 1)
      (charge_ids (ca_components a)))"
    by (simp add: charge_ids_facts)
  from sum_list_distinct_conv_sum_set [OF this] show ?thesis
    by (simp add: resolved_components_def o_def agreed_ids_def charge_ids_facts)
qed

lemma length_resolved: "length (resolved_components a) = card (agreed_ids (ca_components a))"
  using distinct_card [of "filter (\<lambda>i. card (claims (charge_choices (ca_components a) i)) = 1)
      (charge_ids (ca_components a))"]
  by (simp add: resolved_components_def agreed_ids_def charge_ids_facts)

lemma set_resolved:
  "set (resolved_components a) = (\<lambda>i. hd (charge_choices (ca_components a) i)) ` agreed_ids (ca_components a)"
  by (simp add: resolved_components_def agreed_ids_def charge_ids_facts)

lemma resolved_facts_cong:
  assumes "set (ca_components a) = set (ca_components b)"
  shows "cash_facts ` set (resolved_components a) = cash_facts ` set (resolved_components b)"
  unfolding set_resolved image_image agreed_ids_cong [OF assms, symmetric]
  by (rule image_cong [OF refl]) (use hd_facts_cong [OF assms] in \<open>simp add: agreed_ids_def\<close>)

text \<open>The cost in terms of the agreed charges and what is read from their evidence.\<close>

definition facts_amount :: "rat option \<times> string \<times> CashClassification \<Rightarrow> rat" where
  "facts_amount f = (case fst f of None \<Rightarrow> 0 | Some q \<Rightarrow> q)"

lemma facts_amount [simp]: "facts_amount (cash_facts c) = amount_or_zero c"
  by (simp add: facts_amount_def cash_facts_def amount_or_zero_def)

definition fact_of :: "CashEvidence list \<Rightarrow> string \<Rightarrow> rat option \<times> string \<times> CashClassification" where
  "fact_of cs i = cash_facts (hd (charge_choices cs i))"

lemma fact_of_cong: "set cs = set ds \<Longrightarrow> i \<in> agreed_ids cs \<Longrightarrow> fact_of cs i = fact_of ds i"
  by (simp add: fact_of_def agreed_ids_def hd_facts_cong)

lemma actual_cash_cost_facts:
  "actual_cash_cost a cur =
     (let cs = ca_components a; ids = agreed_ids cs; facts = fact_of cs ` ids in
      if ca_status a \<noteq> Stat_COMPLETE \<or> set cs = {} \<or> card ids \<noteq> card (ce_charge_id ` set cs)
         \<or> (\<exists>(q, c, k) \<in> facts. \<not> eligible_cash k \<or> c \<noteq> cur)
         \<or> (\<forall>(q, c, k) \<in> facts. q = Some 0)
            \<and> (facts = {} \<or> (\<exists>(q, c, k) \<in> facts. k \<notin> {Cash_VERIFIED, Cash_BILLING_RECONCILED}))
      then None else Some (\<Sum>i \<in> ids. facts_amount (fact_of cs i)))"
proof -
  have empty: "resolved_components a = [] \<longleftrightarrow> agreed_ids (ca_components a) = {}"
    using set_resolved [of a] by (metis image_is_empty set_empty)
  show ?thesis
    by (simp add: actual_cash_cost_def Let_def length_resolved empty list_ex_iff list_all_iff
        set_resolved sum_resolved fact_of_def cash_facts_def [abs_def] facts_amount_def amount_or_zero_def)
      blast
qed

lemma known_subtotal_facts:
  "known_subtotal a cur = (\<Sum>i \<in> agreed_ids (ca_components a).
     if fst (snd (fact_of (ca_components a) i)) = cur then facts_amount (fact_of (ca_components a) i) else 0)"
proof -
  have "ce_currency c = fst (snd (cash_facts c))" for c by (simp add: cash_facts_def)
  then show ?thesis by (simp add: known_subtotal_def sum_filter_if sum_resolved fact_of_def cong: if_cong)
qed

text \<open>
  C38 The cost of an action does not depend on the order in which its cash evidence arrived,
  nor on the same evidence being reported more than once: accountings over the same set of
  components have the same status, the same actual cost and the same subtotals.
\<close>

theorem cash_evidence_order_irrelevant:
  assumes "mk_cash_accounting status cs = Inr a" and "mk_cash_accounting status ds = Inr b"
    and same: "set cs = set ds"
  shows "ca_status a = ca_status b \<and> actual_cash_cost a cur = actual_cash_cost b cur
    \<and> known_subtotal a cur = known_subtotal b cur"
proof -
  have comps: "ca_components a = cs" "ca_components b = ds"
    using assms(1,2) by (auto simp: mk_cash_accounting_def)
  have conflict: "list_ex (\<lambda>c. card (claims (charge_choices cs (ce_charge_id c))) > 1) cs
      = list_ex (\<lambda>c. card (claims (charge_choices ds (ce_charge_id c))) > 1) ds"
    unfolding list_ex_iff same by (simp only: claims_cong [OF same])
  then have status: "ca_status a = ca_status b"
    using assms(1,2) by (auto simp: mk_cash_accounting_def simp del: One_nat_def)
  have facts: "fact_of cs ` agreed_ids cs = fact_of ds ` agreed_ids ds"
    using fact_of_cong [OF same] agreed_ids_cong [OF same] by (metis image_cong)
  have sums: "(\<Sum>i \<in> agreed_ids cs. g (fact_of cs i)) = (\<Sum>i \<in> agreed_ids ds. g (fact_of ds i))"
    for g :: "_ \<Rightarrow> rat"
    by (rule sum.cong) (simp_all add: agreed_ids_cong [OF same] fact_of_cong [OF same])
  show ?thesis
    unfolding actual_cash_cost_facts known_subtotal_facts comps status facts Let_def
      sums [of facts_amount] sums [of "\<lambda>f. if fst (snd f) = cur then facts_amount f else 0"]
    by (simp only: same agreed_ids_cong [OF same])
qed

text \<open>
  When an actual cost is named it is supported: the accounting is complete and free of
  conflicts, every charge has evidence in the right currency that is billing-backed or priced
  from a pinned rate and at least as strong as every other report of that charge, the cost
  is the sum over the charges, and a cost made of zeros rests on billing or verified evidence only.
\<close>

theorem actual_cash_supported:
  assumes "mk_cash_accounting status cs = Inr a" and "actual_cash_cost a cur = Some cost"
  shows "status = Stat_COMPLETE \<and> (\<exists>best.
      (\<forall>i \<in> ce_charge_id ` set cs. best i \<in> set cs \<and> ce_charge_id (best i) = i
         \<and> eligible_cash (ce_classification (best i)) \<and> ce_currency (best i) = cur
         \<and> (\<forall>d \<in> set cs. ce_charge_id d = i \<and> known_cash d
              \<longrightarrow> cash_strength (ce_classification d) < cash_strength (ce_classification (best i))
                \<or> cash_facts d = cash_facts (best i)))
      \<and> cost = (\<Sum>i \<in> ce_charge_id ` set cs. amount_or_zero (best i))
      \<and> ((\<forall>i \<in> ce_charge_id ` set cs. ce_amount (best i) = Some 0)
          \<longrightarrow> (\<forall>i \<in> ce_charge_id ` set cs.
                 ce_classification (best i) \<in> {Cash_VERIFIED, Cash_BILLING_RECONCILED})))"
proof -
  let ?I = "ce_charge_id ` set cs"
  let ?best = "\<lambda>i. hd (charge_choices cs i)"
  have comps: "ca_components a = cs" and st: "ca_status a = Stat_COMPLETE \<Longrightarrow> status = Stat_COMPLETE"
    using assms(1) by (auto simp: mk_cash_accounting_def split: if_splits)
  from assms(2) have complete: "ca_status a = Stat_COMPLETE" and "card (agreed_ids cs) = card ?I"
    and elig: "\<And>i. i \<in> agreed_ids cs \<Longrightarrow> eligible_cash (ce_classification (?best i)) \<and> ce_currency (?best i) = cur"
    and zero: "(\<forall>i \<in> agreed_ids cs. ce_amount (?best i) = Some 0) \<Longrightarrow>
      (\<forall>i \<in> agreed_ids cs. ce_classification (?best i) \<in> {Cash_VERIFIED, Cash_BILLING_RECONCILED})"
    and cost: "cost = (\<Sum>i \<in> agreed_ids cs. amount_or_zero (?best i))"
    unfolding actual_cash_cost_facts comps Let_def
    by (auto simp: fact_of_def cash_facts_def facts_amount_def amount_or_zero_def split: if_splits)
  moreover have "agreed_ids cs \<subseteq> ?I" by (auto simp: agreed_ids_def)
  ultimately have ids: "agreed_ids cs = ?I" by (intro card_subset_eq) auto
  have best: "?best i \<in> set (charge_choices cs i)" "card (claims (charge_choices cs i)) = 1"
    if "i \<in> ?I" for i
  proof -
    show one: "card (claims (charge_choices cs i)) = 1" using that ids by (auto simp: agreed_ids_def)
    show "?best i \<in> set (charge_choices cs i)" by (rule hd_in_set [OF choices_nonempty [OF one]])
  qed
  have "?best i \<in> set cs \<and> ce_charge_id (?best i) = i" if "i \<in> ?I" for i
    using best(1) [OF that] by (simp add: charge_choices_def strongest_iff)
  moreover have "cash_strength (ce_classification d) < cash_strength (ce_classification (?best i))
      \<or> cash_facts d = cash_facts (?best i)"
    if i: "i \<in> ?I" and d: "d \<in> set cs" "ce_charge_id d = i" "known_cash d" for i d
  proof (cases "d \<in> set (charge_choices cs i)")
    case True
    then show ?thesis using agreed_facts [OF best(2) [OF i] True best(1) [OF i]] by simp
  next
    case False
    with d best(1) [OF i] show ?thesis
      by (auto simp: charge_choices_def strongest_iff not_le intro: less_le_trans)
  qed
  ultimately show ?thesis
    using complete st elig zero cost unfolding ids by (intro conjI exI [of _ ?best] ballI impI) auto
qed

section \<open>A charge reported twice\<close>

definition sample_charge :: "string \<Rightarrow> rat \<Rightarrow> CashClassification \<Rightarrow> CashEvidence" where
  "sample_charge i q k =
     \<lparr>ce_charge_id = i, ce_amount = Some q, ce_currency = ''USD'', ce_classification = k,
      ce_evidence = unavailable_evidence\<lparr>me_status := Stat_COMPLETE, me_source := Src_BILLING_RECORD\<rparr>,
      ce_rate_snapshot_id = None, ce_billing_record_id = None, ce_usage_fingerprint = None,
      ce_applied_rate_ids = [], ce_applied_meter_quantities = []\<rparr>"

lemmas cash_eval = mk_cash_accounting_def charge_choices_def strongest_cash_evidence_def known_cash_def
  claims_def sample_charge_def actual_cash_cost_def resolved_components_def charge_ids_def
  eligible_cash_def amount_or_zero_def known_subtotal_def Let_def

theorem cash_evidence_order_irrelevant_witness:
  "(let c = sample_charge ''c1'' 3 Cash_VERIFIED; e = sample_charge ''c1'' 9 Cash_ESTIMATED;
        d = sample_charge ''c2'' 4 Cash_BILLING_RECONCILED in
    map_option (\<lambda>a. actual_cash_cost a ''USD'') (case mk_cash_accounting Stat_COMPLETE [e, d, c] of Inr a \<Rightarrow> Some a | _ \<Rightarrow> None)
      = Some (Some 7))"
proof -
  let ?c = "sample_charge ''c1'' 3 Cash_VERIFIED" and ?e = "sample_charge ''c1'' 9 Cash_ESTIMATED"
    and ?d = "sample_charge ''c2'' 4 Cash_BILLING_RECONCILED"
  obtain a where a: "mk_cash_accounting Stat_COMPLETE [?c, ?e, ?d] = Inr a" "actual_cash_cost a ''USD'' = Some 7"
    by (simp add: cash_eval)
  obtain b where b: "mk_cash_accounting Stat_COMPLETE [?e, ?d, ?c] = Inr b"
    by (simp add: mk_cash_accounting_def)
  have "set [?c, ?e, ?d] = set [?e, ?d, ?c]" by auto
  from cash_evidence_order_irrelevant [OF a(1) b this, of "''USD''"] a(2) b
  show ?thesis by simp
qed

theorem actual_cash_supported_witness:
  "\<exists>a. mk_cash_accounting Stat_COMPLETE [sample_charge ''c1'' 0 Cash_VERIFIED] = Inr a
     \<and> actual_cash_cost a ''USD'' = Some 0"
proof -
  obtain a where a: "mk_cash_accounting Stat_COMPLETE [sample_charge ''c1'' 0 Cash_VERIFIED] = Inr a"
      "actual_cash_cost a ''USD'' = Some 0"
    by (simp add: cash_eval)
  from actual_cash_supported [OF this] a show ?thesis by blast
qed

end
