(* ===== verification/Prepared_Models.thy ===== *)
theory Prepared_Models
  imports Authorization_Basis Cash_Accounting
begin

text \<open>
  Prepared route decisions of \<open>aeep/models.py\<close>: the immutable plan that names one executor,
  one authorization basis and one maximum, and moves through the states of the
  prepared lifecycle; with the usage statements and pricing disputes that follow it.
\<close>

section \<open>Rankings and failures\<close>

datatype QuoteFailurePolicy =
    QF_REQUIRE_BINDING_QUOTE | QF_ALLOW_VERIFIED_OFFER | QF_ALLOW_STATIC_PRIOR | QF_TREAT_AS_UNAVAILABLE

text \<open>\<open>resolve_failure_policy\<close> of \<open>economic/prepared.py\<close>: a caller may only tighten.\<close>

fun quote_policy_strength :: "QuoteFailurePolicy \<Rightarrow> nat" where
  "quote_policy_strength QF_ALLOW_STATIC_PRIOR = 1"
| "quote_policy_strength QF_ALLOW_VERIFIED_OFFER = 2"
| "quote_policy_strength QF_REQUIRE_BINDING_QUOTE = 3"
| "quote_policy_strength QF_TREAT_AS_UNAVAILABLE = 3"

definition resolve_failure_policy ::
  "QuoteFailurePolicy \<Rightarrow> QuoteFailurePolicy option \<Rightarrow> QuoteFailurePolicy result"
where
  "resolve_failure_policy configured requested =
     (case requested of
        None \<Rightarrow> Ok configured
      | Some r \<Rightarrow>
          if r = configured then Ok configured
          else if quote_policy_strength r < quote_policy_strength configured
          then Err (ConfigurationError ''request quote policy cannot weaken operator policy'')
          else Ok r)"

record CandidateRanking =
  ck_executor_id :: string
  ck_executor_fingerprint :: string
  ck_rank :: int
  ck_score :: "rat option"
  ck_quote_id :: "string option"
  ck_expected_amount :: "CurrencyAmount option"
  ck_maximum_amount :: "CurrencyAmount option"
  ck_evidence_level :: EconomicEvidenceLevel
  ck_explanation :: string

definition validate_ranking :: "CandidateRanking \<Rightarrow> unit result" where
  "validate_ranking c = first_error
     [(\<not> (ident 1 200 (ck_executor_id c) \<and> sha256_digest (ck_executor_fingerprint c) \<and> 1 \<le> ck_rank c
          \<and> opt_all (ident 1 200) (ck_quote_id c) \<and> opt_all valid_amount (ck_expected_amount c)
          \<and> opt_all valid_amount (ck_maximum_amount c) \<and> text_len 0 2000 (ck_explanation c)),
       ValueError ''candidate ranking field''),
      (case ck_maximum_amount c of None \<Rightarrow> False | Some m \<Rightarrow> differ_currency (ck_expected_amount c) m,
       ValueError ''candidate expected and maximum currencies must match''),
      (exceeds_amount (ck_expected_amount c) (ck_maximum_amount c),
       ValueError ''candidate expected amount cannot exceed maximum amount'')]"

record RejectedCandidate =
  rj_executor_id :: string
  rj_executor_fingerprint :: "string option"
  rj_reasons :: "string list"
  rj_quote_id :: "string option"

definition valid_rejected :: "RejectedCandidate \<Rightarrow> bool" where
  "valid_rejected r =
     (ident 1 200 (rj_executor_id r) \<and> opt_all sha256_digest (rj_executor_fingerprint r)
      \<and> rj_reasons r \<noteq> [] \<and> list_all (text_len 1 2000) (rj_reasons r)
      \<and> opt_all (ident 1 200) (rj_quote_id r))"

record QuoteFailure =
  qf_executor_id :: string
  qf_provider_id :: "string option"
  qf_code :: string
  qf_reason :: string
  qf_retryable :: bool

definition valid_quote_failure :: "QuoteFailure \<Rightarrow> bool" where
  "valid_quote_failure q =
     (ident 1 200 (qf_executor_id q) \<and> opt_all (ident 1 200) (qf_provider_id q)
      \<and> text_len 1 100 (qf_code q)
      \<and> list_all (\<lambda>c. upper_letter c \<or> decimal_digit c \<or> c = CHR ''_'') (qf_code q)
      \<and> text_len 1 2000 (qf_reason q))"

section \<open>Prepared decisions\<close>

text \<open>
  Of \<open>expected_accounting\<close> only the cash part is read by the modelled code. Disclosed
  features are an association list with the dictionary's keys.
\<close>

record PreparedRouteDecision =
  pd_prepared_id :: string
  pd_action_id :: string
  pd_action_digest :: string
  pd_effective_policy_digest :: string
  pd_selected_executor_id :: "string option"
  pd_selected_executor_fingerprint :: "string option"
  pd_selected_quote_id :: "string option"
  pd_selected_offer_id :: "string option"
  pd_selected_rate_card_id :: "string option"
  pd_authorization_kind :: "AuthorizationKind option"
  pd_authorization_id :: "string option"
  pd_authorization_rate_ids :: "string list"
  pd_authorization_meter_quantities :: "AuthorizationMeterQuantity list"
  pd_quote_ids :: "string list"
  pd_candidate_rankings :: "CandidateRanking list"
  pd_rejected_candidates :: "RejectedCandidate list"
  pd_quote_failures :: "QuoteFailure list"
  pd_disclosed_quote_features :: "(string \<times> json_primitive) list"
  pd_expected_cash :: CashAccounting
  pd_maximum_cash_authorization :: "CurrencyAmount option"
  pd_quote_failure_policy :: QuoteFailurePolicy
  pd_preparation_latency_ms :: "rat option"
  pd_quote_latency_ms :: "rat option"
  pd_quote_request_count :: int
  pd_state :: PreparedDecisionState
  pd_created_at :: datetime
  pd_expires_at :: datetime

definition feasible :: "PreparedRouteDecision \<Rightarrow> bool" where
  "feasible d = (pd_selected_executor_id d \<noteq> None)"

text \<open>\<open>QuoteRequestV2.bounded_disclosure\<close>, which the decision's field validator calls.\<close>

definition bounded_disclosure :: "(string \<times> json_primitive) list \<Rightarrow> bool" where
  "bounded_disclosure kvs =
     (length kvs \<le> 64 \<and> distinct (map fst kvs)
      \<and> list_all (\<lambda>(k, v). text_len 1 100 k
            \<and> list_all (\<lambda>c. upper_letter c \<or> lower_letter c \<or> decimal_digit c \<or> c \<in> set ''_.-'') k
            \<and> (case v of JSON_text t \<Rightarrow> length t \<le> 128 | _ \<Rightarrow> True)) kvs)"

definition plain_identifier :: "string \<Rightarrow> bool" where
  "plain_identifier s = (s \<noteq> [] \<and> list_all identifier_char s)"

definition rate_card_id :: "string \<Rightarrow> bool" where
  "rate_card_id s = (take 5 s = ''rate_'' \<and> hex64 (drop 5 s))"

definition decision_fields_ok :: "PreparedRouteDecision \<Rightarrow> bool" where
  "decision_fields_ok d =
     (ident 1 200 (pd_prepared_id d) \<and> ident 1 200 (pd_action_id d) \<and> sha256_digest (pd_action_digest d)
      \<and> sha256_digest (pd_effective_policy_digest d)
      \<and> opt_all (ident 1 200) (pd_selected_executor_id d)
      \<and> opt_all sha256_digest (pd_selected_executor_fingerprint d)
      \<and> opt_all (ident 1 200) (pd_selected_quote_id d) \<and> opt_all (ident 1 200) (pd_selected_offer_id d)
      \<and> opt_all rate_card_id (pd_selected_rate_card_id d)
      \<and> opt_all (ident 1 200) (pd_authorization_id d)
      \<and> list_all plain_identifier (pd_authorization_rate_ids d)
      \<and> distinct (pd_authorization_rate_ids d)
      \<and> list_all valid_authorization_meter (pd_authorization_meter_quantities d)
      \<and> list_all plain_identifier (pd_quote_ids d)
      \<and> distinct (pd_quote_ids d)
      \<and> list_all (\<lambda>c. is_ok (validate_ranking c)) (pd_candidate_rankings d)
      \<and> list_all valid_rejected (pd_rejected_candidates d)
      \<and> list_all valid_quote_failure (pd_quote_failures d)
      \<and> bounded_disclosure (pd_disclosed_quote_features d)
      \<and> opt_all valid_amount (pd_maximum_cash_authorization d)
      \<and> opt_all (\<lambda>q. 0 \<le> q) (pd_preparation_latency_ms d) \<and> opt_all (\<lambda>q. 0 \<le> q) (pd_quote_latency_ms d)
      \<and> 0 \<le> pd_quote_request_count d \<and> aware (pd_created_at d) \<and> aware (pd_expires_at d))"

text \<open>The three bases a decision may select, and the checks on the one it names.\<close>

definition basis_errors :: "PreparedRouteDecision \<Rightarrow> (bool \<times> error) list" where
  "basis_errors d =
     (let quote = pd_selected_quote_id d; offer = pd_selected_offer_id d;
          card = pd_selected_rate_card_id d; aid = pd_authorization_id d;
          rates = map aq_rate_id (pd_authorization_meter_quantities d) in
      case pd_authorization_kind d of
        Some Auth_SIGNED_QUOTE \<Rightarrow>
          [(quote \<noteq> aid, ValueError ''signed-quote authorization must match selected quote''),
           (offer \<noteq> None \<or> card \<noteq> None,
            ValueError ''signed-quote authorization cannot select another basis'')]
      | Some Auth_PUBLISHED_OFFER \<Rightarrow>
          [(offer \<noteq> aid, ValueError ''published-offer authorization must match selected offer''),
           (quote \<noteq> None \<or> card \<noteq> None,
            ValueError ''published-offer authorization cannot select another basis'')]
      | Some Auth_PINNED_RATE_CARD \<Rightarrow>
          [(card \<noteq> aid, ValueError ''pinned-rate-card authorization must match selected rate card''),
           (quote \<noteq> None \<or> offer \<noteq> None,
            ValueError ''pinned-rate-card authorization cannot select another basis''),
           (pd_authorization_rate_ids d = [] \<or> rates = [],
            ValueError ''pinned-rate-card authorization requires rates and quantities''),
           (\<not> distinct rates, ValueError ''authorization meter quantities require unique rate IDs''),
           (rates \<noteq> pd_authorization_rate_ids d,
            ValueError ''authorization rates and meter quantities must match in order'')]
      | None \<Rightarrow>
          [(quote \<noteq> None \<or> offer \<noteq> None \<or> card \<noteq> None,
            ValueError ''selected authorization basis requires authorization kind and ID'')])"

definition valid_decision :: "PreparedRouteDecision \<Rightarrow> unit result" where
  "valid_decision d =
     (let maximum = pd_maximum_cash_authorization d; kind = pd_authorization_kind d;
          pinned = pd_authorization_rate_ids d \<noteq> [] \<or> pd_authorization_meter_quantities d \<noteq> [];
          executors = map ck_executor_id (pd_candidate_rankings d) in
      first_error
       ([(\<not> decision_fields_ok d, ValueError ''prepared decision field''),
         (pd_expires_at d \<le> pd_created_at d, ValueError ''prepared decision must expire after creation''),
         (feasible d \<noteq> (pd_selected_executor_fingerprint d \<noteq> None),
          ValueError ''selected executor ID and fingerprint must appear together''),
         (\<not> feasible d
            \<and> (pd_selected_quote_id d \<noteq> None \<or> pd_selected_offer_id d \<noteq> None
               \<or> pd_selected_rate_card_id d \<noteq> None \<or> kind \<noteq> None \<or> pd_authorization_id d \<noteq> None
               \<or> pinned \<or> maximum \<noteq> None),
          ValueError ''infeasible decision cannot select an authorization or authorize cash''),
         (\<not> opt_all (\<lambda>q. q \<in> set (pd_quote_ids d)) (pd_selected_quote_id d),
          ValueError ''selected quote must appear in quote_ids''),
         ((kind = None) \<noteq> (pd_authorization_id d = None),
          ValueError ''authorization kind and ID must appear together''),
         (kind \<noteq> None \<and> maximum = None,
          ValueError ''authorization basis requires a maximum cash authorization''),
         (\<not> opt_all (\<lambda>m. amount m \<le> 0) maximum \<and> kind = None,
          ValueError ''nonzero maximum cash authorization requires an immutable basis'')]
        @ basis_errors d
        @ [(kind \<noteq> Some Auth_PINNED_RATE_CARD \<and> pinned,
            ValueError ''only pinned-rate-card authorization may include rate quantities''),
           (\<not> distinct executors \<or> \<not> distinct (map ck_rank (pd_candidate_rankings d)),
            ValueError ''candidate rankings require unique executors and ranks''),
           (\<not> opt_all (\<lambda>e. executors = [] \<or> e \<in> set executors) (pd_selected_executor_id d),
            ValueError ''selected executor must appear in candidate rankings'')]))"

definition mk_decision :: "PreparedRouteDecision \<Rightarrow> PreparedRouteDecision result" where
  "mk_decision d =
     (let (kind, aid) = migrate_quote_authorization (pd_authorization_kind d) (pd_authorization_id d)
            (pd_selected_quote_id d);
          d' = d\<lparr>pd_authorization_kind := kind, pd_authorization_id := aid\<rparr>
      in case valid_decision d' of Inl e \<Rightarrow> Err e | Inr _ \<Rightarrow> Ok d')"

definition transitioned :: "PreparedDecisionState \<Rightarrow> PreparedRouteDecision \<Rightarrow> PreparedRouteDecision result" where
  "transitioned target d =
     (if target \<notin> set (prepared_transitions (pd_state d))
      then Err (ValueError ''illegal prepared decision transition'')
      else Ok (d\<lparr>pd_state := target\<rparr>))"

record PreparedRouteTransition =
  pt_transition_id :: string
  pt_prepared_id :: string
  pt_from_state :: PreparedDecisionState
  pt_to_state :: PreparedDecisionState
  pt_occurred_at :: datetime
  pt_reason :: "string option"

definition validate_transition :: "PreparedRouteTransition \<Rightarrow> unit result" where
  "validate_transition t = first_error
     [(\<not> (ident 1 200 (pt_transition_id t) \<and> ident 1 200 (pt_prepared_id t)
          \<and> aware (pt_occurred_at t) \<and> opt_all (text_len 0 2000) (pt_reason t)),
       ValueError ''prepared transition field''),
      (pt_to_state t \<notin> set (prepared_transitions (pt_from_state t)),
       ValueError ''illegal prepared decision transition'')]"

definition mk_transition ::
  "string \<Rightarrow> string \<Rightarrow> PreparedDecisionState \<Rightarrow> PreparedDecisionState \<Rightarrow> datetime \<Rightarrow> string
    \<Rightarrow> PreparedRouteTransition result"
where
  "mk_transition tid pid from_state to_state moment reason =
     (let t = \<lparr>pt_transition_id = tid, pt_prepared_id = pid, pt_from_state = from_state,
               pt_to_state = to_state, pt_occurred_at = moment, pt_reason = Some reason\<rparr>
      in case validate_transition t of Inl e \<Rightarrow> Err e | Inr _ \<Rightarrow> Ok t)"

section \<open>Usage statements and disputes\<close>

record UsageStatement =
  us_usage_statement_id :: string
  us_quote_id :: string
  us_prepared_id :: string
  us_action_id :: string
  us_attempt_id :: string
  us_provider_id :: string
  us_executor_id :: string
  us_executor_fingerprint :: string
  us_execution_status :: ProviderExecutionStatus
  us_meters :: "MeterQuantity list"
  us_provider_calculated_amount :: "CurrencyAmount option"
  us_started_at :: "datetime option"
  us_completed_at :: "datetime option"
  us_issued_at :: datetime
  us_signature :: SignatureEnvelopeV2

definition valid_usage :: "UsageStatement \<Rightarrow> unit result" where
  "valid_usage u = first_error
     [(\<not> (ident 1 200 (us_usage_statement_id u) \<and> ident 1 200 (us_quote_id u)
          \<and> ident 1 200 (us_prepared_id u) \<and> ident 1 200 (us_action_id u) \<and> ident 1 200 (us_attempt_id u)
          \<and> ident 1 200 (us_provider_id u) \<and> ident 1 200 (us_executor_id u)
          \<and> sha256_digest (us_executor_fingerprint u)
          \<and> list_all (valid_meter standard_meters) (us_meters u) \<and> unique_meters (us_meters u)
          \<and> opt_all valid_amount (us_provider_calculated_amount u)
          \<and> opt_all aware (us_started_at u) \<and> opt_all aware (us_completed_at u)
          \<and> aware (us_issued_at u) \<and> valid_signature_v2 (us_signature u)), ValueError ''usage statement field''),
      (case (us_started_at u, us_completed_at u) of (Some a, Some b) \<Rightarrow> b < a | _ \<Rightarrow> False,
       ValueError ''usage completed_at cannot precede started_at''),
      (case us_completed_at u of None \<Rightarrow> False | Some b \<Rightarrow> us_issued_at u < b,
       ValueError ''usage statement cannot be issued before completion'')]"

datatype PricingDisputeStatus = Dispute_OPEN | Dispute_RESOLVED | Dispute_REJECTED

record PricingDispute =
  dp_dispute_id :: string
  dp_prepared_id :: string
  dp_quote_id :: string
  dp_usage_statement_id :: "string option"
  dp_provider_id :: string
  dp_quoted_maximum :: CurrencyAmount
  dp_provider_claimed_amount :: CurrencyAmount
  dp_status :: PricingDisputeStatus
  dp_reason :: string
  dp_created_at :: datetime
  dp_resolved_at :: "datetime option"

definition valid_dispute :: "PricingDispute \<Rightarrow> unit result" where
  "valid_dispute p = first_error
     [(\<not> (ident 1 200 (dp_dispute_id p) \<and> ident 1 200 (dp_prepared_id p) \<and> ident 1 200 (dp_quote_id p)
          \<and> opt_all (ident 1 200) (dp_usage_statement_id p) \<and> ident 1 200 (dp_provider_id p)
          \<and> valid_amount (dp_quoted_maximum p) \<and> valid_amount (dp_provider_claimed_amount p)
          \<and> text_len 1 2000 (dp_reason p) \<and> aware (dp_created_at p) \<and> opt_all aware (dp_resolved_at p)),
       ValueError ''pricing dispute field''),
      (currency (dp_quoted_maximum p) \<noteq> currency (dp_provider_claimed_amount p),
       ValueError ''dispute amounts must use one currency''),
      (amount (dp_provider_claimed_amount p) \<le> amount (dp_quoted_maximum p),
       ValueError ''pricing dispute requires a provider claim above quoted maximum''),
      ((dp_status p = Dispute_OPEN) = (dp_resolved_at p \<noteq> None),
       ValueError ''open disputes cannot be resolved; closed disputes require resolved_at''),
      (case dp_resolved_at p of None \<Rightarrow> False | Some t \<Rightarrow> t < dp_created_at p,
       ValueError ''dispute resolved_at cannot precede created_at'')]"

end
