(* ===== verification/Store.thy ===== *)
theory Store
  imports Capacity_Models Attempt_Models Prepared_Models
begin

text \<open>
  The state of \<open>ReceiptStore\<close> in \<open>aeep/store.py\<close> as far as this development models it: one
  field per SQLite table, each the list of its rows, with the column constraints of the
  schema written out where a statement can violate them. Rows hold the validated model
  instances; columns that repeat a field of the payload are that field.
\<close>

section \<open>Rows\<close>

datatype EntitlementState = Ent_active | Ent_expired | Ent_consumed | Ent_released

record entitlement_row =
  en_entitlement :: ExecutionEntitlement
  en_remaining_quantity :: rat
  en_state :: EntitlementState
  en_version :: int
  en_payload_digest :: string

record attempt_transition_row =
  at_attempt_id :: string
  at_from_state :: ExecutionAttemptState
  at_to_state :: ExecutionAttemptState
  at_version :: int
  at_occurred_at :: datetime
  at_reason :: "string option"

datatype idempotency_state = Idem_claimed | Idem_executing | Idem_indeterminate | Idem_complete

record idempotency_row =
  ir_key :: string
  ir_request_hash :: string
  ir_state :: idempotency_state
  ir_decision_id :: "string option"
  ir_status :: "string option"
  ir_receipt_ids :: "string list"

datatype refund_state = Ref_AUTHORIZED | Ref_INDETERMINATE | Ref_COMPLETED | Ref_RELEASED

record refund_authorization =
  ra_refund_id :: string
  ra_settlement_id :: string
  ra_charge_id :: string
  ra_amount :: CurrencyAmount
  ra_idempotency_key :: string
  ra_request_digest :: string
  ra_state :: refund_state
  ra_authorized_at :: datetime
  ra_updated_at :: datetime

record task_scope_row =
  tr_digest :: string
  tr_scope :: TaskScope

record review_row =
  rv_digest :: string
  rv_revoked :: bool

text \<open>
  The payment path. A row of a prepared decision or a payment reservation holds the immutable
  payload and the columns that change; an execution receipt holds its identity and the entries
  of its metadata that are read, each a text or absent.
\<close>

record prepared_row =
  pw_decision :: PreparedRouteDecision
  pw_state :: PreparedDecisionState
  pw_claim_token :: "string option"
  pw_claimed_at :: "datetime option"

record payment_row =
  py_payload :: PaymentReservationV2
  py_state :: PaymentReservationState
  py_operation_intent :: "(string \<times> string) option"
  py_updated_at :: datetime
  py_indeterminate_reason :: "string option"

record offer_row =
  ow_offer :: CapabilityOffer
  ow_active :: bool
  ow_revoked_at :: "datetime option"

record signing_key_row =
  sk_provider_id :: string
  sk_key_id :: string
  sk_ed25519 :: bool
  sk_active :: bool
  sk_valid_from :: datetime
  sk_valid_until :: datetime
  sk_revoked_at :: "datetime option"
  sk_allowed_capabilities :: "string list"

record candidate_row =
  cw_executor_id :: string
  cw_fingerprint :: string
  cw_active :: bool

record execution_evidence =
  xe_receipt_id :: string
  xe_decision_id :: string
  xe_status :: string
  xe_action_id :: string
  xe_executor_id :: string
  xe_prepared_id :: "string option"
  xe_attempt_id :: "string option"
  xe_charge_id :: "string option"
  xe_settlement_id :: "string option"
  xe_authorization_kind :: "AuthorizationKind option"
  xe_authorization_id :: "string option"

record action_binding =
  ab_prepared_id :: string
  ab_idempotency_key :: string
  ab_action_digest :: string
  ab_bound_at :: datetime

section \<open>The store\<close>

record store =
  capacity_observations :: "CapacityObservation list"
  capacity_reservations :: "CapacityReservation list"
  capacity_authorization_evidence :: "CapacityAuthorizationEvidence list"
  execution_entitlements :: "entitlement_row list"
  entitlement_redemptions :: "EntitlementRedemptionReceipt list"
  execution_attempts :: "ExecutionAttempt list"
  execution_attempt_transitions :: "attempt_transition_row list"
  task_scopes :: "task_scope_row list"
  assessment_reviews :: "review_row list"
  idempotency_records :: "idempotency_row list"
  prepared_action_idempotency :: "action_binding list"
  settlement_receipts :: "SettlementReceipt list"
  refund_authorizations :: "refund_authorization list"
  refund_receipts :: "RefundReceiptV2 list"
  prepared_route_decisions :: "prepared_row list"
  prepared_route_transitions :: "PreparedRouteTransition list"
  payment_reservations :: "payment_row list"
  bounded_quotes :: "BoundedQuote list"
  capability_offers :: "offer_row list"
  rate_card_snapshots :: "RateCardSnapshot list"
  provider_signing_keys :: "signing_key_row list"
  route_candidates :: "candidate_row list"
  usage_statements :: "UsageStatement list"
  execution_receipts :: "execution_evidence list"

definition empty_store :: store where
  "empty_store =
     \<lparr>capacity_observations = [], capacity_reservations = [],
      capacity_authorization_evidence = [], execution_entitlements = [],
      entitlement_redemptions = [], execution_attempts = [],
      execution_attempt_transitions = [], task_scopes = [], assessment_reviews = [],
      idempotency_records = [], prepared_action_idempotency = [], settlement_receipts = [], refund_authorizations = [],
      refund_receipts = [], prepared_route_decisions = [], prepared_route_transitions = [],
      payment_reservations = [], bounded_quotes = [], capability_offers = [], rate_card_snapshots = [],
      provider_signing_keys = [], route_candidates = [], usage_statements = [], execution_receipts = []\<rparr>"

lemma empty_store_simps [simp]:
  "capacity_observations empty_store = []" "capacity_reservations empty_store = []"
  "capacity_authorization_evidence empty_store = []" "execution_entitlements empty_store = []"
  "entitlement_redemptions empty_store = []" "execution_attempts empty_store = []"
  "execution_attempt_transitions empty_store = []" "task_scopes empty_store = []"
  "assessment_reviews empty_store = []" "idempotency_records empty_store = []"
  "settlement_receipts empty_store = []" "refund_authorizations empty_store = []"
  "refund_receipts empty_store = []" "prepared_route_decisions empty_store = []"
  "prepared_route_transitions empty_store = []" "payment_reservations empty_store = []"
  "bounded_quotes empty_store = []" "capability_offers empty_store = []"
  "rate_card_snapshots empty_store = []" "provider_signing_keys empty_store = []"
  "route_candidates empty_store = []" "usage_statements empty_store = []"
  "execution_receipts empty_store = []" "prepared_action_idempotency empty_store = []"
  by (simp_all add: empty_store_def)

section \<open>Immutable evidence\<close>

text \<open>\<open>_utc_text\<close> refuses naive times; on aware ones the texts compare as the instants do.\<close>

definition aware_or_error :: "datetime \<Rightarrow> unit result" where
  "aware_or_error t =
     (if aware t then Ok ()
      else Err (ConfigurationError ''store timestamps must be timezone-aware''))"


text \<open>
  \<open>_immutable_insert_locked\<close>: insert unless a unique column conflicts, read the row back by
  its identity, and accept only the very same content. The result says whether a row was
  inserted. \<open>clash x r\<close> says that the stored row \<open>x\<close> and the new row \<open>r\<close> agree in a unique
  column. A payload determines its digest, so comparing both is comparing the rows.
\<close>

definition immutable_insert_locked ::
  "('r \<Rightarrow> 'r \<Rightarrow> bool) \<Rightarrow> ('r \<Rightarrow> bool) \<Rightarrow> 'r \<Rightarrow> 'r list \<Rightarrow> bool result \<times> 'r list"
where
  "immutable_insert_locked clash identity r t =
     (let inserted = \<not> (\<exists>x \<in> set t. clash x r); t' = (if inserted then t @ [r] else t) in
      case select_row identity t' of
        None \<Rightarrow> (Err (ConfigurationError ''immutable identity conflicts with existing data''), t')
      | Some x \<Rightarrow>
          if x \<noteq> r
          then (Err (ConfigurationError ''immutable identity was reused with different content''), t')
          else (Ok inserted, t'))"

text \<open>
  An accepted insert leaves the row in the table, and either it was there already and
  nothing changed, or it is new and appended.
\<close>

lemma immutable_insert_ok:
  assumes "immutable_insert_locked clash identity r t = (Inr ins, t')"
  shows "r \<in> set t'" and "t' = (if ins then t @ [r] else t)"
proof -
  from assms have t': "t' = (if ins then t @ [r] else t)"
    and ins: "ins \<longleftrightarrow> \<not> (\<exists>x \<in> set t. clash x r)"
    and found: "select_row identity t' = Some r"
    by (auto simp: immutable_insert_locked_def Let_def split: option.splits if_splits)
  show "r \<in> set t'" using select_row_SomeD [OF found] by simp
  show "t' = (if ins then t @ [r] else t)" by (rule t')
qed

lemma immutable_insert_again:
  assumes "immutable_insert_locked clash identity r t = (Inr ins, t')" and "clash r r"
  shows "immutable_insert_locked clash identity r t' = (Inr False, t')"
proof -
  have r: "r \<in> set t'" by (rule immutable_insert_ok(1) [OF assms(1)])
  have "select_row identity t' = Some r"
    using assms(1) by (auto simp: immutable_insert_locked_def Let_def split: option.splits if_splits)
  with r assms(2) show ?thesis by (auto simp: immutable_insert_locked_def Let_def)
qed

section \<open>Replay\<close>

text \<open>
  The store's write operations take an idempotency key or an identity, and a repeated call
  returns what is stored without a further write. The locale states this for one operation
  and one request; its consequence is that any number of retries leaves the store and the
  answer as the first call left them.
\<close>

locale replayable =
  fixes operation :: "'q \<Rightarrow> 's \<Rightarrow> 'v result \<times> 's"
    and agrees :: "'v \<Rightarrow> 'v \<Rightarrow> bool"
  assumes replay: "operation q s = (Inr v, s') \<Longrightarrow> \<exists>w. operation q s' = (Inr w, s') \<and> agrees v w"
    and agrees_trans: "agrees u v \<Longrightarrow> agrees v w \<Longrightarrow> agrees u w"
    and agrees_refl: "agrees v v"
begin

fun retry :: "nat \<Rightarrow> 'q \<Rightarrow> 's \<Rightarrow> 'v result \<times> 's" where
  "retry 0 q s = operation q s"
| "retry (Suc n) q s = operation q (snd (retry n q s))"

theorem retries_agree:
  assumes "operation q s = (Inr v, s')"
  shows "\<exists>w. retry n q s = (Inr w, s') \<and> agrees v w"
proof (induction n)
  case 0
  then show ?case using assms agrees_refl by auto
next
  case (Suc n)
  then obtain w where w: "retry n q s = (Inr w, s')" and vw: "agrees v w" by blast
  have "\<exists>t. operation q s = (Inr t, s')" using assms by blast
  obtain u where "operation q s' = (Inr u, s')" and "agrees v u"
    using replay [OF assms] by blast
  then show ?case using w by auto
qed

end

end
