(* ===== verification/Capacity_Store.thy ===== *)
theory Capacity_Store
  imports Store
begin

text \<open>
  The capacity ledger of \<open>ReceiptStore\<close> (\<open>aeep/store.py\<close>): observations, reservations with
  their compare-and-set lifecycle, authorization evidence, execution entitlements and their
  redemption. \<open>current\<close> is the value of \<open>(now or datetime.now(UTC)).astimezone(UTC)\<close>; the
  canonical digests are arguments. Then the ledger's contract: held capacity never exceeds
  the reported capacity, redemptions never exceed an entitlement, and retries are replays.
\<close>

section \<open>Observations\<close>

definition save_capacity_observation ::
  "(CapacityObservation \<Rightarrow> string) \<Rightarrow> CapacityObservation \<Rightarrow> store
    \<Rightarrow> CapacityObservation result \<times> store"
where
  "save_capacity_observation digest ob = immediate_transaction (\<lambda>s.
     case select_row (\<lambda>x. co_observation_id x = co_observation_id ob) (capacity_observations s) of
       Some row \<Rightarrow>
         if digest row \<noteq> digest ob
         then (Err (ConfigurationError ''capacity observation ID was reused with different data''), s)
         else (Ok row, s)
     | None \<Rightarrow>
         if \<exists>x \<in> set (capacity_observations s). digest x = digest ob
         then (Err (IntegrityError ''UNIQUE capacity_observations.canonical_digest''), s)
         else (Ok ob, s\<lparr>capacity_observations := capacity_observations s @ [ob]\<rparr>))"

text \<open>\<open>ORDER BY observed_at DESC, rowid DESC LIMIT max(1, min(limit, 10000))\<close>.\<close>

definition list_capacity_observations ::
  "string option \<Rightarrow> int \<Rightarrow> store \<Rightarrow> CapacityObservation list"
where
  "list_capacity_observations resource limit s =
     take (nat (max 1 (min limit 10000)))
       (rev (sort_key co_observed_at
         (filter (\<lambda>x. opt_all (\<lambda>res. co_resource_id x = res) resource)
           (capacity_observations s))))"

definition latest_capacity_observation :: "string \<Rightarrow> store \<Rightarrow> CapacityObservation option" where
  "latest_capacity_observation resource s =
     (case list_capacity_observations (Some resource) 1 s of [] \<Rightarrow> None | v # _ \<Rightarrow> Some v)"

section \<open>Reservations\<close>

text \<open>The rows the availability query of \<open>reserve_capacity\<close> selects.\<close>

definition reservation_held ::
  "string \<Rightarrow> string \<Rightarrow> datetime \<Rightarrow> CapacityReservation \<Rightarrow> bool"
where
  "reservation_held resource unit t r =
     (cr_resource_id r = resource \<and> cr_unit r = unit
      \<and> (cr_status r = Cap_RESERVED \<and> cr_expires_at r > t \<or> cr_status r = Cap_CLAIMED))"

definition held_capacity :: "string \<Rightarrow> string \<Rightarrow> datetime \<Rightarrow> CapacityReservation list \<Rightarrow> rat" where
  "held_capacity resource unit t rows =
     sum_list (map cr_maximum_quantity (filter (reservation_held resource unit t) rows))"

definition reservation_binding ::
  "CapacityReservation \<Rightarrow> string \<times> string \<times> rat \<times> string \<times> datetime"
where
  "reservation_binding r =
     (cr_resource_id r, cr_execution_id r, cr_maximum_quantity r, cr_unit r, cr_expires_at r)"

text \<open>
  The row that is inserted: whatever status, claim token and version the argument carries,
  the columns start as RESERVED, NULL and 0, and reading a row back overlays the columns.
\<close>

definition fresh_reservation :: "CapacityReservation \<Rightarrow> CapacityReservation" where
  "fresh_reservation r = r\<lparr>cr_status := Cap_RESERVED, cr_claim_token := None, cr_version := 0\<rparr>"

definition reserve_capacity ::
  "CapacityReservation \<Rightarrow> decimal option \<Rightarrow> datetime \<Rightarrow> store
    \<Rightarrow> CapacityReservation result \<times> store"
where
  "reserve_capacity r known_available current s =
     (if cr_expires_at r \<le> current
      then (Err (ConfigurationError ''capacity reservation is already expired''), s)
      else if \<not> opt_all finite_nonneg known_available
      then (Err (ConfigurationError ''known capacity must be finite and non-negative''), s)
      else if cr_maximum_quantity r \<noteq> 0 \<and> known_available = None
      then (Err (ConfigurationError ''unknown capacity cannot be reserved''), s)
      else immediate_transaction (\<lambda>s.
        case select_row (\<lambda>x. cr_idempotency_key x = cr_idempotency_key r)
               (capacity_reservations s) of
          Some stored \<Rightarrow>
            if reservation_binding stored \<noteq> reservation_binding r
            then (Err (ConfigurationError
                   ''capacity reservation idempotency key was reused with different data''), s)
            else (Ok stored, s)
        | None \<Rightarrow>
            let held = held_capacity (cr_resource_id r) (cr_unit r) current
                         (capacity_reservations s) in
            if \<not> opt_all (\<lambda>a. held + cr_maximum_quantity r \<le> decimal_value a) known_available
            then (Err (ConfigurationError
                   ''capacity reservation exceeds known available capacity''), s)
            else if \<exists>x \<in> set (capacity_reservations s).
                      cr_reservation_id x = cr_reservation_id r
            then (Err (IntegrityError ''PRIMARY KEY capacity_reservations''), s)
            else (Ok r, s\<lparr>capacity_reservations :=
                           capacity_reservations s @ [fresh_reservation r]\<rparr>)) s)"

definition get_capacity_reservation :: "string \<Rightarrow> store \<Rightarrow> CapacityReservation option" where
  "get_capacity_reservation rid s =
     select_row (\<lambda>x. cr_reservation_id x = rid) (capacity_reservations s)"

definition claim_capacity_reservation ::
  "string \<Rightarrow> string \<Rightarrow> int \<Rightarrow> datetime \<Rightarrow> store \<Rightarrow> CapacityReservation result \<times> store"
where
  "claim_capacity_reservation rid token expected_version current = immediate_transaction (\<lambda>s.
     case get_capacity_reservation rid s of
       None \<Rightarrow> (Err (ConfigurationError ''capacity reservation does not exist''), s)
     | Some stored \<Rightarrow>
         if cr_status stored = Cap_CLAIMED
         then if cr_claim_token stored \<noteq> Some token
              then (Err (ConfigurationError ''capacity reservation is claimed by another worker''), s)
              else (Ok stored, s)
         else if cr_expires_at stored \<le> current
         then (Err (ConfigurationError ''capacity reservation expired before claim''),
               s\<lparr>capacity_reservations := update_rows (\<lambda>x. cr_reservation_id x = rid)
                   (\<lambda>x. x\<lparr>cr_status := Cap_EXPIRED, cr_version := cr_version x + 1,
                          cr_updated_at := current\<rparr>) (capacity_reservations s)\<rparr>)
         else if cr_status stored \<noteq> Cap_RESERVED
         then (Err (ConfigurationError ''cannot claim capacity''), s)
         else
           let hit = (\<lambda>x. cr_reservation_id x = rid \<and> cr_version x = expected_version
                        \<and> cr_status x = Cap_RESERVED);
               rows = capacity_reservations s;
               rows' = update_rows hit (\<lambda>x. x\<lparr>cr_status := Cap_CLAIMED,
                         cr_claim_token := Some token, cr_version := cr_version x + 1,
                         cr_updated_at := current\<rparr>) rows;
               s' = s\<lparr>capacity_reservations := rows'\<rparr> in
           if rowcount hit rows \<noteq> 0
              \<and> (\<exists>x \<in> set rows. cr_reservation_id x \<noteq> rid \<and> cr_claim_token x = Some token)
           then (Err (IntegrityError ''UNIQUE capacity_reservations.claim_token''), s)
           else if rowcount hit rows \<noteq> 1
           then (Err (ConfigurationError ''capacity reservation compare-and-set failed''), s')
           else case get_capacity_reservation rid s' of
                  None \<Rightarrow> (Err (TypeError ''NoneType is not subscriptable''), s')
                | Some claimed \<Rightarrow> (Ok claimed, s'))"

definition release_capacity_reservation ::
  "string \<Rightarrow> int \<Rightarrow> datetime \<Rightarrow> store \<Rightarrow> CapacityReservation result \<times> store"
where
  "release_capacity_reservation rid expected_version current = immediate_transaction (\<lambda>s.
     case get_capacity_reservation rid s of
       None \<Rightarrow> (Err (ConfigurationError ''capacity reservation does not exist''), s)
     | Some stored \<Rightarrow>
         if cr_status stored = Cap_RELEASED then (Ok stored, s)
         else if cr_status stored \<notin> {Cap_RESERVED, Cap_CLAIMED}
         then (Err (ConfigurationError ''cannot release capacity''), s)
         else
           let hit = (\<lambda>x. cr_reservation_id x = rid \<and> cr_version x = expected_version
                        \<and> cr_status x = cr_status stored);
               rows = capacity_reservations s;
               s' = s\<lparr>capacity_reservations := update_rows hit
                       (\<lambda>x. x\<lparr>cr_status := Cap_RELEASED, cr_version := cr_version x + 1,
                              cr_updated_at := current\<rparr>) rows\<rparr> in
           if rowcount hit rows \<noteq> 1
           then (Err (ConfigurationError ''capacity reservation compare-and-set failed''), s')
           else case get_capacity_reservation rid s' of
                  None \<Rightarrow> (Err (TypeError ''NoneType is not subscriptable''), s')
                | Some released \<Rightarrow> (Ok released, s'))"

section \<open>Entitlements\<close>

definition save_capacity_authorization_evidence ::
  "CapacityAuthorizationEvidence \<Rightarrow> store \<Rightarrow> CapacityAuthorizationEvidence result \<times> store"
where
  "save_capacity_authorization_evidence ev = immediate_transaction (\<lambda>s.
     case immutable_insert_locked (\<lambda>x y. ca_evidence_id x = ca_evidence_id y)
            (\<lambda>x. ca_evidence_id x = ca_evidence_id ev) ev
            (capacity_authorization_evidence s) of
       (Inl e, t) \<Rightarrow> (Err e, s\<lparr>capacity_authorization_evidence := t\<rparr>)
     | (Inr _, t) \<Rightarrow> (Ok ev, s\<lparr>capacity_authorization_evidence := t\<rparr>))"

definition authorization_matches ::
  "CapacityAuthorizationEvidence \<Rightarrow> ExecutionEntitlement \<Rightarrow> bool"
where
  "authorization_matches ev e =
     (\<not> (ca_resource_id ev \<noteq> ee_backing_resource_id e
         \<or> ca_resource_fingerprint ev \<noteq> ee_backing_resource_fingerprint e
         \<or> ca_issuer_principal_digest ev \<noteq> ee_issuer_principal_digest e
         \<or> ca_expires_at ev < ee_expires_at e))"

definition entitlement_authorization_error ::
  "ExecutionEntitlement \<Rightarrow> store \<Rightarrow> error option"
where
  "entitlement_authorization_error e s =
     (if truthy (ee_authorization_evidence_id e)
      then case select_row (\<lambda>x. Some (ca_evidence_id x) = ee_authorization_evidence_id e)
                  (capacity_authorization_evidence s) of
             None \<Rightarrow> Some (ConfigurationError ''entitlement authorization evidence is missing'')
           | Some ev \<Rightarrow>
               if \<not> authorization_matches ev e
               then Some (ConfigurationError ''entitlement authorization evidence does not match'')
               else None
      else None)"

definition save_execution_entitlement ::
  "(ExecutionEntitlement \<Rightarrow> string) \<Rightarrow> ExecutionEntitlement \<Rightarrow> store
    \<Rightarrow> ExecutionEntitlement result \<times> store"
where
  "save_execution_entitlement digest e = immediate_transaction (\<lambda>s.
     case entitlement_authorization_error e s of
       Some err \<Rightarrow> (Err err, s)
     | None \<Rightarrow>
         (case select_row (\<lambda>x. ee_entitlement_id (en_entitlement x) = ee_entitlement_id e
                  \<or> ee_nonce (en_entitlement x) = ee_nonce e) (execution_entitlements s) of
            Some row \<Rightarrow>
              if en_payload_digest row \<noteq> digest e
              then (Err (ConfigurationError
                     ''entitlement ID or nonce was reused with different data''), s)
              else (Ok (en_entitlement row), s)
          | None \<Rightarrow>
              if ee_authorization_evidence_id e = Some [] \<and>
                 (\<forall>x \<in> set (capacity_authorization_evidence s). ca_evidence_id x \<noteq> [])
              then (Err (IntegrityError ''FOREIGN KEY execution_entitlements''), s)
              else (Ok e, s\<lparr>execution_entitlements := execution_entitlements s @
                     [\<lparr>en_entitlement = e, en_remaining_quantity = ee_maximum_quantity e,
                       en_state = Ent_active, en_version = 0,
                       en_payload_digest = digest e\<rparr>]\<rparr>)))"

text \<open>
  \<open>redeem_entitlement\<close>. \<open>capacity_digest\<close> of the dictionary of four values and the hash of
  \<open>_payment_operation_result_id\<close> are arguments.
\<close>

definition mk_redemption :: "EntitlementRedemptionReceipt \<Rightarrow> EntitlementRedemptionReceipt result" where
  "mk_redemption r = (case validate_redemption r of Inl e \<Rightarrow> Err e | Inr _ \<Rightarrow> Ok r)"

definition redeem_entitlement ::
  "(string \<Rightarrow> string \<Rightarrow> rat \<Rightarrow> rat \<Rightarrow> string) \<Rightarrow> (string \<Rightarrow> string \<Rightarrow> string)
    \<Rightarrow> string \<Rightarrow> string \<Rightarrow> decimal \<Rightarrow> datetime \<Rightarrow> store
    \<Rightarrow> EntitlementRedemptionReceipt result \<times> store"
where
  "redeem_entitlement redemption_digest result_id eid attempt_id quantity current s =
     (if \<not> finite_decimal quantity \<or> decimal_value quantity \<le> 0
      then (Err (ConfigurationError ''redemption quantity must be finite and positive''), s)
      else let requested = decimal_value quantity in immediate_transaction (\<lambda>s.
        case select_row (\<lambda>x. er_attempt_id x = attempt_id) (entitlement_redemptions s) of
          Some replay \<Rightarrow>
            if er_entitlement_id replay \<noteq> eid \<or> er_quantity_consumed replay \<noteq> requested
            then (Err (ConfigurationError ''redemption attempt was reused with different data''), s)
            else (Ok replay, s)
        | None \<Rightarrow>
          (case select_row (\<lambda>x. ee_entitlement_id (en_entitlement x) = eid)
                  (execution_entitlements s) of
             None \<Rightarrow> (Err (ConfigurationError ''execution entitlement does not exist''), s)
           | Some row \<Rightarrow>
             if ee_expires_at (en_entitlement row) \<le> current
             then (Err (ConfigurationError ''execution entitlement is expired''),
                   s\<lparr>execution_entitlements := update_rows
                       (\<lambda>x. ee_entitlement_id (en_entitlement x) = eid \<and> en_state x = Ent_active)
                       (\<lambda>x. x\<lparr>en_state := Ent_expired, en_version := en_version x + 1\<rparr>)
                       (execution_entitlements s)\<rparr>)
             else if en_state row \<noteq> Ent_active
             then (Err (ConfigurationError ''execution entitlement is not active''), s)
             else if requested > en_remaining_quantity row
             then (Err (ConfigurationError ''redemption exceeds entitlement maximum''), s)
             else
               let new_remaining = en_remaining_quantity row - requested in
               case mk_redemption
                 \<lparr>er_redemption_id = result_id ''redemption'' attempt_id,
                  er_entitlement_id = eid, er_attempt_id = attempt_id,
                  er_quantity_consumed = requested, er_remaining_quantity = new_remaining,
                  er_status = (if new_remaining = 0 then Redeem_CONSUMED else Redeem_PARTIAL),
                  er_evidence_digest =
                    redemption_digest (en_payload_digest row) attempt_id requested new_remaining,
                  er_timestamp = current\<rparr> of
                 Inl e \<Rightarrow> (Err e, s)
               | Inr receipt \<Rightarrow>
                   if \<exists>x \<in> set (entitlement_redemptions s).
                        er_redemption_id x = er_redemption_id receipt
                   then (Err (IntegrityError ''PRIMARY KEY entitlement_redemptions''), s)
                   else (Ok receipt,
                     s\<lparr>entitlement_redemptions := entitlement_redemptions s @ [receipt],
                       execution_entitlements := update_rows
                         (\<lambda>x. ee_entitlement_id (en_entitlement x) = eid
                              \<and> en_version x = en_version row \<and> en_state x = Ent_active)
                         (\<lambda>x. x\<lparr>en_remaining_quantity := new_remaining,
                                en_state := (if new_remaining = 0 then Ent_consumed else Ent_active),
                                en_version := en_version x + 1\<rparr>)
                         (execution_entitlements s)\<rparr>))) s)"

definition release_execution_entitlement ::
  "string \<Rightarrow> int \<Rightarrow> datetime \<Rightarrow> store \<Rightarrow> unit result \<times> store"
where
  "release_execution_entitlement eid expected_version current = immediate_transaction (\<lambda>s.
     case select_row (\<lambda>x. ee_entitlement_id (en_entitlement x) = eid)
            (execution_entitlements s) of
       None \<Rightarrow> (Err (ConfigurationError ''execution entitlement does not exist''), s)
     | Some row \<Rightarrow>
         if en_state row = Ent_released then (Ok (), s)
         else if ee_expires_at (en_entitlement row) \<le> current
         then (Err (ConfigurationError ''cannot release expired entitlement''), s)
         else if en_state row \<noteq> Ent_active
         then (Err (ConfigurationError ''cannot release entitlement''), s)
         else
           let hit = (\<lambda>x. ee_entitlement_id (en_entitlement x) = eid \<and> en_state x = Ent_active
                        \<and> en_version x = expected_version);
               s' = s\<lparr>execution_entitlements := update_rows hit
                       (\<lambda>x. x\<lparr>en_state := Ent_released, en_version := en_version x + 1\<rparr>)
                       (execution_entitlements s)\<rparr> in
           if rowcount hit (execution_entitlements s) \<noteq> 1
           then (Err (ConfigurationError ''execution entitlement compare-and-set failed''), s')
           else (Ok (), s'))"

definition list_entitlement_redemptions ::
  "string \<Rightarrow> int \<Rightarrow> store \<Rightarrow> EntitlementRedemptionReceipt list"
where
  "list_entitlement_redemptions eid limit s =
     take (nat (max 1 (min limit 10000)))
       (sort_key er_timestamp
         (filter (\<lambda>x. er_entitlement_id x = eid) (entitlement_redemptions s)))"

end
