(* ===== verification/Attempt_Store.thy ===== *)
theory Attempt_Store
  imports Capacity_Store
begin

text \<open>
  The execution-attempt table of \<open>ReceiptStore\<close> (\<open>aeep/store.py\<close>) and the recovery
  coordinator of \<open>aeep/attempts.py\<close>: creation under a task scope, claiming, compare-and-set
  transitions that move the bound capacity holds in the same transaction, and recovery.
\<close>

section \<open>Creation\<close>

text \<open>The fields that a reused attempt id must not change.\<close>

definition attempt_authority ::
  "ExecutionAttempt \<Rightarrow> string option \<times> string \<times> string option \<times> string \<times> string \<times> string
     \<times> SideEffect \<times> bool"
where
  "attempt_authority a =
     (ea_task_scope_digest a, ea_decision_id a, ea_prepared_id a, ea_action_digest a,
      ea_executor_id a, ea_executor_fingerprint a, ea_side_effect a, ea_idempotent a)"

definition unrevoked_scope :: "string \<Rightarrow> store \<Rightarrow> TaskScope option" where
  "unrevoked_scope d s =
     (case select_row (\<lambda>r. tr_digest r = d) (task_scopes s) of
        None \<Rightarrow> None
      | Some r \<Rightarrow>
          if \<exists>v \<in> set (assessment_reviews s). rv_digest v = d \<and> \<not> rv_revoked v
          then Some (tr_scope r) else None)"

definition scope_attempts :: "string \<Rightarrow> store \<Rightarrow> ExecutionAttempt list" where
  "scope_attempts d s = filter (\<lambda>a. ea_task_scope_digest a = Some d) (execution_attempts s)"

definition scope_error :: "datetime \<Rightarrow> ExecutionAttempt \<Rightarrow> store \<Rightarrow> error option" where
  "scope_error now a s =
     (case ea_task_scope_digest a of
        None \<Rightarrow> None
      | Some d \<Rightarrow>
          (case unrevoked_scope d s of
             None \<Rightarrow> Some (ConfigurationError ''task scope is paused or unavailable'')
           | Some scope \<Rightarrow>
               if now \<ge> ts_expires_at scope
               then Some (ConfigurationError ''task scope expired'')
               else if map_of (ts_executor_fingerprints scope) (ea_executor_id a)
                         \<noteq> Some (ea_executor_fingerprint a)
                       \<or> side_effect_rank (ea_side_effect a)
                           > side_effect_rank (ts_approval_ceiling scope)
               then Some (ConfigurationError ''attempt exceeds its exact task authority'')
               else if length (scope_attempts d s) \<ge> ts_max_attempts scope
                       \<or> (\<exists>x \<in> set (scope_attempts d s). \<not> terminal_attempt (ea_state x))
               then Some (ConfigurationError
                 ''task scope allowance exhausted or an earlier attempt needs completion/recovery'')
               else None))"

definition get_execution_attempt :: "string \<Rightarrow> store \<Rightarrow> ExecutionAttempt option" where
  "get_execution_attempt aid s = select_row (\<lambda>x. ea_attempt_id x = aid) (execution_attempts s)"

definition create_execution_attempt ::
  "datetime \<Rightarrow> ExecutionAttempt \<Rightarrow> store \<Rightarrow> ExecutionAttempt result \<times> store"
where
  "create_execution_attempt now a = immediate_transaction (\<lambda>s.
     case get_execution_attempt (ea_attempt_id a) s of
       Some stored \<Rightarrow>
         if attempt_authority stored \<noteq> attempt_authority a
         then (Err (ConfigurationError ''execution attempt ID was reused with different authority''), s)
         else (Ok stored, s)
     | None \<Rightarrow>
         (case scope_error now a s of
            Some e \<Rightarrow> (Err e, s)
          | None \<Rightarrow> (Ok a, s\<lparr>execution_attempts := execution_attempts s @ [a]\<rparr>)))"

section \<open>Updates\<close>

definition save_attempt_update_locked ::
  "ExecutionAttempt \<Rightarrow> ExecutionAttempt \<Rightarrow> string option \<Rightarrow> store \<Rightarrow> unit result \<times> store"
where
  "save_attempt_update_locked current updated reason s =
     (let hit = (\<lambda>x. ea_attempt_id x = ea_attempt_id current \<and> ea_state x = ea_state current
                   \<and> ea_version x = ea_version current);
          s' = s\<lparr>execution_attempts := update_rows hit (\<lambda>_. updated) (execution_attempts s)\<rparr> in
      if rowcount hit (execution_attempts s) \<noteq> 1
      then (Err (ConfigurationError ''execution-attempt compare-and-set failed''), s')
      else if \<exists>x \<in> set (execution_attempt_transitions s).
                at_attempt_id x = ea_attempt_id current \<and> at_version x = ea_version updated
      then (Err (IntegrityError ''UNIQUE execution_attempt_transitions''), s')
      else (Ok (), s'\<lparr>execution_attempt_transitions := execution_attempt_transitions s @
             [\<lparr>at_attempt_id = ea_attempt_id current, at_from_state = ea_state current,
               at_to_state = ea_state updated, at_version = ea_version updated,
               at_occurred_at = ea_updated_at updated,
               at_reason = map_option (take 2000) reason\<rparr>]\<rparr>))"

definition claim_execution_attempt ::
  "string \<Rightarrow> string \<Rightarrow> datetime \<Rightarrow> datetime \<Rightarrow> store \<Rightarrow> ExecutionAttempt result \<times> store"
where
  "claim_execution_attempt aid owner claimed_at lease_expires_at s =
     (if aware lease_expires_at \<noteq> aware claimed_at
      then (Err (TypeError ''naive and aware datetimes''), s)
      else if lease_expires_at \<le> claimed_at
      then (Err (ConfigurationError ''execution-attempt lease must expire after claim''), s)
      else immediate_transaction (\<lambda>s.
        case get_execution_attempt aid s of
          None \<Rightarrow> (Err (ConfigurationError ''execution attempt does not exist''), s)
        | Some current \<Rightarrow>
            if ea_state current = Att_CLAIMED \<and> ea_owner_id current = Some owner
            then (Ok current, s)
            else if ea_state current \<noteq> Att_CREATED \<or> ea_version current \<noteq> 0
            then (Err (ConfigurationError ''execution attempt is already claimed''), s)
            else if \<not> aware claimed_at
            then (Err (TypeError ''naive and aware datetimes''), s)
            else
              case mk_attempt (current\<lparr>ea_state := Att_CLAIMED, ea_owner_id := Some owner,
                     ea_lease_expires_at := Some lease_expires_at,
                     ea_heartbeat_at := Some claimed_at, ea_version := 1,
                     ea_updated_at := max (ea_updated_at current) claimed_at\<rparr>) of
                Inl e \<Rightarrow> (Err e, s)
              | Inr updated \<Rightarrow>
                  (case save_attempt_update_locked current updated (Some ''claimed'') s of
                     (Inl e, s') \<Rightarrow> (Err e, s')
                   | (Inr _, s') \<Rightarrow> (Ok updated, s'))) s)"

text \<open>The optional changes of a transition; \<open>None\<close> leaves the field as it is.\<close>

record attempt_changes =
  ac_cash_reservation_ids :: "string list option"
  ac_capacity_reservation_ids :: "string list option"
  ac_invocation_start_digest :: "string option"
  ac_external_attempt_digest :: "string option"
  ac_external_thread_digest :: "string option"
  ac_external_turn_digest :: "string option"
  ac_terminal_receipt_ids :: "string list option"

definition no_changes :: attempt_changes where
  "no_changes = \<lparr>ac_cash_reservation_ids = None, ac_capacity_reservation_ids = None,
     ac_invocation_start_digest = None, ac_external_attempt_digest = None,
     ac_external_thread_digest = None, ac_external_turn_digest = None,
     ac_terminal_receipt_ids = None\<rparr>"

definition given :: "'a option \<Rightarrow> 'a \<Rightarrow> 'a" where
  "given change old = (case change of None \<Rightarrow> old | Some v \<Rightarrow> v)"

definition given_opt :: "'a option \<Rightarrow> 'a option \<Rightarrow> 'a option" where
  "given_opt change old = (case change of None \<Rightarrow> old | Some v \<Rightarrow> Some v)"

lemma given_simps [simp]:
  "given None x = x" "given (Some y) x = y" "given_opt None z = z" "given_opt (Some y) z = Some y"
  by (simp_all add: given_def given_opt_def)

definition changed_attempt ::
  "ExecutionAttempt \<Rightarrow> ExecutionAttemptState \<Rightarrow> datetime \<Rightarrow> string option \<Rightarrow> attempt_changes
    \<Rightarrow> ExecutionAttempt"
where
  "changed_attempt current target moment reason ch =
     current\<lparr>ea_state := target, ea_version := ea_version current + 1,
       ea_updated_at := max (ea_updated_at current) moment, ea_heartbeat_at := Some moment,
       ea_cash_reservation_ids :=
         given (ac_cash_reservation_ids ch) (ea_cash_reservation_ids current),
       ea_capacity_reservation_ids :=
         given (ac_capacity_reservation_ids ch) (ea_capacity_reservation_ids current),
       ea_invocation_start_digest :=
         given_opt (ac_invocation_start_digest ch) (ea_invocation_start_digest current),
       ea_external_attempt_digest :=
         given_opt (ac_external_attempt_digest ch) (ea_external_attempt_digest current),
       ea_external_thread_digest :=
         given_opt (ac_external_thread_digest ch) (ea_external_thread_digest current),
       ea_external_turn_digest :=
         given_opt (ac_external_turn_digest ch) (ea_external_turn_digest current),
       ea_terminal_receipt_ids :=
         given (ac_terminal_receipt_ids ch) (ea_terminal_receipt_ids current),
       ea_recovery_reason :=
         given_opt (map_option (take 2000) reason) (ea_recovery_reason current)\<rparr>"

section \<open>Capacity bound to an attempt\<close>

text \<open>One round of the loop of \<open>_transition_attempt_capacity_locked\<close>, then the loop.\<close>

definition transition_hold ::
  "ExecutionAttempt \<Rightarrow> ExecutionAttempt \<Rightarrow> string \<Rightarrow> store \<Rightarrow> unit result \<times> store"
where
  "transition_hold current updated rid s =
     (case get_capacity_reservation rid s of
        None \<Rightarrow> (Err (ConfigurationError
                  ''capacity reservation does not belong to execution attempt''), s)
      | Some hold \<Rightarrow>
          if cr_execution_id hold \<noteq> ea_attempt_id current
          then (Err (ConfigurationError
                 ''capacity reservation does not belong to execution attempt''), s)
          else if ea_state updated \<in> {Att_RESERVED, Att_INVOKING}
               \<and> (cr_status hold \<noteq> Cap_RESERVED \<or> cr_expires_at hold \<le> ea_updated_at updated)
          then (Err (ConfigurationError
                 ''capacity reservation is not available for invocation''), s)
          else if ea_state updated = Att_INVOKING
          then if ea_owner_id current \<noteq> None
                  \<and> (\<exists>x \<in> set (capacity_reservations s).
                        cr_reservation_id x \<noteq> rid \<and> cr_claim_token x = ea_owner_id current)
               then (Err (IntegrityError ''UNIQUE capacity_reservations.claim_token''), s)
               else (Ok (), s\<lparr>capacity_reservations :=
                       update_rows (\<lambda>x. cr_reservation_id x = rid)
                         (\<lambda>x. x\<lparr>cr_status := Cap_CLAIMED, cr_claim_token := ea_owner_id current,
                                cr_version := cr_version x + 1,
                                cr_updated_at := ea_updated_at updated\<rparr>)
                         (capacity_reservations s)\<rparr>)
          else if terminal_attempt (ea_state updated)
          then if cr_status hold \<notin> {Cap_RESERVED, Cap_CLAIMED}
               then (Err (ConfigurationError
                      ''execution-attempt capacity was already finalized''), s)
               else (Ok (), s\<lparr>capacity_reservations :=
                       update_rows (\<lambda>x. cr_reservation_id x = rid)
                         (\<lambda>x. x\<lparr>cr_status := Cap_RELEASED, cr_version := cr_version x + 1,
                                cr_updated_at := ea_updated_at updated\<rparr>)
                         (capacity_reservations s)\<rparr>)
          else (Ok (), s))"

fun transition_holds ::
  "ExecutionAttempt \<Rightarrow> ExecutionAttempt \<Rightarrow> string list \<Rightarrow> store \<Rightarrow> unit result \<times> store"
where
  "transition_holds current updated [] s = (Ok (), s)"
| "transition_holds current updated (rid # rids) s =
     (case transition_hold current updated rid s of
        (Inl e, s') \<Rightarrow> (Err e, s')
      | (Inr _, s') \<Rightarrow> transition_holds current updated rids s')"

definition transition_attempt_capacity_locked ::
  "ExecutionAttempt \<Rightarrow> ExecutionAttempt \<Rightarrow> store \<Rightarrow> unit result \<times> store"
where
  "transition_attempt_capacity_locked current updated s =
     (if ea_capacity_reservation_ids updated \<noteq> ea_capacity_reservation_ids current
         \<and> \<not> (ea_state current = Att_CLAIMED \<and> ea_state updated = Att_RESERVED
               \<and> ea_capacity_reservation_ids current = [])
      then (Err (ConfigurationError ''execution-attempt capacity bindings are immutable''), s)
      else transition_holds current updated (ea_capacity_reservation_ids updated) s)"

definition transition_execution_attempt ::
  "string \<Rightarrow> ExecutionAttemptState \<Rightarrow> int \<Rightarrow> ExecutionAttemptState \<Rightarrow> datetime \<Rightarrow> string option
    \<Rightarrow> attempt_changes \<Rightarrow> store \<Rightarrow> ExecutionAttempt result \<times> store"
where
  "transition_execution_attempt aid expected_state expected_version target moment reason ch =
     immediate_transaction (\<lambda>s.
       case get_execution_attempt aid s of
         None \<Rightarrow> (Err (ConfigurationError ''execution attempt does not exist''), s)
       | Some current \<Rightarrow>
           if ea_state current \<noteq> expected_state \<or> ea_version current \<noteq> expected_version
           then (Err (ConfigurationError ''execution-attempt compare-and-set failed''), s)
           else if \<not> can_transition_to current target
           then (Err (ConfigurationError ''illegal execution-attempt transition''), s)
           else if \<not> aware moment
           then (Err (TypeError ''naive and aware datetimes''), s)
           else
             case mk_attempt (changed_attempt current target moment reason ch) of
               Inl e \<Rightarrow> (Err e, s)
             | Inr updated \<Rightarrow>
                 (case transition_attempt_capacity_locked current updated s of
                    (Inl e, s1) \<Rightarrow> (Err e, s1)
                  | (Inr _, s1) \<Rightarrow>
                      (case save_attempt_update_locked current updated reason s1 of
                         (Inl e, s2) \<Rightarrow> (Err e, s2)
                       | (Inr _, s2) \<Rightarrow> (Ok updated, s2))))"

section \<open>Queries and recovery\<close>

definition recoverable_state :: "ExecutionAttemptState \<Rightarrow> bool" where
  "recoverable_state st =
     (st \<in> {Att_CLAIMED, Att_RESERVED, Att_INVOKING, Att_VALIDATING, Att_SETTLING,
            Att_INDETERMINATE})"

definition list_recoverable_execution_attempts ::
  "datetime \<Rightarrow> int \<Rightarrow> store \<Rightarrow> ExecutionAttempt list"
where
  "list_recoverable_execution_attempts now limit s =
     take (nat (max 1 (min limit 10000)))
       (sort_key (\<lambda>a. (ea_updated_at a, ea_attempt_id a))
         (filter (\<lambda>a. recoverable_state (ea_state a)
                    \<and> (case ea_lease_expires_at a of None \<Rightarrow> False | Some l \<Rightarrow> l \<le> now))
           (execution_attempts s)))"

text \<open>\<open>ORDER BY updated_at DESC, rowid DESC LIMIT 1\<close>.\<close>

definition newest_attempt :: "(ExecutionAttempt \<Rightarrow> bool) \<Rightarrow> store \<Rightarrow> ExecutionAttempt option" where
  "newest_attempt p s =
     (case rev (sort_key ea_updated_at (filter p (execution_attempts s))) of
        [] \<Rightarrow> None | a # _ \<Rightarrow> Some a)"

definition execution_attempt_for_decision :: "string \<Rightarrow> store \<Rightarrow> ExecutionAttempt option" where
  "execution_attempt_for_decision d = newest_attempt (\<lambda>a. ea_decision_id a = d)"

definition execution_attempt_for_prepared :: "string \<Rightarrow> store \<Rightarrow> ExecutionAttempt option" where
  "execution_attempt_for_prepared p = newest_attempt (\<lambda>a. ea_prepared_id a = Some p)"

definition recover_after_lease ::
  "string \<Rightarrow> string option \<Rightarrow> datetime \<Rightarrow> store \<Rightarrow> ExecutionAttempt result \<times> store"
where
  "recover_after_lease aid inspected now s =
     (case get_execution_attempt aid s of
        None \<Rightarrow> (Err (ValueError ''execution attempt does not exist''), s)
      | Some a \<Rightarrow>
          if (case ea_lease_expires_at a of None \<Rightarrow> True | Some l \<Rightarrow> l > now)
          then (Err (ValueError ''execution attempt lease is still active''), s)
          else if ea_state a = Att_INVOKING
          then transition_execution_attempt aid (ea_state a) (ea_version a) Att_INDETERMINATE now
                 (Some (case inspected of
                          Some status \<Rightarrow> ''external status inspected: '' @ status
                        | None \<Rightarrow> ''external status unavailable after invocation boundary''))
                 no_changes s
          else (Err (ValueError
                 ''only an expired INVOKING attempt uses external recovery inspection''), s))"

end
