(* ===== verification/Capacity_Policy.thy ===== *)
theory Capacity_Policy
  imports Capacity_Models
begin

text \<open>
  \<open>aeep/capacity/policy.py\<close>, \<open>entitlements.py\<close> and \<open>reservations.py\<close>: reducing an
  observation's windows to one routing quota, and the fail-closed authority checks in front
  of an execution entitlement. The canonical digest of an observation rests on the RFC 8785
  package and is an argument.
\<close>

section \<open>Operations\<close>

text \<open>\<open>_quota_state\<close>: thresholds on the used percentage.\<close>

definition quota_state_of :: "rat option \<Rightarrow> QuotaState" where
  "quota_state_of used_percent = (case used_percent of
     None \<Rightarrow> Quota_UNKNOWN
   | Some u \<Rightarrow>
       if u \<le> 25 then Quota_ABUNDANT
       else if u \<le> 60 then Quota_NORMAL
       else if u \<le> 80 then Quota_TIGHT
       else if u < 100 then Quota_CRITICAL
       else Quota_EXHAUSTED)"

text \<open>The values some windows report, and their minimum or maximum when there is one.\<close>

definition reported :: "('w \<Rightarrow> 'v option) \<Rightarrow> 'w list \<Rightarrow> 'v list" where
  "reported f ws = List.map_filter f ws"

definition min_reported :: "rat list \<Rightarrow> rat option" where
  "min_reported xs = (if xs = [] then None else Some (Min (set xs)))"

definition max_reported :: "rat list \<Rightarrow> rat option" where
  "max_reported xs = (if xs = [] then None else Some (Max (set xs)))"

text \<open>
  The sort key \<open>(used_percent or -1, -(remaining or Infinity), window_id)\<close>; \<open>None\<close> in the
  second component is minus infinity, below every number. Sorting with \<open>reverse=True\<close>
  keeps equal windows in their original order.
\<close>

definition window_rank :: "CapacityWindow \<Rightarrow> rat \<times> rat option \<times> string" where
  "window_rank w =
     ((case cw_used_percent w of Some u \<Rightarrow> u | None \<Rightarrow> -1),
      map_option uminus (cw_remaining w), cw_window_id w)"

definition ranked_windows :: "CapacityWindow list \<Rightarrow> CapacityWindow list" where
  "ranked_windows ws = rev (sort_key window_rank (rev ws))"

definition observation_quota ::
  "(CapacityObservation \<Rightarrow> string) \<Rightarrow> CapacityObservation \<Rightarrow> string \<Rightarrow> datetime \<Rightarrow> SubscriptionQuota result"
where
  "observation_quota digest ob unit current =
     (let windows = filter (\<lambda>w. cw_unit w = unit) (co_windows ob) in
      case ranked_windows windows of
        [] \<Rightarrow> mk_quota
          \<lparr>sq_state = Quota_UNKNOWN, sq_reset_at = None, sq_observed_at = None,
           sq_confidence = 0, sq_source = Src_RATE_LIMIT, sq_unit = unit,
           sq_allowance_units = None, sq_remaining_units = None, sq_used_percent = None,
           sq_window_duration_seconds = None,
           sq_window_count = int (length (co_windows ob)),
           sq_evidence_digest = Some (digest ob)\<rparr>
      | controlling # _ \<Rightarrow> mk_quota
          \<lparr>sq_state =
             (if \<exists>w \<in> set windows. cw_hard_limit w \<and> cw_exhausted w then Quota_EXHAUSTED
              else quota_state_of (max_reported (reported cw_used_percent windows))),
           sq_reset_at =
             (case cw_reset_at controlling of
                None \<Rightarrow> None
              | Some r \<Rightarrow> if r > current then Some r else None),
           sq_observed_at = Some (co_observed_at ob),
           sq_confidence = Min (set (map cw_confidence windows)),
           sq_source = Src_RATE_LIMIT, sq_unit = unit,
           sq_allowance_units = min_reported (reported cw_allowance windows),
           sq_remaining_units = min_reported (reported cw_remaining windows),
           sq_used_percent = cw_used_percent controlling,
           sq_window_duration_seconds = cw_duration_seconds controlling,
           sq_window_count = int (length windows),
           sq_evidence_digest = Some (digest ob)\<rparr>)"

definition require_entitlement_authority ::
  "CapacityTransferability \<Rightarrow> string \<Rightarrow> string \<Rightarrow> rat option \<Rightarrow> rat
     \<Rightarrow> CapacityAuthorizationEvidence option \<Rightarrow> unit result"
where
  "require_entitlement_authority transferability issuer beneficiary known_available requested
     authorization =
     (if requested \<le> 0 then Err (ValueError ''entitlement quantity must be positive'')
      else case known_available of
        None \<Rightarrow> Err (ValueError ''unknown capacity cannot authorize an entitlement'')
      | Some available \<Rightarrow>
        if requested > available
        then Err (ValueError ''entitlement exceeds known available capacity'')
        else if transferability \<in> {Xfer_SELF_ONLY, Xfer_SAME_PRINCIPAL}
        then (if issuer \<noteq> beneficiary
              then Err (ValueError ''self-only capacity cannot name an external beneficiary'')
              else Ok ())
        else case authorization of
          None \<Rightarrow> Err (ValueError ''external entitlement requires provider authorization evidence'')
        | Some a \<Rightarrow>
          if ca_issuer_principal_digest a \<noteq> issuer
          then Err (ValueError ''authorization issuer does not match entitlement issuer'')
          else if ca_authorized_beneficiary_digest a \<noteq> None
               \<and> ca_authorized_beneficiary_digest a \<noteq> Some beneficiary
          then Err (ValueError ''authorization beneficiary does not match entitlement beneficiary'')
          else Ok ())"

text \<open>
  \<open>issue_entitlement\<close>. The fields of the entitlement to build come as the record \<open>e\<close>;
  the generated identifier and the default issue time are part of it, and the evidence id
  is taken from the authorization as the code does.
\<close>

definition issue_entitlement ::
  "ExecutionEntitlement \<Rightarrow> rat option \<Rightarrow> CapacityAuthorizationEvidence option
     \<Rightarrow> ExecutionEntitlement result"
where
  "issue_entitlement e known_available authorization =
     (case require_entitlement_authority (ee_transferability_basis e)
        (ee_issuer_principal_digest e) (ee_beneficiary_principal_digest e) known_available
        (ee_maximum_quantity e) authorization of
        Inl err \<Rightarrow> Err err
      | Inr _ \<Rightarrow>
        (case (case authorization of
                 None \<Rightarrow> Ok ()
               | Some a \<Rightarrow> first_error
                   [(ca_resource_id a \<noteq> ee_backing_resource_id e,
                     ValueError ''authorization resource does not match entitlement''),
                    (ca_resource_fingerprint a \<noteq> ee_backing_resource_fingerprint e,
                     ValueError ''authorization fingerprint does not match entitlement''),
                    (ca_expires_at a < ee_expires_at e,
                     ValueError ''entitlement cannot outlive authorization evidence'')]) of
           Inl err \<Rightarrow> Err err
         | Inr _ \<Rightarrow>
           (let built = e\<lparr>ee_authorization_evidence_id := map_option ca_evidence_id authorization\<rparr> in
            case validate_entitlement built of Inl err \<Rightarrow> Err err | Inr _ \<Rightarrow> Ok built)))"

text \<open>\<open>reservation\<close>: a fresh RESERVED, unclaimed, version 0 hold, validated on construction.\<close>

definition reservation ::
  "string \<Rightarrow> datetime \<Rightarrow> string \<Rightarrow> string \<Rightarrow> rat \<Rightarrow> string \<Rightarrow> datetime \<Rightarrow> string
     \<Rightarrow> CapacityReservation result"
where
  "reservation new_identifier now resource_id execution_id maximum_quantity unit expires_at
     idempotency_key =
     (let r = \<lparr>cr_reservation_id = new_identifier, cr_resource_id = resource_id,
        cr_execution_id = execution_id, cr_maximum_quantity = maximum_quantity,
        cr_unit = unit, cr_expires_at = expires_at, cr_status = Cap_RESERVED,
        cr_idempotency_key = idempotency_key, cr_claim_token = None, cr_version = 0,
        cr_created_at = now, cr_updated_at = now\<rparr>
      in case validate_reservation r of Inl e \<Rightarrow> Err e | Inr _ \<Rightarrow> Ok r)"

section \<open>Quota lemmas\<close>

lemma set_reported: "set (reported f ws) = {v. \<exists>w \<in> set ws. f w = Some v}"
  by (induction ws) (auto simp: reported_def map_filter_simps split: option.splits)

lemma min_reported_le:
  assumes "min_reported (reported f ws) = Some m" and "w \<in> set ws" and "f w = Some v"
  shows "m \<le> v"
proof -
  have "v \<in> set (reported f ws)" using assms(2,3) by (auto simp: set_reported)
  with assms(1) show ?thesis by (auto simp: min_reported_def split: if_splits)
qed

lemma min_reported_attained:
  assumes "min_reported (reported f ws) = Some m"
  shows "\<exists>w \<in> set ws. f w = Some m"
proof -
  from assms have "reported f ws \<noteq> []" and m: "m = Min (set (reported f ws))"
    by (auto simp: min_reported_def split: if_splits)
  then have "m \<in> set (reported f ws)" using Min_in by (metis List.finite_set set_empty)
  then show ?thesis by (auto simp: set_reported)
qed

lemma min_reported_None: "min_reported (reported f ws) = None \<longleftrightarrow> (\<forall>w \<in> set ws. f w = None)"
proof -
  have "reported f ws = [] \<longleftrightarrow> set (reported f ws) = {}" by simp
  also have "\<dots> \<longleftrightarrow> (\<forall>w \<in> set ws. f w = None)"
    unfolding set_reported by (auto, metis not_None_eq)
  finally show ?thesis by (simp add: min_reported_def)
qed

lemma ranked_windows_set [simp]: "set (ranked_windows ws) = set ws"
  by (simp add: ranked_windows_def)

lemma ranked_windows_Nil [simp]: "ranked_windows ws = [] \<longleftrightarrow> ws = []"
  by (metis ranked_windows_set set_empty)

lemma ranked_windows_empty [simp]: "ranked_windows [] = []"
  by (simp add: ranked_windows_def)

lemma controlling_greatest:
  assumes "ranked_windows ws = c # rest" and "w \<in> set ws"
  shows "window_rank w \<le> window_rank c"
proof -
  have "sorted (rev (map window_rank (c # rest)))"
    using assms(1) by (metis ranked_windows_def rev_map rev_rev_ident sorted_sort_key)
  moreover have "w \<in> set (c # rest)" using assms by (metis ranked_windows_set)
  ultimately show ?thesis by (auto simp: sorted_append)
qed

lemma controlling_used:
  assumes "ranked_windows ws = c # rest" and "w \<in> set ws" and "cw_used_percent w = Some u"
    and "0 \<le> u"
  shows "\<exists>m. cw_used_percent c = Some m \<and> u \<le> m"
proof -
  have "window_rank w \<le> window_rank c" using assms(1,2) by (rule controlling_greatest)
  then have "u \<le> (case cw_used_percent c of Some u \<Rightarrow> u | None \<Rightarrow> -1)"
    using assms(3) by (auto simp: window_rank_def less_eq_prod_def less_prod_def)
  then show ?thesis using assms(4) by (auto split: option.splits)
qed

lemma mk_quota_ok: "mk_quota q = Inr q' \<longleftrightarrow> q' = q \<and> validate_quota q = Inr ()"
  by (auto simp: mk_quota_def split: sum.splits)

lemma valid_window_of:
  assumes "validate_observation ob = Inr ()" and "w \<in> set (co_windows ob)"
  shows "window_fields_ok w" and "\<not> exceeds (cw_remaining w) (cw_allowance w)"
    and "opt_all aware (cw_reset_at w)"
proof -
  have "list_all (\<lambda>w. is_ok (validate_window w)) (co_windows ob)"
    using assms(1) by (simp add: validate_observation_def)
  then have "validate_window w = Inr ()"
    using assms(2) by (auto simp: list_all_iff is_ok_iff)
  then show "window_fields_ok w" and "\<not> exceeds (cw_remaining w) (cw_allowance w)"
    and "opt_all aware (cw_reset_at w)"
    by (auto simp: validate_window_def)
qed

text \<open>
  On a validated observation the only check of the quota validator that can fail is the
  comparison of the two minima; everything else holds by construction.
\<close>

lemma observation_quota_cases:
  assumes ok: "validate_observation ob = Inr ()" and dg: "sha256_digest (digest ob)"
    and un: "text_len 1 100 unit" and now: "aware current"
  defines "ws \<equiv> filter (\<lambda>w. cw_unit w = unit) (co_windows ob)"
  defines "low \<equiv> exceeds (min_reported (reported cw_remaining ws)) (min_reported (reported cw_allowance ws))"
  shows "is_ok (observation_quota digest ob unit current) \<longleftrightarrow> \<not> low"
    and "low \<Longrightarrow> observation_quota digest ob unit current
      = Inl (ValueError ''remaining_units cannot exceed allowance_units'')"
proof -
  have "if low then observation_quota digest ob unit current
          = Inl (ValueError ''remaining_units cannot exceed allowance_units'')
        else is_ok (observation_quota digest ob unit current)"
  proof (cases "ranked_windows ws")
    case Nil
    then have "ws = []" by simp
    moreover have "co_windows ob \<noteq> []" using ok by (simp add: validate_observation_def)
    moreover have "1 \<le> int (length (co_windows ob))"
      using \<open>co_windows ob \<noteq> []\<close> by (cases "co_windows ob") simp_all
    ultimately show ?thesis using Nil dg un
      by (simp add: observation_quota_def ws_def [symmetric] low_def mk_quota_def validate_quota_def
          quota_fields_ok_def min_reported_def reported_def map_filter_simps)
  next
    case (Cons c rest)
    then have c: "c \<in> set ws" and ne: "ws \<noteq> []"
      by (metis list.set_intros(1) ranked_windows_set, auto)
    have win: "window_fields_ok w" if "w \<in> set ws" for w
      using that valid_window_of(1) [OF ok] by (simp add: ws_def)
    have conf: "0 \<le> Min (set (map cw_confidence ws)) \<and> Min (set (map cw_confidence ws)) \<le> 1"
      using win c by (auto simp: window_fields_ok_def Min_le_iff ne intro!: bexI [of _ c])
    have mins: "opt_all (\<lambda>q. 0 \<le> q) (min_reported (reported f ws))"
      if "\<And>w. w \<in> set ws \<Longrightarrow> opt_all (\<lambda>q. 0 \<le> q) (f w)" for f
    proof (cases "min_reported (reported f ws)")
      case (Some m)
      then show ?thesis using min_reported_attained [OF Some] that by fastforce
    qed simp
    have reset: "opt_all aware (case cw_reset_at c of None \<Rightarrow> None
        | Some r \<Rightarrow> if r > current then Some r else None)"
      using valid_window_of(3) [OF ok, of c] c by (auto simp: ws_def split: option.splits)
    have obs: "aware (co_observed_at ob)" using ok by (simp add: validate_observation_def)
    have len: "1 \<le> int (length ws)" using ne by (cases ws) simp_all
    show ?thesis
      using Cons win [OF c] conf reset obs len dg un
        mins [of cw_remaining] mins [of cw_allowance] win
      by (simp add: observation_quota_def ws_def [symmetric] low_def mk_quota_def validate_quota_def
          quota_fields_ok_def window_fields_ok_def)
  qed
  then show "is_ok (observation_quota digest ob unit current) \<longleftrightarrow> \<not> low"
    and "low \<Longrightarrow> observation_quota digest ob unit current
      = Inl (ValueError ''remaining_units cannot exceed allowance_units'')"
    by (auto split: if_splits)
qed

section \<open>Concrete inputs\<close>

definition sample_hex :: string where
  "sample_hex = replicate 64 (CHR ''a'')"

definition sample_digest :: string where
  "sample_digest = ''sha256:'' @ sample_hex"

lemma sample_digest_ok [simp]: "sha256_digest sample_digest" "hex64 sample_hex"
  by (simp_all add: sample_digest_def sha256_digest_def hex64_def sample_hex_def lower_hex_def
      list_all_iff)

definition sample_window :: "string \<Rightarrow> rat option \<Rightarrow> rat option \<Rightarrow> rat option \<Rightarrow> CapacityWindow" where
  "sample_window wid used allowance remaining =
     \<lparr>cw_window_id = wid, cw_unit = ''credits'', cw_used_percent = used,
      cw_allowance = allowance, cw_remaining = remaining, cw_reset_at = None,
      cw_duration_seconds = Some 60, cw_hard_limit = True, cw_exhausted = False,
      cw_confidence = 1/2, cw_evidence = []\<rparr>"

definition sample_observation :: "CapacityWindow list \<Rightarrow> CapacityObservation" where
  "sample_observation ws =
     \<lparr>co_observation_id = ''o'', co_resource_id = ''pool'', co_windows = ws,
      co_source = ''cli'', co_observed_at = Aware 100, co_metadata = []\<rparr>"

lemma sample_observation_valid:
  "list_all (\<lambda>w. is_ok (validate_window w)) ws \<Longrightarrow> ws \<noteq> [] \<Longrightarrow>
     validate_observation (sample_observation ws) = Inr ()"
  by (simp add: sample_observation_def validate_observation_def text_len_def metadata_leaks_def)

lemma sample_window_valid:
  "opt_all (\<lambda>p. 0 \<le> p \<and> p \<le> 100) u \<Longrightarrow> opt_all (\<lambda>q. 0 \<le> q) a \<Longrightarrow> opt_all (\<lambda>q. 0 \<le> q) r \<Longrightarrow>
     \<not> exceeds r a \<Longrightarrow> wid \<noteq> [] \<Longrightarrow> length wid \<le> 200 \<Longrightarrow>
     is_ok (validate_window (sample_window wid u a r))"
  by (cases wid) (simp_all add: sample_window_def validate_window_def window_fields_ok_def text_len_def)

section \<open>Properties\<close>

text \<open>
  The quota an observation is reduced to is conservative. For every window of the unit:
  the routed remaining units are at most the window's, the routed used percentage is at
  least the window's, and a window that is a hard limit and exhausted makes the quota
  EXHAUSTED.
\<close>

theorem observation_quota_conservative:
  assumes q: "observation_quota digest ob unit current = Inr q"
    and ok: "validate_observation ob = Inr ()"
    and w: "w \<in> set (co_windows ob)" "cw_unit w = unit"
  shows "(\<forall>r. cw_remaining w = Some r \<longrightarrow> (\<exists>m. sq_remaining_units q = Some m \<and> m \<le> r))
    \<and> (\<forall>u. cw_used_percent w = Some u \<longrightarrow> (\<exists>m. sq_used_percent q = Some m \<and> u \<le> m))
    \<and> (cw_hard_limit w \<and> cw_exhausted w \<longrightarrow> sq_state q = Quota_EXHAUSTED)"
proof -
  define ws where "ws = filter (\<lambda>w. cw_unit w = unit) (co_windows ob)"
  have mem: "w \<in> set ws" using w by (simp add: ws_def)
  then obtain c rest where ranked: "ranked_windows ws = c # rest"
    by (metis list.exhaust list.set_cases ranked_windows_Nil empty_iff list.set(1))
  have pos: "0 \<le> u" if "cw_used_percent w = Some u" for u
    using valid_window_of(1) [OF ok w(1)] that by (simp add: window_fields_ok_def)
  have some: "\<exists>m. min_reported (reported cw_remaining ws) = Some m" if "cw_remaining w = Some r" for r
    using that mem min_reported_None [of cw_remaining ws] by (cases "min_reported (reported cw_remaining ws)") auto
  show ?thesis
    using q ranked some min_reported_le [OF _ mem] controlling_used [OF ranked mem _ pos] mem
    by (auto simp: observation_quota_def ws_def [symmetric] mk_quota_ok; fastforce)
qed

theorem observation_quota_conservative_witness:
  "\<exists>q. observation_quota (\<lambda>_. sample_digest)
        (sample_observation [sample_window ''a'' (Some 40) (Some 10) (Some 6)]) ''credits'' (Aware 0)
      = Inr q \<and> (\<exists>m. sq_used_percent q = Some m \<and> 40 \<le> m)"
proof -
  let ?w = "sample_window ''a'' (Some 40) (Some 10) (Some 6)"
  let ?ob = "sample_observation [?w]"
  have ok: "validate_observation ?ob = Inr ()"
    by (rule sample_observation_valid) (simp_all add: sample_window_valid)
  obtain q where q: "observation_quota (\<lambda>_. sample_digest) ?ob ''credits'' (Aware 0) = Inr q"
    using observation_quota_cases(1) [OF ok, of "\<lambda>_. sample_digest" "''credits''" "Aware 0"]
    by (auto simp: text_len_def sample_observation_def sample_window_def reported_def
        map_filter_simps min_reported_def is_ok_iff)
  have "?w \<in> set (co_windows ?ob)" "cw_unit ?w = ''credits''" "cw_used_percent ?w = Some 40"
    by (simp_all add: sample_observation_def sample_window_def)
  with observation_quota_conservative [OF q ok] q show ?thesis by blast
qed

text \<open>
  Reducing a valid observation fails exactly when the smallest reported remaining amount
  exceeds the smallest reported allowance, and then with the quota validator's error.
\<close>

theorem observation_quota_fails_iff:
  assumes "validate_observation ob = Inr ()" and "sha256_digest (digest ob)"
    and "text_len 1 100 unit" and "aware current"
  shows "observation_quota digest ob unit current
        = Inl (ValueError ''remaining_units cannot exceed allowance_units'')
      \<longleftrightarrow> exceeds
        (min_reported (reported cw_remaining (filter (\<lambda>w. cw_unit w = unit) (co_windows ob))))
        (min_reported (reported cw_allowance (filter (\<lambda>w. cw_unit w = unit) (co_windows ob))))"
  using observation_quota_cases [where digest = digest, OF assms] by (metis is_ok_simps(2))

text \<open>
  The failure is reachable: one window reports only an allowance of 5, another an allowance
  of 10 with 8 remaining. Both are valid, and so is the observation.
\<close>

theorem observation_quota_fails_iff_witness:
  "observation_quota (\<lambda>_. sample_digest)
      (sample_observation [sample_window ''a'' None (Some 5) None,
        sample_window ''b'' None (Some 10) (Some 8)]) ''credits'' (Aware 0)
    = Inl (ValueError ''remaining_units cannot exceed allowance_units'')"
proof -
  let ?ob = "sample_observation [sample_window ''a'' None (Some 5) None,
        sample_window ''b'' None (Some 10) (Some 8)]"
  have ok: "validate_observation ?ob = Inr ()"
    by (rule sample_observation_valid) (simp_all add: sample_window_valid)
  show ?thesis
    by (subst observation_quota_fails_iff [OF ok])
      (simp_all add: text_len_def sample_observation_def sample_window_def reported_def
        map_filter_simps min_reported_def)
qed

text \<open>
  Authority of an issued entitlement: the quantity is positive and within the known
  available capacity; self-only capacity stays with its principal; any other capacity was
  authorized by evidence of the same issuer for this beneficiary or for any; and evidence
  that was presented matches the resource and its fingerprint and does not expire first.
\<close>

theorem issued_entitlement_authorized:
  assumes "issue_entitlement e known authorization = Inr built"
  shows "(\<exists>available. known = Some available \<and> 0 < ee_maximum_quantity built
            \<and> ee_maximum_quantity built \<le> available)
    \<and> (ee_transferability_basis built \<in> {Xfer_SELF_ONLY, Xfer_SAME_PRINCIPAL}
         \<longrightarrow> ee_beneficiary_principal_digest built = ee_issuer_principal_digest built)
    \<and> (ee_transferability_basis built \<notin> {Xfer_SELF_ONLY, Xfer_SAME_PRINCIPAL}
         \<longrightarrow> (\<exists>a. authorization = Some a
               \<and> ca_issuer_principal_digest a = ee_issuer_principal_digest built
               \<and> ca_authorized_beneficiary_digest a
                   \<in> {None, Some (ee_beneficiary_principal_digest built)}))
    \<and> (\<forall>a. authorization = Some a
         \<longrightarrow> ee_authorization_evidence_id built = Some (ca_evidence_id a)
           \<and> ca_resource_id a = ee_backing_resource_id built
           \<and> ca_resource_fingerprint a = ee_backing_resource_fingerprint built
           \<and> ee_expires_at built \<le> ca_expires_at a)"
  using assms
  by (auto simp: issue_entitlement_def require_entitlement_authority_def Let_def not_less
      split: sum.splits option.splits if_splits)

definition sample_entitlement :: ExecutionEntitlement where
  "sample_entitlement =
     \<lparr>ee_entitlement_id = ''ent'', ee_issuer_principal_digest = sample_digest,
      ee_beneficiary_principal_digest = sample_digest, ee_backing_resource_id = ''pool'',
      ee_backing_resource_fingerprint = sample_digest, ee_capability = ''text.stats'',
      ee_action_digest = sample_digest, ee_maximum_quantity = 5, ee_unit = ''credits'',
      ee_expires_at = Aware 1000, ee_nonce = replicate 16 (CHR ''n''),
      ee_transferability_basis = Xfer_SELF_ONLY, ee_authorization_evidence_id = None,
      ee_signature = \<lparr>cs_algorithm = ''ed25519'', cs_key_id = ''k'', cs_value = ''v''\<rparr>,
      ee_issued_at = Aware 10\<rparr>"

lemma sample_entitlement_issued:
  "issue_entitlement sample_entitlement (Some 10) None = Inr sample_entitlement"
  by (simp add: issue_entitlement_def require_entitlement_authority_def sample_entitlement_def
      validate_entitlement_def entitlement_fields_ok_def validate_signature_def text_len_def)

theorem issued_entitlement_authorized_witness:
  "ee_beneficiary_principal_digest sample_entitlement = ee_issuer_principal_digest sample_entitlement
    \<and> ee_maximum_quantity sample_entitlement \<le> 10"
  using issued_entitlement_authorized [OF sample_entitlement_issued]
  by (simp add: sample_entitlement_def)

end
