(* ===== verification/Capacity_Ledger.thy ===== *)
theory Capacity_Ledger
  imports Capacity_Store Capacity_Policy
begin

text \<open>
  The contract of the capacity ledger: its operations as a step relation over time, the
  invariant every step keeps, and the bounds that follow for every reachable store.
\<close>

section \<open>Held capacity\<close>

interpretation capacity_hold: bounded_holds cr_maximum_quantity "reservation_held resource unit"
  for resource unit
  by unfold_locales (auto simp: reservation_held_def)

lemma held_capacity_total: "held_capacity resource unit t rows = capacity_hold.total resource unit t rows"
  by (simp add: held_capacity_def capacity_hold.total_def)

lemma fresh_reservation_simps [simp]:
  "cr_reservation_id (fresh_reservation r) = cr_reservation_id r"
  "cr_idempotency_key (fresh_reservation r) = cr_idempotency_key r"
  "cr_maximum_quantity (fresh_reservation r) = cr_maximum_quantity r"
  "cr_claim_token (fresh_reservation r) = None"
  "cr_status (fresh_reservation r) = Cap_RESERVED"
  "reservation_binding (fresh_reservation r) = reservation_binding r"
  by (simp_all add: fresh_reservation_def reservation_binding_def)

text \<open>The four ways the reservation table changes.\<close>

lemma reserve_rows:
  fixes s :: store
  defines "rows \<equiv> capacity_reservations s"
  shows "capacity_reservations (snd (reserve_capacity r known t s)) = rows
    \<or> capacity_reservations (snd (reserve_capacity r known t s)) = rows @ [fresh_reservation r]
      \<and> t < cr_expires_at r \<and> (\<forall>x \<in> set rows. cr_idempotency_key x \<noteq> cr_idempotency_key r)
      \<and> (\<forall>x \<in> set rows. cr_reservation_id x \<noteq> cr_reservation_id r)
      \<and> (case known of None \<Rightarrow> cr_maximum_quantity r = 0
           | Some a \<Rightarrow> held_capacity (cr_resource_id r) (cr_unit r) t rows + cr_maximum_quantity r
                        \<le> decimal_value a)"
  unfolding rows_def
  by (auto simp: reserve_capacity_def immediate_transaction_def Let_def select_row_None
      split: option.splits if_splits)

lemma claim_rows:
  "capacity_reservations (snd (claim_capacity_reservation rid token v t s)) = capacity_reservations s
   \<or> (\<exists>stored. get_capacity_reservation rid s = Some stored \<and> t < cr_expires_at stored
       \<and> cr_status stored = Cap_RESERVED
       \<and> (\<forall>x \<in> set (capacity_reservations s).
             cr_reservation_id x \<noteq> rid \<longrightarrow> cr_claim_token x \<noteq> Some token)
       \<and> capacity_reservations (snd (claim_capacity_reservation rid token v t s)) =
         update_rows (\<lambda>x. cr_reservation_id x = rid \<and> cr_version x = v \<and> cr_status x = Cap_RESERVED)
           (\<lambda>x. x\<lparr>cr_status := Cap_CLAIMED, cr_claim_token := Some token,
                  cr_version := cr_version x + 1, cr_updated_at := t\<rparr>) (capacity_reservations s))"
  by (auto simp: claim_capacity_reservation_def immediate_transaction_def Let_def
      split: option.splits if_splits)

lemma release_rows:
  "capacity_reservations (snd (release_capacity_reservation rid v t s)) = capacity_reservations s
   \<or> (\<exists>st. capacity_reservations (snd (release_capacity_reservation rid v t s)) =
         update_rows (\<lambda>x. cr_reservation_id x = rid \<and> cr_version x = v \<and> cr_status x = st)
           (\<lambda>x. x\<lparr>cr_status := Cap_RELEASED, cr_version := cr_version x + 1,
                  cr_updated_at := t\<rparr>) (capacity_reservations s))"
  by (auto simp: release_capacity_reservation_def immediate_transaction_def Let_def
      split: option.splits if_splits)

lemma other_operations_keep_reservations [simp]:
  "capacity_reservations (snd (save_capacity_observation d ob s)) = capacity_reservations s"
  "capacity_reservations (snd (save_capacity_authorization_evidence ev s)) = capacity_reservations s"
  "capacity_reservations (snd (save_execution_entitlement d' e s)) = capacity_reservations s"
  "capacity_reservations (snd (redeem_entitlement rd ri eid aid q t s)) = capacity_reservations s"
  "capacity_reservations (snd (release_execution_entitlement eid v t s)) = capacity_reservations s"
  by (auto simp: save_capacity_observation_def save_capacity_authorization_evidence_def
      save_execution_entitlement_def redeem_entitlement_def release_execution_entitlement_def
      immediate_transaction_def Let_def split: option.splits sum.splits prod.splits if_splits)

section \<open>Reservation invariant\<close>

definition unique_tokens :: "CapacityReservation list \<Rightarrow> bool" where
  "unique_tokens rows = (\<forall>x \<in> set rows. \<forall>y \<in> set rows. \<forall>tok. cr_claim_token x = Some tok
     \<longrightarrow> cr_claim_token y = Some tok \<longrightarrow> cr_reservation_id x = cr_reservation_id y)"

definition reservations_ok :: "CapacityReservation list \<Rightarrow> bool" where
  "reservations_ok rows =
     (distinct (map cr_reservation_id rows) \<and> distinct (map cr_idempotency_key rows)
      \<and> (\<forall>r \<in> set rows. 0 \<le> cr_maximum_quantity r)
      \<and> (\<forall>r \<in> set rows. cr_status r = Cap_CLAIMED \<longrightarrow> cr_claim_token r \<noteq> None)
      \<and> unique_tokens rows)"

lemma reservations_okD:
  assumes "reservations_ok rows"
  shows "distinct (map cr_reservation_id rows)" and "distinct (map cr_idempotency_key rows)"
    and "r \<in> set rows \<Longrightarrow> 0 \<le> cr_maximum_quantity r"
  using assms by (auto simp: reservations_ok_def)

lemma reservations_ok_append:
  assumes "reservations_ok rows" and "0 \<le> cr_maximum_quantity r" and "cr_claim_token r = None"
    and "cr_status r = Cap_RESERVED"
    and "\<forall>x \<in> set rows. cr_idempotency_key x \<noteq> cr_idempotency_key r"
    and "\<forall>x \<in> set rows. cr_reservation_id x \<noteq> cr_reservation_id r"
  shows "reservations_ok (rows @ [r])"
proof -
  have "unique_tokens (rows @ [r])"
    unfolding unique_tokens_def
  proof (intro ballI allI impI)
    fix x y tok
    assume *: "x \<in> set (rows @ [r])" "y \<in> set (rows @ [r])"
      "cr_claim_token x = Some tok" "cr_claim_token y = Some tok"
    with assms(3) have "x \<in> set rows" "y \<in> set rows" by auto
    with assms(1) * show "cr_reservation_id x = cr_reservation_id y"
      unfolding reservations_ok_def unique_tokens_def by blast
  qed
  moreover have "distinct (map cr_reservation_id (rows @ [r]))"
    "distinct (map cr_idempotency_key (rows @ [r]))"
    using assms(1,5,6) by (auto simp: reservations_ok_def)
  ultimately show ?thesis
    using assms(1,2,4) by (simp add: reservations_ok_def)
qed

text \<open>A status update of the rows with one id keeps the invariant when a new claim token is unused.\<close>

lemma reservations_ok_update:
  assumes ok: "reservations_ok rows"
    and keep: "\<And>r. cr_reservation_id (f r) = cr_reservation_id r
        \<and> cr_idempotency_key (f r) = cr_idempotency_key r
        \<and> cr_maximum_quantity (f r) = cr_maximum_quantity r"
    and claimed: "\<And>r. r \<in> set rows \<Longrightarrow> p r \<Longrightarrow> cr_status (f r) = Cap_CLAIMED \<Longrightarrow> cr_claim_token (f r) \<noteq> None"
    and one: "\<And>r. p r \<Longrightarrow> cr_reservation_id r = rid"
    and tok: "\<And>r c x. p r \<Longrightarrow> cr_claim_token (f r) = Some c \<Longrightarrow> cr_claim_token r \<noteq> Some c
        \<Longrightarrow> x \<in> set rows \<Longrightarrow> cr_claim_token x = Some c \<Longrightarrow> cr_reservation_id x = rid"
  shows "reservations_ok (update_rows p f rows)"
proof -
  let ?g = "\<lambda>r. if p r then f r else r"
  have old: "cr_reservation_id x = cr_reservation_id y"
    if "x \<in> set rows" "y \<in> set rows" "cr_claim_token x = Some c" "cr_claim_token y = Some c" for x y c
    using ok that unfolding reservations_ok_def unique_tokens_def by blast
  have mixed: "cr_reservation_id (f x) = cr_reservation_id y"
    if "x \<in> set rows" "y \<in> set rows" "p x" "\<not> p y"
      "cr_claim_token (f x) = Some c" "cr_claim_token y = Some c" for x y c
    using old [of x y c] tok [of x c y] one [of x] keep [of x] that by (cases "cr_claim_token x = Some c") auto
  have uniq: "cr_reservation_id (?g x) = cr_reservation_id (?g y)"
    if "x \<in> set rows" "y \<in> set rows" "cr_claim_token (?g x) = Some c"
      "cr_claim_token (?g y) = Some c" for x y c
  proof -
    consider "p x" "p y" | "p x" "\<not> p y" | "\<not> p x" "p y" | "\<not> p x" "\<not> p y" by blast
    then show ?thesis
    proof cases
      case 1 then show ?thesis by (simp add: one keep)
    next
      case 2 then show ?thesis using mixed [of x y c] that by simp
    next
      case 3 then show ?thesis using mixed [of y x c] that by simp
    next
      case 4 then show ?thesis using old [of x y c] that by simp
    qed
  qed
  then have tokens: "unique_tokens (update_rows p f rows)"
    unfolding unique_tokens_def set_update_rows by blast
  have keys: "map cr_reservation_id (update_rows p f rows) = map cr_reservation_id rows"
      "map cr_idempotency_key (update_rows p f rows) = map cr_idempotency_key rows"
    using keep by (simp_all add: map_key_update_rows)
  have vals: "\<forall>r \<in> set rows. 0 \<le> cr_maximum_quantity (?g r)"
      "\<forall>r \<in> set rows. cr_status (?g r) = Cap_CLAIMED \<longrightarrow> cr_claim_token (?g r) \<noteq> None"
    using ok keep claimed by (auto simp: reservations_ok_def)
  from vals have "\<forall>r \<in> set (update_rows p f rows). 0 \<le> cr_maximum_quantity r"
    and "\<forall>r \<in> set (update_rows p f rows). cr_status r = Cap_CLAIMED \<longrightarrow> cr_claim_token r \<noteq> None"
    unfolding set_update_rows by blast+
  with ok keys tokens show ?thesis
    unfolding reservations_ok_def by presburger
qed

lemma reserve_ok:
  assumes "reservations_ok (capacity_reservations s)" and "validate_reservation r = Inr ()"
  shows "reservations_ok (capacity_reservations (snd (reserve_capacity r known t s)))"
  using reserve_rows [of r known t s] assms
  by (auto simp: validate_reservation_def intro!: reservations_ok_append split: if_splits)

lemma claim_ok:
  assumes "reservations_ok (capacity_reservations s)"
  shows "reservations_ok (capacity_reservations (snd (claim_capacity_reservation rid token v t s)))"
  using claim_rows [of rid token v t s] assms
  by (auto intro!: reservations_ok_update [where rid = rid]) blast

lemma release_ok:
  assumes "reservations_ok (capacity_reservations s)"
  shows "reservations_ok (capacity_reservations (snd (release_capacity_reservation rid v t s)))"
  using release_rows [of rid v t s] assms
  by (auto intro!: reservations_ok_update [where rid = rid])

section \<open>Steps of the ledger\<close>

text \<open>
  One call of a store operation at time \<open>t\<close>. \<open>stock\<close> bounds the quantity that callers
  report as known available for a resource and unit. The digest functions are those of the
  canonical encoding.
\<close>

inductive capacity_step ::
  "(string \<Rightarrow> string \<Rightarrow> rat) \<Rightarrow> datetime \<Rightarrow> store \<Rightarrow> store \<Rightarrow> bool" for stock t
where
  reserve: "validate_reservation r = Ok () \<Longrightarrow>
     (\<And>a. known = Some a \<Longrightarrow> decimal_value a \<le> stock (cr_resource_id r) (cr_unit r)) \<Longrightarrow>
     capacity_step stock t s (snd (reserve_capacity r known t s))"
| claim: "capacity_step stock t s (snd (claim_capacity_reservation rid token v t s))"
| release: "capacity_step stock t s (snd (release_capacity_reservation rid v t s))"
| observe: "capacity_step stock t s (snd (save_capacity_observation d ob s))"
| authorize: "capacity_step stock t s (snd (save_capacity_authorization_evidence ev s))"
| entitle: "validate_entitlement e = Ok () \<Longrightarrow>
     capacity_step stock t s (snd (save_execution_entitlement d' e s))"
| redeem: "capacity_step stock t s (snd (redeem_entitlement rd ri eid aid q t s))"
| release_entitlement: "capacity_step stock t s (snd (release_execution_entitlement eid v t s))"

inductive ledger :: "(string \<Rightarrow> string \<Rightarrow> rat) \<Rightarrow> datetime \<Rightarrow> store \<Rightarrow> bool" for stock where
  opened: "ledger stock t empty_store"
| stepped: "ledger stock t s \<Longrightarrow> t \<le> t' \<Longrightarrow> capacity_step stock t' s s' \<Longrightarrow> ledger stock t' s'"

lemma step_reservations_ok:
  "capacity_step stock t s s' \<Longrightarrow> reservations_ok (capacity_reservations s)
    \<Longrightarrow> reservations_ok (capacity_reservations s')"
  by (induction rule: capacity_step.induct) (simp_all add: reserve_ok claim_ok release_ok)

text \<open>Every step is a change the shared ledger contract admits.\<close>

lemma step_change:
  assumes "capacity_step stock t s s'" and ok: "reservations_ok (capacity_reservations s)"
  shows "capacity_hold.change resource unit (stock resource unit) t
    (capacity_reservations s) (capacity_reservations s')"
  using assms(1)
proof cases
  case (reserve r known)
  from reserve_rows [of r known t s] show ?thesis
  proof (elim disjE conjE)
    assume new: "capacity_reservations (snd (reserve_capacity r known t s))
        = capacity_reservations s @ [fresh_reservation r]"
      and fits: "case known of None \<Rightarrow> cr_maximum_quantity r = 0
           | Some a \<Rightarrow> held_capacity (cr_resource_id r) (cr_unit r) t (capacity_reservations s)
               + cr_maximum_quantity r \<le> decimal_value a"
    show ?thesis unfolding reserve(1) new
    proof (rule capacity_hold.change.admit)
      show "0 \<le> cr_maximum_quantity (fresh_reservation r)"
        using reserve(2) by (auto simp: validate_reservation_def split: if_splits)
      assume "reservation_held resource unit t (fresh_reservation r)"
        and "cr_maximum_quantity (fresh_reservation r) \<noteq> 0"
      then show "capacity_hold.total resource unit t (capacity_reservations s)
          + cr_maximum_quantity (fresh_reservation r) \<le> stock resource unit"
        using fits reserve(3)
        by (force simp: reservation_held_def fresh_reservation_def held_capacity_total
            split: option.splits)
    qed
  qed (simp add: reserve(1) capacity_hold.change.keep)
next
  case (claim rid token v)
  from claim_rows [of rid token v t s] show ?thesis
  proof (elim disjE exE conjE)
    fix stored
    assume stored: "get_capacity_reservation rid s = Some stored" "t < cr_expires_at stored"
        "cr_status stored = Cap_RESERVED"
      and new: "capacity_reservations (snd (claim_capacity_reservation rid token v t s)) =
         update_rows (\<lambda>x. cr_reservation_id x = rid \<and> cr_version x = v \<and> cr_status x = Cap_RESERVED)
           (\<lambda>x. x\<lparr>cr_status := Cap_CLAIMED, cr_claim_token := Some token,
                  cr_version := cr_version x + 1, cr_updated_at := t\<rparr>) (capacity_reservations s)"
    have same: "x = stored" if "x \<in> set (capacity_reservations s)" "cr_reservation_id x = rid" for x
      using select_key_Some [OF reservations_okD(1) [OF ok] that(1)] stored(1) that(2)
      by (simp add: get_capacity_reservation_def)
    show ?thesis unfolding claim(1) new
      by (rule capacity_hold.change.revise)
        (use same stored reservations_okD(3) [OF ok] in \<open>auto simp: reservation_held_def\<close>)
  qed (simp add: claim capacity_hold.change.keep)
next
  case (release rid v)
  from release_rows [of rid v t s] show ?thesis
    by (elim disjE exE)
      (auto simp: release capacity_hold.change.keep reservation_held_def reservations_okD(3) [OF ok]
        intro!: capacity_hold.change.revise)
qed (simp_all add: capacity_hold.change.keep)

section \<open>Entitlement invariant\<close>

definition consumed_of :: "string \<Rightarrow> EntitlementRedemptionReceipt list \<Rightarrow> rat" where
  "consumed_of eid rs =
     sum_list (map er_quantity_consumed (filter (\<lambda>x. er_entitlement_id x = eid) rs))"

lemma consumed_of_simps [simp]:
  "consumed_of eid [] = 0"
  "consumed_of eid (rs @ [r]) =
     consumed_of eid rs + (if er_entitlement_id r = eid then er_quantity_consumed r else 0)"
  by (simp_all add: consumed_of_def)

abbreviation en_id :: "entitlement_row \<Rightarrow> string" where
  "en_id row \<equiv> ee_entitlement_id (en_entitlement row)"

definition entitlement_balanced :: "EntitlementRedemptionReceipt list \<Rightarrow> entitlement_row \<Rightarrow> bool" where
  "entitlement_balanced rs row =
     (0 \<le> en_remaining_quantity row
      \<and> en_remaining_quantity row + consumed_of (en_id row) rs = ee_maximum_quantity (en_entitlement row)
      \<and> (en_state row = Ent_active \<longrightarrow> 0 < en_remaining_quantity row)
      \<and> (en_state row = Ent_consumed \<longrightarrow> en_remaining_quantity row = 0)
      \<and> en_state row \<noteq> Ent_expired)"

definition entitlements_ok :: "store \<Rightarrow> bool" where
  "entitlements_ok s =
     (distinct (map en_id (execution_entitlements s))
      \<and> distinct (map (\<lambda>x. ee_nonce (en_entitlement x)) (execution_entitlements s))
      \<and> distinct (map er_attempt_id (entitlement_redemptions s))
      \<and> (\<forall>r \<in> set (entitlement_redemptions s).
            er_entitlement_id r \<in> en_id ` set (execution_entitlements s)
            \<and> 0 < er_quantity_consumed r)
      \<and> (\<forall>row \<in> set (execution_entitlements s).
            entitlement_balanced (entitlement_redemptions s) row))"

text \<open>How the two tables change.\<close>

lemma entitle_rows:
  fixes s :: store
  assumes s': "s' = snd (save_execution_entitlement d e s)"
  shows "entitlement_redemptions s' = entitlement_redemptions s \<and>
    (execution_entitlements s' = execution_entitlements s
     \<or> execution_entitlements s' = execution_entitlements s @
         [\<lparr>en_entitlement = e, en_remaining_quantity = ee_maximum_quantity e,
           en_state = Ent_active, en_version = 0, en_payload_digest = d e\<rparr>]
       \<and> (\<forall>x \<in> set (execution_entitlements s).
             en_id x \<noteq> ee_entitlement_id e \<and> ee_nonce (en_entitlement x) \<noteq> ee_nonce e))"
  unfolding s'
  by (auto simp: save_execution_entitlement_def immediate_transaction_def select_row_None
      split: option.splits if_splits)

lemma mk_redemption_ok: "mk_redemption r = Inr v \<longleftrightarrow> v = r \<and> validate_redemption r = Inr ()"
  by (auto simp: mk_redemption_def split: sum.splits)

definition redeemed_row :: "rat \<Rightarrow> entitlement_row \<Rightarrow> entitlement_row" where
  "redeemed_row left x =
     x\<lparr>en_remaining_quantity := left, en_state := (if left = 0 then Ent_consumed else Ent_active),
       en_version := en_version x + 1\<rparr>"

lemma redeemed_row_simps [simp]:
  "en_entitlement (redeemed_row left x) = en_entitlement x"
  "en_remaining_quantity (redeemed_row left x) = left"
  "en_state (redeemed_row left x) = (if left = 0 then Ent_consumed else Ent_active)"
  by (simp_all add: redeemed_row_def)

text \<open>A successful redemption is a replay of the stored receipt or a new receipt.\<close>

lemma redeem_Ok:
  assumes "redeem_entitlement rd ri eid aid q t s = (Inr receipt, s')"
  shows "s' = s \<and> select_row (\<lambda>x. er_attempt_id x = aid) (entitlement_redemptions s) = Some receipt
      \<and> er_entitlement_id receipt = eid \<and> er_quantity_consumed receipt = decimal_value q
    \<or> (\<exists>row. select_row (\<lambda>x. en_id x = eid) (execution_entitlements s) = Some row
        \<and> en_state row = Ent_active \<and> t < ee_expires_at (en_entitlement row)
        \<and> er_quantity_consumed receipt = decimal_value q
        \<and> 0 < decimal_value q \<and> decimal_value q \<le> en_remaining_quantity row
        \<and> er_remaining_quantity receipt = en_remaining_quantity row - decimal_value q
        \<and> er_entitlement_id receipt = eid \<and> er_attempt_id receipt = aid
        \<and> (\<forall>x \<in> set (entitlement_redemptions s). er_attempt_id x \<noteq> aid)
        \<and> s' = s\<lparr>entitlement_redemptions := entitlement_redemptions s @ [receipt],
                 execution_entitlements := update_rows
                   (\<lambda>x. en_id x = eid \<and> en_version x = en_version row \<and> en_state x = Ent_active)
                   (redeemed_row (en_remaining_quantity row - decimal_value q))
                   (execution_entitlements s)\<rparr>)"
proof (cases q)
  case (Finite x)
  show ?thesis
  proof (cases "select_row (\<lambda>x. er_attempt_id x = aid) (entitlement_redemptions s)")
    case (Some r)
    with assms Finite show ?thesis
      by (auto simp: redeem_entitlement_def immediate_transaction_def split: if_splits)
  next
    case None
    from assms None Finite obtain row where row:
      "select_row (\<lambda>x. en_id x = eid) (execution_entitlements s) = Some row"
      by (auto simp: redeem_entitlement_def immediate_transaction_def split: option.splits if_splits)
    from assms None Finite row have "en_state row = Ent_active" "t < ee_expires_at (en_entitlement row)"
      "x \<le> en_remaining_quantity row" "0 < x"
      by (auto simp: redeem_entitlement_def immediate_transaction_def not_le not_less
          split: if_splits)
    with assms None Finite row show ?thesis
      by (auto simp: redeem_entitlement_def immediate_transaction_def Let_def mk_redemption_ok
          select_row_None redeemed_row_def [abs_def]
          split: sum.splits if_split_asm)
  qed
qed (use assms in \<open>simp add: redeem_entitlement_def\<close>)

lemma redeem_Err:
  "redeem_entitlement rd ri eid aid q t s = (Inl e, s') \<Longrightarrow> s' = s"
  by (auto simp: redeem_entitlement_def Let_def split: if_splits dest: transaction_error)

lemma release_entitlement_rows:
  fixes s :: store
  assumes s': "s' = snd (release_execution_entitlement eid v t s)"
  shows "entitlement_redemptions s' = entitlement_redemptions s
    \<and> (execution_entitlements s' = execution_entitlements s
       \<or> execution_entitlements s' = update_rows
           (\<lambda>x. en_id x = eid \<and> en_state x = Ent_active \<and> en_version x = v)
           (\<lambda>x. x\<lparr>en_state := Ent_released, en_version := en_version x + 1\<rparr>)
           (execution_entitlements s))"
  unfolding s'
  by (auto simp: release_execution_entitlement_def immediate_transaction_def Let_def
      split: option.splits if_splits)

lemma other_operations_keep_entitlements [simp]:
  "execution_entitlements (snd (save_capacity_observation d ob s)) = execution_entitlements s"
  "entitlement_redemptions (snd (save_capacity_observation d ob s)) = entitlement_redemptions s"
  "execution_entitlements (snd (save_capacity_authorization_evidence ev s)) = execution_entitlements s"
  "entitlement_redemptions (snd (save_capacity_authorization_evidence ev s)) = entitlement_redemptions s"
  "execution_entitlements (snd (reserve_capacity r known t s)) = execution_entitlements s"
  "entitlement_redemptions (snd (reserve_capacity r known t s)) = entitlement_redemptions s"
  "execution_entitlements (snd (claim_capacity_reservation rid token v t s)) = execution_entitlements s"
  "entitlement_redemptions (snd (claim_capacity_reservation rid token v t s)) = entitlement_redemptions s"
  "execution_entitlements (snd (release_capacity_reservation rid v t s)) = execution_entitlements s"
  "entitlement_redemptions (snd (release_capacity_reservation rid v t s)) = entitlement_redemptions s"
  by (auto simp: save_capacity_observation_def save_capacity_authorization_evidence_def
      reserve_capacity_def claim_capacity_reservation_def release_capacity_reservation_def
      immediate_transaction_def Let_def split: option.splits sum.splits prod.splits if_splits)

lemma entitle_ok:
  assumes ok: "entitlements_ok s" and valid: "validate_entitlement e = Inr ()"
  shows "entitlements_ok (snd (save_execution_entitlement d e s))" (is "entitlements_ok ?s'")
proof (cases "execution_entitlements ?s' = execution_entitlements s")
  case True
  with ok entitle_rows [OF refl, of d e s] show ?thesis by (simp add: entitlements_ok_def)
next
  case False
  with entitle_rows [OF refl, of d e s]
  have same: "entitlement_redemptions ?s' = entitlement_redemptions s"
    and new: "execution_entitlements ?s' = execution_entitlements s @
         [\<lparr>en_entitlement = e, en_remaining_quantity = ee_maximum_quantity e,
           en_state = Ent_active, en_version = 0, en_payload_digest = d e\<rparr>]"
    and fresh: "\<forall>x \<in> set (execution_entitlements s).
             en_id x \<noteq> ee_entitlement_id e \<and> ee_nonce (en_entitlement x) \<noteq> ee_nonce e"
    by blast+
  from valid have pos: "0 < ee_maximum_quantity e"
    by (auto simp: validate_entitlement_def entitlement_fields_ok_def split: if_splits)
  have none: "filter (\<lambda>x. er_entitlement_id x = ee_entitlement_id e) (entitlement_redemptions s) = []"
    using ok fresh by (auto simp: entitlements_ok_def filter_empty_conv)
  have "entitlement_balanced (entitlement_redemptions s)
     \<lparr>en_entitlement = e, en_remaining_quantity = ee_maximum_quantity e,
       en_state = Ent_active, en_version = 0, en_payload_digest = d e\<rparr>"
    using pos none by (simp add: entitlement_balanced_def consumed_of_def)
  moreover have "ee_entitlement_id e \<notin> en_id ` set (execution_entitlements s)"
    and "ee_nonce e \<notin> (\<lambda>x. ee_nonce (en_entitlement x)) ` set (execution_entitlements s)"
    using fresh by auto
  ultimately show ?thesis
    using ok by (simp add: entitlements_ok_def new same)
qed

text \<open>An update of the rows keeps the keys when it keeps the entitlement itself.\<close>

lemma entitlements_ok_update:
  assumes ok: "entitlements_ok s"
    and keep: "\<And>x. en_entitlement (f x) = en_entitlement x"
    and new: "execution_entitlements s' = update_rows p f (execution_entitlements s)"
    and red: "distinct (map er_attempt_id (entitlement_redemptions s'))"
      "\<forall>r \<in> set (entitlement_redemptions s').
         er_entitlement_id r \<in> en_id ` set (execution_entitlements s) \<and> 0 < er_quantity_consumed r"
    and bal: "\<And>x. x \<in> set (execution_entitlements s) \<Longrightarrow>
      entitlement_balanced (entitlement_redemptions s') (if p x then f x else x)"
  shows "entitlements_ok s'"
proof -
  have "en_id ` set (update_rows p f (execution_entitlements s)) = en_id ` set (execution_entitlements s)"
    unfolding set_update_rows image_image using keep by (intro image_cong) simp_all
  moreover have "map en_id (update_rows p f (execution_entitlements s)) = map en_id (execution_entitlements s)"
    and "map (\<lambda>x. ee_nonce (en_entitlement x)) (update_rows p f (execution_entitlements s))
      = map (\<lambda>x. ee_nonce (en_entitlement x)) (execution_entitlements s)"
    using keep by (simp_all add: map_key_update_rows)
  moreover have "\<forall>x \<in> set (update_rows p f (execution_entitlements s)).
      entitlement_balanced (entitlement_redemptions s') x"
    unfolding set_update_rows using bal by blast
  ultimately show ?thesis
    using ok red by (simp add: entitlements_ok_def new)
qed

lemma redeem_ok:
  assumes ok: "entitlements_ok s"
  shows "entitlements_ok (snd (redeem_entitlement rd ri eid aid q t s))"
proof (cases "redeem_entitlement rd ri eid aid q t s")
  case (Pair res s')
  show ?thesis
  proof (cases res)
    case (Inl e)
    with Pair redeem_Err show ?thesis using ok by (metis snd_conv)
  next
    case (Inr receipt)
    from redeem_Ok [OF Pair [unfolded Inr]] show ?thesis
    proof (elim disjE exE conjE)
      assume "s' = s" then show ?thesis using Pair ok by simp
    next
      fix row
      assume row: "select_row (\<lambda>x. en_id x = eid) (execution_entitlements s) = Some row"
        and active: "en_state row = Ent_active"
        and amount: "er_quantity_consumed receipt = decimal_value q" "0 < decimal_value q"
          "decimal_value q \<le> en_remaining_quantity row"
        and ids: "er_entitlement_id receipt = eid" "er_attempt_id receipt = aid"
        and fresh: "\<forall>x \<in> set (entitlement_redemptions s). er_attempt_id x \<noteq> aid"
        and s': "s' = s\<lparr>entitlement_redemptions := entitlement_redemptions s @ [receipt],
                 execution_entitlements := update_rows
                   (\<lambda>x. en_id x = eid \<and> en_version x = en_version row \<and> en_state x = Ent_active)
                   (redeemed_row (en_remaining_quantity row - decimal_value q))
                   (execution_entitlements s)\<rparr>"
      have mem: "row \<in> set (execution_entitlements s)" and rid: "en_id row = eid"
        using select_row_SomeD [OF row] by auto
      have same: "x = row" if "x \<in> set (execution_entitlements s)" "en_id x = eid" for x
        using select_key_Some [of en_id, OF _ that(1)] ok row that(2) by (simp add: entitlements_ok_def)
      have bal: "entitlement_balanced (entitlement_redemptions s) x"
        if "x \<in> set (execution_entitlements s)" for x
        using ok that by (simp add: entitlements_ok_def)
      have "entitlements_ok s'"
      proof (rule entitlements_ok_update [OF ok])
        show "execution_entitlements s' = update_rows
            (\<lambda>x. en_id x = eid \<and> en_version x = en_version row \<and> en_state x = Ent_active)
            (redeemed_row (en_remaining_quantity row - decimal_value q)) (execution_entitlements s)"
          by (simp add: s')
        show "distinct (map er_attempt_id (entitlement_redemptions s'))"
          using ok fresh ids by (auto simp: s' entitlements_ok_def)
        show "\<forall>r \<in> set (entitlement_redemptions s').
            er_entitlement_id r \<in> en_id ` set (execution_entitlements s) \<and> 0 < er_quantity_consumed r"
          using ok amount ids image_eqI [where f = en_id, OF rid [symmetric] mem]
          by (auto simp: s' entitlements_ok_def)
      next
        fix x
        assume x: "x \<in> set (execution_entitlements s)"
        show "entitlement_balanced (entitlement_redemptions s')
          (if en_id x = eid \<and> en_version x = en_version row \<and> en_state x = Ent_active
           then redeemed_row (en_remaining_quantity row - decimal_value q) x else x)"
        proof (cases "en_id x = eid")
          case True
          with same [OF x] active have "x = row" "en_state x = Ent_active" by auto
          with bal [OF mem] amount ids rid True show ?thesis
            by (auto simp: entitlement_balanced_def s')
        next
          case False
          with bal [OF x] ids show ?thesis by (auto simp: entitlement_balanced_def s')
        qed
      qed simp
      then show ?thesis using Pair by simp
    qed
  qed
qed

lemma release_entitlement_ok:
  assumes ok: "entitlements_ok s"
  shows "entitlements_ok (snd (release_execution_entitlement eid v t s))" (is "entitlements_ok ?s'")
proof (cases "execution_entitlements ?s' = execution_entitlements s")
  case True
  with ok release_entitlement_rows [OF refl, of eid v t s] show ?thesis
    by (simp add: entitlements_ok_def)
next
  case False
  with release_entitlement_rows [OF refl, of eid v t s]
  have same: "entitlement_redemptions ?s' = entitlement_redemptions s"
    and new: "execution_entitlements ?s' = update_rows
           (\<lambda>x. en_id x = eid \<and> en_state x = Ent_active \<and> en_version x = v)
           (\<lambda>x. x\<lparr>en_state := Ent_released, en_version := en_version x + 1\<rparr>)
           (execution_entitlements s)" by blast+
  show ?thesis
    by (rule entitlements_ok_update [OF ok _ new])
      (use ok same in \<open>auto simp: entitlements_ok_def entitlement_balanced_def\<close>)
qed

lemma entitlements_ok_cong:
  "execution_entitlements s' = execution_entitlements s \<Longrightarrow>
   entitlement_redemptions s' = entitlement_redemptions s \<Longrightarrow> entitlements_ok s' = entitlements_ok s"
  by (simp add: entitlements_ok_def)

lemma step_entitlements_ok:
  assumes "capacity_step stock t s s'" and "entitlements_ok s"
  shows "entitlements_ok s'"
  using assms
  by cases
    (simp_all add: entitle_ok redeem_ok release_entitlement_ok cong: entitlements_ok_cong)

section \<open>Reachable ledgers\<close>

lemma ledger_ok: "ledger stock t s \<Longrightarrow> reservations_ok (capacity_reservations s) \<and> entitlements_ok s"
proof (induction rule: ledger.induct)
  case (opened t)
  then show ?case by (simp add: reservations_ok_def unique_tokens_def entitlements_ok_def)
next
  case (stepped t s t' s')
  then show ?case using step_reservations_ok step_entitlements_ok by blast
qed

lemma ledger_held:
  "ledger stock t s \<Longrightarrow> 0 \<le> stock resource unit \<Longrightarrow>
     capacity_hold.nonneg (capacity_reservations s)
     \<and> capacity_hold.total resource unit t (capacity_reservations s) \<le> stock resource unit"
proof (induction rule: ledger.induct)
  case (opened t)
  then show ?case by (simp add: capacity_hold.nonneg_def)
next
  case (stepped t s t' s')
  from ledger_ok [OF stepped.hyps(1)] have "reservations_ok (capacity_reservations s)" ..
  from capacity_hold.change_bounded [OF step_change [OF stepped.hyps(3) this] stepped.hyps(2)]
  show ?case using stepped.IH stepped.prems by blast
qed

text \<open>A small ledger: two reservations of one pool, one of them claimed, and a redeemed entitlement.\<close>

definition sample_reservation :: "string \<Rightarrow> rat \<Rightarrow> CapacityReservation" where
  "sample_reservation k q =
     \<lparr>cr_reservation_id = k, cr_resource_id = ''pool'', cr_execution_id = ''run'',
      cr_maximum_quantity = q, cr_unit = ''credits'', cr_expires_at = Aware 100,
      cr_status = Cap_RESERVED, cr_idempotency_key = k, cr_claim_token = None, cr_version = 0,
      cr_created_at = Aware 0, cr_updated_at = Aware 0\<rparr>"

definition sample_ledger :: store where
  "sample_ledger =
     snd (claim_capacity_reservation ''r1'' ''w'' 0 (Aware 3)
       (snd (reserve_capacity (sample_reservation ''r2'' 4) (Some (Finite 10)) (Aware 2)
         (snd (reserve_capacity (sample_reservation ''r1'' 6) (Some (Finite 10)) (Aware 1)
           empty_store)))))"

lemmas capacity_eval =
  reserve_capacity_def claim_capacity_reservation_def get_capacity_reservation_def
  immediate_transaction_def held_capacity_def reservation_held_def fresh_reservation_def
  reservation_binding_def finite_nonneg_def opt_all_def Let_def sample_reservation_def

lemma sample_ledger_rows:
  "capacity_reservations sample_ledger =
     [(sample_reservation ''r1'' 6)\<lparr>cr_status := Cap_CLAIMED, cr_claim_token := Some ''w'',
         cr_version := 1, cr_updated_at := Aware 3\<rparr>, sample_reservation ''r2'' 4]"
  by (simp add: sample_ledger_def capacity_eval)

lemma sample_ledger_reachable: "ledger (\<lambda>_ _. 10) (Aware 3) sample_ledger"
proof -
  have v: "validate_reservation (sample_reservation k q) = Inr ()"
    if "0 \<le> q" "text_len 1 500 k" for k q
    using that by (simp add: validate_reservation_def sample_reservation_def text_len_def)
  have 1: "capacity_step (\<lambda>_ _. 10) (Aware 1) empty_store
      (snd (reserve_capacity (sample_reservation ''r1'' 6) (Some (Finite 10)) (Aware 1) empty_store))"
    by (rule capacity_step.reserve) (simp_all add: v text_len_def)
  have 2: "capacity_step (\<lambda>_ _. 10) (Aware 2) s
      (snd (reserve_capacity (sample_reservation ''r2'' 4) (Some (Finite 10)) (Aware 2) s))" for s
    by (rule capacity_step.reserve) (simp_all add: v text_len_def)
  show ?thesis unfolding sample_ledger_def
    by (rule ledger.stepped [OF ledger.stepped [OF ledger.stepped
            [OF ledger.opened [of _ "Aware 0"] _ 1] _ 2] _ capacity_step.claim]) simp_all
qed

text \<open>
  No overcommitment: whatever operations were performed at non-decreasing times, if no
  caller reported more than \<open>stock\<close> as available for a resource and unit, the quantity
  held by unexpired reservations and claims of that resource and unit is at most that.
\<close>

theorem capacity_never_overcommitted:
  assumes "ledger stock t s" and "0 \<le> stock resource unit"
  shows "held_capacity resource unit t (capacity_reservations s) \<le> stock resource unit"
  using ledger_held [OF assms] by (simp add: held_capacity_total)

theorem capacity_never_overcommitted_witness:
  "held_capacity ''pool'' ''credits'' (Aware 3) (capacity_reservations sample_ledger) \<le> 10"
  by (rule capacity_never_overcommitted [OF sample_ledger_reachable]) simp

text \<open>
  C27 Entitlement accounting: in a reachable ledger the remaining quantity of every entitlement
  is its maximum less everything redeemed from it, so redemptions never exceed the maximum,
  and it is marked consumed only when nothing remains.
\<close>

theorem redemptions_within_entitlement:
  assumes "ledger stock t s" and "row \<in> set (execution_entitlements s)"
  shows "en_remaining_quantity row
        = ee_maximum_quantity (en_entitlement row) - consumed_of (en_id row) (entitlement_redemptions s)
    \<and> consumed_of (en_id row) (entitlement_redemptions s) \<le> ee_maximum_quantity (en_entitlement row)
    \<and> (en_state row = Ent_consumed \<longrightarrow> en_remaining_quantity row = 0)"
  using ledger_ok [OF assms(1)] assms(2)
  by (fastforce simp: entitlements_ok_def entitlement_balanced_def)

definition sample_redeemed :: store where
  "sample_redeemed =
     snd (redeem_entitlement (\<lambda>_ _ _ _. sample_digest) (\<lambda>op key. op @ key) ''ent'' ''a1'' (Finite 2)
       (Aware 20) (snd (save_execution_entitlement (\<lambda>_. sample_digest) sample_entitlement empty_store)))"

lemma sample_redeemed_reachable: "ledger (\<lambda>_ _. 0) (Aware 20) sample_redeemed"
proof -
  have "validate_entitlement sample_entitlement = Inr ()"
    by (simp add: sample_entitlement_def validate_entitlement_def entitlement_fields_ok_def
        validate_signature_def text_len_def)
  then have "capacity_step (\<lambda>_ _. 0) (Aware 15) empty_store
      (snd (save_execution_entitlement (\<lambda>_. sample_digest) sample_entitlement empty_store))"
    by (rule capacity_step.entitle)
  then show ?thesis unfolding sample_redeemed_def
    by (rule ledger.stepped [OF ledger.stepped [OF ledger.opened [of _ "Aware 0"]] _
          capacity_step.redeem, rotated]) simp_all
qed

lemmas entitlement_eval =
  save_execution_entitlement_def entitlement_authorization_error_def redeem_entitlement_def
  mk_redemption_def validate_redemption_def text_len_def immediate_transaction_def Let_def
  sample_entitlement_def

lemma sample_redeemed_rows:
  "execution_entitlements sample_redeemed =
     [\<lparr>en_entitlement = sample_entitlement, en_remaining_quantity = 3, en_state = Ent_active,
       en_version = 1, en_payload_digest = sample_digest\<rparr>]"
  "map er_quantity_consumed (entitlement_redemptions sample_redeemed) = [2]"
  by (simp_all add: sample_redeemed_def entitlement_eval)

theorem redemptions_within_entitlement_witness:
  "consumed_of ''ent'' (entitlement_redemptions sample_redeemed) \<le> 5"
  using redemptions_within_entitlement [OF sample_redeemed_reachable,
      of "hd (execution_entitlements sample_redeemed)"]
  by (simp add: sample_redeemed_rows sample_entitlement_def)

end
