(* ===== verification/Attempt_Life.thy ===== *)
theory Attempt_Life
  imports Attempt_Store Capacity_Ledger
begin

text \<open>
  What the attempt store promises: every attempt runs along the transition table with
  consecutive versions, its authority is immutable, task scopes bound the attempts made
  under them, and the capacity holds of attempts stay within the reported capacity.
\<close>

section \<open>Single updates\<close>

lemma mk_attempt_valid [simp]: "mk_attempt a = Inr b \<Longrightarrow> validate_attempt b = Inr ()"
  by (simp add: mk_attempt_ok)

text \<open>A saved update replaces the row it read and appends one transition row.\<close>

definition saved_attempt :: "ExecutionAttempt \<Rightarrow> ExecutionAttempt \<Rightarrow> string option \<Rightarrow> store \<Rightarrow> store" where
  "saved_attempt current updated reason s =
     s\<lparr>execution_attempts := update_rows (\<lambda>x. ea_attempt_id x = ea_attempt_id current
           \<and> ea_state x = ea_state current \<and> ea_version x = ea_version current)
         (\<lambda>_. updated) (execution_attempts s),
       execution_attempt_transitions := execution_attempt_transitions s @
         [\<lparr>at_attempt_id = ea_attempt_id current, at_from_state = ea_state current,
           at_to_state = ea_state updated, at_version = ea_version updated,
           at_occurred_at = ea_updated_at updated, at_reason = map_option (take 2000) reason\<rparr>]\<rparr>"

lemma save_attempt_Ok:
  "save_attempt_update_locked current updated reason s = (Inr u, s') \<Longrightarrow>
     s' = saved_attempt current updated reason s
     \<and> (\<forall>x \<in> set (execution_attempt_transitions s).
          \<not> (at_attempt_id x = ea_attempt_id current \<and> at_version x = ea_version updated))"
  by (auto simp: save_attempt_update_locked_def saved_attempt_def Let_def split: if_splits)

lemma claim_attempt_Ok:
  assumes "claim_execution_attempt aid owner t lease s = (Inr u, s')"
  shows "s' = s \<and> get_execution_attempt aid s = Some u
    \<or> (\<exists>current. get_execution_attempt aid s = Some current \<and> ea_state current = Att_CREATED
        \<and> ea_version current = 0 \<and> validate_attempt u = Inr ()
        \<and> u = current\<lparr>ea_state := Att_CLAIMED, ea_owner_id := Some owner,
              ea_lease_expires_at := Some lease, ea_heartbeat_at := Some t, ea_version := 1,
              ea_updated_at := max (ea_updated_at current) t\<rparr>
        \<and> s' = saved_attempt current u (Some ''claimed'') s)"
proof (cases "get_execution_attempt aid s")
  case None
  with assms show ?thesis
    by (auto simp: claim_execution_attempt_def immediate_transaction_def split: if_splits)
next
  case (Some current)
  let ?u = "current\<lparr>ea_state := Att_CLAIMED, ea_owner_id := Some owner,
              ea_lease_expires_at := Some lease, ea_heartbeat_at := Some t, ea_version := 1,
              ea_updated_at := max (ea_updated_at current) t\<rparr>"
  show ?thesis
  proof (cases "ea_state current = Att_CLAIMED \<and> ea_owner_id current = Some owner")
    case True
    with assms Some show ?thesis
      by (auto simp: claim_execution_attempt_def immediate_transaction_def split: if_splits)
  next
    case False
    with assms Some have new: "ea_state current = Att_CREATED" "ea_version current = 0" "aware t"
        "aware lease" "\<not> lease \<le> t"
      by (auto simp: claim_execution_attempt_def immediate_transaction_def not_le split: if_splits)
    with assms Some obtain v where v: "mk_attempt ?u = Inr v"
      by (auto simp: claim_execution_attempt_def immediate_transaction_def split: sum.splits)
    with assms Some new have "v = u"
      and "save_attempt_update_locked current v (Some ''claimed'') s = (Inr (), s')"
      by (auto simp: claim_execution_attempt_def immediate_transaction_def
          split: sum.splits prod.splits)
    then have "s' = saved_attempt current u (Some ''claimed'') s"
      using save_attempt_Ok by blast
    moreover have "u = ?u \<and> validate_attempt u = Inr ()"
      using v \<open>v = u\<close> by (simp add: mk_attempt_ok)
    ultimately show ?thesis using Some new by blast
  qed
qed

lemma transition_attempt_Ok:
  assumes "transition_execution_attempt aid st v target t reason ch s = (Inr u, s')"
  shows "\<exists>current s1. get_execution_attempt aid s = Some current \<and> ea_state current = st
    \<and> ea_version current = v \<and> target \<in> set (attempt_transitions st) \<and> aware t
    \<and> u = changed_attempt current target t reason ch \<and> validate_attempt u = Inr ()
    \<and> transition_attempt_capacity_locked current u s = (Inr (), s1)
    \<and> s' = saved_attempt current u reason s1"
proof -
  from assms obtain current where current: "get_execution_attempt aid s = Some current"
    by (auto simp: transition_execution_attempt_def immediate_transaction_def split: option.splits)
  with assms have st: "ea_state current = st" "ea_version current = v"
      "target \<in> set (attempt_transitions st)" "aware t"
    by (auto simp: transition_execution_attempt_def immediate_transaction_def can_transition_to_def
        split: if_splits)
  with assms current obtain w where w: "mk_attempt (changed_attempt current target t reason ch) = Inr w"
    by (auto simp: transition_execution_attempt_def immediate_transaction_def can_transition_to_def
        split: sum.splits)
  with assms current st obtain s1 where
    s1: "transition_attempt_capacity_locked current w s = (Inr (), s1)"
    by (auto simp: transition_execution_attempt_def immediate_transaction_def can_transition_to_def
        split: sum.splits prod.splits)
  with assms current st w have "save_attempt_update_locked current w reason s1 = (Inr (), s')" "w = u"
    by (auto simp: transition_execution_attempt_def immediate_transaction_def can_transition_to_def
        split: sum.splits prod.splits)
  then have "s' = saved_attempt current u reason s1" "w = u"
    using save_attempt_Ok by blast+
  with current st w s1 show ?thesis by (auto simp: mk_attempt_ok)
qed

lemma attempt_errors_keep:
  "claim_execution_attempt aid owner t lease s = (Inl e, s') \<Longrightarrow> s' = s"
  "transition_execution_attempt aid st v target t reason ch s = (Inl e, s') \<Longrightarrow> s' = s"
  "create_execution_attempt t a s = (Inl e, s') \<Longrightarrow> s' = s"
  by (auto simp: claim_execution_attempt_def transition_execution_attempt_def
      create_execution_attempt_def split: if_splits dest: transaction_error)

lemma create_attempt_Ok:
  assumes "create_execution_attempt now a s = (Inr u, s')"
  shows "s' = s \<and> get_execution_attempt (ea_attempt_id a) s = Some u
      \<and> attempt_authority u = attempt_authority a
    \<or> get_execution_attempt (ea_attempt_id a) s = None \<and> scope_error now a s = None \<and> u = a
      \<and> s' = s\<lparr>execution_attempts := execution_attempts s @ [a]\<rparr>"
proof (cases "get_execution_attempt (ea_attempt_id a) s")
  case (Some stored)
  with assms show ?thesis
    by (auto simp: create_execution_attempt_def immediate_transaction_def split: if_splits)
next
  case None
  with assms have "scope_error now a s = None"
    by (auto simp: create_execution_attempt_def immediate_transaction_def split: option.splits)
  with None assms show ?thesis
    by (auto simp: create_execution_attempt_def immediate_transaction_def)
qed

section \<open>Capacity along a transition\<close>

lemma transition_hold_rows:
  assumes "transition_hold current updated rid s = (Inr (), s')"
  obtains rows where "s' = s\<lparr>capacity_reservations := rows\<rparr>"
proof (cases "get_capacity_reservation rid s")
  case None
  with assms show ?thesis by (simp add: transition_hold_def)
next
  case (Some hold)
  show ?thesis
  proof (rule that [of "capacity_reservations s'"])
    show "s' = s\<lparr>capacity_reservations := capacity_reservations s'\<rparr>"
      using assms Some by (auto simp: transition_hold_def split: if_splits)
  qed
qed

lemma transition_holds_rows:
  "transition_holds current updated rids s = (Inr u, s') \<Longrightarrow>
     s' = s\<lparr>capacity_reservations := capacity_reservations s'\<rparr>"
proof (induction rids arbitrary: s)
  case (Cons rid rids)
  then obtain s1 where one: "transition_hold current updated rid s = (Inr (), s1)"
    and rest: "transition_holds current updated rids s1 = (Inr u, s')"
    by (auto split: prod.splits sum.splits)
  from one obtain rows where "s1 = s\<lparr>capacity_reservations := rows\<rparr>" by (rule transition_hold_rows)
  with Cons.IH [OF rest] show ?case by (metis store.surjective store.update_convs(2))
qed simp

text \<open>Each round of the loop is a change that the ledger contract admits, and keeps its invariant.\<close>

lemma transition_hold_change:
  assumes "transition_hold current updated rid s = (Inr (), s')"
    and ok: "reservations_ok (capacity_reservations s)" and owner: "ea_owner_id current \<noteq> None"
    and later: "t \<le> ea_updated_at updated"
  shows "reservations_ok (capacity_reservations s')
    \<and> capacity_hold.change resource unit limit t (capacity_reservations s) (capacity_reservations s')"
proof -
  from assms(1) obtain hold where hold: "get_capacity_reservation rid s = Some hold"
    by (auto simp: transition_hold_def split: option.splits)
  have same: "x = hold" if "x \<in> set (capacity_reservations s)" "cr_reservation_id x = rid" for x
    using select_key_Some [OF reservations_okD(1) [OF ok] that(1)] hold that(2)
    by (simp add: get_capacity_reservation_def)
  note pos = reservations_okD(3) [OF ok]
  let ?claim = "\<lambda>x. x\<lparr>cr_status := Cap_CLAIMED, cr_claim_token := ea_owner_id current,
      cr_version := cr_version x + 1, cr_updated_at := ea_updated_at updated\<rparr>"
  let ?release = "\<lambda>x. x\<lparr>cr_status := Cap_RELEASED, cr_version := cr_version x + 1,
      cr_updated_at := ea_updated_at updated\<rparr>"
  consider (claim) "ea_state updated = Att_INVOKING" | (release) "terminal_attempt (ea_state updated)"
    | (none) "ea_state updated \<noteq> Att_INVOKING" "\<not> terminal_attempt (ea_state updated)" by blast
  then show ?thesis
  proof cases
    case claim
    with assms(1) hold have avail: "cr_status hold = Cap_RESERVED" "ea_updated_at updated < cr_expires_at hold"
      and free: "\<forall>x \<in> set (capacity_reservations s).
          cr_reservation_id x \<noteq> rid \<longrightarrow> cr_claim_token x \<noteq> ea_owner_id current"
      and s': "s' = s\<lparr>capacity_reservations := update_rows (\<lambda>x. cr_reservation_id x = rid) ?claim
          (capacity_reservations s)\<rparr>"
      using owner by (auto simp: transition_hold_def not_le split: if_splits)
    have "reservations_ok (update_rows (\<lambda>x. cr_reservation_id x = rid) ?claim (capacity_reservations s))"
      by (rule reservations_ok_update [OF ok, where rid = rid]) (use free owner in auto)
    moreover have "reservation_held resource unit t hold"
      if "cr_resource_id hold = resource" "cr_unit hold = unit"
      using that avail later by (simp add: reservation_held_def)
    then have "capacity_hold.change resource unit limit t (capacity_reservations s)
        (update_rows (\<lambda>x. cr_reservation_id x = rid) ?claim (capacity_reservations s))"
      by (intro capacity_hold.change.revise) (use same pos in \<open>auto simp: reservation_held_def\<close>)
    ultimately show ?thesis by (simp add: s')
  next
    case release
    then have "ea_state updated \<noteq> Att_INVOKING" by (auto simp: terminal_attempt_def)
    with assms(1) hold release
    have s': "s' = s\<lparr>capacity_reservations := update_rows (\<lambda>x. cr_reservation_id x = rid) ?release
          (capacity_reservations s)\<rparr>"
      by (auto simp: transition_hold_def split: if_splits)
    have "reservations_ok (update_rows (\<lambda>x. cr_reservation_id x = rid) ?release (capacity_reservations s))"
      by (rule reservations_ok_update [OF ok, where rid = rid]) auto
    moreover have "capacity_hold.change resource unit limit t (capacity_reservations s)
        (update_rows (\<lambda>x. cr_reservation_id x = rid) ?release (capacity_reservations s))"
      by (rule capacity_hold.change.revise) (use pos in \<open>auto simp: reservation_held_def\<close>)
    ultimately show ?thesis by (simp add: s')
  next
    case none
    with assms(1) hold have "s' = s" by (auto simp: transition_hold_def split: if_splits)
    with ok show ?thesis by (simp add: capacity_hold.change.keep)
  qed
qed

lemma transition_holds_keep:
  assumes "transition_holds current updated rids s = (Inr u, s')"
    and "reservations_ok (capacity_reservations s)" and "ea_owner_id current \<noteq> None"
    and "t \<le> ea_updated_at updated"
  shows "reservations_ok (capacity_reservations s')
    \<and> (capacity_hold.total resource unit t (capacity_reservations s) \<le> limit
       \<longrightarrow> capacity_hold.total resource unit t (capacity_reservations s') \<le> limit)"
  using assms
proof (induction rids arbitrary: s)
  case (Cons rid rids)
  then obtain s1 where one: "transition_hold current updated rid s = (Inr (), s1)"
    and rest: "transition_holds current updated rids s1 = (Inr u, s')"
    by (auto split: prod.splits sum.splits)
  from transition_hold_change [OF one Cons.prems(2,3,4), of resource unit limit]
  have ok1: "reservations_ok (capacity_reservations s1)"
    and ch: "capacity_hold.change resource unit limit t (capacity_reservations s) (capacity_reservations s1)"
    by auto
  have "capacity_hold.nonneg (capacity_reservations s)"
    using reservations_okD(3) [OF Cons.prems(2)] by (simp add: capacity_hold.nonneg_def)
  with capacity_hold.change_now [OF ch] Cons.IH [OF rest ok1 Cons.prems(3,4)] show ?case by blast
qed simp

text \<open>A successful transition keeps the invariant and the bound, and touches no other table.\<close>

lemma transition_capacity:
  assumes "transition_attempt_capacity_locked current updated s = (Inr (), s1)"
    and "reservations_ok (capacity_reservations s)" and "ea_owner_id current \<noteq> None"
    and "t \<le> ea_updated_at updated"
  shows "s1 = s\<lparr>capacity_reservations := capacity_reservations s1\<rparr>"
    and "reservations_ok (capacity_reservations s1)"
    and "capacity_hold.total resource unit t (capacity_reservations s) \<le> limit \<Longrightarrow>
         capacity_hold.total resource unit t (capacity_reservations s1) \<le> limit"
proof -
  from assms(1) have loop:
    "transition_holds current updated (ea_capacity_reservation_ids updated) s = (Inr (), s1)"
    by (simp add: transition_attempt_capacity_locked_def split: if_splits)
  show "s1 = s\<lparr>capacity_reservations := capacity_reservations s1\<rparr>"
    by (rule transition_holds_rows [OF loop])
  show "reservations_ok (capacity_reservations s1)"
    and "capacity_hold.total resource unit t (capacity_reservations s) \<le> limit \<Longrightarrow>
         capacity_hold.total resource unit t (capacity_reservations s1) \<le> limit"
    using transition_holds_keep [OF loop assms(2-4), of resource unit limit] by blast+
qed

lemma changed_attempt_simps [simp]:
  "ea_attempt_id (changed_attempt c st t r ch) = ea_attempt_id c"
  "ea_state (changed_attempt c st t r ch) = st"
  "ea_version (changed_attempt c st t r ch) = ea_version c + 1"
  "ea_owner_id (changed_attempt c st t r ch) = ea_owner_id c"
  "ea_updated_at (changed_attempt c st t r ch) = max (ea_updated_at c) t"
  "ea_created_at (changed_attempt c st t r ch) = ea_created_at c"
  "ea_task_scope_digest (changed_attempt c st t r ch) = ea_task_scope_digest c"
  "ea_executor_id (changed_attempt c st t r ch) = ea_executor_id c"
  "ea_executor_fingerprint (changed_attempt c st t r ch) = ea_executor_fingerprint c"
  "ea_side_effect (changed_attempt c st t r ch) = ea_side_effect c"
  "attempt_authority (changed_attempt c st t r ch) = attempt_authority c"
  by (simp_all add: changed_attempt_def attempt_authority_def)

lemma no_transition_to_created: "Att_CREATED \<notin> set (attempt_transitions st)"
  by (cases st) simp_all

lemma transition_owner:
  assumes "validate_attempt (changed_attempt c target t r ch) = Inr ()"
    and "target \<in> set (attempt_transitions st)"
  shows "ea_owner_id c \<noteq> None"
proof
  assume "ea_owner_id c = None"
  moreover have "target \<noteq> Att_CREATED" using assms(2) no_transition_to_created by metis
  ultimately show False
    using assms(1) by (auto simp: validate_attempt_def split: if_splits)
qed

section \<open>The running system\<close>

text \<open>
  One call at time \<open>t\<close>: an attempt operation, a capacity operation, an operator decision on
  the review of a task scope, or the publication of a task scope under a new digest. New
  attempts are created the way the router creates them, in state CREATED at version 0.
\<close>

inductive runtime_step ::
  "(string \<Rightarrow> string \<Rightarrow> rat) \<Rightarrow> datetime \<Rightarrow> store \<Rightarrow> store \<Rightarrow> bool" for stock t
where
  create: "validate_attempt a = Ok () \<Longrightarrow> ea_state a = Att_CREATED \<Longrightarrow> ea_version a = 0 \<Longrightarrow>
     runtime_step stock t s (snd (create_execution_attempt t a s))"
| claim_attempt: "runtime_step stock t s (snd (claim_execution_attempt aid owner t lease s))"
| transition: "runtime_step stock t s
     (snd (transition_execution_attempt aid st v target t reason ch s))"
| capacity: "capacity_step stock t s s' \<Longrightarrow> runtime_step stock t s s'"
| review: "runtime_step stock t s (s\<lparr>assessment_reviews := reviews\<rparr>)"
| publish: "(\<And>r. r \<in> set (task_scopes s) \<Longrightarrow> tr_digest r \<noteq> tr_digest row) \<Longrightarrow>
     runtime_step stock t s (s\<lparr>task_scopes := task_scopes s @ [row]\<rparr>)"

inductive runtime :: "(string \<Rightarrow> string \<Rightarrow> rat) \<Rightarrow> datetime \<Rightarrow> store \<Rightarrow> bool" for stock where
  started: "runtime stock t empty_store"
| stepped: "runtime stock t s \<Longrightarrow> t \<le> t' \<Longrightarrow> runtime_step stock t' s s' \<Longrightarrow> runtime stock t' s'"

text \<open>What one runtime step does to the attempt table and its history.\<close>

inductive attempt_change :: "store \<Rightarrow> store \<Rightarrow> bool" where
  unchanged: "execution_attempts s' = execution_attempts s \<Longrightarrow>
     execution_attempt_transitions s' = execution_attempt_transitions s \<Longrightarrow>
     attempt_change s s'"
| created: "get_execution_attempt (ea_attempt_id a) s = None \<Longrightarrow> scope_error now a s = None \<Longrightarrow>
     validate_attempt a = Ok () \<Longrightarrow> ea_state a = Att_CREATED \<Longrightarrow> ea_version a = 0 \<Longrightarrow>
     attempt_change s (s\<lparr>execution_attempts := execution_attempts s @ [a]\<rparr>)"
| moved: "get_execution_attempt (ea_attempt_id current) s = Some current \<Longrightarrow>
     ea_state u \<in> set (attempt_transitions (ea_state current)) \<Longrightarrow>
     ea_version u = ea_version current + 1 \<Longrightarrow> ea_attempt_id u = ea_attempt_id current \<Longrightarrow>
     attempt_authority u = attempt_authority current \<Longrightarrow> validate_attempt u = Ok () \<Longrightarrow>
     execution_attempts s' = execution_attempts (saved_attempt current u reason s) \<Longrightarrow>
     execution_attempt_transitions s'
       = execution_attempt_transitions (saved_attempt current u reason s) \<Longrightarrow>
     attempt_change s s'"

lemma get_attempt_id: "get_execution_attempt aid s = Some a \<Longrightarrow> ea_attempt_id a = aid"
  by (auto simp: get_execution_attempt_def dest: select_row_SomeD)

lemma capacity_step_attempts:
  "capacity_step stock t s s' \<Longrightarrow> execution_attempts s' = execution_attempts s
     \<and> execution_attempt_transitions s' = execution_attempt_transitions s
     \<and> task_scopes s' = task_scopes s"
  by (induction rule: capacity_step.induct)
    (auto simp: save_capacity_observation_def save_capacity_authorization_evidence_def
      save_execution_entitlement_def redeem_entitlement_def release_execution_entitlement_def
      reserve_capacity_def claim_capacity_reservation_def release_capacity_reservation_def
      immediate_transaction_def Let_def split: option.splits sum.splits prod.splits if_splits)

lemma claim_attempt_change:
  "attempt_change s (snd (claim_execution_attempt aid owner t lease s))"
proof (cases "claim_execution_attempt aid owner t lease s")
  case (Pair res s')
  show ?thesis
  proof (cases res)
    case (Inl e)
    from attempt_errors_keep(1) [OF Pair [unfolded Inl]] Pair show ?thesis
      by (simp add: attempt_change.unchanged)
  next
    case (Inr u)
    from claim_attempt_Ok [OF Pair [unfolded Inr]] show ?thesis
    proof (elim disjE exE conjE)
      assume "s' = s" then show ?thesis using Pair by (simp add: attempt_change.unchanged)
    next
      fix current
      assume *: "get_execution_attempt aid s = Some current" "ea_state current = Att_CREATED"
        "ea_version current = 0" "validate_attempt u = Inr ()"
        and u: "u = current\<lparr>ea_state := Att_CLAIMED, ea_owner_id := Some owner,
              ea_lease_expires_at := Some lease, ea_heartbeat_at := Some t, ea_version := 1,
              ea_updated_at := max (ea_updated_at current) t\<rparr>"
        and s': "s' = saved_attempt current u (Some ''claimed'') s"
      have "attempt_change s s'"
        by (rule attempt_change.moved [of current s u s' "Some ''claimed''"])
          (use * get_attempt_id [OF *(1)] in \<open>simp_all add: u s' attempt_authority_def\<close>)
      then show ?thesis using Pair by simp
    qed
  qed
qed

lemma transition_attempt_change:
  "attempt_change s (snd (transition_execution_attempt aid st v target t reason ch s))"
proof (cases "transition_execution_attempt aid st v target t reason ch s")
  case (Pair res s')
  show ?thesis
  proof (cases res)
    case (Inl e)
    from attempt_errors_keep(2) [OF Pair [unfolded Inl]] Pair show ?thesis
      by (simp add: attempt_change.unchanged)
  next
    case (Inr u)
    from transition_attempt_Ok [OF Pair [unfolded Inr]] obtain current s1 where
      *: "get_execution_attempt aid s = Some current" "ea_state current = st"
        "target \<in> set (attempt_transitions st)" "validate_attempt u = Inr ()"
      and u: "u = changed_attempt current target t reason ch"
      and cap: "transition_attempt_capacity_locked current u s = (Inr (), s1)"
      and s': "s' = saved_attempt current u reason s1" by blast
    from cap have "s1 = s\<lparr>capacity_reservations := capacity_reservations s1\<rparr>"
      by (auto simp: transition_attempt_capacity_locked_def transition_holds_rows split: if_splits)
    then have "execution_attempts s1 = execution_attempts s"
      "execution_attempt_transitions s1 = execution_attempt_transitions s"
      by (metis store.ext_inject store.surjective store.update_convs(2))+
    then have "attempt_change s s'"
      by (intro attempt_change.moved [of current s u s' reason])
        (use * get_attempt_id [OF *(1)] in \<open>simp_all add: u s' saved_attempt_def\<close>)
    then show ?thesis using Pair by simp
  qed
qed

lemma create_attempt_change:
  assumes "validate_attempt a = Inr ()" and "ea_state a = Att_CREATED" and "ea_version a = 0"
  shows "attempt_change s (snd (create_execution_attempt now a s))"
proof (cases "create_execution_attempt now a s")
  case (Pair res s')
  show ?thesis
  proof (cases res)
    case (Inl e)
    from attempt_errors_keep(3) [OF Pair [unfolded Inl]] Pair show ?thesis
      by (simp add: attempt_change.unchanged)
  next
    case (Inr u)
    from create_attempt_Ok [OF Pair [unfolded Inr]] Pair assms show ?thesis
      by (auto intro: attempt_change.unchanged attempt_change.created)
  qed
qed

lemma runtime_step_attempts:
  "runtime_step stock t s s' \<Longrightarrow> attempt_change s s'"
  by (induction rule: runtime_step.induct)
    (simp_all add: create_attempt_change claim_attempt_change transition_attempt_change
      attempt_change.unchanged capacity_step_attempts)

section \<open>Histories\<close>

definition history :: "string \<Rightarrow> store \<Rightarrow> attempt_transition_row list" where
  "history aid s = filter (\<lambda>x. at_attempt_id x = aid) (execution_attempt_transitions s)"

text \<open>
  The history of an attempt is a run through the transition table from CREATED to its present
  state, row \<open>n\<close> having version \<open>n\<close>, and the attempt's version is the number of rows.
\<close>

definition history_ok :: "store \<Rightarrow> ExecutionAttempt \<Rightarrow> bool" where
  "history_ok s a =
     (let h = history (ea_attempt_id a) s in
      attempt_life.path Att_CREATED (map at_to_state h)
      \<and> last (Att_CREATED # map at_to_state h) = ea_state a
      \<and> map at_version h = map int [1..<Suc (length h)]
      \<and> ea_version a = int (length h))"

definition attempts_ok :: "store \<Rightarrow> bool" where
  "attempts_ok s =
     (distinct (map ea_attempt_id (execution_attempts s))
      \<and> (\<forall>x \<in> set (execution_attempt_transitions s).
            at_attempt_id x \<in> ea_attempt_id ` set (execution_attempts s))
      \<and> (\<forall>a \<in> set (execution_attempts s). validate_attempt a = Inr () \<and> history_ok s a))"

lemma attempts_okD:
  assumes "attempts_ok s"
  shows "distinct (map ea_attempt_id (execution_attempts s))"
    and "a \<in> set (execution_attempts s) \<Longrightarrow> validate_attempt a = Inr ()"
    and "a \<in> set (execution_attempts s) \<Longrightarrow> history_ok s a"
  using assms by (auto simp: attempts_ok_def)

text \<open>The compare-and-set update replaces exactly the row that was read.\<close>

lemma saved_rows:
  assumes "attempts_ok s" and "get_execution_attempt (ea_attempt_id c) s = Some c"
  shows "execution_attempts (saved_attempt c u r s)
    = update_rows (\<lambda>x. ea_attempt_id x = ea_attempt_id c) (\<lambda>_. u) (execution_attempts s)"
proof -
  have "x = c" if "x \<in> set (execution_attempts s)" "ea_attempt_id x = ea_attempt_id c" for x
    using select_key_Some [OF attempts_okD(1) [OF assms(1)] that(1)] assms(2) that(2)
    by (simp add: get_execution_attempt_def)
  then show ?thesis
    by (auto simp: saved_attempt_def intro!: update_rows_cong)
qed

lemma attempt_change_ok:
  assumes "attempt_change s s'" and ok: "attempts_ok s"
  shows "attempts_ok s'"
  using assms(1)
proof cases
  case unchanged
  with ok show ?thesis by (simp add: attempts_ok_def history_ok_def history_def)
next
  case (created a)
  from created(2) have new: "ea_attempt_id a \<notin> ea_attempt_id ` set (execution_attempts s)"
    by (auto simp: get_execution_attempt_def select_row_None)
  with ok have "\<forall>x \<in> set (execution_attempt_transitions s). at_attempt_id x \<noteq> ea_attempt_id a"
    unfolding attempts_ok_def by metis
  then have none: "history (ea_attempt_id a) s = []"
    by (simp add: history_def filter_empty_conv)
  have same: "history_ok s' x = history_ok s x" for x
    by (simp add: created(1) history_ok_def history_def)
  have "history_ok s' a"
    using created(5,6) none by (simp add: same) (simp add: history_ok_def)
  with ok new created same show ?thesis
    by (auto simp: attempts_ok_def)
next
  case (moved c u r)
  have mem: "c \<in> set (execution_attempts s)"
    using moved(1) select_row_SomeD by (force simp: get_execution_attempt_def)
  have rows: "execution_attempts s'
      = update_rows (\<lambda>x. ea_attempt_id x = ea_attempt_id c) (\<lambda>_. u) (execution_attempts s)"
    using moved(7) saved_rows [OF ok moved(1)] by simp
  have trans: "execution_attempt_transitions s' = execution_attempt_transitions s @
      [\<lparr>at_attempt_id = ea_attempt_id c, at_from_state = ea_state c, at_to_state = ea_state u,
        at_version = ea_version u, at_occurred_at = ea_updated_at u,
        at_reason = map_option (take 2000) r\<rparr>]"
    using moved(8) by (simp add: saved_attempt_def)
  have ids: "map ea_attempt_id (execution_attempts s') = map ea_attempt_id (execution_attempts s)"
    using moved(4) by (simp add: rows update_rows_def)
  then have idset: "ea_attempt_id ` set (execution_attempts s') = ea_attempt_id ` set (execution_attempts s)"
    by (metis list.set_map)
  have "history_ok s c" using attempts_okD(3) [OF ok mem] .
  then have "history_ok s' u"
    using moved(2-4) by (auto simp: history_ok_def history_def Let_def trans attempt_life.path_append)
  moreover have "history_ok s' x"
    if "x \<in> set (execution_attempts s)" "ea_attempt_id x \<noteq> ea_attempt_id c" for x
    using attempts_okD(3) [OF ok that(1)] that(2)
    by (simp add: history_ok_def history_def trans)
  ultimately have "\<forall>a \<in> set (execution_attempts s'). validate_attempt a = Inr () \<and> history_ok s' a"
    using attempts_okD(2) [OF ok] moved(6) by (auto simp: rows set_update_rows)
  moreover have "\<forall>x \<in> set (execution_attempt_transitions s').
      at_attempt_id x \<in> ea_attempt_id ` set (execution_attempts s')"
    using ok mem by (auto simp: trans idset attempts_ok_def)
  ultimately show ?thesis
    using attempts_okD(1) [OF ok] by (simp add: attempts_ok_def ids)
qed

lemma runtime_attempts_ok: "runtime stock t s \<Longrightarrow> attempts_ok s"
proof (induction rule: runtime.induct)
  case (started t)
  then show ?case by (simp add: attempts_ok_def)
next
  case (stepped t s t' s')
  then show ?case using runtime_step_attempts attempt_change_ok by blast
qed

section \<open>Properties\<close>

definition post_invocation :: "ExecutionAttemptState \<Rightarrow> bool" where
  "post_invocation st = (st \<in> {Att_VALIDATING, Att_FAILED, Att_INDETERMINATE, Att_DISPUTED,
     Att_SETTLING, Att_COMPLETED, Att_REJECTED})"

lemma post_invocation_closed: "post_invocation st \<Longrightarrow> u \<in> set (attempt_transitions st) \<Longrightarrow> post_invocation u"
  by (cases st) (auto simp: post_invocation_def)

lemma path_post_invocation:
  "attempt_life.path st ts \<Longrightarrow> post_invocation st \<Longrightarrow> Att_INVOKING \<notin> set ts"
proof (induction ts arbitrary: st)
  case (Cons u ts)
  then have "post_invocation u" using post_invocation_closed by auto
  with Cons show ?case by (auto simp: post_invocation_def)
qed simp

lemma path_invokes_once: "attempt_life.path st ts \<Longrightarrow> count_list ts Att_INVOKING \<le> 1"
proof (induction ts arbitrary: st)
  case (Cons u ts)
  show ?case
  proof (cases "u = Att_INVOKING")
    case True
    have "Att_INVOKING \<notin> set ts"
    proof (cases ts)
      case (Cons w ws)
      with Cons.prems True have "attempt_life.path w ws" "post_invocation w" "w \<noteq> Att_INVOKING"
        by (auto simp: post_invocation_def)
      with path_post_invocation Cons show ?thesis by auto
    qed simp
    with True show ?thesis by simp
  next
    case False
    with Cons show ?thesis by auto
  qed
qed simp

definition sample_attempt :: ExecutionAttempt where
  "sample_attempt =
     \<lparr>ea_task_scope_digest = None, ea_attempt_id = ''a1'', ea_decision_id = ''d1'',
      ea_prepared_id = None, ea_action_digest = sample_digest, ea_executor_id = ''exec'',
      ea_executor_fingerprint = sample_digest, ea_side_effect = SE_READ, ea_idempotent = True,
      ea_owner_id = None, ea_lease_expires_at = None, ea_heartbeat_at = None, ea_version = 0,
      ea_state = Att_CREATED, ea_external_attempt_digest = None,
      ea_external_thread_digest = None, ea_external_turn_digest = None,
      ea_cash_reservation_ids = [], ea_capacity_reservation_ids = [],
      ea_invocation_start_digest = None, ea_retry_eligible = False, ea_recovery_reason = None,
      ea_terminal_receipt_ids = [], ea_created_at = Aware 0, ea_updated_at = Aware 0\<rparr>"

definition sample_runtime :: store where
  "sample_runtime =
     snd (transition_execution_attempt ''a1'' Att_CLAIMED 1 Att_RESERVED (Aware 3) None no_changes
       (snd (claim_execution_attempt ''a1'' ''w'' (Aware 2) (Aware 50)
         (snd (create_execution_attempt (Aware 1) sample_attempt empty_store)))))"

lemma sample_attempt_valid: "validate_attempt sample_attempt = Inr ()"
  by (simp add: sample_attempt_def validate_attempt_def attempt_fields_ok_def text_len_def
      plain_or_tagged_digest_def)

lemmas attempt_eval =
  create_execution_attempt_def claim_execution_attempt_def transition_execution_attempt_def
  get_execution_attempt_def scope_error_def save_attempt_update_locked_def
  transition_attempt_capacity_locked_def changed_attempt_def can_transition_to_def
  no_changes_def immediate_transaction_def mk_attempt_def validate_attempt_def
  attempt_fields_ok_def text_len_def plain_or_tagged_digest_def terminal_attempt_def
  max_def

lemma sample_runtime_rows:
  "execution_attempts sample_runtime =
     [sample_attempt\<lparr>ea_state := Att_RESERVED, ea_owner_id := Some ''w'',
        ea_lease_expires_at := Some (Aware 50), ea_heartbeat_at := Some (Aware 3),
        ea_version := 2, ea_updated_at := Aware 3\<rparr>]"
  "map at_to_state (execution_attempt_transitions sample_runtime) = [Att_CLAIMED, Att_RESERVED]"
  by (simp_all add: sample_runtime_def attempt_eval sample_attempt_def)

lemma sample_runtime_reachable: "runtime (\<lambda>_ _. 0) (Aware 3) sample_runtime"
proof -
  have "runtime_step (\<lambda>_ _. 0) (Aware 1) empty_store
      (snd (create_execution_attempt (Aware 1) sample_attempt empty_store))"
    by (rule runtime_step.create) (simp_all add: sample_attempt_valid, simp_all add: sample_attempt_def)
  then show ?thesis unfolding sample_runtime_def
    by (rule runtime.stepped [OF runtime.stepped [OF runtime.stepped
            [OF runtime.started [of _ "Aware 0"]] _ runtime_step.claim_attempt] _
          runtime_step.transition, rotated]) simp_all
qed

text \<open>
  C2 At most once: in every store the system can reach, the recorded history of an attempt is
  a run through the transition table that ends in its present state, with versions 1, 2, ...
  in order, and the executor was invoked at most once in it, whatever recoveries happened.
\<close>

theorem attempt_invoked_at_most_once:
  assumes "runtime stock t s" and "a \<in> set (execution_attempts s)"
  shows "history_ok s a
    \<and> count_list (map at_to_state (history (ea_attempt_id a) s)) Att_INVOKING \<le> 1"
proof -
  have "history_ok s a" using attempts_okD(3) [OF runtime_attempts_ok [OF assms(1)] assms(2)] .
  moreover then have "attempt_life.path Att_CREATED (map at_to_state (history (ea_attempt_id a) s))"
    by (simp add: history_ok_def Let_def)
  ultimately show ?thesis using path_invokes_once by blast
qed

theorem attempt_invoked_at_most_once_witness:
  "count_list (map at_to_state (history ''a1'' sample_runtime)) Att_INVOKING \<le> 1
    \<and> ea_state (hd (execution_attempts sample_runtime)) = Att_RESERVED"
  using attempt_invoked_at_most_once [OF sample_runtime_reachable,
      of "hd (execution_attempts sample_runtime)"]
  by (simp add: sample_runtime_rows) (simp add: sample_attempt_def)

lemma attempt_change_get:
  assumes "attempt_change s s'" and ok: "attempts_ok s"
    and a: "get_execution_attempt aid s = Some a"
  shows "\<exists>b. get_execution_attempt aid s' = Some b \<and> attempt_authority b = attempt_authority a
    \<and> (b = a \<or> ea_state b \<in> set (attempt_transitions (ea_state a))
                \<and> ea_version b = ea_version a + 1)"
  using assms(1)
proof cases
  case unchanged
  with a show ?thesis by (simp add: get_execution_attempt_def)
next
  case (created b)
  with a show ?thesis by (simp add: get_execution_attempt_def select_row_append)
next
  case (moved c u r)
  have rows: "execution_attempts s'
      = update_rows (\<lambda>x. ea_attempt_id x = ea_attempt_id c) (\<lambda>_. u) (execution_attempts s)"
    using moved(7) saved_rows [OF ok moved(1)] by simp
  have rid: "ea_attempt_id a = aid" by (rule get_attempt_id [OF a])
  have distinct': "distinct (map ea_attempt_id (execution_attempts s'))"
    using attempts_okD(1) [OF attempt_change_ok [OF assms(1) ok]] .
  have mem: "a \<in> set (execution_attempts s)"
    using a select_row_SomeD by (force simp: get_execution_attempt_def)
  show ?thesis
  proof (cases "ea_attempt_id c = aid")
    case True
    with moved(1) a have "c = a" by simp
    then have "u \<in> set (execution_attempts s')" using mem by (auto simp: rows set_update_rows)
    from select_key_Some [OF distinct' this] moved(2-5) \<open>c = a\<close> rid show ?thesis
      by (simp add: get_execution_attempt_def)
  next
    case False
    then have "a \<in> set (execution_attempts s')" using mem rid by (auto simp: rows set_update_rows)
    from select_key_Some [OF distinct' this] rid show ?thesis
      by (simp add: get_execution_attempt_def)
  qed
qed

text \<open>
  Every call leaves each stored attempt under its id with the same authority (scope,
  decision, action, executor, side effect), and either unchanged or moved along one edge of
  the transition table to the next version. Terminal attempts never change.
\<close>

theorem attempt_step_monotone:
  assumes "runtime stock t s" and "runtime_step stock t' s s'"
    and "get_execution_attempt aid s = Some a"
  shows "\<exists>b. get_execution_attempt aid s' = Some b \<and> attempt_authority b = attempt_authority a
    \<and> (b = a \<or> ea_state b \<in> set (attempt_transitions (ea_state a))
                \<and> ea_version b = ea_version a + 1)
    \<and> (b = a \<or> \<not> terminal_attempt (ea_state a))"
  using attempt_change_get [OF runtime_step_attempts [OF assms(2)] runtime_attempts_ok [OF assms(1)] assms(3)]
    attempt_life.final_stuck by fastforce

theorem attempt_step_monotone_witness:
  "\<exists>b. get_execution_attempt ''a1''
        (snd (transition_execution_attempt ''a1'' Att_RESERVED 2 Att_CANCELLED (Aware 4) None
               no_changes sample_runtime)) = Some b
      \<and> ea_executor_id b = ''exec''"
proof -
  obtain a where a: "get_execution_attempt ''a1'' sample_runtime = Some a" "ea_executor_id a = ''exec''"
    by (simp add: get_execution_attempt_def sample_runtime_rows sample_attempt_def)
  have "runtime_step (\<lambda>_ _. 0) (Aware 4) sample_runtime
      (snd (transition_execution_attempt ''a1'' Att_RESERVED 2 Att_CANCELLED (Aware 4) None
               no_changes sample_runtime))"
    by (rule runtime_step.transition)
  from attempt_step_monotone [OF sample_runtime_reachable this a(1)] a(2)
  show ?thesis by (auto simp: attempt_authority_def)
qed

section \<open>Task scopes\<close>

text \<open>The attempts under a published scope respect its allowance and its exact authority.\<close>

definition open_attempts :: "string \<Rightarrow> store \<Rightarrow> nat" where
  "open_attempts d s = rowcount (\<lambda>a. \<not> terminal_attempt (ea_state a)) (scope_attempts d s)"

definition within_scope :: "TaskScope \<Rightarrow> ExecutionAttempt \<Rightarrow> bool" where
  "within_scope scope a =
     (map_of (ts_executor_fingerprints scope) (ea_executor_id a) = Some (ea_executor_fingerprint a)
      \<and> side_effect_rank (ea_side_effect a) \<le> side_effect_rank (ts_approval_ceiling scope))"

definition scope_respected :: "string \<Rightarrow> store \<Rightarrow> bool" where
  "scope_respected d s =
     (case select_row (\<lambda>r. tr_digest r = d) (task_scopes s) of
        None \<Rightarrow> scope_attempts d s = []
      | Some r \<Rightarrow> length (scope_attempts d s) \<le> ts_max_attempts (tr_scope r)
          \<and> open_attempts d s \<le> 1
          \<and> (\<forall>a \<in> set (scope_attempts d s). within_scope (tr_scope r) a))"

lemma scope_respected_cong:
  assumes "execution_attempts s' = execution_attempts s" and "task_scopes s' = task_scopes s"
  shows "scope_respected d s' = scope_respected d s"
proof -
  have "scope_attempts d s' = scope_attempts d s" using assms(1) by (simp add: scope_attempts_def)
  with assms(2) show ?thesis by (simp add: scope_respected_def open_attempts_def cong: option.case_cong)
qed

lemma scope_error_None:
  assumes "scope_error now a s = None" and "ea_task_scope_digest a = Some d"
  shows "\<exists>r. select_row (\<lambda>r. tr_digest r = d) (task_scopes s) = Some r \<and> within_scope (tr_scope r) a
    \<and> length (scope_attempts d s) < ts_max_attempts (tr_scope r) \<and> open_attempts d s = 0"
  using assms
  by (auto simp: scope_error_def unrevoked_scope_def within_scope_def open_attempts_def rowcount_0
      not_le split: option.splits if_splits)

lemma scope_respected_create:
  assumes "scope_respected d s" and "scope_error now a s = None"
  shows "scope_respected d (s\<lparr>execution_attempts := execution_attempts s @ [a]\<rparr>)"
proof (cases "ea_task_scope_digest a = Some d")
  case True
  from scope_error_None [OF assms(2) True] obtain r where
    r: "select_row (\<lambda>r. tr_digest r = d) (task_scopes s) = Some r" "within_scope (tr_scope r) a"
      "length (scope_attempts d s) < ts_max_attempts (tr_scope r)" "open_attempts d s = 0" by blast
  with assms(1) True show ?thesis
    by (simp add: scope_respected_def scope_attempts_def open_attempts_def rowcount_def)
next
  case False
  with assms(1) show ?thesis
    by (simp add: scope_respected_def scope_attempts_def open_attempts_def cong: option.case_cong)
qed

lemma scope_respected_move:
  assumes resp: "scope_respected d s" and same: "task_scopes s' = task_scopes s"
    and rows: "execution_attempts s' = update_rows p (\<lambda>_. u) (execution_attempts s)"
    and one: "\<And>x. x \<in> set (execution_attempts s) \<Longrightarrow> p x \<Longrightarrow>
      attempt_authority u = attempt_authority x \<and> \<not> terminal_attempt (ea_state x)"
  shows "scope_respected d s'"
proof -
  have auth: "ea_task_scope_digest u = ea_task_scope_digest x" "ea_executor_id u = ea_executor_id x"
    "ea_executor_fingerprint u = ea_executor_fingerprint x" "ea_side_effect u = ea_side_effect x"
    if "x \<in> set (execution_attempts s)" "p x" for x
    using one [OF that] by (auto simp: attempt_authority_def)
  have att: "scope_attempts d s' = update_rows p (\<lambda>_. u) (scope_attempts d s)"
    unfolding scope_attempts_def rows using auth(1) by (intro filter_update_rows) simp
  have sub: "set (scope_attempts d s) \<subseteq> set (execution_attempts s)"
    by (auto simp: scope_attempts_def)
  have "open_attempts d s' \<le> open_attempts d s"
    unfolding open_attempts_def att by (rule rowcount_update_le) (use one sub in blast)
  moreover have "within_scope sc a" if a: "a \<in> set (scope_attempts d s')"
    and all: "\<forall>a \<in> set (scope_attempts d s). within_scope sc a" for sc a
  proof -
    from a obtain x where x: "x \<in> set (scope_attempts d s)" "a = (if p x then u else x)"
      by (auto simp: att set_update_rows)
    with all sub auth [of x] show ?thesis by (auto simp: within_scope_def)
  qed
  ultimately show ?thesis
    using resp by (auto simp: scope_respected_def same att split: option.splits)
qed

lemma attempt_ops_keep_scopes:
  "task_scopes (snd (create_execution_attempt now a s)) = task_scopes s"
  "task_scopes (snd (claim_execution_attempt aid owner t lease s)) = task_scopes s"
  "task_scopes (snd (transition_execution_attempt aid st v target t reason ch s)) = task_scopes s"
proof -
  show "task_scopes (snd (create_execution_attempt now a s)) = task_scopes s"
    by (auto simp: create_execution_attempt_def immediate_transaction_def split: option.splits)
  show "task_scopes (snd (claim_execution_attempt aid owner t lease s)) = task_scopes s"
  proof (cases "claim_execution_attempt aid owner t lease s")
    case (Pair res s')
    then show ?thesis
      using attempt_errors_keep(1) [of aid owner t lease s _ s'] claim_attempt_Ok [of aid owner t lease s _ s']
      by (cases res) (auto simp: saved_attempt_def)
  qed
  show "task_scopes (snd (transition_execution_attempt aid st v target t reason ch s)) = task_scopes s"
  proof (cases "transition_execution_attempt aid st v target t reason ch s")
    case (Pair res s')
    show ?thesis
    proof (cases res)
      case (Inl e)
      from attempt_errors_keep(2) [OF Pair [unfolded Inl]] Pair show ?thesis by simp
    next
      case (Inr u)
      from transition_attempt_Ok [OF Pair [unfolded Inr]] obtain current s1 where
        "transition_attempt_capacity_locked current u s = (Inr (), s1)"
        and s': "s' = saved_attempt current u reason s1" by blast
      then have "s1 = s\<lparr>capacity_reservations := capacity_reservations s1\<rparr>"
        by (auto simp: transition_attempt_capacity_locked_def transition_holds_rows split: if_splits)
      then have "task_scopes s1 = task_scopes s"
        by (metis store.ext_inject store.surjective store.update_convs(2))
      with Pair s' show ?thesis by (simp add: saved_attempt_def)
    qed
  qed
qed

lemma attempt_change_scope:
  assumes "attempt_change s s'" and ok: "attempts_ok s" and resp: "scope_respected d s"
    and same: "task_scopes s' = task_scopes s"
  shows "scope_respected d s'"
  using assms(1)
proof cases
  case unchanged
  with resp same show ?thesis using scope_respected_cong by blast
next
  case (created a)
  with resp show ?thesis using scope_respected_create by blast
next
  case (moved c u r)
  have rows: "execution_attempts s'
      = update_rows (\<lambda>x. ea_attempt_id x = ea_attempt_id c) (\<lambda>_. u) (execution_attempts s)"
    using moved(7) saved_rows [OF ok moved(1)] by simp
  have "x = c" if "x \<in> set (execution_attempts s)" "ea_attempt_id x = ea_attempt_id c" for x
    using select_key_Some [OF attempts_okD(1) [OF ok] that(1)] moved(1) that(2)
    by (simp add: get_execution_attempt_def)
  moreover have "\<not> terminal_attempt (ea_state c)"
    using moved(2) attempt_life.final_stuck by fastforce
  ultimately show ?thesis
    using moved(5) by (intro scope_respected_move [OF resp same rows]) auto
qed

lemma scope_respected_publish:
  assumes "scope_respected d s" and "\<And>r. r \<in> set (task_scopes s) \<Longrightarrow> tr_digest r \<noteq> tr_digest row"
  shows "scope_respected d (s\<lparr>task_scopes := task_scopes s @ [row]\<rparr>)"
proof (cases "select_row (\<lambda>r. tr_digest r = d) (task_scopes s)")
  case None
  then have "scope_attempts d s = []" using assms(1) by (simp add: scope_respected_def)
  then show ?thesis
    by (auto simp: scope_respected_def scope_attempts_def open_attempts_def split: option.splits)
next
  case (Some r)
  with assms(1) show ?thesis
    by (simp add: scope_respected_def select_row_append scope_attempts_def open_attempts_def)
qed

lemma runtime_step_scope:
  assumes step: "runtime_step stock t s s'" and ok: "attempts_ok s" and resp: "scope_respected d s"
  shows "scope_respected d s'"
  using step
proof cases
  case (publish row)
  with resp show ?thesis using scope_respected_publish by blast
next
  case (review reviews)
  with resp show ?thesis
    by (simp add: scope_respected_def scope_attempts_def open_attempts_def cong: option.case_cong)
next
  case capacity
  with attempt_change_scope [OF runtime_step_attempts [OF step] ok resp] capacity_step_attempts
  show ?thesis by blast
qed (use attempt_change_scope [OF runtime_step_attempts [OF step] ok resp] attempt_ops_keep_scopes
    in simp_all)

lemma runtime_scope: "runtime stock t s \<Longrightarrow> scope_respected d s"
proof (induction rule: runtime.induct)
  case (started t)
  then show ?case by (simp add: scope_respected_def scope_attempts_def)
next
  case (stepped t s t' s')
  then show ?case using runtime_step_scope runtime_attempts_ok by blast
qed

text \<open>
  Delegation is finite and exact: under a published task scope there are never more
  attempts than its allowance, at most one of them is unfinished, and each of them runs an
  executor with the delegated fingerprint and a side effect within the approval ceiling.
\<close>

theorem task_scope_respected:
  assumes "runtime stock t s" and "select_row (\<lambda>r. tr_digest r = d) (task_scopes s) = Some row"
  shows "length (scope_attempts d s) \<le> ts_max_attempts (tr_scope row)
    \<and> rowcount (\<lambda>a. \<not> terminal_attempt (ea_state a)) (scope_attempts d s) \<le> 1
    \<and> (\<forall>a \<in> set (scope_attempts d s).
         map_of (ts_executor_fingerprints (tr_scope row)) (ea_executor_id a)
           = Some (ea_executor_fingerprint a)
         \<and> ea_side_effect a \<le> ts_approval_ceiling (tr_scope row))"
  using runtime_scope [OF assms(1), of d] assms(2)
  by (auto simp: scope_respected_def open_attempts_def within_scope_def less_eq_SideEffect_def)

end
