(* ===== verification/Attempt_Authority.thy ===== *)
theory Attempt_Authority
  imports Attempt_Life
begin

text \<open>
  The attempts together with the resources they use: capacity held by attempts stays within
  what was reported, the hold of an invocation, recovery after a lease, and the sample
  delegation that exercises the task-scope bound.
\<close>

section \<open>A delegated attempt\<close>

definition sample_scope :: TaskScope where
  "sample_scope =
     \<lparr>ts_scope_id = ''scope'', ts_project_root = ''/work'',
      ts_executor_fingerprints = [(''exec'', sample_digest)], ts_approval_ceiling = SE_WRITE,
      ts_max_attempts = 2, ts_max_attempt_seconds = 60, ts_expires_at = Aware 100\<rparr>"

definition scoped_attempt :: "string \<Rightarrow> ExecutionAttempt" where
  "scoped_attempt aid = sample_attempt\<lparr>ea_attempt_id := aid, ea_task_scope_digest := Some sample_hex\<rparr>"

definition sample_delegation :: store where
  "sample_delegation =
     snd (create_execution_attempt (Aware 2) (scoped_attempt ''a1'')
       ((empty_store\<lparr>task_scopes := task_scopes empty_store @ [\<lparr>tr_digest = sample_hex, tr_scope = sample_scope\<rparr>]\<rparr>)
          \<lparr>assessment_reviews := [\<lparr>rv_digest = sample_hex, rv_revoked = False\<rparr>]\<rparr>))"

lemma sample_delegation_reachable: "runtime (\<lambda>_ _. 0) (Aware 2) sample_delegation"
proof -
  let ?row = "\<lparr>tr_digest = sample_hex, tr_scope = sample_scope\<rparr>"
  let ?s1 = "empty_store\<lparr>task_scopes := task_scopes empty_store @ [?row]\<rparr>"
  let ?s2 = "?s1\<lparr>assessment_reviews := [\<lparr>rv_digest = sample_hex, rv_revoked = False\<rparr>]\<rparr>"
  have 1: "runtime_step (\<lambda>_ _. 0) (Aware 0) empty_store ?s1"
    by (rule runtime_step.publish) simp
  have 2: "runtime_step (\<lambda>_ _. 0) (Aware 0) ?s1 ?s2"
    by (rule runtime_step.review)
  have "hex64 sample_hex" by (simp add: sample_hex_def hex64_def lower_hex_def list_all_iff)
  then have "validate_attempt (scoped_attempt ''a1'') = Inr ()"
    by (simp add: scoped_attempt_def sample_attempt_def validate_attempt_def attempt_fields_ok_def
        text_len_def plain_or_tagged_digest_def)
  then have 3: "runtime_step (\<lambda>_ _. 0) (Aware 2) ?s2
      (snd (create_execution_attempt (Aware 2) (scoped_attempt ''a1'') ?s2))"
    by (rule runtime_step.create) (simp_all add: scoped_attempt_def sample_attempt_def)
  show ?thesis unfolding sample_delegation_def
    by (rule runtime.stepped [OF runtime.stepped [OF runtime.stepped
            [OF runtime.started [of _ "Aware 0"] _ 1] _ 2] _ 3]) simp_all
qed

lemma sample_delegation_rows:
  "execution_attempts sample_delegation = [scoped_attempt ''a1'']"
  "task_scopes sample_delegation = [\<lparr>tr_digest = sample_hex, tr_scope = sample_scope\<rparr>]"
  "assessment_reviews sample_delegation = [\<lparr>rv_digest = sample_hex, rv_revoked = False\<rparr>]"
  by (simp_all add: sample_delegation_def create_execution_attempt_def immediate_transaction_def
      get_execution_attempt_def scope_error_def unrevoked_scope_def scope_attempts_def
      scoped_attempt_def sample_attempt_def sample_scope_def)

text \<open>One attempt of two is made; a second must wait until the first is finished.\<close>

theorem task_scope_respected_witness:
  "length (scope_attempts sample_hex sample_delegation) \<le> 2
   \<and> fst (create_execution_attempt (Aware 3) (scoped_attempt ''a2'') sample_delegation)
     = Inl (ConfigurationError
        ''task scope allowance exhausted or an earlier attempt needs completion/recovery'')"
proof
  show "length (scope_attempts sample_hex sample_delegation) \<le> 2"
    using task_scope_respected [OF sample_delegation_reachable,
        of sample_hex "\<lparr>tr_digest = sample_hex, tr_scope = sample_scope\<rparr>"]
    by (simp add: sample_delegation_rows) (simp add: sample_scope_def)
  show "fst (create_execution_attempt (Aware 3) (scoped_attempt ''a2'') sample_delegation)
     = Inl (ConfigurationError
        ''task scope allowance exhausted or an earlier attempt needs completion/recovery'')"
    by (simp add: create_execution_attempt_def immediate_transaction_def sample_delegation_rows
        get_execution_attempt_def scope_error_def unrevoked_scope_def scope_attempts_def
        scoped_attempt_def sample_attempt_def sample_scope_def terminal_attempt_def)
qed

section \<open>Holds of attempts\<close>

lemma attempt_ops_keep_holds:
  "capacity_reservations (snd (create_execution_attempt now a s)) = capacity_reservations s"
  "capacity_reservations (snd (claim_execution_attempt aid owner t lease s)) = capacity_reservations s"
proof -
  show "capacity_reservations (snd (create_execution_attempt now a s)) = capacity_reservations s"
    by (auto simp: create_execution_attempt_def immediate_transaction_def split: option.splits)
  show "capacity_reservations (snd (claim_execution_attempt aid owner t lease s)) = capacity_reservations s"
  proof (cases "claim_execution_attempt aid owner t lease s")
    case (Pair res s')
    then show ?thesis
      using attempt_errors_keep(1) [of aid owner t lease s _ s'] claim_attempt_Ok [of aid owner t lease s _ s']
      by (cases res) (auto simp: saved_attempt_def)
  qed
qed

definition held_within :: "(string \<Rightarrow> string \<Rightarrow> rat) \<Rightarrow> string \<Rightarrow> string \<Rightarrow> datetime \<Rightarrow> store \<Rightarrow> bool" where
  "held_within stock resource unit t s =
     (reservations_ok (capacity_reservations s)
      \<and> capacity_hold.total resource unit t (capacity_reservations s) \<le> stock resource unit)"

lemma nonneg_of_ok: "reservations_ok rows \<Longrightarrow> capacity_hold.nonneg rows"
  using reservations_okD(3) by (auto simp: capacity_hold.nonneg_def)

lemma held_within_later:
  assumes "held_within stock resource unit t s" and "t \<le> t'"
  shows "held_within stock resource unit t' s"
  using capacity_hold.total_later [OF assms(2) nonneg_of_ok, of "capacity_reservations s"] assms(1)
  by (auto simp: held_within_def intro: order.trans)

lemma transition_held_within:
  assumes "held_within stock resource unit t s"
  shows "held_within stock resource unit t
    (snd (transition_execution_attempt aid st v target t reason ch s))"
proof (cases "transition_execution_attempt aid st v target t reason ch s")
  case (Pair res s')
  show ?thesis
  proof (cases res)
    case (Inl e)
    from attempt_errors_keep(2) [OF Pair [unfolded Inl]] Pair assms show ?thesis by simp
  next
    case (Inr u)
    from transition_attempt_Ok [OF Pair [unfolded Inr]] obtain current s1 where
      edge: "target \<in> set (attempt_transitions st)"
      and u: "u = changed_attempt current target t reason ch" "validate_attempt u = Inr ()"
      and cap: "transition_attempt_capacity_locked current u s = (Inr (), s1)"
      and s': "s' = saved_attempt current u reason s1" by blast
    have ok: "reservations_ok (capacity_reservations s)" using assms by (simp add: held_within_def)
    have owner: "ea_owner_id current \<noteq> None"
      by (rule transition_owner [OF u(2) [unfolded u(1)] edge])
    have later: "t \<le> ea_updated_at u" by (simp add: u(1))
    note keeps = transition_capacity [OF cap ok owner later]
    have "held_within stock resource unit t s1"
      using keeps(2) keeps(3) [of resource unit "stock resource unit"] assms by (simp add: held_within_def)
    with Pair s' show ?thesis by (simp add: saved_attempt_def held_within_def)
  qed
qed

lemma runtime_step_held:
  assumes "runtime_step stock t s s'" and "held_within stock resource unit t s"
  shows "held_within stock resource unit t s'"
  using assms(1)
proof cases
  case capacity
  have ok: "reservations_ok (capacity_reservations s)" using assms(2) by (simp add: held_within_def)
  from capacity_hold.change_now [OF step_change [OF capacity ok] nonneg_of_ok [OF ok]]
    step_reservations_ok [OF capacity ok] assms(2)
  show ?thesis by (simp add: held_within_def)
next
  case (transition aid st v target reason ch)
  show ?thesis unfolding transition by (rule transition_held_within [OF assms(2)])
qed (use assms(2) attempt_ops_keep_holds in \<open>simp_all add: held_within_def\<close>)

lemma runtime_held:
  "runtime stock t s \<Longrightarrow> 0 \<le> stock resource unit \<Longrightarrow> held_within stock resource unit t s"
proof (induction rule: runtime.induct)
  case (started t)
  then show ?case by (simp add: held_within_def reservations_ok_def unique_tokens_def)
next
  case (stepped t s t' s')
  then show ?case using runtime_step_held held_within_later by blast
qed

text \<open>
  C1 No overcommitment with attempts: also when execution attempts claim and release the
  holds bound to them, the capacity held of a resource and unit never exceeds what was
  reported as available.
\<close>

theorem runtime_never_overcommits:
  assumes "runtime stock t s" and "0 \<le> stock resource unit"
  shows "held_capacity resource unit t (capacity_reservations s) \<le> stock resource unit"
  using runtime_held [OF assms] by (simp add: held_within_def held_capacity_total)

text \<open>An invoking attempt holds its six credits of ten.\<close>

definition held_attempt :: ExecutionAttempt where
  "held_attempt = sample_attempt\<lparr>ea_attempt_id := ''run''\<rparr>"

definition hold_changes :: "string list \<Rightarrow> attempt_changes" where
  "hold_changes ids = no_changes\<lparr>ac_capacity_reservation_ids := Some ids\<rparr>"

definition sample_held_run :: "string list \<Rightarrow> store \<Rightarrow> ExecutionAttempt result \<times> store" where
  "sample_held_run ids s =
     transition_execution_attempt ''run'' Att_RESERVED 2 Att_INVOKING (Aware 6) None
       (no_changes\<lparr>ac_invocation_start_digest := Some sample_digest\<rparr>)
       (snd (transition_execution_attempt ''run'' Att_CLAIMED 1 Att_RESERVED (Aware 5) None
         (hold_changes ids)
         (snd (claim_execution_attempt ''run'' ''w'' (Aware 4) (Aware 50)
           (snd (create_execution_attempt (Aware 3) held_attempt s))))))"

definition two_holds :: store where
  "two_holds =
     snd (reserve_capacity (sample_reservation ''r2'' 4) (Some (Finite 10)) (Aware 2)
       (snd (reserve_capacity (sample_reservation ''r1'' 6) (Some (Finite 10)) (Aware 1) empty_store)))"

lemma two_holds_reachable: "runtime (\<lambda>_ _. 10) (Aware 2) two_holds"
proof -
  have v: "validate_reservation (sample_reservation k q) = Inr ()"
    if "0 \<le> q" "text_len 1 500 k" for k q
    using that by (simp add: validate_reservation_def sample_reservation_def text_len_def)
  have step: "runtime_step (\<lambda>_ _. 10) t s
      (snd (reserve_capacity (sample_reservation k q) (Some (Finite 10)) t s))"
    if "0 \<le> q" "text_len 1 500 k" for k q s t
    using v [OF that] by (intro runtime_step.capacity capacity_step.reserve) auto
  show ?thesis unfolding two_holds_def
    by (rule runtime.stepped [OF runtime.stepped [OF runtime.started [of _ "Aware 0"] _ step] _ step])
      (simp_all add: text_len_def)
qed

lemma held_run_reachable:
  "runtime (\<lambda>_ _. 10) (Aware 6) (snd (sample_held_run ids two_holds))"
proof -
  have "validate_attempt held_attempt = Inr ()"
    by (simp add: held_attempt_def sample_attempt_def validate_attempt_def attempt_fields_ok_def
        text_len_def plain_or_tagged_digest_def)
  then have "runtime_step (\<lambda>_ _. 10) (Aware 3) two_holds
      (snd (create_execution_attempt (Aware 3) held_attempt two_holds))"
    by (rule runtime_step.create) (simp_all add: held_attempt_def sample_attempt_def)
  then show ?thesis unfolding sample_held_run_def
    by (rule runtime.stepped [OF runtime.stepped [OF runtime.stepped [OF runtime.stepped
            [OF two_holds_reachable] _ runtime_step.claim_attempt] _ runtime_step.transition]
          _ runtime_step.transition, rotated]) simp_all
qed

theorem runtime_never_overcommits_witness:
  "held_capacity ''pool'' ''credits'' (Aware 6)
     (capacity_reservations (snd (sample_held_run [''r1''] two_holds))) \<le> 10"
  by (rule runtime_never_overcommits [OF held_run_reachable]) simp

section \<open>The token of an invocation\<close>

lemma invoking_tokens:
  assumes "transition_holds current updated rids s = (Inr u, s')"
    and "reservations_ok (capacity_reservations s)" and owner: "ea_owner_id current = Some w"
    and inv: "ea_state updated = Att_INVOKING" and "distinct rids"
  shows "(\<forall>rid \<in> set rids. \<forall>x \<in> set (capacity_reservations s).
            cr_reservation_id x \<noteq> rid \<longrightarrow> cr_claim_token x \<noteq> Some w) \<and> length rids \<le> 1"
  using assms(1,2,5)
proof (cases rids)
  case (Cons rid rest)
  with assms(1) obtain s1 where one: "transition_hold current updated rid s = (Inr (), s1)"
    and loop: "transition_holds current updated rest s1 = (Inr u, s')"
    by (auto split: prod.splits sum.splits)
  from one obtain hold where hold: "get_capacity_reservation rid s = Some hold"
    by (auto simp: transition_hold_def split: option.splits)
  with one owner inv have free: "\<forall>x \<in> set (capacity_reservations s).
        cr_reservation_id x \<noteq> rid \<longrightarrow> cr_claim_token x \<noteq> Some w"
    and s1: "capacity_reservations s1 = update_rows (\<lambda>x. cr_reservation_id x = rid)
        (\<lambda>x. x\<lparr>cr_status := Cap_CLAIMED, cr_claim_token := Some w, cr_version := cr_version x + 1,
               cr_updated_at := ea_updated_at updated\<rparr>) (capacity_reservations s)"
    by (auto simp: transition_hold_def split: if_splits)
  have "rest = []"
  proof (rule ccontr)
    assume "rest \<noteq> []"
    then obtain rid2 more where rest: "rest = rid2 # more" by (cases rest) auto
    with Cons assms(5) have ne: "rid \<noteq> rid2" by auto
    let ?x = "hold\<lparr>cr_status := Cap_CLAIMED, cr_claim_token := Some w,
        cr_version := cr_version hold + 1, cr_updated_at := ea_updated_at updated\<rparr>"
    have "hold \<in> set (capacity_reservations s)" "cr_reservation_id hold = rid"
      using hold select_row_SomeD by (force simp: get_capacity_reservation_def)+
    then have x: "?x \<in> set (capacity_reservations s1)" "cr_reservation_id ?x \<noteq> rid2"
      "cr_claim_token ?x = Some w"
      using ne by (auto simp: s1 set_update_rows)
    have "\<exists>e. fst (transition_hold current updated rid2 s1) = Inl e"
      using x(2,3) inv owner bexI [OF _ x(1), of "\<lambda>x. cr_reservation_id x \<noteq> rid2 \<and> cr_claim_token x = Some w"]
      by (simp add: transition_hold_def split: option.splits)
    with loop show False unfolding rest by (auto split: prod.splits sum.splits)
  qed
  with free Cons show ?thesis by simp
qed simp

text \<open>
  C39 The claim token of an invocation is the worker's id, and the column is unique: a claimed
  attempt never reaches INVOKING with two or more capacity holds, and with one hold it does so
  only if no other reservation row, released ones included, carries the token of its worker.
  An attempt without a hold needs no token. (The router gives every attempt of one instance the
  same worker id.)
\<close>

theorem invocation_needs_unused_token:
  assumes "transition_execution_attempt aid st v Att_INVOKING t reason ch s = (Inr u, s')"
    and "reservations_ok (capacity_reservations s)" and "ea_owner_id u = Some w"
  shows "length (ea_capacity_reservation_ids u) \<le> 1
    \<and> (\<forall>rid \<in> set (ea_capacity_reservation_ids u). \<forall>x \<in> set (capacity_reservations s).
         cr_reservation_id x \<noteq> rid \<longrightarrow> cr_claim_token x \<noteq> Some w)"
proof -
  from transition_attempt_Ok [OF assms(1)] obtain current s1 where
    u: "u = changed_attempt current Att_INVOKING t reason ch" "validate_attempt u = Inr ()"
    and cap: "transition_attempt_capacity_locked current u s = (Inr (), s1)" by blast
  from cap have loop: "transition_holds current u (ea_capacity_reservation_ids u) s = (Inr (), s1)"
    by (simp add: transition_attempt_capacity_locked_def split: if_splits)
  have "ea_owner_id current = Some w" "ea_state u = Att_INVOKING" using assms(3) u(1) by simp_all
  moreover have "distinct (ea_capacity_reservation_ids u)"
    using u(2) by (auto simp: validate_attempt_def split: if_splits)
  ultimately show ?thesis using invoking_tokens [OF loop assms(2)] by simp
qed

lemmas hold_eval =
  sample_held_run_def two_holds_def held_attempt_def hold_changes_def sample_attempt_def
  transition_hold_def attempt_eval capacity_eval

text \<open>
  One hold invokes; with two holds the very same run ends in the integrity error, so an
  attempt with two capacity holds never starts.
\<close>

theorem invocation_needs_unused_token_witness:
  "\<exists>u s'. sample_held_run [''r1''] two_holds = (Inr u, s') \<and> length (ea_capacity_reservation_ids u) \<le> 1
    \<and> fst (sample_held_run [''r1'', ''r2''] two_holds)
        = Inl (IntegrityError ''UNIQUE capacity_reservations.claim_token'')"
proof -
  have "\<exists>u s'. sample_held_run [''r1''] two_holds = (Inr u, s') \<and> ea_owner_id u = Some ''w''"
    by (simp add: hold_eval)
  then obtain u s' where run: "sample_held_run [''r1''] two_holds = (Inr u, s')" "ea_owner_id u = Some ''w''"
    by blast
  let ?before = "snd (transition_execution_attempt ''run'' Att_CLAIMED 1 Att_RESERVED (Aware 5) None
         (hold_changes [''r1''])
         (snd (claim_execution_attempt ''run'' ''w'' (Aware 4) (Aware 50)
           (snd (create_execution_attempt (Aware 3) held_attempt two_holds)))))"
  have "reservations_ok (capacity_reservations ?before)"
    by (simp add: hold_eval reservations_ok_def unique_tokens_def)
  from invocation_needs_unused_token [OF run(1) [unfolded sample_held_run_def] this run(2)]
  have "length (ea_capacity_reservation_ids u) \<le> 1" ..
  moreover have "fst (sample_held_run [''r1'', ''r2''] two_holds)
        = Inl (IntegrityError ''UNIQUE capacity_reservations.claim_token'')"
    by (simp add: hold_eval)
  ultimately show ?thesis using run by blast
qed

section \<open>Recovery\<close>

text \<open>
  C37 Recovery after a lease succeeds only for an attempt that was INVOKING and whose lease had
  expired; the attempt then is INDETERMINATE, and no run of the transition table from there
  leads to INVOKING again, so recovery cannot repeat the external call.
\<close>

theorem recovery_never_reinvokes:
  assumes "recover_after_lease aid inspected now s = (Inr u, s')"
  shows "(\<exists>a. get_execution_attempt aid s = Some a \<and> ea_state a = Att_INVOKING
           \<and> (\<exists>l. ea_lease_expires_at a = Some l \<and> l \<le> now)
           \<and> ea_state u = Att_INDETERMINATE \<and> ea_version u = ea_version a + 1
           \<and> attempt_authority u = attempt_authority a)
    \<and> (\<forall>ts. attempt_life.path (ea_state u) ts \<longrightarrow> Att_INVOKING \<notin> set ts)"
proof -
  obtain a where a: "get_execution_attempt aid s = Some a"
    using assms by (auto simp: recover_after_lease_def split: option.splits)
  obtain l where l: "ea_lease_expires_at a = Some l" "l \<le> now"
    using assms a by (auto simp: recover_after_lease_def not_less split: option.splits if_splits)
  have inv: "ea_state a = Att_INVOKING"
    using assms a l by (auto simp: recover_after_lease_def split: if_splits)
  from assms a l inv obtain reason where
    "transition_execution_attempt aid (ea_state a) (ea_version a) Att_INDETERMINATE now reason
       no_changes s = (Inr u, s')"
    by (auto simp: recover_after_lease_def not_less [symmetric] split: if_splits)
  from transition_attempt_Ok [OF this] a
  have u: "u = changed_attempt a Att_INDETERMINATE now reason no_changes" by auto
  have "post_invocation (ea_state u)" by (simp add: u post_invocation_def)
  with path_post_invocation a l inv u show ?thesis by auto
qed

theorem recovery_never_reinvokes_witness:
  "\<exists>u s'. recover_after_lease ''run'' None (Aware 60) (snd (sample_held_run [''r1''] two_holds)) = (Inr u, s')
     \<and> ea_state u = Att_INDETERMINATE"
proof -
  have "\<exists>u s'. recover_after_lease ''run'' None (Aware 60) (snd (sample_held_run [''r1''] two_holds))
      = (Inr u, s')"
    by (simp add: recover_after_lease_def hold_eval)
  then show ?thesis using recovery_never_reinvokes by blast
qed

end
