(* ===== verification/Capacity_Behaviour.thy ===== *)
theory Capacity_Behaviour
  imports Capacity_Ledger
begin

text \<open>
  Behaviour of the single capacity operations: when a reservation is admitted and when a
  claim succeeds, replay of the write operations, and which states are never recorded.
\<close>

section \<open>Replay\<close>

text \<open>The transaction of a repeated call finds the row the first call left.\<close>

lemma reserve_again:
  assumes "reserve_capacity r known t s = (Inr v, s')"
  shows "\<exists>w. reserve_capacity r known t s' = (Inr w, s') \<and> reservation_binding w = reservation_binding v"
proof -
  from assms have pre: "\<not> cr_expires_at r \<le> t" "opt_all finite_nonneg known"
      "\<not> (cr_maximum_quantity r \<noteq> 0 \<and> known = None)"
    by (auto simp: reserve_capacity_def split: if_splits)
  show ?thesis
  proof (cases "select_row (\<lambda>x. cr_idempotency_key x = cr_idempotency_key r) (capacity_reservations s)")
    case (Some stored)
    with assms pre have "s' = s" "v = stored" "reservation_binding stored = reservation_binding r"
      by (auto simp: reserve_capacity_def immediate_transaction_def split: if_splits)
    with assms show ?thesis by blast
  next
    case None
    with assms pre have "v = r"
      and s': "s' = s\<lparr>capacity_reservations := capacity_reservations s @ [fresh_reservation r]\<rparr>"
      by (auto simp: reserve_capacity_def immediate_transaction_def Let_def split: if_splits)
    have "select_row (\<lambda>x. cr_idempotency_key x = cr_idempotency_key r) (capacity_reservations s')
        = Some (fresh_reservation r)"
      using None by (simp add: s' select_row_append)
    with pre \<open>v = r\<close> show ?thesis
      by (simp add: reserve_capacity_def immediate_transaction_def)
  qed
qed

interpretation reserve_replay: replayable
  "\<lambda>(r, known, t) s. reserve_capacity r known t s"
  "\<lambda>v w. reservation_binding w = reservation_binding v"
  using reserve_again by unfold_locales (auto split: prod.splits)

lemma redeem_stored:
  assumes "redeem_entitlement rd ri eid aid q t s = (Inr receipt, s')"
  shows "select_row (\<lambda>x. er_attempt_id x = aid) (entitlement_redemptions s') = Some receipt"
    and "er_entitlement_id receipt = eid" and "er_quantity_consumed receipt = decimal_value q"
  using redeem_Ok [OF assms] by (elim disjE exE conjE; simp add: select_row_fresh)+

lemma redeem_again:
  assumes "redeem_entitlement rd ri eid aid q t s = (Inr receipt, s')"
  shows "redeem_entitlement rd ri eid aid q t s' = (Inr receipt, s')"
proof -
  have guard: "finite_decimal q \<and> 0 < decimal_value q"
    using assms by (auto simp: redeem_entitlement_def split: if_splits)
  with redeem_stored [OF assms] show ?thesis
    by (simp add: redeem_entitlement_def immediate_transaction_def)
qed

interpretation redeem_replay: replayable
  "\<lambda>(rd, ri, eid, aid, q, t). redeem_entitlement rd ri eid aid q t" "(=)"
proof unfold_locales
  fix c s v s'
  assume call: "(case c of (rd, ri, eid, aid, q, t) \<Rightarrow> redeem_entitlement rd ri eid aid q t) s = (Inr v, s')"
  obtain rd ri eid aid q t where c: "c = (rd, ri, eid, aid, q, t)" by (cases c) auto
  show "\<exists>w. (case c of (rd, ri, eid, aid, q, t) \<Rightarrow> redeem_entitlement rd ri eid aid q t) s' = (Inr w, s')
      \<and> v = w"
    using redeem_again [of rd ri eid aid q t s v s'] call by (simp add: c)
qed simp_all

lemma save_observation_again:
  assumes "save_capacity_observation digest ob s = (Inr v, s')"
  shows "save_capacity_observation digest ob s' = (Inr v, s')"
proof (cases "select_row (\<lambda>x. co_observation_id x = co_observation_id ob) (capacity_observations s)")
  case (Some row)
  with assms have "s' = s"
    by (simp add: save_capacity_observation_def immediate_transaction_def split: if_splits)
  with assms show ?thesis by simp
next
  case None
  with assms have s': "s' = s\<lparr>capacity_observations := capacity_observations s @ [ob]\<rparr>" and "v = ob"
    by (auto simp: save_capacity_observation_def immediate_transaction_def split: if_splits)
  have "select_row (\<lambda>x. co_observation_id x = co_observation_id ob) (capacity_observations s') = Some ob"
    unfolding s' using None by (simp add: select_row_fresh select_row_None)
  with \<open>v = ob\<close> show ?thesis
    by (simp add: save_capacity_observation_def immediate_transaction_def)
qed

interpretation observation_replay: replayable
  "\<lambda>(digest, ob). save_capacity_observation digest ob" "(=)"
  using save_observation_again by unfold_locales (auto split: prod.splits)

lemma save_entitlement_again:
  assumes "save_execution_entitlement digest e s = (Inr v, s')"
  shows "save_execution_entitlement digest e s' = (Inr v, s')"
proof -
  let ?same = "\<lambda>x. en_id x = ee_entitlement_id e \<or> ee_nonce (en_entitlement x) = ee_nonce e"
  from assms have auth: "entitlement_authorization_error e s = None"
    by (simp add: save_execution_entitlement_def immediate_transaction_def split: option.splits)
  show ?thesis
  proof (cases "select_row ?same (execution_entitlements s)")
    case (Some row)
    with assms auth have "s' = s"
      by (simp add: save_execution_entitlement_def immediate_transaction_def split: if_splits)
    with assms show ?thesis by simp
  next
    case None
    let ?row = "\<lparr>en_entitlement = e, en_remaining_quantity = ee_maximum_quantity e,
        en_state = Ent_active, en_version = 0, en_payload_digest = digest e\<rparr>"
    from assms auth None have "v = e"
      and s': "s' = s\<lparr>execution_entitlements := execution_entitlements s @ [?row]\<rparr>"
      by (auto simp: save_execution_entitlement_def immediate_transaction_def split: if_splits)
    have "select_row ?same (execution_entitlements s') = Some ?row"
      unfolding s' using None by (simp add: select_row_fresh select_row_None)
    moreover have "entitlement_authorization_error e s' = None"
      using auth by (simp add: s' entitlement_authorization_error_def split: if_splits)
    ultimately show ?thesis using \<open>v = e\<close>
      by (simp add: save_execution_entitlement_def immediate_transaction_def)
  qed
qed

interpretation entitlement_replay: replayable
  "\<lambda>(digest, e). save_execution_entitlement digest e" "(=)"
  using save_entitlement_again by unfold_locales (auto split: prod.splits)

text \<open>
  A successful reservation may be retried any number of times: every retry succeeds with
  the same binding (resource, execution, quantity, unit, expiry) and the store is the one the
  first call left, so a retry never holds capacity twice.
\<close>

theorem reserve_capacity_retries:
  assumes "reserve_capacity r known t s = (Inr v, s')"
  shows "\<exists>w. reserve_replay.retry n (r, known, t) s = (Inr w, s')
    \<and> reservation_binding w = reservation_binding v"
  using reserve_replay.retries_agree [of "(r, known, t)" s v s' n] assms by simp

theorem reserve_capacity_retries_witness:
  "\<exists>w s'. reserve_replay.retry 3 (sample_reservation ''r1'' 6, Some (Finite 10), Aware 1) empty_store
     = (Inr w, s') \<and> cr_maximum_quantity w = 6 \<and> length (capacity_reservations s') = 1"
proof -
  have "reserve_capacity (sample_reservation ''r1'' 6) (Some (Finite 10)) (Aware 1) empty_store
    = (Inr (sample_reservation ''r1'' 6),
       empty_store\<lparr>capacity_reservations := [fresh_reservation (sample_reservation ''r1'' 6)]\<rparr>)"
    by (simp add: capacity_eval)
  from reserve_capacity_retries [OF this, of 3] show ?thesis
    by (auto simp: reservation_binding_def sample_reservation_def)
qed

text \<open>
  Redemption is at most once per attempt: a retry of a redemption returns the very receipt
  and changes nothing, and no other quantity or entitlement can be redeemed for the attempt.
\<close>

theorem redemption_once_per_attempt:
  assumes first: "redeem_entitlement rd ri eid aid q t s = (Inr receipt, s')"
  shows "redeem_replay.retry n (rd, ri, eid, aid, q, t) s = (Inr receipt, s')
    \<and> ((eid', decimal_value q') = (eid, decimal_value q)
       \<or> (\<exists>e. redeem_entitlement rd' ri' eid' aid q' t' s' = (Inl e, s')))"
proof
  show "redeem_replay.retry n (rd, ri, eid, aid, q, t) s = (Inr receipt, s')"
    using redeem_replay.retries_agree [of "(rd, ri, eid, aid, q, t)" s receipt s' n] first by simp
  show "(eid', decimal_value q') = (eid, decimal_value q)
      \<or> (\<exists>e. redeem_entitlement rd' ri' eid' aid q' t' s' = (Inl e, s'))"
    using redeem_stored [OF first]
    by (auto simp: redeem_entitlement_def immediate_transaction_def)
qed

lemma sample_redemption:
  "redeem_entitlement (\<lambda>_ _ _ _. sample_digest) (\<lambda>op key. op @ key) ''ent'' ''a1'' (Finite 2) (Aware 20)
     (snd (save_execution_entitlement (\<lambda>_. sample_digest) sample_entitlement empty_store))
   = (Inr (hd (entitlement_redemptions sample_redeemed)), sample_redeemed)"
  by (simp add: sample_redeemed_def entitlement_eval)

theorem redemption_once_per_attempt_witness:
  "\<exists>e. redeem_entitlement (\<lambda>_ _ _ _. sample_digest) (\<lambda>op key. op @ key) ''ent'' ''a1'' (Finite 3)
     (Aware 21) sample_redeemed = (Inl e, sample_redeemed)"
  using redemption_once_per_attempt [OF sample_redemption, of 1 "''ent''" "Finite 3"] by simp

section \<open>Claims\<close>

lemma get_claimed:
  assumes ok: "reservations_ok (capacity_reservations s)"
    and stored: "get_capacity_reservation rid s = Some stored"
  shows "stored \<in> set (capacity_reservations s)" and "cr_reservation_id stored = rid"
    and "x \<in> set (capacity_reservations s) \<Longrightarrow> cr_reservation_id x = rid \<Longrightarrow> x = stored"
  using select_row_SomeD [of _ "capacity_reservations s" stored]
    select_key_Some [OF reservations_okD(1) [OF ok], of x] stored
  by (auto simp: get_capacity_reservation_def)

text \<open>With the primary key, the compare-and-set update hits the stored row or none.\<close>

lemma cas_rowcount:
  assumes ok: "reservations_ok (capacity_reservations s)"
    and stored: "get_capacity_reservation rid s = Some stored"
  shows "rowcount (\<lambda>x. cr_reservation_id x = rid \<and> cr_version x = v \<and> cr_status x = st)
      (capacity_reservations s) = (if cr_version stored = v \<and> cr_status stored = st then 1 else 0)"
  using rowcount_key [OF reservations_okD(1) [OF ok], of rid "\<lambda>x. cr_version x = v \<and> cr_status x = st"]
    stored by (simp add: get_capacity_reservation_def)

lemma get_after_update:
  assumes ok: "reservations_ok (capacity_reservations s)"
    and stored: "get_capacity_reservation rid s = Some stored"
    and hit: "p stored" and keep: "\<And>x. cr_reservation_id (f x) = cr_reservation_id x"
  shows "get_capacity_reservation rid
      (s\<lparr>capacity_reservations := update_rows (\<lambda>x. cr_reservation_id x = rid \<and> p x) f
          (capacity_reservations s)\<rparr>) = Some (f stored)"
proof -
  let ?rows = "update_rows (\<lambda>x. cr_reservation_id x = rid \<and> p x) f (capacity_reservations s)"
  have d: "distinct (map cr_reservation_id ?rows)"
    using reservations_okD(1) [OF ok] keep by (simp add: map_key_update_rows)
  have "f stored \<in> set ?rows"
    using get_claimed(1,2) [OF ok stored] hit by (auto simp: set_update_rows image_iff intro!: bexI [of _ stored])
  from select_key_Some [OF d this] show ?thesis
    using get_claimed(2) [OF ok stored] keep by (simp add: get_capacity_reservation_def)
qed

definition claimed_row :: "string \<Rightarrow> datetime \<Rightarrow> CapacityReservation \<Rightarrow> CapacityReservation" where
  "claimed_row token t x = x\<lparr>cr_status := Cap_CLAIMED, cr_claim_token := Some token,
     cr_version := cr_version x + 1, cr_updated_at := t\<rparr>"

lemma claim_Ok:
  assumes ok: "reservations_ok (capacity_reservations s)"
    and stored: "get_capacity_reservation rid s = Some stored"
  shows "claim_capacity_reservation rid token v t s = (Inr r, s') \<longleftrightarrow>
      cr_status stored = Cap_CLAIMED \<and> cr_claim_token stored = Some token \<and> r = stored \<and> s' = s
    \<or> cr_status stored = Cap_RESERVED \<and> t < cr_expires_at stored \<and> cr_version stored = v
      \<and> (\<forall>x \<in> set (capacity_reservations s).
            cr_reservation_id x \<noteq> rid \<longrightarrow> cr_claim_token x \<noteq> Some token)
      \<and> r = claimed_row token t stored
      \<and> s' = s\<lparr>capacity_reservations := update_rows
            (\<lambda>x. cr_reservation_id x = rid \<and> cr_version x = v \<and> cr_status x = Cap_RESERVED)
            (claimed_row token t) (capacity_reservations s)\<rparr>"
proof -
  have found: "get_capacity_reservation rid
      (s\<lparr>capacity_reservations := update_rows
            (\<lambda>x. cr_reservation_id x = rid \<and> cr_version x = v \<and> cr_status x = Cap_RESERVED)
            (claimed_row token t) (capacity_reservations s)\<rparr>) = Some (claimed_row token t stored)"
    if "cr_version stored = v" "cr_status stored = Cap_RESERVED"
    using get_after_update [OF ok stored, of "\<lambda>x. cr_version x = v \<and> cr_status x = Cap_RESERVED"
        "claimed_row token t"] that by (simp add: claimed_row_def)
  have count: "rowcount (\<lambda>x. cr_reservation_id x = rid \<and> cr_version x = v \<and> cr_status x = Cap_RESERVED)
      (capacity_reservations s) = (if cr_version stored = v \<and> cr_status stored = Cap_RESERVED then 1 else 0)"
    by (rule cas_rowcount [OF ok stored])
  consider "cr_status stored = Cap_CLAIMED" | "cr_status stored \<noteq> Cap_CLAIMED" "cr_expires_at stored \<le> t"
    | "cr_status stored \<noteq> Cap_CLAIMED" "cr_status stored \<noteq> Cap_RESERVED" "t < cr_expires_at stored"
    | "cr_status stored = Cap_RESERVED" "t < cr_expires_at stored" "cr_version stored \<noteq> v"
    | "cr_status stored = Cap_RESERVED" "t < cr_expires_at stored" "cr_version stored = v"
    by (meson not_le)
  then show ?thesis
  proof cases
    case 5
    note now = found [OF 5(3,1), unfolded claimed_row_def [abs_def]]
    from 5 show ?thesis
      by (simp add: claim_capacity_reservation_def immediate_transaction_def Let_def stored count now
          claimed_row_def [abs_def]) auto
  qed (auto simp: claim_capacity_reservation_def immediate_transaction_def Let_def stored count)
qed

text \<open>
  When a claim succeeds: the reservation exists and is either already claimed with this
  token, or is an unexpired RESERVED row of the expected version while no other row carries
  the token. The store then holds the returned row, CLAIMED with the token.
\<close>

theorem claim_succeeds_iff:
  assumes ok: "reservations_ok (capacity_reservations s)"
  shows "(\<exists>r s'. claim_capacity_reservation rid token v t s = (Inr r, s')
        \<and> get_capacity_reservation rid s' = Some r \<and> cr_status r = Cap_CLAIMED
        \<and> cr_claim_token r = Some token)
      \<longleftrightarrow> (\<exists>stored. get_capacity_reservation rid s = Some stored
        \<and> (cr_status stored = Cap_CLAIMED \<and> cr_claim_token stored = Some token
           \<or> cr_status stored = Cap_RESERVED \<and> t < cr_expires_at stored \<and> cr_version stored = v
             \<and> (\<forall>x \<in> set (capacity_reservations s).
                   cr_reservation_id x \<noteq> rid \<longrightarrow> cr_claim_token x \<noteq> Some token)))"
proof (cases "get_capacity_reservation rid s")
  case None
  then show ?thesis
    by (simp add: claim_capacity_reservation_def immediate_transaction_def)
next
  case (Some stored)
  have "get_capacity_reservation rid
      (s\<lparr>capacity_reservations := update_rows
            (\<lambda>x. cr_reservation_id x = rid \<and> cr_version x = v \<and> cr_status x = Cap_RESERVED)
            (claimed_row token t) (capacity_reservations s)\<rparr>) = Some (claimed_row token t stored)"
    if "cr_version stored = v" "cr_status stored = Cap_RESERVED"
    using get_after_update [OF ok Some, of "\<lambda>x. cr_version x = v \<and> cr_status x = Cap_RESERVED"
        "claimed_row token t"] that by (simp add: claimed_row_def)
  then show ?thesis
    by (auto simp: claim_Ok [OF ok Some] Some claimed_row_def [of _ _ stored])
qed

text \<open>
  The same worker token cannot claim a second reservation: after the first claim the update
  violates the uniqueness of the \<open>claim_token\<close> column.
\<close>

theorem claim_succeeds_iff_witness:
  "claim_capacity_reservation ''r2'' ''w'' 0 (Aware 4) sample_ledger
     = (Inl (IntegrityError ''UNIQUE capacity_reservations.claim_token''), sample_ledger)
   \<and> (\<exists>r s'. claim_capacity_reservation ''r2'' ''u'' 0 (Aware 4) sample_ledger = (Inr r, s'))"
proof
  show "claim_capacity_reservation ''r2'' ''w'' 0 (Aware 4) sample_ledger
     = (Inl (IntegrityError ''UNIQUE capacity_reservations.claim_token''), sample_ledger)"
    by (simp add: capacity_eval sample_ledger_rows)
  have "reservations_ok (capacity_reservations sample_ledger)"
    using ledger_ok [OF sample_ledger_reachable] by simp
  from claim_succeeds_iff [OF this, of "''r2''" "''u''" 0 "Aware 4"]
  show "\<exists>r s'. claim_capacity_reservation ''r2'' ''u'' 0 (Aware 4) sample_ledger = (Inr r, s')"
    by (auto simp: get_capacity_reservation_def sample_ledger_rows sample_reservation_def)
qed

section \<open>States that are never recorded\<close>

lemma step_keeps_unexpired:
  assumes "capacity_step stock t s s'"
    and "\<forall>r \<in> set (capacity_reservations s). cr_status r \<notin> {Cap_EXPIRED, Cap_CONSUMED}"
  shows "\<forall>r \<in> set (capacity_reservations s'). cr_status r \<notin> {Cap_EXPIRED, Cap_CONSUMED}"
  using assms
proof cases
  case (reserve r known)
  with assms(2) reserve_rows [of r known t s] show ?thesis by auto
next
  case (claim rid token v)
  with assms(2) claim_rows [of rid token v t s] show ?thesis by (auto simp: set_update_rows)
next
  case (release rid v)
  with assms(2) release_rows [of rid v t s] show ?thesis by (auto simp: set_update_rows)
qed simp_all

text \<open>
  Expiry is not persisted: \<open>claim_capacity_reservation\<close> and \<open>redeem_entitlement\<close> write the
  expired state and then raise inside the same transaction, which rolls the write back. In
  no reachable ledger is a reservation EXPIRED (or CONSUMED) or an entitlement expired.
\<close>

theorem expiry_never_recorded:
  assumes "ledger stock t s"
  shows "(\<forall>r \<in> set (capacity_reservations s). cr_status r \<notin> {Cap_EXPIRED, Cap_CONSUMED})
    \<and> (\<forall>row \<in> set (execution_entitlements s). en_state row \<noteq> Ent_expired)"
proof
  show "\<forall>r \<in> set (capacity_reservations s). cr_status r \<notin> {Cap_EXPIRED, Cap_CONSUMED}"
    using assms
  proof (induction rule: ledger.induct)
    case (stepped t s t' s')
    show ?case by (rule step_keeps_unexpired [OF stepped.hyps(3) stepped.IH])
  qed simp
  show "\<forall>row \<in> set (execution_entitlements s). en_state row \<noteq> Ent_expired"
    using ledger_ok [OF assms] by (auto simp: entitlements_ok_def entitlement_balanced_def)
qed

text \<open>The expired reservation of the sample ledger is refused and stays RESERVED.\<close>

theorem expiry_never_recorded_witness:
  "claim_capacity_reservation ''r2'' ''u'' 0 (Aware 500) sample_ledger
     = (Inl (ConfigurationError ''capacity reservation expired before claim''), sample_ledger)
   \<and> Cap_EXPIRED \<notin> cr_status ` set (capacity_reservations sample_ledger)"
  using expiry_never_recorded [OF sample_ledger_reachable]
  by (simp add: capacity_eval sample_ledger_rows)

section \<open>Latest observation\<close>

text \<open>
  The latest observation of a resource is one of its stored observations and none of them
  was observed later; there is none exactly when the resource has no observation.
\<close>

theorem latest_observation_newest:
  "case latest_capacity_observation resource s of
     None \<Rightarrow> \<not> (\<exists>x \<in> set (capacity_observations s). co_resource_id x = resource)
   | Some ob \<Rightarrow> ob \<in> {x \<in> set (capacity_observations s). co_resource_id x = resource}
       \<and> co_observed_at ob = Max (co_observed_at `
             {x \<in> set (capacity_observations s). co_resource_id x = resource})"
proof -
  define t where "t = filter (\<lambda>x. co_resource_id x = resource) (capacity_observations s)"
  define sorted_t where "sorted_t = sort_key co_observed_at t"
  have set_t: "set t = {x \<in> set (capacity_observations s). co_resource_id x = resource}"
    by (auto simp: t_def)
  have latest: "latest_capacity_observation resource s = (case rev sorted_t of [] \<Rightarrow> None | v # _ \<Rightarrow> Some v)"
    by (cases "rev sorted_t")
      (simp_all add: latest_capacity_observation_def list_capacity_observations_def t_def sorted_t_def)
  show ?thesis
  proof (cases "rev sorted_t")
    case Nil
    then have "t = []" by (metis sorted_t_def rev_is_Nil_conv set_empty set_sort)
    then show ?thesis using set_t by (auto simp: latest Nil)
  next
    case (Cons ob rest)
    then have eq: "sorted_t = rev rest @ [ob]" by (metis rev.simps(2) rev_rev_ident)
    have "sorted (map co_observed_at sorted_t)" by (simp add: sorted_t_def)
    then have le: "\<forall>x \<in> set sorted_t. co_observed_at x \<le> co_observed_at ob"
      by (auto simp: eq sorted_append)
    have st: "set sorted_t = set t" by (simp add: sorted_t_def)
    then have mem: "ob \<in> set t" by (metis eq in_set_conv_decomp)
    have "co_observed_at ob = Max (co_observed_at ` set t)"
      using le mem st by (intro Max_eqI [symmetric]) auto
    with mem show ?thesis by (simp add: latest Cons set_t)
  qed
qed

end
