(* ===== verification/Payment_Rail.thy ===== *)
theory Payment_Rail
  imports Economic_Models
begin

text \<open>
  The exact-money payment rail of \<open>aeep/payments.py\<close>: the operation cache, the helpers, and
  \<open>LocalLedgerPaymentAdapter\<close> with reserve, settle, capture, release, refund and reconcile, on
  which the free, prepaid, invoice and callback adapters are built. What an adapter's
  external calls answer is an argument; the ledger's own adapters answer nothing. The calls
  of one adapter are serialized by the lock of its cache, so each is one state change.
\<close>

section \<open>State\<close>

datatype ReconciliationStatus =
    Recon_MATCHED | Recon_UNDERCHARGED | Recon_OVERCHARGED | Recon_MISSING_BILLING_RECORD
  | Recon_PENDING | Recon_DISPUTED | Recon_RESOLVED

record BillingReconciliation =
  br_reconciliation_id :: string
  br_settlement_id :: string
  br_provider_id :: string
  br_invoice_reference :: "string option"
  br_billing_record_reference :: "string option"
  br_expected_amount :: CurrencyAmount
  br_billed_amount :: CurrencyAmount
  br_discrepancy :: CurrencyAmount
  br_status :: ReconciliationStatus
  br_evidence_digest :: "string option"
  br_reconciled_at :: datetime

datatype payment_result =
    Res_reservation PaymentReservationV2
  | Res_settlement SettlementReceipt
  | Res_refund RefundReceiptV2
  | Res_reconciliation BillingReconciliation

text \<open>The fields that \<open>_reservation_identity_payload\<close> and \<open>_same_reservation_identity\<close> list.\<close>

type_synonym reservation_identity =
  "string \<times> string \<times> string \<times> string option \<times> AuthorizationKind option \<times> string option
   \<times> string \<times> string \<times> CurrencyAmount \<times> string \<times> string \<times> datetime"

definition reservation_identity :: "PaymentReservationV2 \<Rightarrow> reservation_identity" where
  "reservation_identity r =
     (pv_reservation_id r, pv_charge_id r, pv_prepared_id r, pv_quote_id r,
      pv_authorization_kind r, pv_authorization_id r, pv_action_id r, pv_attempt_id r,
      pv_maximum_amount r, pv_adapter r, pv_idempotency_key r, pv_created_at r)"

definition same_reservation_identity :: "PaymentReservationV2 \<Rightarrow> PaymentReservationV2 \<Rightarrow> bool" where
  "same_reservation_identity l r = (reservation_identity l = reservation_identity r)"

datatype payment_payload =
    Payload_reserve PaymentReservationV2
  | Payload_settle reservation_identity CurrencyAmount SettlementEvidence
  | Payload_release reservation_identity string
  | Payload_refund SettlementReceipt CurrencyAmount string
  | Payload_reconcile string

text \<open>
  The adapter. The dictionaries keyed by reservation, settlement and refund id are tables;
  storing under a present key replaces that row.
\<close>

record rail =
  rl_name :: string
  rl_settlement_currency :: string
  rl_balance :: rat
  rl_unlimited_budget :: bool
  rl_free_only :: bool
  rl_provider_id :: string
  rl_operations :: "string \<rightharpoonup> string \<times> payment_result"
  rl_reservations :: "PaymentReservationV2 list"
  rl_charge_reservations :: "string \<rightharpoonup> string"
  rl_settlements :: "SettlementReceipt list"
  rl_reservation_settlements :: "string \<rightharpoonup> string"
  rl_refunds :: "RefundReceiptV2 list"

definition put :: "('r \<Rightarrow> string) \<Rightarrow> 'r \<Rightarrow> 'r list \<Rightarrow> 'r list" where
  "put key r t =
     (if \<exists>x \<in> set t. key x = key r then update_rows (\<lambda>x. key x = key r) (\<lambda>_. r) t else t @ [r])"

definition find_reservation :: "string \<Rightarrow> rail \<Rightarrow> PaymentReservationV2 option" where
  "find_reservation i st = select_row (\<lambda>x. pv_reservation_id x = i) (rl_reservations st)"

section \<open>Construction\<close>

definition local_ledger ::
  "string \<Rightarrow> string \<Rightarrow> CurrencyAmount option \<Rightarrow> bool \<Rightarrow> bool \<Rightarrow> string option \<Rightarrow> rail result"
where
  "local_ledger name settlement_currency balance unlimited_budget free_only provider_id =
     (case normalize_currency settlement_currency of
        Inl e \<Rightarrow> Err e
      | Inr cur \<Rightarrow>
          if (case balance of None \<Rightarrow> False | Some b \<Rightarrow> currency b \<noteq> cur)
          then Err (ConfigurationError
                 ''payment balance currency does not match settlement currency'')
          else if unlimited_budget \<and> balance \<noteq> None
          then Err (ConfigurationError ''an unlimited payment rail cannot also declare a balance'')
          else Ok \<lparr>rl_name = name, rl_settlement_currency = cur,
                   rl_balance = (case balance of None \<Rightarrow> 0 | Some b \<Rightarrow> amount b),
                   rl_unlimited_budget = unlimited_budget, rl_free_only = free_only,
                   rl_provider_id = (if truthy provider_id then the provider_id
                                     else ''local.'' @ name),
                   rl_operations = (\<lambda>_. None), rl_reservations = [],
                   rl_charge_reservations = (\<lambda>_. None), rl_settlements = [],
                   rl_reservation_settlements = (\<lambda>_. None), rl_refunds = []\<rparr>)"

definition free_adapter_v2 :: "string \<Rightarrow> rail result" where
  "free_adapter_v2 settlement_currency =
     (case normalize_currency settlement_currency of
        Inl e \<Rightarrow> Err e
      | Inr cur \<Rightarrow> local_ledger ''free'' settlement_currency (Some (zero_amount cur)) False True None)"

definition prepaid_adapter_v2 :: "CurrencyAmount \<Rightarrow> rail result" where
  "prepaid_adapter_v2 balance =
     local_ledger ''prepaid'' (currency balance) (Some balance) False False None"

definition invoice_adapter_v2 :: "bool \<Rightarrow> string \<Rightarrow> rail result" where
  "invoice_adapter_v2 unlimited_budget settlement_currency =
     (if \<not> unlimited_budget
      then Err (ConfigurationError ''invoice adapter requires an explicit unlimited-budget policy'')
      else local_ledger ''invoice'' settlement_currency None True False None)"

definition callback_adapter_v2 :: "string \<Rightarrow> string \<Rightarrow> string option \<Rightarrow> rail result" where
  "callback_adapter_v2 name settlement_currency provider_id =
     local_ledger name settlement_currency None True False provider_id"

section \<open>External calls\<close>

text \<open>What a callback may return: nothing, a reference, metadata, or something else.\<close>

datatype metadata_reference = Meta_missing | Meta_text string | Meta_other

datatype callback_value =
    Callback_none | Callback_text string | Callback_mapping metadata_reference | Callback_other

fun callback_reference :: "callback_value \<Rightarrow> string option result" where
  "callback_reference Callback_none = Ok None"
| "callback_reference (Callback_text t) = Ok (Some t)"
| "callback_reference (Callback_mapping Meta_missing) = Ok None"
| "callback_reference (Callback_mapping (Meta_text t)) = Ok (Some t)"
| "callback_reference (Callback_mapping Meta_other) =
     Err (ConfigurationError ''payment callback external_reference must be a string'')"
| "callback_reference Callback_other =
     Err (ConfigurationError ''payment callback must return metadata or an external reference'')"

record rail_calls =
  reserve_external :: "PaymentReservationV2 \<Rightarrow> callback_value result"
  settle_external ::
    "PaymentReservationV2 \<Rightarrow> CurrencyAmount \<Rightarrow> SettlementEvidence \<Rightarrow> string \<Rightarrow> callback_value result"
  release_external :: "PaymentReservationV2 \<Rightarrow> string \<Rightarrow> string \<Rightarrow> callback_value result"
  refund_external ::
    "SettlementReceipt \<Rightarrow> CurrencyAmount \<Rightarrow> string \<Rightarrow> string \<Rightarrow> callback_value result"
  reconcile_external :: "string \<Rightarrow> BillingReconciliation option result"

text \<open>The ledger's own hooks return \<open>None\<close>.\<close>

definition local_calls :: rail_calls where
  "local_calls =
     \<lparr>reserve_external = (\<lambda>_. Ok Callback_none), settle_external = (\<lambda>_ _ _ _. Ok Callback_none),
      release_external = (\<lambda>_ _ _. Ok Callback_none), refund_external = (\<lambda>_ _ _ _. Ok Callback_none),
      reconcile_external = (\<lambda>_. Ok None)\<rparr>"

text \<open>
  \<open>CallbackPaymentAdapterV2._reconcile_external\<close>: the callback's answer, when it is a
  reconciliation of the adapter's provider.
\<close>

definition checked_reconcile ::
  "string \<Rightarrow> (string \<Rightarrow> BillingReconciliation option result) \<Rightarrow> string
    \<Rightarrow> BillingReconciliation option result"
where
  "checked_reconcile provider_id callback reference =
     (case callback reference of
        Inl e \<Rightarrow> Err e
      | Inr None \<Rightarrow> Err (ConfigurationError
                     ''reconcile callback must return BillingReconciliation'')
      | Inr (Some r) \<Rightarrow>
          if br_provider_id r \<noteq> provider_id
          then Err (ConfigurationError
                 ''reconcile callback returned the wrong provider identity'')
          else Ok (Some r))"

definition callback_calls :: "string \<Rightarrow> rail_calls \<Rightarrow> rail_calls" where
  "callback_calls provider_id callbacks =
     callbacks\<lparr>reconcile_external := checked_reconcile provider_id (reconcile_external callbacks)\<rparr>"

section \<open>The operation cache\<close>

text \<open>
  \<open>_OperationCache.run\<close>: the digest of operation and payload is an argument. Only a call that
  returns is recorded; what a raising call changed before it raised stays changed.
\<close>

definition run_operation ::
  "(string \<Rightarrow> payment_payload \<Rightarrow> string) \<Rightarrow> string \<Rightarrow> string \<Rightarrow> payment_payload
    \<Rightarrow> (rail \<Rightarrow> payment_result result \<times> rail) \<Rightarrow> rail \<Rightarrow> payment_result result \<times> rail"
where
  "run_operation digest operation key payload act st =
     (let d = digest operation payload; operation_key = operation @ '':'' @ key in
      case rl_operations st operation_key of
        Some (d', result) \<Rightarrow>
          if d' \<noteq> d
          then (Err (ConfigurationError
                 ''payment idempotency key was reused with different arguments''), st)
          else (Ok result, st)
      | None \<Rightarrow>
          (case act st of
             (Inl e, st') \<Rightarrow> (Err e, st')
           | (Inr result, st') \<Rightarrow>
               (Ok result, st'\<lparr>rl_operations := (rl_operations st')(operation_key \<mapsto> (d, result))\<rparr>)))"

section \<open>Helpers\<close>

definition outstanding_state :: "PaymentReservationState \<Rightarrow> bool" where
  "outstanding_state s = (s \<in> {Pay_RESERVED, Pay_SETTLING, Pay_INDETERMINATE, Pay_DISPUTED})"

definition outstanding :: "rail \<Rightarrow> rat" where
  "outstanding st = sum_list (map (\<lambda>r. amount (pv_maximum_amount r))
     (filter (\<lambda>r. outstanding_state (pv_state r)) (rl_reservations st)))"

definition available_balance :: "rail \<Rightarrow> CurrencyAmount option" where
  "available_balance st =
     (if rl_unlimited_budget st then None
      else Some \<lparr>amount = max 0 (rl_balance st - outstanding st),
                 currency = rl_settlement_currency st\<rparr>)"

definition validate_maximum :: "CurrencyAmount \<Rightarrow> rail \<Rightarrow> unit result" where
  "validate_maximum m st =
     (if currency m \<noteq> rl_settlement_currency st
      then Err (ConfigurationError ''payment reservation currency does not match adapter'')
      else if rl_free_only st \<and> amount m \<noteq> 0
      then Err (ConfigurationError ''free adapter cannot reserve a paid amount'')
      else Ok ())"

definition reservation_with_state ::
  "PaymentReservationV2 \<Rightarrow> PaymentReservationState \<Rightarrow> datetime \<Rightarrow> string option
    \<Rightarrow> PaymentReservationV2 result"
where
  "reservation_with_state r state moment reason =
     mk_payment (r\<lparr>pv_state := state, pv_updated_at := moment,
       pv_indeterminate_reason := (if state = Pay_INDETERMINATE then reason else None)\<rparr>)"

definition validate_settlement_request ::
  "PaymentReservationV2 \<Rightarrow> CurrencyAmount \<Rightarrow> SettlementEvidence \<Rightarrow> unit result"
where
  "validate_settlement_request r actual evidence = first_error
     ([(currency actual \<noteq> currency (pv_maximum_amount r),
        ConfigurationError ''settlement currency does not match reservation''),
       (amount actual > amount (pv_maximum_amount r),
        ConfigurationError ''settlement amount exceeds reserved maximum''),
       (se_charge_id evidence \<noteq> pv_charge_id r,
        ConfigurationError ''settlement evidence charge does not match reservation'')]
      @ (case se_provider_calculated_amount evidence of
           None \<Rightarrow> []
         | Some p \<Rightarrow>
             [(currency p \<noteq> currency actual,
               ConfigurationError ''provider amount currency does not match settlement''),
              (amount p \<noteq> amount actual,
               ConfigurationError ''provider amount does not match settlement amount'')]))"

text \<open>\<open>_known_reservation\<close> stores a reservation it does not know.\<close>

definition known_reservation ::
  "PaymentReservationV2 \<Rightarrow> rail \<Rightarrow> PaymentReservationV2 result \<times> rail"
where
  "known_reservation r st =
     (case find_reservation (pv_reservation_id r) st of
        None \<Rightarrow> (Ok r, st\<lparr>rl_reservations := put pv_reservation_id r (rl_reservations st),
                  rl_charge_reservations :=
                    (rl_charge_reservations st)(pv_charge_id r \<mapsto> pv_reservation_id r)\<rparr>)
      | Some known \<Rightarrow>
          if \<not> same_reservation_identity known r
          then (Err (ConfigurationError ''payment reservation identity changed''), st)
          else (Ok known, st))"

section \<open>Operations\<close>

definition reserve_call :: "rail_calls \<Rightarrow> PaymentReservationV2 \<Rightarrow> rail \<Rightarrow> payment_result result \<times> rail" where
  "reserve_call calls r st =
     (if pv_adapter r \<noteq> rl_name st
      then (Err (ConfigurationError ''payment reservation adapter does not match''), st)
      else case validate_maximum (pv_maximum_amount r) st of
        Inl e \<Rightarrow> (Err e, st)
      | Inr _ \<Rightarrow>
          if pv_state r \<noteq> Pay_RESERVED
          then (Err (ConfigurationError ''new payment reservation must be RESERVED''), st)
          else case find_reservation (pv_reservation_id r) st of
            Some existing \<Rightarrow>
              if existing \<noteq> r
              then (Err (ConfigurationError ''payment reservation ID collision''), st)
              else (Ok (Res_reservation existing), st)
          | None \<Rightarrow>
              if rl_charge_reservations st (pv_charge_id r) \<noteq> None
              then (Err (ConfigurationError ''payment charge already has a reservation''), st)
              else if (case available_balance st of None \<Rightarrow> False
                       | Some a \<Rightarrow> amount (pv_maximum_amount r) > amount a)
              then (Err (ConfigurationError ''insufficient payment balance''), st)
              else case reserve_external calls r of
                Inl e \<Rightarrow> (Err e, st)
              | Inr _ \<Rightarrow>
                  (Ok (Res_reservation r),
                   st\<lparr>rl_reservations := put pv_reservation_id r (rl_reservations st),
                      rl_charge_reservations :=
                        (rl_charge_reservations st)(pv_charge_id r \<mapsto> pv_reservation_id r)\<rparr>))"

definition rail_reserve ::
  "(string \<Rightarrow> payment_payload \<Rightarrow> string) \<Rightarrow> rail_calls \<Rightarrow> PaymentReservationV2 \<Rightarrow> rail
    \<Rightarrow> payment_result result \<times> rail"
where
  "rail_reserve digest calls r =
     run_operation digest ''reserve'' (pv_idempotency_key r) (Payload_reserve r) (reserve_call calls r)"

text \<open>\<open>reference or evidence.external_reference\<close>.\<close>

definition or_else :: "string option \<Rightarrow> string option \<Rightarrow> string option" where
  "or_else x y = (if truthy x then x else y)"

definition settlement_receipt ::
  "string \<Rightarrow> string \<Rightarrow> PaymentReservationV2 \<Rightarrow> CurrencyAmount \<Rightarrow> CurrencyAmount \<Rightarrow> string option
    \<Rightarrow> SettlementStatus \<Rightarrow> datetime \<Rightarrow> SettlementReceipt"
where
  "settlement_receipt rail_name sid r captured released reference status now =
     \<lparr>sr_settlement_id = sid, sr_charge_id = pv_charge_id r, sr_prepared_id = pv_prepared_id r,
      sr_quote_id = pv_quote_id r, sr_authorization_kind = pv_authorization_kind r,
      sr_authorization_id = pv_authorization_id r, sr_reservation_id = pv_reservation_id r,
      sr_attempt_id = pv_attempt_id r, sr_reserved_amount = pv_maximum_amount r,
      sr_captured_amount = captured, sr_released_amount = released,
      sr_payment_rail = rail_name, sr_external_reference = reference, sr_status = status,
      sr_evidence_level = Ev_PAYMENT_SETTLEMENT, sr_settled_at = now, sr_signature = None\<rparr>"

text \<open>\<open>settle\<close> and \<open>release\<close> end by storing the reservation's new state and the receipt.\<close>

definition store_settlement ::
  "PaymentReservationV2 \<Rightarrow> SettlementReceipt \<Rightarrow> rail \<Rightarrow> rail"
where
  "store_settlement r receipt st =
     st\<lparr>rl_reservations := put pv_reservation_id r (rl_reservations st),
        rl_settlements := put sr_settlement_id receipt (rl_settlements st),
        rl_reservation_settlements :=
          (rl_reservation_settlements st)(pv_reservation_id r \<mapsto> sr_settlement_id receipt)\<rparr>"

definition settle_call ::
  "(string \<Rightarrow> string \<Rightarrow> string) \<Rightarrow> rail_calls \<Rightarrow> datetime \<Rightarrow> PaymentReservationV2 \<Rightarrow> CurrencyAmount
    \<Rightarrow> SettlementEvidence \<Rightarrow> string \<Rightarrow> rail \<Rightarrow> payment_result result \<times> rail"
where
  "settle_call stable_id calls now r actual evidence key st =
     (case validate_settlement_request r actual evidence of
        Inl e \<Rightarrow> (Err e, st)
      | Inr _ \<Rightarrow>
          (case known_reservation r st of
             (Inl e, st1) \<Rightarrow> (Err e, st1)
           | (Inr known, st1) \<Rightarrow>
               if pv_state known \<notin> {Pay_RESERVED, Pay_SETTLING, Pay_INDETERMINATE}
               then (Err (ConfigurationError
                      ''payment reservation cannot be settled in its current state''), st1)
               else if rl_reservation_settlements st1 (pv_reservation_id r) \<noteq> None
               then (Err (ConfigurationError ''payment reservation was already settled''), st1)
               else case settle_external calls r actual evidence key of
                 Inl e \<Rightarrow> (Err e, st1)
               | Inr answer \<Rightarrow>
                   (case callback_reference answer of
                      Inl e \<Rightarrow> (Err e, st1)
                    | Inr reference \<Rightarrow>
                        (case mk_settlement (settlement_receipt (rl_name st1)
                               (stable_id ''settlement'' key) r actual
                               \<lparr>amount = amount (pv_maximum_amount r) - amount actual,
                                currency = currency (pv_maximum_amount r)\<rparr>
                               (or_else reference (se_external_reference evidence))
                               Set_SETTLED now) of
                           Inl e \<Rightarrow> (Err e, st1)
                         | Inr receipt \<Rightarrow>
                             if \<not> rl_unlimited_budget st1 \<and> amount actual > rl_balance st1
                             then (Err (ConfigurationError
                                    ''insufficient payment balance at settlement''), st1)
                             else
                               let st2 = (if rl_unlimited_budget st1 then st1
                                 else st1\<lparr>rl_balance := rl_balance st1 - amount actual\<rparr>) in
                               case reservation_with_state r Pay_SETTLED (sr_settled_at receipt) None of
                                 Inl e \<Rightarrow> (Err e, st2)
                               | Inr settled \<Rightarrow>
                                   (Ok (Res_settlement receipt), store_settlement settled receipt st2)))))"

definition rail_settle ::
  "(string \<Rightarrow> payment_payload \<Rightarrow> string) \<Rightarrow> (string \<Rightarrow> string \<Rightarrow> string) \<Rightarrow> rail_calls \<Rightarrow> datetime
    \<Rightarrow> PaymentReservationV2 \<Rightarrow> CurrencyAmount \<Rightarrow> SettlementEvidence \<Rightarrow> string \<Rightarrow> rail
    \<Rightarrow> payment_result result \<times> rail"
where
  "rail_settle digest stable_id calls now r actual evidence key =
     run_operation digest ''settle'' key (Payload_settle (reservation_identity r) actual evidence)
       (settle_call stable_id calls now r actual evidence key)"

definition rail_capture ::
  "(string \<Rightarrow> payment_payload \<Rightarrow> string) \<Rightarrow> (string \<Rightarrow> string \<Rightarrow> string) \<Rightarrow> rail_calls \<Rightarrow> datetime
    \<Rightarrow> PaymentReservationV2 \<Rightarrow> SettlementEvidence \<Rightarrow> string \<Rightarrow> rail
    \<Rightarrow> payment_result result \<times> rail"
where
  "rail_capture digest stable_id calls now r evidence key =
     rail_settle digest stable_id calls now r (pv_maximum_amount r) evidence key"

definition release_call ::
  "(string \<Rightarrow> string \<Rightarrow> string) \<Rightarrow> rail_calls \<Rightarrow> datetime \<Rightarrow> PaymentReservationV2 \<Rightarrow> string \<Rightarrow> string
    \<Rightarrow> rail \<Rightarrow> payment_result result \<times> rail"
where
  "release_call stable_id calls now r reason key st =
     (case known_reservation r st of
        (Inl e, st1) \<Rightarrow> (Err e, st1)
      | (Inr known, st1) \<Rightarrow>
          if pv_state known \<notin> {Pay_RESERVED, Pay_SETTLING}
          then (Err (ConfigurationError
                 ''payment reservation cannot be released in its current state''), st1)
          else if rl_reservation_settlements st1 (pv_reservation_id r) \<noteq> None
          then (Err (ConfigurationError ''payment reservation was already settled''), st1)
          else case release_external calls r reason key of
            Inl e \<Rightarrow> (Err e, st1)
          | Inr answer \<Rightarrow>
              (case callback_reference answer of
                 Inl e \<Rightarrow> (Err e, st1)
               | Inr reference \<Rightarrow>
                   (case mk_settlement (settlement_receipt (rl_name st1) (stable_id ''release'' key) r
                          (zero_amount (currency (pv_maximum_amount r))) (pv_maximum_amount r)
                          reference Set_RELEASED now) of
                      Inl e \<Rightarrow> (Err e, st1)
                    | Inr receipt \<Rightarrow>
                        (case reservation_with_state r Pay_RELEASED (sr_settled_at receipt) None of
                           Inl e \<Rightarrow> (Err e, st1)
                         | Inr released \<Rightarrow>
                             (Ok (Res_settlement receipt), store_settlement released receipt st1)))))"

definition rail_release ::
  "(string \<Rightarrow> payment_payload \<Rightarrow> string) \<Rightarrow> (string \<Rightarrow> string \<Rightarrow> string) \<Rightarrow> rail_calls \<Rightarrow> datetime
    \<Rightarrow> PaymentReservationV2 \<Rightarrow> string \<Rightarrow> string \<Rightarrow> rail \<Rightarrow> payment_result result \<times> rail"
where
  "rail_release digest stable_id calls now r reason key st =
     (if reason = []
      then (Err (ConfigurationError ''payment release requires a reason''), st)
      else run_operation digest ''release'' key (Payload_release (reservation_identity r) reason)
             (release_call stable_id calls now r reason key) st)"

definition rail_refunded :: "string \<Rightarrow> rail \<Rightarrow> rat" where
  "rail_refunded sid st =
     sum_list (map (\<lambda>x. amount (rr_amount x)) (filter (\<lambda>x. rr_settlement_id x = sid) (rl_refunds st)))"

definition refund_call ::
  "(string \<Rightarrow> string \<Rightarrow> string) \<Rightarrow> rail_calls \<Rightarrow> datetime \<Rightarrow> SettlementReceipt \<Rightarrow> CurrencyAmount
    \<Rightarrow> string \<Rightarrow> string \<Rightarrow> rail \<Rightarrow> payment_result result \<times> rail"
where
  "refund_call stable_id calls now settlement value reason key st =
     (if currency value \<noteq> currency (sr_captured_amount settlement)
      then (Err (ConfigurationError ''refund currency does not match settlement''), st)
      else
        let known = select_row (\<lambda>x. sr_settlement_id x = sr_settlement_id settlement)
                      (rl_settlements st) in
        if known \<noteq> None \<and> known \<noteq> Some settlement
        then (Err (ConfigurationError ''settlement identity changed''), st)
        else
          let st1 = (if known = None
                     then st\<lparr>rl_settlements := put sr_settlement_id settlement (rl_settlements st)\<rparr>
                     else st) in
          if rail_refunded (sr_settlement_id settlement) st1 + amount value
             > amount (sr_captured_amount settlement)
          then (Err (ConfigurationError ''refund exceeds unrefunded captured amount''), st1)
          else case refund_external calls settlement value reason key of
            Inl e \<Rightarrow> (Err e, st1)
          | Inr answer \<Rightarrow>
              (case callback_reference answer of
                 Inl e \<Rightarrow> (Err e, st1)
               | Inr reference \<Rightarrow>
                   (case mk_refund \<lparr>rr_refund_id = stable_id ''refund'' key,
                          rr_settlement_id = sr_settlement_id settlement,
                          rr_charge_id = sr_charge_id settlement, rr_amount = value,
                          rr_reason = reason, rr_idempotency_key = key, rr_refunded_at = now,
                          rr_external_reference = reference, rr_signature = None\<rparr> of
                      Inl e \<Rightarrow> (Err e, st1)
                    | Inr receipt \<Rightarrow>
                        let st2 = st1\<lparr>rl_refunds := put rr_refund_id receipt (rl_refunds st1)\<rparr> in
                        (Ok (Res_refund receipt),
                         if rl_unlimited_budget st2 then st2
                         else st2\<lparr>rl_balance := rl_balance st2 + amount value\<rparr>))))"

definition rail_refund ::
  "(string \<Rightarrow> payment_payload \<Rightarrow> string) \<Rightarrow> (string \<Rightarrow> string \<Rightarrow> string) \<Rightarrow> rail_calls \<Rightarrow> datetime
    \<Rightarrow> SettlementReceipt \<Rightarrow> CurrencyAmount \<Rightarrow> string \<Rightarrow> string \<Rightarrow> rail
    \<Rightarrow> payment_result result \<times> rail"
where
  "rail_refund digest stable_id calls now settlement value reason key st =
     (if reason = []
      then (Err (ConfigurationError ''payment refund requires a reason''), st)
      else run_operation digest ''refund'' key (Payload_refund settlement value reason)
             (refund_call stable_id calls now settlement value reason key) st)"

definition rail_reconcile ::
  "(string \<Rightarrow> payment_payload \<Rightarrow> string) \<Rightarrow> rail_calls \<Rightarrow> string \<Rightarrow> rail
    \<Rightarrow> payment_result result \<times> rail"
where
  "rail_reconcile digest calls reference st =
     (if reference = []
      then (Err (ConfigurationError ''billing reconciliation requires a reference''), st)
      else run_operation digest ''reconcile'' (''reconcile:'' @ reference) (Payload_reconcile reference)
             (\<lambda>st. case reconcile_external calls reference of
                Inl e \<Rightarrow> (Err e, st)
              | Inr (Some r) \<Rightarrow> (Ok (Res_reconciliation r), st)
              | Inr None \<Rightarrow> (Err (ConfigurationError
                  ''billing reconciliation requires independent external billing evidence''), st)) st)"

end
