(* ===== verification/Rail_Contract.thy ===== *)
theory Rail_Contract
  imports Payment_Rail
begin

text \<open>
  What the payment rail promises its clients: duplicate suppression, exact accounting of
  every settlement, a balance that covers the outstanding reservations, refunds within what
  was captured, and that a reservation can always be settled within its maximum.
\<close>

section \<open>The cache\<close>

lemma run_operation_state:
  "snd (run_operation digest operation key payload act st) = st
   \<or> (\<exists>ops. snd (run_operation digest operation key payload act st)
        = (snd (act st))\<lparr>rl_operations := ops\<rparr>)"
proof (cases "rl_operations st (operation @ '':'' @ key)")
  case (Some x)
  then show ?thesis by (cases x) (simp add: run_operation_def Let_def)
next
  case None
  obtain res st' where act: "act st = (res, st')" by fastforce
  show ?thesis
  proof (cases res)
    case (Inl e)
    with None act have "snd (run_operation digest operation key payload act st)
        = (snd (act st))\<lparr>rl_operations := rl_operations st'\<rparr>"
      by (simp add: run_operation_def Let_def)
    then show ?thesis by blast
  next
    case (Inr v)
    with None act show ?thesis by (auto simp: run_operation_def Let_def)
  qed
qed

lemma run_operation_again:
  assumes "run_operation digest operation key payload act st = (Inr v, st')"
  shows "run_operation digest operation key payload act st' = (Inr v, st')"
  using assms
  by (auto simp: run_operation_def Let_def split: option.splits prod.splits sum.splits if_splits)

section \<open>Reservations\<close>

interpretation rail_hold: bounded_holds
  "\<lambda>r. amount (pv_maximum_amount r)" "\<lambda>(t::datetime) r. outstanding_state (pv_state r)"
  by unfold_locales simp

lemma outstanding_total: "outstanding st = rail_hold.total t (rl_reservations st)"
  by (simp add: outstanding_def rail_hold.total_def)

definition reserved_part :: "PaymentReservationV2 \<Rightarrow> rat" where
  "reserved_part r = (if outstanding_state (pv_state r) then amount (pv_maximum_amount r) else 0)"

lemma outstanding_sum: "outstanding st = sum_list (map reserved_part (rl_reservations st))"
  by (simp add: outstanding_def sum_filter_if reserved_part_def [abs_def])

lemma put_new: "(\<forall>x \<in> set t. key x \<noteq> key r) \<Longrightarrow> put key r t = t @ [r]"
  by (auto simp: put_def)

lemma put_old: "x \<in> set t \<Longrightarrow> key x = key r \<Longrightarrow> put key r t = update_rows (\<lambda>x. key x = key r) (\<lambda>_. r) t"
  by (auto simp: put_def)

lemma put_keys:
  "distinct (map key t) \<Longrightarrow> distinct (map key (put key r t))"
proof (cases "\<exists>x \<in> set t. key x = key r")
  case True
  have "map key (update_rows (\<lambda>x. key x = key r) (\<lambda>_. r) t) = map key t"
    by (simp add: update_rows_def)
  then show "distinct (map key t) \<Longrightarrow> distinct (map key (put key r t))"
    using True by (simp add: put_def)
next
  case False
  then have "key r \<notin> key ` set t" by (metis imageE)
  then show "distinct (map key t) \<Longrightarrow> distinct (map key (put key r t))"
    using False by (simp add: put_new)
qed

lemma set_put: "x \<in> set (put key r t) \<Longrightarrow> x = r \<or> x \<in> set t"
  by (auto simp: put_def set_update_rows split: if_splits)

lemma find_reservation_Some:
  assumes "find_reservation i st = Some r"
  shows "r \<in> set (rl_reservations st)" and "pv_reservation_id r = i"
  using select_row_SomeD [OF assms [unfolded find_reservation_def]] by auto

lemma identity_simps:
  "same_reservation_identity l r \<Longrightarrow> pv_maximum_amount l = pv_maximum_amount r"
  "same_reservation_identity l r \<Longrightarrow> pv_reservation_id l = pv_reservation_id r"
  "same_reservation_identity l r \<Longrightarrow> pv_created_at l = pv_created_at r"
  "same_reservation_identity l r \<Longrightarrow> pv_authorization_kind l = pv_authorization_kind r"
  by (auto simp: same_reservation_identity_def reservation_identity_def)

text \<open>A valid reservation has an authorization basis, so construction is validation.\<close>

lemma valid_payment_basis:
  "validate_payment r = Inr () \<Longrightarrow> \<exists>k. pv_authorization_kind r = Some k"
  by (auto simp: validate_payment_def authorization_errors_def split: if_splits)

lemma valid_payment_amount: "validate_payment r = Inr () \<Longrightarrow> 0 \<le> amount (pv_maximum_amount r)"
  by (auto simp: validate_payment_def payment_fields_ok_def valid_amount_def split: if_splits)

lemma reservation_with_final_state:
  assumes "validate_payment r = Inr ()" and "aware now" and "pv_created_at r \<le> now"
    and "state \<in> {Pay_SETTLED, Pay_RELEASED}"
  shows "reservation_with_state r state now None
    = Inr (r\<lparr>pv_state := state, pv_updated_at := now, pv_indeterminate_reason := None\<rparr>)"
proof -
  obtain k where k: "pv_authorization_kind r = Some k" using valid_payment_basis [OF assms(1)] ..
  have "validate_payment (r\<lparr>pv_state := state, pv_updated_at := now, pv_indeterminate_reason := None\<rparr>)
      = Inr ()"
    using assms by (auto simp: validate_payment_def payment_fields_ok_def authorization_errors_def
        not_less split: if_splits)
  then show ?thesis
    using assms(4) k mk_payment_ok [of "r\<lparr>pv_state := state, pv_updated_at := now,
        pv_indeterminate_reason := None\<rparr>" k]
    by (auto simp: reservation_with_state_def)
qed

section \<open>The invariant\<close>

text \<open>
  The outstanding reservations are covered by the balance but for \<open>u\<close>, the reservations the
  rail took over without having held them.
\<close>

definition rail_ok :: "rat \<Rightarrow> rail \<Rightarrow> bool" where
  "rail_ok u st =
     (0 \<le> u \<and> distinct (map pv_reservation_id (rl_reservations st))
      \<and> (\<forall>r \<in> set (rl_reservations st). 0 \<le> amount (pv_maximum_amount r))
      \<and> 0 \<le> rl_balance st
      \<and> (\<not> rl_unlimited_budget st \<longrightarrow> outstanding st \<le> rl_balance st + u)
      \<and> distinct (map sr_settlement_id (rl_settlements st))
      \<and> distinct (map rr_refund_id (rl_refunds st))
      \<and> (\<forall>x \<in> set (rl_refunds st). 0 \<le> amount (rr_amount x)
            \<and> rr_settlement_id x \<in> sr_settlement_id ` set (rl_settlements st))
      \<and> (\<forall>x \<in> set (rl_settlements st).
            rail_refunded (sr_settlement_id x) st \<le> amount (sr_captured_amount x)))"

lemma rail_ok_operations [simp]: "rail_ok u (st\<lparr>rl_operations := ops\<rparr>) = rail_ok u st"
  by (simp add: rail_ok_def outstanding_def rail_refunded_def)

lemma rail_ok_more: "rail_ok u st \<Longrightarrow> u \<le> v \<Longrightarrow> rail_ok v st"
  by (auto simp: rail_ok_def)

lemma rail_ok_run:
  assumes "rail_ok u st" and "u \<le> v"
    and "rl_operations st (op @ '':'' @ key) = None \<Longrightarrow> rail_ok v (snd (act st))"
  shows "rail_ok v (snd (run_operation d op key p act st))"
proof (cases "rl_operations st (op @ '':'' @ key)")
  case (Some x)
  then have "snd (run_operation d op key p act st) = st"
    by (cases x) (simp add: run_operation_def Let_def)
  then show ?thesis using rail_ok_more [OF assms(1,2)] by simp
next
  case None
  have "snd (run_operation d op key p act st) = st
      \<or> (\<exists>ops. snd (run_operation d op key p act st) = (snd (act st))\<lparr>rl_operations := ops\<rparr>)"
    by (rule run_operation_state)
  then show ?thesis
    using rail_ok_more [OF assms(1,2)] assms(3) [OF None] by (elim disjE exE) (simp_all only: rail_ok_operations)
qed

lemma reserve_call_state:
  "snd (reserve_call calls r st) = st
   \<or> find_reservation (pv_reservation_id r) st = None \<and> pv_state r = Pay_RESERVED
     \<and> rl_charge_reservations st (pv_charge_id r) = None
     \<and> (rl_unlimited_budget st \<or> amount (pv_maximum_amount r) \<le> 0
        \<or> amount (pv_maximum_amount r) \<le> rl_balance st - outstanding st)
     \<and> snd (reserve_call calls r st) =
         st\<lparr>rl_reservations := put pv_reservation_id r (rl_reservations st),
            rl_charge_reservations :=
              (rl_charge_reservations st)(pv_charge_id r \<mapsto> pv_reservation_id r)\<rparr>"
  by (cases "rl_unlimited_budget st")
    (simp_all add: reserve_call_def available_balance_def not_less split: sum.split option.split)

lemma rail_ok_reserve:
  assumes ok: "rail_ok u st" and valid: "validate_payment r = Inr ()"
  shows "rail_ok u (snd (reserve_call calls r st))"
proof (cases "snd (reserve_call calls r st) = st")
  case True
  with ok show ?thesis by simp
next
  case False
  let ?st' = "st\<lparr>rl_reservations := put pv_reservation_id r (rl_reservations st),
          rl_charge_reservations :=
            (rl_charge_reservations st)(pv_charge_id r \<mapsto> pv_reservation_id r)\<rparr>"
  from False reserve_call_state [of calls r st]
  have new: "find_reservation (pv_reservation_id r) st = None"
    and fits: "rl_unlimited_budget st \<or> amount (pv_maximum_amount r) \<le> 0
        \<or> amount (pv_maximum_amount r) \<le> rl_balance st - outstanding st"
    and st': "snd (reserve_call calls r st) = ?st'"
    by blast+
  have fresh: "\<forall>x \<in> set (rl_reservations st). pv_reservation_id x \<noteq> pv_reservation_id r"
    using new by (auto simp: find_reservation_def select_row_None)
  have keys: "distinct (map pv_reservation_id (rl_reservations ?st'))"
    using put_keys [of pv_reservation_id "rl_reservations st" r] ok by (simp add: rail_ok_def)
  have "outstanding ?st' = outstanding st + reserved_part r"
    by (simp add: outstanding_sum put_new [OF fresh])
  moreover have "reserved_part r \<le> amount (pv_maximum_amount r)"
    using valid_payment_amount [OF valid] by (simp add: reserved_part_def)
  moreover have "0 \<le> u" "outstanding st \<le> rl_balance st + u" if "\<not> rl_unlimited_budget st"
    using ok that by (simp_all add: rail_ok_def)
  ultimately have "\<not> rl_unlimited_budget st \<longrightarrow> outstanding ?st' \<le> rl_balance st + u"
    using fits by fastforce
  moreover have "\<forall>x \<in> set (rl_reservations ?st'). 0 \<le> amount (pv_maximum_amount x)"
    using ok valid_payment_amount [OF valid] by (simp add: put_new [OF fresh] rail_ok_def)
  ultimately show ?thesis
    using ok keys by (simp add: st' rail_ok_def rail_refunded_def)
qed

section \<open>Settling and releasing a known reservation\<close>

definition settled_reservation :: "PaymentReservationState \<Rightarrow> datetime \<Rightarrow> PaymentReservationV2 \<Rightarrow> PaymentReservationV2" where
  "settled_reservation state now r =
     r\<lparr>pv_state := state, pv_updated_at := now, pv_indeterminate_reason := None\<rparr>"

lemma settled_reservation_simps [simp]:
  "pv_reservation_id (settled_reservation state now r) = pv_reservation_id r"
  "pv_maximum_amount (settled_reservation state now r) = pv_maximum_amount r"
  "pv_state (settled_reservation state now r) = state"
  by (simp_all add: settled_reservation_def)

definition debited :: "CurrencyAmount \<Rightarrow> rail \<Rightarrow> rail" where
  "debited actual st =
     (if rl_unlimited_budget st then st else st\<lparr>rl_balance := rl_balance st - amount actual\<rparr>)"

lemma known_reservation_found:
  assumes "find_reservation (pv_reservation_id r) st = Some known"
  shows "known_reservation r st =
    (if same_reservation_identity known r then (Ok known, st)
     else (Err (ConfigurationError ''payment reservation identity changed''), st))"
  using assms by (simp add: known_reservation_def)

lemma mk_settlement_receipt_ok:
  assumes "validate_payment r = Inr ()"
    and "mk_settlement (settlement_receipt nm sid r captured released ref status now) = Inr receipt"
  shows "receipt = settlement_receipt nm sid r captured released ref status now
    \<and> validate_settlement receipt = Inr ()"
proof -
  obtain k where "pv_authorization_kind r = Some k" using valid_payment_basis [OF assms(1)] ..
  then have "sr_authorization_kind (settlement_receipt nm sid r captured released ref status now) = Some k"
    by (simp add: settlement_receipt_def)
  from iffD1 [OF mk_settlement_ok [OF this] assms(2)] show ?thesis by simp
qed

lemma mk_settlement_receipt:
  assumes "validate_payment r = Inr ()"
  shows "mk_settlement (settlement_receipt nm sid r captured released ref status now) =
    (case validate_settlement (settlement_receipt nm sid r captured released ref status now) of
       Inl e \<Rightarrow> Inl e
     | Inr _ \<Rightarrow> Inr (settlement_receipt nm sid r captured released ref status now))"
proof -
  obtain k where "pv_authorization_kind r = Some k" using valid_payment_basis [OF assms] ..
  then show ?thesis by (simp add: mk_settlement_def settlement_receipt_def Let_def cong: sum.case_cong)
qed

lemma settlement_receipt_simps [simp]:
  "sr_settled_at (settlement_receipt nm sid r captured released ref status now) = now"
  "sr_settlement_id (settlement_receipt nm sid r captured released ref status now) = sid"
  "sr_captured_amount (settlement_receipt nm sid r captured released ref status now) = captured"
  "sr_released_amount (settlement_receipt nm sid r captured released ref status now) = released"
  "sr_reservation_id (settlement_receipt nm sid r captured released ref status now) = pv_reservation_id r"
  "sr_reserved_amount (settlement_receipt nm sid r captured released ref status now) = pv_maximum_amount r"
  by (simp_all add: settlement_receipt_def)

text \<open>What a successful settlement of a known reservation did.\<close>

definition settlement_done ::
  "string \<Rightarrow> PaymentReservationV2 \<Rightarrow> CurrencyAmount \<Rightarrow> datetime \<Rightarrow> SettlementReceipt \<Rightarrow> rail \<Rightarrow> rail \<Rightarrow> bool"
where
  "settlement_done sid r actual now receipt st st' =
     (sr_settlement_id receipt = sid \<and> sr_captured_amount receipt = actual
      \<and> amount (sr_released_amount receipt) = amount (pv_maximum_amount r) - amount actual
      \<and> sr_reservation_id receipt = pv_reservation_id r
      \<and> validate_settlement receipt = Inr ()
      \<and> amount actual \<le> amount (pv_maximum_amount r)
      \<and> (\<not> rl_unlimited_budget st \<longrightarrow> amount actual \<le> rl_balance st)
      \<and> rl_reservation_settlements st (pv_reservation_id r) = None
      \<and> st' = store_settlement (settled_reservation Pay_SETTLED now r) receipt (debited actual st))"

lemma settle_call_known:
  assumes known: "find_reservation (pv_reservation_id r) st = Some known"
    and valid: "validate_payment r = Inr ()" and now: "aware now" "pv_created_at r \<le> now"
  shows "(\<exists>e. settle_call stable_id calls now r actual evidence key st = (Inl e, st))
    \<or> same_reservation_identity known r \<and> pv_state known \<in> {Pay_RESERVED, Pay_SETTLING, Pay_INDETERMINATE}
      \<and> (\<exists>receipt st'. settle_call stable_id calls now r actual evidence key st = (Inr (Res_settlement receipt), st')
          \<and> settlement_done (stable_id ''settlement'' key) r actual now receipt st st')"
proof (cases "\<exists>e st'. settle_call stable_id calls now r actual evidence key st = (Inl e, st')")
  case True
  have "reservation_with_state r Pay_SETTLED now None = Inr (settled_reservation Pay_SETTLED now r)"
    using reservation_with_final_state [OF valid now] by (simp add: settled_reservation_def)
  with True show ?thesis
    by (auto simp: settle_call_def known_reservation_found [OF known] Let_def
        mk_settlement_receipt [OF valid] split: sum.splits if_splits)
next
  case False
  then obtain v st' where ok: "settle_call stable_id calls now r actual evidence key st = (Inr v, st')"
    by (metis prod.collapse sum.exhaust)
  then have req: "validate_settlement_request r actual evidence = Inr ()"
    by (auto simp: settle_call_def split: sum.splits)
  have with_state: "reservation_with_state r Pay_SETTLED now None = Inr (settled_reservation Pay_SETTLED now r)"
    using reservation_with_final_state [OF valid now] by (simp add: settled_reservation_def)
  from ok req have same: "same_reservation_identity known r"
    and state: "pv_state known \<in> {Pay_RESERVED, Pay_SETTLING, Pay_INDETERMINATE}"
    and free: "rl_reservation_settlements st (pv_reservation_id r) = None"
    by (auto simp: settle_call_def known_reservation_found [OF known] split: if_splits)
  from ok req same state free obtain answer ref where
    answer: "settle_external calls r actual evidence key = Inr answer" "callback_reference answer = Inr ref"
    by (auto simp: settle_call_def known_reservation_found [OF known] split: sum.splits)
  let ?receipt = "settlement_receipt (rl_name st) (stable_id ''settlement'' key) r actual
      \<lparr>amount = amount (pv_maximum_amount r) - amount actual, currency = currency (pv_maximum_amount r)\<rparr>
      (or_else ref (se_external_reference evidence)) Set_SETTLED now"
  from ok req same state free answer obtain receipt where mk: "mk_settlement ?receipt = Inr receipt"
    by (auto simp: settle_call_def known_reservation_found [OF known] split: sum.splits)
  from mk_settlement_receipt_ok [OF valid mk] have receipt: "receipt = ?receipt"
    "validate_settlement receipt = Inr ()" by blast+
  from ok req same state free answer mk with_state receipt(1)
  have "v = Res_settlement receipt" and "\<not> rl_unlimited_budget st \<longrightarrow> amount actual \<le> rl_balance st"
    and "st' = store_settlement (settled_reservation Pay_SETTLED now r) receipt (debited actual st)"
    by (auto simp: settle_call_def known_reservation_found [OF known] Let_def debited_def
        not_less split: if_splits)
  moreover have "amount actual \<le> amount (pv_maximum_amount r)"
    using req by (auto simp: validate_settlement_request_def not_less split: if_splits)
  ultimately show ?thesis
    using ok same state free receipt
    by (auto simp: settlement_done_def)
qed

text \<open>Storing the final state of a known reservation and a receipt under an unused id.\<close>

lemma store_settlement_ok:
  assumes ok: "rail_ok u st" and known: "find_reservation (pv_reservation_id r) st = Some known"
    and same: "pv_maximum_amount known = pv_maximum_amount r"
    and active: "outstanding_state (pv_state known)" and over: "\<not> outstanding_state (pv_state r)"
    and captured: "0 \<le> amount captured" "amount captured \<le> amount (pv_maximum_amount r)"
    and unused: "\<forall>x \<in> set (rl_settlements st). sr_settlement_id x \<noteq> sr_settlement_id receipt"
    and cap: "sr_captured_amount receipt = captured"
    and covered: "\<not> rl_unlimited_budget st \<longrightarrow> amount captured \<le> rl_balance st"
  shows "rail_ok u (store_settlement r receipt (debited captured st))" (is "rail_ok u ?st'")
proof -
  note mem = find_reservation_Some [OF known]
  have d: "distinct (map pv_reservation_id (rl_reservations st))" using ok by (simp add: rail_ok_def)
  have put: "rl_reservations ?st' = update_rows (\<lambda>x. pv_reservation_id x = pv_reservation_id r) (\<lambda>_. r)
      (rl_reservations st)"
    using put_old [OF mem(1), of pv_reservation_id r] mem(2)
    by (simp add: store_settlement_def debited_def)
  have new: "rl_settlements ?st' = rl_settlements st @ [receipt]"
    using put_new [of "rl_settlements st" sr_settlement_id receipt] unused
    by (simp add: store_settlement_def debited_def)
  have "outstanding ?st' = outstanding st - reserved_part known + reserved_part r"
    unfolding outstanding_sum put using sum_update_key [OF d mem(1,2), of reserved_part r] by simp
  then have out: "outstanding ?st' = outstanding st - amount (pv_maximum_amount r)"
    using active over same by (simp add: reserved_part_def)
  have keys: "distinct (map pv_reservation_id (rl_reservations ?st'))"
    using put_keys [OF d, of r] by (simp add: store_settlement_def debited_def)
  have amounts: "\<forall>x \<in> set (rl_reservations ?st'). 0 \<le> amount (pv_maximum_amount x)"
    unfolding put set_update_rows using ok captured by (auto simp: rail_ok_def)
  have refunded: "rail_refunded sid ?st' = rail_refunded sid st" for sid
    by (simp add: rail_refunded_def store_settlement_def debited_def)
  have none: "rail_refunded (sr_settlement_id receipt) st = 0"
  proof -
    have "\<forall>x \<in> set (rl_refunds st). rr_settlement_id x \<noteq> sr_settlement_id receipt"
      using ok unused unfolding rail_ok_def by (metis imageE)
    then have "filter (\<lambda>x. rr_settlement_id x = sr_settlement_id receipt) (rl_refunds st) = []"
      by (simp add: filter_empty_conv)
    then show ?thesis by (simp add: rail_refunded_def)
  qed
  have unusedset: "sr_settlement_id receipt \<notin> sr_settlement_id ` set (rl_settlements st)"
    using unused by (metis imageE)
  have same_fields: "rl_refunds ?st' = rl_refunds st" "rl_unlimited_budget ?st' = rl_unlimited_budget st"
    "rl_balance ?st' = (if rl_unlimited_budget st then rl_balance st else rl_balance st - amount captured)"
    by (simp_all add: store_settlement_def debited_def)
  have "\<not> rl_unlimited_budget st \<longrightarrow> outstanding st \<le> rl_balance st + u" "0 \<le> rl_balance st"
    using ok by (simp_all add: rail_ok_def)
  then have money: "0 \<le> rl_balance ?st'" "\<not> rl_unlimited_budget st \<longrightarrow> outstanding ?st' \<le> rl_balance ?st' + u"
    using covered captured by (auto simp: same_fields out)
  have "\<forall>x \<in> set (rl_settlements ?st').
      rail_refunded (sr_settlement_id x) ?st' \<le> amount (sr_captured_amount x)"
    using ok none captured(1) cap by (auto simp: new refunded rail_ok_def)
  moreover have "\<forall>x \<in> set (rl_refunds ?st'). 0 \<le> amount (rr_amount x)
      \<and> rr_settlement_id x \<in> sr_settlement_id ` set (rl_settlements ?st')"
    using ok by (auto simp: same_fields new rail_ok_def)
  moreover have "distinct (map sr_settlement_id (rl_settlements ?st'))"
    using ok unusedset by (simp add: new rail_ok_def)
  ultimately show ?thesis
    using keys amounts money ok by (simp add: rail_ok_def same_fields)
qed

lemma rail_ok_settle_known:
  assumes ok: "rail_ok u st" and known: "find_reservation (pv_reservation_id r) st \<noteq> None"
    and valid: "validate_payment r = Inr ()" and now: "aware now" "pv_created_at r \<le> now"
    and actual: "0 \<le> amount actual"
    and unused: "\<forall>x \<in> set (rl_settlements st). sr_settlement_id x \<noteq> stable_id ''settlement'' key"
  shows "rail_ok u (snd (settle_call stable_id calls now r actual evidence key st))"
proof -
  obtain known where k: "find_reservation (pv_reservation_id r) st = Some known" using known by auto
  from settle_call_known [OF k valid now, of stable_id calls actual evidence key] show ?thesis
  proof (elim disjE exE conjE)
    fix e assume "settle_call stable_id calls now r actual evidence key st = (Inl e, st)"
    with ok show ?thesis by simp
  next
    fix receipt st'
    assume same: "same_reservation_identity known r"
      and state: "pv_state known \<in> {Pay_RESERVED, Pay_SETTLING, Pay_INDETERMINATE}"
      and call: "settle_call stable_id calls now r actual evidence key st = (Inr (Res_settlement receipt), st')"
      and did: "settlement_done (stable_id ''settlement'' key) r actual now receipt st st'"
    have "rail_ok u (store_settlement (settled_reservation Pay_SETTLED now r) receipt (debited actual st))"
      by (rule store_settlement_ok [OF ok, where known = known])
        (use k same state did unused actual identity_simps(1) [OF same] in
          \<open>auto simp: settlement_done_def outstanding_state_def\<close>)
    with call did show ?thesis by (simp add: settlement_done_def)
  qed
qed

lemma release_call_known:
  assumes known: "find_reservation (pv_reservation_id r) st = Some known"
    and valid: "validate_payment r = Inr ()" and now: "aware now" "pv_created_at r \<le> now"
  shows "(\<exists>e. release_call stable_id calls now r reason key st = (Inl e, st))
    \<or> same_reservation_identity known r \<and> pv_state known \<in> {Pay_RESERVED, Pay_SETTLING}
      \<and> (\<exists>receipt. release_call stable_id calls now r reason key st =
            (Inr (Res_settlement receipt), store_settlement (settled_reservation Pay_RELEASED now r) receipt st)
          \<and> sr_settlement_id receipt = stable_id ''release'' key
          \<and> sr_captured_amount receipt = zero_amount (currency (pv_maximum_amount r))
          \<and> sr_released_amount receipt = pv_maximum_amount r)"
proof -
  have "reservation_with_state r Pay_RELEASED now None = Inr (settled_reservation Pay_RELEASED now r)"
    using reservation_with_final_state [OF valid now] by (simp add: settled_reservation_def)
  then show ?thesis
    by (simp add: release_call_def known_reservation_found [OF known] mk_settlement_receipt [OF valid]
        split: sum.split)
qed

lemma rail_ok_release_known:
  assumes ok: "rail_ok u st" and known: "find_reservation (pv_reservation_id r) st \<noteq> None"
    and valid: "validate_payment r = Inr ()" and now: "aware now" "pv_created_at r \<le> now"
    and unused: "\<forall>x \<in> set (rl_settlements st). sr_settlement_id x \<noteq> stable_id ''release'' key"
  shows "rail_ok u (snd (release_call stable_id calls now r reason key st))"
proof -
  obtain known where k: "find_reservation (pv_reservation_id r) st = Some known" using known by auto
  from release_call_known [OF k valid now, of stable_id calls reason key] show ?thesis
  proof (elim disjE exE conjE)
    fix e assume "release_call stable_id calls now r reason key st = (Inl e, st)"
    with ok show ?thesis by simp
  next
    fix receipt
    assume same: "same_reservation_identity known r" and state: "pv_state known \<in> {Pay_RESERVED, Pay_SETTLING}"
      and call: "release_call stable_id calls now r reason key st =
            (Inr (Res_settlement receipt), store_settlement (settled_reservation Pay_RELEASED now r) receipt st)"
      and rid: "sr_settlement_id receipt = stable_id ''release'' key"
      and cap: "sr_captured_amount receipt = zero_amount (currency (pv_maximum_amount r))"
    have "debited (zero_amount (currency (pv_maximum_amount r))) st = st"
      by (simp add: debited_def)
    moreover have "rail_ok u (store_settlement (settled_reservation Pay_RELEASED now r) receipt
        (debited (zero_amount (currency (pv_maximum_amount r))) st))"
      by (rule store_settlement_ok [OF ok _ _ _ _ _ _ _ cap, where known = known])
        (use k state unused rid identity_simps(1) [OF same] valid_payment_amount [OF valid] ok in
          \<open>auto simp: outstanding_state_def rail_ok_def\<close>)
    ultimately show ?thesis using call by simp
  qed
qed

section \<open>Settling and releasing an unknown reservation\<close>

text \<open>The rail with a reservation it did not hold.\<close>

definition adopted :: "PaymentReservationV2 \<Rightarrow> rail \<Rightarrow> rail" where
  "adopted r st =
     st\<lparr>rl_reservations := rl_reservations st @ [r],
        rl_charge_reservations := (rl_charge_reservations st)(pv_charge_id r \<mapsto> pv_reservation_id r)\<rparr>"

definition taken_over :: "PaymentReservationV2 \<Rightarrow> rail \<Rightarrow> rat" where
  "taken_over r st =
     (if find_reservation (pv_reservation_id r) st = None then amount (pv_maximum_amount r) else 0)"

lemma unknown_fresh:
  "find_reservation (pv_reservation_id r) st = None
    \<Longrightarrow> \<forall>x \<in> set (rl_reservations st). pv_reservation_id x \<noteq> pv_reservation_id r"
  by (auto simp: find_reservation_def select_row_None)

lemma adopted_known:
  assumes "find_reservation (pv_reservation_id r) st = None"
  shows "known_reservation r st = (Inr r, adopted r st)"
    "find_reservation (pv_reservation_id r) (adopted r st) = Some r"
    "known_reservation r (adopted r st) = (Inr r, adopted r st)"
proof -
  show "known_reservation r st = (Inr r, adopted r st)"
    using assms put_new [OF unknown_fresh [OF assms]] by (simp add: known_reservation_def adopted_def)
  show found: "find_reservation (pv_reservation_id r) (adopted r st) = Some r"
    using assms unknown_fresh [OF assms] by (simp add: find_reservation_def adopted_def select_row_append)
  show "known_reservation r (adopted r st) = (Inr r, adopted r st)"
    by (simp add: known_reservation_found [OF found] same_reservation_identity_def)
qed

text \<open>The calls take an unknown reservation over and go on as if they had held it.\<close>

lemma settle_call_unknown:
  assumes "find_reservation (pv_reservation_id r) st = None"
    and "validate_settlement_request r actual evidence = Inr ()"
  shows "settle_call stable_id calls now r actual evidence key st
    = settle_call stable_id calls now r actual evidence key (adopted r st)"
  using assms(2) by (simp add: settle_call_def adopted_known [OF assms(1)])

lemma release_call_unknown:
  assumes "find_reservation (pv_reservation_id r) st = None"
  shows "release_call stable_id calls now r reason key st
    = release_call stable_id calls now r reason key (adopted r st)"
  by (simp add: release_call_def adopted_known [OF assms])

lemma outstanding_adopted: "outstanding (adopted r st) = outstanding st + reserved_part r"
  by (simp add: outstanding_sum adopted_def)

lemma rail_ok_adopted:
  assumes ok: "rail_ok u st" and unknown: "find_reservation (pv_reservation_id r) st = None"
    and valid: "validate_payment r = Inr ()"
  shows "rail_ok (u + taken_over r st) (adopted r st)"
proof -
  have "pv_reservation_id r \<notin> pv_reservation_id ` set (rl_reservations st)"
    using unknown_fresh [OF unknown] by (metis imageE)
  moreover have "reserved_part r \<le> amount (pv_maximum_amount r)"
    using valid_payment_amount [OF valid] by (simp add: reserved_part_def)
  moreover have fields: "rl_unlimited_budget (adopted r st) = rl_unlimited_budget st"
    "rl_balance (adopted r st) = rl_balance st" "rl_settlements (adopted r st) = rl_settlements st"
    "rl_refunds (adopted r st) = rl_refunds st" "rl_reservations (adopted r st) = rl_reservations st @ [r]"
    by (simp_all add: adopted_def)
  moreover have "rail_refunded sid (adopted r st) = rail_refunded sid st" for sid
    by (simp add: rail_refunded_def fields)
  ultimately show ?thesis
    using ok valid_payment_amount [OF valid] outstanding_adopted [of r st] unknown
    unfolding rail_ok_def taken_over_def by auto
qed

lemma rail_ok_settle:
  assumes ok: "rail_ok u st" and valid: "validate_payment r = Inr ()"
    and now: "aware now" "pv_created_at r \<le> now" and actual: "0 \<le> amount actual"
    and unused: "\<forall>x \<in> set (rl_settlements st). sr_settlement_id x \<noteq> stable_id ''settlement'' key"
  shows "rail_ok (u + taken_over r st) (snd (settle_call stable_id calls now r actual evidence key st))"
proof (cases "find_reservation (pv_reservation_id r) st")
  case None
  have more: "rail_ok (u + taken_over r st) st"
    using valid_payment_amount [OF valid] by (intro rail_ok_more [OF ok]) (simp add: taken_over_def)
  show ?thesis
  proof (cases "validate_settlement_request r actual evidence")
    case (Inl e)
    then show ?thesis using more by (simp add: settle_call_def)
  next
    case (Inr x)
    then have "settle_call stable_id calls now r actual evidence key st
        = settle_call stable_id calls now r actual evidence key (adopted r st)"
      by (intro settle_call_unknown [OF None]) simp
    then show ?thesis
      using adopted_known(2) [OF None] unused
        rail_ok_settle_known [where stable_id = stable_id, OF rail_ok_adopted [OF ok None valid] _ valid now actual]
      by (simp add: adopted_def)
  qed
qed (use rail_ok_settle_known [where stable_id = stable_id, OF ok _ valid now actual unused] in
    \<open>simp add: taken_over_def\<close>)

lemma rail_ok_release:
  assumes ok: "rail_ok u st" and valid: "validate_payment r = Inr ()"
    and now: "aware now" "pv_created_at r \<le> now"
    and unused: "\<forall>x \<in> set (rl_settlements st). sr_settlement_id x \<noteq> stable_id ''release'' key"
  shows "rail_ok (u + taken_over r st) (snd (release_call stable_id calls now r reason key st))"
proof (cases "find_reservation (pv_reservation_id r) st")
  case None
  show ?thesis
    unfolding release_call_unknown [OF None]
    using adopted_known(2) [OF None] unused
    by (intro rail_ok_release_known [OF rail_ok_adopted [OF ok None valid] _ valid now])
      (simp_all add: adopted_def)
qed (use rail_ok_release_known [where stable_id = stable_id, OF ok _ valid now unused] in
    \<open>simp add: taken_over_def\<close>)

section \<open>Refunds\<close>

definition refund_part :: "string \<Rightarrow> RefundReceiptV2 \<Rightarrow> rat" where
  "refund_part sid x = (if rr_settlement_id x = sid then amount (rr_amount x) else 0)"

lemma rail_refunded_sum: "rail_refunded sid st = sum_list (map (refund_part sid) (rl_refunds st))"
  by (simp add: rail_refunded_def sum_filter_if refund_part_def [abs_def])

lemma rail_refunded_put:
  assumes "distinct (map rr_refund_id (rl_refunds st))"
    and "\<forall>x \<in> set (rl_refunds st). 0 \<le> amount (rr_amount x)"
  shows "rail_refunded sid (st\<lparr>rl_refunds := put rr_refund_id r (rl_refunds st)\<rparr>)
    \<le> rail_refunded sid st + refund_part sid r"
proof (cases "\<exists>x \<in> set (rl_refunds st). rr_refund_id x = rr_refund_id r")
  case True
  then obtain x where x: "x \<in> set (rl_refunds st)" "rr_refund_id x = rr_refund_id r" by blast
  have "0 \<le> refund_part sid x" using assms(2) x(1) by (simp add: refund_part_def)
  then show ?thesis
    using sum_update_key [OF assms(1) x, of "refund_part sid" r] put_old [OF x]
    by (simp add: rail_refunded_sum)
next
  case False
  then show ?thesis by (simp add: rail_refunded_sum put_new)
qed

lemma rail_ok_known_settlement:
  assumes ok: "rail_ok u st" and "0 \<le> amount (sr_captured_amount x)"
    and new: "\<forall>y \<in> set (rl_settlements st). sr_settlement_id y \<noteq> sr_settlement_id x"
  shows "rail_ok u (st\<lparr>rl_settlements := put sr_settlement_id x (rl_settlements st)\<rparr>)"
proof -
  have "\<forall>y \<in> set (rl_refunds st). rr_settlement_id y \<noteq> sr_settlement_id x"
    using ok new unfolding rail_ok_def by (metis imageE)
  then have "filter (\<lambda>y. rr_settlement_id y = sr_settlement_id x) (rl_refunds st) = []"
    by (simp add: filter_empty_conv)
  then have "rail_refunded (sr_settlement_id x) st = 0" by (simp add: rail_refunded_def)
  moreover have "sr_settlement_id x \<notin> sr_settlement_id ` set (rl_settlements st)"
    using new by (metis imageE)
  moreover have "rail_refunded sid (st\<lparr>rl_settlements := rl_settlements st @ [x]\<rparr>) = rail_refunded sid st" for sid
    by (simp add: rail_refunded_def)
  moreover have "outstanding (st\<lparr>rl_settlements := rl_settlements st @ [x]\<rparr>) = outstanding st"
    by (simp add: outstanding_def)
  ultimately show ?thesis
    using ok assms(2) by (auto simp: put_new [OF new] rail_ok_def)
qed

text \<open>What the refund call did when it returned a receipt, and what it left otherwise.\<close>

definition refund_base :: "SettlementReceipt \<Rightarrow> rail \<Rightarrow> rail" where
  "refund_base settlement st =
     (if select_row (\<lambda>x. sr_settlement_id x = sr_settlement_id settlement) (rl_settlements st) = None
      then st\<lparr>rl_settlements := put sr_settlement_id settlement (rl_settlements st)\<rparr> else st)"

definition credited :: "CurrencyAmount \<Rightarrow> rail \<Rightarrow> rail" where
  "credited value st =
     (if rl_unlimited_budget st then st else st\<lparr>rl_balance := rl_balance st + amount value\<rparr>)"

lemma refund_call_state:
  "snd (refund_call stable_id calls now settlement value reason key st) \<in> {st, refund_base settlement st}
   \<or> (\<exists>receipt. refund_call stable_id calls now settlement value reason key st =
        (Inr (Res_refund receipt), credited value ((refund_base settlement st)
            \<lparr>rl_refunds := put rr_refund_id receipt (rl_refunds (refund_base settlement st))\<rparr>))
      \<and> rr_settlement_id receipt = sr_settlement_id settlement \<and> rr_amount receipt = value
      \<and> validate_refund receipt = Inr ()
      \<and> select_row (\<lambda>x. sr_settlement_id x = sr_settlement_id settlement) (rl_settlements st)
          \<in> {None, Some settlement}
      \<and> rail_refunded (sr_settlement_id settlement) (refund_base settlement st) + amount value
          \<le> amount (sr_captured_amount settlement))"
proof -
  let ?known = "select_row (\<lambda>x. sr_settlement_id x = sr_settlement_id settlement) (rl_settlements st)"
  let ?b = "refund_base settlement st"
  let ?call = "refund_call stable_id calls now settlement value reason key st"
  consider (early) "currency value \<noteq> currency (sr_captured_amount settlement)
        \<or> ?known \<noteq> None \<and> ?known \<noteq> Some settlement"
    | (full) "currency value = currency (sr_captured_amount settlement)" "?known \<in> {None, Some settlement}"
        "rail_refunded (sr_settlement_id settlement) ?b + amount value > amount (sr_captured_amount settlement)"
    | (fits) "currency value = currency (sr_captured_amount settlement)" "?known \<in> {None, Some settlement}"
        "rail_refunded (sr_settlement_id settlement) ?b + amount value \<le> amount (sr_captured_amount settlement)"
    by fastforce
  then show ?thesis
  proof cases
    case early
    then have "snd ?call = st" by (auto simp: refund_call_def Let_def)
    then show ?thesis by simp
  next
    case full
    then have "?call = (Err (ConfigurationError ''refund exceeds unrefunded captured amount''), ?b)"
      by (simp add: refund_call_def Let_def refund_base_def)
    then show ?thesis by simp
  next
    case fits
    define pay where "pay = (\<lambda>st1. case refund_external calls settlement value reason key of
            Inl e \<Rightarrow> (Err e, st1)
          | Inr answer \<Rightarrow>
              (case callback_reference answer of
                 Inl e \<Rightarrow> (Err e, st1)
               | Inr reference \<Rightarrow>
                   (case mk_refund \<lparr>rr_refund_id = stable_id ''refund'' key,
                          rr_settlement_id = sr_settlement_id settlement,
                          rr_charge_id = sr_charge_id settlement, rr_amount = value,
                          rr_reason = reason, rr_idempotency_key = key, rr_refunded_at = now,
                          rr_external_reference = reference, rr_signature = None\<rparr> of
                      Inl e \<Rightarrow> (Err e, st1)
                    | Inr receipt \<Rightarrow> (Ok (Res_refund receipt), credited value
                        (st1\<lparr>rl_refunds := put rr_refund_id receipt (rl_refunds st1)\<rparr>)))))"
    have "?call = pay ?b"
      using fits by (auto simp: refund_call_def Let_def refund_base_def not_less pay_def credited_def
          cong: sum.case_cong)
    moreover have "snd (pay ?b) = ?b \<or> (\<exists>receipt. pay ?b = (Inr (Res_refund receipt), credited value
          (?b\<lparr>rl_refunds := put rr_refund_id receipt (rl_refunds ?b)\<rparr>))
        \<and> rr_settlement_id receipt = sr_settlement_id settlement \<and> rr_amount receipt = value
        \<and> validate_refund receipt = Inr ())"
      by (simp add: pay_def mk_refund_def split: sum.split)
    ultimately show ?thesis using fits by auto
  qed
qed

lemma rail_ok_refund_base:
  assumes "rail_ok u st" and "0 \<le> amount (sr_captured_amount settlement)"
  shows "rail_ok u (refund_base settlement st)"
    and "select_row (\<lambda>x. sr_settlement_id x = sr_settlement_id settlement) (rl_settlements st)
      \<in> {None, Some settlement} \<Longrightarrow> settlement \<in> set (rl_settlements (refund_base settlement st))"
proof -
  show "rail_ok u (refund_base settlement st)"
    using rail_ok_known_settlement [OF assms] assms(1) by (simp add: refund_base_def select_row_None)
  show "settlement \<in> set (rl_settlements (refund_base settlement st))"
    if "select_row (\<lambda>x. sr_settlement_id x = sr_settlement_id settlement) (rl_settlements st)
      \<in> {None, Some settlement}"
  proof (cases "select_row (\<lambda>x. sr_settlement_id x = sr_settlement_id settlement) (rl_settlements st)")
    case None
    then show ?thesis by (simp add: refund_base_def select_row_None put_new)
  next
    case (Some x)
    with that select_row_SomeD [OF Some] show ?thesis by (simp add: refund_base_def)
  qed
qed

lemma rail_ok_credited:
  assumes "rail_ok u st" and "0 \<le> amount v"
  shows "rail_ok u (credited v st)"
proof (cases "rl_unlimited_budget st")
  case False
  have "outstanding (st\<lparr>rl_balance := b\<rparr>) = outstanding st"
    "rail_refunded s (st\<lparr>rl_balance := b\<rparr>) = rail_refunded s st" for b s
    by (simp_all add: outstanding_def rail_refunded_def)
  with assms False show ?thesis by (simp add: credited_def rail_ok_def)
qed (use assms in \<open>simp add: credited_def\<close>)

lemma rail_ok_refund:
  assumes ok: "rail_ok u st" and captured: "0 \<le> amount (sr_captured_amount settlement)"
  shows "rail_ok u (snd (refund_call stable_id calls now settlement value reason key st))"
  using refund_call_state [of stable_id calls now settlement "value" reason key st]
proof (elim disjE exE conjE)
  assume "snd (refund_call stable_id calls now settlement value reason key st) \<in> {st, refund_base settlement st}"
  with ok rail_ok_refund_base(1) [OF ok captured] show ?thesis by auto
next
  fix receipt
  let ?b = "refund_base settlement st"
  let ?c = "?b\<lparr>rl_refunds := put rr_refund_id receipt (rl_refunds ?b)\<rparr>"
  assume call: "refund_call stable_id calls now settlement value reason key st =
        (Inr (Res_refund receipt), credited value ?c)"
    and sid: "rr_settlement_id receipt = sr_settlement_id settlement" and val: "rr_amount receipt = value"
    and valid: "validate_refund receipt = Inr ()"
    and known: "select_row (\<lambda>x. sr_settlement_id x = sr_settlement_id settlement) (rl_settlements st)
          \<in> {None, Some settlement}"
    and fits: "rail_refunded (sr_settlement_id settlement) ?b + amount value
          \<le> amount (sr_captured_amount settlement)"
  have okb: "rail_ok u ?b" by (rule rail_ok_refund_base(1) [OF ok captured])
  have mem: "settlement \<in> set (rl_settlements ?b)" by (rule rail_ok_refund_base(2) [OF ok captured known])
  have pos: "0 \<le> amount value"
    using valid val by (auto simp: validate_refund_def valid_amount_def split: if_splits)
  have le: "rail_refunded s ?c \<le> rail_refunded s ?b + refund_part s receipt" for s
    using okb by (intro rail_refunded_put) (auto simp: rail_ok_def)
  have within: "rail_refunded (sr_settlement_id x) ?c \<le> amount (sr_captured_amount x)"
    if x: "x \<in> set (rl_settlements ?b)" for x
  proof (cases "sr_settlement_id x = sr_settlement_id settlement")
    case True
    have "distinct (map sr_settlement_id (rl_settlements ?b))" using okb by (simp add: rail_ok_def)
    then have "x = settlement" using True x mem by (simp add: distinct_map inj_on_def)
    with le [of "sr_settlement_id x"] fits sid val show ?thesis by (simp add: refund_part_def)
  next
    case False
    with le [of "sr_settlement_id x"] sid have "rail_refunded (sr_settlement_id x) ?c
        \<le> rail_refunded (sr_settlement_id x) ?b" by (simp add: refund_part_def)
    also have "\<dots> \<le> amount (sr_captured_amount x)" using okb x by (simp add: rail_ok_def)
    finally show ?thesis .
  qed
  have refunds: "\<forall>x \<in> set (put rr_refund_id receipt (rl_refunds ?b)). 0 \<le> amount (rr_amount x)
      \<and> rr_settlement_id x \<in> sr_settlement_id ` set (rl_settlements ?b)"
  proof
    fix x assume "x \<in> set (put rr_refund_id receipt (rl_refunds ?b))"
    from set_put [OF this] show "0 \<le> amount (rr_amount x)
        \<and> rr_settlement_id x \<in> sr_settlement_id ` set (rl_settlements ?b)"
    proof
      assume "x = receipt"
      then show ?thesis using sid val pos mem by simp
    next
      assume "x \<in> set (rl_refunds ?b)"
      with okb show ?thesis by (simp add: rail_ok_def)
    qed
  qed
  have keys: "distinct (map rr_refund_id (put rr_refund_id receipt (rl_refunds ?b)))"
    using okb by (intro put_keys) (simp add: rail_ok_def)
  have "outstanding ?c = outstanding ?b" by (simp add: outstanding_def)
  then have "rail_ok u ?c" using okb within refunds keys by (simp add: rail_ok_def)
  then have "rail_ok u (credited value ?c)" by (rule rail_ok_credited [OF _ pos])
  with call show ?thesis by simp
qed

end
