(* ===== verification/Pricing.thy ===== *)
theory Pricing
  imports Economic_Models
begin

text \<open>
  What \<open>PricingRule.evaluate\<close> guarantees: on a validated rule and a non-negative quantity it
  always returns an amount in the rule's currency within the rule's bounds, and it never
  charges less for more, under each of the six rounding modes.
\<close>

section \<open>Rounding\<close>

lemma half_even_bounds:
  "\<lfloor>q\<rfloor> \<le> to_integral Round_HALF_EVEN q \<and> to_integral Round_HALF_EVEN q \<le> \<lfloor>q\<rfloor> + 1"
  by (simp add: Let_def)

lemma half_even_mono:
  assumes "q \<le> q'"
  shows "to_integral Round_HALF_EVEN q \<le> to_integral Round_HALF_EVEN q'"
proof (cases "\<lfloor>q\<rfloor> = \<lfloor>q'\<rfloor>")
  case True
  then show ?thesis using assms by (auto simp: Let_def)
next
  case False
  with assms have "\<lfloor>q\<rfloor> + 1 \<le> \<lfloor>q'\<rfloor>" using floor_mono [OF assms] by simp
  then show ?thesis using half_even_bounds [of q] half_even_bounds [of q'] by linarith
qed

lemma to_integral_mono:
  assumes "q \<le> q'"
  shows "to_integral m q \<le> to_integral m q'"
proof (cases m)
  case Round_UP
  have "\<lfloor>q\<rfloor> \<le> \<lceil>q'\<rceil>" by (meson assms floor_le_ceiling floor_mono order_trans)
  with Round_UP assms show ?thesis by (auto intro: floor_mono ceiling_mono)
next
  case Round_DOWN
  have "\<lceil>q\<rceil> \<le> \<lfloor>q'\<rfloor>" if "q < 0" "0 \<le> q'"
  proof -
    have "\<lceil>q\<rceil> \<le> 0" using that(1) by (simp add: ceiling_le_iff)
    moreover have "0 \<le> \<lfloor>q'\<rfloor>" using that(2) by simp
    ultimately show ?thesis by linarith
  qed
  with Round_DOWN assms show ?thesis by (auto intro: floor_mono ceiling_mono)
next
  case Round_HALF_UP
  have "\<lceil>q - 1/2\<rceil> \<le> \<lfloor>q' + 1/2\<rfloor>" if "q < 0" "0 \<le> q'"
  proof -
    have "\<lceil>q - 1/2\<rceil> \<le> 0" using that(1) by (simp add: ceiling_le_iff)
    moreover have "0 \<le> \<lfloor>q' + 1/2\<rfloor>" using that(2) by simp
    ultimately show ?thesis by linarith
  qed
  with Round_HALF_UP assms show ?thesis by (auto intro: floor_mono ceiling_mono)
next
  case Round_HALF_EVEN
  then show ?thesis using half_even_mono [OF assms] by simp
qed (use assms in \<open>simp_all add: floor_mono ceiling_mono\<close>)

lemma to_integral_0: "to_integral m 0 = 0"
  by (cases m) (simp_all add: Let_def floor_eq_iff)

lemma to_integral_nonneg: "0 \<le> q \<Longrightarrow> 0 \<le> to_integral m q"
  using to_integral_mono [of 0 q m] by (simp add: to_integral_0)

section \<open>Evaluation of a rule\<close>

lemma set_rule_amounts:
  "set (rule_amounts p) = {a. pr_fixed_amount p = Some a \<or> pr_per_unit_amount p = Some a
     \<or> pr_minimum_amount p = Some a \<or> pr_maximum_amount p = Some a}"
  by (auto simp: rule_amounts_def map_filter_simps split: option.splits)

lemma rule_field_facts:
  assumes "validate_rule p = Inr ()"
  shows "pr_fixed_amount p = Some a \<Longrightarrow> valid_amount a"
    and "pr_per_unit_amount p = Some a \<Longrightarrow> valid_amount a"
    and "pr_minimum_amount p = Some a \<Longrightarrow> valid_amount a"
    and "pr_maximum_amount p = Some a \<Longrightarrow> valid_amount a"
    and "pr_quantity_increment p = Some i \<Longrightarrow> 0 < i"
    and "pr_fixed_amount p \<noteq> None \<or> pr_per_unit_amount p \<noteq> None"
    and "\<not> exceeds_amount (pr_minimum_amount p) (pr_maximum_amount p)"
  using assms
  by (auto simp: validate_rule_def rule_amounts_def map_filter_simps split: option.splits)

lemma billable_quantity_mono:
  assumes p: "validate_rule p = Inr ()" and "q \<le> q'"
  shows "billable_quantity p q \<le> billable_quantity p q'"
proof -
  let ?f = "case pr_free_quantity p of Some f \<Rightarrow> f | None \<Rightarrow> 0"
  have base: "max 0 (q - ?f) \<le> max 0 (q' - ?f)" using assms(2) by simp
  show ?thesis
  proof (cases "pr_quantity_increment p")
    case None
    with base show ?thesis by (simp add: billable_quantity_def)
  next
    case (Some inc)
    then have inc: "0 < inc" using rule_field_facts(5) [OF p] by simp
    then have "max 0 (q - ?f) / inc \<le> max 0 (q' - ?f) / inc"
      using base inc by (intro divide_right_mono) auto
    then have "to_integral (pr_rounding_mode p) (max 0 (q - ?f) / inc)
        \<le> to_integral (pr_rounding_mode p) (max 0 (q' - ?f) / inc)"
      by (rule to_integral_mono)
    with Some inc show ?thesis by (simp add: billable_quantity_def)
  qed
qed

lemma billable_quantity_nonneg:
  assumes p: "validate_rule p = Inr ()"
  shows "0 \<le> billable_quantity p q"
proof (cases "pr_quantity_increment p")
  case (Some inc)
  then have "0 < inc" using rule_field_facts(5) [OF p] by simp
  then show ?thesis using Some by (simp add: billable_quantity_def to_integral_nonneg)
qed (simp add: billable_quantity_def)

lemma unbounded_total_mono:
  assumes p: "validate_rule p = Inr ()" and "q \<le> q'"
  shows "unbounded_total p q \<le> unbounded_total p q'"
  using billable_quantity_mono [OF assms] rule_field_facts(2) [OF p]
  by (auto simp: unbounded_total_def valid_amount_def mult_right_mono split: option.splits)

lemma unbounded_total_nonneg:
  assumes p: "validate_rule p = Inr ()"
  shows "0 \<le> unbounded_total p q"
  using billable_quantity_nonneg [OF p] rule_field_facts(1,2) [OF p]
  by (auto simp: unbounded_total_def valid_amount_def split: option.splits intro!: add_nonneg_nonneg mult_nonneg_nonneg)

lemma bounded_total_mono: "t \<le> t' \<Longrightarrow> bounded_total p t \<le> bounded_total p t'"
  by (auto simp: bounded_total_def Let_def min_def max_def split: option.splits)

lemma bounded_total_nonneg:
  assumes p: "validate_rule p = Inr ()" and "0 \<le> t"
  shows "0 \<le> bounded_total p t"
  using assms(2) rule_field_facts(3,4) [OF p]
  by (auto simp: bounded_total_def Let_def valid_amount_def split: option.splits)

lemma upper_char_id: "upper_letter c \<Longrightarrow> upper_char c = c"
  by (auto simp: upper_letter_def upper_char_def)

lemma normalize_code: "currency_code c \<Longrightarrow> normalize_currency c = Inr c"
  by (auto simp: currency_code_def normalize_currency_def list_all_iff upper_char_id
      intro: map_idI)

lemma rule_currency_code:
  assumes p: "validate_rule p = Inr ()"
  shows "\<exists>code. rule_currency p = Inr code \<and> currency_code code
    \<and> (\<forall>a \<in> set (rule_amounts p). currency a = code)"
proof -
  have one: "card (set (map currency (rule_amounts p))) = 1"
    using p by (simp add: validate_rule_def)
  obtain a where a: "a \<in> set (rule_amounts p)" and ca: "rule_currency p = Inr (currency a)"
    and va: "valid_amount a"
  proof (cases "pr_fixed_amount p")
    case None
    then obtain b where "pr_per_unit_amount p = Some b" using rule_field_facts(6) [OF p] by auto
    then show ?thesis
      using None rule_field_facts(2) [OF p] by (intro that [of b]) (simp_all add: set_rule_amounts rule_currency_def)
  next
    case (Some b)
    then show ?thesis
      using rule_field_facts(1) [OF p] by (intro that [of b]) (simp_all add: set_rule_amounts rule_currency_def)
  qed
  from one obtain c where c: "set (map currency (rule_amounts p)) = {c}"
    by (auto simp: card_1_singleton_iff)
  then have "currency b = currency a" if "b \<in> set (rule_amounts p)" for b
    using that a by (metis image_eqI list.set_map singletonD)
  with ca va show ?thesis by (intro exI [of _ "currency a"]) (auto simp: valid_amount_def)
qed

lemma evaluate_rule_value:
  assumes p: "validate_rule p = Inr ()" and q: "0 \<le> q"
  shows "\<exists>code. evaluate_rule p q
      = Inr \<lparr>amount = bounded_total p (unbounded_total p q), currency = code\<rparr>
    \<and> rule_currency p = Inr code \<and> currency_code code
    \<and> (\<forall>a \<in> set (rule_amounts p). currency a = code)"
proof -
  obtain code where code: "rule_currency p = Inr code" "currency_code code"
    and all: "\<forall>a \<in> set (rule_amounts p). currency a = code"
    using rule_currency_code [OF p] by blast
  have "0 \<le> bounded_total p (unbounded_total p q)"
    by (rule bounded_total_nonneg [OF p unbounded_total_nonneg [OF p]])
  then show ?thesis
    using code all q by (simp add: evaluate_rule_def mk_amount_def normalize_code)
qed

section \<open>Properties\<close>

text \<open>
  Evaluating a validated rule on a non-negative quantity always returns an amount: it is
  non-negative, in the single currency of all the rule's amounts, at least the minimum and
  at most the maximum.
\<close>

theorem evaluate_rule_sound:
  assumes p: "validate_rule p = Inr ()" and q: "0 \<le> q"
  shows "\<exists>a. evaluate_rule p q = Inr a \<and> valid_amount a
    \<and> (\<forall>m. pr_minimum_amount p = Some m \<longrightarrow> amount m \<le> amount a)
    \<and> (\<forall>m. pr_maximum_amount p = Some m \<longrightarrow> amount a \<le> amount m)
    \<and> (\<forall>b \<in> set (rule_amounts p). currency b = currency a)"
proof -
  obtain code where v: "evaluate_rule p q
      = Inr \<lparr>amount = bounded_total p (unbounded_total p q), currency = code\<rparr>"
    and code: "currency_code code" and all: "\<forall>a \<in> set (rule_amounts p). currency a = code"
    using evaluate_rule_value [OF assms] by blast
  have "0 \<le> bounded_total p (unbounded_total p q)"
    by (rule bounded_total_nonneg [OF p unbounded_total_nonneg [OF p]])
  with v code all rule_field_facts(7) [OF p] show ?thesis
    by (auto simp: valid_amount_def bounded_total_def Let_def split: option.splits)
qed

definition sample_rule :: PricingRule where
  "sample_rule =
     \<lparr>pr_rule_id = ''tokens'', pr_meter = Some ''bytes'', pr_unit = Some ''kb'',
      pr_fixed_amount = None, pr_per_unit_amount = Some \<lparr>amount = 1/100, currency = ''USD''\<rparr>,
      pr_free_quantity = Some 10, pr_minimum_amount = None,
      pr_maximum_amount = Some \<lparr>amount = 5, currency = ''USD''\<rparr>,
      pr_rounding_mode = Round_CEILING, pr_quantity_increment = Some 100\<rparr>"

lemma sample_rule_valid: "validate_rule sample_rule = Inr ()"
  by (simp add: sample_rule_def validate_rule_def rule_amounts_def map_filter_simps ident_def
      text_len_def identifier_char_def upper_letter_def lower_letter_def decimal_digit_def
      valid_amount_def currency_code_def)

theorem evaluate_rule_sound_witness:
  "\<exists>a. evaluate_rule sample_rule 250 = Inr a \<and> valid_amount a \<and> amount a \<le> 5"
  using evaluate_rule_sound [OF sample_rule_valid, of 250] by (auto simp: sample_rule_def)

text \<open>
  A validated rule never charges less for a larger quantity, whatever its free quantity,
  increment and rounding mode.
\<close>

theorem evaluate_rule_monotone:
  assumes p: "validate_rule p = Inr ()" and q: "0 \<le> q" "q \<le> q'"
    and a: "evaluate_rule p q = Inr a" and b: "evaluate_rule p q' = Inr b"
  shows "amount a \<le> amount b \<and> currency a = currency b"
proof -
  have q': "0 \<le> q'" using q by simp
  have "bounded_total p (unbounded_total p q) \<le> bounded_total p (unbounded_total p q')"
    by (rule bounded_total_mono [OF unbounded_total_mono [OF p q(2)]])
  moreover obtain c where "evaluate_rule p q
      = Inr \<lparr>amount = bounded_total p (unbounded_total p q), currency = c\<rparr>"
    and "rule_currency p = Inr c"
    using evaluate_rule_value [OF p q(1)] by blast
  moreover obtain c' where "evaluate_rule p q'
      = Inr \<lparr>amount = bounded_total p (unbounded_total p q'), currency = c'\<rparr>"
    and "rule_currency p = Inr c'"
    using evaluate_rule_value [OF p q'] by blast
  ultimately show ?thesis using a b by simp
qed

lemma sample_rule_values:
  "evaluate_rule sample_rule 250 = Inr \<lparr>amount = 3, currency = ''USD''\<rparr>"
  "evaluate_rule sample_rule 350 = Inr \<lparr>amount = 4, currency = ''USD''\<rparr>"
  by (simp_all add: evaluate_rule_def sample_rule_def rule_currency_def mk_amount_def
      normalize_currency_def upper_letter_def upper_char_def bounded_total_def
      unbounded_total_def billable_quantity_def ceiling_eq_iff)

theorem evaluate_rule_monotone_witness: "(3::rat) \<le> 4"
  using evaluate_rule_monotone [OF sample_rule_valid _ _ sample_rule_values] by simp

end
