(* ===== verification/Routing_Models.thy ===== *)
theory Routing_Models
  imports Prelude Capacity_Models Attempt_Models Cash_Accounting
begin

text \<open>
  The data that routing reads (\<open>aeep/models.py\<close>): what an executor declares and is estimated
  to need, what the caller's context still has, the hard constraints and the weights of a
  policy, and the built-in policies of \<open>aeep/policy.py\<close>. Floats of these models are finite
  (\<open>allow_inf_nan=False\<close>), so each is the rational it denotes.
\<close>

section \<open>Executors and their estimates\<close>

datatype ExecutorKind =
    Kind_COMMAND | Kind_PYTHON | Kind_HTTP | Kind_MCP | Kind_HOST | Kind_MANAGED_HOST
  | Kind_DELEGATE

datatype Locality = Loc_IN_PROCESS | Loc_LOCAL | Loc_LAN | Loc_INTERNET

datatype DataSensitivity = Data_PUBLIC | Data_INTERNAL | Data_CONFIDENTIAL | Data_RESTRICTED

record ResourceVector =
  rv_monetary_usd :: rat
  rv_latency_ms :: rat
  rv_cpu_ms :: rat
  rv_memory_mb_seconds :: rat
  rv_peak_memory_mb :: rat
  rv_gpu_ms :: rat
  rv_network_bytes :: int
  rv_context_tokens :: int
  rv_input_tokens :: int
  rv_cached_input_tokens :: int
  rv_cache_write_input_tokens :: int
  rv_output_tokens :: int
  rv_reasoning_output_tokens :: int
  rv_subscription_units :: rat

datatype SubscriptionCharge = Charge_INCLUDED | Charge_PAID | Charge_MIXED | Charge_UNKNOWN

record SubscriptionUsage =
  su_provider :: string
  su_resource_pool :: string
  su_unit :: string
  su_consumed :: "rat option"
  su_source :: MeasurementEvidence
  su_included_or_paid :: SubscriptionCharge
  su_rate_snapshot_id :: "string option"
  su_usage_fingerprint :: "string option"

record RouteEstimate =
  re_resources :: ResourceVector
  re_cash :: CashEstimate
  re_subscription_usage :: "SubscriptionUsage list"
  re_success_probability :: rat
  re_quality_score :: rat
  re_risk_score :: rat
  re_confidence :: rat

definition resources_ok :: "ResourceVector \<Rightarrow> bool" where
  "resources_ok r =
     (0 \<le> rv_monetary_usd r \<and> 0 \<le> rv_latency_ms r \<and> 0 \<le> rv_cpu_ms r \<and> 0 \<le> rv_memory_mb_seconds r
      \<and> 0 \<le> rv_peak_memory_mb r \<and> 0 \<le> rv_gpu_ms r \<and> 0 \<le> rv_network_bytes r
      \<and> 0 \<le> rv_context_tokens r \<and> 0 \<le> rv_input_tokens r \<and> 0 \<le> rv_cached_input_tokens r
      \<and> 0 \<le> rv_cache_write_input_tokens r \<and> 0 \<le> rv_output_tokens r
      \<and> 0 \<le> rv_reasoning_output_tokens r \<and> 0 \<le> rv_subscription_units r)"

definition usage_ok :: "SubscriptionUsage \<Rightarrow> bool" where
  "usage_ok u =
     (text_len 1 100 (su_provider u) \<and> text_len 1 200 (su_resource_pool u)
      \<and> text_len 1 100 (su_unit u) \<and> opt_all (\<lambda>q. 0 \<le> q) (su_consumed u)
      \<and> opt_all (text_len 0 100) (su_rate_snapshot_id u) \<and> opt_all (text_len 0 128) (su_usage_fingerprint u)
      \<and> \<not> (su_consumed u \<noteq> None \<and> me_status (su_source u) = Stat_UNAVAILABLE))"

definition estimate_ok :: "RouteEstimate \<Rightarrow> bool" where
  "estimate_ok e =
     (resources_ok (re_resources e) \<and> is_ok (validate_cash_estimate (re_cash e))
      \<and> list_all usage_ok (re_subscription_usage e)
      \<and> 1 / 1000 \<le> re_success_probability e \<and> re_success_probability e \<le> 1
      \<and> 0 \<le> re_quality_score e \<and> re_quality_score e \<le> 1
      \<and> 0 \<le> re_risk_score e \<and> re_risk_score e \<le> 1
      \<and> 0 \<le> re_confidence e \<and> re_confidence e \<le> 1)"

text \<open>
  Of an executor the routing rules read these fields. \<open>ex_accepts_restricted\<close> is the truth
  value of the configuration entry \<open>accepts_restricted_data\<close>.
\<close>

record ExecutorSpec =
  ex_id :: string
  ex_kind :: ExecutorKind
  ex_side_effect :: SideEffect
  ex_locality :: Locality
  ex_requires_network :: bool
  ex_data_residency :: "string list"
  ex_resource_pool :: "string option"
  ex_accepts_restricted :: bool

section \<open>The caller's context\<close>

record ComputeAvailability =
  av_memory_mb :: "rat option"
  av_cpu_fraction :: "rat option"
  av_gpu_ms :: "rat option"
  av_context_tokens :: "int option"
  av_monetary_budget_usd :: "rat option"
  av_network_metered :: bool

definition availability_ok :: "ComputeAvailability \<Rightarrow> bool" where
  "availability_ok a =
     (opt_all (\<lambda>q. 0 < q) (av_memory_mb a) \<and> opt_all (\<lambda>q. 0 < q \<and> q \<le> 1) (av_cpu_fraction a)
      \<and> opt_all (\<lambda>q. 0 \<le> q) (av_gpu_ms a) \<and> opt_all (\<lambda>n. 0 \<le> n) (av_context_tokens a)
      \<and> opt_all (\<lambda>q. 0 \<le> q) (av_monetary_budget_usd a))"

record ActionContext =
  cx_data_sensitivity :: DataSensitivity
  cx_state_locality :: "Locality option"
  cx_compute :: ComputeAvailability

section \<open>Constraints and policies\<close>

record ActionConstraints =
  max_cost_usd :: "rat option"
  max_latency_ms :: "rat option"
  max_cpu_ms :: "rat option"
  max_memory_mb_seconds :: "rat option"
  max_peak_memory_mb :: "rat option"
  max_gpu_ms :: "rat option"
  max_network_bytes :: "int option"
  max_context_tokens :: "int option"
  min_success_probability :: rat
  min_quality_score :: rat
  max_risk_score :: rat
  max_side_effect :: SideEffect
  allow_network :: bool
  require_local :: bool
  allowed_executor_kinds :: "ExecutorKind list option"
  allowed_executor_ids :: "string list option"
  denied_executor_ids :: "string list"
  allowed_data_residency :: "string list option"

definition default_constraints :: ActionConstraints where
  "default_constraints =
     \<lparr>max_cost_usd = None, max_latency_ms = None, max_cpu_ms = None, max_memory_mb_seconds = None,
      max_peak_memory_mb = None, max_gpu_ms = None, max_network_bytes = None,
      max_context_tokens = None, min_success_probability = 7/10, min_quality_score = 1/2,
      max_risk_score = 1/2, max_side_effect = SE_READ, allow_network = True,
      require_local = False, allowed_executor_kinds = None, allowed_executor_ids = None,
      denied_executor_ids = [], allowed_data_residency = None\<rparr>"

record MetricWeights =
  w_monetary :: rat
  w_latency :: rat
  w_compute :: rat
  w_subscription :: rat
  w_reliability :: rat
  w_quality :: rat
  w_risk :: rat

definition weight_sum :: "MetricWeights \<Rightarrow> rat" where
  "weight_sum w =
     w_monetary w + w_latency w + w_compute w + w_subscription w + w_reliability w
     + w_quality w + w_risk w"

definition weights_ok :: "MetricWeights \<Rightarrow> bool" where
  "weights_ok w =
     (0 \<le> w_monetary w \<and> 0 \<le> w_latency w \<and> 0 \<le> w_compute w \<and> 0 \<le> w_subscription w
      \<and> 0 \<le> w_reliability w \<and> 0 \<le> w_quality w \<and> 0 \<le> w_risk w \<and> 0 < weight_sum w)"

definition normalized :: "MetricWeights \<Rightarrow> MetricWeights" where
  "normalized w = (let s = weight_sum w in
     \<lparr>w_monetary = w_monetary w / s, w_latency = w_latency w / s, w_compute = w_compute w / s,
      w_subscription = w_subscription w / s, w_reliability = w_reliability w / s,
      w_quality = w_quality w / s, w_risk = w_risk w / s\<rparr>)"

record ReferenceScales =
  ref_monetary_usd :: rat
  ref_latency_ms :: rat
  ref_cpu_ms :: rat
  ref_memory_mb_seconds :: rat
  ref_peak_memory_mb :: rat
  ref_gpu_ms :: rat
  ref_network_bytes :: int
  ref_context_tokens :: int

definition references_ok :: "ReferenceScales \<Rightarrow> bool" where
  "references_ok r =
     (0 < ref_monetary_usd r \<and> 0 < ref_latency_ms r \<and> 0 < ref_cpu_ms r
      \<and> 0 < ref_memory_mb_seconds r \<and> 0 < ref_peak_memory_mb r \<and> 0 < ref_gpu_ms r
      \<and> 0 < ref_network_bytes r \<and> 0 < ref_context_tokens r)"

definition default_references :: ReferenceScales where
  "default_references =
     \<lparr>ref_monetary_usd = 1/20, ref_latency_ms = 2000, ref_cpu_ms = 1000,
      ref_memory_mb_seconds = 256, ref_peak_memory_mb = 512, ref_gpu_ms = 1000,
      ref_network_bytes = 1000000, ref_context_tokens = 8000\<rparr>"

record ShadowPrices =
  sp_cpu_ms_usd :: rat
  sp_memory_mb_second_usd :: rat
  sp_gpu_ms_usd :: rat
  sp_network_byte_usd :: rat
  sp_context_token_usd :: rat
  sp_input_token_usd :: rat
  sp_output_token_usd :: rat

definition prices_ok :: "ShadowPrices \<Rightarrow> bool" where
  "prices_ok p =
     (0 \<le> sp_cpu_ms_usd p \<and> 0 \<le> sp_memory_mb_second_usd p \<and> 0 \<le> sp_gpu_ms_usd p
      \<and> 0 \<le> sp_network_byte_usd p \<and> 0 \<le> sp_context_token_usd p \<and> 0 \<le> sp_input_token_usd p
      \<and> 0 \<le> sp_output_token_usd p)"

definition default_prices :: ShadowPrices where
  "default_prices =
     \<lparr>sp_cpu_ms_usd = 0, sp_memory_mb_second_usd = 0, sp_gpu_ms_usd = 0, sp_network_byte_usd = 0,
      sp_context_token_usd = 0, sp_input_token_usd = 0, sp_output_token_usd = 0\<rparr>"

record SubscriptionPolicyRule =
  pr_resource_pool :: string
  pr_unit :: string
  pr_pressure_weight :: rat
  pr_policy_value_usd :: "rat option"

record RoutingAbstentionConfig =
  ra_enabled :: bool
  ra_baseline_executor_id :: "string option"
  ra_minimum_score_gain :: rat
  ra_overhead_p95_ms :: rat

definition default_abstention :: RoutingAbstentionConfig where
  "default_abstention =
     \<lparr>ra_enabled = True, ra_baseline_executor_id = None, ra_minimum_score_gain = 1/100,
      ra_overhead_p95_ms = 2\<rparr>"

record PolicyConfig =
  pol_name :: string
  pol_weights :: MetricWeights
  pol_references :: ReferenceScales
  pol_shadow_prices :: ShadowPrices
  pol_constraints :: ActionConstraints
  pol_fallback_max_attempts :: nat
  pol_resource_scarcity_multiplier :: rat
  pol_subscription_scarcity_multiplier :: rat
  pol_subscription_rules :: "SubscriptionPolicyRule list"
  pol_routing_abstention :: RoutingAbstentionConfig
  pol_uncertainty_penalty :: rat
  pol_prefer_local_bonus :: rat

definition rule_ok :: "SubscriptionPolicyRule \<Rightarrow> bool" where
  "rule_ok r = (0 \<le> pr_pressure_weight r \<and> pr_pressure_weight r \<le> 100
     \<and> opt_all (\<lambda>q. 0 \<le> q) (pr_policy_value_usd r))"

definition policy_ok :: "PolicyConfig \<Rightarrow> bool" where
  "policy_ok p =
     (weights_ok (pol_weights p) \<and> references_ok (pol_references p) \<and> prices_ok (pol_shadow_prices p)
      \<and> 0 \<le> pol_resource_scarcity_multiplier p \<and> pol_resource_scarcity_multiplier p \<le> 100
      \<and> 0 \<le> pol_subscription_scarcity_multiplier p \<and> pol_subscription_scarcity_multiplier p \<le> 100
      \<and> list_all rule_ok (pol_subscription_rules p)
      \<and> distinct (List.map (\<lambda>r. (pr_resource_pool r, pr_unit r)) (pol_subscription_rules p))
      \<and> 0 \<le> pol_uncertainty_penalty p \<and> pol_uncertainty_penalty p \<le> 10
      \<and> 0 \<le> pol_prefer_local_bonus p \<and> pol_prefer_local_bonus p \<le> 1
      \<and> 0 \<le> ra_minimum_score_gain (pol_routing_abstention p)
      \<and> 0 \<le> ra_overhead_p95_ms (pol_routing_abstention p))"

text \<open>The fields of a \<open>PolicyConfig\<close> that its constructor leaves at their defaults.\<close>

definition policy_of :: "string \<Rightarrow> MetricWeights \<Rightarrow> PolicyConfig" where
  "policy_of name w =
     \<lparr>pol_name = name, pol_weights = w, pol_references = default_references,
      pol_shadow_prices = default_prices, pol_constraints = default_constraints,
      pol_fallback_max_attempts = 3, pol_resource_scarcity_multiplier = 2,
      pol_subscription_scarcity_multiplier = 1, pol_subscription_rules = [],
      pol_routing_abstention = default_abstention, pol_uncertainty_penalty = 1/10,
      pol_prefer_local_bonus = 1/20\<rparr>"

section \<open>Elementary facts\<close>

lemma default_policy_ok [simp]:
  "policy_ok (policy_of n w) \<longleftrightarrow> weights_ok w"
  by (simp add: policy_ok_def policy_of_def references_ok_def default_references_def prices_ok_def
      default_prices_def default_abstention_def)

lemma normalized_sum:
  assumes "weights_ok w"
  shows "weight_sum (normalized w) = 1"
proof -
  have "weight_sum w \<noteq> 0"
    using assms by (simp add: weights_ok_def)
  then show ?thesis
    by (simp add: normalized_def Let_def weight_sum_def flip: add_divide_distrib)
qed

lemma normalized_nonneg:
  assumes "weights_ok w"
  shows "0 \<le> w_monetary (normalized w)" "0 \<le> w_latency (normalized w)"
    "0 \<le> w_compute (normalized w)" "0 \<le> w_subscription (normalized w)"
    "0 \<le> w_reliability (normalized w)" "0 \<le> w_quality (normalized w)"
    "0 \<le> w_risk (normalized w)"
  using assms by (simp_all add: weights_ok_def normalized_def Let_def)

end
