(* ===== verification/Routing_Policy.thy ===== *)
theory Routing_Policy
  imports Routing_Models "HOL-Library.List_Lexorder" "HOL-Library.Char_ord"
begin

text \<open>
  \<open>aeep/policy.py\<close>: the built-in policies, their resolution by name, and the merge of a
  policy's hard constraints with those of a request.
\<close>

section \<open>Built-in policies\<close>

definition balanced_policy :: PolicyConfig where
  "balanced_policy = policy_of ''balanced''
     \<lparr>w_monetary = 1/4, w_latency = 1/5, w_compute = 1/5, w_subscription = 3/20,
      w_reliability = 1/10, w_quality = 1/20, w_risk = 1/20\<rparr>"

definition cheapest_policy :: PolicyConfig where
  "cheapest_policy = policy_of ''cheapest''
     \<lparr>w_monetary = 3/5, w_latency = 2/25, w_compute = 1/10, w_subscription = 1/10,
      w_reliability = 7/100, w_quality = 1/40, w_risk = 1/40\<rparr>"

definition fastest_policy :: PolicyConfig where
  "fastest_policy = policy_of ''fastest''
     \<lparr>w_monetary = 2/25, w_latency = 7/10, w_compute = 2/25, w_subscription = 2/25,
      w_reliability = 2/25, w_quality = 3/100, w_risk = 3/100\<rparr>"

definition resource_saver_policy :: PolicyConfig where
  "resource_saver_policy = (policy_of ''resource_saver''
     \<lparr>w_monetary = 1/10, w_latency = 1/10, w_compute = 9/20, w_subscription = 3/20,
      w_reliability = 1/10, w_quality = 1/20, w_risk = 1/20\<rparr>)
     \<lparr>pol_resource_scarcity_multiplier := 4\<rparr>"

definition reliable_policy :: PolicyConfig where
  "reliable_policy = (policy_of ''reliable''
     \<lparr>w_monetary = 1/10, w_latency = 1/10, w_compute = 1/10, w_subscription = 1/10,
      w_reliability = 2/5, w_quality = 1/5, w_risk = 1/10\<rparr>)
     \<lparr>pol_constraints := default_constraints
        \<lparr>min_success_probability := 9/10, min_quality_score := 4/5, max_risk_score := 3/10\<rparr>,
      pol_fallback_max_attempts := 3\<rparr>"

definition builtin_policies :: "(string \<times> PolicyConfig) list" where
  "builtin_policies =
     [(''balanced'', balanced_policy), (''cheapest'', cheapest_policy),
      (''fastest'', fastest_policy), (''resource_saver'', resource_saver_policy),
      (''reliable'', reliable_policy)]"

text \<open>A configured policy shadows the built-in one of its name.\<close>

definition resolve_policy ::
  "string \<Rightarrow> (string \<Rightarrow> PolicyConfig option) \<Rightarrow> PolicyConfig result" where
  "resolve_policy name configured =
     (case (map_of builtin_policies ++ configured) name of
        None \<Rightarrow> Err (ConfigurationError (''unknown policy ''))
      | Some p \<Rightarrow> Ok p)"

definition policy_from_weights :: "MetricWeights \<Rightarrow> ShadowPrices option \<Rightarrow> PolicyConfig" where
  "policy_from_weights w prices =
     (policy_of ''custom'' w)\<lparr>pol_shadow_prices := case_option default_prices id prices\<rparr>"

section \<open>Merging constraints\<close>

definition strictest_max :: "('a::linorder) option \<Rightarrow> 'a option \<Rightarrow> 'a option" where
  "strictest_max a b =
     (case a of None \<Rightarrow> b | Some x \<Rightarrow> (case b of None \<Rightarrow> a | Some y \<Rightarrow> Some (min x y)))"

definition strictest_min :: "rat \<Rightarrow> rat \<Rightarrow> rat" where
  "strictest_min a b = max a b"

definition intersection_opt :: "'a list option \<Rightarrow> 'a list option \<Rightarrow> 'a list option" where
  "intersection_opt a b =
     (case a of None \<Rightarrow> b
      | Some xs \<Rightarrow> (case b of None \<Rightarrow> a | Some ys \<Rightarrow> Some (List.filter (\<lambda>x. x \<in> set ys) xs)))"

definition merge_constraints ::
  "ActionConstraints \<Rightarrow> ActionConstraints \<Rightarrow> ActionConstraints" where
  "merge_constraints p r =
     \<lparr>max_cost_usd = strictest_max (max_cost_usd p) (max_cost_usd r),
      max_latency_ms = strictest_max (max_latency_ms p) (max_latency_ms r),
      max_cpu_ms = strictest_max (max_cpu_ms p) (max_cpu_ms r),
      max_memory_mb_seconds = strictest_max (max_memory_mb_seconds p) (max_memory_mb_seconds r),
      max_peak_memory_mb = strictest_max (max_peak_memory_mb p) (max_peak_memory_mb r),
      max_gpu_ms = strictest_max (max_gpu_ms p) (max_gpu_ms r),
      max_network_bytes = strictest_max (max_network_bytes p) (max_network_bytes r),
      max_context_tokens = strictest_max (max_context_tokens p) (max_context_tokens r),
      min_success_probability =
        strictest_min (min_success_probability p) (min_success_probability r),
      min_quality_score = strictest_min (min_quality_score p) (min_quality_score r),
      max_risk_score = min (max_risk_score p) (max_risk_score r),
      max_side_effect =
        (if side_effect_rank (max_side_effect p) \<le> side_effect_rank (max_side_effect r)
         then max_side_effect p else max_side_effect r),
      allow_network = (allow_network p \<and> allow_network r),
      require_local = (require_local p \<or> require_local r),
      allowed_executor_kinds =
        intersection_opt (allowed_executor_kinds p) (allowed_executor_kinds r),
      allowed_executor_ids = intersection_opt (allowed_executor_ids p) (allowed_executor_ids r),
      denied_executor_ids =
        sorted_list_of_set (set (denied_executor_ids p) \<union> set (denied_executor_ids r)),
      allowed_data_residency =
        intersection_opt (allowed_data_residency p) (allowed_data_residency r)\<rparr>"

definition policy_with_constraints :: "PolicyConfig \<Rightarrow> ActionConstraints \<Rightarrow> PolicyConfig" where
  "policy_with_constraints p r =
     p\<lparr>pol_constraints := merge_constraints (pol_constraints p) r\<rparr>"

text \<open>\<open>Router._policy_for\<close>: an empty policy name falls back to the manifest's default.\<close>

definition policy_for ::
  "string \<Rightarrow> (string \<Rightarrow> PolicyConfig option) \<Rightarrow> string \<Rightarrow> ActionConstraints \<Rightarrow> PolicyConfig result"
where
  "policy_for default_name configured name r =
     (case resolve_policy (if name = [] then default_name else name) configured of
        Inl e \<Rightarrow> Err e
      | Inr p \<Rightarrow> Ok (policy_with_constraints p r))"

section \<open>Bounds under a merge\<close>

definition under :: "('a::linorder) option \<Rightarrow> 'a \<Rightarrow> bool" where
  "under bound x = (case bound of None \<Rightarrow> True | Some m \<Rightarrow> x \<le> m)"

lemma under_strictest_max:
  "under (strictest_max a b) x \<longleftrightarrow> under a x \<and> under b x"
  by (auto simp: under_def strictest_max_def split: option.splits)

definition listed :: "'a list option \<Rightarrow> 'a \<Rightarrow> bool" where
  "listed allowed x = (case allowed of None \<Rightarrow> True | Some xs \<Rightarrow> x \<in> set xs)"

lemma listed_intersection:
  "listed (intersection_opt a b) x \<longleftrightarrow> listed a x \<and> listed b x"
  by (auto simp: listed_def intersection_opt_def split: option.splits)

lemma builtin_policies_ok: "(n, p) \<in> set builtin_policies \<Longrightarrow> policy_ok p"
  by (auto simp: builtin_policies_def balanced_policy_def cheapest_policy_def fastest_policy_def
      resource_saver_policy_def reliable_policy_def policy_ok_def policy_of_def weights_ok_def
      weight_sum_def references_ok_def default_references_def prices_ok_def default_prices_def
      default_abstention_def)

lemma policy_with_constraints_ok [simp]: "policy_ok (policy_with_constraints p r) = policy_ok p"
  by (simp add: policy_ok_def policy_with_constraints_def)

end
