(* ===== verification/Routing_Feasibility.thy ===== *)
theory Routing_Feasibility
  imports Routing_Policy
begin

text \<open>
  The hard constraints of routing: \<open>rejection_reasons\<close> of \<open>aeep/scoring.py\<close>, with one
  constructor of \<open>rejection\<close> per message the code formats, in the order the code appends
  them. \<open>to_float\<close> is the conversion \<open>float(...)\<close> of a \<open>Decimal\<close>, an argument of the
  definitions because its rounding plays no role in any of the lemmas.
\<close>

section \<open>Rejection reasons\<close>

datatype rejection =
    Estimate_exceeds string rat rat
  | Cash_bound_unavailable
  | Cost_exceeds rat rat
  | Success_below rat rat
  | Quality_below rat rat
  | Risk_exceeds rat rat
  | Side_effect_exceeds SideEffect SideEffect
  | Network_disabled
  | Local_required
  | Kind_not_allowed ExecutorKind
  | Id_not_allowed
  | Id_denied
  | Residency_unknown
  | Residency_outside
  | Restricted_data_remote
  | Quota_exhausted "string option"
  | Quota_insufficient "string option"
  | Quota_unit_mismatch "string option"
  | Context_budget_exceeded
  | Cash_bound_unavailable_under_budget
  | Monetary_budget_exceeded
  | Memory_unavailable
  | Gpu_unavailable
  | Route_rejected string

definition cash_amount :: "(rat \<Rightarrow> rat) \<Rightarrow> RouteEstimate \<Rightarrow> rat option" where
  "cash_amount to_float e = map_option to_float (cs_amount_usd (re_cash e))"

definition cash_upper_bound :: "(rat \<Rightarrow> rat) \<Rightarrow> RouteEstimate \<Rightarrow> rat option" where
  "cash_upper_bound to_float e = map_option to_float (cs_upper_bound_usd (re_cash e))"

definition subscription_units :: "(rat \<Rightarrow> rat) \<Rightarrow> ExecutorSpec \<Rightarrow> RouteEstimate \<Rightarrow> rat" where
  "subscription_units to_float spec e =
     (if truthy (ex_resource_pool spec)
      then (case List.filter (\<lambda>u. Some (su_resource_pool u) = ex_resource_pool spec
                                \<and> su_consumed u \<noteq> None) (re_subscription_usage e) of
              [u] \<Rightarrow> to_float (case su_consumed u of None \<Rightarrow> 0 | Some q \<Rightarrow> q)
            | _ \<Rightarrow> rv_subscription_units (re_resources e))
      else rv_subscription_units (re_resources e))"

definition all_tokens :: "ResourceVector \<Rightarrow> int" where
  "all_tokens r = rv_context_tokens r + rv_input_tokens r + rv_output_tokens r"

text \<open>One entry of the table \<open>checks\<close>: the maximum, the estimate, the label.\<close>

definition limit_check :: "rat option \<Rightarrow> rat \<Rightarrow> string \<Rightarrow> rejection list" where
  "limit_check bound actual lbl =
     (case bound of None \<Rightarrow> [] | Some m \<Rightarrow> if m < actual then [Estimate_exceeds lbl actual m] else [])"

definition resource_rejections :: "ActionConstraints \<Rightarrow> ResourceVector \<Rightarrow> rejection list" where
  "resource_rejections c r =
     limit_check (max_latency_ms c) (rv_latency_ms r) ''latency''
     @ limit_check (max_cpu_ms c) (rv_cpu_ms r) ''CPU''
     @ limit_check (max_memory_mb_seconds c) (rv_memory_mb_seconds r) ''memory-time''
     @ limit_check (max_peak_memory_mb c) (rv_peak_memory_mb r) ''peak memory''
     @ limit_check (max_gpu_ms c) (rv_gpu_ms r) ''GPU''
     @ limit_check (map_option of_int (max_network_bytes c)) (of_int (rv_network_bytes r)) ''network''
     @ limit_check (map_option of_int (max_context_tokens c)) (of_int (all_tokens r))
         ''total model/context tokens''"

definition cash_rejections ::
  "(rat \<Rightarrow> rat) \<Rightarrow> ActionConstraints \<Rightarrow> RouteEstimate \<Rightarrow> rejection list" where
  "cash_rejections to_float c e =
     (case max_cost_usd c of
        None \<Rightarrow> []
      | Some m \<Rightarrow> (case cash_upper_bound to_float e of
                    None \<Rightarrow> [Cash_bound_unavailable]
                  | Some u \<Rightarrow> if m < u then [Cost_exceeds u m] else []))"

definition quality_rejections :: "ActionConstraints \<Rightarrow> RouteEstimate \<Rightarrow> rejection list" where
  "quality_rejections c e =
     (if re_success_probability e < min_success_probability c
      then [Success_below (re_success_probability e) (min_success_probability c)] else [])
     @ (if re_quality_score e < min_quality_score c
        then [Quality_below (re_quality_score e) (min_quality_score c)] else [])
     @ (if max_risk_score c < re_risk_score e
        then [Risk_exceeds (re_risk_score e) (max_risk_score c)] else [])"

definition is_local :: "Locality \<Rightarrow> bool" where
  "is_local l = (l = Loc_IN_PROCESS \<or> l = Loc_LOCAL)"

definition is_remote :: "Locality \<Rightarrow> bool" where
  "is_remote l = (l = Loc_LAN \<or> l = Loc_INTERNET)"

definition access_rejections :: "ActionConstraints \<Rightarrow> ExecutorSpec \<Rightarrow> rejection list" where
  "access_rejections c spec =
     (if side_effect_rank (max_side_effect c) < side_effect_rank (ex_side_effect spec)
      then [Side_effect_exceeds (ex_side_effect spec) (max_side_effect c)] else [])
     @ (if \<not> allow_network c \<and> ex_requires_network spec then [Network_disabled] else [])
     @ (if require_local c \<and> \<not> is_local (ex_locality spec) then [Local_required] else [])
     @ (case allowed_executor_kinds c of
          None \<Rightarrow> []
        | Some ks \<Rightarrow> if ex_kind spec \<notin> set ks then [Kind_not_allowed (ex_kind spec)] else [])
     @ (case allowed_executor_ids c of
          None \<Rightarrow> []
        | Some ids \<Rightarrow> if ex_id spec \<notin> set ids then [Id_not_allowed] else [])
     @ (if ex_id spec \<in> set (denied_executor_ids c) then [Id_denied] else [])"

definition residency_rejections :: "ActionConstraints \<Rightarrow> ExecutorSpec \<Rightarrow> rejection list" where
  "residency_rejections c spec =
     (case allowed_data_residency c of
        None \<Rightarrow> []
      | Some regions \<Rightarrow>
          if is_remote (ex_locality spec) then
            if ex_data_residency spec = [] then [Residency_unknown]
            else if set (ex_data_residency spec) \<inter> set regions = {} then [Residency_outside]
            else []
          else [])"

definition sensitivity_rejections :: "ActionContext \<Rightarrow> ExecutorSpec \<Rightarrow> rejection list" where
  "sensitivity_rejections cx spec =
     (if cx_data_sensitivity cx = Data_RESTRICTED \<and> is_remote (ex_locality spec)
         \<and> \<not> ex_accepts_restricted spec
      then [Restricted_data_remote] else [])"

definition quota_rejections ::
  "(rat \<Rightarrow> rat) \<Rightarrow> ExecutorSpec \<Rightarrow> RouteEstimate \<Rightarrow> SubscriptionQuota option \<Rightarrow> rejection list" where
  "quota_rejections to_float spec e quota =
     (case quota of
        None \<Rightarrow> []
      | Some q \<Rightarrow>
          (if quota_pressure (sq_state q) = None then [Quota_exhausted (ex_resource_pool spec)] else [])
          @ (case sq_remaining_units q of
               None \<Rightarrow> []
             | Some rem \<Rightarrow> if to_float rem < subscription_units to_float spec e
                           then [Quota_insufficient (ex_resource_pool spec)] else [])
          @ (if list_ex (\<lambda>u. Some (su_resource_pool u) = ex_resource_pool spec
                           \<and> su_unit u \<noteq> sq_unit q) (re_subscription_usage e)
             then [Quota_unit_mismatch (ex_resource_pool spec)] else []))"

definition availability_rejections ::
  "(rat \<Rightarrow> rat) \<Rightarrow> ComputeAvailability \<Rightarrow> RouteEstimate \<Rightarrow> rejection list" where
  "availability_rejections to_float av e =
     (case av_context_tokens av of
        None \<Rightarrow> []
      | Some n \<Rightarrow> if n < all_tokens (re_resources e) then [Context_budget_exceeded] else [])
     @ (case av_monetary_budget_usd av of
          None \<Rightarrow> []
        | Some b \<Rightarrow> (case cash_upper_bound to_float e of
                      None \<Rightarrow> [Cash_bound_unavailable_under_budget]
                    | Some u \<Rightarrow> if b < u then [Monetary_budget_exceeded] else []))
     @ (case av_memory_mb av of
          None \<Rightarrow> []
        | Some m \<Rightarrow> if m < rv_peak_memory_mb (re_resources e) then [Memory_unavailable] else [])
     @ (case av_gpu_ms av of
          None \<Rightarrow> []
        | Some g \<Rightarrow> if g < rv_gpu_ms (re_resources e) then [Gpu_unavailable] else [])"

definition rejection_reasons ::
  "(rat \<Rightarrow> rat) \<Rightarrow> ExecutorSpec \<Rightarrow> RouteEstimate \<Rightarrow> PolicyConfig \<Rightarrow> ActionContext
   \<Rightarrow> SubscriptionQuota option \<Rightarrow> rejection list" where
  "rejection_reasons to_float spec e policy cx quota =
     resource_rejections (pol_constraints policy) (re_resources e)
     @ cash_rejections to_float (pol_constraints policy) e
     @ quality_rejections (pol_constraints policy) e
     @ access_rejections (pol_constraints policy) spec
     @ residency_rejections (pol_constraints policy) spec
     @ sensitivity_rejections cx spec
     @ quota_rejections to_float spec e quota
     @ availability_rejections to_float (cx_compute cx) e"

section \<open>When a group of checks is silent\<close>

named_theorems silent \<open>a group of checks appends nothing exactly when its conditions hold\<close>

lemma limit_check_silent [silent]: "limit_check bound a lbl = [] \<longleftrightarrow> under bound a"
  by (auto simp: limit_check_def under_def not_less split: option.splits)

lemma under_of_int [silent]: "under (map_option of_int b) (of_int n :: rat) \<longleftrightarrow> under b n"
  by (cases b) (simp_all add: under_def)

lemma resource_rejections_silent [silent]:
  "resource_rejections c r = [] \<longleftrightarrow>
     under (max_latency_ms c) (rv_latency_ms r) \<and> under (max_cpu_ms c) (rv_cpu_ms r)
     \<and> under (max_memory_mb_seconds c) (rv_memory_mb_seconds r)
     \<and> under (max_peak_memory_mb c) (rv_peak_memory_mb r) \<and> under (max_gpu_ms c) (rv_gpu_ms r)
     \<and> under (max_network_bytes c) (rv_network_bytes r)
     \<and> under (max_context_tokens c) (all_tokens r)"
  by (simp add: resource_rejections_def silent)

text \<open>A bound on a known quantity; an unknown quantity satisfies no finite bound.\<close>

definition known_under :: "('a::linorder) option \<Rightarrow> 'a option \<Rightarrow> bool" where
  "known_under bound x = (case bound of None \<Rightarrow> True | Some m \<Rightarrow> (case x of None \<Rightarrow> False | Some u \<Rightarrow> u \<le> m))"

lemma known_under_strictest_max:
  "known_under (strictest_max a b) x \<longleftrightarrow> known_under a x \<and> known_under b x"
  by (auto simp: known_under_def strictest_max_def split: option.splits)

lemma cash_rejections_silent [silent]:
  "cash_rejections to_float c e = [] \<longleftrightarrow> known_under (max_cost_usd c) (cash_upper_bound to_float e)"
  by (auto simp: cash_rejections_def known_under_def not_less split: option.splits)

lemma quality_rejections_silent [silent]:
  "quality_rejections c e = [] \<longleftrightarrow>
     min_success_probability c \<le> re_success_probability e
     \<and> min_quality_score c \<le> re_quality_score e \<and> re_risk_score e \<le> max_risk_score c"
  by (auto simp: quality_rejections_def)

lemma access_rejections_silent [silent]:
  "access_rejections c spec = [] \<longleftrightarrow>
     ex_side_effect spec \<le> max_side_effect c
     \<and> (ex_requires_network spec \<longrightarrow> allow_network c)
     \<and> (require_local c \<longrightarrow> is_local (ex_locality spec))
     \<and> listed (allowed_executor_kinds c) (ex_kind spec)
     \<and> listed (allowed_executor_ids c) (ex_id spec)
     \<and> ex_id spec \<notin> set (denied_executor_ids c)"
  by (auto simp: access_rejections_def less_eq_SideEffect_def listed_def not_less split: option.splits)

lemma residency_rejections_silent [silent]:
  "residency_rejections c spec = [] \<longleftrightarrow>
     (is_remote (ex_locality spec) \<longrightarrow>
        (case allowed_data_residency c of None \<Rightarrow> True
         | Some regions \<Rightarrow> set (ex_data_residency spec) \<inter> set regions \<noteq> {}))"
  by (auto simp: residency_rejections_def split: option.splits)

section \<open>A merge only adds rejections\<close>

lemma resource_rejections_merge:
  "resource_rejections (merge_constraints p r) v = []
   \<longleftrightarrow> resource_rejections p v = [] \<and> resource_rejections r v = []"
  by (auto simp: silent merge_constraints_def under_strictest_max)

lemma cash_rejections_merge:
  "cash_rejections to_float (merge_constraints p r) e = []
   \<longleftrightarrow> cash_rejections to_float p e = [] \<and> cash_rejections to_float r e = []"
  by (simp add: silent merge_constraints_def known_under_strictest_max)

lemma quality_rejections_merge:
  "quality_rejections (merge_constraints p r) e = []
   \<longleftrightarrow> quality_rejections p e = [] \<and> quality_rejections r e = []"
  by (auto simp: silent merge_constraints_def strictest_min_def)

lemma merged_side_effect: "max_side_effect (merge_constraints p r) = min (max_side_effect p) (max_side_effect r)"
  by (simp add: merge_constraints_def min_def less_eq_SideEffect_def)

lemma access_rejections_merge:
  "access_rejections (merge_constraints p r) spec = []
   \<longleftrightarrow> access_rejections p spec = [] \<and> access_rejections r spec = []"
  unfolding silent merged_side_effect
  by (auto simp: merge_constraints_def listed_intersection)

text \<open>
  Only the residency check is not exact: a region of the executor allowed by the policy and
  another one allowed by the request satisfy both, but not their intersection.
\<close>

lemma residency_rejections_merge:
  "residency_rejections (merge_constraints p r) spec = []
   \<Longrightarrow> residency_rejections p spec = [] \<and> residency_rejections r spec = []"
  unfolding silent
  by (auto simp: merge_constraints_def intersection_opt_def split: option.splits)

lemma residency_rejections_merge_one:
  "allowed_data_residency r = None
   \<Longrightarrow> residency_rejections (merge_constraints p r) spec = residency_rejections p spec"
  by (auto simp: residency_rejections_def merge_constraints_def intersection_opt_def split: option.splits)

lemma rejection_reasons_constraints:
  "rejection_reasons to_float spec e policy cx quota = [] \<longleftrightarrow>
     (let c = pol_constraints policy in
      resource_rejections c (re_resources e) = [] \<and> cash_rejections to_float c e = []
      \<and> quality_rejections c e = [] \<and> access_rejections c spec = []
      \<and> residency_rejections c spec = [])
     \<and> sensitivity_rejections cx spec = [] \<and> quota_rejections to_float spec e quota = []
     \<and> availability_rejections to_float (cx_compute cx) e = []"
  by (auto simp: rejection_reasons_def Let_def)

lemma merged_rejections:
  assumes "rejection_reasons to_float spec e (policy_with_constraints policy r) cx quota = []"
  shows "rejection_reasons to_float spec e policy cx quota = []
    \<and> rejection_reasons to_float spec e (policy\<lparr>pol_constraints := r\<rparr>) cx quota = []"
  using assms residency_rejections_merge [of "pol_constraints policy" r spec]
  unfolding rejection_reasons_constraints
  by (simp add: policy_with_constraints_def resource_rejections_merge cash_rejections_merge
      quality_rejections_merge access_rejections_merge Let_def)

section \<open>Sample\<close>

definition sample_resources :: ResourceVector where
  "sample_resources =
     \<lparr>rv_monetary_usd = 0, rv_latency_ms = 400, rv_cpu_ms = 100, rv_memory_mb_seconds = 16, rv_peak_memory_mb = 64,
      rv_gpu_ms = 0, rv_network_bytes = 2000, rv_context_tokens = 0, rv_input_tokens = 500,
      rv_cached_input_tokens = 0, rv_cache_write_input_tokens = 0, rv_output_tokens = 100,
      rv_reasoning_output_tokens = 0, rv_subscription_units = 0\<rparr>"

definition sample_estimate :: RouteEstimate where
  "sample_estimate =
     \<lparr>re_resources = sample_resources,
      re_cash = \<lparr>cs_amount_usd = Some (1/100), cs_upper_bound_usd = Some (1/50),
        cs_evidence = unavailable_evidence\<lparr>me_status := Stat_COMPLETE, me_source := Src_STATIC_ESTIMATE\<rparr>\<rparr>,
      re_subscription_usage = [], re_success_probability = 19/20, re_quality_score = 9/10,
      re_risk_score = 1/10, re_confidence = 1/2\<rparr>"

definition sample_spec :: ExecutorSpec where
  "sample_spec =
     \<lparr>ex_id = ''summarize.http'', ex_kind = Kind_HTTP, ex_side_effect = SE_READ,
      ex_locality = Loc_INTERNET, ex_requires_network = True, ex_data_residency = [''eu'', ''us''],
      ex_resource_pool = None, ex_accepts_restricted = False\<rparr>"

definition sample_context :: ActionContext where
  "sample_context =
     \<lparr>cx_data_sensitivity = Data_INTERNAL, cx_state_locality = None,
      cx_compute = \<lparr>av_memory_mb = Some 1024, av_cpu_fraction = None, av_gpu_ms = None,
        av_context_tokens = Some 4000, av_monetary_budget_usd = Some 1, av_network_metered = False\<rparr>\<rparr>"

definition sample_constraints :: ActionConstraints where
  "sample_constraints = default_constraints
     \<lparr>max_cost_usd := Some (1/20), max_latency_ms := Some 1000, max_side_effect := SE_WRITE,
      allowed_data_residency := Some [''eu'']\<rparr>"

lemmas routing_sample_defs =
  sample_resources_def sample_estimate_def sample_spec_def sample_context_def
  sample_constraints_def default_constraints_def unavailable_evidence_def

lemma sample_not_rejected:
  "rejection_reasons id sample_spec sample_estimate
     (policy_with_constraints balanced_policy sample_constraints) sample_context None = []"
  unfolding rejection_reasons_constraints silent
  by (simp add: routing_sample_defs policy_with_constraints_def balanced_policy_def policy_of_def
      merge_constraints_def strictest_max_def strictest_min_def intersection_opt_def under_def
      known_under_def listed_def sensitivity_rejections_def quota_rejections_def
      availability_rejections_def cash_upper_bound_def all_tokens_def is_remote_def
      less_eq_SideEffect_def)

end
