(* ===== verification/Routing_Score.thy ===== *)
theory Routing_Score
  imports Routing_Feasibility
begin

text \<open>
  The score of a candidate (\<open>aeep/scoring.py\<close>): burdens of cash, latency, compute and
  subscription capacity relative to the policy's reference scales, weighted and added; a
  lower total is better. Floating-point arithmetic is exact here. The two functions of the
  \<open>math\<close> module, \<open>log1p\<close> and \<open>log\<close>, are arguments; \<open>log_laws\<close> is what the lemmas use of
  them. A value of \<open>None\<close> for a pressure or a burden is one that is not finite, which the
  model \<open>ScoreBreakdown\<close> refuses.
\<close>

section \<open>Subscription burden\<close>

definition over :: "(rat \<Rightarrow> rat) \<Rightarrow> rat \<Rightarrow> rat \<Rightarrow> rat" where
  "over log1p v ref = log1p (max 0 v / ref)"

definition policy_valuation_amount :: "RouteEstimate \<Rightarrow> PolicyConfig \<Rightarrow> rat" where
  "policy_valuation_amount e policy =
     (let r = re_resources e; p = pol_shadow_prices policy in
      rv_cpu_ms r * sp_cpu_ms_usd p
      + rv_memory_mb_seconds r * sp_memory_mb_second_usd p
      + rv_gpu_ms r * sp_gpu_ms_usd p
      + of_int (rv_network_bytes r) * sp_network_byte_usd p
      + of_int (rv_context_tokens r) * sp_context_token_usd p
      + of_int (rv_input_tokens r) * sp_input_token_usd p
      + of_int (rv_output_tokens r) * sp_output_token_usd p)"

text \<open>Division of the units by a known capacity; a capacity of zero makes it infinite.\<close>

definition capacity_pressure :: "rat \<Rightarrow> rat \<Rightarrow> rat option" where
  "capacity_pressure units capacity = (if capacity = 0 then None else Some (units / capacity))"

definition quota_burden_pressure :: "(rat \<Rightarrow> rat) \<Rightarrow> rat \<Rightarrow> SubscriptionQuota \<Rightarrow> rat option" where
  "quota_burden_pressure to_float units q =
     (case sq_remaining_units q of
        Some rem \<Rightarrow> capacity_pressure units (to_float rem)
      | None \<Rightarrow>
        (case sq_allowance_units q of
           Some allowance \<Rightarrow> capacity_pressure units (to_float allowance)
         | None \<Rightarrow>
           (case sq_used_percent q of
              Some percent \<Rightarrow>
                (let used = to_float percent / 100 in
                 Some (units * max (1/20) used / max (1/100) (1 - used)))
            | None \<Rightarrow> map_option (\<lambda>p. units * p) (quota_pressure (sq_state q)))))"

definition matching_rule :: "string \<Rightarrow> string \<Rightarrow> PolicyConfig \<Rightarrow> SubscriptionPolicyRule option" where
  "matching_rule pool unit policy =
     List.find (\<lambda>r. pr_resource_pool r = pool \<and> pr_unit r = unit) (pol_subscription_rules policy)"

definition reset_factor_of :: "SubscriptionQuota \<Rightarrow> rat" where
  "reset_factor_of q =
     (case sq_reset_at q of
        None \<Rightarrow> 1
      | Some reset \<Rightarrow>
          (case (sq_observed_at q, sq_window_duration_seconds q) of
             (Some observed, Some window) \<Rightarrow>
               (let seconds = max 0 (of_int (instant reset - instant observed) / 1000000) in
                1 + min 1 (seconds / of_int window))
           | _ \<Rightarrow> 3/2))"

definition missing_signal :: "SubscriptionQuota \<Rightarrow> bool" where
  "missing_signal q =
     (sq_state q = Quota_UNKNOWN \<and> sq_remaining_units q = None \<and> sq_used_percent q = None)"

record burden =
  bu_burden :: "rat option"
  bu_value :: rat
  bu_pressure :: "rat option"
  bu_reset_factor :: rat
  bu_uncertainty :: rat

definition default_quota :: "string \<Rightarrow> SubscriptionQuota" where
  "default_quota unit =
     \<lparr>sq_state = Quota_UNKNOWN, sq_reset_at = None, sq_observed_at = None, sq_confidence = 1/2,
      sq_source = Src_USER, sq_unit = unit, sq_allowance_units = None, sq_remaining_units = None,
      sq_used_percent = None, sq_window_duration_seconds = None, sq_window_count = 1,
      sq_evidence_digest = None\<rparr>"

definition subscription_burden_components ::
  "(rat \<Rightarrow> rat) \<Rightarrow> (rat \<Rightarrow> rat) \<Rightarrow> string \<Rightarrow> string \<Rightarrow> rat \<Rightarrow> PolicyConfig
   \<Rightarrow> SubscriptionQuota option \<Rightarrow> rat \<Rightarrow> burden" where
  "subscription_burden_components to_float log1p pool unit units policy quota p_success =
     (let current = (case quota of None \<Rightarrow> default_quota unit | Some q \<Rightarrow> q);
          pressure = quota_burden_pressure to_float units current;
          rule = matching_rule pool unit policy;
          pool_weight = (case rule of None \<Rightarrow> 1 | Some r \<Rightarrow> pr_pressure_weight r);
          reset = reset_factor_of current;
          uncertainty = 1 - sq_confidence current + (if missing_signal current then 1/2 else 0)
      in
      \<lparr>bu_burden = map_option (\<lambda>p.
          log1p (p * pol_subscription_scarcity_multiplier policy * pool_weight * reset + uncertainty)
          / max p_success (1/1000)) pressure,
       bu_value =
         (case rule of
            None \<Rightarrow> 0
          | Some r \<Rightarrow> (case pr_policy_value_usd r of None \<Rightarrow> 0 | Some v \<Rightarrow> units * to_float v)),
       bu_pressure = pressure, bu_reset_factor = reset, bu_uncertainty = uncertainty\<rparr>)"

definition subscription_score_components ::
  "(rat \<Rightarrow> rat) \<Rightarrow> (rat \<Rightarrow> rat) \<Rightarrow> string \<Rightarrow> string \<Rightarrow> rat \<Rightarrow> PolicyConfig
   \<Rightarrow> SubscriptionQuota option \<Rightarrow> rat \<Rightarrow> rat option \<times> rat" where
  "subscription_score_components to_float log1p pool unit units policy quota p_success =
     (let b = subscription_burden_components to_float log1p pool unit units policy quota p_success
      in (bu_burden b, bu_value b))"

section \<open>Compute burden\<close>

definition compute_components :: "RouteEstimate \<Rightarrow> PolicyConfig \<Rightarrow> rat list" where
  "compute_components e policy =
     (let r = re_resources e; refs = pol_references policy in
      [rv_cpu_ms r / ref_cpu_ms refs, rv_memory_mb_seconds r / ref_memory_mb_seconds refs,
       rv_peak_memory_mb r / ref_peak_memory_mb refs, rv_gpu_ms r / ref_gpu_ms refs,
       of_int (rv_network_bytes r) / of_int (ref_network_bytes refs),
       of_int (all_tokens r) / of_int (ref_context_tokens refs)])"

definition maximum_of :: "rat list \<Rightarrow> rat" where
  "maximum_of xs = foldr max (tl xs) (hd xs)"

definition base_burden :: "rat list \<Rightarrow> rat" where
  "base_burden xs =
     (if list_all (\<lambda>x. x = 0) xs then 0
      else 6/10 * maximum_of xs + 4/10 * (sum_list xs / of_nat (length xs)))"

text \<open>One \<open>scarcity = max(scarcity, need / available)\<close> under its condition.\<close>

definition raise_scarcity :: "bool \<Rightarrow> rat \<Rightarrow> rat \<Rightarrow> rat" where
  "raise_scarcity known pressure scarcity = (if known then max scarcity pressure else scarcity)"

definition scarcity_of :: "RouteEstimate \<Rightarrow> PolicyConfig \<Rightarrow> ComputeAvailability \<Rightarrow> rat" where
  "scarcity_of e policy av =
     (let r = re_resources e; refs = pol_references policy;
          tokens = case_option 0 id (av_context_tokens av);
          memory = case_option 0 id (av_memory_mb av);
          gpu = case_option 0 id (av_gpu_ms av);
          cpu = case_option 0 id (av_cpu_fraction av);
          s1 = raise_scarcity (tokens \<noteq> 0) (of_int (all_tokens r) / of_int tokens) 0;
          s2 = raise_scarcity (memory \<noteq> 0) (rv_peak_memory_mb r / memory) s1;
          s3 = raise_scarcity (0 < gpu) (rv_gpu_ms r / gpu) s2;
          s4 = raise_scarcity (cpu \<noteq> 0) (rv_cpu_ms r / ref_cpu_ms refs / cpu) s3
      in raise_scarcity (av_network_metered av \<and> rv_network_bytes r \<noteq> 0)
           (of_int (rv_network_bytes r) / of_int (ref_network_bytes refs)) s4)"

definition compute_burden ::
  "(rat \<Rightarrow> rat) \<Rightarrow> RouteEstimate \<Rightarrow> PolicyConfig \<Rightarrow> ActionContext \<Rightarrow> rat" where
  "compute_burden log1p e policy cx =
     log1p (base_burden (compute_components e policy)
            + pol_resource_scarcity_multiplier policy * scarcity_of e policy (cx_compute cx))"

section \<open>The score\<close>

record ScoreBreakdown =
  sb_cash :: rat
  sb_policy_valuation :: rat
  sb_latency :: rat
  sb_compute :: rat
  sb_subscription :: rat
  sb_subscription_pressure :: rat
  sb_subscription_reset_factor :: rat
  sb_subscription_evidence_uncertainty :: rat
  sb_subscription_policy_value_usd :: rat
  sb_reliability :: rat
  sb_quality :: rat
  sb_risk :: rat
  sb_uncertainty :: rat
  sb_cash_uncertainty :: rat
  sb_locality_adjustment :: rat
  sb_monetary :: rat
  sb_total :: rat

record CandidateScore =
  cd_executor_id :: string
  cd_feasible :: bool
  cd_rejection_reasons :: "rejection list"
  cd_estimate :: RouteEstimate
  cd_resource_pool :: "string option"
  cd_score :: "ScoreBreakdown option"
  cd_rank :: "nat option"

definition locality_adjustment :: "ExecutorSpec \<Rightarrow> PolicyConfig \<Rightarrow> ActionContext \<Rightarrow> rat" where
  "locality_adjustment spec policy cx =
     (if is_local (ex_locality spec) then - pol_prefer_local_bonus policy else 0)
     + (if cx_state_locality cx = Some (ex_locality spec) then - pol_prefer_local_bonus policy else 0)"

definition expected_cash :: "(rat \<Rightarrow> rat) \<Rightarrow> RouteEstimate \<Rightarrow> rat option" where
  "expected_cash to_float e =
     (case cash_amount to_float e of None \<Rightarrow> cash_upper_bound to_float e | Some a \<Rightarrow> Some a)"

text \<open>
  The subscription terms of a candidate: neutral without a quota or without units.
\<close>

definition no_burden :: burden where
  "no_burden = \<lparr>bu_burden = Some 0, bu_value = 0, bu_pressure = Some 0, bu_reset_factor = 1,
     bu_uncertainty = 0\<rparr>"

definition subscription_terms ::
  "(rat \<Rightarrow> rat) \<Rightarrow> (rat \<Rightarrow> rat) \<Rightarrow> ExecutorSpec \<Rightarrow> RouteEstimate \<Rightarrow> PolicyConfig
   \<Rightarrow> SubscriptionQuota option \<Rightarrow> burden" where
  "subscription_terms to_float log1p spec e policy quota =
     (case quota of
        None \<Rightarrow> no_burden
      | Some q \<Rightarrow>
          if subscription_units to_float spec e = 0 then no_burden
          else subscription_burden_components to_float log1p
                 (case_option [] id (ex_resource_pool spec)) (sq_unit q)
                 (subscription_units to_float spec e) policy quota (re_success_probability e))"

definition score_breakdown ::
  "(rat \<Rightarrow> rat) \<Rightarrow> (rat \<Rightarrow> rat) \<Rightarrow> (rat \<Rightarrow> rat) \<Rightarrow> ExecutorSpec \<Rightarrow> RouteEstimate \<Rightarrow> PolicyConfig
   \<Rightarrow> ActionContext \<Rightarrow> burden \<Rightarrow> ScoreBreakdown" where
  "score_breakdown to_float log1p nat_log spec e policy cx b =
     (let p_success = max (re_success_probability e) (1/1000);
          multiplier = 1 / p_success;
          w = normalized (pol_weights policy);
          refs = pol_references policy;
          cash_known = expected_cash to_float e;
          cash = over log1p (case_option 0 id cash_known * multiplier) (ref_monetary_usd refs);
          latency = over log1p (rv_latency_ms (re_resources e) * multiplier) (ref_latency_ms refs);
          compute = compute_burden log1p e policy cx * multiplier;
          policy_value = over log1p
            ((policy_valuation_amount e policy + bu_value b) * multiplier) (ref_monetary_usd refs);
          subscription = case_option 0 id (bu_burden b);
          reliability = - nat_log p_success;
          quality = 1 - re_quality_score e;
          uncertainty = (1 - re_confidence e) * pol_uncertainty_penalty policy;
          cash_uncertainty = (if cash_known = None then pol_uncertainty_penalty policy else 0);
          adjustment = locality_adjustment spec policy cx
      in
      \<lparr>sb_cash = w_monetary w * cash, sb_policy_valuation = w_monetary w * policy_value,
       sb_latency = w_latency w * latency, sb_compute = w_compute w * compute,
       sb_subscription = w_subscription w * subscription,
       sb_subscription_pressure = case_option 0 id (bu_pressure b),
       sb_subscription_reset_factor = bu_reset_factor b,
       sb_subscription_evidence_uncertainty = bu_uncertainty b,
       sb_subscription_policy_value_usd = bu_value b,
       sb_reliability = w_reliability w * reliability, sb_quality = w_quality w * quality,
       sb_risk = w_risk w * re_risk_score e, sb_uncertainty = uncertainty,
       sb_cash_uncertainty = cash_uncertainty, sb_locality_adjustment = adjustment,
       sb_monetary = w_monetary w * (cash + policy_value),
       sb_total = w_monetary w * (cash + policy_value) + w_latency w * latency
         + w_compute w * compute + w_subscription w * subscription
         + w_reliability w * reliability + w_quality w * quality
         + w_risk w * re_risk_score e + uncertainty + cash_uncertainty + adjustment\<rparr>)"

definition score_candidate ::
  "(rat \<Rightarrow> rat) \<Rightarrow> (rat \<Rightarrow> rat) \<Rightarrow> (rat \<Rightarrow> rat) \<Rightarrow> ExecutorSpec \<Rightarrow> RouteEstimate \<Rightarrow> PolicyConfig
   \<Rightarrow> ActionContext \<Rightarrow> SubscriptionQuota option \<Rightarrow> CandidateScore result" where
  "score_candidate to_float log1p nat_log spec e policy cx quota =
     (let reasons = rejection_reasons to_float spec e policy cx quota in
      if reasons \<noteq> []
      then Ok \<lparr>cd_executor_id = ex_id spec, cd_feasible = False, cd_rejection_reasons = reasons,
               cd_estimate = e, cd_resource_pool = ex_resource_pool spec, cd_score = None,
               cd_rank = None\<rparr>
      else
        (let b = subscription_terms to_float log1p spec e policy quota in
         if bu_burden b = None then Err (ValueError ''score is not finite'')
         else Ok \<lparr>cd_executor_id = ex_id spec, cd_feasible = True, cd_rejection_reasons = [],
                  cd_estimate = e, cd_resource_pool = ex_resource_pool spec,
                  cd_score = Some (score_breakdown to_float log1p nat_log spec e policy cx b),
                  cd_rank = None\<rparr>))"

section \<open>Plans with several resource pools\<close>

text \<open>
  \<open>add_subscription_vector\<close>: the known usages of a plan are charged one by one; the
  breakdown keeps the largest pressure, reset factor and uncertainty, and the plan pays its
  largest burden and the sum of the private values.
\<close>

definition usage_burden ::
  "(rat \<Rightarrow> rat) \<Rightarrow> (rat \<Rightarrow> rat) \<Rightarrow> PolicyConfig \<Rightarrow> (string \<times> string \<Rightarrow> SubscriptionQuota option)
   \<Rightarrow> rat \<Rightarrow> SubscriptionUsage \<Rightarrow> burden" where
  "usage_burden to_float log1p policy quotas p_success u =
     subscription_burden_components to_float log1p (su_resource_pool u) (su_unit u)
       (to_float (case_option 0 id (su_consumed u))) policy
       (quotas (su_resource_pool u, su_unit u)) p_success"

fun charge_usages :: "burden list \<Rightarrow> ScoreBreakdown \<Rightarrow> ScoreBreakdown result" where
  "charge_usages [] s = Ok s"
| "charge_usages (b # bs) s =
     (case bu_pressure b of
        None \<Rightarrow> Err (ValueError ''subscription pressure is not finite'')
      | Some p \<Rightarrow> charge_usages bs
          (s\<lparr>sb_subscription_pressure := max (sb_subscription_pressure s) p,
             sb_subscription_reset_factor := max (sb_subscription_reset_factor s) (bu_reset_factor b),
             sb_subscription_evidence_uncertainty :=
               max (sb_subscription_evidence_uncertainty s) (bu_uncertainty b)\<rparr>))"

definition add_subscription_vector ::
  "(rat \<Rightarrow> rat) \<Rightarrow> (rat \<Rightarrow> rat) \<Rightarrow> ScoreBreakdown \<Rightarrow> RouteEstimate \<Rightarrow> PolicyConfig
   \<Rightarrow> SubscriptionUsage list \<Rightarrow> (string \<times> string \<Rightarrow> SubscriptionQuota option)
   \<Rightarrow> ScoreBreakdown result" where
  "add_subscription_vector to_float log1p breakdown e policy usage quotas =
     (let known = List.filter (\<lambda>u. su_consumed u \<noteq> None) usage in
      if known = [] then Ok breakdown
      else
        (let bs = List.map (usage_burden to_float log1p policy quotas (re_success_probability e)) known;
             private_value = sum_list (List.map bu_value bs);
             w = normalized (pol_weights policy);
             subscription = w_subscription w * maximum_of (List.map (case_option 0 id \<circ> bu_burden) bs);
             base_value = policy_valuation_amount e policy;
             multiplier = 1 / max (re_success_probability e) (1/1000);
             ref = ref_monetary_usd (pol_references policy);
             prior = w_monetary w * over log1p (base_value * multiplier) ref;
             policy_value = w_monetary w * over log1p ((base_value + private_value) * multiplier) ref
         in case charge_usages bs breakdown of
              Inl err \<Rightarrow> Err err
            | Inr s \<Rightarrow> Ok (s
                \<lparr>sb_subscription := subscription,
                 sb_policy_valuation := sb_policy_valuation s + (policy_value - prior),
                 sb_subscription_policy_value_usd := sb_subscription_policy_value_usd s + private_value,
                 sb_monetary := sb_monetary s + (policy_value - prior),
                 sb_total := sb_total s + (subscription + policy_value - prior)\<rparr>)))"

lemma score_candidate_feasible:
  assumes "score_candidate to_float log1p nat_log spec e policy cx quota = Inr c" "cd_feasible c"
  shows "rejection_reasons to_float spec e policy cx quota = []" "cd_executor_id c = ex_id spec"
    "cd_score c \<noteq> None"
  using assms by (auto simp: score_candidate_def Let_def split: if_splits option.splits)

lemma score_candidate_not_feasible:
  assumes "score_candidate to_float log1p nat_log spec e policy cx quota = Inr c" "\<not> cd_feasible c"
  shows "rejection_reasons to_float spec e policy cx quota \<noteq> []"
  using assms by (auto simp: score_candidate_def Let_def split: if_splits option.splits)

end
