(* ===== verification/Routing_Dominance.thy ===== *)
theory Routing_Dominance
  imports Routing_Score
begin

text \<open>
  The score orders candidates the way the weights mean it: an estimate that is no worse in
  any dimension never has a higher total. One lemma per burden, each monotone and not
  negative; the last theorem adds them up.
\<close>

section \<open>What the code relies on of the math module\<close>

definition log_laws :: "(rat \<Rightarrow> rat) \<Rightarrow> (rat \<Rightarrow> rat) \<Rightarrow> bool" where
  "log_laws log1p nat_log =
     ((\<forall>x y. 0 \<le> x \<longrightarrow> x \<le> y \<longrightarrow> 0 \<le> log1p x \<and> log1p x \<le> log1p y)
      \<and> (\<forall>x y. 0 < x \<longrightarrow> x \<le> y \<longrightarrow> nat_log x \<le> nat_log y))"

text \<open>The conversion to a float rounds, hence keeps signs and the order.\<close>

definition float_laws :: "(rat \<Rightarrow> rat) \<Rightarrow> bool" where
  "float_laws to_float =
     ((\<forall>q. 0 \<le> q \<longrightarrow> 0 \<le> to_float q) \<and> (\<forall>q r. q \<le> r \<longrightarrow> to_float q \<le> to_float r))"

lemma float_keeps_order: "float_laws to_float \<Longrightarrow> q \<le> r \<Longrightarrow> to_float q \<le> to_float r"
  by (simp add: float_laws_def)

lemma log1p_nonneg: "log_laws log1p nl \<Longrightarrow> 0 \<le> x \<Longrightarrow> 0 \<le> log1p x"
  and log1p_mono: "log_laws log1p nl \<Longrightarrow> 0 \<le> x \<Longrightarrow> x \<le> y \<Longrightarrow> log1p x \<le> log1p y"
  and nat_log_mono: "log_laws log1p nl \<Longrightarrow> 0 < x \<Longrightarrow> x \<le> y \<Longrightarrow> nl x \<le> nl y"
  by (auto simp: log_laws_def)

text \<open>The estimate \<open>e\<close> is at least as good as \<open>d\<close> in every dimension the score reads.\<close>

definition resources_below :: "ResourceVector \<Rightarrow> ResourceVector \<Rightarrow> bool" where
  "resources_below r s =
     (rv_latency_ms r \<le> rv_latency_ms s \<and> rv_cpu_ms r \<le> rv_cpu_ms s
      \<and> rv_memory_mb_seconds r \<le> rv_memory_mb_seconds s
      \<and> rv_peak_memory_mb r \<le> rv_peak_memory_mb s \<and> rv_gpu_ms r \<le> rv_gpu_ms s
      \<and> rv_network_bytes r \<le> rv_network_bytes s \<and> rv_context_tokens r \<le> rv_context_tokens s
      \<and> rv_input_tokens r \<le> rv_input_tokens s \<and> rv_output_tokens r \<le> rv_output_tokens s
      \<and> rv_subscription_units r \<le> rv_subscription_units s)"

definition cash_below :: "rat option \<Rightarrow> rat option \<Rightarrow> bool" where
  "cash_below x y = (case (x, y) of (Some a, Some b) \<Rightarrow> a \<le> b | (None, None) \<Rightarrow> True | _ \<Rightarrow> False)"

text \<open>The usage of the same subscriptions, each known as before and not more of any.\<close>

definition usage_below :: "SubscriptionUsage list \<Rightarrow> SubscriptionUsage list \<Rightarrow> bool" where
  "usage_below us vs = list_all2 (\<lambda>u v. su_resource_pool u = su_resource_pool v \<and> su_unit u = su_unit v
     \<and> cash_below (su_consumed u) (su_consumed v)) us vs"

definition no_worse :: "(rat \<Rightarrow> rat) \<Rightarrow> RouteEstimate \<Rightarrow> RouteEstimate \<Rightarrow> bool" where
  "no_worse to_float e d =
     (resources_below (re_resources e) (re_resources d)
      \<and> cash_below (expected_cash to_float e) (expected_cash to_float d)
      \<and> cash_below (cash_upper_bound to_float e) (cash_upper_bound to_float d)
      \<and> usage_below (re_subscription_usage e) (re_subscription_usage d)
      \<and> re_success_probability d \<le> re_success_probability e
      \<and> re_quality_score d \<le> re_quality_score e \<and> re_risk_score e \<le> re_risk_score d
      \<and> re_confidence d \<le> re_confidence e)"

section \<open>Monotone burdens\<close>

lemma over_mono:
  assumes "log_laws log1p nl" "0 < ref" "v \<le> v'"
  shows "over log1p v ref \<le> over log1p v' ref"
proof -
  have "max 0 v / ref \<le> max 0 v' / ref"
    using assms by (intro divide_right_mono) auto
  then show ?thesis
    unfolding over_def using assms by (intro log1p_mono [OF assms(1)]) auto
qed

lemma policy_valuation_mono:
  assumes "prices_ok (pol_shadow_prices policy)" "resources_below (re_resources e) (re_resources d)"
  shows "policy_valuation_amount e policy \<le> policy_valuation_amount d policy"
  using assms unfolding policy_valuation_amount_def Let_def resources_below_def prices_ok_def
  by (intro add_mono mult_right_mono) auto

lemma policy_valuation_nonneg:
  assumes "prices_ok (pol_shadow_prices policy)" "resources_ok (re_resources e)"
  shows "0 \<le> policy_valuation_amount e policy"
  using assms unfolding policy_valuation_amount_def Let_def resources_ok_def prices_ok_def
  by (intro add_nonneg_nonneg mult_nonneg_nonneg) auto

lemma foldr_max_mono:
  "list_all2 (\<le>) xs ys \<Longrightarrow> (a::rat) \<le> b \<Longrightarrow> foldr max xs a \<le> foldr max ys b"
  by (induction rule: list_all2_induct) (auto intro: max.mono)

lemma maximum_of_mono:
  assumes "list_all2 (\<le>) xs ys" "xs \<noteq> []"
  shows "maximum_of xs \<le> maximum_of ys"
  using assms by (cases xs; cases ys) (auto simp: maximum_of_def intro: foldr_max_mono)

lemma sum_list_mono2: "list_all2 (\<le>) xs ys \<Longrightarrow> sum_list xs \<le> (sum_list ys :: rat)"
  by (induction rule: list_all2_induct) (auto intro: add_mono)

lemma maximum_of_nonneg: "\<forall>x\<in>set xs. 0 \<le> (x::rat) \<Longrightarrow> xs \<noteq> [] \<Longrightarrow> 0 \<le> maximum_of xs"
proof -
  have "0 \<le> a \<Longrightarrow> 0 \<le> foldr max ys a" for a :: rat and ys
    by (induction ys) (auto simp: le_max_iff_disj)
  then show "\<forall>x\<in>set xs. 0 \<le> x \<Longrightarrow> xs \<noteq> [] \<Longrightarrow> 0 \<le> maximum_of xs"
    by (cases xs) (auto simp: maximum_of_def)
qed

lemma base_burden_nonneg:
  assumes "\<forall>x\<in>set xs. 0 \<le> x" "xs \<noteq> []"
  shows "0 \<le> base_burden xs"
  unfolding base_burden_def using assms
  by (auto intro!: add_nonneg_nonneg mult_nonneg_nonneg divide_nonneg_nonneg sum_list_nonneg
      simp: maximum_of_nonneg)

lemma base_burden_mono:
  assumes le: "list_all2 (\<le>) xs ys" and pos: "\<forall>x\<in>set xs. 0 \<le> x" and ne: "xs \<noteq> []"
  shows "base_burden xs \<le> base_burden ys"
proof (cases "list_all (\<lambda>y. y = 0) ys")
  case True
  with le pos have "list_all (\<lambda>x. x = 0) xs"
    by (induction rule: list_all2_induct) auto
  then show ?thesis
    using True by (simp add: base_burden_def)
next
  case False
  have len: "length xs = length ys"
    using le by (rule list_all2_lengthD)
  have "6/10 * maximum_of xs + 4/10 * (sum_list xs / of_nat (length xs))
      \<le> 6/10 * maximum_of ys + 4/10 * (sum_list ys / of_nat (length ys))"
    unfolding len using maximum_of_mono [OF le ne] sum_list_mono2 [OF le]
    by (intro add_mono mult_left_mono divide_right_mono) auto
  moreover have "0 \<le> 6/10 * maximum_of xs + 4/10 * (sum_list xs / of_nat (length xs))"
    using pos ne
    by (intro add_nonneg_nonneg mult_nonneg_nonneg divide_nonneg_nonneg sum_list_nonneg)
      (auto simp: maximum_of_nonneg)
  ultimately show ?thesis
    using False by (auto simp: base_burden_def)
qed

lemma components_mono:
  assumes "references_ok (pol_references policy)" "resources_below (re_resources e) (re_resources d)"
  shows "list_all2 (\<le>) (compute_components e policy) (compute_components d policy)"
  using assms
  by (auto simp: compute_components_def Let_def references_ok_def resources_below_def all_tokens_def
      intro!: divide_right_mono)

lemma components_nonneg:
  assumes "references_ok (pol_references policy)" "resources_ok (re_resources e)"
  shows "\<forall>x\<in>set (compute_components e policy). 0 \<le> x"
  using assms
  by (auto simp: compute_components_def Let_def references_ok_def resources_ok_def all_tokens_def
      intro!: divide_nonneg_nonneg)

lemma raise_scarcity_mono:
  assumes "s \<le> s'" "k \<Longrightarrow> k' \<and> p \<le> p'"
  shows "raise_scarcity k p s \<le> raise_scarcity k' p' s'"
  using assms by (auto simp: raise_scarcity_def le_max_iff_disj)

lemma raise_scarcity_nonneg: "0 \<le> s \<Longrightarrow> 0 \<le> raise_scarcity k p s"
  by (auto simp: raise_scarcity_def)

lemma scarcity_nonneg: "0 \<le> scarcity_of e policy av"
  by (simp add: scarcity_of_def Let_def raise_scarcity_nonneg)

lemma scarcity_mono:
  assumes "references_ok (pol_references policy)" "availability_ok av" "resources_ok (re_resources e)"
    "resources_below (re_resources e) (re_resources d)"
  shows "scarcity_of e policy av \<le> scarcity_of d policy av"
  unfolding scarcity_of_def Let_def
  using assms
  by (intro raise_scarcity_mono order_refl conjI divide_right_mono)
    (auto simp: references_ok_def availability_ok_def resources_ok_def resources_below_def
      all_tokens_def split: option.splits)

lemma compute_burden_mono:
  assumes laws: "log_laws log1p nl" and ok: "policy_ok policy" "availability_ok (cx_compute cx)"
    "resources_ok (re_resources e)" and le: "resources_below (re_resources e) (re_resources d)"
  shows "0 \<le> compute_burden log1p e policy cx"
    and "compute_burden log1p e policy cx \<le> compute_burden log1p d policy cx"
proof -
  have refs: "references_ok (pol_references policy)" and mult: "0 \<le> pol_resource_scarcity_multiplier policy"
    using ok(1) by (simp_all add: policy_ok_def)
  have ne: "compute_components e policy \<noteq> []"
    by (simp add: compute_components_def Let_def)
  have base: "base_burden (compute_components e policy) \<le> base_burden (compute_components d policy)"
    by (rule base_burden_mono [OF components_mono [OF refs le] components_nonneg [OF refs ok(3)] ne])
  have pos: "0 \<le> base_burden (compute_components e policy)
      + pol_resource_scarcity_multiplier policy * scarcity_of e policy (cx_compute cx)"
    using base_burden_nonneg [OF components_nonneg [OF refs ok(3)] ne] mult scarcity_nonneg
    by (intro add_nonneg_nonneg mult_nonneg_nonneg)
  show "0 \<le> compute_burden log1p e policy cx"
    unfolding compute_burden_def by (rule log1p_nonneg [OF laws pos])
  show "compute_burden log1p e policy cx \<le> compute_burden log1p d policy cx"
    unfolding compute_burden_def using base scarcity_mono [OF refs ok(2,3) le] mult
    by (intro log1p_mono [OF laws pos] add_mono mult_left_mono)
qed

lemma quota_pressure_nonneg: "quota_pressure s = Some p \<Longrightarrow> 0 \<le> p"
  by (cases s) auto

lemma capacity_pressure_nonneg:
  "capacity_pressure u c = Some p \<Longrightarrow> 0 \<le> u \<Longrightarrow> 0 \<le> c \<Longrightarrow> 0 \<le> p"
  by (auto simp: capacity_pressure_def split: if_splits)

lemma burden_pressure_nonneg:
  assumes "float_laws to_float" "quota_fields_ok q" "0 \<le> u"
    "quota_burden_pressure to_float u q = Some p"
  shows "0 \<le> p"
proof -
  have cap: "0 \<le> p" if "capacity_pressure u (to_float c) = Some p" "0 \<le> c" for c
    using that assms by (auto intro: capacity_pressure_nonneg simp: float_laws_def)
  have used: "0 \<le> u * max (1/20) x / max (1/100) (1 - x)" for x :: rat
    using assms(3) by (intro divide_nonneg_nonneg mult_nonneg_nonneg) (auto simp: le_max_iff_disj)
  have state: "0 \<le> u * t" if "quota_pressure (sq_state q) = Some t" for t
    using assms(3) quota_pressure_nonneg [OF that] by simp
  show ?thesis
    using assms(2,4) cap used state
    unfolding quota_burden_pressure_def quota_fields_ok_def Let_def
    by (cases "sq_remaining_units q"; cases "sq_allowance_units q"; cases "sq_used_percent q") auto
qed

lemma reset_factor_pos: "quota_fields_ok q \<Longrightarrow> 0 < reset_factor_of q"
  by (auto simp: reset_factor_of_def quota_fields_ok_def Let_def divide_nonneg_pos
      intro!: add_pos_nonneg split: option.splits)

lemma uncertainty_nonneg:
  "quota_fields_ok q \<Longrightarrow> 0 \<le> 1 - sq_confidence q + (if missing_signal q then 1/2 else 0)"
  by (auto simp: quota_fields_ok_def)

lemma matching_rule_ok:
  "list_all rule_ok (pol_subscription_rules policy) \<Longrightarrow> matching_rule pool unit policy = Some r
   \<Longrightarrow> rule_ok r"
  by (auto simp: matching_rule_def find_Some_iff list_all_length)

lemma pool_weight_nonneg:
  assumes "list_all rule_ok (pol_subscription_rules policy)"
  shows "0 \<le> (case matching_rule pool unit policy of None \<Rightarrow> 1 | Some r \<Rightarrow> pr_pressure_weight r)"
  using matching_rule_ok [OF assms] by (auto simp: rule_ok_def split: option.splits)

lemma capacity_pressure_mono:
  assumes "capacity_pressure u c = Some p" and "capacity_pressure u' c = Some p'" and "u \<le> u'" and "0 \<le> c"
  shows "p \<le> p'"
  using assms by (auto simp: capacity_pressure_def divide_right_mono split: if_splits)

lemma burden_pressure_mono:
  assumes fl: "float_laws to_float" and q: "quota_fields_ok q" and le: "u \<le> u'"
    and p: "quota_burden_pressure to_float u q = Some p" "quota_burden_pressure to_float u' q = Some p'"
  shows "p \<le> p'"
proof -
  have cap: "p \<le> p'" if "capacity_pressure u (to_float c) = Some p" "capacity_pressure u' (to_float c) = Some p'" "0 \<le> c" for c
    using that capacity_pressure_mono [OF that(1,2) le] fl by (simp add: float_laws_def)
  have used: "u * max (1/20) x / max (1/100) (1 - x) \<le> u' * max (1/20) x / max (1/100) (1 - x)" for x :: rat
    using le by (intro divide_right_mono mult_right_mono) (auto simp: le_max_iff_disj)
  have state: "u * t \<le> u' * t" if "quota_pressure (sq_state q) = Some t" for t
    using le quota_pressure_nonneg [OF that] by (simp add: mult_right_mono)
  show ?thesis
    using q p cap used state
    unfolding quota_burden_pressure_def quota_fields_ok_def Let_def
    by (cases "sq_remaining_units q"; cases "sq_allowance_units q"; cases "sq_used_percent q") auto
qed

text \<open>Fewer units of a quota press it less, and a surer route divides by a larger probability.\<close>

lemma burden_components_antimono:
  assumes laws: "log_laws log1p nl" and fl: "float_laws to_float" and pol: "policy_ok policy"
    and q: "quota_fields_ok q" and u: "0 \<le> u" "u \<le> u'" and p: "p' \<le> p"
    and b: "bu_burden (subscription_burden_components to_float log1p pool unit u policy (Some q) p) = Some x"
    and b': "bu_burden (subscription_burden_components to_float log1p pool unit u' policy (Some q) p') = Some x'"
  shows "x \<le> x'"
proof -
  obtain pr where pr: "quota_burden_pressure to_float u q = Some pr"
    using b by (auto simp: subscription_burden_components_def Let_def)
  obtain pr' where pr': "quota_burden_pressure to_float u' q = Some pr'"
    using b' by (auto simp: subscription_burden_components_def Let_def)
  define arg where "arg = (\<lambda>pr. pr * pol_subscription_scarcity_multiplier policy
      * (case matching_rule pool unit policy of None \<Rightarrow> 1 | Some r \<Rightarrow> pr_pressure_weight r)
      * reset_factor_of q + (1 - sq_confidence q + (if missing_signal q then 1/2 else 0)))"
  have weights: "0 \<le> pol_subscription_scarcity_multiplier policy"
    "0 \<le> (case matching_rule pool unit policy of None \<Rightarrow> 1 | Some r \<Rightarrow> pr_pressure_weight r)" "0 \<le> reset_factor_of q"
    using pol reset_factor_pos [OF q] pool_weight_nonneg [of policy pool unit] by (auto simp: policy_ok_def)
  have "0 \<le> arg pr"
    unfolding arg_def using weights burden_pressure_nonneg [OF fl q u(1) pr]
    by (intro add_nonneg_nonneg [OF _ uncertainty_nonneg [OF q]] mult_nonneg_nonneg)
  moreover have "arg pr \<le> arg pr'"
    unfolding arg_def using weights burden_pressure_mono [OF fl q u(2) pr pr']
    by (intro add_right_mono mult_right_mono)
  ultimately have logs: "0 \<le> log1p (arg pr)" "log1p (arg pr) \<le> log1p (arg pr')"
    using log1p_nonneg [OF laws] log1p_mono [OF laws] by blast+
  have "x = log1p (arg pr) / max p (1/1000)" "x' = log1p (arg pr') / max p' (1/1000)"
    using b b' pr pr' by (auto simp: subscription_burden_components_def Let_def arg_def add.assoc)
  moreover have "max p' (1/1000) \<le> max p (1/1000)" "0 < max p' (1/1000)"
    using p by (auto simp: less_max_iff_disj)
  ultimately show ?thesis
    using logs by (simp add: frac_le)
qed

lemma burden_components_nonneg:
  assumes laws: "log_laws log1p nl" and fl: "float_laws to_float" and pol: "policy_ok policy"
    and q: "quota_fields_ok q" and u: "0 \<le> u"
    and b: "bu_burden (subscription_burden_components to_float log1p pool unit u policy (Some q) p) = Some x"
  shows "0 \<le> x"
proof -
  obtain pr where pr: "quota_burden_pressure to_float u q = Some pr"
    using b by (auto simp: subscription_burden_components_def Let_def)
  define arg where "arg = pr * pol_subscription_scarcity_multiplier policy
      * (case matching_rule pool unit policy of None \<Rightarrow> 1 | Some r \<Rightarrow> pr_pressure_weight r)
      * reset_factor_of q + (1 - sq_confidence q + (if missing_signal q then 1/2 else 0))"
  have "0 \<le> arg"
    unfolding arg_def
    using pol burden_pressure_nonneg [OF fl q u pr] reset_factor_pos [OF q] pool_weight_nonneg [of policy pool unit]
    by (intro add_nonneg_nonneg [OF _ uncertainty_nonneg [OF q]] mult_nonneg_nonneg) (auto simp: policy_ok_def)
  then have "0 \<le> log1p arg"
    by (rule log1p_nonneg [OF laws])
  moreover have "x = log1p arg / max p (1/1000)"
    using b pr by (simp add: subscription_burden_components_def Let_def arg_def)
  ultimately show ?thesis
    by (simp add: le_max_iff_disj)
qed

lemma burden_value_nonneg:
  assumes "float_laws to_float" "policy_ok policy" "0 \<le> u"
  shows "0 \<le> bu_value (subscription_burden_components to_float log1p pool unit u policy quota p)"
proof -
  have rules: "list_all rule_ok (pol_subscription_rules policy)"
    using assms(2) by (simp add: policy_ok_def)
  show ?thesis
    using assms(1,3) matching_rule_ok [OF rules]
    by (auto simp: subscription_burden_components_def Let_def rule_ok_def float_laws_def
        intro!: mult_nonneg_nonneg split: option.splits) (metis opt_all_simps(2))
qed

lemma filter_related:
  "list_all2 R xs ys \<Longrightarrow> (\<And>x y. R x y \<Longrightarrow> P x = Q y) \<Longrightarrow> list_all2 R (filter P xs) (filter Q ys)"
  by (induction rule: list_all2_induct) auto

lemma only_one_cases:
  "(\<And>u. xs = [u] \<Longrightarrow> Q (f u)) \<Longrightarrow> Q d \<Longrightarrow> Q (case xs of [u] \<Rightarrow> f u | _ \<Rightarrow> d)"
  by (cases xs rule: remdups_adj.cases) auto

lemma list_ex_related:
  "list_all2 R xs ys \<Longrightarrow> (\<And>x y. R x y \<Longrightarrow> P x = P y) \<Longrightarrow> list_ex P xs = list_ex P ys"
  by (induction rule: list_all2_induct) auto

lemma subscription_units_mono:
  assumes fl: "float_laws to_float" and "no_worse to_float e d"
  shows "subscription_units to_float spec e \<le> subscription_units to_float spec d"
proof -
  let ?R = "\<lambda>u v. su_resource_pool u = su_resource_pool v \<and> su_unit u = su_unit v
     \<and> cash_below (su_consumed u) (su_consumed v)"
  let ?P = "\<lambda>u. Some (su_resource_pool u) = ex_resource_pool spec \<and> su_consumed u \<noteq> None"
  have units: "rv_subscription_units (re_resources e) \<le> rv_subscription_units (re_resources d)"
    and usage: "list_all2 ?R (re_subscription_usage e) (re_subscription_usage d)"
    using assms(2) by (simp_all add: no_worse_def resources_below_def usage_below_def)
  have "list_all2 ?R (filter ?P (re_subscription_usage e)) (filter ?P (re_subscription_usage d))"
    by (rule filter_related [OF usage]) (auto simp: cash_below_def split: option.splits)
  moreover have "to_float (case su_consumed u of None \<Rightarrow> 0 | Some q \<Rightarrow> q)
      \<le> to_float (case su_consumed v of None \<Rightarrow> 0 | Some q \<Rightarrow> q)" if "?R u v" for u v
    using that float_keeps_order [OF fl] by (auto simp: cash_below_def split: option.splits)
  ultimately show ?thesis
    using units
    by (cases "filter ?P (re_subscription_usage e)" rule: remdups_adj.cases;
        cases "filter ?P (re_subscription_usage d)" rule: remdups_adj.cases)
      (auto simp: subscription_units_def)
qed

lemma subscription_units_nonneg:
  assumes "float_laws to_float" "estimate_ok e"
  shows "0 \<le> subscription_units to_float spec e"
proof -
  have "0 \<le> to_float (case su_consumed u of None \<Rightarrow> 0 | Some q \<Rightarrow> q)"
    if "List.filter P (re_subscription_usage e) = [u]" for P u
  proof -
    have "u \<in> set (List.filter P (re_subscription_usage e))"
      by (simp add: that)
    then show ?thesis
      using assms
      by (auto simp: estimate_ok_def list_all_iff usage_ok_def float_laws_def split: option.splits)
  qed
  moreover have "0 \<le> rv_subscription_units (re_resources e)"
    using assms by (simp add: estimate_ok_def resources_ok_def)
  ultimately show ?thesis
    unfolding subscription_units_def by (auto intro!: only_one_cases [of _ "\<lambda>v. 0 \<le> v"])
qed

lemma burden_value_mono:
  assumes "float_laws to_float" "policy_ok policy" "u \<le> u'"
  shows "bu_value (subscription_burden_components to_float log1p pool unit u policy quota p)
    \<le> bu_value (subscription_burden_components to_float log1p pool unit u' policy quota p')"
proof -
  have rules: "list_all rule_ok (pol_subscription_rules policy)"
    using assms(2) by (simp add: policy_ok_def)
  show ?thesis
    using assms(1,3) matching_rule_ok [OF rules]
    by (auto simp: subscription_burden_components_def Let_def rule_ok_def float_laws_def
        intro!: mult_right_mono split: option.splits) (metis opt_all_simps(2))
qed

lemma subscription_terms_antimono:
  assumes laws: "log_laws log1p nl" "float_laws to_float" "policy_ok policy"
    "case_option True quota_fields_ok quota" "estimate_ok e" "no_worse to_float e d"
    and b: "bu_burden (subscription_terms to_float log1p spec e policy quota) = Some x"
    and b': "bu_burden (subscription_terms to_float log1p spec d policy quota) = Some x'"
  shows "x \<le> x'"
    "bu_value (subscription_terms to_float log1p spec e policy quota)
      \<le> bu_value (subscription_terms to_float log1p spec d policy quota)"
    "0 \<le> bu_value (subscription_terms to_float log1p spec e policy quota)"
proof -
  note units = subscription_units_mono [OF laws(2,6), of spec]
  note nonneg = subscription_units_nonneg [OF laws(2,5), of spec]
  have nonneg': "0 \<le> subscription_units to_float spec d" using units nonneg by simp
  have succ: "re_success_probability d \<le> re_success_probability e"
    using laws(6) by (simp add: no_worse_def)
  show "x \<le> x'"
  proof (cases quota)
    case None
    then show ?thesis using b b' by (simp add: subscription_terms_def no_burden_def)
  next
    case (Some q)
    then have q: "quota_fields_ok q" using laws(4) by simp
    show ?thesis
      using b b' Some burden_components_antimono [OF laws(1,2,3) q nonneg units succ]
        burden_components_nonneg [OF laws(1,2,3) q nonneg'] units nonneg
      by (auto simp: subscription_terms_def no_burden_def split: if_splits)
  qed
  show "bu_value (subscription_terms to_float log1p spec e policy quota)
      \<le> bu_value (subscription_terms to_float log1p spec d policy quota)"
    using burden_value_mono [OF laws(2,3) units] burden_value_nonneg [OF laws(2,3) nonneg'] units nonneg
    by (auto simp: subscription_terms_def no_burden_def split: option.splits)
  show "0 \<le> bu_value (subscription_terms to_float log1p spec e policy quota)"
    using burden_value_nonneg [OF laws(2,3) nonneg]
    by (simp add: subscription_terms_def no_burden_def split: option.splits)
qed

section \<open>Rejections and totals\<close>

lemma resource_rejections_antimono:
  assumes "resources_below r s" "resource_rejections c s = []"
  shows "resource_rejections c r = []"
  using assms
  by (auto simp: silent resources_below_def all_tokens_def under_def split: option.splits)

lemma rejections_antimono:
  assumes fl: "float_laws to_float" and better: "no_worse to_float e d"
    and accepted: "rejection_reasons to_float spec d policy cx quota = []"
  shows "rejection_reasons to_float spec e policy cx quota = []"
proof -
  note units = subscription_units_mono [OF fl better, of spec]
  have below: "resources_below (re_resources e) (re_resources d)"
    "cash_below (cash_upper_bound to_float e) (cash_upper_bound to_float d)"
    and usage: "usage_below (re_subscription_usage e) (re_subscription_usage d)"
    using better by (simp_all add: no_worse_def)
  have mismatch: "list_ex (\<lambda>u. Some (su_resource_pool u) = ex_resource_pool spec \<and> su_unit u \<noteq> w)
        (re_subscription_usage e)
      = list_ex (\<lambda>u. Some (su_resource_pool u) = ex_resource_pool spec \<and> su_unit u \<noteq> w)
        (re_subscription_usage d)" for w
    using usage unfolding usage_below_def by (rule list_ex_related) auto
  have "known_under b (cash_upper_bound to_float e)"
    if "known_under b (cash_upper_bound to_float d)" for b
    using that below(2) by (auto simp: known_under_def cash_below_def split: option.splits)
  moreover have "availability_rejections to_float (cx_compute cx) e = []"
    if "availability_rejections to_float (cx_compute cx) d = []"
    using that below
    by (auto simp: availability_rejections_def cash_below_def resources_below_def all_tokens_def
        split: option.splits if_splits)
  moreover have "quota_rejections to_float spec e quota = []"
    if "quota_rejections to_float spec d quota = []"
    using that units
    by (auto simp: quota_rejections_def mismatch split: option.splits if_splits)
  ultimately show ?thesis
    using accepted better resource_rejections_antimono [OF below(1)]
    unfolding rejection_reasons_constraints Let_def cash_rejections_silent quality_rejections_silent
    by (auto simp: no_worse_def)
qed

lemma cash_burden_mono:
  assumes laws: "log_laws log1p nl" and refs: "0 < ref" and m: "0 \<le> m" "m \<le> m'"
    and below: "cash_below x y" and pos: "case_option True (\<lambda>a. 0 \<le> a) x"
  shows "over log1p (case_option 0 id x * m) ref \<le> over log1p (case_option 0 id y * m') ref"
  using below pos m
  by (intro over_mono [OF laws refs]) (auto simp: cash_below_def intro: mult_mono split: option.splits)

lemma expected_cash_nonneg:
  assumes "float_laws to_float" "estimate_ok e"
  shows "case_option True (\<lambda>a. 0 \<le> a) (expected_cash to_float e)"
proof -
  have "is_ok (validate_cash_estimate (re_cash e))"
    using assms(2) by (simp add: estimate_ok_def)
  then have "opt_all (\<lambda>q. 0 \<le> q) (cs_amount_usd (re_cash e))"
    "opt_all (\<lambda>q. 0 \<le> q) (cs_upper_bound_usd (re_cash e))"
    by (simp_all add: validate_cash_estimate_def)
  then show ?thesis
    using assms(1)
    by (cases "cs_amount_usd (re_cash e)"; cases "cs_upper_bound_usd (re_cash e)")
      (simp_all add: expected_cash_def cash_amount_def cash_upper_bound_def float_laws_def)
qed

lemma total_mono:
  assumes laws: "log_laws log1p nl" "float_laws to_float" "policy_ok policy"
    "availability_ok (cx_compute cx)" and est: "estimate_ok e" "estimate_ok d"
    and better: "no_worse to_float e d"
    and b: "case_option 0 id (bu_burden b) \<le> case_option 0 id (bu_burden b')"
      "bu_value b \<le> bu_value b'" "0 \<le> bu_value b"
  shows "sb_total (score_breakdown to_float log1p nl spec e policy cx b)
    \<le> sb_total (score_breakdown to_float log1p nl spec d policy cx b')"
proof -
  have pol: "weights_ok (pol_weights policy)" "references_ok (pol_references policy)"
    "prices_ok (pol_shadow_prices policy)" "0 \<le> pol_uncertainty_penalty policy"
    using laws(3) by (simp_all add: policy_ok_def)
  have below: "resources_below (re_resources e) (re_resources d)"
    and cash: "cash_below (expected_cash to_float e) (expected_cash to_float d)"
    and rest: "re_success_probability d \<le> re_success_probability e"
      "re_quality_score d \<le> re_quality_score e" "re_risk_score e \<le> re_risk_score d"
      "re_confidence d \<le> re_confidence e"
    using better by (simp_all add: no_worse_def)
  have res: "resources_ok (re_resources e)"
    using est(1) by (simp add: estimate_ok_def)
  define m where "m = 1 / max (re_success_probability e) (1/1000)"
  define m' where "m' = 1 / max (re_success_probability d) (1/1000)"
  have m: "0 \<le> m" "m \<le> m'"
    unfolding m_def m'_def using rest(1) by (auto intro!: divide_left_mono simp: less_max_iff_disj)
  have lat: "rv_latency_ms (re_resources e) * m \<le> rv_latency_ms (re_resources d) * m'"
    using below res m by (intro mult_mono) (auto simp: resources_below_def resources_ok_def)
  have val: "(policy_valuation_amount e policy + bu_value b) * m
      \<le> (policy_valuation_amount d policy + bu_value b') * m'"
    using policy_valuation_mono [OF pol(3) below] policy_valuation_nonneg [OF pol(3) res] m b(2,3)
    by (intro mult_mono) auto
  have comp: "compute_burden log1p e policy cx * m \<le> compute_burden log1p d policy cx * m'"
    using compute_burden_mono [OF laws(1,3,4) res below] m by (intro mult_mono) auto
  have rel: "- nl (max (re_success_probability e) (1/1000)) \<le> - nl (max (re_success_probability d) (1/1000))"
    using rest(1) by (auto intro!: nat_log_mono [OF laws(1)] simp: less_max_iff_disj le_max_iff_disj)
  have refs: "0 < ref_monetary_usd (pol_references policy)" "0 < ref_latency_ms (pol_references policy)"
    using pol(2) by (simp_all add: references_ok_def)
  have unk: "expected_cash to_float e = None \<longleftrightarrow> expected_cash to_float d = None"
    using cash by (auto simp: cash_below_def split: option.splits)
  show ?thesis
    unfolding score_breakdown_def Let_def ScoreBreakdown.simps unk m_def [symmetric] m'_def [symmetric]
    using rest pol(4) b(1) comp rel
    by (intro add_mono mult_left_mono normalized_nonneg [OF pol(1)] order_refl diff_left_mono
        cash_burden_mono [OF laws(1) refs(1) m cash expected_cash_nonneg [OF laws(2) est(1)]]
        over_mono [OF laws(1) refs(1) val] over_mono [OF laws(1) refs(2) lat] mult_right_mono) auto
qed

section \<open>Property\<close>

lemma score_candidate_accepts:
  assumes "rejection_reasons to_float spec e policy cx quota = []"
    "bu_burden (subscription_terms to_float log1p spec e policy quota) \<noteq> None"
  shows "score_candidate to_float log1p nl spec e policy cx quota =
    Inr \<lparr>cd_executor_id = ex_id spec, cd_feasible = True, cd_rejection_reasons = [],
      cd_estimate = e, cd_resource_pool = ex_resource_pool spec,
      cd_score = Some (score_breakdown to_float log1p nl spec e policy cx
                         (subscription_terms to_float log1p spec e policy quota)),
      cd_rank = None\<rparr>"
  using assms by (simp add: score_candidate_def Let_def)

lemma score_candidate_accepted:
  assumes "score_candidate to_float log1p nl spec e policy cx quota = Inr c" "cd_feasible c"
  shows "rejection_reasons to_float spec e policy cx quota = []"
    "bu_burden (subscription_terms to_float log1p spec e policy quota) \<noteq> None"
    "cd_score c = Some (score_breakdown to_float log1p nl spec e policy cx
                          (subscription_terms to_float log1p spec e policy quota))"
  using assms by (auto simp: score_candidate_def Let_def split: if_splits)

lemma burden_finite:
  assumes "float_laws to_float" and "no_worse to_float e d" and "estimate_ok e"
    and "bu_burden (subscription_terms to_float log1p spec d policy quota) \<noteq> None"
  shows "bu_burden (subscription_terms to_float log1p spec e policy quota) \<noteq> None"
  using assms(4) subscription_units_mono [OF assms(1,2), of spec] subscription_units_nonneg [OF assms(1,3), of spec]
  by (auto simp: subscription_terms_def no_burden_def subscription_burden_components_def Let_def
      quota_burden_pressure_def capacity_pressure_def split: option.splits if_splits)

text \<open>
  C31 A better estimate is never at a disadvantage: when one estimate is no worse than another
  in every resource the score reads, subscription units among them, in cash, success
  probability, quality, risk and confidence, and the other is feasible, then it is feasible
  too and its total is no higher, whatever the policy's weights. What is known of cash and of
  the usage of subscriptions is known of both.
\<close>

theorem better_estimate_preferred:
  assumes laws: "log_laws log1p nl" "float_laws to_float" and pol: "policy_ok policy"
    "availability_ok (cx_compute cx)" and q: "case_option True quota_fields_ok quota"
    and est: "estimate_ok e" "estimate_ok d" and better: "no_worse to_float e d"
    and other: "score_candidate to_float log1p nl spec d policy cx quota = Inr c'" "cd_feasible c'"
  shows "\<exists>c s s'. score_candidate to_float log1p nl spec e policy cx quota = Inr c
    \<and> cd_feasible c \<and> cd_score c = Some s \<and> cd_score c' = Some s' \<and> sb_total s \<le> sb_total s'"
proof -
  note acc = score_candidate_accepted [OF other]
  let ?b = "subscription_terms to_float log1p spec e policy quota"
  let ?b' = "subscription_terms to_float log1p spec d policy quota"
  have accepted: "rejection_reasons to_float spec e policy cx quota = []"
    by (rule rejections_antimono [OF laws(2) better acc(1)])
  have finite: "bu_burden ?b \<noteq> None"
    by (rule burden_finite [OF laws(2) better est(1) acc(2)])
  then obtain x x' where b: "bu_burden ?b = Some x" "bu_burden ?b' = Some x'"
    using acc(2) by auto
  note anti = subscription_terms_antimono [OF laws pol(1) q est(1) better b]
  have "sb_total (score_breakdown to_float log1p nl spec e policy cx ?b)
      \<le> sb_total (score_breakdown to_float log1p nl spec d policy cx ?b')"
    using anti b by (intro total_mono [OF laws pol est better]) auto
  then show ?thesis
    using score_candidate_accepts [OF accepted finite] acc(3) by simp
qed

definition slower_estimate :: RouteEstimate where
  "slower_estimate = sample_estimate
     \<lparr>re_resources := sample_resources\<lparr>rv_latency_ms := 900\<rparr>, re_success_probability := 9/10\<rparr>"

lemmas estimate_ok_defs =
  estimate_ok_def resources_ok_def validate_cash_estimate_def opt_all_def is_ok_def

lemma sample_estimates:
  "estimate_ok sample_estimate" "estimate_ok slower_estimate"
  "no_worse id sample_estimate slower_estimate"
  by (simp_all add: slower_estimate_def routing_sample_defs estimate_ok_defs no_worse_def
      resources_below_def usage_below_def cash_below_def expected_cash_def cash_amount_def cash_upper_bound_def)

lemma slower_not_rejected:
  "rejection_reasons id sample_spec slower_estimate
     (policy_with_constraints balanced_policy sample_constraints) sample_context None = []"
  unfolding rejection_reasons_constraints silent
  by (simp add: slower_estimate_def routing_sample_defs policy_with_constraints_def
      balanced_policy_def policy_of_def merge_constraints_def strictest_max_def strictest_min_def
      intersection_opt_def under_def known_under_def listed_def sensitivity_rejections_def
      quota_rejections_def availability_rejections_def cash_upper_bound_def all_tokens_def
      is_remote_def less_eq_SideEffect_def)

lemma balanced_ok: "policy_ok balanced_policy"
  by (rule builtin_policies_ok [of "''balanced''"]) (simp add: builtin_policies_def)

lemma sample_routing_ok:
  "log_laws id (\<lambda>x. x - 1)" "float_laws id" "policy_ok balanced_policy"
  "availability_ok (cx_compute sample_context)"
  by (simp_all add: log_laws_def float_laws_def balanced_ok routing_sample_defs
      availability_ok_def)

theorem better_estimate_preferred_witness:
  "\<exists>c s s'. score_candidate id id (\<lambda>x. x - 1) sample_spec sample_estimate
       (policy_with_constraints balanced_policy sample_constraints) sample_context None = Inr c
     \<and> cd_feasible c \<and> cd_score c = Some s
     \<and> Some s' = Some (score_breakdown id id (\<lambda>x. x - 1) sample_spec slower_estimate
          (policy_with_constraints balanced_policy sample_constraints) sample_context no_burden)
     \<and> sb_total s \<le> sb_total s'"
proof -
  have b: "subscription_terms id id sample_spec slower_estimate
      (policy_with_constraints balanced_policy sample_constraints) None = no_burden"
    by (simp add: subscription_terms_def)
  have "bu_burden no_burden \<noteq> None"
    by (simp add: no_burden_def)
  note scored = score_candidate_accepts [OF slower_not_rejected, where log1p = id, unfolded b, OF this]
  from better_estimate_preferred [OF sample_routing_ok(1,2) _ sample_routing_ok(4) _ sample_estimates scored]
  show ?thesis
    using sample_routing_ok(3) by simp
qed

end
