(* ===== verification/Routing_Choice.thy ===== *)
theory Routing_Choice
  imports Routing_Dominance "HOL-Library.Product_Lexorder"
begin

text \<open>
  \<open>Router.route\<close> (\<open>aeep/router.py\<close>): every compatible executor is scored on its cold and then
  on its cache-adjusted estimate, the feasible ones are ranked, and the best is selected
  unless the policy's abstention rule keeps a baseline. The registry's answers, the estimates
  and the quotas come in as the inputs of the function.
\<close>

section \<open>Scoring the compatible executors\<close>

record route_input =
  ri_spec :: ExecutorSpec
  ri_inactive :: "string option"
  ri_cold_estimate :: RouteEstimate
  ri_estimate :: RouteEstimate
  ri_quota :: "SubscriptionQuota option"

definition rejected_candidate :: "ExecutorSpec \<Rightarrow> RouteEstimate \<Rightarrow> string option \<Rightarrow> string \<Rightarrow> CandidateScore" where
  "rejected_candidate spec e pool reason =
     \<lparr>cd_executor_id = ex_id spec, cd_feasible = False, cd_rejection_reasons = [Route_rejected reason],
      cd_estimate = e, cd_resource_pool = pool, cd_score = None, cd_rank = None\<rparr>"

definition score_input ::
  "(rat \<Rightarrow> rat) \<Rightarrow> (rat \<Rightarrow> rat) \<Rightarrow> (rat \<Rightarrow> rat) \<Rightarrow> PolicyConfig \<Rightarrow> ActionContext \<Rightarrow> route_input
   \<Rightarrow> CandidateScore result" where
  "score_input to_float log1p nat_log policy cx i =
     (case ri_inactive i of
        Some reason \<Rightarrow> Ok (rejected_candidate (ri_spec i) (ri_cold_estimate i) None reason)
      | None \<Rightarrow>
          (case score_candidate to_float log1p nat_log (ri_spec i) (ri_cold_estimate i) policy cx (ri_quota i) of
             Inl err \<Rightarrow> Err err
           | Inr cold \<Rightarrow>
               if \<not> cd_feasible cold then Ok cold
               else score_candidate to_float log1p nat_log (ri_spec i) (ri_estimate i) policy cx (ri_quota i)))"

fun score_inputs ::
  "(rat \<Rightarrow> rat) \<Rightarrow> (rat \<Rightarrow> rat) \<Rightarrow> (rat \<Rightarrow> rat) \<Rightarrow> PolicyConfig \<Rightarrow> ActionContext \<Rightarrow> route_input list
   \<Rightarrow> CandidateScore list result" where
  "score_inputs to_float log1p nat_log policy cx [] = Ok []"
| "score_inputs to_float log1p nat_log policy cx (i # is) =
     (case score_input to_float log1p nat_log policy cx i of
        Inl err \<Rightarrow> Err err
      | Inr c \<Rightarrow>
          (case score_inputs to_float log1p nat_log policy cx is of
             Inl err \<Rightarrow> Err err
           | Inr cs \<Rightarrow> Ok (c # cs)))"

text \<open>Executors whose input schema refuses the action, in the order of their ids.\<close>

definition schema_rejections :: "(ExecutorSpec \<times> RouteEstimate \<times> string) list \<Rightarrow> CandidateScore list" where
  "schema_rejections errors =
     List.map (\<lambda>(spec, e, reason). rejected_candidate spec e (ex_resource_pool spec) reason)
       (sort_key (\<lambda>(spec, e, reason). ex_id spec) errors)"

section \<open>Ranking\<close>

definition total_of :: "CandidateScore \<Rightarrow> rat" where
  "total_of c = (case cd_score c of None \<Rightarrow> 0 | Some s \<Rightarrow> sb_total s)"

definition feasible_ranking :: "CandidateScore list \<Rightarrow> CandidateScore list" where
  "feasible_ranking cs =
     sort_key (\<lambda>c. (total_of c, cd_executor_id c))
       (List.filter (\<lambda>c. cd_feasible c \<and> cd_score c \<noteq> None) cs)"

definition with_ranks :: "CandidateScore list \<Rightarrow> CandidateScore list" where
  "with_ranks cs = List.map (\<lambda>(n, c). c\<lparr>cd_rank := Some n\<rparr>) (zip [1..<Suc (length cs)] cs)"

definition rejected_ranking :: "CandidateScore list \<Rightarrow> CandidateScore list" where
  "rejected_ranking cs = sort_key cd_executor_id (List.filter (\<lambda>c. \<not> cd_feasible c) cs)"

section \<open>The choice\<close>

datatype RouteDisposition = Route_SELECTED | Route_BYPASS_ROUTER

datatype RouteBypassReason =
    Bypass_ONLY_ONE_FEASIBLE_ROUTE | Bypass_PINNED_EXECUTOR | Bypass_OPTIMIZATION_VALUE_BELOW_OVERHEAD

record RouteChoice =
  rc_selected :: "string option"
  rc_disposition :: RouteDisposition
  rc_baseline :: "string option"
  rc_bypass_reason :: "RouteBypassReason option"
  rc_expected_net_benefit :: "rat option"
  rc_candidates :: "CandidateScore list"

definition candidate_with :: "string option \<Rightarrow> CandidateScore list \<Rightarrow> CandidateScore option" where
  "candidate_with eid cs = List.find (\<lambda>c. Some (cd_executor_id c) = eid) cs"

definition overhead_score :: "(rat \<Rightarrow> rat) \<Rightarrow> PolicyConfig \<Rightarrow> rat" where
  "overhead_score log1p policy =
     w_latency (normalized (pol_weights policy))
     * log1p (ra_overhead_p95_ms (pol_routing_abstention policy) / ref_latency_ms (pol_references policy))"

text \<open>The baseline, the reason to keep it, and the expected benefit of leaving it.\<close>

definition abstain ::
  "(rat \<Rightarrow> rat) \<Rightarrow> PolicyConfig \<Rightarrow> CandidateScore list
   \<Rightarrow> CandidateScore option \<times> RouteBypassReason option \<times> rat option" where
  "abstain log1p policy ranked =
     (let abstention = pol_routing_abstention policy;
          allowed = allowed_executor_ids (pol_constraints policy);
          baseline = (case ra_baseline_executor_id abstention of
                        None \<Rightarrow> None | Some eid \<Rightarrow> candidate_with (Some eid) ranked)
      in
      if ranked = [] \<or> \<not> ra_enabled abstention then (None, None, None)
      else if length ranked = 1 then (Some (hd ranked), Some Bypass_ONLY_ONE_FEASIBLE_ROUTE, None)
      else
        (case allowed of
           Some [eid] \<Rightarrow>
             (case candidate_with (Some eid) ranked of
                None \<Rightarrow> (None, None, None)
              | Some c \<Rightarrow> (Some c, Some Bypass_PINNED_EXECUTOR, None))
         | _ \<Rightarrow>
             (case baseline of
                None \<Rightarrow> (None, None, None)
              | Some b \<Rightarrow>
                  (let benefit = total_of b - total_of (hd ranked) - overhead_score log1p policy in
                   (Some b,
                    if benefit \<le> ra_minimum_score_gain abstention
                    then Some Bypass_OPTIMIZATION_VALUE_BELOW_OVERHEAD else None,
                    Some benefit)))))"

definition choose_route :: "(rat \<Rightarrow> rat) \<Rightarrow> PolicyConfig \<Rightarrow> CandidateScore list \<Rightarrow> RouteChoice" where
  "choose_route log1p policy cs =
     (let ranked = feasible_ranking cs;
          best = (case ranked of [] \<Rightarrow> None | c # _ \<Rightarrow> Some (cd_executor_id c))
      in case abstain log1p policy ranked of (baseline, reason, benefit) \<Rightarrow>
        \<lparr>rc_selected =
           (case (reason, baseline) of (Some _, Some b) \<Rightarrow> Some (cd_executor_id b) | _ \<Rightarrow> best),
         rc_disposition =
           (case (reason, baseline) of (Some _, Some b) \<Rightarrow> Route_BYPASS_ROUTER | _ \<Rightarrow> Route_SELECTED),
         rc_baseline = map_option cd_executor_id baseline,
         rc_bypass_reason = reason,
         rc_expected_net_benefit = benefit,
         rc_candidates = with_ranks ranked @ rejected_ranking cs\<rparr>)"

definition route ::
  "(rat \<Rightarrow> rat) \<Rightarrow> (rat \<Rightarrow> rat) \<Rightarrow> (rat \<Rightarrow> rat) \<Rightarrow> PolicyConfig \<Rightarrow> ActionContext \<Rightarrow> route_input list
   \<Rightarrow> (ExecutorSpec \<times> RouteEstimate \<times> string) list \<Rightarrow> RouteChoice result" where
  "route to_float log1p nat_log policy cx compatible schema_errors =
     (case score_inputs to_float log1p nat_log policy cx compatible of
        Inl err \<Rightarrow> Err err
      | Inr cs \<Rightarrow> Ok (choose_route log1p policy (cs @ schema_rejections schema_errors)))"

section \<open>Candidates come from inputs\<close>

lemma score_input_feasible:
  assumes "score_input to_float log1p nl policy cx i = Inr c" "cd_feasible c"
  shows "cd_executor_id c = ex_id (ri_spec i)" "ri_inactive i = None"
    "rejection_reasons to_float (ri_spec i) (ri_cold_estimate i) policy cx (ri_quota i) = []"
    "rejection_reasons to_float (ri_spec i) (ri_estimate i) policy cx (ri_quota i) = []"
  using assms
  by (auto simp: score_input_def rejected_candidate_def split: option.splits sum.splits if_splits
      dest: score_candidate_feasible)

lemma score_inputs_in:
  assumes "score_inputs to_float log1p nl policy cx is = Inr cs" "c \<in> set cs"
  shows "\<exists>i \<in> set is. score_input to_float log1p nl policy cx i = Inr c"
  using assms
  by (induction "is" arbitrary: cs) (auto split: sum.splits)

lemma schema_rejections_infeasible: "c \<in> set (schema_rejections errors) \<Longrightarrow> \<not> cd_feasible c"
  by (auto simp: schema_rejections_def rejected_candidate_def)

lemma set_feasible_ranking:
  "set (feasible_ranking cs) = {c \<in> set cs. cd_feasible c \<and> cd_score c \<noteq> None}"
  by (auto simp: feasible_ranking_def)

lemma ranked_input:
  assumes "score_inputs to_float log1p nl policy cx is = Inr cs"
    "c \<in> set (feasible_ranking (cs @ schema_rejections errors))"
  shows "\<exists>i \<in> set is. score_input to_float log1p nl policy cx i = Inr c \<and> cd_feasible c"
  using assms score_inputs_in [OF assms(1)] schema_rejections_infeasible
  by (auto simp: set_feasible_ranking)

lemma hd_is_best:
  assumes "d \<in> set (feasible_ranking cs)"
  shows "total_of (hd (feasible_ranking cs)) \<le> total_of d"
proof -
  have "sorted (List.map (\<lambda>c. (total_of c, cd_executor_id c)) (feasible_ranking cs))"
    by (simp add: feasible_ranking_def)
  then show ?thesis
    using assms by (cases "feasible_ranking cs") auto
qed

section \<open>Which candidate is selected\<close>

lemma score_input_id:
  "score_input to_float log1p nl policy cx i = Inr c \<Longrightarrow> cd_executor_id c = ex_id (ri_spec i)"
  by (auto simp: score_input_def rejected_candidate_def score_candidate_def Let_def
      split: option.splits sum.splits if_splits)

lemma score_inputs_ids:
  "score_inputs to_float log1p nl policy cx is = Inr cs
   \<Longrightarrow> List.map cd_executor_id cs = List.map (\<lambda>i. ex_id (ri_spec i)) is"
  by (induction "is" arbitrary: cs) (auto split: sum.splits dest: score_input_id)

lemma distinct_ranked:
  assumes "score_inputs to_float log1p nl policy cx is = Inr cs"
    "distinct (List.map (\<lambda>i. ex_id (ri_spec i)) is)"
  shows "distinct (List.map cd_executor_id (feasible_ranking (cs @ schema_rejections errors)))"
proof -
  have "List.filter (\<lambda>c. cd_feasible c \<and> cd_score c \<noteq> None) (cs @ schema_rejections errors)
      = List.filter (\<lambda>c. cd_feasible c \<and> cd_score c \<noteq> None) cs"
    using schema_rejections_infeasible by (auto simp: filter_empty_conv)
  then have "feasible_ranking (cs @ schema_rejections errors) = feasible_ranking cs"
    unfolding feasible_ranking_def by simp
  moreover have "distinct (List.map cd_executor_id cs)"
    using assms by (simp add: score_inputs_ids)
  ultimately show ?thesis
    by (simp add: feasible_ranking_def distinct_map inj_on_def)
qed

lemma candidate_with_in: "candidate_with (Some x) cs = Some c \<Longrightarrow> c \<in> set cs \<and> cd_executor_id c = x"
  by (auto simp: candidate_with_def find_Some_iff in_set_conv_nth)

lemma abstain_baseline_in:
  assumes "abstain log1p policy ranked = (Some b, reason, benefit)"
  shows "b \<in> set ranked"
  using assms
  by (auto simp: abstain_def Let_def split: if_splits option.splits list.splits dest: candidate_with_in)

lemma choose_route_fields:
  assumes "abstain log1p policy (feasible_ranking cs) = (baseline, reason, benefit)"
  shows "rc_selected (choose_route log1p policy cs) =
      (case (reason, baseline) of (Some _, Some b) \<Rightarrow> Some (cd_executor_id b)
       | _ \<Rightarrow> (case feasible_ranking cs of [] \<Rightarrow> None | c # _ \<Rightarrow> Some (cd_executor_id c)))"
    "rc_disposition (choose_route log1p policy cs) =
      (case (reason, baseline) of (Some _, Some b) \<Rightarrow> Route_BYPASS_ROUTER | _ \<Rightarrow> Route_SELECTED)"
    "rc_bypass_reason (choose_route log1p policy cs) = reason"
  using assms by (simp_all add: choose_route_def Let_def)

lemma choose_route_candidates:
  "rc_candidates (choose_route log1p policy cs)
     = with_ranks (feasible_ranking cs) @ rejected_ranking cs"
  by (simp add: choose_route_def Let_def split: prod.splits)

lemma selected_in_ranking:
  assumes "rc_selected (choose_route log1p policy cs) = Some x"
  shows "\<exists>c \<in> set (feasible_ranking cs). cd_executor_id c = x"
proof -
  obtain baseline reason benefit where ab: "abstain log1p policy (feasible_ranking cs) = (baseline, reason, benefit)"
    by (cases "abstain log1p policy (feasible_ranking cs)")
  then show ?thesis
    using assms abstain_baseline_in [of log1p policy "feasible_ranking cs"]
    by (cases "feasible_ranking cs") (auto simp: choose_route_fields [OF ab] split: option.splits)
qed

text \<open>
  Candidates that passed the allowed-ids constraint all carry the one allowed id, so there is
  only one of them and the branch for a pinned executor is not reached.
\<close>

lemma pinned_branch_unreachable:
  assumes scored: "score_inputs to_float log1p nl policy cx is = Inr cs"
    and dist: "distinct (List.map (\<lambda>i. ex_id (ri_spec i)) is)"
    and one: "allowed_executor_ids (pol_constraints policy) = Some [eid]"
  shows "length (feasible_ranking (cs @ schema_rejections errors)) \<le> 1"
proof -
  let ?ranked = "feasible_ranking (cs @ schema_rejections errors)"
  have same: "cd_executor_id c = eid" if c: "c \<in> set ?ranked" for c
  proof -
    obtain i where i: "score_input to_float log1p nl policy cx i = Inr c" "cd_feasible c"
      using ranked_input [OF scored c] by blast
    have "access_rejections (pol_constraints policy) (ri_spec i) = []"
      using score_input_feasible(4) [OF i] by (simp add: rejection_reasons_constraints Let_def)
    then show ?thesis
      using one score_input_feasible(1) [OF i] by (simp add: silent listed_def)
  qed
  have "set (List.map cd_executor_id ?ranked) \<subseteq> {eid}"
    using same by auto
  then have "card (set (List.map cd_executor_id ?ranked)) \<le> 1"
    using card_mono [of "{eid}"] by simp
  then show ?thesis
    using distinct_card [OF distinct_ranked [OF scored dist, of errors]] by simp
qed

lemma abstain_not_pinned:
  assumes "\<And>eid. allowed_executor_ids (pol_constraints policy) = Some [eid] \<Longrightarrow> length ranked \<le> 1"
    "abstain log1p policy ranked = (b, reason, benefit)"
  shows "reason \<noteq> Some Bypass_PINNED_EXECUTOR"
  using assms
  by (auto simp: abstain_def Let_def le_Suc_eq split: if_splits option.splits list.splits)

section \<open>The selected route is close to the best\<close>

text \<open>What a bypass may cost: the smallest gain worth routing for, and the routing overhead.\<close>

definition bypass_slack :: "(rat \<Rightarrow> rat) \<Rightarrow> PolicyConfig \<Rightarrow> rat" where
  "bypass_slack log1p policy =
     ra_minimum_score_gain (pol_routing_abstention policy) + overhead_score log1p policy"

lemma bypass_slack_nonneg:
  assumes "log_laws log1p nl" "policy_ok policy"
  shows "0 \<le> bypass_slack log1p policy"
  using assms normalized_nonneg(2) [of "pol_weights policy"]
  by (auto simp: bypass_slack_def overhead_score_def policy_ok_def references_ok_def
      intro!: add_nonneg_nonneg mult_nonneg_nonneg log1p_nonneg [OF assms(1)] divide_nonneg_pos)

lemma baseline_near_best:
  assumes "abstain log1p policy ranked = (Some b, Some reason, benefit)"
    "reason \<noteq> Bypass_PINNED_EXECUTOR" "0 \<le> bypass_slack log1p policy"
  shows "total_of b \<le> total_of (hd ranked) + bypass_slack log1p policy"
  using assms
  by (auto simp: abstain_def bypass_slack_def Let_def split: if_splits option.splits list.splits)

lemma with_ranks_keeps:
  "c' \<in> set (with_ranks cs) \<Longrightarrow>
     \<exists>c \<in> set cs. total_of c = total_of c' \<and> cd_executor_id c = cd_executor_id c'"
  by (force simp: with_ranks_def total_of_def dest: set_zip_rightD)

lemma listed_candidate:
  assumes "c' \<in> set (rc_candidates (choose_route log1p policy cs))" "cd_feasible c'"
  shows "\<exists>c \<in> set (feasible_ranking cs). total_of c = total_of c' \<and> cd_executor_id c = cd_executor_id c'"
  using assms with_ranks_keeps by (auto simp: choose_route_candidates rejected_ranking_def)

lemma chosen_total:
  assumes sel: "rc_selected (choose_route log1p policy cs) = Some (cd_executor_id c)"
    and c: "c \<in> set (feasible_ranking cs)" and d: "d \<in> set (feasible_ranking cs)"
    and dist: "distinct (List.map cd_executor_id (feasible_ranking cs))"
    and pinned: "\<And>eid. allowed_executor_ids (pol_constraints policy) = Some [eid]
                   \<Longrightarrow> length (feasible_ranking cs) \<le> 1"
    and slack: "0 \<le> bypass_slack log1p policy"
  shows "total_of c \<le> total_of d + (if rc_disposition (choose_route log1p policy cs) = Route_SELECTED
    then 0 else bypass_slack log1p policy)"
proof -
  let ?ranked = "feasible_ranking cs"
  obtain baseline reason benefit where ab: "abstain log1p policy ?ranked = (baseline, reason, benefit)"
    by (cases "abstain log1p policy ?ranked")
  have unique: "c = e" if "e \<in> set ?ranked" "cd_executor_id e = cd_executor_id c" for e
    using dist c that by (simp add: distinct_map inj_on_def)
  have first: "?ranked \<noteq> []" "hd ?ranked \<in> set ?ranked"
    using c by (auto intro: hd_in_set)
  show ?thesis
  proof (cases "\<exists>b r. baseline = Some b \<and> reason = Some r")
    case True
    then obtain b r where br: "baseline = Some b" "reason = Some r" by blast
    then have "c = b"
      using sel ab abstain_baseline_in [of log1p policy ?ranked b] by (auto simp: choose_route_fields [OF ab] intro: unique)
    moreover have "total_of b \<le> total_of (hd ?ranked) + bypass_slack log1p policy"
      using ab br abstain_not_pinned [OF pinned ab] by (intro baseline_near_best slack) auto
    ultimately show ?thesis
      using ab br hd_is_best [OF d] by (simp add: choose_route_fields [OF ab])
  next
    case False
    then have "c = hd ?ranked"
      using sel first unique [of "hd ?ranked"]
      by (cases ?ranked) (auto simp: choose_route_fields [OF ab] split: option.splits)
    then show ?thesis
      using ab False hd_is_best [OF d] by (auto simp: choose_route_fields [OF ab] split: option.splits)
  qed
qed

section \<open>Properties\<close>

text \<open>
  C30 The route that is selected is admissible: the executor was active, and neither the policy
  the operator configured nor the constraints of the request give a reason to reject its
  estimate, although the router scores it under the merged constraints only.
\<close>

theorem routed_executor_admissible:
  assumes "route to_float log1p nl (policy_with_constraints policy r) cx is errors = Inr choice"
    "rc_selected choice = Some x"
  shows "\<exists>i \<in> set is. ex_id (ri_spec i) = x \<and> ri_inactive i = None
    \<and> rejection_reasons to_float (ri_spec i) (ri_estimate i) policy cx (ri_quota i) = []
    \<and> rejection_reasons to_float (ri_spec i) (ri_estimate i) (policy\<lparr>pol_constraints := r\<rparr>) cx
        (ri_quota i) = []"
proof -
  obtain cs where cs: "score_inputs to_float log1p nl (policy_with_constraints policy r) cx is = Inr cs"
    and choice: "choice = choose_route log1p (policy_with_constraints policy r)
      (cs @ schema_rejections errors)"
    using assms(1) by (auto simp: route_def split: sum.splits)
  obtain c where c: "c \<in> set (feasible_ranking (cs @ schema_rejections errors))" "cd_executor_id c = x"
    using selected_in_ranking assms(2) unfolding choice by blast
  obtain i where i: "i \<in> set is"
    "score_input to_float log1p nl (policy_with_constraints policy r) cx i = Inr c" "cd_feasible c"
    using ranked_input [OF cs c(1)] by blast
  show ?thesis
    using i(1) c(2) score_input_feasible [OF i(2,3)] merged_rejections by metis
qed

text \<open>
  C32 Routing selects the best feasible candidate, and when it keeps a baseline instead, the
  baseline's total exceeds that of every feasible candidate by no more than the policy's
  minimum gain plus the score of the routing overhead.
\<close>

theorem selected_route_near_best:
  assumes run: "route to_float log1p nl policy cx is errors = Inr choice"
    and dist: "distinct (List.map (\<lambda>i. ex_id (ri_spec i)) is)"
    and ok: "log_laws log1p nl" "policy_ok policy"
    and sel: "c \<in> set (rc_candidates choice)" "cd_feasible c"
      "rc_selected choice = Some (cd_executor_id c)"
    and other: "d \<in> set (rc_candidates choice)" "cd_feasible d"
  shows "total_of c \<le> total_of d + (if rc_disposition choice = Route_SELECTED then 0
    else bypass_slack log1p policy)"
proof -
  obtain cs where cs: "score_inputs to_float log1p nl policy cx is = Inr cs"
    and choice: "choice = choose_route log1p policy (cs @ schema_rejections errors)"
    using run by (auto simp: route_def split: sum.splits)
  obtain c0 d0 where c0: "c0 \<in> set (feasible_ranking (cs @ schema_rejections errors))"
      "total_of c0 = total_of c" "cd_executor_id c0 = cd_executor_id c"
    and d0: "d0 \<in> set (feasible_ranking (cs @ schema_rejections errors))" "total_of d0 = total_of d"
    using listed_candidate sel(1,2) other unfolding choice by metis
  show ?thesis
    using chosen_total [OF _ c0(1) d0(1) distinct_ranked [OF cs dist] _ bypass_slack_nonneg [OF ok]]
      pinned_branch_unreachable [OF cs dist] sel(3)
    unfolding choice c0(2,3) d0(2) by blast
qed

text \<open>
  The reason \<open>PINNED_EXECUTOR\<close> is never reported by \<open>route\<close>: a policy that allows a single
  id rejects every other executor, so at most one candidate is feasible and the branch before
  it already answers.
\<close>

theorem route_never_reports_pinned:
  assumes "route to_float log1p nl policy cx is errors = Inr choice"
    "distinct (List.map (\<lambda>i. ex_id (ri_spec i)) is)"
  shows "rc_bypass_reason choice \<noteq> Some Bypass_PINNED_EXECUTOR"
proof -
  obtain cs where cs: "score_inputs to_float log1p nl policy cx is = Inr cs"
    and choice: "choice = choose_route log1p policy (cs @ schema_rejections errors)"
    using assms(1) by (auto simp: route_def split: sum.splits)
  obtain b reason benefit where ab: "abstain log1p policy
      (feasible_ranking (cs @ schema_rejections errors)) = (b, reason, benefit)"
    by (cases "abstain log1p policy (feasible_ranking (cs @ schema_rejections errors))")
  show ?thesis
    unfolding choice choose_route_fields [OF ab]
    by (rule abstain_not_pinned [OF pinned_branch_unreachable [OF cs assms(2)] ab])
qed

section \<open>Sample\<close>

definition sample_route_inputs :: "route_input list" where
  "sample_route_inputs =
     [\<lparr>ri_spec = sample_spec\<lparr>ex_id := ''summarize.slow''\<rparr>, ri_inactive = None,
       ri_cold_estimate = slower_estimate, ri_estimate = slower_estimate, ri_quota = None\<rparr>,
      \<lparr>ri_spec = sample_spec, ri_inactive = None, ri_cold_estimate = sample_estimate,
       ri_estimate = sample_estimate, ri_quota = None\<rparr>]"

definition sample_policy :: PolicyConfig where
  "sample_policy = policy_with_constraints balanced_policy sample_constraints"

definition sample_candidate :: "ExecutorSpec \<Rightarrow> RouteEstimate \<Rightarrow> CandidateScore" where
  "sample_candidate spec e =
     \<lparr>cd_executor_id = ex_id spec, cd_feasible = True, cd_rejection_reasons = [], cd_estimate = e,
      cd_resource_pool = None,
      cd_score = Some (score_breakdown id id (\<lambda>x. x - 1) spec e sample_policy sample_context no_burden),
      cd_rank = None\<rparr>"

abbreviation sample_slow :: CandidateScore where
  "sample_slow \<equiv> sample_candidate (sample_spec\<lparr>ex_id := ''summarize.slow''\<rparr>) slower_estimate"

abbreviation sample_fast :: CandidateScore where
  "sample_fast \<equiv> sample_candidate sample_spec sample_estimate"

definition sample_choice :: RouteChoice where
  "sample_choice = choose_route id sample_policy [sample_slow, sample_fast]"

lemma rejections_other_id:
  "allowed_executor_ids (pol_constraints policy) = None \<Longrightarrow> denied_executor_ids (pol_constraints policy) = []
   \<Longrightarrow> rejection_reasons to_float (spec\<lparr>ex_id := x\<rparr>) e policy cx None
        = rejection_reasons to_float spec e policy cx None"
  by (simp add: rejection_reasons_def access_rejections_def residency_rejections_def
      sensitivity_rejections_def quota_rejections_def
      cong: option.case_cong if_cong)

lemma sample_scores:
  "score_candidate id id (\<lambda>x. x - 1) (sample_spec\<lparr>ex_id := ''summarize.slow''\<rparr>) slower_estimate
     sample_policy sample_context None = Inr sample_slow"
  "score_candidate id id (\<lambda>x. x - 1) sample_spec sample_estimate sample_policy sample_context None
     = Inr sample_fast"
proof -
  have ids: "allowed_executor_ids (pol_constraints sample_policy) = None"
    "denied_executor_ids (pol_constraints sample_policy) = []"
    by (simp_all add: sample_policy_def policy_with_constraints_def merge_constraints_def
        balanced_policy_def policy_of_def routing_sample_defs intersection_opt_def)
  have pool: "ex_resource_pool sample_spec = None"
    by (simp add: sample_spec_def)
  have accepted: "rejection_reasons id sample_spec slower_estimate sample_policy sample_context None = []"
    "rejection_reasons id sample_spec sample_estimate sample_policy sample_context None = []"
    unfolding sample_policy_def by (rule slower_not_rejected, rule sample_not_rejected)
  show "score_candidate id id (\<lambda>x. x - 1) (sample_spec\<lparr>ex_id := ''summarize.slow''\<rparr>) slower_estimate
     sample_policy sample_context None = Inr sample_slow"
    by (simp add: score_candidate_def Let_def rejections_other_id [OF ids] accepted
        sample_candidate_def subscription_terms_def no_burden_def pool)
  show "score_candidate id id (\<lambda>x. x - 1) sample_spec sample_estimate sample_policy sample_context None
     = Inr sample_fast"
    by (simp add: score_candidate_def Let_def accepted sample_candidate_def subscription_terms_def
        no_burden_def pool)
qed

lemma sample_feasible [simp]: "cd_feasible (sample_candidate spec e)" "cd_score (sample_candidate spec e) \<noteq> None"
  "cd_executor_id (sample_candidate spec e) = ex_id spec"
  by (simp_all add: sample_candidate_def)

lemma sample_route:
  "route id id (\<lambda>x. x - 1) sample_policy sample_context sample_route_inputs [] = Inr sample_choice"
  by (simp add: route_def sample_route_inputs_def score_input_def sample_scores sample_choice_def
      schema_rejections_def)

lemma sample_totals: "total_of sample_fast \<le> total_of sample_slow"
proof -
  have "policy_ok sample_policy"
    by (simp add: sample_policy_def balanced_ok)
  from total_mono [OF sample_routing_ok(1,2) this sample_routing_ok(4) sample_estimates, of no_burden no_burden sample_spec]
  show ?thesis
    by (simp add: total_of_def sample_candidate_def score_breakdown_def locality_adjustment_def
        no_burden_def Let_def)
qed

lemma sample_ranking:
  "feasible_ranking [sample_slow, sample_fast] = [sample_fast, sample_slow]"
  using sample_totals by (auto simp: feasible_ranking_def sample_spec_def)

lemma sample_choice_facts:
  "rc_selected sample_choice = Some ''summarize.http''"
  "rc_candidates sample_choice =
     [sample_fast\<lparr>cd_rank := Some 1\<rparr>, sample_slow\<lparr>cd_rank := Some 2\<rparr>]"
proof -
  have "abstain id sample_policy [sample_fast, sample_slow] = (None, None, None)"
    by (simp add: abstain_def sample_policy_def policy_with_constraints_def merge_constraints_def
        balanced_policy_def policy_of_def routing_sample_defs intersection_opt_def
        default_abstention_def)
  then show "rc_selected sample_choice = Some ''summarize.http''"
    unfolding sample_choice_def
    by (simp add: choose_route_fields sample_ranking) (simp add: sample_spec_def)
  show "rc_candidates sample_choice =
     [sample_fast\<lparr>cd_rank := Some 1\<rparr>, sample_slow\<lparr>cd_rank := Some 2\<rparr>]"
    unfolding sample_choice_def choose_route_candidates sample_ranking
    by (simp add: with_ranks_def rejected_ranking_def)
qed

lemma sample_inputs_distinct: "distinct (List.map (\<lambda>i. ex_id (ri_spec i)) sample_route_inputs)"
  by code_simp

theorem routed_executor_admissible_witness:
  "\<exists>i. i \<in> set sample_route_inputs \<and> ex_id (ri_spec i) = ''summarize.http''
     \<and> rejection_reasons id (ri_spec i) (ri_estimate i) balanced_policy sample_context (ri_quota i) = []
     \<and> rejection_reasons id (ri_spec i) (ri_estimate i)
         (balanced_policy\<lparr>pol_constraints := sample_constraints\<rparr>) sample_context (ri_quota i) = []"
  using routed_executor_admissible [OF sample_route [unfolded sample_policy_def] sample_choice_facts(1)]
  by blast

theorem selected_route_near_best_witness:
  "total_of (rc_candidates sample_choice ! 0)
     \<le> total_of (rc_candidates sample_choice ! 1)
        + (if rc_disposition sample_choice = Route_SELECTED then 0 else bypass_slack id sample_policy)"
proof -
  have "policy_ok sample_policy"
    by (simp add: sample_policy_def balanced_ok)
  from selected_route_near_best [OF sample_route sample_inputs_distinct sample_routing_ok(1) this,
      of "sample_fast\<lparr>cd_rank := Some 1\<rparr>" "sample_slow\<lparr>cd_rank := Some 2\<rparr>"]
  show ?thesis
    by (simp add: sample_choice_facts sample_spec_def)
qed

theorem route_never_reports_pinned_witness:
  "rc_bypass_reason sample_choice \<noteq> Some Bypass_PINNED_EXECUTOR"
  by (rule route_never_reports_pinned [OF sample_route sample_inputs_distinct])

end
