(* ===== verification/Canonical_Decimal.thy ===== *)
theory Canonical_Decimal
  imports Prelude
begin

text \<open>
  How signed records write amounts (\<open>_decimal_text\<close> of \<open>aeep/economic/canonical.py\<close>). A
  finite \<open>Decimal\<close> is the triple of \<open>as_tuple()\<close>: sign, coefficient digits, exponent. The
  text has no exponent, no trailing zero and no leading zero but the one before a point, so
  equal amounts have equal texts, and reading the text back gives the amount.
\<close>

section \<open>Decimals\<close>

datatype Decimal = Dec bool "nat list" int | Dec_special

text \<open>What \<open>as_tuple()\<close> guarantees of a finite decimal.\<close>

fun decimal_ok :: "Decimal \<Rightarrow> bool" where
  "decimal_ok Dec_special = True"
| "decimal_ok (Dec _ ds _) =
     (ds \<noteq> [] \<and> list_all (\<lambda>d. d < 10) ds \<and> (hd ds \<noteq> 0 \<or> ds = [0]))"

definition digits_value :: "nat list \<Rightarrow> nat" where
  "digits_value ds = foldl (\<lambda>n d. 10 * n + d) 0 ds"

definition pow10 :: "int \<Rightarrow> rat" where
  "pow10 e = (if 0 \<le> e then 10 ^ nat e else 1 / 10 ^ nat (- e))"

fun decimal_amount :: "Decimal \<Rightarrow> rat" where
  "decimal_amount Dec_special = 0"
| "decimal_amount (Dec neg ds e) = (if neg then - 1 else 1) * of_nat (digits_value ds) * pow10 e"

section \<open>Writing\<close>

text \<open>The loop that drops trailing zeros of the coefficient.\<close>

function strip_zeros :: "nat list \<Rightarrow> int \<Rightarrow> nat list \<times> int" where
  "strip_zeros ds e =
     (if ds \<noteq> [] \<and> last ds = 0 then strip_zeros (butlast ds) (e + 1) else (ds, e))"
  by pat_completeness auto
termination by (relation "measure (\<lambda>(ds, e). length ds)") simp_all

declare strip_zeros.simps [simp del]

definition digit_char :: "nat \<Rightarrow> char" where
  "digit_char d = char_of (48 + d)"

definition digits_text :: "nat list \<Rightarrow> string" where
  "digits_text ds = List.map digit_char ds"

definition unsigned_text :: "nat list \<Rightarrow> int \<Rightarrow> string" where
  "unsigned_text ds e =
     (if 0 \<le> e then digits_text ds @ replicate (nat e) (CHR ''0'')
      else
        (let point = int (length ds) + e in
         if 0 < point
         then take (nat point) (digits_text ds) @ ''.'' @ drop (nat point) (digits_text ds)
         else ''0.'' @ replicate (nat (- point)) (CHR ''0'') @ digits_text ds))"

fun decimal_text :: "Decimal \<Rightarrow> string result" where
  "decimal_text Dec_special = Err (ValueError ''canonical economic JSON rejects non-finite decimals'')"
| "decimal_text (Dec neg ds e) =
     (if list_all (\<lambda>d. d = 0) ds then
        if neg then Err (ValueError ''canonical economic JSON rejects negative zero'') else Ok ''0''
      else
        (case strip_zeros ds e of
           (ds', e') \<Rightarrow> Ok (if neg then ''-'' @ unsigned_text ds' e' else unsigned_text ds' e')))"

section \<open>Reading\<close>

text \<open>The reference reader: an optional sign, an integer part, an optional fraction.\<close>

definition char_digit :: "char \<Rightarrow> nat" where
  "char_digit c = of_char c - 48"

definition is_digit :: "char \<Rightarrow> bool" where
  "is_digit c = (48 \<le> (of_char c :: nat) \<and> (of_char c :: nat) < 58)"

definition text_value :: "string \<Rightarrow> nat" where
  "text_value s = digits_value (List.map char_digit s)"

definition read_unsigned :: "string \<Rightarrow> rat option" where
  "read_unsigned s =
     (let whole = takeWhile is_digit s; rest = dropWhile is_digit s in
      if whole = [] then None
      else if rest = [] then Some (of_nat (text_value whole))
      else if hd rest = CHR ''.'' \<and> tl rest \<noteq> [] \<and> list_all is_digit (tl rest)
      then Some (of_nat (text_value whole) + of_nat (text_value (tl rest)) / 10 ^ length (tl rest))
      else None)"

definition read_decimal :: "string \<Rightarrow> rat option" where
  "read_decimal s =
     (if s \<noteq> [] \<and> hd s = CHR ''-'' then map_option uminus (read_unsigned (tl s)) else read_unsigned s)"

section \<open>Digits\<close>

lemma digits_value_Nil [simp]: "digits_value [] = 0"
  by (simp add: digits_value_def)

lemma digits_value_snoc [simp]: "digits_value (ds @ [d]) = 10 * digits_value ds + d"
  by (simp add: digits_value_def)

lemma digits_value_append: "digits_value (xs @ ys) = digits_value xs * 10 ^ length ys + digits_value ys"
  by (induction ys rule: rev_induct) (simp_all flip: append_assoc)

lemma digits_value_Cons: "digits_value (d # ds) = d * 10 ^ length ds + digits_value ds"
  using digits_value_append [of "[d]" ds] by (simp add: digits_value_def)

lemma digits_value_replicate [simp]: "digits_value (replicate n 0) = 0"
  by (induction n) (simp_all add: digits_value_Cons)

lemma digits_value_bound: "list_all (\<lambda>d. d < 10) ds \<Longrightarrow> digits_value ds < 10 ^ length ds"
  by (induction ds rule: rev_induct) auto

lemma digits_value_zero_iff: "digits_value ds = 0 \<longleftrightarrow> list_all (\<lambda>d. d = 0) ds"
  by (induction ds) (auto simp: digits_value_Cons)

lemma digit_char_simps [simp]:
  assumes "d < 10"
  shows "char_digit (digit_char d) = d" "is_digit (digit_char d)"
  using assms by (simp_all add: char_digit_def digit_char_def is_digit_def)

lemma digit_char_zero: "CHR ''0'' = digit_char 0"
  by (simp add: digit_char_def char_of_def bit_numeral_rec bit_Suc_0_iff)

lemma digits_text_value:
  assumes "list_all (\<lambda>d. d < 10) ds"
  shows "text_value (digits_text ds) = digits_value ds" "list_all is_digit (digits_text ds)"
proof -
  have "List.map (char_digit \<circ> digit_char) ds = ds"
    using assms by (induction ds) auto
  then show "text_value (digits_text ds) = digits_value ds"
    by (simp add: text_value_def digits_text_def)
  show "list_all is_digit (digits_text ds)"
    using assms by (induction ds) (auto simp: digits_text_def)
qed

lemma pow10_simps: "pow10 0 = 1" "pow10 (int n) = 10 ^ n" "pow10 (- int n) = 1 / 10 ^ n"
  by (auto simp: pow10_def)

lemma pow10_pos [simp]: "0 < pow10 e"
  by (simp add: pow10_def)

lemma pow10_Suc: "pow10 (e + 1) = 10 * pow10 e"
proof (cases "0 \<le> e")
  case True
  then show ?thesis by (simp add: pow10_def nat_add_distrib)
next
  case False
  then have "nat (- e) = Suc (nat (- (e + 1)))" by simp
  then show ?thesis using False by (auto simp: pow10_def)
qed

text \<open>Dropping zeros keeps the amount; what remains ends in a digit that is not zero.\<close>

lemma strip_zeros_amount:
  "strip_zeros ds e = (ds', e') \<Longrightarrow>
     of_nat (digits_value ds') * pow10 e' = of_nat (digits_value ds) * pow10 e"
proof (induction ds e rule: strip_zeros.induct)
  case (1 ds e)
  show ?case
  proof (cases "ds \<noteq> [] \<and> last ds = 0")
    case True
    then have "ds = butlast ds @ [0]"
      by (metis append_butlast_last_id)
    then have "digits_value ds = 10 * digits_value (butlast ds)"
      by (metis digits_value_snoc add_0_right)
    then show ?thesis
      using True 1 by (simp add: strip_zeros.simps [of ds e] pow10_Suc)
  next
    case False
    then show ?thesis
      using 1(2) by (auto simp: strip_zeros.simps [of ds e])
  qed
qed

lemma strip_zeros_shape:
  "strip_zeros ds e = (ds', e') \<Longrightarrow> (ds' = [] \<or> last ds' \<noteq> 0) \<and> (\<exists>n. ds = ds' @ replicate n 0)"
proof (induction ds e rule: strip_zeros.induct)
  case (1 ds e)
  show ?case
  proof (cases "ds \<noteq> [] \<and> last ds = 0")
    case True
    then obtain n where "butlast ds = ds' @ replicate n 0" "ds' = [] \<or> last ds' \<noteq> 0"
      using 1 by (auto simp: strip_zeros.simps [of ds e])
    moreover have "ds = butlast ds @ [0]"
      using True by (metis append_butlast_last_id)
    ultimately have "ds = ds' @ replicate (Suc n) 0"
      by (metis append.assoc replicate_append_same replicate_Suc)
    then show ?thesis
      using \<open>ds' = [] \<or> last ds' \<noteq> 0\<close> by blast
  next
    case False
    then show ?thesis
      using 1(2) by (auto simp: strip_zeros.simps [of ds e] intro: exI [of _ 0])
  qed
qed

section \<open>Reading back\<close>

lemma text_marks [simp]: "\<not> is_digit (CHR ''.'')" "\<not> is_digit (CHR ''-'')"
  by (simp_all add: is_digit_def)

lemma read_whole:
  assumes "list_all (\<lambda>d. d < 10) ds" "ds \<noteq> []"
  shows "read_unsigned (digits_text ds) = Some (of_nat (digits_value ds))"
proof -
  have scan: "takeWhile is_digit (digits_text ds) = digits_text ds" "dropWhile is_digit (digits_text ds) = []"
    using digits_text_value(2) [OF assms(1)] by (simp_all add: list_all_iff)
  have "digits_text ds \<noteq> []"
    using assms(2) by (simp add: digits_text_def)
  then show ?thesis
    using digits_text_value(1) [OF assms(1)] by (simp add: read_unsigned_def Let_def scan del: takeWhile_eq_all_conv dropWhile_eq_Nil_conv)
qed

lemma read_fraction:
  assumes "list_all (\<lambda>d. d < 10) xs" "xs \<noteq> []" "list_all (\<lambda>d. d < 10) ys" "ys \<noteq> []"
  shows "read_unsigned (digits_text xs @ ''.'' @ digits_text ys)
    = Some (of_nat (digits_value (xs @ ys)) / 10 ^ length ys)"
proof -
  have "takeWhile is_digit (digits_text xs @ ''.'' @ digits_text ys) = digits_text xs"
    "dropWhile is_digit (digits_text xs @ ''.'' @ digits_text ys) = ''.'' @ digits_text ys"
    using digits_text_value(2) [OF assms(1)] by (simp_all add: list_all_iff takeWhile_append dropWhile_append)
  moreover have "digits_text xs \<noteq> []" "digits_text ys \<noteq> []" "length (digits_text ys) = length ys"
    using assms(2,4) by (simp_all add: digits_text_def)
  moreover have "of_nat (digits_value (xs @ ys)) / 10 ^ length ys
      = (of_nat (digits_value xs) + of_nat (digits_value ys) / 10 ^ length ys :: rat)"
    by (simp add: digits_value_append add_divide_distrib)
  ultimately show ?thesis
    using digits_text_value [OF assms(1)] digits_text_value [OF assms(3)]
    by (simp add: read_unsigned_def)
qed

lemma zeros_text: "replicate n (CHR ''0'') = digits_text (replicate n 0)" "''0'' = digits_text [0]"
  by (simp_all add: digits_text_def digit_char_zero)

lemma read_unsigned_text:
  assumes "list_all (\<lambda>d. d < 10) ds" "ds \<noteq> []"
  shows "read_unsigned (unsigned_text ds e) = Some (of_nat (digits_value ds) * pow10 e)"
proof -
  have app: "digits_text xs @ digits_text ys = digits_text (xs @ ys)" for xs ys
    by (simp add: digits_text_def)
  consider "0 \<le> e" | "e < 0" "0 < int (length ds) + e" | "e < 0" "int (length ds) + e \<le> 0"
    by linarith
  then show ?thesis
  proof cases
    case 1
    then have "unsigned_text ds e = digits_text (ds @ replicate (nat e) 0)"
      by (simp add: unsigned_text_def zeros_text app)
    moreover have "list_all (\<lambda>d. d < 10) (ds @ replicate (nat e) 0)"
      using assms(1) by (auto simp: list_all_iff)
    ultimately show ?thesis
      using 1 assms(2) by (simp add: read_whole digits_value_append pow10_def)
  next
    case 2
    let ?p = "nat (int (length ds) + e)"
    have p: "0 < ?p" "?p < length ds" "length (drop ?p ds) = nat (- e)"
      using 2 by auto
    have "unsigned_text ds e = digits_text (take ?p ds) @ ''.'' @ digits_text (drop ?p ds)"
      using 2 by (simp add: unsigned_text_def digits_text_def take_map drop_map Let_def)
    moreover have "list_all (\<lambda>d. d < 10) (take ?p ds)" "list_all (\<lambda>d. d < 10) (drop ?p ds)"
      using assms(1) by (auto simp: list_all_iff dest: in_set_takeD in_set_dropD)
    moreover have "take ?p ds \<noteq> []" "drop ?p ds \<noteq> []"
      using p by auto
    ultimately have "read_unsigned (unsigned_text ds e)
        = Some (of_nat (digits_value (take ?p ds @ drop ?p ds)) / 10 ^ length (drop ?p ds))"
      by (simp only: read_fraction not_False_eq_True)
    then show ?thesis
      using 2 unfolding p(3) by (simp add: pow10_def)
  next
    case 3
    let ?z = "nat (- (int (length ds) + e))"
    have len: "length (replicate ?z (0::nat) @ ds) = nat (- e)"
      using 3 by simp
    have "unsigned_text ds e = digits_text [0] @ ''.'' @ digits_text (replicate ?z 0 @ ds)"
      using 3 by (simp add: unsigned_text_def zeros_text(1) Let_def digits_text_def digit_char_zero)
    moreover have "list_all (\<lambda>d. d < 10) (replicate ?z 0 @ ds)"
      using assms(1) by (auto simp: list_all_iff)
    ultimately show ?thesis
      using assms(2) len 3 read_fraction [of "[0]" "replicate ?z 0 @ ds"]
      by (simp add: digits_value_append pow10_def digits_value_Cons)
  qed
qed

lemma unsigned_text_start: "ds \<noteq> [] \<Longrightarrow> list_all (\<lambda>d. d < 10) ds \<Longrightarrow>
    unsigned_text ds e \<noteq> [] \<and> hd (unsigned_text ds e) \<noteq> CHR ''-''"
  using read_unsigned_text [of ds e]
  by (cases "unsigned_text ds e") (auto simp: read_unsigned_def)

lemma strip_zeros_digits:
  assumes "strip_zeros ds e = (ds', e')" "\<not> list_all (\<lambda>d. d = 0) ds" "list_all (\<lambda>d. d < 10) ds"
  shows "ds' \<noteq> []" "list_all (\<lambda>d. d < 10) ds'" "hd ds' = hd ds" "last ds' \<noteq> 0"
proof -
  obtain n where n: "ds = ds' @ replicate n 0" "ds' = [] \<or> last ds' \<noteq> 0"
    using strip_zeros_shape [OF assms(1)] by blast
  show "ds' \<noteq> []"
    using n(1) assms(2) by (auto simp: list_all_iff)
  then show "list_all (\<lambda>d. d < 10) ds'" "hd ds' = hd ds" "last ds' \<noteq> 0"
    using n assms(3) by (auto simp: list_all_iff)
qed

section \<open>One text per amount\<close>

lemma digits_unique_length:
  "length xs = length ys \<Longrightarrow> list_all (\<lambda>d. d < 10) xs \<Longrightarrow> list_all (\<lambda>d. d < 10) ys
   \<Longrightarrow> digits_value xs = digits_value ys \<Longrightarrow> xs = ys"
proof (induction xs arbitrary: ys rule: rev_induct)
  case (snoc x xs)
  then obtain zs y where ys: "ys = zs @ [y]"
    by (cases ys rule: rev_cases) auto
  have "x < 10" "y < 10" "10 * digits_value xs + x = 10 * digits_value zs + y"
    using snoc.prems ys by auto
  then have "x = y" "digits_value xs = digits_value zs"
    by presburger+
  then show ?case
    using snoc ys by auto
qed simp

lemma digits_value_lower:
  assumes "ds \<noteq> []" "hd ds \<noteq> 0"
  shows "10 ^ (length ds - 1) \<le> digits_value ds"
  using assms by (cases ds) (auto simp: digits_value_Cons intro: trans_le_add1)

lemma digits_unique:
  assumes "xs \<noteq> []" "hd xs \<noteq> 0" "list_all (\<lambda>d. d < 10) xs"
    "ys \<noteq> []" "hd ys \<noteq> 0" "list_all (\<lambda>d. d < 10) ys" "digits_value xs = digits_value ys"
  shows "xs = ys"
proof -
  have shorter: "length as \<le> length bs"
    if "as \<noteq> []" "hd as \<noteq> 0" "list_all (\<lambda>d. d < 10) bs" "digits_value as = digits_value bs"
    for as bs :: "nat list"
  proof -
    have "(10::nat) ^ (length as - 1) < 10 ^ length bs"
      using digits_value_lower [OF that(1,2)] digits_value_bound [OF that(3)] that(4) by linarith
    then have "length as - 1 < length bs"
      by (simp add: power_strict_increasing_iff)
    then show ?thesis by linarith
  qed
  show ?thesis
    using digits_unique_length [OF _ assms(3,6,7)] shorter [OF assms(1,2,6,7)]
      shorter [OF assms(4,5,3) assms(7) [symmetric]] by simp
qed

lemma last_digit: "ds \<noteq> [] \<Longrightarrow> list_all (\<lambda>d. d < 10) ds \<Longrightarrow> digits_value ds mod 10 = last ds"
  by (cases ds rule: rev_cases) auto

lemma pow10_add: "0 \<le> k \<Longrightarrow> pow10 (e + k) = 10 ^ nat k * pow10 e"
proof -
  have "pow10 (e + int n) = 10 ^ n * pow10 e" for n
    by (induction n) (use pow10_Suc in \<open>simp_all add: add.assoc [symmetric] add.commute [of 1]\<close>)
  then show "0 \<le> k \<Longrightarrow> pow10 (e + k) = 10 ^ nat k * pow10 e"
    by (metis int_nat_eq)
qed

lemma scaled_unique:
  assumes "n mod 10 \<noteq> 0" "m mod 10 \<noteq> (0::nat)" "of_nat n * pow10 e = of_nat m * pow10 f"
  shows "n = m \<and> e = f"
proof -
  have aux: "a = b \<and> g = h"
    if "a mod 10 \<noteq> 0" "of_nat a * pow10 g = of_nat b * pow10 h" "g \<le> h" for a b :: nat and g h
  proof -
    have "pow10 h = 10 ^ nat (h - g) * pow10 g"
      using pow10_add [of "h - g" g] that(3) by simp
    then have "of_nat a * pow10 g = of_nat (b * 10 ^ nat (h - g)) * pow10 g"
      using that(2) by simp
    then have a: "a = b * 10 ^ nat (h - g)"
      by (metis mult_right_cancel of_nat_eq_iff pow10_pos less_irrefl)
    have "nat (h - g) = 0"
    proof (rule ccontr)
      assume "nat (h - g) \<noteq> 0"
      then have "10 dvd a" unfolding a by simp
      then show False using that(1) by (simp add: dvd_eq_mod_eq_0)
    qed
    then show ?thesis using a that(3) by simp
  qed
  show ?thesis
    using aux [OF assms(1,3)] aux [OF assms(2) assms(3) [symmetric]] by (cases "e \<le> f") auto
qed

lemma strip_zeros_unique:
  assumes ds: "list_all (\<lambda>d. d < 10) ds" "hd ds \<noteq> 0" "ds \<noteq> []"
    and bs: "list_all (\<lambda>d. d < 10) bs" "hd bs \<noteq> 0" "bs \<noteq> []"
    and eq: "of_nat (digits_value ds) * pow10 e = of_nat (digits_value bs) * pow10 f"
  shows "strip_zeros ds e = strip_zeros bs f"
proof -
  obtain ds' e' bs' f' where st: "strip_zeros ds e = (ds', e')" "strip_zeros bs f = (bs', f')"
    by (cases "strip_zeros ds e"; cases "strip_zeros bs f")
  have "\<not> list_all (\<lambda>d. d = 0) ds" "\<not> list_all (\<lambda>d. d = 0) bs"
    using ds bs by (auto simp: list_all_iff)
  note p = strip_zeros_digits [OF st(1) this(1) ds(1)] and q = strip_zeros_digits [OF st(2) this(2) bs(1)]
  have "digits_value ds' mod 10 \<noteq> 0" "digits_value bs' mod 10 \<noteq> 0"
    using p q by (simp_all add: last_digit)
  moreover have "of_nat (digits_value ds') * pow10 e' = of_nat (digits_value bs') * pow10 f'"
    using strip_zeros_amount [OF st(1)] strip_zeros_amount [OF st(2)] eq by simp
  ultimately have "digits_value ds' = digits_value bs'" "e' = f'"
    using scaled_unique by blast+
  moreover from this have "ds' = bs'"
    using p q ds(2) bs(2) by (intro digits_unique) auto
  ultimately show ?thesis
    using st by simp
qed

lemma decimal_text_amount:
  assumes "decimal_ok d" "decimal_text d = Inr t"
  shows "read_decimal t = Some (decimal_amount d)"
proof (cases d)
  case (Dec neg ds e)
  then have ds: "ds \<noteq> []" "list_all (\<lambda>d. d < 10) ds"
    using assms(1) by auto
  show ?thesis
  proof (cases "list_all (\<lambda>d. d = 0) ds")
    case True
    then show ?thesis
      using assms(2) Dec read_whole [of "[0]"] digits_value_zero_iff [of ds]
      by (auto simp: read_decimal_def zeros_text(2) [symmetric] digits_value_Cons split: if_splits)
  next
    case False
    obtain ds' e' where st: "strip_zeros ds e = (ds', e')"
      by (cases "strip_zeros ds e")
    note ds' = strip_zeros_digits [OF st False ds(2)]
    have "t = (if neg then ''-'' @ unsigned_text ds' e' else unsigned_text ds' e')"
      using assms(2) Dec False st by simp
    then show ?thesis
      using read_unsigned_text [OF ds'(2,1), of e'] unsigned_text_start [OF ds'(1,2), of e']
        strip_zeros_amount [OF st] Dec
      by (simp add: read_decimal_def)
  qed
next
  case Dec_special
  then show ?thesis using assms(2) by simp
qed

text \<open>Equal amounts have the same sign, unless they are zero.\<close>

lemma signed_amount_cases:
  assumes "(if neg then - 1 else 1) * x = (if neg' then - 1 else 1) * (y::rat)" "0 < x" "0 < y"
  shows "neg = neg' \<and> x = y"
  using assms by (auto split: if_splits)

lemma decimal_amount_zero: "decimal_amount (Dec neg ds e) = 0 \<longleftrightarrow> digits_value ds = 0"
  using pow10_pos [of e] by (simp del: pow10_pos)

lemma decimal_text_unique:
  assumes ok: "decimal_ok (Dec neg ds e)" "decimal_ok (Dec neg' bs f)"
    and written: "decimal_text (Dec neg ds e) = Inr t" "decimal_text (Dec neg' bs f) = Inr u"
    and eq: "decimal_amount (Dec neg ds e) = decimal_amount (Dec neg' bs f)"
  shows "t = u"
proof (cases "digits_value ds = 0")
  case True
  then have "digits_value bs = 0"
    using eq decimal_amount_zero [of neg ds e] decimal_amount_zero [of neg' bs f] by simp
  with True have "list_all (\<lambda>d. d = 0) ds" "list_all (\<lambda>d. d = 0) bs"
    by (simp_all add: digits_value_zero_iff)
  then show ?thesis
    using written by (auto split: if_splits)
next
  case False
  then have nz: "digits_value bs \<noteq> 0"
    using eq decimal_amount_zero [of neg ds e] decimal_amount_zero [of neg' bs f] by simp
  have "0 < of_nat (digits_value ds) * pow10 e" "0 < of_nat (digits_value bs) * pow10 f"
    using False nz by simp_all
  then have same: "neg = neg'" "of_nat (digits_value ds) * pow10 e = of_nat (digits_value bs) * pow10 f"
    using signed_amount_cases [of neg _ neg'] eq unfolding decimal_amount.simps mult.assoc by blast+
  have heads: "hd ds \<noteq> 0" "hd bs \<noteq> 0" "ds \<noteq> []" "bs \<noteq> []" "list_all (\<lambda>d. d < 10) ds" "list_all (\<lambda>d. d < 10) bs"
    using ok False nz by (auto simp: digits_value_Cons)
  have "strip_zeros ds e = strip_zeros bs f"
    by (rule strip_zeros_unique [OF heads(5,1,3) heads(6,2,4) same(2)])
  then show ?thesis
    using written same(1) False nz by (simp add: digits_value_zero_iff)
qed

text \<open>
  C33 An amount survives the signed text: whenever a decimal can be written canonically,
  reading the text gives the decimal's amount again, digit for digit and sign included.
\<close>

theorem decimal_text_read_back:
  assumes "decimal_ok d" "decimal_text d = Inr t"
  shows "read_decimal t = Some (decimal_amount d)"
  by (rule decimal_text_amount [OF assms])

theorem decimal_text_read_back_witness:
  "read_decimal ''-12.05'' = Some (decimal_amount (Dec True [1, 2, 0, 5, 0, 0] (- 4)))"
proof -
  have "decimal_text (Dec True [1, 2, 0, 5, 0, 0] (- 4)) = Inr ''-12.05''"
    by code_simp
  then show ?thesis
    by (intro decimal_text_read_back) simp_all
qed

text \<open>
  Numerically equal decimals are signed alike: two decimals that can be written have the
  same text exactly when they are the same amount, however many zeros or whatever exponent
  they carry.
\<close>

theorem decimal_text_canonical:
  assumes "decimal_ok d" "decimal_ok b" "decimal_text d = Inr t" "decimal_text b = Inr u"
  shows "t = u \<longleftrightarrow> decimal_amount d = decimal_amount b"
proof
  assume "t = u"
  then show "decimal_amount d = decimal_amount b"
    using decimal_text_amount [OF assms(1,3)] decimal_text_amount [OF assms(2,4)] by simp
next
  assume eq: "decimal_amount d = decimal_amount b"
  obtain neg ds e neg' bs f where d: "d = Dec neg ds e" and b: "b = Dec neg' bs f"
    using assms(3,4) by (cases d; cases b) auto
  show "t = u"
    using decimal_text_unique assms eq unfolding d b by blast
qed

theorem decimal_text_canonical_witness:
  "''12.5'' = ''12.5'' \<longleftrightarrow> decimal_amount (Dec False [1, 2, 5] (- 1)) = decimal_amount (Dec False [1, 2, 5, 0, 0] (- 3))"
proof -
  have "decimal_text (Dec False [1, 2, 5] (- 1)) = Inr ''12.5''"
    "decimal_text (Dec False [1, 2, 5, 0, 0] (- 3)) = Inr ''12.5''"
    by code_simp+
  then show ?thesis
    by (intro decimal_text_canonical) simp_all
qed

end
