(* ===== verification/Canonical_JSON.thy ===== *)
theory Canonical_JSON
  imports Canonical_Decimal
begin

text \<open>
  Canonical serialization of signed records (\<open>aeep/economic/canonical.py\<close>): the three
  conversions of Python values to JSON values, and the bytes that are signed or digested,
  each with its domain prefix. NFC normalization, the RFC 8785 writer, \<open>json.dumps\<close> and
  SHA-256 are arguments; a pydantic model carries the results of its \<open>model_dump\<close> in
  Python and in JSON mode.
\<close>

section \<open>Instants as text\<close>

definition padded :: "nat \<Rightarrow> int \<Rightarrow> string" where
  "padded w n = List.map (\<lambda>i. digit_char (nat (n div 10 ^ (w - 1 - i) mod 10))) [0..<w]"

text \<open>Year, month and day of a day number counted from 1970-01-01.\<close>

definition civil_date :: "int \<Rightarrow> int \<times> int \<times> int" where
  "civil_date day =
     (let z = day + 719468;
          era = z div 146097;
          doe = z mod 146097;
          yoe = (doe - doe div 1460 + doe div 36524 - doe div 146096) div 365;
          doy = doe - (365 * yoe + yoe div 4 - yoe div 100);
          mp = (5 * doy + 2) div 153;
          d = doy - (153 * mp + 2) div 5 + 1;
          m = (if mp < 10 then mp + 3 else mp - 9)
      in (yoe + era * 400 + (if m \<le> 2 then 1 else 0), m, d))"

definition iso_utc :: "int \<Rightarrow> string" where
  "iso_utc t =
     (let us = t mod 86400000000; s = us div 1000000 in
      case civil_date (t div 86400000000) of (y, m, d) \<Rightarrow>
        padded 4 y @ ''-'' @ padded 2 m @ ''-'' @ padded 2 d @ ''T''
        @ padded 2 (s div 3600) @ '':'' @ padded 2 (s div 60 mod 60) @ '':'' @ padded 2 (s mod 60)
        @ ''.'' @ padded 6 (us mod 1000000) @ ''Z'')"

primrec datetime_text :: "datetime \<Rightarrow> string result" where
  "datetime_text (Naive t) =
     Err (ValueError ''canonical economic JSON requires timezone-aware datetimes'')"
| "datetime_text (Aware t) = Ok (iso_utc t)"

section \<open>Values\<close>

datatype json =
    J_null
  | J_bool bool
  | J_int int
  | J_float rat
  | J_string string
  | J_object "(string \<times> json) list"
  | J_array "json list"

text \<open>
  A float is \<open>None\<close> when it is not finite; \<open>P_other\<close> is any type the conversions do not
  name, bytes included.
\<close>

datatype py_value =
    P_none
  | P_bool bool
  | P_int int
  | P_float "rat option"
  | P_decimal Decimal
  | P_datetime datetime
  | P_string string
  | P_enum py_value
  | P_model py_value py_value
  | P_mapping "(py_value \<times> py_value) list"
  | P_sequence "py_value list"
  | P_other string

definition json_text :: "string result \<Rightarrow> json result" where
  "json_text r = (case r of Inl e \<Rightarrow> Err e | Inr t \<Rightarrow> Ok (J_string t))"

abbreviation size_items :: "(py_value \<times> py_value) list \<Rightarrow> nat" where
  "size_items \<equiv> size_list (size_prod size size)"

section \<open>The conversion of signed legacy records\<close>

function normalize :: "(string \<Rightarrow> string) \<Rightarrow> py_value \<Rightarrow> json result"
  and normalize_items ::
    "(string \<Rightarrow> string) \<Rightarrow> (py_value \<times> py_value) list \<Rightarrow> (string \<times> json) list \<Rightarrow> (string \<times> json) list result"
  and normalize_list :: "(string \<Rightarrow> string) \<Rightarrow> py_value list \<Rightarrow> json list result" where
  "normalize nfc P_none = Ok J_null"
| "normalize nfc (P_bool b) = Ok (J_bool b)"
| "normalize nfc (P_int n) = Ok (J_int n)"
| "normalize nfc (P_float x) =
     Err (ValueError ''canonical economic JSON rejects binary floating-point values'')"
| "normalize nfc (P_decimal d) = json_text (decimal_text d)"
| "normalize nfc (P_datetime t) = json_text (datetime_text t)"
| "normalize nfc (P_string s) = Ok (J_string (nfc s))"
| "normalize nfc (P_enum v) = normalize nfc v"
| "normalize nfc (P_model py js) = normalize nfc py"
| "normalize nfc (P_mapping items) =
     (case normalize_items nfc items [] of Inl e \<Rightarrow> Err e | Inr kvs \<Rightarrow> Ok (J_object kvs))"
| "normalize nfc (P_sequence vs) =
     (case normalize_list nfc vs of Inl e \<Rightarrow> Err e | Inr js \<Rightarrow> Ok (J_array js))"
| "normalize nfc (P_other t) = Err (TypeError (''unsupported canonical economic JSON value: '' @ t))"
| "normalize_items nfc [] acc = Ok acc"
| "normalize_items nfc ((k, v) # rest) acc =
     (case k of
        P_string s \<Rightarrow>
          if nfc s \<in> fst ` set acc
          then Err (ValueError ''Unicode normalization produced a duplicate object key'')
          else (case normalize nfc v of
                  Inl e \<Rightarrow> Err e
                | Inr j \<Rightarrow> normalize_items nfc rest (acc @ [(nfc s, j)]))
      | _ \<Rightarrow> Err (TypeError ''canonical economic JSON object keys must be strings''))"
| "normalize_list nfc [] = Ok []"
| "normalize_list nfc (v # vs) =
     (case normalize nfc v of
        Inl e \<Rightarrow> Err e
      | Inr j \<Rightarrow> (case normalize_list nfc vs of Inl e \<Rightarrow> Err e | Inr js \<Rightarrow> Ok (j # js)))"
  by pat_completeness auto
termination
  by (relation "measure (case_sum (\<lambda>(nfc, v). size v)
        (case_sum (\<lambda>(nfc, items, acc). size_items items) (\<lambda>(nfc, vs). size_list size vs)))")
    auto

section \<open>The conversion for RFC 8785\<close>

function json_value :: "py_value \<Rightarrow> json result"
  and json_items :: "(py_value \<times> py_value) list \<Rightarrow> (string \<times> json) list \<Rightarrow> (string \<times> json) list result"
  and json_list :: "py_value list \<Rightarrow> json list result" where
  "json_value P_none = Ok J_null"
| "json_value (P_bool b) = Ok (J_bool b)"
| "json_value (P_int n) = Ok (J_int n)"
| "json_value (P_string s) = Ok (J_string s)"
| "json_value (P_float x) =
     (case x of
        None \<Rightarrow> Err (ValueError ''RFC 8785 canonical JSON rejects non-finite numbers'')
      | Some q \<Rightarrow> Ok (if q = 0 then J_int 0 else J_float q))"
| "json_value (P_decimal d) = json_text (decimal_text d)"
| "json_value (P_datetime t) = json_text (datetime_text t)"
| "json_value (P_enum v) = json_value v"
| "json_value (P_model py js) = json_value js"
| "json_value (P_mapping items) =
     (case json_items items [] of Inl e \<Rightarrow> Err e | Inr kvs \<Rightarrow> Ok (J_object kvs))"
| "json_value (P_sequence vs) =
     (case json_list vs of Inl e \<Rightarrow> Err e | Inr js \<Rightarrow> Ok (J_array js))"
| "json_value (P_other t) = Err (TypeError (''unsupported RFC 8785 JSON value: '' @ t))"
| "json_items [] acc = Ok acc"
| "json_items ((k, v) # rest) acc =
     (case k of
        P_string s \<Rightarrow>
          if s \<in> fst ` set acc
          then Err (ValueError ''RFC 8785 canonical JSON contains a duplicate object key'')
          else (case json_value v of
                  Inl e \<Rightarrow> Err e
                | Inr j \<Rightarrow> json_items rest (acc @ [(s, j)]))
      | _ \<Rightarrow> Err (TypeError ''RFC 8785 canonical JSON object keys must be strings''))"
| "json_list [] = Ok []"
| "json_list (v # vs) =
     (case json_value v of
        Inl e \<Rightarrow> Err e
      | Inr j \<Rightarrow> (case json_list vs of Inl e \<Rightarrow> Err e | Inr js \<Rightarrow> Ok (j # js)))"
  by pat_completeness auto
termination
  by (relation "measure (case_sum size (case_sum (\<lambda>(items, acc). size_items items) (size_list size)))")
    auto

section \<open>The conversion of legacy actions\<close>

text \<open>Actions and policies may hold finite floats, and a zero of either sign is \<open>0\<close>.\<close>

definition action_decimal :: "Decimal \<Rightarrow> string result" where
  "action_decimal d =
     (case d of
        Dec_special \<Rightarrow> Err (ValueError ''canonical action JSON rejects non-finite decimals'')
      | Dec neg ds e \<Rightarrow> if list_all (\<lambda>x. x = 0) ds then Ok ''0'' else decimal_text d)"

function normalize_action :: "(string \<Rightarrow> string) \<Rightarrow> py_value \<Rightarrow> json result"
  and action_items ::
    "(string \<Rightarrow> string) \<Rightarrow> (py_value \<times> py_value) list \<Rightarrow> (string \<times> json) list \<Rightarrow> (string \<times> json) list result"
  and action_list :: "(string \<Rightarrow> string) \<Rightarrow> py_value list \<Rightarrow> json list result" where
  "normalize_action nfc (P_float x) =
     (case x of
        None \<Rightarrow> Err (ValueError ''canonical action JSON rejects non-finite numeric values'')
      | Some q \<Rightarrow> Ok (if q = 0 then J_int 0 else J_float q))"
| "normalize_action nfc P_none = Ok J_null"
| "normalize_action nfc (P_bool b) = Ok (J_bool b)"
| "normalize_action nfc (P_int n) = Ok (J_int n)"
| "normalize_action nfc (P_decimal d) = json_text (action_decimal d)"
| "normalize_action nfc (P_datetime t) = json_text (datetime_text t)"
| "normalize_action nfc (P_string s) = Ok (J_string (nfc s))"
| "normalize_action nfc (P_enum v) = normalize_action nfc v"
| "normalize_action nfc (P_model py js) = normalize_action nfc py"
| "normalize_action nfc (P_mapping items) =
     (case action_items nfc items [] of Inl e \<Rightarrow> Err e | Inr kvs \<Rightarrow> Ok (J_object kvs))"
| "normalize_action nfc (P_sequence vs) =
     (case action_list nfc vs of Inl e \<Rightarrow> Err e | Inr js \<Rightarrow> Ok (J_array js))"
| "normalize_action nfc (P_other t) =
     Err (TypeError (''unsupported canonical action JSON value: '' @ t))"
| "action_items nfc [] acc = Ok acc"
| "action_items nfc ((k, v) # rest) acc =
     (case k of
        P_string s \<Rightarrow>
          if nfc s \<in> fst ` set acc
          then Err (ValueError ''Unicode normalization produced a duplicate object key'')
          else (case normalize_action nfc v of
                  Inl e \<Rightarrow> Err e
                | Inr j \<Rightarrow> action_items nfc rest (acc @ [(nfc s, j)]))
      | _ \<Rightarrow> Err (TypeError ''canonical action JSON object keys must be strings''))"
| "action_list nfc [] = Ok []"
| "action_list nfc (v # vs) =
     (case normalize_action nfc v of
        Inl e \<Rightarrow> Err e
      | Inr j \<Rightarrow> (case action_list nfc vs of Inl e \<Rightarrow> Err e | Inr js \<Rightarrow> Ok (j # js)))"
  by pat_completeness auto
termination
  by (relation "measure (case_sum (\<lambda>(nfc, v). size v)
        (case_sum (\<lambda>(nfc, items, acc). size_items items) (\<lambda>(nfc, vs). size_list size vs)))")
    auto

section \<open>Signed bytes\<close>

datatype Canonicalization = Canon_LEGACY | Canon_JCS

fun version_text :: "Canonicalization \<Rightarrow> string" where
  "version_text Canon_LEGACY = ''aeep-canonical-json-v1''"
| "version_text Canon_JCS = ''rfc8785-jcs-v1''"

definition record_domain :: string where
  "record_domain = ''aeep-economic-record-v2'' @ [CHR 0x00]"

definition action_domain :: string where
  "action_domain = ''aeep-action-binding-v2'' @ [CHR 0x00]"

text \<open>
  \<open>_declared_canonicalization\<close>: the version named by the record's signature, otherwise the
  one its schema version implies.
\<close>

definition declared_canonicalization :: "string option \<Rightarrow> string option \<Rightarrow> Canonicalization" where
  "declared_canonicalization declared schema_version =
     (if declared = Some (version_text Canon_LEGACY) then Canon_LEGACY
      else if declared = Some (version_text Canon_JCS) then Canon_JCS
      else if schema_version = Some ''0.4'' then Canon_LEGACY
      else Canon_JCS)"

definition without_signature :: "py_value \<Rightarrow> py_value" where
  "without_signature v =
     (let unsigned = (\<lambda>w. case w of
            P_mapping items \<Rightarrow> P_mapping (List.filter (\<lambda>(k, x). k \<noteq> P_string ''signature'') items)
          | other \<Rightarrow> other)
      in case v of P_model py js \<Rightarrow> unsigned py | other \<Rightarrow> unsigned other)"

definition record_envelope :: "Canonicalization \<Rightarrow> py_value \<Rightarrow> py_value" where
  "record_envelope version v =
     P_mapping
       [(P_string ''canonicalization_version'', P_string (version_text version)),
        (P_string ''payload'', without_signature v)]"

definition canonical_payload ::
  "(string \<Rightarrow> string) \<Rightarrow> (json \<Rightarrow> string option) \<Rightarrow> (json \<Rightarrow> string) \<Rightarrow> Canonicalization \<Rightarrow> py_value
   \<Rightarrow> string result" where
  "canonical_payload nfc rfc8785 json_dumps version v =
     (case version of
        Canon_JCS \<Rightarrow>
          (case json_value (record_envelope version v) of
             Inl e \<Rightarrow> Err e
           | Inr j \<Rightarrow> (case rfc8785 j of
                        None \<Rightarrow> Err (ValueError ''RFC 8785 canonicalization failed: '')
                      | Some b \<Rightarrow> Ok (record_domain @ b)))
      | Canon_LEGACY \<Rightarrow>
          (case normalize nfc (record_envelope version v) of
             Inl e \<Rightarrow> Err e
           | Inr j \<Rightarrow> Ok (json_dumps j)))"

definition canonical_digest ::
  "(string \<Rightarrow> string) \<Rightarrow> (string \<Rightarrow> string) \<Rightarrow> (json \<Rightarrow> string option) \<Rightarrow> (json \<Rightarrow> string)
   \<Rightarrow> Canonicalization \<Rightarrow> py_value \<Rightarrow> string result" where
  "canonical_digest sha256 nfc rfc8785 json_dumps version v =
     (case canonical_payload nfc rfc8785 json_dumps version v of
        Inl e \<Rightarrow> Err e
      | Inr b \<Rightarrow> Ok (''sha256:'' @ sha256 b))"

definition starts_with :: "string \<Rightarrow> string \<Rightarrow> bool" where
  "starts_with prefix s = (take (length prefix) s = prefix)"

definition payload_matches_canonicalization :: "string \<Rightarrow> Canonicalization \<Rightarrow> bool" where
  "payload_matches_canonicalization payload version =
     (case version of
        Canon_JCS \<Rightarrow> starts_with record_domain payload
      | Canon_LEGACY \<Rightarrow> \<not> starts_with record_domain payload)"

definition action_envelope :: "Canonicalization \<Rightarrow> py_value \<Rightarrow> py_value" where
  "action_envelope version v =
     P_mapping
       [(P_string ''canonicalization_version'', P_string (version_text version)),
        (P_string ''purpose'', P_string ''action-binding''),
        (P_string ''payload'', v)]"

text \<open>The bytes that \<open>canonical_action_digest\<close> hashes.\<close>

definition action_payload ::
  "(string \<Rightarrow> string) \<Rightarrow> (json \<Rightarrow> string option) \<Rightarrow> (json \<Rightarrow> string) \<Rightarrow> Canonicalization \<Rightarrow> py_value
   \<Rightarrow> string result" where
  "action_payload nfc rfc8785 json_dumps version v =
     (case version of
        Canon_JCS \<Rightarrow>
          (case json_value (action_envelope version v) of
             Inl e \<Rightarrow> Err e
           | Inr j \<Rightarrow> (case rfc8785 j of
                        None \<Rightarrow> Err (ValueError ''RFC 8785 action canonicalization failed: '')
                      | Some b \<Rightarrow> Ok (action_domain @ b)))
      | Canon_LEGACY \<Rightarrow>
          (case normalize_action nfc (action_envelope version v) of
             Inl e \<Rightarrow> Err e
           | Inr j \<Rightarrow> Ok (json_dumps j)))"

definition canonical_action_digest ::
  "(string \<Rightarrow> string) \<Rightarrow> (string \<Rightarrow> string) \<Rightarrow> (json \<Rightarrow> string option) \<Rightarrow> (json \<Rightarrow> string)
   \<Rightarrow> Canonicalization \<Rightarrow> py_value \<Rightarrow> string result" where
  "canonical_action_digest sha256 nfc rfc8785 json_dumps version v =
     (case action_payload nfc rfc8785 json_dumps version v of
        Inl e \<Rightarrow> Err e
      | Inr b \<Rightarrow> Ok (''sha256:'' @ sha256 b))"

end
