(* ===== verification/Canonical_Laws.thy ===== *)
theory Canonical_Laws
  imports Canonical_JSON
begin

text \<open>
  What signing relies on: the legacy conversion yields values without binary floats, without
  duplicate keys and in normal form, and applying it again changes nothing; payloads of the two
  canonicalization versions, and of records and actions, cannot be confused.
\<close>

section \<open>Signed values\<close>

fun signed_json :: "(string \<Rightarrow> string) \<Rightarrow> json \<Rightarrow> bool" where
  "signed_json nfc J_null = True"
| "signed_json nfc (J_bool b) = True"
| "signed_json nfc (J_int n) = True"
| "signed_json nfc (J_float q) = False"
| "signed_json nfc (J_string s) = (nfc s = s)"
| "signed_json nfc (J_object kvs) =
     (distinct (List.map fst kvs)
      \<and> (\<forall>p \<in> set kvs. nfc (fst p) = fst p \<and> signed_json nfc (snd p)))"
| "signed_json nfc (J_array js) = (\<forall>j \<in> set js. signed_json nfc j)"

text \<open>Decimals of a value are decimals as Python represents them.\<close>

fun py_ok :: "py_value \<Rightarrow> bool" where
  "py_ok (P_decimal d) = decimal_ok d"
| "py_ok (P_enum v) = py_ok v"
| "py_ok (P_model py js) = (py_ok py \<and> py_ok js)"
| "py_ok (P_mapping items) = (\<forall>p \<in> set items. py_ok (snd p))"
| "py_ok (P_sequence vs) = (\<forall>v \<in> set vs. py_ok v)"
| "py_ok v = True"

fun py_of_json :: "json \<Rightarrow> py_value" where
  "py_of_json J_null = P_none"
| "py_of_json (J_bool b) = P_bool b"
| "py_of_json (J_int n) = P_int n"
| "py_of_json (J_float q) = P_float (Some q)"
| "py_of_json (J_string s) = P_string s"
| "py_of_json (J_object kvs) = P_mapping (List.map (\<lambda>p. (P_string (fst p), py_of_json (snd p))) kvs)"
| "py_of_json (J_array js) = P_sequence (List.map py_of_json js)"

definition ascii_text :: "string \<Rightarrow> bool" where
  "ascii_text s = list_all (\<lambda>c. (of_char c :: nat) < 128) s"

text \<open>Documented behaviour of NFC: normalized text is a fixpoint, and so is ASCII text.\<close>

definition nfc_laws :: "(string \<Rightarrow> string) \<Rightarrow> bool" where
  "nfc_laws nfc = ((\<forall>s. nfc (nfc s) = nfc s) \<and> (\<forall>s. ascii_text s \<longrightarrow> nfc s = s))"

section \<open>Amounts and instants are ASCII\<close>

lemma ascii_append [simp]: "ascii_text (s @ t) \<longleftrightarrow> ascii_text s \<and> ascii_text t"
  by (simp add: ascii_text_def)

lemma ascii_Cons [simp]: "ascii_text (c # s) \<longleftrightarrow> (of_char c :: nat) < 128 \<and> ascii_text s"
  and ascii_Nil [simp]: "ascii_text []"
  by (simp_all add: ascii_text_def)

lemma ascii_replicate [simp]: "(of_char c :: nat) < 128 \<Longrightarrow> ascii_text (replicate n c)"
  by (induction n) simp_all

lemma ascii_take_drop: "ascii_text s \<Longrightarrow> ascii_text (take n s)" "ascii_text s \<Longrightarrow> ascii_text (drop n s)"
  by (auto simp: ascii_text_def list_all_iff dest: in_set_takeD in_set_dropD)

lemma ascii_digits: "list_all (\<lambda>d. d < 10) ds \<Longrightarrow> ascii_text (digits_text ds)"
  by (induction ds) (auto simp: digits_text_def digit_char_def)

lemma ascii_unsigned: "list_all (\<lambda>d. d < 10) ds \<Longrightarrow> ascii_text (unsigned_text ds e)"
  using ascii_digits [of ds] by (simp add: unsigned_text_def Let_def ascii_take_drop)

lemma ascii_decimal:
  assumes "decimal_ok d" "decimal_text d = Inr t"
  shows "ascii_text t"
proof (cases d)
  case (Dec neg ds e)
  obtain ds' e' where st: "strip_zeros ds e = (ds', e')"
    by (cases "strip_zeros ds e")
  show ?thesis
  proof (cases "list_all (\<lambda>d. d = 0) ds")
    case True
    then show ?thesis using assms(2) Dec by (auto split: if_splits)
  next
    case False
    then have "list_all (\<lambda>d. d < 10) ds'"
      using strip_zeros_digits(2) [OF st] assms(1) Dec by simp
    from ascii_unsigned [OF this, of e'] show ?thesis
      using assms(2) Dec False st by (auto split: if_splits)
  qed
next
  case Dec_special
  then show ?thesis using assms(2) by simp
qed

lemma ascii_padded: "ascii_text (padded w n)"
proof -
  have "ascii_text (List.map (\<lambda>i. digit_char (nat (f i mod 10))) xs)" for f :: "nat \<Rightarrow> int" and xs
  proof (induction xs)
    case (Cons x xs)
    have "nat (f x mod 10) < 10" by simp
    then have "(of_char (digit_char (nat (f x mod 10))) :: nat) < 128"
      by (simp add: digit_char_def)
    then show ?case using Cons by simp
  qed simp
  then show ?thesis by (simp add: padded_def)
qed

lemma ascii_datetime: "datetime_text t = Inr s \<Longrightarrow> ascii_text s"
  by (cases t) (auto simp: iso_utc_def Let_def ascii_padded split: prod.splits)

section \<open>The conversion normalizes\<close>

lemma nfc_idem: "nfc_laws nfc \<Longrightarrow> nfc (nfc s) = nfc s"
  and nfc_ascii: "nfc_laws nfc \<Longrightarrow> ascii_text s \<Longrightarrow> nfc s = s"
  by (simp_all add: nfc_laws_def)

lemma normalize_signed:
  fixes nfc :: "string \<Rightarrow> string"
  shows "nfc_laws nfc \<Longrightarrow> py_ok v \<Longrightarrow> normalize nfc v = Inr j \<Longrightarrow> signed_json nfc j"
    and "nfc_laws nfc \<Longrightarrow> (\<forall>p \<in> set items. py_ok (snd p)) \<Longrightarrow> signed_json nfc (J_object acc)
      \<Longrightarrow> normalize_items nfc items acc = Inr kvs \<Longrightarrow> signed_json nfc (J_object kvs)"
    and "nfc_laws nfc \<Longrightarrow> (\<forall>v \<in> set vs. py_ok v) \<Longrightarrow> normalize_list nfc vs = Inr js
      \<Longrightarrow> \<forall>j \<in> set js. signed_json nfc j"
proof (induction nfc v and nfc items acc and nfc vs arbitrary: j and kvs and js
    rule: normalize_normalize_items_normalize_list.induct)
  case (5 nfc d)
  then show ?case
    by (auto simp: json_text_def split: sum.splits dest: ascii_decimal nfc_ascii)
next
  case (6 nfc t)
  then show ?case
    by (auto simp: json_text_def split: sum.splits dest: ascii_datetime nfc_ascii)
next
  case (7 nfc s)
  then show ?case
    by (auto simp: nfc_idem)
next
  case (10 nfc items)
  then show ?case
    by (auto split: sum.splits)
next
  case (14 nfc k v rest acc)
  then obtain s where s: "k = P_string s"
    by (cases k) auto
  with 14(6) obtain x where x: "nfc s \<notin> fst ` set acc" "normalize nfc v = Inr x"
    "normalize_items nfc rest (acc @ [(nfc s, x)]) = Inr kvs"
    by (auto split: if_splits sum.splits)
  have "signed_json nfc x"
    by (rule 14(1) [OF s x(1) 14(3) _ x(2)]) (use 14(4) in simp)
  then have acc: "signed_json nfc (J_object (acc @ [(nfc s, x)]))"
    using 14(5) x(1) nfc_idem [OF 14(3)] by auto
  have "\<forall>p \<in> set rest. py_ok (snd p)"
    using 14(4) by simp
  from 14(2) [OF s x(1,2) 14(3) this acc x(3)] show ?case .
qed (auto split: sum.splits)

lemma normalize_items_fixpoint:
  assumes "\<And>p. p \<in> set kvs \<Longrightarrow> normalize nfc (py_of_json (snd p)) = Inr (snd p) \<and> nfc (fst p) = fst p"
    "distinct (List.map fst (acc @ kvs))"
  shows "normalize_items nfc (List.map (\<lambda>p. (P_string (fst p), py_of_json (snd p))) kvs) acc
    = Inr (acc @ kvs)"
  using assms
proof (induction kvs arbitrary: acc)
  case (Cons p kvs)
  then have "normalize nfc (py_of_json (snd p)) = Inr (snd p)" "nfc (fst p) = fst p"
    "fst p \<notin> fst ` set acc"
    by auto
  then show ?case
    using Cons.IH [of "acc @ [p]"] Cons.prems by simp
qed simp

lemma normalize_list_fixpoint:
  assumes "\<And>j. j \<in> set js \<Longrightarrow> normalize nfc (py_of_json j) = Inr j"
  shows "normalize_list nfc (List.map py_of_json js) = Inr js"
  using assms by (induction js) auto

lemma normalize_fixpoint: "signed_json nfc j \<Longrightarrow> normalize nfc (py_of_json j) = Inr j"
proof (induction nfc j rule: signed_json.induct)
  case (6 nfc kvs)
  then show ?case
    using normalize_items_fixpoint [of kvs nfc "[]"] by simp
next
  case (7 nfc js)
  then show ?case
    using normalize_list_fixpoint [of js nfc] by simp
qed auto

text \<open>
  C34 What the legacy conversion lets through to be signed has no binary float, no duplicate
  key and no text outside normal form, and it is stable: converting the parsed result again
  gives the same value.
\<close>

theorem signed_value_normal:
  assumes "nfc_laws nfc" "py_ok v" "normalize nfc v = Inr j"
  shows "signed_json nfc j \<and> normalize nfc (py_of_json j) = Inr j"
  using normalize_signed(1) [OF assms] normalize_fixpoint by blast

definition sample_record :: py_value where
  "sample_record =
     P_model
       (P_mapping
         [(P_string ''price'', P_decimal (Dec False [1, 5, 0] (- 1))),
          (P_string ''at'', P_datetime (Aware 1700000000000000)),
          (P_string ''tags'', P_sequence [P_enum (P_string ''paid''), P_none]),
          (P_string ''signature'', P_none)])
       P_none"

lemma sample_record_value:
  "normalize id sample_record = Inr (J_object
     [(''price'', J_string ''15''), (''at'', J_string ''2023-11-14T22:13:20.000000Z''),
      (''tags'', J_array [J_string ''paid'', J_null]), (''signature'', J_null)])"
  by code_simp

theorem signed_value_normal_witness:
  "signed_json id (J_object
     [(''price'', J_string ''15''), (''at'', J_string ''2023-11-14T22:13:20.000000Z''),
      (''tags'', J_array [J_string ''paid'', J_null]), (''signature'', J_null)])
   \<and> normalize id (py_of_json (J_object
     [(''price'', J_string ''15''), (''at'', J_string ''2023-11-14T22:13:20.000000Z''),
      (''tags'', J_array [J_string ''paid'', J_null]), (''signature'', J_null)]))
     = Inr (J_object
     [(''price'', J_string ''15''), (''at'', J_string ''2023-11-14T22:13:20.000000Z''),
      (''tags'', J_array [J_string ''paid'', J_null]), (''signature'', J_null)])"
proof -
  have "nfc_laws id" "py_ok sample_record"
    by (simp_all add: nfc_laws_def sample_record_def)
  from signed_value_normal [OF this sample_record_value] show ?thesis .
qed

section \<open>Payloads that cannot be confused\<close>

text \<open>Documented behaviour of \<open>json.dumps\<close>: an object is written between braces.\<close>

definition dumps_law :: "(json \<Rightarrow> string) \<Rightarrow> bool" where
  "dumps_law json_dumps = (\<forall>kvs. starts_with ''{'' (json_dumps (J_object kvs)))"

lemma starts_with_append [simp]: "starts_with p (p @ s)"
  by (simp add: starts_with_def)

lemma starts_with_nth: "starts_with p s \<Longrightarrow> i < length p \<Longrightarrow> s ! i = p ! i"
  by (metis starts_with_def nth_take)

lemma brace_not_domain:
  assumes "starts_with ''{'' s"
  shows "\<not> starts_with record_domain s" "\<not> starts_with action_domain s"
  using assms by (cases s; simp add: starts_with_def record_domain_def action_domain_def)+

lemma normalize_mapping_object:
  "normalize nfc (P_mapping items) = Inr j \<Longrightarrow> \<exists>kvs. j = J_object kvs"
  by (auto split: sum.splits)

lemma legacy_payload_brace:
  assumes "dumps_law json_dumps" "canonical_payload nfc rfc8785 json_dumps Canon_LEGACY v = Inr b"
  shows "starts_with ''{'' b"
  using assms
  by (auto simp: canonical_payload_def record_envelope_def dumps_law_def split: sum.splits)

lemma jcs_payload_domain:
  assumes "canonical_payload nfc rfc8785 json_dumps Canon_JCS v = Inr b"
  shows "starts_with record_domain b"
  using assms by (auto simp: canonical_payload_def split: sum.splits option.splits)

text \<open>
  C35 A signature cannot be checked under the wrong canonicalization: the bytes signed under
  one version match that version and no other.
\<close>

theorem payload_version_unambiguous:
  assumes "dumps_law json_dumps" "canonical_payload nfc rfc8785 json_dumps version v = Inr b"
  shows "payload_matches_canonicalization b other \<longleftrightarrow> version = other"
  using assms jcs_payload_domain brace_not_domain(1) legacy_payload_brace
  by (cases version; cases other) (auto simp: payload_matches_canonicalization_def)

theorem payload_version_unambiguous_witness:
  "payload_matches_canonicalization (record_domain @ ''[]'') Canon_LEGACY \<longleftrightarrow> Canon_JCS = Canon_LEGACY"
proof -
  have "dumps_law (\<lambda>_. ''{}'')"
    by (simp add: dumps_law_def starts_with_def)
  moreover have "canonical_payload id (\<lambda>_. Some ''[]'') (\<lambda>_. ''{}'') Canon_JCS (P_mapping [])
      = Inr (record_domain @ ''[]'')"
    by code_simp
  ultimately show ?thesis
    by (rule payload_version_unambiguous)
qed

text \<open>
  An action binding is never a signed record: the bytes hashed for an action under RFC 8785
  differ from the signed bytes of every record, whichever version the record uses.
\<close>

theorem action_never_record:
  assumes "dumps_law json_dumps" "action_payload nfc rfc8785 json_dumps Canon_JCS a = Inr x"
    "canonical_payload nfc rfc8785 json_dumps version v = Inr y"
  shows "x \<noteq> y"
proof -
  have x: "starts_with action_domain x"
    using assms(2) by (auto simp: action_payload_def split: sum.splits option.splits)
  have "\<not> starts_with action_domain y"
  proof (cases version)
    case Canon_LEGACY
    then show ?thesis
      using legacy_payload_brace [OF assms(1)] assms(3) brace_not_domain(2) by blast
  next
    case Canon_JCS
    then have "starts_with record_domain y"
      using jcs_payload_domain assms(3) by blast
    moreover have "record_domain ! 5 \<noteq> action_domain ! 5" "5 < length record_domain" "5 < length action_domain"
      by (simp_all add: record_domain_def action_domain_def)
    ultimately show ?thesis
      by (metis starts_with_nth)
  qed
  then show ?thesis using x by blast
qed

theorem action_never_record_witness:
  "action_domain @ ''[]'' \<noteq> record_domain @ ''[]''"
proof -
  have "dumps_law (\<lambda>_. ''{}'')"
    by (simp add: dumps_law_def starts_with_def)
  moreover have "canonical_payload id (\<lambda>_. Some ''[]'') (\<lambda>_. ''{}'') Canon_JCS (P_mapping [])
      = Inr (record_domain @ ''[]'')"
    "action_payload id (\<lambda>_. Some ''[]'') (\<lambda>_. ''{}'') Canon_JCS (P_mapping []) = Inr (action_domain @ ''[]'')"
    by code_simp+
  ultimately show ?thesis
    by (intro action_never_record)
qed

end
