(* ===== verification/Refund_Store.thy ===== *)
theory Refund_Store
  imports Store
begin

text \<open>
  The refund ledger of \<open>ReceiptStore\<close> (\<open>aeep/store.py\<close>): authorizations that reserve
  refundable capture before the payment rail is called, their completion by a refund
  receipt, indeterminate and released authorizations, and imported receipts. Then its
  contract: completed and pending refunds of a settlement never exceed its capture.
\<close>

section \<open>Operations\<close>

definition pending_refund :: "refund_authorization \<Rightarrow> bool" where
  "pending_refund r = (ra_state r \<in> {Ref_AUTHORIZED, Ref_INDETERMINATE})"

definition refunded_amount :: "string \<Rightarrow> RefundReceiptV2 list \<Rightarrow> rat" where
  "refunded_amount sid rs =
     sum_list (map (\<lambda>r. amount (rr_amount r)) (filter (\<lambda>r. rr_settlement_id r = sid) rs))"

text \<open>The pending amount, leaving out the authorization that is being completed.\<close>

definition pending_amount :: "string option \<Rightarrow> string \<Rightarrow> refund_authorization list \<Rightarrow> rat" where
  "pending_amount without sid rs =
     sum_list (map (\<lambda>r. amount (ra_amount r))
       (filter (\<lambda>r. ra_settlement_id r = sid \<and> pending_refund r
                  \<and> opt_all (\<lambda>i. ra_refund_id r \<noteq> i) without) rs))"

definition find_settlement :: "string \<Rightarrow> store \<Rightarrow> SettlementReceipt option" where
  "find_settlement sid s = select_row (\<lambda>x. sr_settlement_id x = sid) (settlement_receipts s)"

definition insert_refund_receipt_locked ::
  "RefundReceiptV2 \<Rightarrow> string option \<Rightarrow> store \<Rightarrow> unit result \<times> store"
where
  "insert_refund_receipt_locked r completing s =
     (case select_row (\<lambda>x. rr_refund_id x = rr_refund_id r
             \<or> rr_idempotency_key x = rr_idempotency_key r) (refund_receipts s) of
        Some x \<Rightarrow>
          if x \<noteq> r
          then (Err (ConfigurationError
                 ''refund ID or idempotency key was reused with different content''), s)
          else (Ok (), s)
      | None \<Rightarrow>
          (case find_settlement (rr_settlement_id r) s of
             None \<Rightarrow> (Err (ConfigurationError ''refund settlement does not exist''), s)
           | Some st \<Rightarrow>
               if sr_charge_id st \<noteq> rr_charge_id r
               then (Err (ConfigurationError ''refund charge does not match settlement charge''), s)
               else if currency (sr_captured_amount st) \<noteq> currency (rr_amount r)
               then (Err (ConfigurationError
                      ''refund currency does not match settlement currency''), s)
               else if refunded_amount (rr_settlement_id r) (refund_receipts s)
                       + pending_amount completing (rr_settlement_id r) (refund_authorizations s)
                       + amount (rr_amount r) > amount (sr_captured_amount st)
               then (Err (ConfigurationError ''refund exceeds captured settlement amount''), s)
               else case immutable_insert_locked
                      (\<lambda>x y. rr_refund_id x = rr_refund_id y
                           \<or> rr_idempotency_key x = rr_idempotency_key y)
                      (\<lambda>x. rr_refund_id x = rr_refund_id r) r (refund_receipts s) of
                 (Inl e, t) \<Rightarrow> (Err e, s\<lparr>refund_receipts := t\<rparr>)
               | (Inr _, t) \<Rightarrow> (Ok (), s\<lparr>refund_receipts := t\<rparr>)))"

definition save_refund_receipt_v2 :: "RefundReceiptV2 \<Rightarrow> store \<Rightarrow> RefundReceiptV2 result \<times> store" where
  "save_refund_receipt_v2 r = immediate_transaction (\<lambda>s.
     case insert_refund_receipt_locked r None s of
       (Inl e, s') \<Rightarrow> (Err e, s') | (Inr _, s') \<Rightarrow> (Ok r, s'))"

definition refund_identifiers_ok :: "string \<Rightarrow> string \<Rightarrow> string \<Rightarrow> bool" where
  "refund_identifiers_ok refund_id key digest =
     (text_len 1 200 refund_id \<and> text_len 1 256 key \<and> length digest = 71
      \<and> take 7 digest = ''sha256:'')"

definition get_refund_authorization_v2 :: "string \<Rightarrow> store \<Rightarrow> refund_authorization option" where
  "get_refund_authorization_v2 rid s =
     select_row (\<lambda>x. ra_refund_id x = rid) (refund_authorizations s)"

definition authorize_refund_v2 ::
  "string \<Rightarrow> string \<Rightarrow> CurrencyAmount \<Rightarrow> string \<Rightarrow> string \<Rightarrow> datetime \<Rightarrow> store
    \<Rightarrow> refund_authorization result \<times> store"
where
  "authorize_refund_v2 refund_id sid value key digest authorized_at s =
     (if amount value \<le> 0
      then (Err (ConfigurationError ''refund authorization amount must be positive''), s)
      else if \<not> refund_identifiers_ok refund_id key digest
      then (Err (ConfigurationError ''refund authorization identifiers must be non-empty''), s)
      else case aware_or_error authorized_at of
        Inl e \<Rightarrow> (Err e, s)
      | Inr _ \<Rightarrow> immediate_transaction (\<lambda>s.
          case select_row (\<lambda>x. ra_refund_id x = refund_id \<or> ra_idempotency_key x = key)
                 (refund_authorizations s) of
            Some x \<Rightarrow>
              if ra_refund_id x \<noteq> refund_id \<or> ra_settlement_id x \<noteq> sid \<or> ra_amount x \<noteq> value
                 \<or> ra_idempotency_key x \<noteq> key \<or> ra_request_digest x \<noteq> digest
              then (Err (ConfigurationError
                     ''refund authorization ID or idempotency key conflicts''), s)
              else (Ok x, s)
          | None \<Rightarrow>
              (case find_settlement sid s of
                 None \<Rightarrow> (Err (ConfigurationError ''refund settlement does not exist''), s)
               | Some st \<Rightarrow>
                   if currency (sr_captured_amount st) \<noteq> currency value
                   then (Err (ConfigurationError
                          ''refund currency does not match settlement currency''), s)
                   else if refunded_amount sid (refund_receipts s)
                           + pending_amount None sid (refund_authorizations s)
                           + amount value > amount (sr_captured_amount st)
                   then (Err (ConfigurationError ''refund exceeds unrefunded captured amount''), s)
                   else
                     let s' = s\<lparr>refund_authorizations := refund_authorizations s @
                           [\<lparr>ra_refund_id = refund_id, ra_settlement_id = sid,
                             ra_charge_id = sr_charge_id st, ra_amount = value,
                             ra_idempotency_key = key, ra_request_digest = digest,
                             ra_state = Ref_AUTHORIZED, ra_authorized_at = authorized_at,
                             ra_updated_at = authorized_at\<rparr>]\<rparr> in
                     case get_refund_authorization_v2 refund_id s' of
                       None \<Rightarrow> (Err (TypeError ''NoneType is not subscriptable''), s')
                     | Some row \<Rightarrow> (Ok row, s'))) s)"

definition complete_refund_v2 :: "RefundReceiptV2 \<Rightarrow> store \<Rightarrow> RefundReceiptV2 result \<times> store" where
  "complete_refund_v2 r = immediate_transaction (\<lambda>s.
     case select_row (\<lambda>x. ra_refund_id x = rr_refund_id r
            \<or> ra_idempotency_key x = rr_idempotency_key r) (refund_authorizations s) of
       None \<Rightarrow> (Err (ConfigurationError
                ''refund was not authorized before external execution''), s)
     | Some a \<Rightarrow>
         if ra_refund_id a \<noteq> rr_refund_id r \<or> ra_settlement_id a \<noteq> rr_settlement_id r
            \<or> ra_charge_id a \<noteq> rr_charge_id r \<or> ra_amount a \<noteq> rr_amount r
            \<or> ra_idempotency_key a \<noteq> rr_idempotency_key r
         then (Err (ConfigurationError ''refund receipt does not match its authorization''), s)
         else if ra_state a = Ref_RELEASED
         then (Err (ConfigurationError ''released refund authorization cannot complete''), s)
         else case insert_refund_receipt_locked r (Some (rr_refund_id r)) s of
           (Inl e, s') \<Rightarrow> (Err e, s')
         | (Inr _, s') \<Rightarrow>
             (Ok r, s'\<lparr>refund_authorizations := update_rows
                (\<lambda>x. ra_refund_id x = rr_refund_id r
                   \<and> ra_state x \<in> {Ref_AUTHORIZED, Ref_INDETERMINATE, Ref_COMPLETED})
                (\<lambda>x. x\<lparr>ra_state := Ref_COMPLETED, ra_updated_at := rr_refunded_at r\<rparr>)
                (refund_authorizations s')\<rparr>))"

definition mark_refund_authorization_indeterminate ::
  "string \<Rightarrow> datetime \<Rightarrow> store \<Rightarrow> refund_authorization result \<times> store"
where
  "mark_refund_authorization_indeterminate rid updated_at s =
     (case aware_or_error updated_at of
        Inl e \<Rightarrow> (Err e, s)
      | Inr _ \<Rightarrow> immediate_transaction (\<lambda>s.
          let hit = (\<lambda>x. ra_refund_id x = rid \<and> ra_state x \<in> {Ref_AUTHORIZED, Ref_INDETERMINATE});
              s' = s\<lparr>refund_authorizations := update_rows hit
                (\<lambda>x. x\<lparr>ra_state := Ref_INDETERMINATE, ra_updated_at := updated_at\<rparr>)
                (refund_authorizations s)\<rparr> in
          case get_refund_authorization_v2 rid s' of
            None \<Rightarrow> (Err (ConfigurationError
                     ''refund authorization cannot become indeterminate''), s')
          | Some row \<Rightarrow>
              if rowcount hit (refund_authorizations s) \<noteq> 1
              then (Err (ConfigurationError
                     ''refund authorization cannot become indeterminate''), s')
              else (Ok row, s')) s)"

definition release_refund_authorization_v2 ::
  "string \<Rightarrow> string \<Rightarrow> datetime \<Rightarrow> store \<Rightarrow> refund_authorization result \<times> store"
where
  "release_refund_authorization_v2 rid digest released_at s =
     (case aware_or_error released_at of
        Inl e \<Rightarrow> (Err e, s)
      | Inr _ \<Rightarrow> immediate_transaction (\<lambda>s.
          case get_refund_authorization_v2 rid s of
            None \<Rightarrow> (Err (ConfigurationError ''refund authorization does not exist''), s)
          | Some row \<Rightarrow>
              if ra_request_digest row \<noteq> digest
              then (Err (ConfigurationError
                     ''refund authorization request digest conflicts''), s)
              else if ra_state row = Ref_COMPLETED
              then (Err (ConfigurationError
                     ''completed refund authorization cannot be released''), s)
              else
                let s' = s\<lparr>refund_authorizations := update_rows
                  (\<lambda>x. ra_refund_id x = rid
                     \<and> ra_state x \<in> {Ref_AUTHORIZED, Ref_INDETERMINATE, Ref_RELEASED})
                  (\<lambda>x. x\<lparr>ra_state := Ref_RELEASED, ra_updated_at := released_at\<rparr>)
                  (refund_authorizations s)\<rparr> in
                case get_refund_authorization_v2 rid s' of
                  None \<Rightarrow> (Err (TypeError ''NoneType is not subscriptable''), s')
                | Some released \<Rightarrow> (Ok released, s')) s)"

definition pending_refund_authorizations_v2 :: "int \<Rightarrow> store \<Rightarrow> refund_authorization list" where
  "pending_refund_authorizations_v2 limit s =
     take (nat (max 1 (min limit 10000)))
       (sort_key (\<lambda>x. (ra_authorized_at x, ra_refund_id x))
         (filter pending_refund (refund_authorizations s)))"

definition get_refund_receipt_v2 :: "string \<Rightarrow> store \<Rightarrow> RefundReceiptV2 option" where
  "get_refund_receipt_v2 rid s = select_row (\<lambda>x. rr_refund_id x = rid) (refund_receipts s)"

section \<open>The contract\<close>

text \<open>Both tables are ledgers of the shared contract; a receipt is held for ever.\<close>

interpretation refunded: bounded_holds
  "\<lambda>r. amount (rr_amount r)" "\<lambda>(t::datetime) r. rr_settlement_id r = sid" for sid
  by unfold_locales simp

interpretation pending: bounded_holds
  "\<lambda>r. amount (ra_amount r)"
  "\<lambda>(t::datetime) r. ra_settlement_id r = sid \<and> pending_refund r" for sid
  by unfold_locales simp

definition exposure :: "string \<Rightarrow> store \<Rightarrow> rat" where
  "exposure sid s = refunded_amount sid (refund_receipts s)
     + pending_amount None sid (refund_authorizations s)"

lemma refunded_total: "refunded_amount sid rs = refunded.total sid t rs"
  by (simp add: refunded_amount_def refunded.total_def)

lemma pending_total: "pending_amount None sid rs = pending.total sid t rs"
  by (simp add: pending_amount_def pending.total_def)

definition refunds_ok :: "store \<Rightarrow> bool" where
  "refunds_ok s =
     (distinct (map sr_settlement_id (settlement_receipts s))
      \<and> distinct (map ra_refund_id (refund_authorizations s))
      \<and> (\<forall>r \<in> set (refund_receipts s). 0 \<le> amount (rr_amount r)
            \<and> rr_settlement_id r \<in> sr_settlement_id ` set (settlement_receipts s))
      \<and> (\<forall>r \<in> set (refund_authorizations s). 0 \<le> amount (ra_amount r)
            \<and> ra_settlement_id r \<in> sr_settlement_id ` set (settlement_receipts s))
      \<and> (\<forall>st \<in> set (settlement_receipts s).
            exposure (sr_settlement_id st) s \<le> amount (sr_captured_amount st)))"

lemma refunds_okD:
  assumes "refunds_ok s"
  shows "distinct (map sr_settlement_id (settlement_receipts s))"
    and "r \<in> set (refund_authorizations s) \<Longrightarrow> 0 \<le> amount (ra_amount r)"
    and "st \<in> set (settlement_receipts s) \<Longrightarrow>
      exposure (sr_settlement_id st) s \<le> amount (sr_captured_amount st)"
  using assms by (auto simp: refunds_ok_def)

lemma pending_amount_Cons:
  "pending_amount w sid (r # rs) =
     (if ra_settlement_id r = sid \<and> pending_refund r \<and> opt_all (\<lambda>i. ra_refund_id r \<noteq> i) w
      then amount (ra_amount r) else 0) + pending_amount w sid rs"
  by (simp add: pending_amount_def)

lemma pending_amount_append:
  "pending_amount w sid (rs @ qs) = pending_amount w sid rs + pending_amount w sid qs"
  by (simp add: pending_amount_def)

lemma refunded_amount_append:
  "refunded_amount sid (rs @ qs) = refunded_amount sid rs + refunded_amount sid qs"
  by (simp add: refunded_amount_def)

lemma refunded_amount_single:
  "refunded_amount sid [r] = (if rr_settlement_id r = sid then amount (rr_amount r) else 0)"
  by (simp add: refunded_amount_def)

text \<open>Completing an authorization takes it out of the pending amount.\<close>

lemma pending_after_completion:
  "pending_amount None sid (update_rows
      (\<lambda>x. ra_refund_id x = rid \<and> ra_state x \<in> {Ref_AUTHORIZED, Ref_INDETERMINATE, Ref_COMPLETED})
      (\<lambda>x. x\<lparr>ra_state := Ref_COMPLETED, ra_updated_at := t\<rparr>) rs)
    = pending_amount (Some rid) sid rs"
  by (induction rs) (auto simp: pending_amount_Cons pending_refund_def, simp add: pending_amount_def)

lemma pending_without_le:
  "(\<And>r. r \<in> set rs \<Longrightarrow> 0 \<le> amount (ra_amount r)) \<Longrightarrow>
     pending_amount (Some rid) sid rs \<le> pending_amount None sid rs"
proof (induction rs)
  case (Cons r rs)
  have "0 \<le> amount (ra_amount r)" using Cons.prems by simp
  moreover have "pending_amount (Some rid) sid rs \<le> pending_amount None sid rs"
    using Cons by simp
  ultimately show ?case by (auto simp: pending_amount_Cons intro: add_increasing)
qed (simp add: pending_amount_def)

lemma pending_update_le:
  assumes "\<And>r. r \<in> set rs \<Longrightarrow> 0 \<le> amount (ra_amount r)"
    and "\<And>r. r \<in> set rs \<Longrightarrow> p r \<Longrightarrow> ra_settlement_id (f r) = ra_settlement_id r
      \<and> ra_amount (f r) = ra_amount r \<and> (pending_refund (f r) \<longrightarrow> pending_refund r)"
  shows "pending_amount None sid (update_rows p f rs) \<le> pending_amount None sid rs"
  unfolding pending_total [of sid _ undefined]
  by (rule pending.total_update_le) (use assms in \<open>auto simp: pending.nonneg_def\<close>)

lemma insert_refund_Ok:
  assumes "insert_refund_receipt_locked r c s = (Inr u, s')"
  shows "s' = s \<or> (\<exists>st. find_settlement (rr_settlement_id r) s = Some st
      \<and> refunded_amount (rr_settlement_id r) (refund_receipts s)
          + pending_amount c (rr_settlement_id r) (refund_authorizations s) + amount (rr_amount r)
          \<le> amount (sr_captured_amount st)
      \<and> s' = s\<lparr>refund_receipts := refund_receipts s @ [r]\<rparr>)"
proof (cases "select_row (\<lambda>x. rr_refund_id x = rr_refund_id r
             \<or> rr_idempotency_key x = rr_idempotency_key r) (refund_receipts s)")
  case (Some x)
  with assms show ?thesis by (simp add: insert_refund_receipt_locked_def split: if_splits)
next
  case None
  with assms obtain st where st: "find_settlement (rr_settlement_id r) s = Some st"
    by (auto simp: insert_refund_receipt_locked_def split: option.splits)
  with None assms have fits: "refunded_amount (rr_settlement_id r) (refund_receipts s)
          + pending_amount c (rr_settlement_id r) (refund_authorizations s) + amount (rr_amount r)
          \<le> amount (sr_captured_amount st)"
    by (simp add: insert_refund_receipt_locked_def not_le split: if_splits)
  obtain res t where ins: "immutable_insert_locked
      (\<lambda>x y. rr_refund_id x = rr_refund_id y \<or> rr_idempotency_key x = rr_idempotency_key y)
      (\<lambda>x. rr_refund_id x = rr_refund_id r) r (refund_receipts s) = (res, t)" by fastforce
  with None st assms obtain b where b: "res = Inr b" and s': "s' = s\<lparr>refund_receipts := t\<rparr>"
    by (cases res) (auto simp: insert_refund_receipt_locked_def split: if_splits)
  from immutable_insert_ok(2) [OF ins [unfolded b]] have "t = (if b then refund_receipts s @ [r] else refund_receipts s)" .
  with s' fits st show ?thesis by (cases b) auto
qed

lemma find_settlement_Some:
  assumes "find_settlement sid s = Some st"
  shows "st \<in> set (settlement_receipts s)" and "sr_settlement_id st = sid"
  using select_row_SomeD [OF assms [unfolded find_settlement_def]] by auto

text \<open>
  What has to be shown of a step that leaves the settlements alone: new rows belong to known
  settlements, and the exposure of every settlement stays within its capture.
\<close>

lemma refunds_ok_step:
  assumes ok: "refunds_ok s" and "settlement_receipts s' = settlement_receipts s"
    and "distinct (map ra_refund_id (refund_authorizations s'))"
    and "\<And>r. r \<in> set (refund_receipts s') \<Longrightarrow> 0 \<le> amount (rr_amount r)
      \<and> rr_settlement_id r \<in> sr_settlement_id ` set (settlement_receipts s)"
    and "\<And>r. r \<in> set (refund_authorizations s') \<Longrightarrow> 0 \<le> amount (ra_amount r)
      \<and> ra_settlement_id r \<in> sr_settlement_id ` set (settlement_receipts s)"
    and "\<And>st. st \<in> set (settlement_receipts s) \<Longrightarrow>
      exposure (sr_settlement_id st) s' \<le> exposure (sr_settlement_id st) s
      \<or> exposure (sr_settlement_id st) s' \<le> amount (sr_captured_amount st)"
  shows "refunds_ok s'"
proof -
  have "exposure (sr_settlement_id st) s' \<le> amount (sr_captured_amount st)"
    if "st \<in> set (settlement_receipts s)" for st
    using assms(6) [OF that] refunds_okD(3) [OF ok that] by linarith
  with assms show ?thesis by (simp add: refunds_ok_def)
qed

text \<open>An update of the authorizations that revives none keeps the invariant.\<close>

lemma refunds_ok_update:
  assumes ok: "refunds_ok s"
    and upd: "\<And>r. ra_settlement_id (f r) = ra_settlement_id r \<and> ra_amount (f r) = ra_amount r
      \<and> ra_refund_id (f r) = ra_refund_id r"
    and fall: "\<And>r. p r \<Longrightarrow> pending_refund (f r) \<Longrightarrow> pending_refund r"
  shows "refunds_ok (s\<lparr>refund_authorizations := update_rows p f (refund_authorizations s)\<rparr>)"
proof (rule refunds_ok_step [OF ok])
  let ?s' = "s\<lparr>refund_authorizations := update_rows p f (refund_authorizations s)\<rparr>"
  show "distinct (map ra_refund_id (refund_authorizations ?s'))"
    using ok upd by (simp add: refunds_ok_def map_key_update_rows)
  show "0 \<le> amount (ra_amount r) \<and> ra_settlement_id r \<in> sr_settlement_id ` set (settlement_receipts s)"
    if "r \<in> set (refund_authorizations ?s')" for r
  proof -
    from that obtain q where "q \<in> set (refund_authorizations s)" "r = (if p q then f q else q)"
      by (auto simp: set_update_rows)
    with ok upd show ?thesis by (simp add: refunds_ok_def)
  qed
  show "0 \<le> amount (rr_amount r) \<and> rr_settlement_id r \<in> sr_settlement_id ` set (settlement_receipts s)"
    if "r \<in> set (refund_receipts ?s')" for r
    using ok that by (simp add: refunds_ok_def)
  show "exposure (sr_settlement_id st) ?s' \<le> exposure (sr_settlement_id st) s
      \<or> exposure (sr_settlement_id st) ?s' \<le> amount (sr_captured_amount st)" for st
    using pending_update_le [of "refund_authorizations s" p f "sr_settlement_id st"]
      refunds_okD(2) [OF ok] upd fall by (simp add: exposure_def)
qed simp

section \<open>Steps\<close>

text \<open>
  The calls that change the refund ledger. Settlements enter with a new id and a valid
  receipt; refund receipts are validated instances.
\<close>

inductive refund_step :: "store \<Rightarrow> store \<Rightarrow> bool" where
  settle: "validate_settlement st = Ok () \<Longrightarrow>
     sr_settlement_id st \<notin> sr_settlement_id ` set (settlement_receipts s) \<Longrightarrow>
     refund_step s (s\<lparr>settlement_receipts := settlement_receipts s @ [st]\<rparr>)"
| import: "validate_refund r = Ok () \<Longrightarrow> refund_step s (snd (save_refund_receipt_v2 r s))"
| authorize: "refund_step s (snd (authorize_refund_v2 rid sid value key digest t s))"
| complete: "validate_refund r = Ok () \<Longrightarrow> refund_step s (snd (complete_refund_v2 r s))"
| indeterminate: "refund_step s (snd (mark_refund_authorization_indeterminate rid t s))"
| release: "refund_step s (snd (release_refund_authorization_v2 rid digest t s))"

inductive refund_ledger :: "store \<Rightarrow> bool" where
  opened: "refund_ledger empty_store"
| stepped: "refund_ledger s \<Longrightarrow> refund_step s s' \<Longrightarrow> refund_ledger s'"

lemma refund_amount_valid: "validate_refund r = Inr () \<Longrightarrow> 0 \<le> amount (rr_amount r)"
  by (auto simp: validate_refund_def valid_amount_def split: if_splits)

lemma insert_refund_ok:
  assumes ok: "refunds_ok s" and valid: "validate_refund r = Inr ()"
    and ins: "insert_refund_receipt_locked r c s = (Inr u, s')"
  shows "s' = s \<or> (s' = s\<lparr>refund_receipts := refund_receipts s @ [r]\<rparr>
    \<and> rr_settlement_id r \<in> sr_settlement_id ` set (settlement_receipts s)
    \<and> (\<forall>st \<in> set (settlement_receipts s). sr_settlement_id st = rr_settlement_id r \<longrightarrow>
        refunded_amount (rr_settlement_id r) (refund_receipts s)
          + pending_amount c (rr_settlement_id r) (refund_authorizations s) + amount (rr_amount r)
          \<le> amount (sr_captured_amount st)))"
  using insert_refund_Ok [OF ins]
proof (elim disjE exE conjE)
  fix st
  assume st: "find_settlement (rr_settlement_id r) s = Some st"
    and fits: "refunded_amount (rr_settlement_id r) (refund_receipts s)
          + pending_amount c (rr_settlement_id r) (refund_authorizations s) + amount (rr_amount r)
          \<le> amount (sr_captured_amount st)"
    and s': "s' = s\<lparr>refund_receipts := refund_receipts s @ [r]\<rparr>"
  have "x = st" if "x \<in> set (settlement_receipts s)" "sr_settlement_id x = rr_settlement_id r" for x
    using select_key_Some [OF refunds_okD(1) [OF ok] that(1)] st that(2) by (simp add: find_settlement_def)
  moreover have "rr_settlement_id r \<in> sr_settlement_id ` set (settlement_receipts s)"
    using find_settlement_Some [OF st] by (metis imageI)
  ultimately show ?thesis using fits s' by blast
qed simp

text \<open>
  Appending a receipt that fits besides the pending amount of the other authorizations,
  together with an update after which no more than that is pending.
\<close>

lemma refunds_ok_receipt:
  assumes ok: "refunds_ok (s\<lparr>refund_authorizations := rs'\<rparr>)" and valid: "validate_refund r = Inr ()"
    and sid: "rr_settlement_id r \<in> sr_settlement_id ` set (settlement_receipts s)"
    and fits: "\<forall>st \<in> set (settlement_receipts s). sr_settlement_id st = rr_settlement_id r \<longrightarrow>
        refunded_amount (rr_settlement_id r) (refund_receipts s)
          + pending_amount c (rr_settlement_id r) (refund_authorizations s) + amount (rr_amount r)
          \<le> amount (sr_captured_amount st)"
    and less: "pending_amount None (rr_settlement_id r) rs'
        \<le> pending_amount c (rr_settlement_id r) (refund_authorizations s)"
  shows "refunds_ok (s\<lparr>refund_receipts := refund_receipts s @ [r], refund_authorizations := rs'\<rparr>)"
    (is "refunds_ok ?s'")
proof (rule refunds_ok_step [OF ok])
  show "distinct (map ra_refund_id (refund_authorizations ?s'))"
    using ok by (simp add: refunds_ok_def)
  show "0 \<le> amount (rr_amount q)
      \<and> rr_settlement_id q \<in> sr_settlement_id ` set (settlement_receipts (s\<lparr>refund_authorizations := rs'\<rparr>))"
    if "q \<in> set (refund_receipts ?s')" for q
    using ok sid refund_amount_valid [OF valid] that by (auto simp: refunds_ok_def)
  show "0 \<le> amount (ra_amount q)
      \<and> ra_settlement_id q \<in> sr_settlement_id ` set (settlement_receipts (s\<lparr>refund_authorizations := rs'\<rparr>))"
    if "q \<in> set (refund_authorizations ?s')" for q
    using ok that by (simp add: refunds_ok_def)
  show "exposure (sr_settlement_id st) ?s' \<le> exposure (sr_settlement_id st) (s\<lparr>refund_authorizations := rs'\<rparr>)
      \<or> exposure (sr_settlement_id st) ?s' \<le> amount (sr_captured_amount st)"
    if st: "st \<in> set (settlement_receipts (s\<lparr>refund_authorizations := rs'\<rparr>))" for st
  proof (cases "sr_settlement_id st = rr_settlement_id r")
    case True
    with fits st less show ?thesis
      by (fastforce simp: exposure_def refunded_amount_append refunded_amount_single)
  next
    case False
    then show ?thesis by (simp add: exposure_def refunded_amount_append refunded_amount_single)
  qed
qed simp

lemma import_ok:
  assumes ok: "refunds_ok s" and valid: "validate_refund r = Inr ()"
  shows "refunds_ok (snd (save_refund_receipt_v2 r s))"
proof (cases "insert_refund_receipt_locked r None s")
  case (Pair res s')
  show ?thesis
  proof (cases res)
    case (Inl e)
    with Pair ok show ?thesis by (simp add: save_refund_receipt_v2_def immediate_transaction_def)
  next
    case (Inr u)
    have result: "snd (save_refund_receipt_v2 r s) = s'"
      using Pair Inr by (simp add: save_refund_receipt_v2_def immediate_transaction_def)
    from insert_refund_ok [OF ok valid Pair [unfolded Inr]]
      refunds_ok_receipt [where s = s and rs' = "refund_authorizations s" and r = r and c = None] ok valid
    show ?thesis by (auto simp: result)
  qed
qed

lemma complete_ok:
  assumes ok: "refunds_ok s" and valid: "validate_refund r = Inr ()"
  shows "refunds_ok (snd (complete_refund_v2 r s))"
proof (cases "complete_refund_v2 r s")
  case (Pair res s'')
  show ?thesis
  proof (cases res)
    case (Inl e)
    with Pair have "s'' = s" by (auto simp: complete_refund_v2_def dest: transaction_error)
    with Pair ok show ?thesis by simp
  next
    case (Inr v)
    with Pair obtain a where a: "select_row (\<lambda>x. ra_refund_id x = rr_refund_id r
            \<or> ra_idempotency_key x = rr_idempotency_key r) (refund_authorizations s) = Some a"
      by (auto simp: complete_refund_v2_def immediate_transaction_def split: option.splits)
    obtain w s' where ins: "insert_refund_receipt_locked r (Some (rr_refund_id r)) s = (Inr w, s')"
      using Pair Inr a by (auto simp: complete_refund_v2_def immediate_transaction_def
          split: if_splits sum.splits prod.splits)
    let ?p = "\<lambda>x. ra_refund_id x = rr_refund_id r
        \<and> ra_state x \<in> {Ref_AUTHORIZED, Ref_INDETERMINATE, Ref_COMPLETED}"
    let ?f = "\<lambda>x. x\<lparr>ra_state := Ref_COMPLETED, ra_updated_at := rr_refunded_at r\<rparr>"
    let ?rs' = "update_rows ?p ?f (refund_authorizations s)"
    have s'': "s'' = s'\<lparr>refund_authorizations := update_rows ?p ?f (refund_authorizations s')\<rparr>"
      using Pair Inr a ins by (auto simp: complete_refund_v2_def immediate_transaction_def
          split: if_splits)
    have upd: "refunds_ok (s\<lparr>refund_authorizations := ?rs'\<rparr>)"
      by (rule refunds_ok_update [OF ok]) (auto simp: pending_refund_def)
    from insert_refund_ok [OF ok valid ins] have "refunds_ok s''"
    proof (elim disjE conjE)
      assume "s' = s" with upd show ?thesis by (simp add: s'')
    next
      assume s': "s' = s\<lparr>refund_receipts := refund_receipts s @ [r]\<rparr>"
        and sid: "rr_settlement_id r \<in> sr_settlement_id ` set (settlement_receipts s)"
        and fits: "\<forall>st \<in> set (settlement_receipts s). sr_settlement_id st = rr_settlement_id r \<longrightarrow>
          refunded_amount (rr_settlement_id r) (refund_receipts s)
            + pending_amount (Some (rr_refund_id r)) (rr_settlement_id r) (refund_authorizations s)
            + amount (rr_amount r) \<le> amount (sr_captured_amount st)"
      have "pending_amount None (rr_settlement_id r) ?rs'
          \<le> pending_amount (Some (rr_refund_id r)) (rr_settlement_id r) (refund_authorizations s)"
        by (simp only: pending_after_completion order_refl)
      from refunds_ok_receipt [OF upd valid sid fits this] show ?thesis by (simp add: s'' s')
    qed
    with Pair show ?thesis by simp
  qed
qed

lemma authorize_ok:
  assumes ok: "refunds_ok s"
  shows "refunds_ok (snd (authorize_refund_v2 rid sid value key digest t s))"
proof (cases "authorize_refund_v2 rid sid value key digest t s")
  case (Pair res s')
  show ?thesis
  proof (cases res)
    case (Inl e)
    with Pair have "s' = s"
      by (auto simp: authorize_refund_v2_def split: if_splits sum.splits dest: transaction_error)
    with Pair ok show ?thesis by simp
  next
    case (Inr v)
    from Pair Inr have pos: "0 < amount value"
      by (auto simp: authorize_refund_v2_def not_le split: if_splits)
    show ?thesis
    proof (cases "select_row (\<lambda>x. ra_refund_id x = rid \<or> ra_idempotency_key x = key)
                 (refund_authorizations s)")
      case (Some x)
      with Pair Inr have "s' = s"
        by (auto simp: authorize_refund_v2_def immediate_transaction_def split: if_splits sum.splits)
      with Pair ok show ?thesis by simp
    next
      case None
      with Pair Inr obtain st where st: "find_settlement sid s = Some st"
        by (auto simp: authorize_refund_v2_def immediate_transaction_def
            split: if_splits sum.splits option.splits)
      define row where "row = \<lparr>ra_refund_id = rid, ra_settlement_id = sid,
          ra_charge_id = sr_charge_id st, ra_amount = value, ra_idempotency_key = key,
          ra_request_digest = digest, ra_state = Ref_AUTHORIZED, ra_authorized_at = t,
          ra_updated_at = t\<rparr>"
      from Pair Inr None st have fits: "exposure sid s + amount value \<le> amount (sr_captured_amount st)"
        and s': "s' = s\<lparr>refund_authorizations := refund_authorizations s @ [row]\<rparr>"
        by (auto simp: authorize_refund_v2_def immediate_transaction_def exposure_def row_def Let_def
            split: if_splits sum.splits option.splits)
      have known: "sid \<in> sr_settlement_id ` set (settlement_receipts s)"
        using find_settlement_Some [OF st] by (metis imageI)
      have only: "x = st" if "x \<in> set (settlement_receipts s)" "sr_settlement_id x = sid" for x
        using select_key_Some [OF refunds_okD(1) [OF ok] that(1)] st that(2)
        by (simp add: find_settlement_def)
      have "refunds_ok s'"
      proof (rule refunds_ok_step [OF ok])
        have "rid \<notin> ra_refund_id ` set (refund_authorizations s)"
          using None by (auto simp: select_row_None)
        then show "distinct (map ra_refund_id (refund_authorizations s'))"
          using ok by (simp add: s' row_def refunds_ok_def)
        show "0 \<le> amount (rr_amount q) \<and> rr_settlement_id q \<in> sr_settlement_id ` set (settlement_receipts s)"
          if "q \<in> set (refund_receipts s')" for q
          using ok that by (simp add: s' refunds_ok_def)
        show "0 \<le> amount (ra_amount q) \<and> ra_settlement_id q \<in> sr_settlement_id ` set (settlement_receipts s)"
          if "q \<in> set (refund_authorizations s')" for q
          using ok known pos that by (auto simp: s' row_def refunds_ok_def)
        show "exposure (sr_settlement_id x) s' \<le> exposure (sr_settlement_id x) s
          \<or> exposure (sr_settlement_id x) s' \<le> amount (sr_captured_amount x)"
          if x: "x \<in> set (settlement_receipts s)" for x
        proof (cases "sr_settlement_id x = sid")
          case True
          with only [OF x] fits show ?thesis
            by (simp add: exposure_def s' pending_amount_append)
              (simp add: pending_amount_def row_def pending_refund_def add.assoc)
        next
          case False
          then show ?thesis
            by (simp add: exposure_def s' pending_amount_append) (simp add: pending_amount_def row_def)
        qed
      qed (simp add: s')
      with Pair show ?thesis by simp
    qed
  qed
qed

lemma indeterminate_ok:
  assumes ok: "refunds_ok s"
  shows "refunds_ok (snd (mark_refund_authorization_indeterminate rid t s))"
proof -
  let ?s' = "s\<lparr>refund_authorizations := update_rows
      (\<lambda>x. ra_refund_id x = rid \<and> ra_state x \<in> {Ref_AUTHORIZED, Ref_INDETERMINATE})
      (\<lambda>x. x\<lparr>ra_state := Ref_INDETERMINATE, ra_updated_at := t\<rparr>) (refund_authorizations s)\<rparr>"
  have "refunds_ok ?s'"
    by (rule refunds_ok_update [OF ok]) (auto simp: pending_refund_def)
  moreover have "snd (mark_refund_authorization_indeterminate rid t s) \<in> {s, ?s'}"
    by (simp add: mark_refund_authorization_indeterminate_def immediate_transaction_def Let_def
        split: sum.split option.split)
  ultimately show ?thesis using ok by auto
qed

lemma release_refund_ok:
  assumes ok: "refunds_ok s"
  shows "refunds_ok (snd (release_refund_authorization_v2 rid digest t s))"
proof -
  let ?s' = "s\<lparr>refund_authorizations := update_rows
      (\<lambda>x. ra_refund_id x = rid \<and> ra_state x \<in> {Ref_AUTHORIZED, Ref_INDETERMINATE, Ref_RELEASED})
      (\<lambda>x. x\<lparr>ra_state := Ref_RELEASED, ra_updated_at := t\<rparr>) (refund_authorizations s)\<rparr>"
  have "refunds_ok ?s'"
    by (rule refunds_ok_update [OF ok]) (auto simp: pending_refund_def)
  moreover have "snd (release_refund_authorization_v2 rid digest t s) \<in> {s, ?s'}"
    by (simp add: release_refund_authorization_v2_def immediate_transaction_def Let_def
        split: sum.split option.split)
  ultimately show ?thesis using ok by auto
qed

lemma settle_ok:
  assumes ok: "refunds_ok s" and valid: "validate_settlement st = Inr ()"
    and new: "sr_settlement_id st \<notin> sr_settlement_id ` set (settlement_receipts s)"
  shows "refunds_ok (s\<lparr>settlement_receipts := settlement_receipts s @ [st]\<rparr>)"
proof -
  have "\<forall>r \<in> set (refund_receipts s). rr_settlement_id r \<noteq> sr_settlement_id st"
    "\<forall>r \<in> set (refund_authorizations s). ra_settlement_id r \<noteq> sr_settlement_id st"
    using ok new unfolding refunds_ok_def by metis+
  then have "filter (\<lambda>r. rr_settlement_id r = sr_settlement_id st) (refund_receipts s) = []"
    "filter (\<lambda>r. ra_settlement_id r = sr_settlement_id st \<and> pending_refund r
        \<and> opt_all (\<lambda>i. ra_refund_id r \<noteq> i) None) (refund_authorizations s) = []"
    by (simp_all add: filter_empty_conv)
  then have "exposure (sr_settlement_id st) s = 0"
    by (simp only: exposure_def refunded_amount_def pending_amount_def list.map sum_list.Nil add_0_left)
  moreover have "0 \<le> amount (sr_captured_amount st)"
    using valid
    by (simp add: validate_settlement_def settlement_fields_ok_def valid_amount_def Let_def)
  moreover have "exposure sid (s\<lparr>settlement_receipts := settlement_receipts s @ [st]\<rparr>) = exposure sid s"
    for sid by (simp add: exposure_def)
  ultimately show ?thesis using ok new by (auto simp: refunds_ok_def)
qed

lemma refund_step_ok: "refund_step s s' \<Longrightarrow> refunds_ok s \<Longrightarrow> refunds_ok s'"
  by (induction rule: refund_step.induct)
    (simp_all add: settle_ok import_ok authorize_ok complete_ok indeterminate_ok release_refund_ok)

lemma refund_ledger_ok: "refund_ledger s \<Longrightarrow> refunds_ok s"
  by (induction rule: refund_ledger.induct) (auto simp: refunds_ok_def dest: refund_step_ok)

section \<open>Properties\<close>

definition sample_settlement :: SettlementReceipt where
  "sample_settlement =
     \<lparr>sr_settlement_id = ''set1'', sr_charge_id = ''ch1'', sr_prepared_id = ''p1'',
      sr_quote_id = None, sr_authorization_kind = Some Auth_PINNED_RATE_CARD,
      sr_authorization_id = Some ''p1'',
      sr_reservation_id = ''res1'', sr_attempt_id = ''a1'',
      sr_reserved_amount = \<lparr>amount = 10, currency = ''USD''\<rparr>,
      sr_captured_amount = \<lparr>amount = 8, currency = ''USD''\<rparr>,
      sr_released_amount = \<lparr>amount = 2, currency = ''USD''\<rparr>,
      sr_payment_rail = ''local'', sr_external_reference = None, sr_status = Set_SETTLED,
      sr_evidence_level = Ev_PAYMENT_SETTLEMENT, sr_settled_at = Aware 5, sr_signature = None\<rparr>"

definition sample_refund :: "string \<Rightarrow> rat \<Rightarrow> RefundReceiptV2" where
  "sample_refund i q =
     \<lparr>rr_refund_id = i, rr_settlement_id = ''set1'', rr_charge_id = ''ch1'',
      rr_amount = \<lparr>amount = q, currency = ''USD''\<rparr>, rr_reason = ''late'', rr_idempotency_key = i,
      rr_refunded_at = Aware 9, rr_external_reference = None, rr_signature = None\<rparr>"

lemma sample_refund_valid:
  "validate_settlement sample_settlement = Inr ()" "validate_refund (sample_refund ''r1'' 5) = Inr ()"
  by (simp_all add: validate_settlement_def sample_settlement_def settlement_fields_ok_def
      validate_refund_def sample_refund_def ident_def text_len_def identifier_char_def
      upper_letter_def lower_letter_def decimal_digit_def valid_amount_def currency_code_def
      final_settlement_def is_payment_evidence_def authorization_errors_def Let_def)

text \<open>A settlement that captured 8, a refund of 5 authorized and completed, and one of 3 pending.\<close>

definition sample_digest_text :: string where
  "sample_digest_text = ''sha256:'' @ replicate 64 (CHR ''0'')"

definition settled_store :: store where
  "settled_store = empty_store\<lparr>settlement_receipts := settlement_receipts empty_store @ [sample_settlement]\<rparr>"

definition sample_refunds :: store where
  "sample_refunds =
     snd (authorize_refund_v2 ''r2'' ''set1'' \<lparr>amount = 3, currency = ''USD''\<rparr> ''r2'' sample_digest_text (Aware 9)
       (snd (complete_refund_v2 (sample_refund ''r1'' 5)
         (snd (authorize_refund_v2 ''r1'' ''set1'' \<lparr>amount = 5, currency = ''USD''\<rparr> ''r1''
                 sample_digest_text (Aware 7) settled_store)))))"

lemma sample_refunds_reachable: "refund_ledger sample_refunds"
proof -
  have "refund_step empty_store settled_store"
    unfolding settled_store_def by (rule refund_step.settle) (simp_all add: sample_refund_valid)
  note 1 = refund_ledger.stepped [OF refund_ledger.opened this]
  show ?thesis unfolding sample_refunds_def
    by (rule refund_ledger.stepped [OF refund_ledger.stepped [OF refund_ledger.stepped
            [OF 1 refund_step.authorize] refund_step.complete [OF sample_refund_valid(2)]]
          refund_step.authorize])
qed

lemmas refund_eval =
  authorize_refund_v2_def complete_refund_v2_def insert_refund_receipt_locked_def
  release_refund_authorization_v2_def mark_refund_authorization_indeterminate_def
  immutable_insert_locked_def immediate_transaction_def find_settlement_def
  get_refund_authorization_v2_def refund_identifiers_ok_def aware_or_error_def text_len_def
  refunded_amount_def pending_amount_def pending_refund_def Let_def settled_store_def
  sample_settlement_def sample_refund_def sample_digest_text_def

lemma sample_refunds_rows:
  "settlement_receipts sample_refunds = [sample_settlement]"
  "refund_receipts sample_refunds = [sample_refund ''r1'' 5]"
  "map (\<lambda>x. (ra_refund_id x, ra_state x)) (refund_authorizations sample_refunds)
     = [(''r1'', Ref_COMPLETED), (''r2'', Ref_AUTHORIZED)]"
  by (simp_all add: sample_refunds_def refund_eval)

text \<open>
  C3 Refunds never exceed the capture: after any sequence of authorizations, completions,
  imports, releases and indeterminate marks, the completed refunds of a settlement plus the
  authorized or indeterminate ones are at most the amount the settlement captured.
\<close>

theorem refunds_within_capture:
  assumes "refund_ledger s" and "st \<in> set (settlement_receipts s)"
  shows "refunded_amount (sr_settlement_id st) (refund_receipts s)
      + pending_amount None (sr_settlement_id st) (refund_authorizations s)
    \<le> amount (sr_captured_amount st)"
  using refunds_okD(3) [OF refund_ledger_ok [OF assms(1)] assms(2)] by (simp add: exposure_def)

theorem refunds_within_capture_witness:
  "refunded_amount ''set1'' (refund_receipts sample_refunds)
      + pending_amount None ''set1'' (refund_authorizations sample_refunds) \<le> 8
   \<and> refunded_amount ''set1'' (refund_receipts sample_refunds) = 5"
  using refunds_within_capture [OF sample_refunds_reachable, of sample_settlement]
  by (simp add: sample_refunds_rows) (simp add: sample_settlement_def refunded_amount_def sample_refund_def)

text \<open>
  When a new refund is authorized: with a fresh id and key, for a known settlement of the
  same currency, a positive amount is authorized exactly when it fits into what is neither
  refunded nor pending; otherwise the store is left as it was.
\<close>

theorem refund_authorized_iff:
  assumes "refund_identifiers_ok rid key digest" and "aware t" and "0 < amount value"
    and "\<forall>x \<in> set (refund_authorizations s). ra_refund_id x \<noteq> rid \<and> ra_idempotency_key x \<noteq> key"
    and "find_settlement sid s = Some st" and "currency (sr_captured_amount st) = currency value"
  shows "if refunded_amount sid (refund_receipts s) + pending_amount None sid (refund_authorizations s)
            + amount value \<le> amount (sr_captured_amount st)
    then \<exists>row s'. authorize_refund_v2 rid sid value key digest t s = (Inr row, s')
           \<and> refund_authorizations s' = refund_authorizations s @ [row]
           \<and> ra_state row = Ref_AUTHORIZED \<and> ra_amount row = value
    else authorize_refund_v2 rid sid value key digest t s
      = (Inl (ConfigurationError ''refund exceeds unrefunded captured amount''), s)"
proof -
  have none: "select_row (\<lambda>x. ra_refund_id x = rid \<or> ra_idempotency_key x = key)
      (refund_authorizations s) = None"
    using assms(4) by (auto simp: select_row_None)
  have only: "select_row (\<lambda>x. ra_refund_id x = rid) (refund_authorizations s @ [row]) = Some row"
    if "ra_refund_id row = rid" for row
    using assms(4) that by (intro select_row_fresh) auto
  show ?thesis
    using assms none
    by (simp add: authorize_refund_v2_def aware_or_error_def immediate_transaction_def Let_def
        get_refund_authorization_v2_def only not_le not_less)
qed

theorem refund_authorized_iff_witness:
  "authorize_refund_v2 ''r3'' ''set1'' \<lparr>amount = 1, currency = ''USD''\<rparr> ''r3'' sample_digest_text (Aware 9)
     sample_refunds
   = (Inl (ConfigurationError ''refund exceeds unrefunded captured amount''), sample_refunds)"
proof -
  have st: "find_settlement ''set1'' sample_refunds = Some sample_settlement"
    by (simp add: find_settlement_def sample_refunds_rows sample_settlement_def)
  have fresh: "\<forall>x \<in> set (refund_authorizations sample_refunds).
      ra_refund_id x \<noteq> ''r3'' \<and> ra_idempotency_key x \<noteq> ''r3''"
    by (simp add: sample_refunds_def refund_eval)
  have "\<not> refunded_amount ''set1'' (refund_receipts sample_refunds)
      + pending_amount None ''set1'' (refund_authorizations sample_refunds) + 1 \<le> 8"
    by (simp add: sample_refunds_def refund_eval)
  moreover have "refund_identifiers_ok ''r3'' ''r3'' sample_digest_text"
    by (simp add: refund_eval)
  ultimately show ?thesis
    using refund_authorized_iff [of "''r3''" "''r3''" sample_digest_text "Aware 9"
        "\<lparr>amount = 1, currency = ''USD''\<rparr>", OF _ _ _ fresh st]
    by (simp add: sample_settlement_def)
qed

text \<open>
  A refund receipt is final for its authorization: once completed it cannot be released or
  marked indeterminate, and once released it cannot be completed.
\<close>

theorem refund_outcome_final:
  assumes row: "get_refund_authorization_v2 rid s = Some a"
    and unique: "distinct (map ra_refund_id (refund_authorizations s))"
    and key: "\<forall>x \<in> set (refund_authorizations s). ra_idempotency_key x = rr_idempotency_key r \<longrightarrow> x = a"
    and r: "rr_refund_id r = rid"
  shows "(ra_state a = Ref_COMPLETED \<longrightarrow>
      (\<exists>e. release_refund_authorization_v2 rid digest t s = (Inl e, s))
      \<and> (\<exists>e. mark_refund_authorization_indeterminate rid t s = (Inl e, s)))
    \<and> (ra_state a = Ref_RELEASED \<longrightarrow> (\<exists>e. complete_refund_v2 r s = (Inl e, s)))"
proof -
  have a: "a \<in> set (refund_authorizations s)" "ra_refund_id a = rid"
    using select_row_SomeD row by (force simp: get_refund_authorization_v2_def)+
  have same: "x = a" if "x \<in> set (refund_authorizations s)" "ra_refund_id x = rid" for x
    using select_key_Some [OF unique that(1)] row that(2) by (simp add: get_refund_authorization_v2_def)
  have "\<exists>e. release_refund_authorization_v2 rid digest t s = (Inl e, s)"
    if completed: "ra_state a = Ref_COMPLETED"
    using row completed by (simp add: release_refund_authorization_v2_def immediate_transaction_def
        aware_or_error_def)
  moreover have "\<exists>e. mark_refund_authorization_indeterminate rid t s = (Inl e, s)"
    if completed: "ra_state a = Ref_COMPLETED"
  proof -
    have "rowcount (\<lambda>x. ra_refund_id x = rid \<and> ra_state x \<in> {Ref_AUTHORIZED, Ref_INDETERMINATE})
        (refund_authorizations s) = 0"
      using same completed by (auto simp: rowcount_0)
    then show ?thesis
      by (simp add: mark_refund_authorization_indeterminate_def immediate_transaction_def Let_def
          aware_or_error_def split: option.split)
  qed
  moreover have "\<exists>e. complete_refund_v2 r s = (Inl e, s)" if "ra_state a = Ref_RELEASED"
  proof (cases "select_row (\<lambda>x. ra_refund_id x = rr_refund_id r
      \<or> ra_idempotency_key x = rr_idempotency_key r) (refund_authorizations s)")
    case None
    with a r show ?thesis by (auto simp: select_row_None)
  next
    case (Some x)
    from select_row_SomeD [OF Some] same key r have "x = a" by auto
    with Some that show ?thesis
      by (simp add: complete_refund_v2_def immediate_transaction_def)
  qed
  ultimately show ?thesis by blast
qed

theorem refund_outcome_final_witness:
  "\<exists>e. release_refund_authorization_v2 ''r1'' sample_digest_text (Aware 20) sample_refunds
     = (Inl e, sample_refunds)"
proof -
  have "\<exists>a. get_refund_authorization_v2 ''r1'' sample_refunds = Some a \<and> ra_state a = Ref_COMPLETED
      \<and> (\<forall>x \<in> set (refund_authorizations sample_refunds).
           ra_idempotency_key x = rr_idempotency_key (sample_refund ''r1'' 5) \<longrightarrow> x = a)"
    by (simp add: sample_refunds_def refund_eval)
  then obtain a where a: "get_refund_authorization_v2 ''r1'' sample_refunds = Some a"
    "ra_state a = Ref_COMPLETED"
    "\<forall>x \<in> set (refund_authorizations sample_refunds).
       ra_idempotency_key x = rr_idempotency_key (sample_refund ''r1'' 5) \<longrightarrow> x = a" by blast
  have d: "distinct (map ra_refund_id (refund_authorizations sample_refunds))"
    using refund_ledger_ok [OF sample_refunds_reachable] by (simp add: refunds_ok_def)
  from refund_outcome_final [OF a(1) d a(3)] a(2) show ?thesis by (simp add: sample_refund_def)
qed

end
