(* ===== verification/Idempotency.thy ===== *)
theory Idempotency
  imports Store
begin

text \<open>
  Idempotency records of \<open>ReceiptStore\<close> (\<open>aeep/store.py\<close>), for actions and for payment
  operations: the record of a key is claimed, executing, indeterminate or complete. Shown
  here: a key is claimed by one caller, its request cannot change, a complete record is
  final, and payment operations have keys of their own.
\<close>

section \<open>Operations on action keys\<close>

definition find_record :: "string \<Rightarrow> store \<Rightarrow> idempotency_row option" where
  "find_record key s = select_row (\<lambda>x. ir_key x = key) (idempotency_records s)"

text \<open>
  \<open>claim_idempotency\<close> inserts the key and returns \<open>None\<close>; when the insert violates the
  primary key it returns the existing record of the same request.
\<close>

definition claim_idempotency ::
  "string \<Rightarrow> string \<Rightarrow> store \<Rightarrow> idempotency_row option result \<times> store"
where
  "claim_idempotency key request_hash s =
     (case find_record key s of
        None \<Rightarrow> (Ok None, s\<lparr>idempotency_records := idempotency_records s @
          [\<lparr>ir_key = key, ir_request_hash = request_hash, ir_state = Idem_claimed,
            ir_decision_id = None, ir_status = None, ir_receipt_ids = []\<rparr>]\<rparr>)
      | Some row \<Rightarrow>
          if ir_request_hash row \<noteq> request_hash
          then (Err (ConfigurationError ''idempotency key was already used for a different action''), s)
          else (Ok (Some row), s))"

definition complete_idempotency ::
  "string \<Rightarrow> string \<Rightarrow> string \<Rightarrow> string list \<Rightarrow> store \<Rightarrow> unit result \<times> store"
where
  "complete_idempotency key decision_id status receipt_ids s =
     (Ok (), s\<lparr>idempotency_records := update_rows
        (\<lambda>x. ir_key x = key \<and> ir_state x \<in> {Idem_claimed, Idem_executing})
        (\<lambda>x. x\<lparr>ir_state := Idem_complete, ir_decision_id := Some decision_id,
               ir_status := Some status, ir_receipt_ids := receipt_ids\<rparr>)
        (idempotency_records s)\<rparr>)"

text \<open>A claimed record that a prepared action is bound to cannot be deleted (foreign key).\<close>

definition abandon_idempotency :: "string \<Rightarrow> store \<Rightarrow> unit result \<times> store" where
  "abandon_idempotency key s =
     (if (\<exists>x \<in> set (idempotency_records s). ir_key x = key \<and> ir_state x = Idem_claimed)
         \<and> key \<in> ab_idempotency_key ` set (prepared_action_idempotency s)
      then (Err (IntegrityError ''FOREIGN KEY prepared_action_idempotency''), s)
      else (Ok (), s\<lparr>idempotency_records :=
        filter (\<lambda>x. \<not> (ir_key x = key \<and> ir_state x = Idem_claimed)) (idempotency_records s)\<rparr>))"

definition mark_idempotency_executing :: "string \<Rightarrow> store \<Rightarrow> unit result \<times> store" where
  "mark_idempotency_executing key s =
     (let hit = (\<lambda>x. ir_key x = key \<and> ir_state x = Idem_claimed) in
      if rowcount hit (idempotency_records s) \<noteq> 1
      then (Err (ConfigurationError ''idempotency claim is not executable''), s)
      else (Ok (), s\<lparr>idempotency_records :=
             update_rows hit (\<lambda>x. x\<lparr>ir_state := Idem_executing\<rparr>) (idempotency_records s)\<rparr>))"

definition mark_idempotency_indeterminate :: "string \<Rightarrow> store \<Rightarrow> unit result \<times> store" where
  "mark_idempotency_indeterminate key s =
     (Ok (), s\<lparr>idempotency_records :=
        update_rows (\<lambda>x. ir_key x = key \<and> ir_state x = Idem_executing)
          (\<lambda>x. x\<lparr>ir_state := Idem_indeterminate\<rparr>) (idempotency_records s)\<rparr>)"

section \<open>Payment operations\<close>

definition payment_operation_key :: "string \<Rightarrow> string \<Rightarrow> string result" where
  "payment_operation_key operation key =
     (if operation = [] \<or> CHR '':'' \<in> set operation \<or> key = []
      then Err (ConfigurationError ''payment operation and idempotency key must be non-empty'')
      else Ok (''payment:'' @ operation @ '':'' @ key))"

definition with_payment_key ::
  "string \<Rightarrow> string \<Rightarrow> (string \<Rightarrow> store \<Rightarrow> 'a result \<times> store) \<Rightarrow> store \<Rightarrow> 'a result \<times> store"
where
  "with_payment_key operation key act s =
     (case payment_operation_key operation key of Inl e \<Rightarrow> (Err e, s) | Inr k \<Rightarrow> act k s)"

definition claim_payment_operation ::
  "string \<Rightarrow> string \<Rightarrow> string \<Rightarrow> store \<Rightarrow> idempotency_row option result \<times> store"
where
  "claim_payment_operation operation key request_digest =
     with_payment_key operation key (\<lambda>k. claim_idempotency k request_digest)"

definition complete_payment_operation ::
  "string \<Rightarrow> string \<Rightarrow> string \<Rightarrow> string \<Rightarrow> store \<Rightarrow> unit result \<times> store"
where
  "complete_payment_operation operation key result_type result_id s =
     (if result_type = [] \<or> result_id = []
      then (Err (ConfigurationError ''payment operation result must be identified''), s)
      else with_payment_key operation key (\<lambda>k. immediate_transaction (\<lambda>s.
        case find_record k s of
          None \<Rightarrow> (Err (ConfigurationError ''payment operation was not claimed''), s)
        | Some row \<Rightarrow>
            if ir_state row = Idem_complete
            then if ir_decision_id row = Some operation \<and> ir_status row = Some result_type
                    \<and> ir_receipt_ids row = [result_id]
                 then (Ok (), s)
                 else (Err (ConfigurationError
                   ''payment operation idempotency key conflicts with an existing result''), s)
            else
              let hit = (\<lambda>x. ir_key x = k
                    \<and> ir_state x \<in> {Idem_claimed, Idem_executing, Idem_indeterminate});
                  s' = s\<lparr>idempotency_records := update_rows hit
                    (\<lambda>x. x\<lparr>ir_state := Idem_complete, ir_decision_id := Some operation,
                           ir_status := Some result_type, ir_receipt_ids := [result_id]\<rparr>)
                    (idempotency_records s)\<rparr> in
              if rowcount hit (idempotency_records s) \<noteq> 1
              then (Err (ConfigurationError ''payment operation is not completable''), s')
              else (Ok (), s'))) s)"

definition mark_payment_operation_executing :: "string \<Rightarrow> string \<Rightarrow> store \<Rightarrow> unit result \<times> store" where
  "mark_payment_operation_executing operation key =
     with_payment_key operation key (\<lambda>k. immediate_transaction (\<lambda>s.
       let hit = (\<lambda>x. ir_key x = k \<and> ir_state x \<in> {Idem_claimed, Idem_indeterminate});
           s' = s\<lparr>idempotency_records :=
             update_rows hit (\<lambda>x. x\<lparr>ir_state := Idem_executing\<rparr>) (idempotency_records s)\<rparr> in
       if rowcount hit (idempotency_records s) \<noteq> 1
       then (Err (ConfigurationError ''payment operation claim is not executable''), s')
       else (Ok (), s')))"

definition mark_payment_operation_indeterminate ::
  "string \<Rightarrow> string \<Rightarrow> store \<Rightarrow> unit result \<times> store"
where
  "mark_payment_operation_indeterminate operation key =
     with_payment_key operation key mark_idempotency_indeterminate"

definition abandon_payment_operation :: "string \<Rightarrow> string \<Rightarrow> store \<Rightarrow> unit result \<times> store" where
  "abandon_payment_operation operation key =
     with_payment_key operation key abandon_idempotency"

definition get_payment_operation ::
  "string \<Rightarrow> string \<Rightarrow> store \<Rightarrow> idempotency_row option result"
where
  "get_payment_operation operation key s =
     (case payment_operation_key operation key of
        Inl e \<Rightarrow> Err e | Inr k \<Rightarrow> Ok (find_record k s))"

section \<open>The life of a record\<close>

text \<open>
  The table of record states over both interfaces. An indeterminate record of an action
  stays; a payment operation may be retried or reconciled from it.
\<close>

fun record_transitions :: "idempotency_state \<Rightarrow> idempotency_state list" where
  "record_transitions Idem_claimed = [Idem_executing, Idem_complete]"
| "record_transitions Idem_executing = [Idem_indeterminate, Idem_complete]"
| "record_transitions Idem_indeterminate = [Idem_executing, Idem_complete]"
| "record_transitions Idem_complete = []"

interpretation record_life: lifecycle record_transitions "\<lambda>st. st = Idem_complete"
proof
  fix st
  show "st = Idem_complete \<longleftrightarrow> record_transitions st = []" by (cases st) simp_all
  show "st \<notin> set (record_transitions st)" by (cases st) simp_all
qed

text \<open>
  Every operation appends a fresh claim, drops claims, or moves records along the table
  keeping key and request.
\<close>

inductive record_change :: "idempotency_row list \<Rightarrow> idempotency_row list \<Rightarrow> bool" where
  keep: "record_change rows rows"
| fresh: "(\<And>x. x \<in> set rows \<Longrightarrow> ir_key x \<noteq> ir_key r) \<Longrightarrow> record_change rows (rows @ [r])"
| drop: "(\<And>x. x \<in> set rows \<Longrightarrow> \<not> p x \<Longrightarrow> ir_state x = Idem_claimed) \<Longrightarrow> record_change rows (filter p rows)"
| move: "(\<And>x. x \<in> set rows \<Longrightarrow> p x \<Longrightarrow> ir_key (f x) = ir_key x
      \<and> ir_request_hash (f x) = ir_request_hash x
      \<and> ir_state (f x) \<in> set (record_transitions (ir_state x))) \<Longrightarrow>
    record_change rows (update_rows p f rows)"

lemma claim_change: "record_change (idempotency_records s) (idempotency_records (snd (claim_idempotency k h s)))"
  by (auto simp: claim_idempotency_def find_record_def select_row_None record_change.keep
      intro!: record_change.fresh split: option.split)

lemma abandon_change: "record_change (idempotency_records s) (idempotency_records (snd (abandon_idempotency k s)))"
  by (auto simp: abandon_idempotency_def record_change.keep intro!: record_change.drop)

lemma complete_change: "record_change (idempotency_records s)
    (idempotency_records (snd (complete_idempotency k d st ids s)))"
  by (auto simp: complete_idempotency_def intro!: record_change.move)

lemma executing_change: "record_change (idempotency_records s)
    (idempotency_records (snd (mark_idempotency_executing k s)))"
  by (auto simp: mark_idempotency_executing_def Let_def record_change.keep intro!: record_change.move)

lemma indeterminate_change: "record_change (idempotency_records s)
    (idempotency_records (snd (mark_idempotency_indeterminate k s)))"
  by (auto simp: mark_idempotency_indeterminate_def intro!: record_change.move)

lemma with_payment_change:
  assumes "\<And>k. record_change (idempotency_records s) (idempotency_records (snd (act k s)))"
  shows "record_change (idempotency_records s)
    (idempotency_records (snd (with_payment_key op key act s)))"
  using assms by (auto simp: with_payment_key_def record_change.keep split: sum.split)

lemma complete_payment_change: "record_change (idempotency_records s)
    (idempotency_records (snd (complete_payment_operation op k ty rid s)))"
proof (cases "ty = [] \<or> rid = []")
  case True
  then show ?thesis by (auto simp: complete_payment_operation_def record_change.keep)
next
  case False
  then show ?thesis
    unfolding complete_payment_operation_def if_not_P [OF False]
    by (intro with_payment_change)
      (auto simp: immediate_transaction_def Let_def record_change.keep intro!: record_change.move
        split: option.split)
qed

lemma executing_payment_change: "record_change (idempotency_records s)
    (idempotency_records (snd (mark_payment_operation_executing op k s)))"
  unfolding mark_payment_operation_executing_def
  by (intro with_payment_change)
    (auto simp: immediate_transaction_def Let_def record_change.keep intro!: record_change.move)

lemma record_change_distinct:
  "record_change rows rows' \<Longrightarrow> distinct (map ir_key rows) \<Longrightarrow> distinct (map ir_key rows')"
proof (induction rule: record_change.induct)
  case (fresh rows r)
  then have "ir_key r \<notin> ir_key ` set rows" by (metis imageE)
  with fresh show ?case by simp
next
  case (move rows p f)
  have "map ir_key (update_rows p f rows) = map ir_key rows"
    using move.hyps by (auto simp: update_rows_def)
  with move.prems show ?case by simp
qed (simp_all add: distinct_map_filter)

lemma record_change_get:
  assumes "record_change rows rows'" and "distinct (map ir_key rows)"
    and r: "r \<in> set rows" and "ir_state r \<noteq> Idem_claimed"
  shows "\<exists>q \<in> set rows'. ir_key q = ir_key r \<and> ir_request_hash q = ir_request_hash r
    \<and> (q = r \<or> ir_state q \<in> set (record_transitions (ir_state r)))"
  using assms(1)
proof cases
  case (move p f)
  have "(if p r then f r else r) \<in> set rows'"
    unfolding move(1) set_update_rows using r by (rule imageI)
  then show ?thesis using move(2) [OF r] by (auto intro!: bexI [of _ "if p r then f r else r"])
qed (use r assms(4) in auto)

section \<open>Properties\<close>

text \<open>
  A key is claimed by one caller: after a successful claim every further claim of the key
  returns the claimed record to the same request and is refused for any other request, and
  neither changes the store.
\<close>

theorem idempotency_claim_exclusive:
  assumes "claim_idempotency k h s = (Inr None, s')"
  shows "\<exists>row. find_record k s' = Some row \<and> ir_state row = Idem_claimed \<and> ir_request_hash row = h
    \<and> claim_idempotency k h' s' =
        (if h' = h then (Inr (Some row), s')
         else (Inl (ConfigurationError ''idempotency key was already used for a different action''), s'))"
proof -
  have none: "find_record k s = None"
    using assms by (auto simp: claim_idempotency_def split: option.splits if_splits)
  let ?row = "\<lparr>ir_key = k, ir_request_hash = h, ir_state = Idem_claimed, ir_decision_id = None,
      ir_status = None, ir_receipt_ids = []\<rparr>"
  have s': "s' = s\<lparr>idempotency_records := idempotency_records s @ [?row]\<rparr>"
    using assms none by (simp add: claim_idempotency_def)
  have "find_record k s' = Some ?row"
    using none by (simp add: find_record_def s' select_row_fresh select_row_None)
  then show ?thesis by (auto simp: claim_idempotency_def)
qed

theorem idempotency_claim_exclusive_witness:
  "\<exists>row. claim_idempotency ''k'' ''h'' (snd (claim_idempotency ''k'' ''h'' empty_store))
     = (Inr (Some row), snd (claim_idempotency ''k'' ''h'' empty_store))"
proof -
  have "claim_idempotency ''k'' ''h'' empty_store
      = (Inr None, snd (claim_idempotency ''k'' ''h'' empty_store))"
    by (simp add: claim_idempotency_def find_record_def)
  from idempotency_claim_exclusive [OF this, of "''h''"] show ?thesis by auto
qed

text \<open>
  The keys of payment operations are unambiguous: two operations share a key only when
  operation and caller key are the same, because an operation name contains no colon.
\<close>

theorem payment_operation_key_injective:
  assumes "payment_operation_key op k = Inr x" and "payment_operation_key op' k' = Inr x"
  shows "op = op' \<and> k = k'"
proof -
  have split: "takeWhile (\<lambda>c. c \<noteq> CHR '':'') (o1 @ CHR '':'' # k1) = o1"
    "dropWhile (\<lambda>c. c \<noteq> CHR '':'') (o1 @ CHR '':'' # k1) = CHR '':'' # k1"
    if "CHR '':'' \<notin> set o1" for o1 k1
    using that by (induction o1) auto
  have "CHR '':'' \<notin> set op" "CHR '':'' \<notin> set op'"
    and eq: "op @ CHR '':'' # k = op' @ CHR '':'' # k'"
    using assms by (auto simp: payment_operation_key_def split: if_splits)
  with split [of op k] split [of op' k'] show ?thesis by simp
qed

theorem payment_operation_key_injective_witness:
  "payment_operation_key ''settle'' ''k:1'' \<noteq> payment_operation_key ''refund'' ''k:1''"
proof
  assume "payment_operation_key ''settle'' ''k:1'' = payment_operation_key ''refund'' ''k:1''"
  moreover have a: "payment_operation_key ''settle'' ''k:1'' = Inr ''payment:settle:k:1''"
    by (simp add: payment_operation_key_def)
  ultimately have b: "payment_operation_key ''refund'' ''k:1'' = Inr ''payment:settle:k:1''" by metis
  from payment_operation_key_injective [OF a b] show False by simp
qed

end
