(* ===== verification/Prepared_Store.thy ===== *)
theory Prepared_Store
  imports Refund_Store Idempotency
begin

text \<open>
  Prepared decisions in \<open>ReceiptStore\<close> (\<open>aeep/store.py\<close>): storing a decision once, claiming it
  with or without a caller's idempotency key, its state transitions, the invocation of a
  confirmed-free route, and the abandonment of a keyed action that was never invoked.
  Fresh transition ids are arguments.
\<close>

section \<open>Rows\<close>

text \<open>
  \<open>_immutable_insert_locked\<close> on a row whose other columns may have changed: the payload is
  what must be the same on a retry.
\<close>

definition immutable_row_insert ::
  "('r \<Rightarrow> 'r \<Rightarrow> bool) \<Rightarrow> ('r \<Rightarrow> bool) \<Rightarrow> ('r \<Rightarrow> 'p) \<Rightarrow> 'r \<Rightarrow> 'r list \<Rightarrow> bool result \<times> 'r list"
where
  "immutable_row_insert clash identity payload r t =
     (let inserted = \<not> (\<exists>x \<in> set t. clash x r); t' = (if inserted then t @ [r] else t) in
      case select_row identity t' of
        None \<Rightarrow> (Err (ConfigurationError ''immutable identity conflicts with existing data''), t')
      | Some x \<Rightarrow>
          if payload x \<noteq> payload r
          then (Err (ConfigurationError ''immutable identity was reused with different content''), t')
          else (Ok inserted, t'))"

lemma immutable_insert_is_row_insert:
  "immutable_insert_locked clash identity r t = immutable_row_insert clash identity (\<lambda>x. x) r t"
  by (simp add: immutable_insert_locked_def immutable_row_insert_def)

definition is_prepared :: "string \<Rightarrow> prepared_row \<Rightarrow> bool" where
  "is_prepared pid w = (pd_prepared_id (pw_decision w) = pid)"

definition prepared_row_of :: "string \<Rightarrow> store \<Rightarrow> prepared_row option" where
  "prepared_row_of pid s = select_row (is_prepared pid) (prepared_route_decisions s)"

definition prepared_from_row :: "prepared_row \<Rightarrow> PreparedRouteDecision" where
  "prepared_from_row w = (pw_decision w)\<lparr>pd_state := pw_state w\<rparr>"

definition get_prepared_decision :: "string \<Rightarrow> store \<Rightarrow> PreparedRouteDecision option" where
  "get_prepared_decision pid s = map_option prepared_from_row (prepared_row_of pid s)"

definition payment_row_for :: "string \<Rightarrow> store \<Rightarrow> payment_row option" where
  "payment_row_for pid s = select_row (\<lambda>y. pv_prepared_id (py_payload y) = pid) (payment_reservations s)"

text \<open>The unique column of claim tokens.\<close>

definition token_taken :: "string \<Rightarrow> string \<Rightarrow> store \<Rightarrow> bool" where
  "token_taken pid token s =
     (\<exists>w \<in> set (prepared_route_decisions s). \<not> is_prepared pid w \<and> pw_claim_token w = Some token)"

definition bounded_token :: "string \<Rightarrow> bool" where
  "bounded_token t = text_len 1 256 t"

definition canonical_sha256 :: "string \<Rightarrow> bool" where
  "canonical_sha256 d = (length d = 71 \<and> take 7 d = ''sha256:'')"

section \<open>Storing and claiming\<close>

text \<open>The foreign keys of a decision's selected basis.\<close>

definition basis_stored :: "PreparedRouteDecision \<Rightarrow> store \<Rightarrow> bool" where
  "basis_stored d s =
     (opt_all (\<lambda>i. i \<in> bq_quote_id ` set (bounded_quotes s)) (pd_selected_quote_id d)
      \<and> opt_all (\<lambda>i. i \<in> co_offer_id ` ow_offer ` set (capability_offers s)) (pd_selected_offer_id d)
      \<and> opt_all (\<lambda>i. Some i \<in> rs_snapshot_id ` set (rate_card_snapshots s)) (pd_selected_rate_card_id d))"

definition save_prepared_decision ::
  "PreparedRouteDecision \<Rightarrow> store \<Rightarrow> PreparedRouteDecision result \<times> store"
where
  "save_prepared_decision d = immediate_transaction (\<lambda>s.
     case immutable_row_insert (\<lambda>x y. pd_prepared_id (pw_decision x) = pd_prepared_id (pw_decision y))
            (is_prepared (pd_prepared_id d)) pw_decision
            \<lparr>pw_decision = d, pw_state = pd_state d, pw_claim_token = None, pw_claimed_at = None\<rparr>
            (prepared_route_decisions s) of
       (Inl e, t) \<Rightarrow> (Err e, s)
     | (Inr inserted, t) \<Rightarrow>
         if inserted \<and> \<not> basis_stored d s
         then (Err (ConfigurationError
                ''immutable prepared_route_decisions violates its evidence bindings''), s)
         else let s' = s\<lparr>prepared_route_decisions := t\<rparr> in
           case get_prepared_decision (pd_prepared_id d) s' of
             None \<Rightarrow> (Err (ConfigurationError ''prepared decision disappeared after storage''), s')
           | Some stored \<Rightarrow> (Ok stored, s'))"

definition claim_prepared_decision ::
  "string \<Rightarrow> string \<Rightarrow> datetime \<Rightarrow> store \<Rightarrow> PreparedRouteDecision result \<times> store"
where
  "claim_prepared_decision pid token claimed_at s =
     (if \<not> bounded_token token
      then (Err (ConfigurationError ''prepared claim token must be non-empty and bounded''), s)
      else case aware_or_error claimed_at of
        Inl e \<Rightarrow> (Err e, s)
      | Inr _ \<Rightarrow> immediate_transaction (\<lambda>s.
          let hit = (\<lambda>w. is_prepared pid w \<and> pw_state w = Prep_PREPARED \<and> pw_claim_token w = None
                        \<and> claimed_at < pd_expires_at (pw_decision w));
              count = rowcount hit (prepared_route_decisions s);
              s' = s\<lparr>prepared_route_decisions := update_rows hit
                      (\<lambda>w. w\<lparr>pw_claim_token := Some token, pw_claimed_at := Some claimed_at\<rparr>)
                      (prepared_route_decisions s)\<rparr> in
          if count \<noteq> 0 \<and> token_taken pid token s
          then (Err (IntegrityError ''UNIQUE prepared_route_decisions.claim_token''), s)
          else case prepared_row_of pid s' of
            None \<Rightarrow> (Err (ConfigurationError ''prepared decision does not exist''), s')
          | Some w \<Rightarrow>
              if pw_state w = Prep_PREPARED \<and> pd_expires_at (pw_decision w) \<le> claimed_at
              then (Err (ConfigurationError ''prepared decision has expired''), s')
              else if count \<noteq> 1 \<and> pw_claim_token w \<noteq> Some token
              then (Err (ConfigurationError ''prepared decision is not claimable''), s')
              else (Ok (prepared_from_row w), s')) s)"

text \<open>
  The bindings that mention a decision or a key, which the keyed operations require to be
  one row with exactly these values.
\<close>

definition bindings_of :: "string \<Rightarrow> string \<Rightarrow> store \<Rightarrow> action_binding list" where
  "bindings_of pid key s =
     filter (\<lambda>b. ab_prepared_id b = pid \<or> ab_idempotency_key b = key) (prepared_action_idempotency s)"

definition binding_conflict :: "string \<Rightarrow> string \<Rightarrow> string \<Rightarrow> action_binding list \<Rightarrow> bool" where
  "binding_conflict pid key digest bs =
     (case bs of [] \<Rightarrow> False
      | [b] \<Rightarrow> ab_prepared_id b \<noteq> pid \<or> ab_idempotency_key b \<noteq> key \<or> ab_action_digest b \<noteq> digest
      | _ \<Rightarrow> True)"

definition claim_prepared_decision_with_action_idempotency ::
  "string \<Rightarrow> string \<Rightarrow> datetime \<Rightarrow> string \<Rightarrow> string \<Rightarrow> store \<Rightarrow> PreparedRouteDecision result \<times> store"
where
  "claim_prepared_decision_with_action_idempotency pid token claimed_at key digest s =
     (if \<not> bounded_token token
      then (Err (ConfigurationError ''prepared claim token must be non-empty and bounded''), s)
      else if \<not> bounded_token key
      then (Err (ConfigurationError ''action idempotency key must be non-empty and bounded''), s)
      else if \<not> canonical_sha256 digest
      then (Err (ConfigurationError ''prepared action digest must be canonical SHA-256''), s)
      else case aware_or_error claimed_at of
        Inl e \<Rightarrow> (Err e, s)
      | Inr _ \<Rightarrow> immediate_transaction (\<lambda>s.
          case prepared_row_of pid s of
            None \<Rightarrow> (Err (ConfigurationError ''prepared decision does not exist''), s)
          | Some w \<Rightarrow>
              if pd_action_digest (pw_decision w) \<noteq> digest
              then (Err (ConfigurationError ''prepared action idempotency digest does not match''), s)
              else if pw_state w \<noteq> Prep_PREPARED
              then (Err (ConfigurationError ''prepared decision is not claimable''), s)
              else if pd_expires_at (pw_decision w) \<le> claimed_at
              then (Err (ConfigurationError ''prepared decision has expired''), s)
              else if pw_claim_token w \<notin> {None, Some token}
              then (Err (ConfigurationError ''prepared decision is not claimable''), s)
              else if (case find_record key s of None \<Rightarrow> False
                       | Some a \<Rightarrow> ir_request_hash a \<noteq> digest \<or> ir_state a \<noteq> Idem_claimed)
              then (Err (ConfigurationError
                     ''action idempotency key is already bound to another result''), s)
              else
                let bs = bindings_of pid key s in
                if binding_conflict pid key digest bs
                then (Err (ConfigurationError ''prepared action idempotency binding conflicts''), s)
                else
                  let s1 = (if find_record key s = None
                            then s\<lparr>idempotency_records := idempotency_records s @
                              [\<lparr>ir_key = key, ir_request_hash = digest, ir_state = Idem_claimed,
                                ir_decision_id = None, ir_status = None, ir_receipt_ids = []\<rparr>]\<rparr>
                            else s);
                      s2 = (if bs = []
                            then s1\<lparr>prepared_action_idempotency := prepared_action_idempotency s1 @
                              [\<lparr>ab_prepared_id = pid, ab_idempotency_key = key,
                                ab_action_digest = digest, ab_bound_at = claimed_at\<rparr>]\<rparr>
                            else s1) in
                  if pw_claim_token w \<noteq> None then (Ok (prepared_from_row w), s2)
                  else if token_taken pid token s2
                  then (Err (ConfigurationError ''atomic prepared action claim failed''), s2)
                  else (Ok (prepared_from_row w),
                        s2\<lparr>prepared_route_decisions := update_rows
                            (\<lambda>w. is_prepared pid w \<and> pw_state w = Prep_PREPARED
                               \<and> pw_claim_token w = None \<and> claimed_at < pd_expires_at (pw_decision w))
                            (\<lambda>w. w\<lparr>pw_claim_token := Some token, pw_claimed_at := Some claimed_at\<rparr>)
                            (prepared_route_decisions s2)\<rparr>)) s)"

section \<open>Transitions\<close>

definition transition_prepared_locked ::
  "PreparedRouteTransition \<Rightarrow> string option \<Rightarrow> store \<Rightarrow> unit result \<times> store"
where
  "transition_prepared_locked t token s =
     (case select_row (\<lambda>x. pt_transition_id x = pt_transition_id t) (prepared_route_transitions s) of
        Some x \<Rightarrow>
          if x \<noteq> t
          then (Err (ConfigurationError
                 ''immutable prepared transition ID was reused with different content''), s)
          else (Ok (), s)
      | None \<Rightarrow>
          if pt_from_state t = Prep_RESERVED \<and> pt_to_state t = Prep_INVOKING
             \<and> (case payment_row_for (pt_prepared_id t) s of
                  None \<Rightarrow> True
                | Some y \<Rightarrow> py_state y \<noteq> Pay_RESERVED \<or> py_operation_intent y \<noteq> None)
          then (Err (ConfigurationError
                 ''prepared invocation conflicts with its payment operation state''), s)
          else
            let hit = (\<lambda>w. is_prepared (pt_prepared_id t) w \<and> pw_state w = pt_from_state t
                         \<and> opt_all (\<lambda>c. pw_claim_token w = Some c) token) in
            if rowcount hit (prepared_route_decisions s) \<noteq> 1
            then (Err (ConfigurationError
                   ''prepared decision transition lost its state or claim race''), s)
            else (Ok (), s\<lparr>prepared_route_decisions :=
                             update_rows hit (\<lambda>w. w\<lparr>pw_state := pt_to_state t\<rparr>) (prepared_route_decisions s),
                           prepared_route_transitions := prepared_route_transitions s @ [t]\<rparr>))"

definition save_prepared_transition ::
  "PreparedRouteTransition \<Rightarrow> store \<Rightarrow> PreparedRouteTransition result \<times> store"
where
  "save_prepared_transition t s =
     (if pt_from_state t = Prep_PREPARED \<and> pt_to_state t = Prep_RESERVED
      then (Err (ConfigurationError
             ''PREPARED to RESERVED requires atomic claim-bound payment reservation''), s)
      else if pt_from_state t = Prep_PREPARED \<and> pt_to_state t = Prep_INVOKING
      then (Err (ConfigurationError
             ''direct prepared invocation requires the claim-guarded free-route operation''), s)
      else if pt_from_state t = Prep_RESERVED \<and> pt_to_state t = Prep_INVOKING
      then (Err (ConfigurationError
             ''paid prepared invocation requires atomic route and trust revalidation''), s)
      else immediate_transaction (\<lambda>s.
        case transition_prepared_locked t None s of
          (Inl e, s') \<Rightarrow> (Err e, s') | (Inr _, s') \<Rightarrow> (Ok t, s')) s)"

definition claim_prepared_for_invocation ::
  "string \<Rightarrow> string \<Rightarrow> string \<Rightarrow> string \<Rightarrow> string \<Rightarrow> string \<Rightarrow> datetime \<Rightarrow> store
    \<Rightarrow> PreparedRouteDecision result \<times> store"
where
  "claim_prepared_for_invocation tid pid token action policy fingerprint invoked_at s =
     (if \<not> bounded_token token
      then (Err (ConfigurationError ''prepared invocation requires a bounded claim token''), s)
      else case aware_or_error invoked_at of
        Inl e \<Rightarrow> (Err e, s)
      | Inr _ \<Rightarrow> immediate_transaction (\<lambda>s.
          case prepared_row_of pid s of
            None \<Rightarrow> (Err (ConfigurationError ''prepared decision does not exist''), s)
          | Some w \<Rightarrow>
              let d = prepared_from_row w in
              if pw_state w \<noteq> Prep_PREPARED
              then (Err (ConfigurationError ''prepared decision is not claimable for invocation''), s)
              else if pw_claim_token w \<noteq> Some token
              then (Err (ConfigurationError ''prepared invocation does not own the claim''), s)
              else if pd_expires_at d \<le> invoked_at
              then (Err (ConfigurationError ''prepared decision has expired''), s)
              else if pd_action_digest d \<noteq> action \<or> pd_effective_policy_digest d \<noteq> policy
                      \<or> pd_selected_executor_fingerprint d \<noteq> Some fingerprint
              then (Err (ConfigurationError
                     ''prepared invocation binding changed after revalidation''), s)
              else if pd_selected_quote_id d \<noteq> None
              then (Err (ConfigurationError ''paid or unknown-cost routes require a reservation''), s)
              else case pd_maximum_cash_authorization d of
                None \<Rightarrow> (Err (ConfigurationError ''paid or unknown-cost routes require a reservation''), s)
              | Some m \<Rightarrow>
                  if amount m \<noteq> 0
                  then (Err (ConfigurationError ''paid routes require a reservation''), s)
                  else if actual_cash_cost (pd_expected_cash d) (currency m) \<noteq> Some 0
                  then (Err (ConfigurationError
                         ''quote-free invocation requires confirmed zero cash''), s)
                  else case mk_transition tid pid Prep_PREPARED Prep_INVOKING invoked_at
                              ''confirmed-free claimed invocation'' of
                    Inl e \<Rightarrow> (Err e, s)
                  | Inr t \<Rightarrow>
                      (case transition_prepared_locked t (Some token) s of
                         (Inl e, s') \<Rightarrow> (Err e, s')
                       | (Inr _, s') \<Rightarrow> (Ok (d\<lparr>pd_state := Prep_INVOKING\<rparr>), s'))) s)"

text \<open>\<open>recoverable_prepared_decisions\<close>, in order of creation.\<close>

definition recoverable_prepared :: "datetime option \<Rightarrow> prepared_row \<Rightarrow> bool" where
  "recoverable_prepared as_of w =
     (pw_state w \<in> {Prep_RESERVED, Prep_INVOKING, Prep_AWAITING_USAGE, Prep_SETTLING, Prep_INDETERMINATE}
      \<or> pw_state w = Prep_PREPARED \<and> pw_claim_token w \<noteq> None
        \<and> (case as_of of None \<Rightarrow> False | Some t \<Rightarrow> pd_expires_at (pw_decision w) \<le> t))"

definition recoverable_prepared_decisions ::
  "datetime option \<Rightarrow> int \<Rightarrow> store \<Rightarrow> PreparedRouteDecision list result"
where
  "recoverable_prepared_decisions as_of limit s =
     (if \<not> opt_all aware as_of
      then Err (ConfigurationError ''store timestamps must be timezone-aware'')
      else Ok (take (nat (max 1 (min limit 10000)))
        (sort_key (\<lambda>d. pd_created_at d)
          (sort_key (\<lambda>d. map of_char (pd_prepared_id d) :: nat list)
            (map prepared_from_row (filter (recoverable_prepared as_of) (prepared_route_decisions s)))))))"

section \<open>Keyed actions\<close>

definition bind_prepared_action_idempotency ::
  "string \<Rightarrow> string \<Rightarrow> string \<Rightarrow> datetime \<Rightarrow> store \<Rightarrow> action_binding result \<times> store"
where
  "bind_prepared_action_idempotency pid key digest bound_at s =
     (if \<not> bounded_token key
      then (Err (ConfigurationError ''action idempotency key must be non-empty and bounded''), s)
      else if \<not> canonical_sha256 digest
      then (Err (ConfigurationError ''prepared action digest must be canonical SHA-256''), s)
      else case aware_or_error bound_at of
        Inl e \<Rightarrow> (Err e, s)
      | Inr _ \<Rightarrow> immediate_transaction (\<lambda>s.
          case prepared_row_of pid s of
            None \<Rightarrow> (Err (ConfigurationError ''prepared action idempotency decision is missing''), s)
          | Some w \<Rightarrow>
              if pd_action_digest (pw_decision w) \<noteq> digest
              then (Err (ConfigurationError ''prepared action idempotency digest does not match''), s)
              else let bs = bindings_of pid key s in
                if binding_conflict pid key digest bs
                then (Err (ConfigurationError ''prepared action idempotency binding conflicts''), s)
                else case bs of
                  [] \<Rightarrow> (Err (ConfigurationError
                          ''new action idempotency binding requires atomic prepared claim''), s)
                | b # _ \<Rightarrow> (Ok b, s)) s)"

definition get_prepared_action_idempotency :: "string \<Rightarrow> store \<Rightarrow> action_binding option" where
  "get_prepared_action_idempotency pid s =
     select_row (\<lambda>b. ab_prepared_id b = pid) (prepared_action_idempotency s)"

text \<open>A released action needs its full-release settlement; a prepared one is cancelled.\<close>

definition full_release_settled :: "string \<Rightarrow> store \<Rightarrow> bool" where
  "full_release_settled pid s =
     (case select_row (\<lambda>(y, r). pv_prepared_id (py_payload y) = pid \<and> py_state y = Pay_RELEASED
             \<and> sr_reservation_id r = pv_reservation_id (py_payload y) \<and> sr_status r = Set_RELEASED)
             (List.product (payment_reservations s) (settlement_receipts s)) of
        None \<Rightarrow> False
      | Some (_, r) \<Rightarrow> amount (sr_captured_amount r) = 0)"

definition abandon_state ::
  "string \<Rightarrow> string \<Rightarrow> datetime \<Rightarrow> string option \<Rightarrow> prepared_row \<Rightarrow> store \<Rightarrow> unit result \<times> store"
where
  "abandon_state tid pid abandoned_at token w s =
     (if pw_state w = Prep_PREPARED
      then if token = None \<and> abandoned_at < pd_expires_at (pw_decision w)
           then (Err (ConfigurationError ''live prepared action cannot be abandoned by recovery''), s)
           else if payment_row_for pid s \<noteq> None
           then (Err (ConfigurationError ''prepared action with a reservation cannot be abandoned''), s)
           else case mk_transition tid pid Prep_PREPARED Prep_CANCELLED abandoned_at
                       ''pre-invocation action idempotency claim abandoned'' of
             Inl e \<Rightarrow> (Err e, s)
           | Inr t \<Rightarrow> transition_prepared_locked t None s
      else if pw_state w = Prep_RELEASED
      then if full_release_settled pid s then (Ok (), s)
           else (Err (ConfigurationError ''released prepared action lacks full-release evidence''), s)
      else (Err (ConfigurationError ''prepared action cannot be abandoned from its state''), s))"

definition abandon_prepared_action_idempotency ::
  "string \<Rightarrow> string \<Rightarrow> string \<Rightarrow> datetime \<Rightarrow> string option \<Rightarrow> store
    \<Rightarrow> PreparedRouteDecision result \<times> store"
where
  "abandon_prepared_action_idempotency tid pid digest abandoned_at token s =
     (case aware_or_error abandoned_at of
        Inl e \<Rightarrow> (Err e, s)
      | Inr _ \<Rightarrow> immediate_transaction (\<lambda>s.
          case (prepared_row_of pid s, get_prepared_action_idempotency pid s) of
            (Some w, Some b) \<Rightarrow>
              (case find_record (ab_idempotency_key b) s of
                 None \<Rightarrow> (Err (ConfigurationError
                           ''prepared action idempotency binding is unavailable''), s)
               | Some a \<Rightarrow>
                   if ab_action_digest b \<noteq> digest \<or> ir_request_hash a \<noteq> digest
                   then (Err (ConfigurationError
                          ''prepared action abandonment digest does not match''), s)
                   else if token \<noteq> None \<and> pw_claim_token w \<noteq> token
                   then (Err (ConfigurationError ''prepared action abandonment does not own the claim''), s)
                   else if ir_state a \<noteq> Idem_claimed
                   then (Err (ConfigurationError
                          ''executing or completed action idempotency cannot be abandoned''), s)
                   else case abandon_state tid pid abandoned_at token w s of
                     (Inl e, s1) \<Rightarrow> (Err e, s1)
                   | (Inr _, s1) \<Rightarrow>
                       let s2 = s1\<lparr>prepared_action_idempotency := filter
                             (\<lambda>b. ab_prepared_id b \<noteq> pid) (prepared_action_idempotency s1)\<rparr>;
                           hit = (\<lambda>x. ir_key x = ab_idempotency_key b \<and> ir_request_hash x = digest
                                     \<and> ir_state x = Idem_claimed);
                           s3 = s2\<lparr>idempotency_records :=
                                     filter (\<lambda>x. \<not> hit x) (idempotency_records s2)\<rparr> in
                       if rowcount hit (idempotency_records s2) \<noteq> 1
                       then (Err (ConfigurationError
                              ''prepared action idempotency claim lost its abandonment race''), s2)
                       else case get_prepared_decision pid s3 of
                         None \<Rightarrow> (Err (TypeError ''NoneType is not subscriptable''), s3)
                       | Some d \<Rightarrow> (Ok d, s3))
          | _ \<Rightarrow> (Err (ConfigurationError ''prepared action idempotency binding is unavailable''), s)) s)"

end
