(* ===== verification/Payment_Store.thy ===== *)
theory Payment_Store
  imports Prepared_Store
begin

text \<open>
  The exact-money path of \<open>ReceiptStore\<close> (\<open>aeep/store.py\<close>): reserving the maximum of a
  claimed decision within a budget, the states of a reservation, the intent claimed before
  an external release or settlement, usage statements, and the settlement receipt that ends
  reservation and decision together. Whether a signature of a stored key verifies
  (\<open>TrustStoreVerifier\<close>, which rests on the cryptography package) is an argument.
\<close>

section \<open>Rows and authorities\<close>

definition is_payment :: "string \<Rightarrow> payment_row \<Rightarrow> bool" where
  "is_payment rid y = (pv_reservation_id (py_payload y) = rid)"

definition payment_row_of :: "string \<Rightarrow> store \<Rightarrow> payment_row option" where
  "payment_row_of rid s = select_row (is_payment rid) (payment_reservations s)"

definition payment_from_row :: "payment_row \<Rightarrow> PaymentReservationV2" where
  "payment_from_row y = (py_payload y)\<lparr>pv_state := py_state y, pv_updated_at := py_updated_at y,
     pv_indeterminate_reason := py_indeterminate_reason y\<rparr>"

definition get_payment_reservation_v2 :: "string \<Rightarrow> store \<Rightarrow> PaymentReservationV2 option" where
  "get_payment_reservation_v2 rid s = map_option payment_from_row (payment_row_of rid s)"

definition fresh_payment_row :: "PaymentReservationV2 \<Rightarrow> payment_row" where
  "fresh_payment_row r = \<lparr>py_payload = r, py_state = pv_state r, py_operation_intent = None,
     py_updated_at = pv_updated_at r, py_indeterminate_reason = pv_indeterminate_reason r\<rparr>"

text \<open>The unique columns of a payment reservation; a null quote id never clashes.\<close>

definition payment_clash :: "payment_row \<Rightarrow> payment_row \<Rightarrow> bool" where
  "payment_clash x y =
     (let p = py_payload x; q = py_payload y in
      pv_reservation_id p = pv_reservation_id q \<or> pv_charge_id p = pv_charge_id q
      \<or> pv_idempotency_key p = pv_idempotency_key q \<or> pv_prepared_id p = pv_prepared_id q
      \<or> pv_quote_id p \<noteq> None \<and> pv_quote_id p = pv_quote_id q)"

datatype signed_authorization = Signed_quote BoundedQuote | Signed_offer CapabilityOffer

definition require_active_signing_key ::
  "string \<Rightarrow> SignatureEnvelopeV2 \<Rightarrow> datetime \<Rightarrow> string \<Rightarrow> store \<Rightarrow> signing_key_row result"
where
  "require_active_signing_key provider signature moment capability s =
     (case select_row (\<lambda>k. sk_provider_id k = provider \<and> sk_key_id k = sv_key_id signature)
             (provider_signing_keys s) of
        None \<Rightarrow> Err (ConfigurationError ''economic authorization signing key is not trusted'')
      | Some k \<Rightarrow>
          if sk_ed25519 k \<noteq> sv_ed25519 signature
          then Err (ConfigurationError ''economic authorization signing algorithm changed'')
          else if \<not> sk_active k \<or> sk_revoked_at k \<noteq> None
          then Err (ConfigurationError ''economic authorization signing key is not active'')
          else if \<not> aware moment
          then Err (ConfigurationError ''store timestamps must be timezone-aware'')
          else if moment < sk_valid_from k \<or> sk_valid_until k \<le> moment
          then Err (ConfigurationError ''economic authorization signing key is not currently valid'')
          else if sk_allowed_capabilities k \<noteq> [] \<and> capability \<notin> set (sk_allowed_capabilities k)
          then Err (ConfigurationError ''economic authorization capability is not trusted for key'')
          else Ok k)"

definition require_valid_signature ::
  "(signed_authorization \<Rightarrow> signing_key_row \<Rightarrow> datetime \<Rightarrow> bool)
    \<Rightarrow> signed_authorization \<Rightarrow> datetime \<Rightarrow> store \<Rightarrow> unit result"
where
  "require_valid_signature verify a moment s =
     (case (case a of
              Signed_quote q \<Rightarrow> require_active_signing_key (bq_provider_id q) (bq_signature q) moment
                                  (bq_capability q) s
            | Signed_offer f \<Rightarrow> require_active_signing_key (co_provider_id f) (co_signature f) moment
                                  (co_capability f) s) of
        Inl e \<Rightarrow> Err e
      | Inr k \<Rightarrow>
          if \<not> verify a k moment
          then Err (ConfigurationError ''economic authorization signature verification failed'')
          else Ok ())"

definition offer_maximum :: "CapabilityOffer \<Rightarrow> PreparedRouteDecision \<Rightarrow> CurrencyAmount result" where
  "offer_maximum f d = offer_authorized_maximum f (map_of (pd_disclosed_quote_features d))"

definition card_maximum :: "RateCardSnapshot \<Rightarrow> PreparedRouteDecision \<Rightarrow> CurrencyAmount result" where
  "card_maximum c d = rate_card_authorized_maximum c (pd_authorization_meter_quantities d)"

definition find_quote :: "string \<Rightarrow> store \<Rightarrow> BoundedQuote option" where
  "find_quote i s = select_row (\<lambda>q. bq_quote_id q = i) (bounded_quotes s)"

definition find_offer :: "string \<Rightarrow> store \<Rightarrow> offer_row option" where
  "find_offer i s = select_row (\<lambda>f. co_offer_id (ow_offer f) = i) (capability_offers s)"

definition find_card :: "string \<Rightarrow> store \<Rightarrow> RateCardSnapshot option" where
  "find_card i s = select_row (\<lambda>c. rs_snapshot_id c = Some i) (rate_card_snapshots s)"

text \<open>The maximum that the basis of a reservation authorizes at the time of the reservation.\<close>

definition reservation_basis_maximum ::
  "(signed_authorization \<Rightarrow> signing_key_row \<Rightarrow> datetime \<Rightarrow> bool)
    \<Rightarrow> PaymentReservationV2 \<Rightarrow> PreparedRouteDecision \<Rightarrow> store \<Rightarrow> CurrencyAmount result"
where
  "reservation_basis_maximum verify r d s =
     (let aid = the (pv_authorization_id r); now = pv_updated_at r in
      case pv_authorization_kind r of
        Some Auth_SIGNED_QUOTE \<Rightarrow>
          (case find_quote aid s of
             None \<Rightarrow> Err (ConfigurationError ''signed quote authorization is missing'')
           | Some q \<Rightarrow>
               if pv_quote_id r \<noteq> Some (bq_quote_id q) \<or> pd_selected_quote_id d \<noteq> Some (bq_quote_id q)
                  \<or> bq_action_digest q \<noteq> pd_action_digest d
                  \<or> Some (bq_executor_id q) \<noteq> pd_selected_executor_id d
                  \<or> Some (bq_executor_fingerprint q) \<noteq> pd_selected_executor_fingerprint d
               then Err (ConfigurationError ''signed quote authorization binding changed'')
               else if now < bq_issued_at q \<or> bq_expires_at q \<le> now
               then Err (ConfigurationError ''signed quote authorization is not currently valid'')
               else case require_valid_signature verify (Signed_quote q) now s of
                 Inl e \<Rightarrow> Err e | Inr _ \<Rightarrow> Ok (bq_maximum_amount q))
      | Some Auth_PUBLISHED_OFFER \<Rightarrow>
          (case find_offer aid s of
             None \<Rightarrow> Err (ConfigurationError ''published offer authorization is missing'')
           | Some row \<Rightarrow>
               let f = ow_offer row in
               if pd_selected_offer_id d \<noteq> Some (co_offer_id f)
                  \<or> Some (co_executor_id f) \<noteq> pd_selected_executor_id d
                  \<or> Some (co_executor_fingerprint f) \<noteq> pd_selected_executor_fingerprint d
               then Err (ConfigurationError ''published offer authorization binding changed'')
               else if \<not> ow_active row \<or> ow_revoked_at row \<noteq> None \<or> now < co_valid_from f
                       \<or> co_valid_until f \<le> now
               then Err (ConfigurationError ''published offer authorization is not active'')
               else case require_valid_signature verify (Signed_offer f) now s of
                 Inl e \<Rightarrow> Err e | Inr _ \<Rightarrow> offer_maximum f d)
      | Some Auth_PINNED_RATE_CARD \<Rightarrow>
          (case find_card aid s of
             None \<Rightarrow> Err (ConfigurationError ''pinned rate-card authorization is missing'')
           | Some c \<Rightarrow>
               if pd_selected_rate_card_id d \<noteq> rs_snapshot_id c
               then Err (ConfigurationError ''pinned rate-card authorization binding changed'')
               else if \<not> aware (rs_effective_from c) \<or> \<not> opt_all aware (rs_effective_until c)
                       \<or> now < rs_effective_from c \<or> \<not> opt_all (\<lambda>u. now < u) (rs_effective_until c)
               then Err (ConfigurationError ''pinned rate-card authorization is not active'')
               else card_maximum c d)
      | None \<Rightarrow> Err (ConfigurationError ''unsupported payment authorization basis''))"

section \<open>Committed money\<close>

text \<open>
  \<open>committed_amount\<close>: what outstanding reservations hold, and what settled ones captured and
  did not refund since the beginning of the period.
\<close>

definition settled_payment :: "string \<Rightarrow> store \<Rightarrow> bool" where
  "settled_payment rid s =
     (\<exists>y \<in> set (payment_reservations s). is_payment rid y \<and> py_state y = Pay_SETTLED)"

definition open_payment :: "string \<Rightarrow> payment_row \<Rightarrow> bool" where
  "open_payment cur y =
     (currency (pv_maximum_amount (py_payload y)) = cur \<and> py_state y \<notin> {Pay_SETTLED, Pay_RELEASED})"

definition outstanding_payments :: "string \<Rightarrow> store \<Rightarrow> rat" where
  "outstanding_payments cur s =
     sum_list (map (\<lambda>y. amount (pv_maximum_amount (py_payload y)))
       (filter (open_payment cur) (payment_reservations s)))"

definition since_ok :: "datetime option \<Rightarrow> datetime \<Rightarrow> bool" where
  "since_ok since t = opt_all (\<lambda>b. b \<le> t) since"

definition captured_payments :: "datetime option \<Rightarrow> string \<Rightarrow> store \<Rightarrow> rat" where
  "captured_payments since cur s =
     sum_list (map (\<lambda>r. amount (sr_captured_amount r))
       (filter (\<lambda>r. currency (sr_reserved_amount r) = cur \<and> settled_payment (sr_reservation_id r) s
                  \<and> since_ok since (sr_settled_at r)) (settlement_receipts s)))"

definition refunded_payments :: "datetime option \<Rightarrow> string \<Rightarrow> store \<Rightarrow> rat" where
  "refunded_payments since cur s =
     sum_list (map (\<lambda>x. amount (rr_amount x))
       (filter (\<lambda>x. currency (rr_amount x) = cur
                  \<and> (case find_settlement (rr_settlement_id x) s of
                       None \<Rightarrow> False | Some r \<Rightarrow> settled_payment (sr_reservation_id r) s)
                  \<and> since_ok since (rr_refunded_at x)) (refund_receipts s)))"

definition missing_settlement :: "string \<Rightarrow> store \<Rightarrow> bool" where
  "missing_settlement cur s =
     list_ex (\<lambda>y. currency (pv_maximum_amount (py_payload y)) = cur \<and> py_state y = Pay_SETTLED
        \<and> pv_reservation_id (py_payload y) \<notin> sr_reservation_id ` set (settlement_receipts s))
       (payment_reservations s)"

definition committed_amount :: "datetime option \<Rightarrow> string \<Rightarrow> store \<Rightarrow> rat result" where
  "committed_amount since cur s =
     (if missing_settlement cur s
      then Err (ConfigurationError ''settled reservation is missing immutable settlement evidence'')
      else Ok (outstanding_payments cur s
               + max 0 (captured_payments since cur s - refunded_payments since cur s)))"

definition within_limit ::
  "datetime option \<Rightarrow> PaymentReservationV2 \<Rightarrow> CurrencyAmount option \<Rightarrow> string \<Rightarrow> store \<Rightarrow> unit result"
where
  "within_limit since r limit message s =
     (case limit of
        None \<Rightarrow> Ok ()
      | Some l \<Rightarrow>
          (case committed_amount since (currency (pv_maximum_amount r)) s of
             Inl e \<Rightarrow> Err e
           | Inr committed \<Rightarrow>
               if committed + amount (pv_maximum_amount r) > amount l
               then Err (ConfigurationError message) else Ok ()))"

section \<open>Reserving\<close>

text \<open>The checks between the claim of the decision and its basis; \<open>existing\<close> is a stored reservation.\<close>

definition reservation_binding_errors ::
  "PaymentReservationV2 \<Rightarrow> prepared_row \<Rightarrow> (bool \<times> error) list"
where
  "reservation_binding_errors r w =
     (let d = pw_decision w; now = pv_updated_at r in
      [(\<not> aware now, ConfigurationError ''store timestamps must be timezone-aware''),
       (case pw_claimed_at w of None \<Rightarrow> True | Some t \<Rightarrow> now < t,
        ConfigurationError ''payment reservation predates its prepared claim''),
       (pd_expires_at d \<le> now,
        ConfigurationError ''payment reservation prepared decision has expired''),
       (pd_action_id d \<noteq> pv_action_id r,
        ConfigurationError ''payment reservation is not bound to the prepared action''),
       (pv_authorization_kind r = None \<or> pv_authorization_id r = None
          \<or> pv_authorization_kind r \<noteq> pd_authorization_kind d
          \<or> pv_authorization_id r \<noteq> pd_authorization_id d,
        ConfigurationError ''payment reservation authorization does not match prepared decision''),
       (pd_maximum_cash_authorization d \<noteq> Some (pv_maximum_amount r),
        ConfigurationError ''payment reservation must equal the prepared maximum authorization'')])"

definition insert_payment ::
  "string \<Rightarrow> string \<Rightarrow> PaymentReservationV2 \<Rightarrow> store \<Rightarrow> PaymentReservationV2 result \<times> store"
where
  "insert_payment tid token r s =
     (case immutable_row_insert payment_clash (is_payment (pv_reservation_id r)) py_payload
             (fresh_payment_row r) (payment_reservations s) of
        (Inl e, t) \<Rightarrow> (Err e, s\<lparr>payment_reservations := t\<rparr>)
      | (Inr _, t) \<Rightarrow>
          let s1 = s\<lparr>payment_reservations := t\<rparr> in
          case mk_transition tid (pv_prepared_id r) Prep_PREPARED Prep_RESERVED (pv_updated_at r)
                 (''payment reservation '' @ pv_reservation_id r) of
            Inl e \<Rightarrow> (Err e, s1)
          | Inr tr \<Rightarrow>
              (case transition_prepared_locked tr (Some token) s1 of
                 (Inl e, s2) \<Rightarrow> (Err e, s2) | (Inr _, s2) \<Rightarrow> (Ok r, s2)))"

definition reserve_payment_v2 ::
  "(signed_authorization \<Rightarrow> signing_key_row \<Rightarrow> datetime \<Rightarrow> bool) \<Rightarrow> string \<Rightarrow> PaymentReservationV2 \<Rightarrow> string
    \<Rightarrow> CurrencyAmount option \<Rightarrow> CurrencyAmount option \<Rightarrow> bool \<Rightarrow> datetime option \<Rightarrow> store
    \<Rightarrow> PaymentReservationV2 result \<times> store"
where
  "reserve_payment_v2 verify tid r token budget prepaid unlimited period_start s =
     (if pv_state r \<noteq> Pay_RESERVED
      then (Err (ConfigurationError ''a new payment reservation must be RESERVED''), s)
      else if \<not> bounded_token token
      then (Err (ConfigurationError ''payment reservation requires a bounded prepared claim token''), s)
      else if unlimited = (budget \<noteq> None)
      then (Err (ConfigurationError ''choose exactly one finite or unlimited budget policy''), s)
      else if \<not> opt_all (\<lambda>b. currency (pv_maximum_amount r) = currency b) budget
      then (Err (ConfigurationError
             ''payment reservation currency does not match budget currency''), s)
      else if \<not> opt_all (\<lambda>b. currency (pv_maximum_amount r) = currency b) prepaid
      then (Err (ConfigurationError
             ''payment reservation currency does not match prepaid currency''), s)
      else if \<not> opt_all aware period_start
      then (Err (ConfigurationError ''store timestamps must be timezone-aware''), s)
      else immediate_transaction (\<lambda>s.
        case prepared_row_of (pv_prepared_id r) s of
          None \<Rightarrow> (Err (ConfigurationError ''payment reservation prepared decision is missing''), s)
        | Some w \<Rightarrow>
            if pw_claim_token w \<noteq> Some token
            then (Err (ConfigurationError
                   ''payment reservation does not own the prepared claim''), s)
            else
              let existing = select_row (\<lambda>y. is_payment (pv_reservation_id r) y
                    \<or> pv_idempotency_key (py_payload y) = pv_idempotency_key r)
                    (payment_reservations s) in
              if existing = None \<and> pw_state w \<noteq> Prep_PREPARED
              then (Err (ConfigurationError ''payment reservation requires a PREPARED decision''), s)
              else if \<not> opt_all (\<lambda>y. py_payload y = r) existing
              then (Err (ConfigurationError
                     ''payment reservation ID or idempotency key conflicts with existing content''), s)
              else if existing \<noteq> None \<and> py_state (the existing) \<in> {Pay_SETTLED, Pay_RELEASED}
                      \<and> pw_state w \<in> {Prep_SETTLED, Prep_RELEASED}
              then (Ok (payment_from_row (the existing)), s)
              else if existing \<noteq> None \<and> pw_state w = Prep_PREPARED
              then (Err (ConfigurationError
                     ''reservation exists without its prepared transition''), s)
              else case first_error (reservation_binding_errors r w) of
                Inl e \<Rightarrow> (Err e, s)
              | Inr _ \<Rightarrow>
                  (case reservation_basis_maximum verify r (pw_decision w) s of
                     Inl e \<Rightarrow> (Err e, s)
                   | Inr m \<Rightarrow>
                       if m \<noteq> pv_maximum_amount r
                       then (Err (ConfigurationError
                              ''payment reservation does not equal its immutable authorization maximum''), s)
                       else case existing of
                         Some y \<Rightarrow> (Ok (payment_from_row y), s)
                       | None \<Rightarrow>
                           (case within_limit period_start r budget
                                   ''payment reservation exceeds available daily budget'' s of
                              Inl e \<Rightarrow> (Err e, s)
                            | Inr _ \<Rightarrow>
                                (case within_limit None r prepaid
                                        ''payment reservation exceeds available prepaid balance'' s of
                                   Inl e \<Rightarrow> (Err e, s)
                                 | Inr _ \<Rightarrow> insert_payment tid token r s)))) s)"

definition save_payment_reservation_v2 ::
  "PaymentReservationV2 \<Rightarrow> store \<Rightarrow> PaymentReservationV2 result \<times> store"
where
  "save_payment_reservation_v2 r s =
     (if get_payment_reservation_v2 (pv_reservation_id r) s = None
      then (Err (ConfigurationError ''new payment holds require atomic reserve_payment_v2''), s)
      else if pv_authorization_kind r = None \<or> pv_authorization_id r = None
      then (Err (ConfigurationError ''payment reservation authorization basis is missing''), s)
      else case immediate_transaction (\<lambda>s.
             case immutable_row_insert payment_clash (is_payment (pv_reservation_id r)) py_payload
                    (fresh_payment_row r) (payment_reservations s) of
               (Inl e, t) \<Rightarrow> (Err e, s\<lparr>payment_reservations := t\<rparr>)
             | (Inr _, t) \<Rightarrow> (Ok r, s\<lparr>payment_reservations := t\<rparr>)) s of
        (Inl e, s') \<Rightarrow> (Err e, s')
      | (Inr _, s') \<Rightarrow>
          (case get_payment_reservation_v2 (pv_reservation_id r) s' of
             None \<Rightarrow> (Err (ConfigurationError ''payment reservation disappeared after storage''), s')
           | Some stored \<Rightarrow> (Ok stored, s')))"

end
