(* ===== verification/Settlement_Store.thy ===== *)
theory Settlement_Store
  imports Payment_Store
begin

text \<open>
  What happens to a reservation after it was made (\<open>aeep/store.py\<close>): the paid invocation,
  the recorded uncertainty, the intent that is claimed before an external operation, the
  provider's usage statement, and the settlement receipt.
\<close>

section \<open>The paid invocation\<close>

text \<open>
  The maximum that the basis still authorizes at the point of no return. \<open>executor\<close> and
  \<open>fingerprint\<close> are the ones the caller revalidated.
\<close>

definition invocation_basis_maximum ::
  "(signed_authorization \<Rightarrow> signing_key_row \<Rightarrow> datetime \<Rightarrow> bool) \<Rightarrow> AuthorizationKind \<Rightarrow> string
    \<Rightarrow> string \<Rightarrow> string \<Rightarrow> datetime \<Rightarrow> PreparedRouteDecision \<Rightarrow> PaymentReservationV2 \<Rightarrow> store
    \<Rightarrow> CurrencyAmount result"
where
  "invocation_basis_maximum verify kind aid executor fingerprint now d r s =
     (case kind of
        Auth_SIGNED_QUOTE \<Rightarrow>
          (case find_quote aid s of
             None \<Rightarrow> Err (ConfigurationError ''signed quote authorization is missing'')
           | Some q \<Rightarrow>
               if pd_selected_quote_id d \<noteq> Some (bq_quote_id q) \<or> pv_quote_id r \<noteq> Some (bq_quote_id q)
                  \<or> bq_action_digest q \<noteq> pd_action_digest d \<or> bq_executor_id q \<noteq> executor
                  \<or> bq_executor_fingerprint q \<noteq> fingerprint \<or> bq_expires_at q \<le> now
               then Err (ConfigurationError ''signed quote invocation binding changed'')
               else case require_valid_signature verify (Signed_quote q) now s of
                 Inl e \<Rightarrow> Err e | Inr _ \<Rightarrow> Ok (bq_maximum_amount q))
      | Auth_PUBLISHED_OFFER \<Rightarrow>
          (case find_offer aid s of
             None \<Rightarrow> Err (ConfigurationError ''published offer authorization is missing'')
           | Some row \<Rightarrow>
               let f = ow_offer row in
               if pd_selected_offer_id d \<noteq> Some (co_offer_id f) \<or> co_executor_id f \<noteq> executor
                  \<or> co_executor_fingerprint f \<noteq> fingerprint \<or> \<not> ow_active row
                  \<or> ow_revoked_at row \<noteq> None \<or> now < co_valid_from f \<or> co_valid_until f \<le> now
               then Err (ConfigurationError ''published offer invocation authorization is not active'')
               else case require_valid_signature verify (Signed_offer f) now s of
                 Inl e \<Rightarrow> Err e | Inr _ \<Rightarrow> offer_maximum f d)
      | Auth_PINNED_RATE_CARD \<Rightarrow>
          (case find_card aid s of
             None \<Rightarrow> Err (ConfigurationError ''pinned rate-card authorization is missing'')
           | Some c \<Rightarrow>
               if pd_selected_rate_card_id d \<noteq> rs_snapshot_id c \<or> now < rs_effective_from c
                  \<or> \<not> opt_all (\<lambda>u. now < u) (rs_effective_until c)
               then Err (ConfigurationError ''pinned rate-card invocation authorization is not active'')
               else card_maximum c d))"

text \<open>\<open>removeprefix("sha256:")\<close>.\<close>

definition untagged :: "string \<Rightarrow> string" where
  "untagged s = (if take 7 s = ''sha256:'' then drop 7 s else s)"

definition paid_binding_errors ::
  "string \<Rightarrow> string \<Rightarrow> string \<Rightarrow> string \<Rightarrow> AuthorizationKind \<Rightarrow> string \<Rightarrow> string \<Rightarrow> datetime
    \<Rightarrow> prepared_row \<Rightarrow> (bool \<times> error) list"
where
  "paid_binding_errors action policy executor fingerprint kind aid token invoked_at w =
     (let d = pw_decision w in
      [(pd_action_digest d \<noteq> action, ConfigurationError ''prepared paid invocation action digest changed''),
       (pd_effective_policy_digest d \<noteq> policy,
        ConfigurationError ''prepared paid invocation policy digest changed''),
       (pd_selected_executor_id d \<noteq> Some executor,
        ConfigurationError ''prepared paid invocation executor changed''),
       (pd_selected_executor_fingerprint d \<noteq> Some fingerprint,
        ConfigurationError ''prepared paid invocation executor fingerprint changed''),
       (pd_authorization_kind d \<noteq> Some kind,
        ConfigurationError ''prepared paid invocation authorization kind changed''),
       (pd_authorization_id d \<noteq> Some aid,
        ConfigurationError ''prepared paid invocation authorization ID changed''),
       (pw_state w \<noteq> Prep_RESERVED,
        ConfigurationError ''prepared decision is not reserved for invocation''),
       (pw_claim_token w \<noteq> Some token,
        ConfigurationError ''prepared paid invocation does not own the claim''),
       (pd_expires_at d \<le> invoked_at, ConfigurationError ''prepared decision has expired'')])"

definition claim_prepared_for_paid_invocation ::
  "(signed_authorization \<Rightarrow> signing_key_row \<Rightarrow> datetime \<Rightarrow> bool) \<Rightarrow> string \<Rightarrow> string \<Rightarrow> string \<Rightarrow> string
    \<Rightarrow> string \<Rightarrow> string \<Rightarrow> string \<Rightarrow> AuthorizationKind \<Rightarrow> string \<Rightarrow> datetime \<Rightarrow> store
    \<Rightarrow> PreparedRouteDecision result \<times> store"
where
  "claim_prepared_for_paid_invocation verify tid pid token action policy executor fingerprint kind aid
       invoked_at s =
     (if \<not> bounded_token token
      then (Err (ConfigurationError ''prepared claim token must be non-empty and bounded''), s)
      else case aware_or_error invoked_at of
        Inl e \<Rightarrow> (Err e, s)
      | Inr _ \<Rightarrow> immediate_transaction (\<lambda>s.
          case prepared_row_of pid s of
            None \<Rightarrow> (Err (ConfigurationError ''prepared decision does not exist''), s)
          | Some w \<Rightarrow>
              (case first_error (paid_binding_errors action policy executor fingerprint kind aid token
                       invoked_at w) of
                 Inl e \<Rightarrow> (Err e, s)
               | Inr _ \<Rightarrow>
                   (case payment_row_for pid s of
                      None \<Rightarrow> (Err (ConfigurationError ''prepared paid invocation reservation is missing''), s)
                    | Some y \<Rightarrow>
                        let d = pw_decision w; r = py_payload y in
                        if py_state y \<noteq> Pay_RESERVED \<or> py_operation_intent y \<noteq> None
                           \<or> pv_authorization_kind r \<noteq> Some kind \<or> pv_authorization_id r \<noteq> Some aid
                           \<or> pd_maximum_cash_authorization d \<noteq> Some (pv_maximum_amount r)
                        then (Err (ConfigurationError
                               ''prepared paid invocation reservation binding changed''), s)
                        else if (case select_row (\<lambda>c. cw_executor_id c = executor) (route_candidates s) of
                                   None \<Rightarrow> False
                                 | Some c \<Rightarrow> \<not> cw_active c \<or> cw_fingerprint c \<noteq> untagged fingerprint)
                        then (Err (ConfigurationError
                               ''imported route is not active with the prepared fingerprint''), s)
                        else case invocation_basis_maximum verify kind aid executor fingerprint invoked_at
                                    d r s of
                          Inl e \<Rightarrow> (Err e, s)
                        | Inr m \<Rightarrow>
                            if m \<noteq> pv_maximum_amount r
                            then (Err (ConfigurationError
                                   ''paid invocation authorization maximum changed''), s)
                            else case mk_transition tid pid Prep_RESERVED Prep_INVOKING invoked_at
                                 ''claimed paid invocation after atomic route and trust revalidation'' of
                              Inl e \<Rightarrow> (Err e, s)
                            | Inr t \<Rightarrow>
                                (case transition_prepared_locked t (Some token) s of
                                   (Inl e, s') \<Rightarrow> (Err e, s')
                                 | (Inr _, s') \<Rightarrow> (Ok (d\<lparr>pd_state := Prep_INVOKING\<rparr>), s'))))) s)"

section \<open>Uncertain and disputed reservations\<close>

fun payment_transitions :: "PaymentReservationState \<Rightarrow> PaymentReservationState list" where
  "payment_transitions Pay_RESERVED = [Pay_INDETERMINATE, Pay_DISPUTED]"
| "payment_transitions Pay_SETTLING = [Pay_INDETERMINATE, Pay_DISPUTED]"
| "payment_transitions Pay_INDETERMINATE = [Pay_RESERVED, Pay_DISPUTED]"
| "payment_transitions Pay_DISPUTED = []"
| "payment_transitions Pay_SETTLED = []"
| "payment_transitions Pay_RELEASED = []"

text \<open>The fields other than state, update time and reason.\<close>

definition stable_payment :: "PaymentReservationV2 \<Rightarrow> PaymentReservationV2" where
  "stable_payment r =
     r\<lparr>pv_state := Pay_RESERVED, pv_updated_at := pv_created_at r, pv_indeterminate_reason := None\<rparr>"

definition set_payment ::
  "(payment_row \<Rightarrow> bool) \<Rightarrow> (payment_row \<Rightarrow> payment_row) \<Rightarrow> store \<Rightarrow> store"
where
  "set_payment hit f s = s\<lparr>payment_reservations := update_rows hit f (payment_reservations s)\<rparr>"

definition transition_payment_reservation_v2 ::
  "string \<Rightarrow> PaymentReservationState \<Rightarrow> PaymentReservationV2 \<Rightarrow> store \<Rightarrow> PaymentReservationV2 result \<times> store"
where
  "transition_payment_reservation_v2 rid expected updated s =
     (if pv_reservation_id updated \<noteq> rid
      then (Err (ConfigurationError ''updated reservation identity does not match''), s)
      else if pv_state updated \<in> {Pay_SETTLING, Pay_SETTLED, Pay_RELEASED}
      then (Err (ConfigurationError
             ''payment operation state requires an operation-specific atomic method''), s)
      else if pv_state updated \<notin> set (payment_transitions expected)
      then (Err (ConfigurationError ''illegal payment reservation transition''), s)
      else immediate_transaction (\<lambda>s.
        case payment_row_of rid s of
          None \<Rightarrow> (Err (ConfigurationError ''payment reservation does not exist''), s)
        | Some y \<Rightarrow>
            let current = payment_from_row y in
            if stable_payment current \<noteq> stable_payment updated
            then (Err (ConfigurationError ''payment reservation immutable fields cannot change''), s)
            else if pv_updated_at updated < pv_updated_at current
            then (Err (ConfigurationError ''payment reservation update cannot move backward in time''), s)
            else if pv_state current \<noteq> expected
            then if pv_state current = pv_state updated \<and> pv_updated_at current = pv_updated_at updated
                    \<and> pv_indeterminate_reason current = pv_indeterminate_reason updated
                 then (Ok current, s)
                 else (Err (ConfigurationError
                        ''payment reservation transition lost its state race''), s)
            else (Ok updated, set_payment (\<lambda>y. is_payment rid y \<and> py_state y = expected)
                   (\<lambda>y. y\<lparr>py_state := pv_state updated, py_updated_at := pv_updated_at updated,
                          py_indeterminate_reason := pv_indeterminate_reason updated\<rparr>) s)) s)"

section \<open>Operation intents\<close>

text \<open>
  An intent without recorded predecessor may only resume a settlement, and only when the
  execution left durable evidence and the basis of the authorization can be reproduced.
\<close>

definition execution_evidenced :: "prepared_row \<Rightarrow> PaymentReservationV2 \<Rightarrow> store \<Rightarrow> bool" where
  "execution_evidenced w r s =
     list_ex (\<lambda>x. xe_action_id x = pv_action_id r
        \<and> Some (xe_executor_id x) = pd_selected_executor_id (pw_decision w)
        \<and> xe_prepared_id x = Some (pv_prepared_id r) \<and> xe_attempt_id x = Some (pv_attempt_id r)
        \<and> xe_charge_id x = Some (pv_charge_id r)
        \<and> xe_authorization_kind x = pv_authorization_kind r
        \<and> xe_authorization_id x = pv_authorization_id r) (execution_receipts s)"

definition basis_reproduced :: "prepared_row \<Rightarrow> PaymentReservationV2 \<Rightarrow> store \<Rightarrow> bool result" where
  "basis_reproduced w r s =
     (let d = pw_decision w; aid = the (pv_authorization_id r) in
      if pv_authorization_id r = None
      then Err (ConfigurationError ''indeterminate settlement recovery authorization is missing'')
      else case pv_authorization_kind r of
        Some Auth_SIGNED_QUOTE \<Rightarrow>
          Ok (list_ex (\<lambda>u. us_prepared_id u = pv_prepared_id r \<and> us_attempt_id u = pv_attempt_id r)
                (usage_statements s))
      | Some Auth_PUBLISHED_OFFER \<Rightarrow>
          (case find_offer aid s of
             None \<Rightarrow> Ok False
           | Some row \<Rightarrow>
               if pd_selected_offer_id d \<noteq> Some (co_offer_id (ow_offer row))
                  \<or> pd_selected_executor_id d \<noteq> Some (co_executor_id (ow_offer row))
                  \<or> pd_selected_executor_fingerprint d \<noteq> Some (co_executor_fingerprint (ow_offer row))
               then Ok False
               else case offer_maximum (ow_offer row) d of
                 Inl e \<Rightarrow> Err e | Inr m \<Rightarrow> Ok (m = pv_maximum_amount r))
      | Some Auth_PINNED_RATE_CARD \<Rightarrow>
          (case find_card aid s of
             None \<Rightarrow> Ok False
           | Some c \<Rightarrow>
               if pd_selected_rate_card_id d \<noteq> rs_snapshot_id c then Ok False
               else case card_maximum c d of
                 Inl e \<Rightarrow> Err e | Inr m \<Rightarrow> Ok (m = pv_maximum_amount r))
      | None \<Rightarrow> Err (ConfigurationError
                  ''indeterminate settlement recovery authorization is missing''))"

text \<open>Entering SETTLING under an intent; an existing intent column is kept or set.\<close>

definition enter_settling ::
  "string \<Rightarrow> (string \<times> string) \<Rightarrow> datetime \<Rightarrow> bool \<Rightarrow> payment_row \<Rightarrow> store
    \<Rightarrow> PaymentReservationV2 result \<times> store"
where
  "enter_settling rid intent updated_at clear_reason y s =
     (let f = (\<lambda>y. y\<lparr>py_state := Pay_SETTLING, py_operation_intent := Some intent,
                 py_updated_at := updated_at,
                 py_indeterminate_reason := (if clear_reason then None else py_indeterminate_reason y)\<rparr>) in
      (Ok (payment_from_row (f y)), set_payment (is_payment rid) f s))"

definition claim_payment_intent_v2 ::
  "string \<Rightarrow> string \<Rightarrow> string \<Rightarrow> PreparedDecisionState \<Rightarrow> datetime \<Rightarrow> store
    \<Rightarrow> PaymentReservationV2 result \<times> store"
where
  "claim_payment_intent_v2 rid intent_type key required updated_at s =
     (if intent_type \<notin> {''release'', ''settle''}
      then (Err (ConfigurationError ''unknown payment operation intent''), s)
      else if \<not> bounded_token key
      then (Err (ConfigurationError
             ''payment operation intent requires a bounded idempotency key''), s)
      else case aware_or_error updated_at of
        Inl e \<Rightarrow> (Err e, s)
      | Inr _ \<Rightarrow> immediate_transaction (\<lambda>s.
          case payment_row_of rid s of
            None \<Rightarrow> (Err (ConfigurationError ''payment reservation does not exist''), s)
          | Some y \<Rightarrow>
              (case prepared_row_of (pv_prepared_id (py_payload y)) s of
                 None \<Rightarrow> (Err (ConfigurationError ''payment reservation does not exist''), s)
               | Some w \<Rightarrow>
                   let intent = (intent_type, key); late = updated_at < py_updated_at y in
                   if py_state y = Pay_SETTLING \<and> py_operation_intent y = Some intent
                   then (Ok (payment_from_row y), s)
                   else if py_state y = Pay_INDETERMINATE \<and> py_operation_intent y = Some intent
                   then if pw_state w \<noteq> required
                        then (Err (ConfigurationError ''recovery requires prepared state''), s)
                        else if late
                        then (Err (ConfigurationError ''payment intent cannot move backward in time''), s)
                        else enter_settling rid intent updated_at True y s
                   else if py_state y = Pay_INDETERMINATE \<and> py_operation_intent y = None
                   then if intent_type \<noteq> ''settle'' \<or> required \<noteq> Prep_SETTLING \<or> pw_state w \<noteq> Prep_SETTLING
                        then (Err (ConfigurationError
                               ''an intent-free indeterminate hold may only resume settlement''), s)
                        else (case basis_reproduced w (payment_from_row y) s of
                           Inl e \<Rightarrow> (Err e, s)
                         | Inr reproduced \<Rightarrow>
                             if \<not> reproduced \<or> \<not> execution_evidenced w (py_payload y) s
                             then (Err (ConfigurationError
                                    ''indeterminate settlement recovery lacks durable execution evidence''), s)
                             else if late
                             then (Err (ConfigurationError ''payment intent cannot move backward in time''), s)
                             else enter_settling rid intent updated_at True y s)
                   else if py_state y \<noteq> Pay_RESERVED
                   then (Err (ConfigurationError
                          ''payment reservation operation intent lost its state race''), s)
                   else if py_operation_intent y \<noteq> None
                   then (Err (ConfigurationError
                          ''payment reservation already has an operation intent''), s)
                   else if pw_state w \<noteq> required
                   then (Err (ConfigurationError ''intent requires prepared state''), s)
                   else if late
                   then (Err (ConfigurationError ''payment intent cannot move backward in time''), s)
                   else enter_settling rid intent updated_at False y s)) s)"

definition claim_payment_release_v2 ::
  "string \<Rightarrow> string \<Rightarrow> datetime \<Rightarrow> store \<Rightarrow> PaymentReservationV2 result \<times> store"
where
  "claim_payment_release_v2 rid key updated_at =
     claim_payment_intent_v2 rid ''release'' key Prep_RESERVED updated_at"

definition claim_payment_settlement_v2 ::
  "string \<Rightarrow> string \<Rightarrow> datetime \<Rightarrow> store \<Rightarrow> PaymentReservationV2 result \<times> store"
where
  "claim_payment_settlement_v2 rid key updated_at =
     claim_payment_intent_v2 rid ''settle'' key Prep_SETTLING updated_at"

definition payment_reservation_operation_intent :: "string \<Rightarrow> store \<Rightarrow> (string \<times> string) option" where
  "payment_reservation_operation_intent rid s =
     (case payment_row_of rid s of None \<Rightarrow> None | Some y \<Rightarrow> py_operation_intent y)"

section \<open>Usage statements\<close>

definition save_usage_statement :: "UsageStatement \<Rightarrow> store \<Rightarrow> UsageStatement result \<times> store" where
  "save_usage_statement u = immediate_transaction (\<lambda>s.
     case (find_quote (us_quote_id u) s, prepared_row_of (us_prepared_id u) s) of
       (Some q, Some w) \<Rightarrow>
         let d = pw_decision w;
             attempt = map_option (\<lambda>y. pv_attempt_id (py_payload y)) (payment_row_for (us_prepared_id u) s) in
         if us_provider_id u \<noteq> bq_provider_id q \<or> us_executor_id u \<noteq> bq_executor_id q
            \<or> us_executor_fingerprint u \<noteq> bq_executor_fingerprint q
            \<or> us_action_id u \<noteq> pd_action_id d \<or> Some (us_attempt_id u) \<noteq> attempt
         then (Err (ConfigurationError ''usage statement does not match its execution binding''), s)
         else if pd_selected_quote_id d \<noteq> Some (us_quote_id u)
                 \<or> pd_authorization_kind d \<noteq> Some Auth_SIGNED_QUOTE
                 \<or> pd_authorization_id d \<noteq> Some (us_quote_id u)
         then (Err (ConfigurationError ''usage statement requires the selected signed quote''), s)
         else (case immutable_insert_locked
                  (\<lambda>x y. us_usage_statement_id x = us_usage_statement_id y
                     \<or> us_prepared_id x = us_prepared_id y \<and> us_attempt_id x = us_attempt_id y)
                  (\<lambda>x. us_usage_statement_id x = us_usage_statement_id u) u (usage_statements s) of
                 (Inl e, t) \<Rightarrow> (Err e, s\<lparr>usage_statements := t\<rparr>)
               | (Inr _, t) \<Rightarrow> (Ok u, s\<lparr>usage_statements := t\<rparr>))
     | _ \<Rightarrow> (Err (ConfigurationError ''usage statement quote or prepared decision is missing''), s))"

section \<open>Settlement receipts\<close>

text \<open>The states that a receipt of each status ends in, and the states it may start from.\<close>

fun settlement_target :: "SettlementStatus \<Rightarrow> PaymentReservationState" where
  "settlement_target Set_COMPLETED = Pay_SETTLED"
| "settlement_target Set_SETTLED = Pay_SETTLED"
| "settlement_target Set_RELEASED = Pay_RELEASED"
| "settlement_target Set_DISPUTED = Pay_DISPUTED"
| "settlement_target Set_REFUNDED = Pay_SETTLED"
| "settlement_target _ = Pay_INDETERMINATE"

fun settlement_prepared_target :: "SettlementStatus \<Rightarrow> PreparedDecisionState" where
  "settlement_prepared_target Set_COMPLETED = Prep_SETTLED"
| "settlement_prepared_target Set_SETTLED = Prep_SETTLED"
| "settlement_prepared_target Set_RELEASED = Prep_RELEASED"
| "settlement_prepared_target Set_DISPUTED = Prep_DISPUTED"
| "settlement_prepared_target Set_REFUNDED = Prep_SETTLED"
| "settlement_prepared_target _ = Prep_INDETERMINATE"

fun settlement_sources :: "PaymentReservationState \<Rightarrow> PaymentReservationState list" where
  "settlement_sources Pay_SETTLED = [Pay_SETTLING, Pay_INDETERMINATE, Pay_DISPUTED]"
| "settlement_sources Pay_RELEASED = [Pay_SETTLING, Pay_INDETERMINATE]"
| "settlement_sources Pay_DISPUTED = [Pay_RESERVED, Pay_SETTLING, Pay_INDETERMINATE]"
| "settlement_sources Pay_INDETERMINATE = [Pay_RESERVED, Pay_SETTLING]"
| "settlement_sources _ = []"

fun settlement_prepared_sources :: "PreparedDecisionState \<Rightarrow> PreparedDecisionState list" where
  "settlement_prepared_sources Prep_SETTLED = [Prep_SETTLING, Prep_INDETERMINATE, Prep_DISPUTED]"
| "settlement_prepared_sources Prep_RELEASED = [Prep_RESERVED]"
| "settlement_prepared_sources Prep_DISPUTED =
     [Prep_INVOKING, Prep_AWAITING_USAGE, Prep_SETTLING, Prep_INDETERMINATE]"
| "settlement_prepared_sources Prep_INDETERMINATE = [Prep_INVOKING, Prep_AWAITING_USAGE, Prep_SETTLING]"
| "settlement_prepared_sources _ = []"

text \<open>The identity checks of a receipt against its reservation \<open>r\<close> and decision \<open>d\<close>.\<close>

definition settlement_binding_errors ::
  "SettlementReceipt \<Rightarrow> PaymentReservationV2 \<Rightarrow> PreparedRouteDecision \<Rightarrow> store \<Rightarrow> (bool \<times> error) list"
where
  "settlement_binding_errors x r d s =
     (let cur = currency (sr_reserved_amount x); maximum = amount (pv_maximum_amount r);
          signed = sr_authorization_kind x = Some Auth_SIGNED_QUOTE in
      [(sr_charge_id x \<noteq> pv_charge_id r, ConfigurationError ''settlement charge does not match reservation''),
       (sr_prepared_id x \<noteq> pv_prepared_id r,
        ConfigurationError ''settlement prepared decision does not match reservation''),
       (sr_quote_id x \<noteq> pv_quote_id r, ConfigurationError ''settlement quote does not match reservation''),
       (sr_authorization_kind x \<noteq> pv_authorization_kind r,
        ConfigurationError ''settlement authorization kind does not match reservation''),
       (sr_authorization_id x \<noteq> pv_authorization_id r,
        ConfigurationError ''settlement authorization ID does not match reservation''),
       (sr_authorization_kind x \<noteq> pd_authorization_kind d,
        ConfigurationError ''settlement prepared authorization kind does not match reservation''),
       (sr_authorization_id x \<noteq> pd_authorization_id d,
        ConfigurationError ''settlement prepared authorization ID does not match reservation''),
       (sr_attempt_id x \<noteq> pv_attempt_id r, ConfigurationError ''settlement attempt does not match reservation''),
       (cur \<noteq> currency (pv_maximum_amount r),
        ConfigurationError ''settlement reservation currency does not match reservation''),
       (map_option currency (pd_maximum_cash_authorization d) \<noteq> Some cur,
        ConfigurationError ''settlement prepared currency does not match reservation''),
       (map_option amount (pd_maximum_cash_authorization d) \<noteq> Some maximum
          \<or> amount (sr_reserved_amount x) \<noteq> maximum,
        ConfigurationError ''settlement reservation must equal the authorization maximum''),
       (signed \<and> (case find_quote (the (sr_authorization_id x)) s of
                     None \<Rightarrow> True
                   | Some q \<Rightarrow> sr_quote_id x \<noteq> sr_authorization_id x
                       \<or> amount (bq_maximum_amount q) \<noteq> maximum
                       \<or> currency (bq_maximum_amount q) \<noteq> cur),
        ConfigurationError ''settlement reservation must equal the signed quote maximum''),
       (\<not> signed \<and> sr_quote_id x \<noteq> None,
        ConfigurationError ''non-quote settlement cannot carry a quote ID''),
       (amount (sr_captured_amount x) > maximum,
        ConfigurationError ''settlement capture exceeds the authorization maximum'')])"

text \<open>The checks of a first receipt on the states, the claimed intent and the time.\<close>

definition settlement_state_errors ::
  "(string \<Rightarrow> string \<Rightarrow> string) \<Rightarrow> SettlementReceipt \<Rightarrow> payment_row \<Rightarrow> prepared_row \<Rightarrow> (bool \<times> error) list"
where
  "settlement_state_errors result_id x y w =
     (let expected = (if settlement_target (sr_status x) = Pay_RELEASED \<or> pw_state w = Prep_RESERVED
                      then ''release'' else ''settle'') in
      [(py_state y \<notin> set (settlement_sources (settlement_target (sr_status x))),
        ConfigurationError ''reservation cannot settle from its state''),
       (pw_state w \<notin> set (settlement_prepared_sources (settlement_prepared_target (sr_status x))),
        ConfigurationError ''prepared decision cannot settle from its state''),
       (case py_operation_intent y of None \<Rightarrow> True | Some (operation, _) \<Rightarrow> operation \<noteq> expected,
        ConfigurationError ''settlement does not match the claimed payment operation intent''),
       (case py_operation_intent y of None \<Rightarrow> True
        | Some (operation, key) \<Rightarrow> key = [] \<or> sr_settlement_id x \<noteq> result_id operation key,
        ConfigurationError ''settlement ID does not match the claimed payment operation''),
       (\<not> aware (sr_settled_at x), ConfigurationError ''store timestamps must be timezone-aware''),
       (sr_settled_at x < py_updated_at y,
        ConfigurationError ''settlement cannot precede the reservation update'')])"

definition settlement_clash :: "SettlementReceipt \<Rightarrow> SettlementReceipt \<Rightarrow> bool" where
  "settlement_clash x y =
     (sr_settlement_id x = sr_settlement_id y \<or> sr_reservation_id x = sr_reservation_id y
      \<or> sr_charge_id x = sr_charge_id y)"

text \<open>The reasons recorded with the transition and with an uncertain reservation.\<close>

fun settlement_status_text :: "SettlementStatus \<Rightarrow> string" where
  "settlement_status_text Set_PENDING = ''PENDING''"
| "settlement_status_text Set_COMPLETED = ''COMPLETED''"
| "settlement_status_text Set_SETTLED = ''SETTLED''"
| "settlement_status_text Set_RELEASED = ''RELEASED''"
| "settlement_status_text Set_INDETERMINATE = ''INDETERMINATE''"
| "settlement_status_text Set_DISPUTED = ''DISPUTED''"
| "settlement_status_text Set_REFUNDED = ''REFUNDED''"
| "settlement_status_text Set_FAILED = ''FAILED''"

definition settlement_reason :: "SettlementReceipt \<Rightarrow> string" where
  "settlement_reason x = ''settlement '' @ sr_settlement_id x @ '': '' @ settlement_status_text (sr_status x)"

definition unsettled_reason :: "SettlementReceipt \<Rightarrow> string" where
  "unsettled_reason x = ''settlement status '' @ settlement_status_text (sr_status x)"

definition apply_settlement ::
  "PreparedRouteTransition \<Rightarrow> PreparedRouteTransition list \<Rightarrow> SettlementReceipt \<Rightarrow> payment_row \<Rightarrow> store
    \<Rightarrow> store"
where
  "apply_settlement t history x y s =
     (let target = settlement_target (sr_status x);
          s1 = set_payment (\<lambda>z. is_payment (sr_reservation_id x) z \<and> py_state z = py_state y)
            (\<lambda>z. z\<lparr>py_state := target, py_operation_intent := None, py_updated_at := sr_settled_at x,
                   py_indeterminate_reason := (if target = Pay_INDETERMINATE
                     then Some (unsettled_reason x) else None)\<rparr>) s in
      s1\<lparr>prepared_route_transitions := history,
         prepared_route_decisions := update_rows
           (\<lambda>w. is_prepared (sr_prepared_id x) w \<and> pw_state w = pt_from_state t)
           (\<lambda>w. w\<lparr>pw_state := pt_to_state t\<rparr>) (prepared_route_decisions s1)\<rparr>)"

definition save_settlement_receipt ::
  "(string \<Rightarrow> string \<Rightarrow> string) \<Rightarrow> string \<Rightarrow> SettlementReceipt \<Rightarrow> store \<Rightarrow> SettlementReceipt result \<times> store"
where
  "save_settlement_receipt result_id tid x s =
     (if sr_authorization_kind x = None \<or> sr_authorization_id x = None
      then (Err (ConfigurationError ''settlement authorization basis is missing''), s)
      else immediate_transaction (\<lambda>s.
        case payment_row_of (sr_reservation_id x) s of
          None \<Rightarrow> (Err (ConfigurationError ''settlement reservation or prepared decision does not exist''), s)
        | Some y \<Rightarrow>
            (case prepared_row_of (pv_prepared_id (py_payload y)) s of
               None \<Rightarrow> (Err (ConfigurationError
                         ''settlement reservation or prepared decision does not exist''), s)
             | Some w \<Rightarrow>
                 (case first_error (settlement_binding_errors x (py_payload y) (pw_decision w) s) of
                    Inl e \<Rightarrow> (Err e, s)
                  | Inr _ \<Rightarrow>
                      (case select_row (\<lambda>z. settlement_clash z x) (settlement_receipts s) of
                         Some z \<Rightarrow>
                           if z \<noteq> x
                           then (Err (ConfigurationError
                                  ''settlement ID or reservation was reused with different content''), s)
                           else if py_state y \<noteq> settlement_target (sr_status x)
                           then (Err (ConfigurationError
                                  ''settlement exists without its reservation transition''), s)
                           else if pw_state w \<noteq> settlement_prepared_target (sr_status x)
                           then (Err (ConfigurationError
                                  ''settlement exists without its prepared-decision transition''), s)
                           else (Ok x, s)
                       | None \<Rightarrow>
                           (case first_error (settlement_state_errors result_id x y w) of
                              Inl e \<Rightarrow> (Err e, s)
                            | Inr _ \<Rightarrow>
                                (case immutable_insert_locked settlement_clash
                                        (\<lambda>z. sr_settlement_id z = sr_settlement_id x) x
                                        (settlement_receipts s) of
                                   (Inl e, t) \<Rightarrow> (Err e, s\<lparr>settlement_receipts := t\<rparr>)
                                 | (Inr _, t) \<Rightarrow>
                                     let s1 = s\<lparr>settlement_receipts := t\<rparr> in
                                     case mk_transition tid (sr_prepared_id x) (pw_state w)
                                            (settlement_prepared_target (sr_status x)) (sr_settled_at x)
                                            (settlement_reason x) of
                                       Inl e \<Rightarrow> (Err e, s1)
                                     | Inr tr \<Rightarrow>
                                         (case immutable_insert_locked
                                                 (\<lambda>a b. pt_transition_id a = pt_transition_id b)
                                                 (\<lambda>a. pt_transition_id a = tid) tr
                                                 (prepared_route_transitions s1) of
                                            (Inl e, h) \<Rightarrow> (Err e, s1)
                                          | (Inr _, h) \<Rightarrow> (Ok x, apply_settlement tr h x y s1)))))))) s)"

end
