(* ===== verification/Prepared_Recovery.thy ===== *)
theory Prepared_Recovery
  imports Settlement_Store
begin

text \<open>
  How prepared actions end in \<open>ReceiptStore\<close> (\<open>aeep/store.py\<close>): a settled action completes its
  idempotency record from the durable receipt, and a confirmed-free action whose process died
  is settled from its receipt without being invoked again.
\<close>

definition find_receipt :: "string \<Rightarrow> store \<Rightarrow> execution_evidence option" where
  "find_receipt i s = select_row (\<lambda>x. xe_receipt_id x = i) (execution_receipts s)"

text \<open>A metadata entry that is a text and not empty.\<close>

definition named :: "string option \<Rightarrow> bool" where
  "named v = (case v of None \<Rightarrow> False | Some t \<Rightarrow> t \<noteq> [])"

text \<open>The decision authorizes no cash and its cash cost is confirmed to be zero.\<close>

definition confirmed_free :: "PreparedRouteDecision \<Rightarrow> bool" where
  "confirmed_free d =
     (case pd_maximum_cash_authorization d of
        None \<Rightarrow> False
      | Some m \<Rightarrow> pd_authorization_kind d = None \<and> pd_authorization_id d = None \<and> amount m = 0
          \<and> actual_cash_cost (pd_expected_cash d) (currency m) = Some 0)"

definition free_receipt :: "execution_evidence \<Rightarrow> bool" where
  "free_receipt x = (named (xe_attempt_id x) \<and> named (xe_charge_id x) \<and> xe_settlement_id x = None)"

text \<open>The final receipt of a paid action names the settled reservation and its receipt.\<close>

definition paid_receipt_bound :: "execution_evidence \<Rightarrow> payment_row \<Rightarrow> store \<Rightarrow> bool" where
  "paid_receipt_bound x y s =
     (case select_row (\<lambda>z. sr_reservation_id z = pv_reservation_id (py_payload y)) (settlement_receipts s) of
        None \<Rightarrow> False
      | Some z \<Rightarrow> py_state y = Pay_SETTLED \<and> sr_status z \<in> {Set_COMPLETED, Set_SETTLED}
          \<and> xe_attempt_id x = Some (pv_attempt_id (py_payload y))
          \<and> xe_charge_id x = Some (pv_charge_id (py_payload y))
          \<and> xe_settlement_id x = Some (sr_settlement_id z))"

definition final_evidence_errors ::
  "string \<Rightarrow> string \<Rightarrow> string \<Rightarrow> execution_evidence \<Rightarrow> prepared_row \<Rightarrow> store \<Rightarrow> (bool \<times> error) list"
where
  "final_evidence_errors pid decision status x w s =
     [(xe_decision_id x \<noteq> decision \<or> xe_status x \<noteq> status \<or> xe_action_id x \<noteq> pd_action_id (pw_decision w)
         \<or> Some (xe_executor_id x) \<noteq> pd_selected_executor_id (pw_decision w) \<or> xe_prepared_id x \<noteq> Some pid,
       ConfigurationError ''prepared action final receipt binding does not match its decision''),
      (case payment_row_for pid s of
         None \<Rightarrow> \<not> confirmed_free (pw_decision w) \<or> \<not> free_receipt x | Some _ \<Rightarrow> False,
       ConfigurationError ''prepared action free-route evidence is incomplete''),
      (case payment_row_for pid s of None \<Rightarrow> False | Some y \<Rightarrow> \<not> paid_receipt_bound x y s,
       ConfigurationError ''prepared action final receipt binding does not match settlement'')]"

definition complete_prepared_action_idempotency ::
  "string \<Rightarrow> string \<Rightarrow> string \<Rightarrow> string \<Rightarrow> string \<Rightarrow> store \<Rightarrow> unit result \<times> store"
where
  "complete_prepared_action_idempotency pid digest decision status receipt_id = immediate_transaction (\<lambda>s.
     case (get_prepared_action_idempotency pid s, prepared_row_of pid s) of
       (Some b, Some w) \<Rightarrow>
         if ab_action_digest b \<noteq> digest \<or> pw_state w \<noteq> Prep_SETTLED
         then (Err (ConfigurationError ''prepared action idempotency is not bound to a settled action''), s)
         else (case find_receipt receipt_id s of
            None \<Rightarrow> (Err (ConfigurationError ''prepared action final receipt is missing''), s)
          | Some x \<Rightarrow>
              (case first_error (final_evidence_errors pid decision status x w s) of
                 Inl e \<Rightarrow> (Err e, s)
               | Inr _ \<Rightarrow>
                   (case find_record (ab_idempotency_key b) s of
                      None \<Rightarrow> (Err (ConfigurationError ''prepared action idempotency claim is missing''), s)
                    | Some a \<Rightarrow>
                        if ir_request_hash a \<noteq> digest
                        then (Err (ConfigurationError ''prepared action idempotency claim is missing''), s)
                        else if ir_state a = Idem_complete
                        then if ir_decision_id a = Some decision \<and> ir_status a = Some status
                                \<and> ir_receipt_ids a = [receipt_id]
                             then (Ok (), s)
                             else (Err (ConfigurationError
                               ''prepared action idempotency completion conflicts with durable result''), s)
                        else (Ok (), s\<lparr>idempotency_records := update_rows
                          (\<lambda>a. ir_key a = ab_idempotency_key b
                             \<and> ir_state a \<in> {Idem_claimed, Idem_executing, Idem_indeterminate})
                          (\<lambda>a. a\<lparr>ir_state := Idem_complete, ir_decision_id := Some decision,
                                 ir_status := Some status, ir_receipt_ids := [receipt_id]\<rparr>)
                          (idempotency_records s)\<rparr>))))
     | _ \<Rightarrow> (Err (ConfigurationError ''settled prepared action idempotency evidence is incomplete''), s))"

text \<open>The two transitions of a recovery; the first is skipped when the decision is settling.\<close>

definition recovery_moves ::
  "string \<Rightarrow> string \<Rightarrow> string \<Rightarrow> PreparedDecisionState \<Rightarrow> datetime \<Rightarrow> store \<Rightarrow> unit result \<times> store"
where
  "recovery_moves tid tid' pid state moment s =
     (case (if state = Prep_SETTLING then (Ok (), s)
            else case mk_transition tid pid state Prep_SETTLING moment
                    ''durable confirmed-free receipt recovered'' of
              Inl e \<Rightarrow> (Err e, s) | Inr t \<Rightarrow> transition_prepared_locked t None s) of
        (Inl e, s1) \<Rightarrow> (Err e, s1)
      | (Inr _, s1) \<Rightarrow>
          (case mk_transition tid' pid Prep_SETTLING Prep_SETTLED moment
                  ''confirmed-free recovery finalized accounting'' of
             Inl e \<Rightarrow> (Err e, s1) | Inr t \<Rightarrow> transition_prepared_locked t None s1))"

definition settle_recovered_free_prepared ::
  "string \<Rightarrow> string \<Rightarrow> string \<Rightarrow> string \<Rightarrow> datetime \<Rightarrow> store \<Rightarrow> PreparedRouteDecision result \<times> store"
where
  "settle_recovered_free_prepared tid tid' pid receipt_id recovered_at s =
     (case aware_or_error recovered_at of
        Inl e \<Rightarrow> (Err e, s)
      | Inr _ \<Rightarrow> immediate_transaction (\<lambda>s.
          case prepared_row_of pid s of
            None \<Rightarrow> (Err (ConfigurationError ''recovered free prepared decision is missing''), s)
          | Some w \<Rightarrow>
              if \<not> confirmed_free (prepared_from_row w)
              then (Err (ConfigurationError ''recovered prepared action is not confirmed free''), s)
              else if payment_row_for pid s \<noteq> None
              then (Err (ConfigurationError
                     ''recovered free prepared action cannot have a payment reservation''), s)
              else (case find_receipt receipt_id s of
                 None \<Rightarrow> (Err (ConfigurationError ''recovered free action receipt is missing''), s)
               | Some x \<Rightarrow>
                   if xe_action_id x \<noteq> pd_action_id (pw_decision w)
                      \<or> Some (xe_executor_id x) \<noteq> pd_selected_executor_id (pw_decision w)
                      \<or> xe_prepared_id x \<noteq> Some pid \<or> \<not> free_receipt x
                   then (Err (ConfigurationError ''recovered free action receipt binding does not match''), s)
                   else if pw_state w = Prep_SETTLED then (Ok (prepared_from_row w), s)
                   else if pw_state w \<notin> {Prep_INVOKING, Prep_SETTLING, Prep_INDETERMINATE}
                   then (Err (ConfigurationError ''free prepared action cannot recover from its state''), s)
                   else (case recovery_moves tid tid' pid (pw_state w) recovered_at s of
                      (Inl e, s1) \<Rightarrow> (Err e, s1)
                    | (Inr _, s1) \<Rightarrow>
                        (case get_prepared_decision pid s1 of
                           None \<Rightarrow> (Err (TypeError ''NoneType is not subscriptable''), s1)
                         | Some d \<Rightarrow> (Ok d, s1))))) s)"

end
