(* ===== verification/Payment_Ledger.thy ===== *)
theory Payment_Ledger
  imports Prepared_Recovery
begin

text \<open>
  The payment path over time. The changes that the store's operations can make to the
  payment tables are collected in one relation; on it rest the invariants: what is held and
  captured stays within the prepaid limit, reservations agree with the decisions that
  authorize them, and a decision is invoked at most once.
\<close>

section \<open>Changes\<close>

definition core_row :: "prepared_row \<Rightarrow> PreparedRouteDecision \<times> PreparedDecisionState" where
  "core_row w = (pw_decision w, pw_state w)"

definition payment_id :: "payment_row \<Rightarrow> string" where
  "payment_id y = pv_reservation_id (py_payload y)"

definition decision_id :: "prepared_row \<Rightarrow> string" where
  "decision_id w = pd_prepared_id (pw_decision w)"

lemma is_payment_id: "is_payment i y = (payment_id y = i)"
  by (simp add: is_payment_def payment_id_def)

lemma is_prepared_id: "is_prepared i w = (decision_id w = i)"
  by (simp add: is_prepared_def decision_id_def)

definition same_money :: "store \<Rightarrow> store \<Rightarrow> bool" where
  "same_money s s' = (payment_reservations s' = payment_reservations s
     \<and> settlement_receipts s' = settlement_receipts s \<and> refund_receipts s' = refund_receipts s)"

definition same_plan :: "store \<Rightarrow> store \<Rightarrow> bool" where
  "same_plan s s' = (prepared_route_transitions s' = prepared_route_transitions s
     \<and> map core_row (prepared_route_decisions s') = map core_row (prepared_route_decisions s))"

definition moved :: "PreparedRouteTransition \<Rightarrow> store \<Rightarrow> store \<Rightarrow> bool" where
  "moved t s s' =
     (validate_transition t = Inr ()
      \<and> (\<exists>w \<in> set (prepared_route_decisions s). is_prepared (pt_prepared_id t) w \<and> pw_state w = pt_from_state t)
      \<and> prepared_route_transitions s' = prepared_route_transitions s @ [t]
      \<and> prepared_route_decisions s' = update_rows (is_prepared (pt_prepared_id t))
          (\<lambda>w. w\<lparr>pw_state := pt_to_state t\<rparr>) (prepared_route_decisions s))"

definition final_payment :: "PaymentReservationState \<Rightarrow> bool" where
  "final_payment st = (st \<in> {Pay_SETTLED, Pay_RELEASED})"

text \<open>A reservation takes over the authority of its decision.\<close>

definition authorized_by :: "prepared_row \<Rightarrow> PaymentReservationV2 \<Rightarrow> bool" where
  "authorized_by w r =
     (is_prepared (pv_prepared_id r) w
      \<and> pd_maximum_cash_authorization (pw_decision w) = Some (pv_maximum_amount r)
      \<and> pd_authorization_kind (pw_decision w) = pv_authorization_kind r
      \<and> pd_authorization_id (pw_decision w) = pv_authorization_id r
      \<and> pd_action_id (pw_decision w) = pv_action_id r)"

inductive paid_change :: "string \<Rightarrow> rat \<Rightarrow> store \<Rightarrow> store \<Rightarrow> bool" for cur limit where
  plan: "same_money s s' \<Longrightarrow> same_plan s s' \<Longrightarrow> paid_change cur limit s s'"
| add: "same_money s s' \<Longrightarrow> prepared_route_transitions s' = prepared_route_transitions s
    \<Longrightarrow> prepared_route_decisions s' = prepared_route_decisions s @ [w]
    \<Longrightarrow> (\<forall>x \<in> set (prepared_route_decisions s). \<not> is_prepared (decision_id w) x)
    \<Longrightarrow> paid_change cur limit s s'"
| move: "same_money s s' \<Longrightarrow> moved t s s' \<Longrightarrow> paid_change cur limit s s'"
| reserve: "payment_reservations s' = payment_reservations s @ [fresh_payment_row r]
    \<Longrightarrow> (\<forall>y \<in> set (payment_reservations s). \<not> payment_clash y (fresh_payment_row r))
    \<Longrightarrow> settlement_receipts s' = settlement_receipts s \<Longrightarrow> refund_receipts s' = refund_receipts s
    \<Longrightarrow> validate_payment r = Inr () \<Longrightarrow> pv_state r = Pay_RESERVED
    \<Longrightarrow> w \<in> set (prepared_route_decisions s) \<Longrightarrow> authorized_by w r
    \<Longrightarrow> moved t s s' \<Longrightarrow> pt_prepared_id t = pv_prepared_id r \<Longrightarrow> pt_to_state t = Prep_RESERVED
    \<Longrightarrow> (currency (pv_maximum_amount r) = cur \<Longrightarrow>
           \<exists>c. committed_amount None cur s = Inr c \<and> c + amount (pv_maximum_amount r) \<le> limit)
    \<Longrightarrow> paid_change cur limit s s'"
| pay: "y \<in> set (payment_reservations s) \<Longrightarrow> \<not> final_payment (py_state y) \<Longrightarrow> \<not> final_payment target
    \<Longrightarrow> (\<And>z. py_payload (f z) = py_payload z \<and> py_state (f z) = target)
    \<Longrightarrow> payment_reservations s' = update_rows (is_payment (payment_id y)) f (payment_reservations s)
    \<Longrightarrow> settlement_receipts s' = settlement_receipts s \<Longrightarrow> refund_receipts s' = refund_receipts s
    \<Longrightarrow> same_plan s s' \<Longrightarrow> paid_change cur limit s s'"
| settle: "y \<in> set (payment_reservations s) \<Longrightarrow> \<not> final_payment (py_state y)
    \<Longrightarrow> payment_id y = sr_reservation_id x
    \<Longrightarrow> (\<And>z. py_payload (f z) = py_payload z \<and> py_state (f z) = settlement_target (sr_status x))
    \<Longrightarrow> payment_reservations s' = update_rows (is_payment (payment_id y)) f (payment_reservations s)
    \<Longrightarrow> settlement_receipts s' = settlement_receipts s @ [x]
    \<Longrightarrow> (\<forall>z \<in> set (settlement_receipts s). \<not> settlement_clash z x)
    \<Longrightarrow> currency (sr_reserved_amount x) = currency (pv_maximum_amount (py_payload y))
    \<Longrightarrow> amount (sr_captured_amount x) \<le> amount (pv_maximum_amount (py_payload y))
    \<Longrightarrow> refund_receipts s' = refund_receipts s
    \<Longrightarrow> moved t s s' \<Longrightarrow> pt_prepared_id t = pv_prepared_id (py_payload y)
    \<Longrightarrow> pt_to_state t = settlement_prepared_target (sr_status x)
    \<Longrightarrow> paid_change cur limit s s'"
| refund: "payment_reservations s' = payment_reservations s \<Longrightarrow> settlement_receipts s' = settlement_receipts s
    \<Longrightarrow> refund_receipts s' = refund_receipts s @ [z] \<Longrightarrow> 0 \<le> amount (rr_amount z)
    \<Longrightarrow> same_plan s s' \<Longrightarrow> paid_change cur limit s s'"

section \<open>Money\<close>

definition money_ok :: "string \<Rightarrow> rat \<Rightarrow> store \<Rightarrow> bool" where
  "money_ok cur limit s =
     (distinct (map payment_id (payment_reservations s))
      \<and> (\<forall>y \<in> set (payment_reservations s). 0 \<le> amount (pv_maximum_amount (py_payload y))
            \<and> (py_state y = Pay_SETTLED \<longrightarrow> payment_id y \<in> sr_reservation_id ` set (settlement_receipts s)))
      \<and> distinct (map sr_reservation_id (settlement_receipts s))
      \<and> (\<forall>x \<in> set (settlement_receipts s). \<exists>y \<in> set (payment_reservations s).
            payment_id y = sr_reservation_id x
            \<and> amount (sr_captured_amount x) \<le> amount (pv_maximum_amount (py_payload y)))
      \<and> (\<forall>x \<in> set (refund_receipts s). 0 \<le> amount (rr_amount x))
      \<and> outstanding_payments cur s
          + max 0 (captured_payments None cur s - refunded_payments None cur s) \<le> limit)"

lemma settled_payment_id:
  "settled_payment i s \<longleftrightarrow> (\<exists>y \<in> set (payment_reservations s). payment_id y = i \<and> py_state y = Pay_SETTLED)"
  by (auto simp: settled_payment_def is_payment_id)

lemma since_None [simp]: "since_ok None t"
  by (simp add: since_ok_def)

text \<open>The sums only read the money tables.\<close>

lemma settled_same_money: "same_money s s' \<Longrightarrow> settled_payment i s' = settled_payment i s"
  by (simp add: same_money_def settled_payment_def)

lemma sums_same_money:
  assumes "same_money s s'"
  shows "outstanding_payments c s' = outstanding_payments c s"
    "captured_payments n c s' = captured_payments n c s" "refunded_payments n c s' = refunded_payments n c s"
proof -
  note same = settled_same_money [OF assms]
  show "outstanding_payments c s' = outstanding_payments c s"
    using assms by (simp add: same_money_def outstanding_payments_def)
  show "captured_payments n c s' = captured_payments n c s"
    using assms by (simp add: same_money_def captured_payments_def same)
  show "refunded_payments n c s' = refunded_payments n c s"
    using assms by (simp add: same_money_def refunded_payments_def find_settlement_def same cong: option.case_cong)
qed

lemma money_ok_same:
  assumes "same_money s s'" and "money_ok cur limit s"
  shows "money_ok cur limit s'"
  using assms(2) sums_same_money [OF assms(1)] assms(1) by (simp add: money_ok_def same_money_def)

text \<open>Money moves from held to captured, and refunds only grow.\<close>

lemma limit_kept:
  fixes a a' c c' r r' limit :: rat
  assumes "a + max 0 (c - r) \<le> limit" and "a' \<le> a" and "a' + c' \<le> a + c" and "r \<le> r'"
  shows "a' + max 0 (c' - r') \<le> limit"
  using assms by (auto simp: max_def split: if_splits)

definition payment_part :: "string \<Rightarrow> payment_row \<Rightarrow> rat" where
  "payment_part cur y = (if open_payment cur y then amount (pv_maximum_amount (py_payload y)) else 0)"

lemma outstanding_parts: "outstanding_payments cur s = sum_list (map (payment_part cur) (payment_reservations s))"
  by (simp add: outstanding_payments_def sum_filter_if payment_part_def [abs_def])

lemma sum_filter_mono:
  fixes f :: "'a \<Rightarrow> rat"
  assumes "\<And>x. x \<in> set xs \<Longrightarrow> 0 \<le> f x" and "\<And>x. x \<in> set xs \<Longrightarrow> p x \<Longrightarrow> q x"
  shows "sum_list (map f (filter p xs)) \<le> sum_list (map f (filter q xs))"
  using assms
proof (induction xs)
  case (Cons x xs)
  then have "sum_list (map f (filter p xs)) \<le> sum_list (map f (filter q xs))" by simp
  then show ?case using Cons.prems(1) [of x] Cons.prems(2) [of x] by (auto intro: add_increasing)
qed simp

lemma refunded_mono:
  assumes "\<forall>x \<in> set (refund_receipts s). 0 \<le> amount (rr_amount x)"
    and "refund_receipts s' = refund_receipts s"
    and "\<And>i r. find_settlement i s = Some r \<Longrightarrow> find_settlement i s' = Some r"
    and "\<And>i. settled_payment i s \<Longrightarrow> settled_payment i s'"
  shows "refunded_payments None cur s \<le> refunded_payments None cur s'"
  unfolding refunded_payments_def assms(2)
  by (rule sum_filter_mono) (use assms(1,3,4) in \<open>auto split: option.splits\<close>)

text \<open>A change of one row that is not final, by payload-preserving updates.\<close>

lemma one_payment_updated:
  assumes d: "distinct (map payment_id (payment_reservations s))"
    and y: "y \<in> set (payment_reservations s)" "\<not> final_payment (py_state y)"
    and f: "\<And>z. py_payload (f z) = py_payload z \<and> py_state (f z) = target"
    and upd: "payment_reservations s' = update_rows (is_payment (payment_id y)) f (payment_reservations s)"
  shows "map payment_id (payment_reservations s') = map payment_id (payment_reservations s)"
    and "outstanding_payments cur s' = outstanding_payments cur s - payment_part cur y + payment_part cur (f y)"
    and "settled_payment i s' \<longleftrightarrow> settled_payment i s \<or> i = payment_id y \<and> target = Pay_SETTLED"
    and "z \<in> set (payment_reservations s') \<Longrightarrow> z = f y \<or> z \<in> set (payment_reservations s) \<and> z \<noteq> y"
    and "z \<in> set (payment_reservations s) \<Longrightarrow> (\<exists>z' \<in> set (payment_reservations s'). py_payload z' = py_payload z)"
proof -
  have key: "payment_id (f z) = payment_id z" for z using f by (simp add: payment_id_def)
  show "map payment_id (payment_reservations s') = map payment_id (payment_reservations s)"
    unfolding upd by (rule map_key_update_rows) (rule key)
  have only: "payment_id z = payment_id y \<longleftrightarrow> z = y" if "z \<in> set (payment_reservations s)" for z
    using that y(1) d by (auto simp: distinct_map inj_on_def)
  have upd': "payment_reservations s' = update_rows (\<lambda>z. payment_id z = payment_id y) (\<lambda>_. f y)
      (payment_reservations s)"
    unfolding upd is_payment_id update_rows_def by (rule map_cong [OF refl]) (use only in auto)
  show "outstanding_payments cur s' = outstanding_payments cur s - payment_part cur y + payment_part cur (f y)"
    unfolding outstanding_parts upd' by (rule sum_update_key [OF d y(1) refl])
  have set': "set (payment_reservations s') = insert (f y) (set (payment_reservations s) - {y})"
    unfolding upd' set_update_rows using y(1) only by auto
  have "py_state y \<noteq> Pay_SETTLED" using y(2) by (auto simp: final_payment_def)
  then show "settled_payment i s' \<longleftrightarrow> settled_payment i s \<or> i = payment_id y \<and> target = Pay_SETTLED"
    unfolding settled_payment_id set' using f [of y] key [of y] by auto
  show "z = f y \<or> z \<in> set (payment_reservations s) \<and> z \<noteq> y" if "z \<in> set (payment_reservations s')"
    using that unfolding set' by auto
  show "\<exists>z' \<in> set (payment_reservations s'). py_payload z' = py_payload z"
    if "z \<in> set (payment_reservations s)"
    using that f [of y] unfolding set' by (cases "z = y") auto
qed

lemma money_okD:
  "money_ok cur limit s \<Longrightarrow>
     outstanding_payments cur s + max 0 (captured_payments None cur s - refunded_payments None cur s) \<le> limit"
  by (simp add: money_ok_def)

text \<open>Appending a reservation.\<close>

lemma reservation_appended:
  assumes app: "payment_reservations s' = payment_reservations s @ [fresh_payment_row r]"
    and fresh: "pv_state r = Pay_RESERVED"
    and same: "settlement_receipts s' = settlement_receipts s" "refund_receipts s' = refund_receipts s"
  shows "outstanding_payments cur s' = outstanding_payments cur s
      + (if currency (pv_maximum_amount r) = cur then amount (pv_maximum_amount r) else 0)"
    and "captured_payments n cur s' = captured_payments n cur s"
    and "refunded_payments n cur s' = refunded_payments n cur s"
proof -
  have settled: "settled_payment i s' = settled_payment i s" for i
    using fresh by (auto simp: settled_payment_def app fresh_payment_row_def)
  show "outstanding_payments cur s' = outstanding_payments cur s
      + (if currency (pv_maximum_amount r) = cur then amount (pv_maximum_amount r) else 0)"
    using fresh by (simp add: outstanding_parts app payment_part_def open_payment_def fresh_payment_row_def)
  show "captured_payments n cur s' = captured_payments n cur s"
    by (simp add: captured_payments_def same settled)
  show "refunded_payments n cur s' = refunded_payments n cur s"
    by (simp add: refunded_payments_def same find_settlement_def settled cong: option.case_cong)
qed

lemma committed_parts:
  "committed_amount n cur s = Inr c \<Longrightarrow>
     c = outstanding_payments cur s + max 0 (captured_payments n cur s - refunded_payments n cur s)"
  by (auto simp: committed_amount_def split: if_splits)

lemma reservation_amount_nonneg: "validate_payment r = Inr () \<Longrightarrow> 0 \<le> amount (pv_maximum_amount r)"
  by (auto simp: validate_payment_def first_error_iff valid_amount_def payment_fields_ok_def)

lemma money_ok_reserve:
  assumes ok: "money_ok cur limit s"
    and app: "payment_reservations s' = payment_reservations s @ [fresh_payment_row r]"
    and clash: "\<forall>y \<in> set (payment_reservations s). \<not> payment_clash y (fresh_payment_row r)"
    and same: "settlement_receipts s' = settlement_receipts s" "refund_receipts s' = refund_receipts s"
    and valid: "validate_payment r = Inr ()" and fresh: "pv_state r = Pay_RESERVED"
    and fits: "currency (pv_maximum_amount r) = cur \<Longrightarrow>
           \<exists>c. committed_amount None cur s = Inr c \<and> c + amount (pv_maximum_amount r) \<le> limit"
  shows "money_ok cur limit s'"
proof -
  note sums = reservation_appended [OF app fresh same]
  have new: "payment_id (fresh_payment_row r) \<notin> payment_id ` set (payment_reservations s)"
    using clash by (auto simp: payment_clash_def payment_id_def Let_def fresh_payment_row_def)
  have "outstanding_payments cur s' + max 0 (captured_payments None cur s' - refunded_payments None cur s') \<le> limit"
    using ok fits committed_parts [of None cur s] by (auto simp: sums money_ok_def)
  with ok new reservation_amount_nonneg [OF valid] fresh show ?thesis
    by (auto simp: money_ok_def app same fresh_payment_row_def)
qed

text \<open>A receipt is captured money exactly when it settles its reservation.\<close>

lemma receipt_captured:
  assumes d: "distinct (map payment_id (payment_reservations s))"
    and y: "y \<in> set (payment_reservations s)" "\<not> final_payment (py_state y)" "payment_id y = sr_reservation_id x"
    and f: "\<And>z. py_payload (f z) = py_payload z \<and> py_state (f z) = settlement_target (sr_status x)"
    and upd: "payment_reservations s' = update_rows (is_payment (payment_id y)) f (payment_reservations s)"
    and app: "settlement_receipts s' = settlement_receipts s @ [x]"
    and new: "\<forall>z \<in> set (settlement_receipts s). \<not> settlement_clash z x"
    and c: "currency (sr_reserved_amount x) = currency (pv_maximum_amount (py_payload y))"
  shows "captured_payments None cur s' = captured_payments None cur s
     + (if currency (pv_maximum_amount (py_payload y)) = cur \<and> settlement_target (sr_status x) = Pay_SETTLED
        then amount (sr_captured_amount x) else 0)"
proof -
  note settled = one_payment_updated(3) [OF d y(1,2) f upd]
  have unsettled: "\<not> settled_payment (payment_id y) s"
    using y(1,2) d by (auto simp: settled_payment_id final_payment_def distinct_map inj_on_def)
  have old: "settled_payment (sr_reservation_id z) s' = settled_payment (sr_reservation_id z) s"
    if "z \<in> set (settlement_receipts s)" for z
    using new that y(3) by (auto simp: settled settlement_clash_def)
  have "filter (\<lambda>r. currency (sr_reserved_amount r) = cur \<and> settled_payment (sr_reservation_id r) s')
        (settlement_receipts s)
      = filter (\<lambda>r. currency (sr_reserved_amount r) = cur \<and> settled_payment (sr_reservation_id r) s)
        (settlement_receipts s)"
    by (rule filter_cong [OF refl]) (simp add: old)
  with unsettled y(3) c show ?thesis by (simp add: captured_payments_def app settled)
qed

lemma find_settlement_kept:
  assumes "settlement_receipts s' = settlement_receipts s @ t" and "find_settlement i s = Some r"
  shows "find_settlement i s' = Some r"
  using assms by (simp add: find_settlement_def select_row_append)

lemma money_ok_settle:
  assumes ok: "money_ok cur limit s"
    and y: "y \<in> set (payment_reservations s)" "\<not> final_payment (py_state y)" "payment_id y = sr_reservation_id x"
    and f: "\<And>z. py_payload (f z) = py_payload z \<and> py_state (f z) = settlement_target (sr_status x)"
    and upd: "payment_reservations s' = update_rows (is_payment (payment_id y)) f (payment_reservations s)"
    and app: "settlement_receipts s' = settlement_receipts s @ [x]"
    and new: "\<forall>z \<in> set (settlement_receipts s). \<not> settlement_clash z x"
    and c: "currency (sr_reserved_amount x) = currency (pv_maximum_amount (py_payload y))"
    and le: "amount (sr_captured_amount x) \<le> amount (pv_maximum_amount (py_payload y))"
    and refunds: "refund_receipts s' = refund_receipts s"
  shows "money_ok cur limit s'"
proof -
  have d: "distinct (map payment_id (payment_reservations s))" using ok by (simp add: money_ok_def)
  note one = one_payment_updated [OF d y(1,2) f upd]
  note captured = receipt_captured [OF d y f upd app new c, of cur]
  have nonneg: "0 \<le> amount (pv_maximum_amount (py_payload z))" if "z \<in> set (payment_reservations s)" for z
    using ok that by (simp add: money_ok_def)
  have part: "payment_part cur y = (if currency (pv_maximum_amount (py_payload y)) = cur
      then amount (pv_maximum_amount (py_payload y)) else 0)"
    using y(2) by (simp add: payment_part_def open_payment_def final_payment_def)
  have part': "payment_part cur (f y) = (if currency (pv_maximum_amount (py_payload y)) = cur
      \<and> \<not> final_payment (settlement_target (sr_status x)) then amount (pv_maximum_amount (py_payload y)) else 0)"
    using f [of y] by (simp add: payment_part_def open_payment_def final_payment_def)
  have "outstanding_payments cur s' \<le> outstanding_payments cur s"
    using nonneg [OF y(1)] by (simp add: one(2) part part')
  moreover have "outstanding_payments cur s' + captured_payments None cur s'
      \<le> outstanding_payments cur s + captured_payments None cur s"
    using le nonneg [OF y(1)] by (simp add: one(2) part part' captured final_payment_def)
  moreover have "refunded_payments None cur s \<le> refunded_payments None cur s'"
  proof (rule refunded_mono [OF _ refunds])
    show "find_settlement i s' = Some r" if "find_settlement i s = Some r" for i r
      by (rule find_settlement_kept [OF app that])
  qed (use ok one(3) in \<open>auto simp: money_ok_def\<close>)
  ultimately have "outstanding_payments cur s'
      + max 0 (captured_payments None cur s' - refunded_payments None cur s') \<le> limit"
    by (rule limit_kept [OF money_okD [OF ok]])
  moreover have "sr_reservation_id x \<notin> sr_reservation_id ` set (settlement_receipts s)"
    using new by (auto simp: settlement_clash_def)
  moreover have "\<forall>z \<in> set (payment_reservations s'). 0 \<le> amount (pv_maximum_amount (py_payload z))
      \<and> (py_state z = Pay_SETTLED \<longrightarrow> payment_id z \<in> sr_reservation_id ` set (settlement_receipts s'))"
  proof
    fix z assume "z \<in> set (payment_reservations s')"
    from one(4) [OF this] show "0 \<le> amount (pv_maximum_amount (py_payload z))
        \<and> (py_state z = Pay_SETTLED \<longrightarrow> payment_id z \<in> sr_reservation_id ` set (settlement_receipts s'))"
      using ok nonneg [OF y(1)] f [of y] y(3) by (auto simp: money_ok_def app payment_id_def)
  qed
  moreover have "\<exists>z \<in> set (payment_reservations s'). payment_id z = sr_reservation_id u
      \<and> amount (sr_captured_amount u) \<le> amount (pv_maximum_amount (py_payload z))"
    if u: "u \<in> set (settlement_receipts s')" for u
  proof -
    have "\<exists>z \<in> set (payment_reservations s). payment_id z = sr_reservation_id u
      \<and> amount (sr_captured_amount u) \<le> amount (pv_maximum_amount (py_payload z))"
      using u ok y le by (auto simp: app money_ok_def)
    then show ?thesis using one(5) unfolding payment_id_def by metis
  qed
  ultimately show ?thesis using ok d by (simp add: money_ok_def one(1) app refunds)
qed

lemma money_ok_pay:
  assumes ok: "money_ok cur limit s"
    and y: "y \<in> set (payment_reservations s)" "\<not> final_payment (py_state y)"
    and target: "\<not> final_payment target"
    and f: "\<And>z. py_payload (f z) = py_payload z \<and> py_state (f z) = target"
    and upd: "payment_reservations s' = update_rows (is_payment (payment_id y)) f (payment_reservations s)"
    and same: "settlement_receipts s' = settlement_receipts s" "refund_receipts s' = refund_receipts s"
  shows "money_ok cur limit s'"
proof -
  have d: "distinct (map payment_id (payment_reservations s))" using ok by (simp add: money_ok_def)
  note one = one_payment_updated [OF d y f upd]
  have settled: "settled_payment i s' = settled_payment i s" for i
    using target by (auto simp: one(3) final_payment_def)
  have "payment_part cur (f y) = payment_part cur y"
    using f [of y] y(2) target by (simp add: payment_part_def open_payment_def final_payment_def)
  then have "outstanding_payments cur s' = outstanding_payments cur s" by (simp add: one(2))
  moreover have "captured_payments None cur s' = captured_payments None cur s"
    by (simp add: captured_payments_def same settled)
  moreover have "refunded_payments None cur s' = refunded_payments None cur s"
    by (simp add: refunded_payments_def same find_settlement_def settled cong: option.case_cong)
  moreover have "0 \<le> amount (pv_maximum_amount (py_payload z))
      \<and> (py_state z = Pay_SETTLED \<longrightarrow> payment_id z \<in> sr_reservation_id ` set (settlement_receipts s))"
    if "z \<in> set (payment_reservations s')" for z
    using one(4) [OF that] ok y f [of y] target by (auto simp: money_ok_def final_payment_def)
  moreover have "\<exists>z \<in> set (payment_reservations s'). payment_id z = sr_reservation_id u
      \<and> amount (sr_captured_amount u) \<le> amount (pv_maximum_amount (py_payload z))"
    if u: "u \<in> set (settlement_receipts s)" for u
  proof -
    from u ok obtain z where "z \<in> set (payment_reservations s)" "payment_id z = sr_reservation_id u"
      "amount (sr_captured_amount u) \<le> amount (pv_maximum_amount (py_payload z))"
      by (auto simp: money_ok_def)
    with one(5) show ?thesis unfolding payment_id_def by metis
  qed
  ultimately show ?thesis using ok d by (simp add: money_ok_def one(1) same)
qed

lemma money_ok_refund:
  assumes ok: "money_ok cur limit s"
    and same: "payment_reservations s' = payment_reservations s" "settlement_receipts s' = settlement_receipts s"
    and app: "refund_receipts s' = refund_receipts s @ [z]" and nonneg: "0 \<le> amount (rr_amount z)"
  shows "money_ok cur limit s'"
proof -
  have settled: "settled_payment i s' = settled_payment i s" for i
    by (simp add: settled_payment_def same)
  have sums: "outstanding_payments cur s' = outstanding_payments cur s"
    "captured_payments None cur s' = captured_payments None cur s"
    by (simp_all add: outstanding_payments_def captured_payments_def same settled)
  have grows: "refunded_payments None cur s \<le> refunded_payments None cur s'"
    using nonneg by (simp add: refunded_payments_def app same find_settlement_def settled cong: option.case_cong)
  have "outstanding_payments cur s'
      + max 0 (captured_payments None cur s' - refunded_payments None cur s') \<le> limit"
    by (rule limit_kept [OF money_okD [OF ok]]) (simp_all add: sums grows)
  with ok nonneg show ?thesis by (auto simp: money_ok_def same app)
qed

lemma money_ok_change:
  assumes "paid_change cur limit s s'" and ok: "money_ok cur limit s"
  shows "money_ok cur limit s'"
  using assms(1)
proof cases
  case (reserve r w t)
  then show ?thesis using money_ok_reserve [OF ok] by blast
next
  case (pay y target f)
  then show ?thesis using money_ok_pay [OF ok] by blast
next
  case (settle y x f t)
  then show ?thesis using money_ok_settle [OF ok] by blast
next
  case (refund z)
  then show ?thesis using money_ok_refund [OF ok] by blast
qed (use money_ok_same ok in blast)+

end
