(* ===== verification/Payment_Authority.thy ===== *)
theory Payment_Authority
  imports Payment_Ledger
begin

text \<open>
  Which decision stands behind a reservation, and what the history of a decision can hold:
  the invariants of \<open>paid_change\<close> that speak of prepared decisions and their transitions.
\<close>

section \<open>Decisions and reservations\<close>

text \<open>
  Every reservation belongs to one stored decision, whose maximum, basis and action it has
  taken over; a settled or released reservation ends with its decision.
\<close>

definition backed_by :: "prepared_row \<Rightarrow> payment_row \<Rightarrow> bool" where
  "backed_by w y =
     (authorized_by w (py_payload y) \<and> pw_state w \<noteq> Prep_PREPARED
      \<and> (py_state y = Pay_SETTLED \<longrightarrow> pw_state w = Prep_SETTLED)
      \<and> (py_state y = Pay_RELEASED \<longrightarrow> pw_state w = Prep_RELEASED))"

definition authority_ok :: "store \<Rightarrow> bool" where
  "authority_ok s =
     (distinct (map decision_id (prepared_route_decisions s))
      \<and> distinct (map payment_id (payment_reservations s))
      \<and> distinct (map (\<lambda>y. pv_prepared_id (py_payload y)) (payment_reservations s))
      \<and> (\<forall>y \<in> set (payment_reservations s). \<exists>w \<in> set (prepared_route_decisions s). backed_by w y))"

lemma same_plan_decisions:
  assumes "same_plan s s'"
  shows "map decision_id (prepared_route_decisions s') = map decision_id (prepared_route_decisions s)"
    and "w \<in> set (prepared_route_decisions s) \<Longrightarrow>
      \<exists>w' \<in> set (prepared_route_decisions s'). core_row w' = core_row w"
    and "w' \<in> set (prepared_route_decisions s') \<Longrightarrow>
      \<exists>w \<in> set (prepared_route_decisions s). core_row w = core_row w'"
proof -
  have same: "map core_row (prepared_route_decisions s') = map core_row (prepared_route_decisions s)"
    using assms by (simp add: same_plan_def)
  have "map (\<lambda>w. pd_prepared_id (fst (core_row w))) (prepared_route_decisions s')
      = map (\<lambda>w. pd_prepared_id (fst (core_row w))) (prepared_route_decisions s)"
    using arg_cong [OF same, of "map (\<lambda>c. pd_prepared_id (fst c))"] by (simp add: comp_def)
  then show "map decision_id (prepared_route_decisions s') = map decision_id (prepared_route_decisions s)"
    by (simp add: core_row_def decision_id_def [abs_def])
  have cores: "core_row ` set (prepared_route_decisions s') = core_row ` set (prepared_route_decisions s)"
    using arg_cong [OF same, of set] by simp
  show "\<exists>w' \<in> set (prepared_route_decisions s'). core_row w' = core_row w"
    if "w \<in> set (prepared_route_decisions s)"
    using imageI [OF that, of core_row] unfolding cores [symmetric] by (metis imageE)
  show "\<exists>w \<in> set (prepared_route_decisions s). core_row w = core_row w'"
    if "w' \<in> set (prepared_route_decisions s')"
    using imageI [OF that, of core_row] unfolding cores by (metis imageE)
qed

lemma backed_core: "core_row w' = core_row w \<Longrightarrow> backed_by w y \<Longrightarrow> backed_by w' y"
  by (simp add: core_row_def backed_by_def authorized_by_def is_prepared_def)

lemma backed_payment:
  assumes "backed_by w y" and "py_payload y' = py_payload y" and "py_state y' = py_state y \<or> \<not> final_payment (py_state y')"
  shows "backed_by w y'"
  using assms by (auto simp: backed_by_def final_payment_def)

lemma valid_transition_live: "validate_transition t = Inr () \<Longrightarrow> pt_to_state t \<in> set (prepared_transitions (pt_from_state t))"
  by (simp add: validate_transition_def first_error_iff)

lemma moved_decisions:
  assumes d: "distinct (map decision_id (prepared_route_decisions s))" and "moved t s s'"
  shows "map decision_id (prepared_route_decisions s') = map decision_id (prepared_route_decisions s)"
    and "w \<in> set (prepared_route_decisions s) \<Longrightarrow>
      if decision_id w = pt_prepared_id t
      then pw_state w = pt_from_state t \<and> w\<lparr>pw_state := pt_to_state t\<rparr> \<in> set (prepared_route_decisions s')
      else w \<in> set (prepared_route_decisions s')"
    and "w' \<in> set (prepared_route_decisions s') \<Longrightarrow>
      \<exists>w \<in> set (prepared_route_decisions s).
        w' = (if decision_id w = pt_prepared_id t then w\<lparr>pw_state := pt_to_state t\<rparr> else w)"
proof -
  from assms(2) obtain v where v: "v \<in> set (prepared_route_decisions s)" "decision_id v = pt_prepared_id t"
      "pw_state v = pt_from_state t"
    and upd: "prepared_route_decisions s' = update_rows (is_prepared (pt_prepared_id t))
          (\<lambda>w. w\<lparr>pw_state := pt_to_state t\<rparr>) (prepared_route_decisions s)"
    by (auto simp: moved_def is_prepared_id)
  show "map decision_id (prepared_route_decisions s') = map decision_id (prepared_route_decisions s)"
    unfolding upd by (rule map_key_update_rows) (simp add: decision_id_def)
  show "if decision_id w = pt_prepared_id t
      then pw_state w = pt_from_state t \<and> w\<lparr>pw_state := pt_to_state t\<rparr> \<in> set (prepared_route_decisions s')
      else w \<in> set (prepared_route_decisions s')" if w: "w \<in> set (prepared_route_decisions s)"
  proof (cases "decision_id w = pt_prepared_id t")
    case True
    then have "w = v" using d v w by (auto simp: distinct_map inj_on_def)
    with True v w show ?thesis by (auto simp: upd set_update_rows is_prepared_id)
  next
    case False
    with w show ?thesis by (auto simp: upd set_update_rows is_prepared_id)
  qed
  show "\<exists>w \<in> set (prepared_route_decisions s).
        w' = (if decision_id w = pt_prepared_id t then w\<lparr>pw_state := pt_to_state t\<rparr> else w)"
    if "w' \<in> set (prepared_route_decisions s')"
    using that by (auto simp: upd set_update_rows is_prepared_id)
qed

text \<open>A decision that moves was not terminal, so no ended reservation rests on it.\<close>

lemma backed_moved:
  assumes d: "distinct (map decision_id (prepared_route_decisions s))" and m: "moved t s s'"
    and w: "w \<in> set (prepared_route_decisions s)" "backed_by w y"
  shows "\<exists>w' \<in> set (prepared_route_decisions s'). backed_by w' y"
proof (cases "decision_id w = pt_prepared_id t")
  case True
  with moved_decisions(2) [OF d m w(1)] have from_state: "pw_state w = pt_from_state t"
    and w': "w\<lparr>pw_state := pt_to_state t\<rparr> \<in> set (prepared_route_decisions s')" by auto
  have legal: "pt_to_state t \<in> set (prepared_transitions (pw_state w))"
    using m from_state by (simp add: moved_def valid_transition_live)
  then have "pw_state w \<notin> {Prep_SETTLED, Prep_RELEASED}" "pt_to_state t \<noteq> Prep_PREPARED"
    by (cases "pw_state w"; auto)+
  with w(2) have "backed_by (w\<lparr>pw_state := pt_to_state t\<rparr>) y"
    by (auto simp: backed_by_def authorized_by_def is_prepared_def)
  with w' show ?thesis by blast
next
  case False
  with moved_decisions(2) [OF d m w(1)] w(2) show ?thesis by auto
qed

lemma authority_okD:
  assumes "authority_ok s"
  shows "distinct (map decision_id (prepared_route_decisions s))"
    "distinct (map payment_id (payment_reservations s))"
    "distinct (map (\<lambda>y. pv_prepared_id (py_payload y)) (payment_reservations s))"
    "y \<in> set (payment_reservations s) \<Longrightarrow> \<exists>w \<in> set (prepared_route_decisions s). backed_by w y"
  using assms by (simp_all add: authority_ok_def)

lemma authority_reserve:
  assumes ok: "authority_ok s"
    and app: "payment_reservations s' = payment_reservations s @ [fresh_payment_row r]"
    and clash: "\<forall>y \<in> set (payment_reservations s). \<not> payment_clash y (fresh_payment_row r)"
    and fresh: "pv_state r = Pay_RESERVED"
    and w: "w \<in> set (prepared_route_decisions s)" "authorized_by w r"
    and m: "moved t s s'" "pt_prepared_id t = pv_prepared_id r" "pt_to_state t = Prep_RESERVED"
  shows "authority_ok s'"
proof -
  note d = authority_okD(1) [OF ok]
  have "decision_id w = pt_prepared_id t"
    using w(2) m(2) by (simp add: authorized_by_def is_prepared_id)
  with moved_decisions(2) [OF d m(1) w(1)] have "w\<lparr>pw_state := Prep_RESERVED\<rparr> \<in> set (prepared_route_decisions s')"
    using m(3) by simp
  moreover have "backed_by (w\<lparr>pw_state := Prep_RESERVED\<rparr>) (fresh_payment_row r)"
    using w(2) fresh by (simp add: backed_by_def authorized_by_def is_prepared_def fresh_payment_row_def)
  ultimately have new: "\<exists>w' \<in> set (prepared_route_decisions s'). backed_by w' (fresh_payment_row r)" by blast
  have old: "\<exists>w' \<in> set (prepared_route_decisions s'). backed_by w' y"
    if "y \<in> set (payment_reservations s)" for y
    using authority_okD(4) [OF ok that] backed_moved [OF d m(1)] by blast
  have "payment_id (fresh_payment_row r) \<notin> payment_id ` set (payment_reservations s)"
    "pv_prepared_id r \<notin> (\<lambda>y. pv_prepared_id (py_payload y)) ` set (payment_reservations s)"
    using clash by (auto simp: payment_clash_def payment_id_def Let_def fresh_payment_row_def)
  with ok new old show ?thesis
    by (auto simp: authority_ok_def app moved_decisions(1) [OF d m(1)] fresh_payment_row_def)
qed

lemma authority_payment:
  assumes ok: "authority_ok s"
    and y: "y \<in> set (payment_reservations s)" "\<not> final_payment (py_state y)"
    and f: "\<And>z. py_payload (f z) = py_payload z \<and> py_state (f z) = target"
    and upd: "payment_reservations s' = update_rows (is_payment (payment_id y)) f (payment_reservations s)"
    and decisions: "map decision_id (prepared_route_decisions s') = map decision_id (prepared_route_decisions s)"
    and kept: "\<And>w z. w \<in> set (prepared_route_decisions s) \<Longrightarrow> backed_by w z \<Longrightarrow>
      \<exists>w' \<in> set (prepared_route_decisions s'). backed_by w' z"
    and this_one: "\<exists>w' \<in> set (prepared_route_decisions s'). backed_by w' (f y)"
  shows "authority_ok s'"
proof -
  note one = one_payment_updated [OF authority_okD(2) [OF ok] y f upd]
  have payload: "map (\<lambda>y. pv_prepared_id (py_payload y)) (payment_reservations s')
      = map (\<lambda>y. pv_prepared_id (py_payload y)) (payment_reservations s)"
    unfolding upd by (rule map_key_update_rows) (simp add: f)
  have "\<exists>w' \<in> set (prepared_route_decisions s'). backed_by w' z"
    if "z \<in> set (payment_reservations s')" for z
    using one(4) [OF that] authority_okD(4) [OF ok] kept this_one by blast
  with ok show ?thesis by (simp add: authority_ok_def decisions one(1) payload)
qed

lemma authority_settle:
  assumes ok: "authority_ok s"
    and y: "y \<in> set (payment_reservations s)" "\<not> final_payment (py_state y)"
    and f: "\<And>z. py_payload (f z) = py_payload z \<and> py_state (f z) = settlement_target status"
    and upd: "payment_reservations s' = update_rows (is_payment (payment_id y)) f (payment_reservations s)"
    and m: "moved t s s'" "pt_prepared_id t = pv_prepared_id (py_payload y)"
      "pt_to_state t = settlement_prepared_target status"
  shows "authority_ok s'"
proof (rule authority_payment [OF ok y f upd moved_decisions(1) [OF authority_okD(1) [OF ok] m(1)]])
  show "\<exists>w' \<in> set (prepared_route_decisions s'). backed_by w' z"
    if "w \<in> set (prepared_route_decisions s)" "backed_by w z" for w z
    by (rule backed_moved [OF authority_okD(1) [OF ok] m(1) that])
  from authority_okD(4) [OF ok y(1)] obtain w where w: "w \<in> set (prepared_route_decisions s)" "backed_by w y"
    by blast
  then have "decision_id w = pt_prepared_id t"
    using m(2) by (simp add: backed_by_def authorized_by_def is_prepared_id)
  with moved_decisions(2) [OF authority_okD(1) [OF ok] m(1) w(1)]
  have "w\<lparr>pw_state := settlement_prepared_target status\<rparr> \<in> set (prepared_route_decisions s')"
    using m(3) by simp
  moreover have "backed_by (w\<lparr>pw_state := settlement_prepared_target status\<rparr>) (f y)"
    using w(2) f [of y] by (cases status) (auto simp: backed_by_def authorized_by_def is_prepared_def)
  ultimately show "\<exists>w' \<in> set (prepared_route_decisions s'). backed_by w' (f y)" by blast
qed

lemma authority_change:
  assumes "paid_change cur limit s s'" and ok: "authority_ok s"
  shows "authority_ok s'"
  using assms(1)
proof cases
  case plan
  then show ?thesis
    using ok same_plan_decisions(1,2) [OF plan(2)] backed_core
    by (simp add: authority_ok_def same_money_def) metis
next
  case (add w)
  then have "decision_id w \<notin> decision_id ` set (prepared_route_decisions s)"
    by (auto simp: is_prepared_id)
  with add ok show ?thesis by (auto simp: authority_ok_def same_money_def)
next
  case (move t)
  note m = move(2)
  have "\<exists>w' \<in> set (prepared_route_decisions s'). backed_by w' y"
    if "y \<in> set (payment_reservations s)" for y
    using authority_okD(4) [OF ok that] backed_moved [OF authority_okD(1) [OF ok] m] by blast
  with ok move(1) show ?thesis
    by (simp add: authority_ok_def same_money_def moved_decisions(1) [OF authority_okD(1) [OF ok] m])
next
  case (reserve r w t)
  then show ?thesis by (intro authority_reserve [OF ok])
next
  case (pay y target f)
  note plan = same_plan_decisions [OF pay(8)]
  have kept: "\<exists>w' \<in> set (prepared_route_decisions s'). backed_by w' z"
    if "w \<in> set (prepared_route_decisions s)" "backed_by w z" for w z
    using plan(2) [OF that(1)] backed_core that(2) by blast
  from authority_okD(4) [OF ok pay(1)] obtain w where "w \<in> set (prepared_route_decisions s)" "backed_by w y" ..
  moreover from this(2) have "backed_by w (f y)"
    by (rule backed_payment) (use pay(3) pay(4) [of y] in auto)
  ultimately have "\<exists>w' \<in> set (prepared_route_decisions s'). backed_by w' (f y)" using kept by blast
  with kept show ?thesis by (intro authority_payment [OF ok pay(1,2,4,5) plan(1)])
next
  case (settle y x f t)
  then show ?thesis by (intro authority_settle [OF ok])
next
  case (refund z)
  then show ?thesis
    using ok same_plan_decisions(1,2) [OF refund(5)] backed_core
    by (simp add: authority_ok_def) metis
qed

section \<open>Invocations\<close>

definition invocations :: "string \<Rightarrow> store \<Rightarrow> nat" where
  "invocations pid s =
     rowcount (\<lambda>t. pt_prepared_id t = pid \<and> pt_to_state t = Prep_INVOKING) (prepared_route_transitions s)"

text \<open>The states that precede an invocation or exclude it.\<close>

definition uninvoked :: "PreparedDecisionState \<Rightarrow> bool" where
  "uninvoked st = (st \<in> {Prep_PREPARED, Prep_RESERVED, Prep_RELEASED, Prep_EXPIRED, Prep_CANCELLED})"

definition history_ok :: "store \<Rightarrow> bool" where
  "history_ok s =
     (distinct (map decision_id (prepared_route_decisions s))
      \<and> (\<forall>t \<in> set (prepared_route_transitions s). pt_prepared_id t \<in> decision_id ` set (prepared_route_decisions s))
      \<and> (\<forall>pid. invocations pid s \<le> 1)
      \<and> (\<forall>w \<in> set (prepared_route_decisions s). uninvoked (pw_state w) \<longrightarrow> invocations (decision_id w) s = 0))"

lemma legal_uninvoked:
  assumes "b \<in> set (prepared_transitions a)"
  shows "uninvoked b \<Longrightarrow> uninvoked a" and "b = Prep_INVOKING \<Longrightarrow> uninvoked a"
  using assms by (cases a; auto simp: uninvoked_def)+

lemma invocations_moved:
  "moved t s s' \<Longrightarrow> invocations pid s' = invocations pid s
     + (if pt_prepared_id t = pid \<and> pt_to_state t = Prep_INVOKING then 1 else 0)"
  by (simp add: moved_def invocations_def rowcount_def)

lemma history_moved:
  assumes ok: "history_ok s" and m: "moved t s s'"
  shows "history_ok s'"
proof -
  have d: "distinct (map decision_id (prepared_route_decisions s))" using ok by (simp add: history_ok_def)
  note md = moved_decisions [OF d m]
  from m obtain v where v: "v \<in> set (prepared_route_decisions s)" "decision_id v = pt_prepared_id t"
      "pw_state v = pt_from_state t"
    by (auto simp: moved_def is_prepared_id)
  have legal: "pt_to_state t \<in> set (prepared_transitions (pt_from_state t))"
    using m by (simp add: moved_def valid_transition_live)
  have ids: "decision_id ` set (prepared_route_decisions s') = decision_id ` set (prepared_route_decisions s)"
    using arg_cong [OF md(1), of set] by simp
  have none: "invocations (pt_prepared_id t) s = 0" if "uninvoked (pt_from_state t)"
    using ok v that by (auto simp: history_ok_def)
  have "invocations pid s' \<le> 1" for pid
  proof (cases "pt_prepared_id t = pid \<and> pt_to_state t = Prep_INVOKING")
    case True
    with none legal_uninvoked(2) [OF legal] show ?thesis by (simp add: invocations_moved [OF m])
  next
    case False
    with ok show ?thesis by (simp only: invocations_moved [OF m] history_ok_def if_False add_0_right)
  qed
  moreover have "invocations (decision_id w') s' = 0"
    if w': "w' \<in> set (prepared_route_decisions s')" "uninvoked (pw_state w')" for w'
  proof -
    from md(3) [OF w'(1)] obtain w where w: "w \<in> set (prepared_route_decisions s)"
      "w' = (if decision_id w = pt_prepared_id t then w\<lparr>pw_state := pt_to_state t\<rparr> else w)" ..
    show ?thesis
    proof (cases "decision_id w = pt_prepared_id t")
      case True
      with w w'(2) have "decision_id w' = pt_prepared_id t" "uninvoked (pt_to_state t)"
        by (simp_all add: decision_id_def)
      with none legal_uninvoked(1) [OF legal] show ?thesis
        by (auto simp: invocations_moved [OF m] uninvoked_def)
    next
      case False
      with w w'(2) ok show ?thesis by (auto simp: invocations_moved [OF m] history_ok_def)
    qed
  qed
  moreover have "pt_prepared_id u \<in> decision_id ` set (prepared_route_decisions s')"
    if "u \<in> set (prepared_route_transitions s')" for u
  proof -
    have "u = t \<or> u \<in> set (prepared_route_transitions s)" using that m by (auto simp: moved_def)
    with ok imageI [OF v(1), of decision_id] show ?thesis unfolding ids v(2) by (auto simp: history_ok_def)
  qed
  ultimately show ?thesis using d by (simp add: history_ok_def md(1))
qed

lemma history_same_plan:
  assumes ok: "history_ok s" and same: "same_plan s s'"
  shows "history_ok s'"
proof -
  note plan = same_plan_decisions [OF same]
  have same_history: "prepared_route_transitions s' = prepared_route_transitions s"
    using same by (simp add: same_plan_def)
  have "decision_id ` set (prepared_route_decisions s') = decision_id ` set (prepared_route_decisions s)"
    using arg_cong [OF plan(1), of set] by simp
  moreover have "invocations (decision_id w') s = 0"
    if "w' \<in> set (prepared_route_decisions s')" "uninvoked (pw_state w')" for w'
  proof -
    from plan(3) [OF that(1)] obtain w where "w \<in> set (prepared_route_decisions s)" "core_row w = core_row w'" ..
    with that(2) ok show ?thesis by (auto simp: history_ok_def core_row_def decision_id_def)
  qed
  ultimately show ?thesis
    using ok by (simp add: history_ok_def plan(1) same_history invocations_def)
qed

lemma history_change:
  assumes "paid_change cur limit s s'" and ok: "history_ok s"
  shows "history_ok s'"
  using assms(1)
proof cases
  case (add w)
  have fresh: "decision_id w \<notin> decision_id ` set (prepared_route_decisions s)"
    using add(4) by (auto simp: is_prepared_id)
  then have "rowcount (\<lambda>t. pt_prepared_id t = decision_id w \<and> pt_to_state t = Prep_INVOKING)
      (prepared_route_transitions s) = 0"
    using ok unfolding rowcount_0 history_ok_def by metis
  with ok fresh add show ?thesis by (auto simp: history_ok_def invocations_def)
qed (use history_moved history_same_plan ok in blast)+

end
