(* ===== verification/Payment_Protocol.thy ===== *)
theory Payment_Protocol
  imports Payment_Authority
begin

text \<open>
  The operations of the payment path as changes: every operation that succeeds makes one
  \<open>paid_change\<close>, and one that fails changes nothing. The runs of the store are the steps of
  these operations with validated records; the invariants hold in every state of a run.
\<close>

section \<open>Prepared decisions\<close>

lemma paid_stay: "paid_change cur limit s s"
  by (rule paid_change.plan) (simp_all add: same_money_def same_plan_def)

lemma mk_transition_ok:
  assumes "mk_transition tid pid a b moment reason = Inr t"
  shows "validate_transition t = Inr ()" "pt_transition_id t = tid" "pt_prepared_id t = pid"
    "pt_from_state t = a" "pt_to_state t = b"
  using assms by (auto simp: mk_transition_def Let_def split: sum.splits)

text \<open>An update of the one row of a decision is an update by its id.\<close>

lemma one_hit_update:
  assumes d: "distinct (map decision_id ws)" and one: "rowcount (\<lambda>w. is_prepared pid w \<and> q w) ws = 1"
  shows "update_rows (\<lambda>w. is_prepared pid w \<and> q w) f ws = update_rows (is_prepared pid) f ws"
    and "\<exists>w \<in> set ws. is_prepared pid w \<and> q w"
proof -
  show hit: "\<exists>w \<in> set ws. is_prepared pid w \<and> q w"
    using one rowcount_0 [of "\<lambda>w. is_prepared pid w \<and> q w" ws] by auto
  then obtain w where w: "w \<in> set ws" "decision_id w = pid" "q w" by (auto simp: is_prepared_id)
  have "x = w" if "x \<in> set ws" "decision_id x = pid" for x
    using d w(1,2) that by (auto simp: distinct_map inj_on_def)
  with w(3) show "update_rows (\<lambda>w. is_prepared pid w \<and> q w) f ws = update_rows (is_prepared pid) f ws"
    by (intro update_rows_cong) (auto simp: is_prepared_id)
qed

lemma transition_locked:
  assumes d: "distinct (map decision_id (prepared_route_decisions s))"
    and valid: "validate_transition t = Inr ()"
    and ok: "transition_prepared_locked t token s = (Inr u, s')"
  shows "s' = s \<and> t \<in> set (prepared_route_transitions s) \<or> moved t s s' \<and> same_money s s'"
proof (cases "select_row (\<lambda>x. pt_transition_id x = pt_transition_id t) (prepared_route_transitions s)")
  case (Some x)
  with ok select_row_SomeD [OF Some] show ?thesis
    by (auto simp: transition_prepared_locked_def split: if_splits)
next
  case None
  let ?q = "\<lambda>w. pw_state w = pt_from_state t \<and> opt_all (\<lambda>c. pw_claim_token w = Some c) token"
  have one: "rowcount (\<lambda>w. is_prepared (pt_prepared_id t) w \<and> ?q w) (prepared_route_decisions s) = 1"
    using None ok by (auto simp: transition_prepared_locked_def Let_def conj_assoc split: if_splits)
  have s': "s' = s\<lparr>prepared_route_decisions := update_rows (is_prepared (pt_prepared_id t))
        (\<lambda>w. w\<lparr>pw_state := pt_to_state t\<rparr>) (prepared_route_decisions s),
      prepared_route_transitions := prepared_route_transitions s @ [t]\<rparr>"
    using None ok one_hit_update(1) [OF d one]
    by (auto simp: transition_prepared_locked_def Let_def conj_assoc split: if_splits)
  have "moved t s s'"
    using valid one_hit_update(2) [OF d one] by (auto simp: moved_def s')
  moreover have "same_money s s'" by (simp add: same_money_def s')
  ultimately show ?thesis by blast
qed

lemma transition_locked_change:
  assumes "distinct (map decision_id (prepared_route_decisions s))"
    and "validate_transition t = Inr ()" and "transition_prepared_locked t token s = (Inr u, s')"
  shows "paid_change cur limit s s'"
  using transition_locked [OF assms] paid_change.move paid_stay by blast

text \<open>A claim only writes the claim columns.\<close>

lemma claim_same_plan:
  assumes "\<And>w. core_row (f w) = core_row w"
    and "prepared_route_decisions s' = update_rows p f (prepared_route_decisions s)"
    and "prepared_route_transitions s' = prepared_route_transitions s"
  shows "same_plan s s'"
  using assms by (simp add: same_plan_def map_key_update_rows)

lemma save_prepared_change:
  assumes "save_prepared_decision d s = (Inr v, s')"
  shows "paid_change cur limit s s'"
proof -
  let ?w = "\<lparr>pw_decision = d, pw_state = pd_state d, pw_claim_token = None, pw_claimed_at = None\<rparr>"
  show ?thesis
  proof (cases "\<exists>x \<in> set (prepared_route_decisions s). is_prepared (pd_prepared_id d) x")
    case True
    then have "prepared_route_decisions s' = prepared_route_decisions s \<and> same_money s s'
        \<and> prepared_route_transitions s' = prepared_route_transitions s"
      using assms by (auto simp: save_prepared_decision_def transaction_ok immutable_row_insert_def
          is_prepared_def Let_def same_money_def split: option.splits if_splits sum.splits)
    then show ?thesis by (intro paid_change.plan) (auto simp: same_plan_def)
  next
    case False
    then have "prepared_route_decisions s' = prepared_route_decisions s @ [?w] \<and> same_money s s'
        \<and> prepared_route_transitions s' = prepared_route_transitions s"
      using assms by (auto simp: save_prepared_decision_def transaction_ok immutable_row_insert_def
          is_prepared_def Let_def same_money_def split: option.splits if_splits sum.splits)
    with False show ?thesis
      by (intro paid_change.add [where w = ?w]) (auto simp: decision_id_def)
  qed
qed

lemma prepared_claim_change:
  assumes "claim_prepared_decision pid token t s = (Inr v, s')"
  shows "paid_change cur limit s s'"
proof (rule paid_change.plan)
  show "same_money s s'" using assms
    by (auto simp: claim_prepared_decision_def transaction_ok Let_def same_money_def
        split: option.splits if_splits sum.splits)
  show "same_plan s s'"
    by (rule claim_same_plan [where f = "\<lambda>w. w\<lparr>pw_claim_token := Some token, pw_claimed_at := Some t\<rparr>"
          and p = "\<lambda>w. is_prepared pid w \<and> pw_state w = Prep_PREPARED \<and> pw_claim_token w = None
                        \<and> t < pd_expires_at (pw_decision w)"])
      (use assms in \<open>auto simp: claim_prepared_decision_def transaction_ok Let_def core_row_def
        split: option.splits if_splits sum.splits\<close>)
qed

lemma keyed_claim_change:
  assumes "claim_prepared_decision_with_action_idempotency pid token t key digest s = (Inr v, s')"
  shows "paid_change cur limit s s'"
proof (rule paid_change.plan)
  show "same_money s s'" using assms
    by (auto simp: claim_prepared_decision_with_action_idempotency_def transaction_ok Let_def same_money_def
        split: option.splits if_splits sum.splits)
  let ?f = "\<lambda>w. w\<lparr>pw_claim_token := Some token, pw_claimed_at := Some t\<rparr>"
  let ?p = "\<lambda>w. is_prepared pid w \<and> pw_state w = Prep_PREPARED \<and> pw_claim_token w = None
                        \<and> t < pd_expires_at (pw_decision w)"
  have "prepared_route_transitions s' = prepared_route_transitions s
      \<and> (prepared_route_decisions s' = prepared_route_decisions s
         \<or> prepared_route_decisions s' = update_rows ?p ?f (prepared_route_decisions s))"
    using assms by (auto simp: claim_prepared_decision_with_action_idempotency_def transaction_ok Let_def
        split: option.splits if_splits sum.splits)
  then show "same_plan s s'"
    using claim_same_plan [of ?f s' ?p s] by (auto simp: core_row_def same_plan_def)
qed

lemma save_transition_change:
  assumes "distinct (map decision_id (prepared_route_decisions s))" and "validate_transition t = Inr ()"
    and "save_prepared_transition t s = (Inr v, s')"
  shows "paid_change cur limit s s'"
  using assms(3) transition_locked_change [OF assms(1,2)]
  by (auto simp: save_prepared_transition_def transaction_ok split: if_splits sum.splits prod.splits)

lemma invocation_change:
  assumes d: "distinct (map decision_id (prepared_route_decisions s))"
    and ok: "claim_prepared_for_invocation tid pid token action policy fingerprint moment s = (Inr v, s')"
  shows "paid_change cur limit s s'"
proof -
  from ok obtain t u where t: "mk_transition tid pid Prep_PREPARED Prep_INVOKING moment
      ''confirmed-free claimed invocation'' = Inr t" "transition_prepared_locked t (Some token) s = (Inr u, s')"
    by (auto simp: claim_prepared_for_invocation_def transaction_ok Let_def
        split: option.splits if_splits sum.splits prod.splits)
  show ?thesis by (rule transition_locked_change [OF d mk_transition_ok(1) [OF t(1)] t(2)])
qed

lemma paid_invocation_change:
  assumes d: "distinct (map decision_id (prepared_route_decisions s))"
    and ok: "claim_prepared_for_paid_invocation verify tid pid token action policy executor fingerprint kind
      aid moment s = (Inr v, s')"
  shows "paid_change cur limit s s'"
proof -
  from ok obtain t u where t: "mk_transition tid pid Prep_RESERVED Prep_INVOKING moment
      ''claimed paid invocation after atomic route and trust revalidation'' = Inr t"
      "transition_prepared_locked t (Some token) s = (Inr u, s')"
    by (auto simp: claim_prepared_for_paid_invocation_def transaction_ok Let_def
        split: option.splits if_splits sum.splits prod.splits)
  show ?thesis by (rule transition_locked_change [OF d mk_transition_ok(1) [OF t(1)] t(2)])
qed

lemma abandon_state_cases:
  assumes d: "distinct (map decision_id (prepared_route_decisions s))"
    and ok: "abandon_state tid pid moment token w s = (Inr u, s')"
  shows "pw_state w = Prep_RELEASED \<and> s' = s
    \<or> (\<exists>t. pt_prepared_id t = pid \<and> pt_to_state t = Prep_CANCELLED \<and> validate_transition t = Inr ()
         \<and> (s' = s \<and> t \<in> set (prepared_route_transitions s) \<or> moved t s s' \<and> same_money s s'))"
proof (cases "pw_state w = Prep_PREPARED")
  case True
  with ok obtain t where t: "mk_transition tid pid Prep_PREPARED Prep_CANCELLED moment
      ''pre-invocation action idempotency claim abandoned'' = Inr t" "transition_prepared_locked t None s = (Inr u, s')"
    by (auto simp: abandon_state_def split: if_splits sum.splits)
  note made = mk_transition_ok [OF t(1)]
  from transition_locked [OF d made(1) t(2)] made show ?thesis by blast
next
  case False
  with ok show ?thesis by (auto simp: abandon_state_def split: if_splits)
qed

lemma same_core_change:
  assumes "same_money s s'" and "prepared_route_transitions s' = prepared_route_transitions s"
    and "prepared_route_decisions s' = prepared_route_decisions s"
  shows "paid_change cur limit s s'"
  using assms by (intro paid_change.plan) (simp_all add: same_plan_def)

lemma abandon_result:
  assumes "abandon_prepared_action_idempotency tid pid digest moment token s = (Inr v, s')"
  shows "\<exists>w u s1. prepared_row_of pid s = Some w \<and> abandon_state tid pid moment token w s = (Inr u, s1)
    \<and> get_prepared_decision pid s' = Some v
    \<and> same_money s1 s' \<and> prepared_route_transitions s' = prepared_route_transitions s1
    \<and> prepared_route_decisions s' = prepared_route_decisions s1"
  using assms
  by (auto simp: abandon_prepared_action_idempotency_def transaction_ok Let_def same_money_def
      split: option.splits if_splits sum.splits prod.splits)

lemma prepared_abandon_change:
  assumes d: "distinct (map decision_id (prepared_route_decisions s))"
    and ok: "abandon_prepared_action_idempotency tid pid digest moment token s = (Inr v, s')"
  shows "paid_change cur limit s s'"
proof -
  from abandon_result [OF ok] obtain w u s1 where s1: "abandon_state tid pid moment token w s = (Inr u, s1)"
    and rest: "same_money s1 s'" "prepared_route_transitions s' = prepared_route_transitions s1"
      "prepared_route_decisions s' = prepared_route_decisions s1" by blast
  from abandon_state_cases [OF d s1] show ?thesis
  proof (elim disjE conjE exE)
    fix t assume "moved t s s1" "same_money s s1"
    with rest have "moved t s s'" "same_money s s'" by (simp_all add: moved_def same_money_def)
    then show ?thesis by (rule paid_change.move [rotated])
  qed (use rest in \<open>auto intro: same_core_change\<close>)
qed

lemma complete_action_change:
  assumes "complete_prepared_action_idempotency pid digest decision status receipt_id s = (Inr v, s')"
  shows "paid_change cur limit s s'"
  using assms by (intro same_core_change)
    (auto simp: complete_prepared_action_idempotency_def transaction_ok same_money_def
      split: option.splits if_splits sum.splits)

text \<open>A recovery makes up to two moves.\<close>

lemma moved_distinct:
  assumes "distinct (map decision_id (prepared_route_decisions s))" and "validate_transition t = Inr ()"
    and "transition_prepared_locked t token s = (Inr u, s')"
  shows "distinct (map decision_id (prepared_route_decisions s'))"
  using transition_locked [OF assms] moved_decisions(1) [OF assms(1)] assms(1) by auto

lemma recovery_changes:
  assumes d: "distinct (map decision_id (prepared_route_decisions s))"
    and ok: "recovery_moves tid tid' pid state moment s = (Inr u, s')"
  shows "(paid_change cur limit)\<^sup>*\<^sup>* s s'"
proof -
  have "\<exists>s1 t. (paid_change cur limit)\<^sup>*\<^sup>* s s1 \<and> distinct (map decision_id (prepared_route_decisions s1))
      \<and> validate_transition t = Inr () \<and> transition_prepared_locked t None s1 = (Inr u, s')"
  proof (cases "state = Prep_SETTLING")
    case True
    with ok d show ?thesis
      by (auto simp: recovery_moves_def split: sum.splits dest: mk_transition_ok(1))
  next
    case False
    with ok obtain t1 u1 s1 where t1: "mk_transition tid pid state Prep_SETTLING moment
        ''durable confirmed-free receipt recovered'' = Inr t1" "transition_prepared_locked t1 None s = (Inr u1, s1)"
      by (auto simp: recovery_moves_def split: sum.splits prod.splits)
    note made = mk_transition_ok(1) [OF t1(1)]
    from ok False t1 obtain t2 where t2: "mk_transition tid' pid Prep_SETTLING Prep_SETTLED moment
        ''confirmed-free recovery finalized accounting'' = Inr t2"
        "transition_prepared_locked t2 None s1 = (Inr u, s')"
      by (auto simp: recovery_moves_def split: sum.splits prod.splits)
    from transition_locked_change [OF d made t1(2)] moved_distinct [OF d made t1(2)]
      mk_transition_ok(1) [OF t2(1)] t2(2) show ?thesis by blast
  qed
  then obtain s1 t where s1: "(paid_change cur limit)\<^sup>*\<^sup>* s s1"
    "distinct (map decision_id (prepared_route_decisions s1))" "validate_transition t = Inr ()"
    "transition_prepared_locked t None s1 = (Inr u, s')" by blast
  show ?thesis by (rule rtranclp.rtrancl_into_rtrancl [OF s1(1) transition_locked_change [OF s1(2-4)]])
qed

lemma recover_free_changes:
  assumes d: "distinct (map decision_id (prepared_route_decisions s))"
    and ok: "settle_recovered_free_prepared tid tid' pid receipt_id moment s = (Inr v, s')"
  shows "(paid_change cur limit)\<^sup>*\<^sup>* s s'"
proof (cases "s' = s")
  case False
  with ok obtain st u where "recovery_moves tid tid' pid st moment s = (Inr u, s')"
    by (auto simp: settle_recovered_free_prepared_def transaction_ok split: option.splits if_splits sum.splits prod.splits)
  then show ?thesis by (rule recovery_changes [OF d])
qed simp

section \<open>Reservations\<close>

lemma payment_rowD: "payment_row_of rid s = Some y \<Longrightarrow> y \<in> set (payment_reservations s) \<and> payment_id y = rid"
  using select_row_SomeD [of "is_payment rid" "payment_reservations s" y]
  by (simp add: payment_row_of_def is_payment_id)

lemma prepared_rowD: "prepared_row_of pid s = Some w \<Longrightarrow> w \<in> set (prepared_route_decisions s) \<and> is_prepared pid w"
  using select_row_SomeD [of "is_prepared pid" "prepared_route_decisions s" w]
  by (simp add: prepared_row_of_def)

lemma one_payment_hit:
  assumes d: "distinct (map payment_id (payment_reservations s))"
    and y: "y \<in> set (payment_reservations s)" "payment_id y = rid" "q y"
  shows "update_rows (\<lambda>z. is_payment rid z \<and> q z) f (payment_reservations s)
    = update_rows (is_payment rid) f (payment_reservations s)"
proof (rule update_rows_cong)
  fix z assume "z \<in> set (payment_reservations s)"
  then have "payment_id z = rid \<Longrightarrow> z = y" using d y by (auto simp: distinct_map inj_on_def)
  with y(3) show "(is_payment rid z \<and> q z) = is_payment rid z" by (auto simp: is_payment_id)
qed

lemma payment_transition_change:
  assumes d: "distinct (map payment_id (payment_reservations s))"
    and ok: "transition_payment_reservation_v2 rid expected updated s = (Inr v, s')"
  shows "paid_change cur limit s s'"
proof (cases "s' = s")
  case False
  let ?f = "\<lambda>y. y\<lparr>py_state := pv_state updated, py_updated_at := pv_updated_at updated,
              py_indeterminate_reason := pv_indeterminate_reason updated\<rparr>"
  from ok False obtain y where y: "payment_row_of rid s = Some y" "py_state y = expected"
    and legal: "pv_state updated \<in> set (payment_transitions expected)"
      "pv_state updated \<notin> {Pay_SETTLING, Pay_SETTLED, Pay_RELEASED}"
    and s': "s' = set_payment (\<lambda>y. is_payment rid y \<and> py_state y = expected) ?f s"
    by (auto simp: transition_payment_reservation_v2_def transaction_ok Let_def payment_from_row_def
        split: option.splits if_splits)
  note row = payment_rowD [OF y(1)]
  from row have mem: "y \<in> set (payment_reservations s)" and id: "payment_id y = rid" by simp_all
  show ?thesis
  proof (rule paid_change.pay [OF mem, where f = ?f and target = "pv_state updated"])
    show "\<not> final_payment (py_state y)" using legal(1) y(2) by (auto simp: final_payment_def)
    show "\<not> final_payment (pv_state updated)" using legal(2) by (simp add: final_payment_def)
    show "payment_reservations s' = update_rows (is_payment (payment_id y)) ?f (payment_reservations s)"
      using one_payment_hit [OF d mem id, where q = "\<lambda>z. py_state z = expected"] y(2)
      by (simp add: s' set_payment_def id)
  qed (simp_all add: s' set_payment_def same_plan_def)
qed (use paid_stay in simp)

lemma settling_change:
  assumes y: "payment_row_of rid s = Some y" "\<not> final_payment (py_state y)"
    and ok: "enter_settling rid intent t b y s = (Inr v, s')"
  shows "paid_change cur limit s s'"
proof -
  let ?f = "\<lambda>y. y\<lparr>py_state := Pay_SETTLING, py_operation_intent := Some intent, py_updated_at := t,
                 py_indeterminate_reason := (if b then None else py_indeterminate_reason y)\<rparr>"
  note row = payment_rowD [OF y(1)]
  from row have mem: "y \<in> set (payment_reservations s)" and id: "payment_id y = rid" by simp_all
  show ?thesis
    by (rule paid_change.pay [OF mem y(2), where f = ?f and target = Pay_SETTLING])
      (use ok in \<open>auto simp: enter_settling_def Let_def set_payment_def same_plan_def id final_payment_def\<close>)
qed

lemma intent_change:
  assumes "claim_payment_intent_v2 rid intent key required t s = (Inr v, s')"
  shows "paid_change cur limit s s'"
proof (cases "s' = s")
  case False
  with assms obtain y b where y: "payment_row_of rid s = Some y"
      "py_state y = Pay_INDETERMINATE \<or> py_state y = Pay_RESERVED"
      "enter_settling rid (intent, key) t b y s = (Inr v, s')"
    by (auto simp: claim_payment_intent_v2_def transaction_ok Let_def
        split: option.splits if_splits sum.splits)
  show ?thesis by (rule settling_change [OF y(1) _ y(3)]) (use y(2) in \<open>auto simp: final_payment_def\<close>)
qed (use paid_stay in simp)

section \<open>Settlements\<close>

definition fresh_transition :: "string \<Rightarrow> store \<Rightarrow> bool" where
  "fresh_transition tid s = (tid \<notin> pt_transition_id ` set (prepared_route_transitions s))"

lemma fresh_insert:
  assumes "\<forall>z \<in> set t. \<not> clash z x" and "immutable_insert_locked clash identity x t = (Inr b, t')"
  shows "t' = t @ [x]"
  using assms by (auto simp: immutable_insert_locked_def Let_def split: option.splits if_splits)

text \<open>A successful call found its receipt stored, or stored it with both transitions.\<close>

lemma settlement_result:
  assumes "save_settlement_receipt result_id tid x s = (Inr v, s')"
  obtains
    (found) y w where "payment_row_of (sr_reservation_id x) s = Some y"
      "prepared_row_of (pv_prepared_id (py_payload y)) s = Some w"
      "first_error (settlement_binding_errors x (py_payload y) (pw_decision w) s) = Inr ()"
      "sr_authorization_kind x \<noteq> None" "sr_authorization_id x \<noteq> None" "v = x" "s' = s"
      "select_row (\<lambda>z. settlement_clash z x) (settlement_receipts s) = Some x"
      "py_state y = settlement_target (sr_status x)" "pw_state w = settlement_prepared_target (sr_status x)"
  | (stored) y w tr h b where "payment_row_of (sr_reservation_id x) s = Some y"
      "prepared_row_of (pv_prepared_id (py_payload y)) s = Some w"
      "first_error (settlement_binding_errors x (py_payload y) (pw_decision w) s) = Inr ()"
      "sr_authorization_kind x \<noteq> None" "sr_authorization_id x \<noteq> None" "v = x"
      "\<forall>z \<in> set (settlement_receipts s). \<not> settlement_clash z x"
      "first_error (settlement_state_errors result_id x y w) = Inr ()"
      "mk_transition tid (sr_prepared_id x) (pw_state w) (settlement_prepared_target (sr_status x))
         (sr_settled_at x) (settlement_reason x) = Inr tr"
      "immutable_insert_locked (\<lambda>a b. pt_transition_id a = pt_transition_id b)
         (\<lambda>a. pt_transition_id a = tid) tr (prepared_route_transitions s) = (Inr b, h)"
      "s' = apply_settlement tr h x y (s\<lparr>settlement_receipts := settlement_receipts s @ [x]\<rparr>)"
proof -
  from assms obtain y w where yw: "payment_row_of (sr_reservation_id x) s = Some y"
      "prepared_row_of (pv_prepared_id (py_payload y)) s = Some w"
    and bind: "first_error (settlement_binding_errors x (py_payload y) (pw_decision w) s) = Inr ()"
    and basis: "sr_authorization_kind x \<noteq> None" "sr_authorization_id x \<noteq> None"
    by (auto simp: save_settlement_receipt_def transaction_ok split: option.splits if_splits sum.splits)
  show ?thesis
  proof (cases "select_row (\<lambda>z. settlement_clash z x) (settlement_receipts s)")
    case (Some z)
    with assms yw bind have "z = x" "v = x" "s' = s" "py_state y = settlement_target (sr_status x)"
      "pw_state w = settlement_prepared_target (sr_status x)"
      by (auto simp: save_settlement_receipt_def transaction_ok split: if_splits)
    with Some found [OF yw bind basis] show ?thesis by blast
  next
    case None
    then have new: "\<forall>z \<in> set (settlement_receipts s). \<not> settlement_clash z x"
      by (simp add: select_row_None)
    have st: "first_error (settlement_state_errors result_id x y w) = Inr ()"
      using None assms yw bind by (auto simp: save_settlement_receipt_def transaction_ok split: if_splits sum.splits)
    with None assms yw bind obtain b1 t1 where ins: "immutable_insert_locked settlement_clash
        (\<lambda>z. sr_settlement_id z = sr_settlement_id x) x (settlement_receipts s) = (Inr b1, t1)"
      by (auto simp: save_settlement_receipt_def transaction_ok split: if_splits sum.splits prod.splits)
    note t1 = fresh_insert [OF new ins]
    from None assms yw bind st ins t1 obtain tr h b where "mk_transition tid (sr_prepared_id x) (pw_state w)
          (settlement_prepared_target (sr_status x)) (sr_settled_at x) (settlement_reason x) = Inr tr"
        "immutable_insert_locked (\<lambda>a b. pt_transition_id a = pt_transition_id b)
            (\<lambda>a. pt_transition_id a = tid) tr (prepared_route_transitions s) = (Inr b, h)"
        "v = x" "s' = apply_settlement tr h x y (s\<lparr>settlement_receipts := settlement_receipts s @ [x]\<rparr>)"
      by (auto simp: save_settlement_receipt_def transaction_ok Let_def split: if_splits sum.splits prod.splits)
    with new st stored [OF yw bind basis] show ?thesis by blast
  qed
qed

lemma settlement_bound:
  assumes "first_error (settlement_binding_errors x r d s) = Inr ()"
  shows "sr_prepared_id x = pv_prepared_id r" and "currency (sr_reserved_amount x) = currency (pv_maximum_amount r)"
    and "amount (sr_captured_amount x) \<le> amount (pv_maximum_amount r)"
  using assms by (simp_all add: first_error_iff settlement_binding_errors_def Let_def not_less)

lemma settlement_source_live:
  "first_error (settlement_state_errors result_id x y w) = Inr () \<Longrightarrow> \<not> final_payment (py_state y)"
  by (cases "sr_status x") (auto simp: first_error_iff settlement_state_errors_def Let_def final_payment_def)

lemma settlement_change:
  assumes dw: "distinct (map decision_id (prepared_route_decisions s))"
    and dy: "distinct (map payment_id (payment_reservations s))"
    and fresh: "fresh_transition tid s"
    and ok: "save_settlement_receipt result_id tid x s = (Inr v, s')"
  shows "paid_change cur limit s s'"
  using ok
proof (cases rule: settlement_result)
  case (stored y w tr h b)
  note bound = settlement_bound [OF stored(3)] and row = payment_rowD [OF stored(1)]
    and wrow = prepared_rowD [OF stored(2)] and made = mk_transition_ok [OF stored(9)]
  from row have mem: "y \<in> set (payment_reservations s)" and id: "payment_id y = sr_reservation_id x" by simp_all
  have h': "h = prepared_route_transitions s @ [tr]"
    by (rule fresh_insert [OF _ stored(10)]) (use fresh made(2) in \<open>simp add: fresh_transition_def, metis image_eqI\<close>)
  have hit: "update_rows (\<lambda>v. is_prepared (pt_prepared_id tr) v \<and> pw_state v = pt_from_state tr) g
        (prepared_route_decisions s)
      = update_rows (is_prepared (pt_prepared_id tr)) g (prepared_route_decisions s)" for g
  proof (rule update_rows_cong)
    fix u assume "u \<in> set (prepared_route_decisions s)"
    then have "decision_id u = decision_id w \<Longrightarrow> u = w" using dw wrow by (auto simp: distinct_map inj_on_def)
    then show "(is_prepared (pt_prepared_id tr) u \<and> pw_state u = pt_from_state tr) = is_prepared (pt_prepared_id tr) u"
      using wrow by (auto simp: is_prepared_id made bound(1))
  qed
  have m: "moved tr s s'"
    using made wrow by (auto simp: moved_def stored(11) apply_settlement_def Let_def h' bound(1) set_payment_def
        hit [unfolded made bound(1)])
  let ?f = "\<lambda>z. z\<lparr>py_state := settlement_target (sr_status x), py_operation_intent := None,
      py_updated_at := sr_settled_at x,
      py_indeterminate_reason := (if settlement_target (sr_status x) = Pay_INDETERMINATE
        then Some (unsettled_reason x) else None)\<rparr>"
  show ?thesis
  proof (rule paid_change.settle [OF mem settlement_source_live [OF stored(8)] id, where f = ?f and t = tr])
    show "payment_reservations s' = update_rows (is_payment (payment_id y)) ?f (payment_reservations s)"
      using one_payment_hit [OF dy mem id, where q = "\<lambda>z. py_state z = py_state y"]
      by (simp add: stored(11) apply_settlement_def Let_def set_payment_def id)
  qed (use stored(7) bound made m in \<open>simp_all add: stored(11) apply_settlement_def Let_def set_payment_def\<close>)
qed (simp add: paid_stay)

section \<open>Reserving\<close>

lemma row_insert_ok:
  assumes "immutable_row_insert clash identity payload r t = (Inr b, t')"
    and "\<forall>x \<in> set t. \<not> identity x"
  shows "t' = t @ [r]" and "\<forall>x \<in> set t. \<not> clash x r"
  using assms by (auto simp: immutable_row_insert_def Let_def select_row_None split: option.splits if_splits
      dest!: select_row_SomeD)

lemma insert_payment_result:
  assumes d: "distinct (map decision_id (prepared_route_decisions s))" and fresh: "fresh_transition tid s"
    and new: "\<forall>y \<in> set (payment_reservations s). \<not> is_payment (pv_reservation_id r) y"
    and ok: "insert_payment tid token r s = (Inr v, s')"
  obtains tr where "payment_reservations s' = payment_reservations s @ [fresh_payment_row r]"
    "\<forall>y \<in> set (payment_reservations s). \<not> payment_clash y (fresh_payment_row r)"
    "settlement_receipts s' = settlement_receipts s" "refund_receipts s' = refund_receipts s"
    "moved tr s s'" "pt_prepared_id tr = pv_prepared_id r" "pt_to_state tr = Prep_RESERVED"
    "pt_from_state tr = Prep_PREPARED" "v = r"
proof -
  from ok obtain b t where ins: "immutable_row_insert payment_clash (is_payment (pv_reservation_id r)) py_payload
        (fresh_payment_row r) (payment_reservations s) = (Inr b, t)"
    by (auto simp: insert_payment_def Let_def split: prod.splits sum.splits)
  note t = row_insert_ok [OF ins new]
  let ?s1 = "s\<lparr>payment_reservations := t\<rparr>"
  from ok ins obtain tr u where tr: "mk_transition tid (pv_prepared_id r) Prep_PREPARED Prep_RESERVED
        (pv_updated_at r) (''payment reservation '' @ pv_reservation_id r) = Inr tr"
      "transition_prepared_locked tr (Some token) ?s1 = (Inr u, s')" "v = r"
    by (auto simp: insert_payment_def Let_def split: prod.splits sum.splits)
  note made = mk_transition_ok [OF tr(1)]
  have "tr \<notin> set (prepared_route_transitions s)"
    using fresh made(2) by (auto simp: fresh_transition_def)
  then have m: "moved tr ?s1 s'" "same_money ?s1 s'"
    using transition_locked [OF _ made(1) tr(2)] d by auto
  then have "moved tr s s'" by (simp add: moved_def)
  with m(2) t made tr(3) that show ?thesis by (simp add: same_money_def)
qed

lemma reserve_result:
  assumes "reserve_payment_v2 verify tid r token budget prepaid unlimited start s = (Inr v, s')"
  shows "s' = s \<or> (\<exists>w. prepared_row_of (pv_prepared_id r) s = Some w \<and> pw_state w = Prep_PREPARED
    \<and> pv_state r = Pay_RESERVED \<and> opt_all (\<lambda>b. currency (pv_maximum_amount r) = currency b) prepaid
    \<and> (\<forall>y \<in> set (payment_reservations s). \<not> is_payment (pv_reservation_id r) y)
    \<and> first_error (reservation_binding_errors r w) = Inr ()
    \<and> reservation_basis_maximum verify r (pw_decision w) s = Inr (pv_maximum_amount r)
    \<and> within_limit start r budget ''payment reservation exceeds available daily budget'' s = Inr ()
    \<and> within_limit None r prepaid ''payment reservation exceeds available prepaid balance'' s = Inr ()
    \<and> insert_payment tid token r s = (Inr v, s'))"
proof (cases "select_row (\<lambda>y. is_payment (pv_reservation_id r) y
            \<or> pv_idempotency_key (py_payload y) = pv_idempotency_key r) (payment_reservations s)")
  case (Some y)
  with assms show ?thesis
    by (auto simp: reserve_payment_v2_def transaction_ok Let_def split: if_splits option.splits sum.splits)
next
  case None
  with assms show ?thesis
    by (auto simp: reserve_payment_v2_def transaction_ok Let_def select_row_None
        split: if_splits option.splits sum.splits)
qed

lemma reserve_change:
  assumes d: "distinct (map decision_id (prepared_route_decisions s))" and fresh: "fresh_transition tid s"
    and valid: "validate_payment r = Inr ()"
    and bound: "currency (pv_maximum_amount r) = cur \<Longrightarrow> prepaid = Some \<lparr>amount = limit, currency = cur\<rparr>"
    and ok: "reserve_payment_v2 verify tid r token budget prepaid unlimited start s = (Inr v, s')"
  shows "paid_change cur limit s s'"
  using reserve_result [OF ok]
proof (elim disjE exE conjE)
  fix w
  assume w: "prepared_row_of (pv_prepared_id r) s = Some w" and st: "pv_state r = Pay_RESERVED"
    and new: "\<forall>y \<in> set (payment_reservations s). \<not> is_payment (pv_reservation_id r) y"
    and bind: "first_error (reservation_binding_errors r w) = Inr ()"
    and fits: "within_limit None r prepaid ''payment reservation exceeds available prepaid balance'' s = Inr ()"
    and ins: "insert_payment tid token r s = (Inr v, s')"
  note wrow = prepared_rowD [OF w]
  have auth: "authorized_by w r"
    using bind wrow by (auto simp: authorized_by_def first_error_iff reservation_binding_errors_def Let_def)
  have room: "\<exists>c. committed_amount None cur s = Inr c \<and> c + amount (pv_maximum_amount r) \<le> limit"
    if "currency (pv_maximum_amount r) = cur"
    using fits bound that by (auto simp: within_limit_def not_less split: sum.splits if_splits)
  from d fresh new ins show ?thesis
  proof (rule insert_payment_result)
    fix tr
    assume "payment_reservations s' = payment_reservations s @ [fresh_payment_row r]"
      "\<forall>y \<in> set (payment_reservations s). \<not> payment_clash y (fresh_payment_row r)"
      "settlement_receipts s' = settlement_receipts s" "refund_receipts s' = refund_receipts s"
      "moved tr s s'" "pt_prepared_id tr = pv_prepared_id r" "pt_to_state tr = Prep_RESERVED"
    from paid_change.reserve [OF this(1-4) valid st conjunct1 [OF wrow] auth this(5-7)] room
    show ?thesis by blast
  qed
qed (simp add: paid_stay)

lemma save_reservation_stays:
  assumes "save_payment_reservation_v2 r s = (res, s')"
  shows "payment_reservations s' = payment_reservations s \<and> same_money s s' \<and> same_plan s s'"
proof (cases "get_payment_reservation_v2 (pv_reservation_id r) s")
  case None
  with assms show ?thesis by (auto simp: save_payment_reservation_v2_def same_money_def same_plan_def)
next
  case (Some v)
  then obtain y where "payment_row_of (pv_reservation_id r) s = Some y"
    by (auto simp: get_payment_reservation_v2_def)
  from payment_rowD [OF this] have "\<exists>x \<in> set (payment_reservations s). payment_clash x (fresh_payment_row r)"
    by (auto simp: payment_clash_def payment_id_def fresh_payment_row_def Let_def)
  then have "snd (immutable_row_insert payment_clash (is_payment (pv_reservation_id r)) py_payload
        (fresh_payment_row r) (payment_reservations s)) = payment_reservations s"
    by (auto simp: immutable_row_insert_def Let_def split: option.splits)
  with assms Some show ?thesis
    by (auto simp: save_payment_reservation_v2_def immediate_transaction_def same_money_def same_plan_def
        split: prod.splits sum.splits if_splits option.splits)
qed

section \<open>Refunds\<close>

lemma refund_change:
  assumes valid: "validate_refund r = Inr ()"
    and ins: "insert_refund_receipt_locked r c s = (Inr u, s1)"
    and rest: "refund_receipts s' = refund_receipts s1" "payment_reservations s' = payment_reservations s1"
      "settlement_receipts s' = settlement_receipts s1" "same_plan s1 s'"
  shows "paid_change cur limit s s'"
  using insert_refund_Ok [OF ins]
proof (elim disjE exE conjE)
  assume "s1 = s"
  with rest show ?thesis by (intro paid_change.plan) (simp_all add: same_money_def)
next
  fix st assume "s1 = s\<lparr>refund_receipts := refund_receipts s @ [r]\<rparr>"
  with rest refund_amount_valid [OF valid] show ?thesis
    by (intro paid_change.refund [where z = r]) (simp_all add: same_plan_def)
qed

end
