(* ===== verification/Payment_Runs.thy ===== *)
theory Payment_Runs
  imports Payment_Protocol
begin

text \<open>
  Runs of the store's payment path: any sequence of its operations, with any arguments, from
  an empty store. Then what holds in every state of a run.
\<close>

section \<open>Errors\<close>

text \<open>An operation that raises leaves the store as it was.\<close>

named_theorems rolled_back "errors of the payment operations change nothing"

lemma save_prepared_decision_error [rolled_back]:
  "save_prepared_decision d s = (Inl e, s') \<Longrightarrow> s' = s"
  by (auto simp: save_prepared_decision_def dest: transaction_error)

lemma claim_prepared_decision_error [rolled_back]:
  "claim_prepared_decision pid token t s = (Inl e, s') \<Longrightarrow> s' = s"
  by (auto simp: claim_prepared_decision_def split: if_splits sum.splits dest: transaction_error)

lemma claim_prepared_decision_with_action_idempotency_error [rolled_back]:
  "claim_prepared_decision_with_action_idempotency pid token t key digest s = (Inl e, s') \<Longrightarrow> s' = s"
  by (auto simp: claim_prepared_decision_with_action_idempotency_def split: if_splits sum.splits dest: transaction_error)

lemma save_prepared_transition_error [rolled_back]:
  "save_prepared_transition t s = (Inl e, s') \<Longrightarrow> s' = s"
  by (auto simp: save_prepared_transition_def split: if_splits dest: transaction_error)

lemma claim_prepared_for_invocation_error [rolled_back]:
  "claim_prepared_for_invocation tid pid token action policy fingerprint t s = (Inl e, s') \<Longrightarrow> s' = s"
  by (auto simp: claim_prepared_for_invocation_def split: if_splits sum.splits dest: transaction_error)

lemma claim_prepared_for_paid_invocation_error [rolled_back]:
  "claim_prepared_for_paid_invocation verify tid pid token action policy executor fingerprint kind aid t s = (Inl e, s') \<Longrightarrow> s' = s"
  by (auto simp: claim_prepared_for_paid_invocation_def split: if_splits sum.splits dest: transaction_error)

lemma abandon_prepared_action_idempotency_error [rolled_back]:
  "abandon_prepared_action_idempotency tid pid digest t owner s = (Inl e, s') \<Longrightarrow> s' = s"
  by (auto simp: abandon_prepared_action_idempotency_def split: sum.splits dest: transaction_error)

lemma complete_prepared_action_idempotency_error [rolled_back]:
  "complete_prepared_action_idempotency pid digest decision status receipt_id s = (Inl e, s') \<Longrightarrow> s' = s"
  by (auto simp: complete_prepared_action_idempotency_def dest: transaction_error)

lemma settle_recovered_free_prepared_error [rolled_back]:
  "settle_recovered_free_prepared tid tid' pid receipt_id t s = (Inl e, s') \<Longrightarrow> s' = s"
  by (auto simp: settle_recovered_free_prepared_def split: sum.splits dest: transaction_error)

lemma reserve_payment_v2_error [rolled_back]:
  "reserve_payment_v2 verify tid r token budget prepaid unlimited start s = (Inl e, s') \<Longrightarrow> s' = s"
  by (auto simp: reserve_payment_v2_def split: if_splits dest: transaction_error)

lemma transition_payment_reservation_v2_error [rolled_back]:
  "transition_payment_reservation_v2 rid expected r s = (Inl e, s') \<Longrightarrow> s' = s"
  by (auto simp: transition_payment_reservation_v2_def split: if_splits dest: transaction_error)

lemma claim_payment_intent_v2_error [rolled_back]:
  "claim_payment_intent_v2 rid operation key required t s = (Inl e, s') \<Longrightarrow> s' = s"
  by (auto simp: claim_payment_intent_v2_def split: if_splits sum.splits dest: transaction_error)

lemma save_settlement_receipt_error [rolled_back]:
  "save_settlement_receipt result_id tid x s = (Inl e, s') \<Longrightarrow> s' = s"
  by (auto simp: save_settlement_receipt_def split: if_splits dest: transaction_error)

lemma save_refund_receipt_v2_error [rolled_back]:
  "save_refund_receipt_v2 z s = (Inl e, s') \<Longrightarrow> s' = s"
  by (auto simp: save_refund_receipt_v2_def dest: transaction_error)

lemma complete_refund_v2_error [rolled_back]:
  "complete_refund_v2 z s = (Inl e, s') \<Longrightarrow> s' = s"
  by (auto simp: complete_refund_v2_def dest: transaction_error)

section \<open>Runs\<close>

lemma call_change:
  assumes "\<And>v s'. f s = (Inr v, s') \<Longrightarrow> paid_change cur limit s s'"
    and "\<And>e s'. f s = (Inl e, s') \<Longrightarrow> s' = s"
  shows "paid_change cur limit s (snd (f s))"
proof (cases "f s")
  case (Pair r s')
  with assms paid_stay show ?thesis by (cases r) auto
qed

text \<open>
  The steps. Reservations in the prepaid currency are made with the prepaid limit, new
  transition ids are fresh, records are validated instances, and \<open>other\<close> stands for every
  operation that leaves the payment tables alone.
\<close>

inductive paid_step :: "string \<Rightarrow> rat \<Rightarrow> store \<Rightarrow> store \<Rightarrow> bool" for cur limit where
  other: "same_money s s' \<Longrightarrow> prepared_route_transitions s' = prepared_route_transitions s
    \<Longrightarrow> prepared_route_decisions s' = prepared_route_decisions s \<Longrightarrow> paid_step cur limit s s'"
| prepare: "paid_step cur limit s (snd (save_prepared_decision d s))"
| claim: "paid_step cur limit s (snd (claim_prepared_decision pid token t s))"
| keyed: "paid_step cur limit s
    (snd (claim_prepared_decision_with_action_idempotency pid token t key digest s))"
| transition: "validate_transition t = Inr () \<Longrightarrow> paid_step cur limit s (snd (save_prepared_transition t s))"
| invoke: "paid_step cur limit s
    (snd (claim_prepared_for_invocation tid pid token action policy fingerprint t s))"
| invoke_paid: "paid_step cur limit s (snd (claim_prepared_for_paid_invocation verify tid pid token action
    policy executor fingerprint kind aid t s))"
| abandon: "paid_step cur limit s (snd (abandon_prepared_action_idempotency tid pid digest t owner s))"
| finish: "paid_step cur limit s
    (snd (complete_prepared_action_idempotency pid digest decision status receipt_id s))"
| recover: "paid_step cur limit s (snd (settle_recovered_free_prepared tid tid' pid receipt_id t s))"
| reserve: "fresh_transition tid s \<Longrightarrow> validate_payment r = Inr ()
    \<Longrightarrow> (currency (pv_maximum_amount r) = cur \<Longrightarrow> prepaid = Some \<lparr>amount = limit, currency = cur\<rparr>)
    \<Longrightarrow> paid_step cur limit s (snd (reserve_payment_v2 verify tid r token budget prepaid unlimited start s))"
| save: "paid_step cur limit s (snd (save_payment_reservation_v2 r s))"
| recorded: "paid_step cur limit s (snd (transition_payment_reservation_v2 rid expected r s))"
| intent: "paid_step cur limit s (snd (claim_payment_intent_v2 rid operation key required t s))"
| settle: "fresh_transition tid s \<Longrightarrow> paid_step cur limit s (snd (save_settlement_receipt result_id tid x s))"
| import: "validate_refund z = Inr () \<Longrightarrow> paid_step cur limit s (snd (save_refund_receipt_v2 z s))"
| complete: "validate_refund z = Inr () \<Longrightarrow> paid_step cur limit s (snd (complete_refund_v2 z s))"

inductive paid_run :: "string \<Rightarrow> rat \<Rightarrow> store \<Rightarrow> bool" for cur limit where
  opened: "paid_run cur limit empty_store"
| stepped: "paid_run cur limit s \<Longrightarrow> paid_step cur limit s s' \<Longrightarrow> paid_run cur limit s'"

lemma refund_call_change:
  assumes "validate_refund z = Inr ()"
  shows "paid_change cur limit s (snd (save_refund_receipt_v2 z s))"
    and "paid_change cur limit s (snd (complete_refund_v2 z s))"
proof -
  show "paid_change cur limit s (snd (save_refund_receipt_v2 z s))"
  proof (rule call_change)
    fix v s' assume "save_refund_receipt_v2 z s = (Inr v, s')"
    then obtain u where "insert_refund_receipt_locked z None s = (Inr u, s')"
      by (auto simp: save_refund_receipt_v2_def transaction_ok split: prod.splits sum.splits)
    from refund_change [OF assms this refl refl refl] show "paid_change cur limit s s'"
      by (simp add: same_plan_def)
  qed (erule rolled_back)
  show "paid_change cur limit s (snd (complete_refund_v2 z s))"
  proof (rule call_change)
    fix v s' assume "complete_refund_v2 z s = (Inr v, s')"
    then obtain c u s1 rs where "insert_refund_receipt_locked z c s = (Inr u, s1)"
      and s': "s' = s1\<lparr>refund_authorizations := rs\<rparr>"
      by (auto simp: complete_refund_v2_def transaction_ok split: option.splits if_splits prod.splits sum.splits)
    from refund_change [OF assms this(1)] show "paid_change cur limit s s'"
      by (simp add: s' same_plan_def)
  qed (erule rolled_back)
qed

text \<open>All but a recovery are one change.\<close>

lemma step_changes:
  assumes "paid_step cur limit s s'" and ok: "authority_ok s"
  shows "(paid_change cur limit)\<^sup>*\<^sup>* s s'"
proof -
  note decisions = authority_okD(1) [OF ok] and payments = authority_okD(2) [OF ok]
  have "paid_change cur limit s s' \<or> (paid_change cur limit)\<^sup>*\<^sup>* s s'"
    using assms(1)
  proof cases
    case other
    then show ?thesis by (intro disjI1 same_core_change)
  next
    case (prepare d)
    show ?thesis unfolding prepare by (rule disjI1, rule call_change, erule save_prepared_change, erule rolled_back)
  next
    case (claim pid token t)
    show ?thesis unfolding claim by (rule disjI1, rule call_change, erule prepared_claim_change, erule rolled_back)
  next
    case (keyed pid token t key digest)
    show ?thesis unfolding keyed by (rule disjI1, rule call_change, erule keyed_claim_change, erule rolled_back)
  next
    case (transition t)
    show ?thesis unfolding transition(1)
      by (rule disjI1, rule call_change, erule save_transition_change [OF decisions transition(2)], erule rolled_back)
  next
    case (invoke tid pid token action policy fingerprint t)
    show ?thesis unfolding invoke
      by (rule disjI1, rule call_change, erule invocation_change [OF decisions], erule rolled_back)
  next
    case (invoke_paid verify tid pid token action policy executor fingerprint kind aid t)
    show ?thesis unfolding invoke_paid
      by (rule disjI1, rule call_change, erule paid_invocation_change [OF decisions], erule rolled_back)
  next
    case (abandon tid pid digest t owner)
    show ?thesis unfolding abandon
      by (rule disjI1, rule call_change, erule prepared_abandon_change [OF decisions], erule rolled_back)
  next
    case (finish pid digest decision status receipt_id)
    show ?thesis unfolding finish
      by (rule disjI1, rule call_change, erule complete_action_change, erule rolled_back)
  next
    case (recover tid tid' pid receipt_id t)
    show ?thesis
    proof (cases "settle_recovered_free_prepared tid tid' pid receipt_id t s")
      case (Pair r s1)
      with recover recover_free_changes [OF decisions] show ?thesis
        by (cases r) (auto dest: settle_recovered_free_prepared_error)
    qed
  next
    case (reserve tid r prepaid verify token budget unlimited start)
    show ?thesis unfolding reserve(1)
      by (rule disjI1, rule call_change, erule reserve_change [OF decisions reserve(2,3) reserve(4), rotated], assumption,
          erule rolled_back)
  next
    case (save r)
    then show ?thesis using save_reservation_stays [of r s "fst (save_payment_reservation_v2 r s)" s']
      by (auto intro: paid_change.plan)
  next
    case (recorded rid expected r)
    show ?thesis unfolding recorded
      by (rule disjI1, rule call_change, erule payment_transition_change [OF payments], erule rolled_back)
  next
    case (intent rid operation key required t)
    show ?thesis unfolding intent by (rule disjI1, rule call_change, erule intent_change, erule rolled_back)
  next
    case (settle tid result_id x)
    show ?thesis unfolding settle(1)
      by (rule disjI1, rule call_change, erule settlement_change [OF decisions payments settle(2)], erule rolled_back)
  qed (simp_all add: refund_call_change)
  then show ?thesis by blast
qed

section \<open>Invariants\<close>

text \<open>What every change keeps is kept by a step.\<close>

lemma step_keeps:
  assumes "paid_step cur limit s s'" and ok: "authority_ok s" and "P s"
    and keep: "\<And>a b. paid_change cur limit a b \<Longrightarrow> authority_ok a \<Longrightarrow> P a \<Longrightarrow> P b"
  shows "authority_ok s' \<and> P s'"
  using step_changes [OF assms(1,2)]
  by (induction rule: rtranclp_induct) (use assms(2,3) authority_change keep in blast)+

lemma run_authority: "paid_run cur limit s \<Longrightarrow> authority_ok s"
proof (induction rule: paid_run.induct)
  case (stepped s s')
  then show ?case using step_keeps [where P = "\<lambda>_. True"] by blast
qed (simp add: authority_ok_def)

lemma run_keeps:
  assumes "paid_run cur limit s" and "P empty_store"
    and keep: "\<And>a b. paid_change cur limit a b \<Longrightarrow> authority_ok a \<Longrightarrow> P a \<Longrightarrow> P b"
  shows "P s"
  using assms(1)
proof induction
  case (stepped s s')
  have "authority_ok s' \<and> P s'"
    by (rule step_keeps [where P = P, OF stepped.hyps(2) run_authority [OF stepped.hyps(1)] stepped.IH]) (rule keep)
  then show ?case by blast
qed (rule assms(2))

lemma run_history: "paid_run cur limit s \<Longrightarrow> history_ok s"
  by (rule run_keeps [where P = history_ok])
    (auto intro: history_change simp: history_ok_def [of empty_store] invocations_def)

lemma run_money: "paid_run cur limit s \<Longrightarrow> 0 \<le> limit \<Longrightarrow> money_ok cur limit s"
  by (rule run_keeps [where P = "money_ok cur limit"])
    (auto intro: money_ok_change simp: money_ok_def [of cur limit empty_store] outstanding_payments_def
      captured_payments_def refunded_payments_def)

lemma run_append:
  assumes "(paid_step cur limit)\<^sup>*\<^sup>* s s'" and "paid_run cur limit s"
  shows "paid_run cur limit s'"
  using assms by (induction rule: rtranclp_induct) (auto intro: paid_run.stepped)

text \<open>A decision in a terminal state stays in it.\<close>

definition decided :: "string \<Rightarrow> PreparedDecisionState \<Rightarrow> store \<Rightarrow> bool" where
  "decided pid st s = (\<exists>w \<in> set (prepared_route_decisions s). decision_id w = pid \<and> pw_state w = st)"

lemma decided_plan:
  assumes "same_plan s s'" and "decided pid st s"
  shows "decided pid st s'"
proof -
  from assms(2) obtain w where w: "w \<in> set (prepared_route_decisions s)" "decision_id w = pid" "pw_state w = st"
    by (auto simp: decided_def)
  from same_plan_decisions(2) [OF assms(1) w(1)] obtain w' where "w' \<in> set (prepared_route_decisions s')"
    "core_row w' = core_row w" ..
  with w show ?thesis unfolding decided_def by (intro bexI [of _ w']) (auto simp: core_row_def decision_id_def)
qed

lemma decided_moved:
  assumes d: "distinct (map decision_id (prepared_route_decisions s))" and m: "moved t s s'"
    and "terminal_prepared st" and "decided pid st s"
  shows "decided pid st s'"
proof -
  from assms(4) obtain w where w: "w \<in> set (prepared_route_decisions s)" "decision_id w = pid" "pw_state w = st"
    by (auto simp: decided_def)
  have "decision_id w \<noteq> pt_prepared_id t"
  proof
    assume "decision_id w = pt_prepared_id t"
    with moved_decisions(2) [OF d m w(1)] w(3) have "pt_from_state t = st" by simp
    with m assms(3) valid_transition_live [of t] show False
      by (auto simp: moved_def terminal_prepared_def)
  qed
  with moved_decisions(2) [OF d m w(1)] w show ?thesis by (auto simp: decided_def)
qed

lemma decided_change:
  assumes "paid_change cur limit s s'" and ok: "authority_ok s" and "terminal_prepared st" "decided pid st s"
  shows "decided pid st s'"
  using assms(1)
proof cases
  case (add w)
  with assms(4) show ?thesis by (auto simp: decided_def)
qed (use decided_moved [OF authority_okD(1) [OF ok] _ assms(3,4)] decided_plan [OF _ assms(4)] in blast)+

text \<open>What every change keeps is kept from a state of a run on.\<close>

lemma later_keeps:
  assumes "(paid_step cur limit)\<^sup>*\<^sup>* s s'" and "paid_run cur limit s" and "P s"
    and keep: "\<And>a b. paid_change cur limit a b \<Longrightarrow> authority_ok a \<Longrightarrow> P a \<Longrightarrow> P b"
  shows "P s'"
  using assms(1)
proof (induction rule: rtranclp_induct)
  case (step u u')
  have "authority_ok u' \<and> P u'"
    by (rule step_keeps [where P = P, OF step.hyps(2) run_authority [OF run_append [OF step.hyps(1) assms(2)]] step.IH])
      (rule keep)
  then show ?case by blast
qed (rule assms(3))

lemma decided_later:
  assumes "(paid_step cur limit)\<^sup>*\<^sup>* s s'" and "paid_run cur limit s"
    and "terminal_prepared st" and "decided pid st s"
  shows "decided pid st s'"
  by (rule later_keeps [where P = "decided pid st", OF assms(1,2,4)]) (rule decided_change [OF _ _ assms(3)])

section \<open>What holds in every run\<close>

lemma run_committed:
  assumes "paid_run cur limit s" and "0 \<le> limit"
  shows "\<exists>c. committed_amount None cur s = Ok c \<and> c \<le> limit"
proof -
  note money = run_money [OF assms]
  then have "\<not> missing_settlement cur s"
    by (auto simp: missing_settlement_def list_ex_iff money_ok_def payment_id_def)
  with money_okD [OF money] show ?thesis by (simp add: committed_amount_def)
qed

text \<open>
  C4 However reservations, settlements and refunds are interleaved, the money that
  outstanding reservations hold and settled ones keep never exceeds the prepaid limit, and
  the store can always compute that sum: no settled reservation lacks its receipt.
\<close>

theorem prepaid_never_overspent:
  assumes "paid_run cur limit s" and "0 \<le> limit"
  shows "\<exists>c. committed_amount None cur s = Ok c \<and> c \<le> limit"
  by (rule run_committed [OF assms])

text \<open>
  C5 Every reservation of a run rests on a stored decision with the same action, basis and
  maximum. When it is settled the decision is settled and its one receipt captured at most
  that maximum; when it is released the decision is released.
\<close>

theorem reservation_backed:
  assumes "paid_run cur limit s" and "0 \<le> limit" and "y \<in> set (payment_reservations s)"
  shows "\<exists>w. w \<in> set (prepared_route_decisions s) \<and> authorized_by w (py_payload y)
    \<and> (py_state y = Pay_RELEASED \<longrightarrow> pw_state w = Prep_RELEASED)
    \<and> (py_state y = Pay_SETTLED \<longrightarrow> pw_state w = Prep_SETTLED
         \<and> (\<exists>!x. x \<in> set (settlement_receipts s) \<and> sr_reservation_id x = payment_id y)
         \<and> (\<exists>x. x \<in> set (settlement_receipts s) \<and> sr_reservation_id x = payment_id y
               \<and> amount (sr_captured_amount x) \<le> amount (pv_maximum_amount (py_payload y))))"
proof -
  note money = run_money [OF assms(1,2)]
  from authority_okD(4) [OF run_authority [OF assms(1)] assms(3)]
  obtain w where w: "w \<in> set (prepared_route_decisions s)" "backed_by w y" ..
  have receipt: "(\<exists>!x. x \<in> set (settlement_receipts s) \<and> sr_reservation_id x = payment_id y)
         \<and> (\<exists>x. x \<in> set (settlement_receipts s) \<and> sr_reservation_id x = payment_id y
               \<and> amount (sr_captured_amount x) \<le> amount (pv_maximum_amount (py_payload y)))"
    if "py_state y = Pay_SETTLED"
  proof -
    from money assms(3) that obtain x where x: "x \<in> set (settlement_receipts s)" "sr_reservation_id x = payment_id y"
      by (auto simp: money_ok_def)
    from money x(1) obtain z where z: "z \<in> set (payment_reservations s)" "payment_id z = sr_reservation_id x"
        "amount (sr_captured_amount x) \<le> amount (pv_maximum_amount (py_payload z))"
      by (auto simp: money_ok_def)
    have "z = y"
      using authority_okD(2) [OF run_authority [OF assms(1)]] z(1,2) x(2) assms(3)
      by (auto simp: distinct_map inj_on_def)
    moreover have "x' = x" if "x' \<in> set (settlement_receipts s)" "sr_reservation_id x' = payment_id y" for x'
      using money that x by (auto simp: money_ok_def distinct_map inj_on_def)
    ultimately show ?thesis using x z(3) by blast
  qed
  from w(2) have "authorized_by w (py_payload y)" "py_state y = Pay_RELEASED \<longrightarrow> pw_state w = Prep_RELEASED"
    "py_state y = Pay_SETTLED \<longrightarrow> pw_state w = Prep_SETTLED"
    by (simp_all add: backed_by_def)
  with w(1) receipt show ?thesis by blast
qed

text \<open>
  C6 The history of a run records at most one invocation of a decision, whether the free or
  the paid path claimed it and however often the operations are retried.
\<close>

theorem invoked_at_most_once:
  assumes "paid_run cur limit s"
  shows "invocations pid s \<le> 1"
  using run_history [OF assms] by (simp add: history_ok_def)

text \<open>
  C7 Once a keyed action has been abandoned, its decision is cancelled or released; it was
  never invoked and no later step of the run can invoke it.
\<close>

theorem abandoned_never_invoked:
  assumes run: "paid_run cur limit s" and fresh: "fresh_transition tid s"
    and ok: "abandon_prepared_action_idempotency tid pid digest t owner s = (Ok d, s')"
    and later: "(paid_step cur limit)\<^sup>*\<^sup>* s' s''"
  shows "invocations pid s'' = 0 \<and> (decided pid Prep_CANCELLED s'' \<or> decided pid Prep_RELEASED s'')"
proof -
  note decisions = authority_okD(1) [OF run_authority [OF run]]
  from abandon_result [OF ok] obtain w u s1 where w: "prepared_row_of pid s = Some w"
    and s1: "abandon_state tid pid t owner w s = (Inr u, s1)"
    and rest: "prepared_route_decisions s' = prepared_route_decisions s1" by blast
  note wrow = prepared_rowD [OF w]
  have now: "decided pid Prep_CANCELLED s' \<or> decided pid Prep_RELEASED s'"
  proof (cases "pw_state w = Prep_RELEASED")
    case True
    with s1 have "s1 = s" by (auto simp: abandon_state_def split: if_splits)
    with True wrow rest show ?thesis by (auto simp: decided_def is_prepared_id)
  next
    case False
    with s1 obtain v where v: "mk_transition tid pid Prep_PREPARED Prep_CANCELLED t
        ''pre-invocation action idempotency claim abandoned'' = Inr v"
        "transition_prepared_locked v None s = (Inr u, s1)"
      by (auto simp: abandon_state_def split: if_splits sum.splits)
    note made = mk_transition_ok [OF v(1)]
    have "v \<notin> set (prepared_route_transitions s)" using fresh made(2) by (auto simp: fresh_transition_def)
    with transition_locked [OF decisions made(1) v(2)] have m: "moved v s s1" by blast
    from moved_decisions(2) [OF decisions m conjunct1 [OF wrow]] wrow
    have "w\<lparr>pw_state := Prep_CANCELLED\<rparr> \<in> set (prepared_route_decisions s1)"
      by (simp add: made is_prepared_id)
    moreover have "decision_id (w\<lparr>pw_state := Prep_CANCELLED\<rparr>) = pid"
      using wrow by (simp add: decision_id_def is_prepared_def)
    ultimately show ?thesis using rest by (auto simp: decided_def)
  qed
  have "paid_step cur limit s s'"
    using paid_step.abandon [of cur limit s tid pid digest t owner] ok by simp
  with run have run': "paid_run cur limit s'" by (rule paid_run.stepped)
  from now decided_later [OF later run'] have final: "decided pid Prep_CANCELLED s'' \<or> decided pid Prep_RELEASED s''"
    by (auto simp: terminal_prepared_def)
  with run_history [OF run_append [OF later run']] have "invocations pid s'' = 0"
    by (auto simp: decided_def history_ok_def uninvoked_def)
  with final show ?thesis by blast
qed

section \<open>One receipt\<close>

text \<open>
  A reservation whose receipt is not final is never final: its first receipt is its only one.
\<close>

definition receipts_agree :: "store \<Rightarrow> bool" where
  "receipts_agree s =
     (\<forall>x \<in> set (settlement_receipts s). \<forall>y \<in> set (payment_reservations s).
        payment_id y = sr_reservation_id x \<longrightarrow> final_payment (py_state y)
          \<longrightarrow> final_payment (settlement_target (sr_status x)))"

lemma receipts_agree_change:
  assumes "paid_change cur limit s s'" and ok: "receipts_agree s" and auth: "authority_ok s"
  shows "receipts_agree s'"
  using assms(1)
proof cases
  case (reserve r w t)
  then show ?thesis
    using ok by (auto simp: receipts_agree_def fresh_payment_row_def final_payment_def)
next
  case (pay y target f)
  note one = one_payment_updated [OF authority_okD(2) [OF auth] pay(1,2,4,5)]
  show ?thesis
    unfolding receipts_agree_def pay(6)
  proof (intro ballI impI)
    fix x z
    assume x: "x \<in> set (settlement_receipts s)" and z: "z \<in> set (payment_reservations s')"
      and "payment_id z = sr_reservation_id x" "final_payment (py_state z)"
    with one(4) [OF z] pay(3) pay(4) [of y] ok show "final_payment (settlement_target (sr_status x))"
      by (auto simp: receipts_agree_def)
  qed
next
  case (settle y x f t)
  note one = one_payment_updated [OF authority_okD(2) [OF auth] settle(1,2,4,5)]
  have id: "payment_id (f y) = payment_id y" using settle(4) by (simp add: payment_id_def)
  show ?thesis
    unfolding receipts_agree_def settle(6)
  proof (intro ballI impI)
    fix u z
    assume u: "u \<in> set (settlement_receipts s @ [x])" and z: "z \<in> set (payment_reservations s')"
      and same: "payment_id z = sr_reservation_id u" and fin: "final_payment (py_state z)"
    show "final_payment (settlement_target (sr_status u))"
    proof (cases "z = f y")
      case True
      with same settle(3,7) u have "u = x" by (auto simp: id settlement_clash_def)
      with True fin settle(4) [of y] show ?thesis by simp
    next
      case False
      with one(4) [OF z] have old: "z \<in> set (payment_reservations s)" "z \<noteq> y" by simp_all
      then have "payment_id z \<noteq> payment_id y"
        using authority_okD(2) [OF auth] settle(1) by (auto simp: distinct_map inj_on_def)
      with same settle(3) u have "u \<in> set (settlement_receipts s)" by auto
      with old(1) same fin ok show ?thesis by (auto simp: receipts_agree_def)
    qed
  qed
qed (use ok in \<open>simp_all add: receipts_agree_def same_money_def\<close>)

lemma run_receipts_agree: "paid_run cur limit s \<Longrightarrow> receipts_agree s"
  by (rule run_keeps [where P = receipts_agree])
    (auto intro: receipts_agree_change simp: receipts_agree_def [of empty_store])

lemma receipts_grow:
  assumes "paid_change cur limit s s'" and "x \<in> set (settlement_receipts s)"
  shows "x \<in> set (settlement_receipts s')"
  using assms by cases (auto simp: same_money_def)

lemma receipts_later:
  assumes "(paid_step cur limit)\<^sup>*\<^sup>* s s'" and "paid_run cur limit s" and "x \<in> set (settlement_receipts s)"
  shows "x \<in> set (settlement_receipts s')"
  by (rule later_keeps [where P = "\<lambda>s. x \<in> set (settlement_receipts s)", OF assms]) (rule receipts_grow)

text \<open>
  C25 A first receipt with status DISPUTED, PENDING or any other that is not final is the last
  one: no later operation settles or releases the reservation, although the state tables
  allow both from DISPUTED and INDETERMINATE, so its hold counts against the limit for ever.
\<close>

theorem unresolved_receipt_is_last:
  assumes run: "paid_run cur limit s" and x: "x \<in> set (settlement_receipts s)"
    and open_target: "settlement_target (sr_status x) \<notin> {Pay_SETTLED, Pay_RELEASED}"
    and later: "(paid_step cur limit)\<^sup>*\<^sup>* s s'"
    and y: "y \<in> set (payment_reservations s')" "payment_id y = sr_reservation_id x"
  shows "py_state y \<notin> {Pay_SETTLED, Pay_RELEASED}"
proof -
  have "receipts_agree s'" by (rule run_receipts_agree [OF run_append [OF later run]])
  with receipts_later [OF later run x] y open_target show ?thesis
    by (auto simp: receipts_agree_def final_payment_def)
qed

section \<open>Settling again\<close>

lemma select_by_payment_id:
  assumes "distinct (map payment_id ys)" and "y \<in> set ys"
  shows "select_row (is_payment (payment_id y)) ys = Some y"
  using select_key_Some [OF assms] by (simp add: is_payment_id [abs_def])

lemma select_by_decision_id:
  assumes "distinct (map decision_id ws)" and "w \<in> set ws"
  shows "select_row (is_prepared (decision_id w)) ws = Some w"
  using select_key_Some [OF assms] by (simp add: is_prepared_id [abs_def])

lemma binding_reads_quotes:
  "bounded_quotes s' = bounded_quotes s \<Longrightarrow> settlement_binding_errors x r d s' = settlement_binding_errors x r d s"
  by (simp add: settlement_binding_errors_def find_quote_def)

lemma settlement_found:
  assumes "payment_row_of (sr_reservation_id x) s = Some y"
    and "prepared_row_of (pv_prepared_id (py_payload y)) s = Some w"
    and "first_error (settlement_binding_errors x (py_payload y) (pw_decision w) s) = Inr ()"
    and "sr_authorization_kind x \<noteq> None" "sr_authorization_id x \<noteq> None"
    and "select_row (\<lambda>z. settlement_clash z x) (settlement_receipts s) = Some x"
    and "py_state y = settlement_target (sr_status x)" "pw_state w = settlement_prepared_target (sr_status x)"
  shows "save_settlement_receipt result_id tid x s = (Ok x, s)"
  using assms by (simp add: save_settlement_receipt_def immediate_transaction_def)

text \<open>After a receipt was saved, its rows are those that a repeated call looks for.\<close>

lemma settlement_saved_again:
  assumes auth': "authority_ok s'"
    and first: "save_settlement_receipt result_id tid x s = (Ok v, s')"
  shows "save_settlement_receipt result_id tid' x s' = (Ok x, s')"
proof -
  from first show ?thesis
  proof (cases rule: settlement_result)
    case (found y w)
    then show ?thesis using settlement_found by simp
  next
    case (stored y w tr h b)
    note row = payment_rowD [OF stored(1)] and wrow = prepared_rowD [OF stored(2)]
      and bound = settlement_bound [OF stored(3)] and made = mk_transition_ok [OF stored(9)]
    let ?y = "y\<lparr>py_state := settlement_target (sr_status x), py_operation_intent := None,
        py_updated_at := sr_settled_at x,
        py_indeterminate_reason := (if settlement_target (sr_status x) = Pay_INDETERMINATE
          then Some (unsettled_reason x) else None)\<rparr>"
    let ?w = "w\<lparr>pw_state := settlement_prepared_target (sr_status x)\<rparr>"
    note s' = stored(11) apply_settlement_def Let_def set_payment_def
    have mem: "?y \<in> set (payment_reservations s')" "?w \<in> set (prepared_route_decisions s')"
      using row wrow made bound(1)
      by (auto simp: s' set_update_rows is_payment_id
          intro!: image_eqI [where x = y] image_eqI [where x = w])
    have "payment_row_of (sr_reservation_id x) s' = Some ?y"
      using select_by_payment_id [OF authority_okD(2) [OF auth'] mem(1)] row
      by (simp add: payment_row_of_def payment_id_def)
    moreover have "prepared_row_of (pv_prepared_id (py_payload ?y)) s' = Some ?w"
      using select_by_decision_id [OF authority_okD(1) [OF auth'] mem(2)] wrow
      by (simp add: prepared_row_of_def decision_id_def is_prepared_def)
    moreover have "first_error (settlement_binding_errors x (py_payload ?y) (pw_decision ?w) s') = Inr ()"
      using stored(3) binding_reads_quotes [of s' s x "py_payload y" "pw_decision w"] by (simp add: s')
    moreover have "select_row (\<lambda>z. settlement_clash z x) (settlement_receipts s') = Some x"
      using select_row_fresh [OF stored(7), of x] by (simp add: s' settlement_clash_def)
    ultimately show ?thesis using stored(4,5) by (intro settlement_found [where y = ?y and w = ?w]) simp_all
  qed
qed

text \<open>
  A receipt that was saved can be saved again, under whatever transition id: the call
  answers with the same receipt and changes nothing.
\<close>

theorem settlement_replayed:
  assumes run: "paid_run cur limit s" and fresh: "fresh_transition tid s"
    and first: "save_settlement_receipt result_id tid x s = (Ok v, s')"
  shows "save_settlement_receipt result_id tid' x s' = (Ok x, s')"
proof -
  have "paid_run cur limit s'"
    using paid_run.stepped [OF run paid_step.settle [OF fresh, of cur limit result_id x]] first by simp
  from settlement_saved_again [OF run_authority [OF this] first] show ?thesis .
qed

end
