(* ===== verification/Budget_Manager.thy ===== *)
theory Budget_Manager
  imports Payment_Runs Refund_Store Idempotency Rail_Protocol
begin

text \<open>
  \<open>BudgetManager\<close> of \<open>aeep/payments.py\<close> on exact money (the V2 methods): each call claims a
  durable operation record, lets the store authorize the money movement, calls the rail, and
  records the outcome; an exception after the rail was called leaves the reservation and the
  operation indeterminate. The state is the pair of the store and the rail; \<open>self._clock()\<close>
  is read at the points the environment names.
\<close>

section \<open>Configuration and state\<close>

text \<open>
  The limits of \<open>AgentBudget\<close> as the decimals that \<open>Decimal(str(...))\<close> makes of them, and the
  manager's own fields.
\<close>

record budget_policy =
  bp_max_per_action :: rat
  bp_daily_limit :: rat
  bp_prepaid_balance :: rat
  bp_requires_human :: bool
  bp_auto_approve_under :: rat
  bp_settlement_currency :: string
  bp_unlimited_budget :: bool
  bp_adapter_configured :: bool

record manager =
  mg_store :: store
  mg_rail :: rail

datatype manager_request =
    Req_reserve string "string option" AuthorizationKind string string string string CurrencyAmount
      string string
  | Req_settle reservation_identity CurrencyAmount SettlementEvidence
  | Req_release reservation_identity string
  | Req_refund SettlementReceipt CurrencyAmount string
  | Req_reconcile string

record payment_env =
  pe_digest :: "manager_request \<Rightarrow> string"
  pe_rail_digest :: "string \<Rightarrow> payment_payload \<Rightarrow> string"
  pe_stable_id :: "string \<Rightarrow> string \<Rightarrow> string"
  pe_calls :: rail_calls
  pe_verify :: "signed_authorization \<Rightarrow> signing_key_row \<Rightarrow> datetime \<Rightarrow> bool"
  pe_transition_id :: string
  pe_claim_at :: datetime
  pe_adapter_at :: datetime
  pe_failure_at :: datetime

text \<open>\<open>_payment_operation_result_id\<close>: a settle operation names its receipt \<open>settlement\<close>.\<close>

definition payment_operation_result_id :: "(string \<Rightarrow> string \<Rightarrow> string) \<Rightarrow> string \<Rightarrow> string \<Rightarrow> string" where
  "payment_operation_result_id stable_id operation key =
     stable_id (if operation = ''settle'' then ''settlement'' else operation) key"

section \<open>Sequencing\<close>

text \<open>The next statement runs when the previous one did not raise.\<close>

definition and_then :: "'a result \<times> 's \<Rightarrow> ('a \<Rightarrow> 's \<Rightarrow> 'b result \<times> 's) \<Rightarrow> 'b result \<times> 's" where
  "and_then p f = (case p of (Inl e, s) \<Rightarrow> (Err e, s) | (Inr v, s) \<Rightarrow> f v s)"

definition on_store :: "(store \<Rightarrow> 'a result \<times> store) \<Rightarrow> manager \<Rightarrow> 'a result \<times> manager" where
  "on_store f m = (case f (mg_store m) of (r, s) \<Rightarrow> (r, m\<lparr>mg_store := s\<rparr>))"

definition on_rail :: "(rail \<Rightarrow> 'a result \<times> rail) \<Rightarrow> manager \<Rightarrow> 'a result \<times> manager" where
  "on_rail f m = (case f (mg_rail m) of (r, st) \<Rightarrow> (r, m\<lparr>mg_rail := st\<rparr>))"

text \<open>\<open>try ... except Exception: <handler>; raise\<close>: an exception of the handler replaces the first.\<close>

definition or_recover :: "'a result \<times> 's \<Rightarrow> ('s \<Rightarrow> unit result \<times> 's) \<Rightarrow> 'a result \<times> 's" where
  "or_recover p handler =
     (case p of
        (Inr v, s) \<Rightarrow> (Ok v, s)
      | (Inl e, s) \<Rightarrow> (case handler s of (Inl e', s') \<Rightarrow> (Err e', s') | (Inr _, s') \<Rightarrow> (Err e, s')))"

section \<open>Authority\<close>

definition require_v2_adapter :: "budget_policy \<Rightarrow> manager \<Rightarrow> unit result" where
  "require_v2_adapter bp m =
     (if \<not> bp_adapter_configured bp
      then Err (ConfigurationError ''a V2 payment adapter is not configured'')
      else if rl_settlement_currency (mg_rail m) \<noteq> bp_settlement_currency bp
      then Err (ConfigurationError ''payment adapter currency does not match router settlement currency'')
      else Ok ())"

definition authorize_amount ::
  "budget_policy \<Rightarrow> CurrencyAmount \<Rightarrow> string \<Rightarrow> bool \<Rightarrow> bool \<Rightarrow> unit result" where
  "authorize_amount bp maximum executor_id payment_approved human_approved =
     (if currency maximum \<noteq> bp_settlement_currency bp
      then Err (ConfigurationError ''payment currency does not match router settlement currency'')
      else if \<not> payment_approved
      then Err (ApprovalRequired ''payment reservation requires operator payment approval''
                  executor_id ''payment_approval'')
      else if amount maximum > bp_max_per_action bp
      then Err (ConfigurationError ''quote exceeds max_per_action_usd'')
      else if (bp_requires_human bp \<or> amount maximum > bp_auto_approve_under bp) \<and> \<not> human_approved
      then Err (ApprovalRequired ''payment requires explicit human approval''
                  executor_id ''human_financial_approval'')
      else Ok ())"

definition authorize_v2 ::
  "budget_policy \<Rightarrow> CurrencyAmount \<Rightarrow> string \<Rightarrow> bool \<Rightarrow> bool \<Rightarrow> manager \<Rightarrow> unit result" where
  "authorize_v2 bp maximum executor_id payment_approved human_approved m =
     (case require_v2_adapter bp m of
        Inl e \<Rightarrow> Err e
      | Inr _ \<Rightarrow>
          (case validate_maximum maximum (mg_rail m) of
             Inl e \<Rightarrow> Err e
           | Inr _ \<Rightarrow> authorize_amount bp maximum executor_id payment_approved human_approved))"

section \<open>Operation records\<close>

definition result_id_of :: "idempotency_row \<Rightarrow> string \<Rightarrow> string result" where
  "result_id_of claim expected_type =
     (if ir_state claim \<noteq> Idem_complete \<or> ir_status claim \<noteq> Some expected_type
      then Err (ConfigurationError ''payment operation is already in progress'')
      else (case ir_receipt_ids claim of
              [i] \<Rightarrow> Ok i
            | _ \<Rightarrow> Err (ConfigurationError ''payment operation has an invalid stored result'')))"

definition completed_claim :: "idempotency_row option \<Rightarrow> bool" where
  "completed_claim claim = (case claim of None \<Rightarrow> False | Some row \<Rightarrow> ir_state row = Idem_complete)"

definition mark_executing ::
  "string \<Rightarrow> string \<Rightarrow> idempotency_row option \<Rightarrow> manager \<Rightarrow> unit result \<times> manager" where
  "mark_executing operation key claim m =
     (if (case claim of None \<Rightarrow> True | Some row \<Rightarrow> ir_state row \<in> {Idem_claimed, Idem_indeterminate})
      then on_store (mark_payment_operation_executing operation key) m
      else (Ok (), m))"

definition mark_operation_indeterminate :: "string \<Rightarrow> string \<Rightarrow> manager \<Rightarrow> unit result \<times> manager" where
  "mark_operation_indeterminate operation key =
     on_store (mark_payment_operation_indeterminate operation key)"

definition complete_operation ::
  "string \<Rightarrow> string \<Rightarrow> payment_result \<Rightarrow> manager \<Rightarrow> unit result \<times> manager" where
  "complete_operation operation key result =
     on_store
       (case result of
          Res_reservation r \<Rightarrow>
            complete_payment_operation operation key ''PaymentReservationV2'' (pv_reservation_id r)
        | Res_settlement x \<Rightarrow>
            complete_payment_operation operation key ''SettlementReceipt'' (sr_settlement_id x)
        | Res_refund x \<Rightarrow>
            complete_payment_operation operation key ''RefundReceiptV2'' (rr_refund_id x)
        | Res_reconciliation x \<Rightarrow>
            complete_payment_operation operation key ''BillingReconciliation'' (br_reconciliation_id x))"

definition mark_reservation_indeterminate ::
  "PaymentReservationV2 \<Rightarrow> PaymentReservationState \<Rightarrow> datetime \<Rightarrow> string \<Rightarrow> manager \<Rightarrow> unit result \<times> manager"
where
  "mark_reservation_indeterminate r expected at_time reason m =
     (case get_payment_reservation_v2 (pv_reservation_id r) (mg_store m) of
        None \<Rightarrow> (Ok (), m)
      | Some current \<Rightarrow>
          if pv_state current = Pay_INDETERMINATE \<or> pv_state current \<noteq> expected then (Ok (), m)
          else (case reservation_with_state current Pay_INDETERMINATE at_time (Some reason) of
                  Inl e \<Rightarrow> (Err e, m)
                | Inr updated \<Rightarrow>
                    and_then (on_store (transition_payment_reservation_v2 (pv_reservation_id current)
                                          expected updated) m)
                      (\<lambda>_ m. (Ok (), m))))"

section \<open>Reserve\<close>

definition midnight :: "datetime \<Rightarrow> datetime" where
  "midnight t = Aware (instant t div 86400000000 * 86400000000)"

text \<open>The hold the store is asked for, and the limits it is checked against.\<close>

record reserve_args =
  rq_prepared :: string
  rq_quote :: "string option"
  rq_kind :: AuthorizationKind
  rq_authorization :: string
  rq_action :: string
  rq_attempt :: string
  rq_charge :: string
  rq_maximum :: CurrencyAmount
  rq_key :: string
  rq_token :: string

definition reserve_request :: "reserve_args \<Rightarrow> string \<Rightarrow> manager_request" where
  "reserve_request a adapter =
     Req_reserve (rq_prepared a) (rq_quote a) (rq_kind a) (rq_authorization a) (rq_action a)
       (rq_attempt a) (rq_charge a) (rq_maximum a) adapter (rq_token a)"

definition stored_request :: "PaymentReservationV2 \<Rightarrow> string \<Rightarrow> manager_request" where
  "stored_request r token =
     Req_reserve (pv_prepared_id r) (pv_quote_id r) (the (pv_authorization_kind r))
       (the (pv_authorization_id r)) (pv_action_id r) (pv_attempt_id r) (pv_charge_id r)
       (pv_maximum_amount r) (pv_adapter r) token"

definition reserve_candidate ::
  "string \<Rightarrow> string \<Rightarrow> datetime \<Rightarrow> reserve_args \<Rightarrow> PaymentReservationV2 result" where
  "reserve_candidate rid adapter now a = mk_payment
     \<lparr>pv_reservation_id = rid, pv_charge_id = rq_charge a, pv_prepared_id = rq_prepared a,
      pv_quote_id = rq_quote a, pv_authorization_kind = Some (rq_kind a),
      pv_authorization_id = Some (rq_authorization a), pv_action_id = rq_action a,
      pv_attempt_id = rq_attempt a, pv_maximum_amount = rq_maximum a, pv_adapter = adapter,
      pv_idempotency_key = rq_key a, pv_state = Pay_RESERVED, pv_created_at = now,
      pv_updated_at = now, pv_indeterminate_reason = None\<rparr>"

definition budget_limit :: "budget_policy \<Rightarrow> CurrencyAmount option" where
  "budget_limit bp =
     (if bp_unlimited_budget bp then None
      else Some \<lparr>amount = bp_daily_limit bp, currency = bp_settlement_currency bp\<rparr>)"

definition prepaid_limit :: "budget_policy \<Rightarrow> string \<Rightarrow> CurrencyAmount option" where
  "prepaid_limit bp adapter =
     (if bp_unlimited_budget bp \<or> adapter \<noteq> ''prepaid'' then None
      else Some \<lparr>amount = bp_prepaid_balance bp, currency = bp_settlement_currency bp\<rparr>)"

definition hold_budget ::
  "budget_policy \<Rightarrow> payment_env \<Rightarrow> reserve_args \<Rightarrow> string \<Rightarrow> manager
    \<Rightarrow> PaymentReservationV2 result \<times> manager" where
  "hold_budget bp env a rid m =
     (case get_payment_reservation_v2 rid (mg_store m) of
        None \<Rightarrow>
          (case reserve_candidate rid (rl_name (mg_rail m)) (pe_claim_at env) a of
             Inl e \<Rightarrow> (Err e, m)
           | Inr candidate \<Rightarrow>
               on_store (reserve_payment_v2 (pe_verify env) (pe_transition_id env) candidate (rq_token a)
                 (budget_limit bp) (prepaid_limit bp (rl_name (mg_rail m))) (bp_unlimited_budget bp)
                 (if bp_unlimited_budget bp then None else Some (midnight (pe_claim_at env)))) m)
      | Some stored \<Rightarrow>
          if pe_digest env (stored_request stored (rq_token a))
             \<noteq> pe_digest env (reserve_request a (rl_name (mg_rail m)))
          then (Err (ConfigurationError ''payment reservation idempotency conflict''), m)
          else (Ok stored, m))"

text \<open>The body of the \<open>try\<close>: the rail must answer with the very reservation it was given.\<close>

definition reserve_on_rail ::
  "payment_env \<Rightarrow> reserve_args \<Rightarrow> PaymentReservationV2 \<Rightarrow> PaymentReservationV2 \<Rightarrow> manager
    \<Rightarrow> PaymentReservationV2 result \<times> manager" where
  "reserve_on_rail env a stored adapter_reservation m =
     and_then (on_rail (rail_reserve (pe_rail_digest env) (pe_calls env) adapter_reservation) m)
       (\<lambda>answer m.
          if answer \<noteq> Res_reservation adapter_reservation
          then (Err (ConfigurationError ''payment adapter changed the reservation''), m)
          else and_then
            (if pv_state stored = Pay_INDETERMINATE
             then (case reservation_with_state stored Pay_RESERVED (pe_adapter_at env) None of
                     Inl e \<Rightarrow> (Err e, m)
                   | Inr updated \<Rightarrow>
                       on_store (transition_payment_reservation_v2 (pv_reservation_id stored)
                         Pay_INDETERMINATE updated) m)
             else (Ok stored, m))
            (\<lambda>reserved m.
               and_then (complete_operation ''reserve'' (rq_key a) (Res_reservation reserved) m)
                 (\<lambda>_ m. (Ok reserved, m))))"

definition reserve_v2 ::
  "budget_policy \<Rightarrow> payment_env \<Rightarrow> reserve_args \<Rightarrow> bool \<Rightarrow> bool \<Rightarrow> string \<Rightarrow> manager
    \<Rightarrow> PaymentReservationV2 result \<times> manager" where
  "reserve_v2 bp env a payment_approved human_approved executor_id m =
     (case authorize_v2 bp (rq_maximum a) executor_id payment_approved human_approved m of
        Inl e \<Rightarrow> (Err e, m)
      | Inr _ \<Rightarrow>
          if \<not> text_len 1 256 (rq_token a)
          then (Err (ConfigurationError ''payment reservation requires a bounded claim token''), m)
          else if \<not> text_len 1 200 (rq_authorization a)
          then (Err (ConfigurationError ''payment authorization ID must be non-empty and bounded''), m)
          else if rq_kind a = Auth_SIGNED_QUOTE \<and> rq_quote a \<noteq> Some (rq_authorization a)
          then (Err (ConfigurationError ''signed-quote authorization must match quote ID''), m)
          else if rq_kind a \<noteq> Auth_SIGNED_QUOTE \<and> rq_quote a \<noteq> None
          then (Err (ConfigurationError ''offer and rate-card authorization cannot carry a quote ID''), m)
          else and_then
            (on_store (claim_payment_operation ''reserve'' (rq_key a)
               (pe_digest env (reserve_request a (rl_name (mg_rail m))))) m)
            (\<lambda>claim m.
               if completed_claim claim
               then (case result_id_of (the claim) ''PaymentReservationV2'' of
                       Inl e \<Rightarrow> (Err e, m)
                     | Inr rid \<Rightarrow>
                         (case get_payment_reservation_v2 rid (mg_store m) of
                            None \<Rightarrow> (Err (ConfigurationError ''stored payment reservation is missing''), m)
                          | Some existing \<Rightarrow> (Ok existing, m)))
               else and_then (hold_budget bp env a (pe_stable_id env ''reserve'' (rq_key a)) m)
                 (\<lambda>stored m. and_then (mark_executing ''reserve'' (rq_key a) claim m)
                   (\<lambda>_ m.
                      case (if pv_state stored = Pay_INDETERMINATE
                            then reservation_with_state stored Pay_RESERVED (pe_adapter_at env) None
                            else Ok stored) of
                        Inl e \<Rightarrow> (Err e, m)
                      | Inr adapter_reservation \<Rightarrow>
                          or_recover (reserve_on_rail env a stored adapter_reservation m)
                            (\<lambda>m. and_then
                               (mark_reservation_indeterminate stored (pv_state stored) (pe_failure_at env)
                                  ''payment reservation adapter failed'' m)
                               (\<lambda>_ m. mark_operation_indeterminate ''reserve'' (rq_key a) m))))))"

section \<open>Settle\<close>

definition load_completed_settlement :: "idempotency_row \<Rightarrow> manager \<Rightarrow> SettlementReceipt result" where
  "load_completed_settlement claim m =
     (case result_id_of claim ''SettlementReceipt'' of
        Inl e \<Rightarrow> Err e
      | Inr sid \<Rightarrow>
          (case find_settlement sid (mg_store m) of
             None \<Rightarrow> Err (ConfigurationError ''stored settlement receipt is missing'')
           | Some receipt \<Rightarrow> Ok receipt))"

text \<open>What the manager checks of a receipt that the rail returns for a settlement.\<close>

definition settlement_invalid ::
  "SettlementReceipt \<Rightarrow> PaymentReservationV2 \<Rightarrow> CurrencyAmount \<Rightarrow> string \<Rightarrow> bool" where
  "settlement_invalid x r actual adapter =
     (sr_reservation_id x \<noteq> pv_reservation_id r \<or> sr_charge_id x \<noteq> pv_charge_id r
      \<or> sr_prepared_id x \<noteq> pv_prepared_id r \<or> sr_quote_id x \<noteq> pv_quote_id r
      \<or> sr_authorization_kind x \<noteq> pv_authorization_kind r
      \<or> sr_authorization_id x \<noteq> pv_authorization_id r \<or> sr_attempt_id x \<noteq> pv_attempt_id r
      \<or> sr_reserved_amount x \<noteq> pv_maximum_amount r \<or> sr_captured_amount x \<noteq> actual
      \<or> amount (sr_released_amount x) \<noteq> amount (pv_maximum_amount r) - amount actual
      \<or> sr_payment_rail x \<noteq> adapter \<or> sr_status x \<notin> {Set_COMPLETED, Set_SETTLED})"

definition store_receipt ::
  "payment_env \<Rightarrow> string \<Rightarrow> string \<Rightarrow> SettlementReceipt \<Rightarrow> manager \<Rightarrow> SettlementReceipt result \<times> manager" where
  "store_receipt env operation key receipt m =
     and_then (on_store (save_settlement_receipt (payment_operation_result_id (pe_stable_id env))
                 (pe_transition_id env) receipt) m)
       (\<lambda>saved m. and_then (complete_operation operation key (Res_settlement saved) m)
          (\<lambda>_ m. (Ok saved, m)))"

definition settle_on_rail ::
  "payment_env \<Rightarrow> PaymentReservationV2 \<Rightarrow> CurrencyAmount \<Rightarrow> SettlementEvidence \<Rightarrow> string \<Rightarrow> manager
    \<Rightarrow> SettlementReceipt result \<times> manager" where
  "settle_on_rail env r actual evidence key m =
     and_then (on_rail (rail_settle (pe_rail_digest env) (pe_stable_id env) (pe_calls env)
                 (pe_adapter_at env) r actual evidence key) m)
       (\<lambda>answer m.
          case answer of
            Res_settlement receipt \<Rightarrow>
              if sr_settlement_id receipt \<noteq> pe_stable_id env ''settlement'' key
              then (Err (ConfigurationError ''payment adapter returned an unexpected settlement ID''), m)
              else if settlement_invalid receipt r actual (rl_name (mg_rail m))
              then (Err (ConfigurationError ''payment adapter returned an invalid settlement''), m)
              else store_receipt env ''settle'' key receipt m
          | _ \<Rightarrow> (Err (TypeError ''settlement result expected''), m))"

definition settle_claimed ::
  "payment_env \<Rightarrow> idempotency_row option \<Rightarrow> PaymentReservationV2 \<Rightarrow> CurrencyAmount \<Rightarrow> SettlementEvidence
    \<Rightarrow> string \<Rightarrow> manager \<Rightarrow> SettlementReceipt result \<times> manager" where
  "settle_claimed env claim r actual evidence key m =
     and_then (on_store (claim_payment_settlement_v2 (pv_reservation_id r) key (pe_claim_at env)) m)
       (\<lambda>reservation m. and_then (mark_executing ''settle'' key claim m)
          (\<lambda>_ m. or_recover (settle_on_rail env reservation actual evidence key m)
             (\<lambda>m. and_then
                (mark_reservation_indeterminate reservation Pay_SETTLING (pe_failure_at env)
                   ''payment settlement adapter failed'' m)
                (\<lambda>_ m. mark_operation_indeterminate ''settle'' key m))))"

definition settle_v2 ::
  "budget_policy \<Rightarrow> payment_env \<Rightarrow> string \<Rightarrow> CurrencyAmount \<Rightarrow> SettlementEvidence \<Rightarrow> string \<Rightarrow> manager
    \<Rightarrow> SettlementReceipt result \<times> manager" where
  "settle_v2 bp env rid actual evidence key m =
     (case require_v2_adapter bp m of
        Inl e \<Rightarrow> (Err e, m)
      | Inr _ \<Rightarrow>
          (case get_payment_reservation_v2 rid (mg_store m) of
             None \<Rightarrow> (Err (ConfigurationError ''payment reservation is unavailable''), m)
           | Some r \<Rightarrow>
               (case validate_settlement_request r actual evidence of
                  Inl e \<Rightarrow> (Err e, m)
                | Inr _ \<Rightarrow>
                    and_then
                      (on_store (claim_payment_operation ''settle'' key
                         (pe_digest env (Req_settle (reservation_identity r) actual evidence))) m)
                      (\<lambda>claim m.
                         if completed_claim claim
                         then (load_completed_settlement (the claim) m, m)
                         else case find_settlement (pe_stable_id env ''settlement'' key) (mg_store m) of
                           Some existing \<Rightarrow>
                             and_then (complete_operation ''settle'' key (Res_settlement existing) m)
                               (\<lambda>_ m. (Ok existing, m))
                         | None \<Rightarrow>
                             (case get_prepared_decision (pv_prepared_id r) (mg_store m) of
                                None \<Rightarrow> (Err (ConfigurationError
                                          ''prepared decision is not ready for settlement''), m)
                              | Some d \<Rightarrow>
                                  if pd_state d \<noteq> Prep_SETTLING
                                  then (Err (ConfigurationError
                                         ''prepared decision is not ready for settlement''), m)
                                  else settle_claimed env claim r actual evidence key m)))))"

definition capture_v2 ::
  "budget_policy \<Rightarrow> payment_env \<Rightarrow> string \<Rightarrow> SettlementEvidence \<Rightarrow> string \<Rightarrow> manager
    \<Rightarrow> SettlementReceipt result \<times> manager" where
  "capture_v2 bp env rid evidence key m =
     (case get_payment_reservation_v2 rid (mg_store m) of
        None \<Rightarrow> (Err (ConfigurationError ''payment reservation is unavailable''), m)
      | Some r \<Rightarrow> settle_v2 bp env rid (pv_maximum_amount r) evidence key m)"

section \<open>Release\<close>

definition release_invalid :: "SettlementReceipt \<Rightarrow> PaymentReservationV2 \<Rightarrow> string \<Rightarrow> string \<Rightarrow> bool" where
  "release_invalid x r sid adapter =
     (sr_settlement_id x \<noteq> sid \<or> sr_reservation_id x \<noteq> pv_reservation_id r
      \<or> amount (sr_captured_amount x) \<noteq> 0 \<or> sr_released_amount x \<noteq> pv_maximum_amount r
      \<or> sr_charge_id x \<noteq> pv_charge_id r \<or> sr_prepared_id x \<noteq> pv_prepared_id r
      \<or> sr_quote_id x \<noteq> pv_quote_id r \<or> sr_authorization_kind x \<noteq> pv_authorization_kind r
      \<or> sr_authorization_id x \<noteq> pv_authorization_id r \<or> sr_attempt_id x \<noteq> pv_attempt_id r
      \<or> sr_payment_rail x \<noteq> adapter \<or> sr_status x \<noteq> Set_RELEASED)"

definition release_on_rail ::
  "payment_env \<Rightarrow> PaymentReservationV2 \<Rightarrow> string \<Rightarrow> string \<Rightarrow> manager
    \<Rightarrow> SettlementReceipt result \<times> manager" where
  "release_on_rail env r reason key m =
     and_then (on_rail (rail_release (pe_rail_digest env) (pe_stable_id env) (pe_calls env)
                 (pe_adapter_at env) r reason key) m)
       (\<lambda>answer m.
          case answer of
            Res_settlement receipt \<Rightarrow>
              if release_invalid receipt r (pe_stable_id env ''release'' key) (rl_name (mg_rail m))
              then (Err (ConfigurationError ''payment adapter returned an invalid release''), m)
              else store_receipt env ''release'' key receipt m
          | _ \<Rightarrow> (Err (TypeError ''settlement result expected''), m))"

definition release_claimed ::
  "payment_env \<Rightarrow> idempotency_row option \<Rightarrow> PaymentReservationV2 \<Rightarrow> string \<Rightarrow> string \<Rightarrow> manager
    \<Rightarrow> SettlementReceipt result \<times> manager" where
  "release_claimed env claim r reason key m =
     and_then (on_store (claim_payment_release_v2 (pv_reservation_id r) key (pe_claim_at env)) m)
       (\<lambda>reservation m. and_then (mark_executing ''release'' key claim m)
          (\<lambda>_ m. or_recover (release_on_rail env reservation reason key m)
             (\<lambda>m. and_then
                (mark_reservation_indeterminate reservation Pay_SETTLING (pe_failure_at env)
                   ''payment release adapter failed'' m)
                (\<lambda>_ m. mark_operation_indeterminate ''release'' key m))))"

definition release_v2 ::
  "budget_policy \<Rightarrow> payment_env \<Rightarrow> string \<Rightarrow> string \<Rightarrow> string \<Rightarrow> manager
    \<Rightarrow> SettlementReceipt result \<times> manager" where
  "release_v2 bp env rid reason key m =
     (if reason = [] then (Err (ConfigurationError ''payment release requires a reason''), m)
      else case require_v2_adapter bp m of
        Inl e \<Rightarrow> (Err e, m)
      | Inr _ \<Rightarrow>
          (case get_payment_reservation_v2 rid (mg_store m) of
             None \<Rightarrow> (Err (ConfigurationError ''payment reservation is unavailable''), m)
           | Some r \<Rightarrow>
               and_then
                 (on_store (claim_payment_operation ''release'' key
                    (pe_digest env (Req_release (reservation_identity r) reason))) m)
                 (\<lambda>claim m.
                    if completed_claim claim
                    then (load_completed_settlement (the claim) m, m)
                    else case find_settlement (pe_stable_id env ''release'' key) (mg_store m) of
                      Some existing \<Rightarrow>
                        and_then (complete_operation ''release'' key (Res_settlement existing) m)
                          (\<lambda>_ m. (Ok existing, m))
                    | None \<Rightarrow>
                        (case get_prepared_decision (pv_prepared_id r) (mg_store m) of
                           None \<Rightarrow> (Err (ConfigurationError ''prepared decision is not releasable''), m)
                         | Some d \<Rightarrow>
                             if pd_state d \<noteq> Prep_RESERVED
                             then (Err (ConfigurationError ''prepared decision is not releasable''), m)
                             else release_claimed env claim r reason key m))))"

section \<open>Refund\<close>

definition refund_invalid ::
  "RefundReceiptV2 \<Rightarrow> SettlementReceipt \<Rightarrow> CurrencyAmount \<Rightarrow> string \<Rightarrow> string \<Rightarrow> bool" where
  "refund_invalid x settlement value reason key =
     (rr_settlement_id x \<noteq> sr_settlement_id settlement \<or> rr_charge_id x \<noteq> sr_charge_id settlement
      \<or> rr_amount x \<noteq> value \<or> rr_reason x \<noteq> reason \<or> rr_idempotency_key x \<noteq> key)"

definition refund_on_rail ::
  "payment_env \<Rightarrow> SettlementReceipt \<Rightarrow> CurrencyAmount \<Rightarrow> string \<Rightarrow> string \<Rightarrow> manager
    \<Rightarrow> RefundReceiptV2 result \<times> manager" where
  "refund_on_rail env settlement value reason key m =
     and_then (on_rail (rail_refund (pe_rail_digest env) (pe_stable_id env) (pe_calls env)
                 (pe_adapter_at env) settlement value reason key) m)
       (\<lambda>answer m.
          case answer of
            Res_refund receipt \<Rightarrow>
              if rr_refund_id receipt \<noteq> pe_stable_id env ''refund'' key
              then (Err (ConfigurationError ''payment adapter returned an unexpected refund ID''), m)
              else if refund_invalid receipt settlement value reason key
              then (Err (ConfigurationError ''payment adapter returned an invalid refund''), m)
              else and_then (on_store (complete_refund_v2 receipt) m)
                (\<lambda>saved m. and_then (complete_operation ''refund'' key (Res_refund saved) m)
                   (\<lambda>_ m. (Ok saved, m)))
          | _ \<Rightarrow> (Err (TypeError ''refund result expected''), m))"

definition refund_failed :: "payment_env \<Rightarrow> string \<Rightarrow> string \<Rightarrow> manager \<Rightarrow> unit result \<times> manager" where
  "refund_failed env refund_id key m =
     and_then
       (if (case get_refund_authorization_v2 refund_id (mg_store m) of
              None \<Rightarrow> False | Some row \<Rightarrow> ra_state row \<noteq> Ref_COMPLETED)
        then and_then (on_store (mark_refund_authorization_indeterminate refund_id (pe_failure_at env)) m)
               (\<lambda>_ m. (Ok (), m))
        else (Ok (), m))
       (\<lambda>_ m. mark_operation_indeterminate ''refund'' key m)"

definition refund_v2 ::
  "budget_policy \<Rightarrow> payment_env \<Rightarrow> string \<Rightarrow> CurrencyAmount \<Rightarrow> string \<Rightarrow> string \<Rightarrow> manager
    \<Rightarrow> RefundReceiptV2 result \<times> manager" where
  "refund_v2 bp env sid value reason key m =
     (if reason = [] then (Err (ConfigurationError ''payment refund requires a reason''), m)
      else case require_v2_adapter bp m of
        Inl e \<Rightarrow> (Err e, m)
      | Inr _ \<Rightarrow>
          (case find_settlement sid (mg_store m) of
             None \<Rightarrow> (Err (ConfigurationError ''payment settlement is unavailable''), m)
           | Some settlement \<Rightarrow>
               if sr_payment_rail settlement \<noteq> rl_name (mg_rail m)
               then (Err (ConfigurationError ''refund adapter does not match the settlement rail''), m)
               else if currency value \<noteq> currency (sr_captured_amount settlement)
               then (Err (ConfigurationError ''refund currency does not match settlement''), m)
               else
                 (let digest = pe_digest env (Req_refund settlement value reason);
                      refund_id = pe_stable_id env ''refund'' key in
                  and_then (on_store (claim_payment_operation ''refund'' key digest) m)
                    (\<lambda>claim m.
                       if completed_claim claim
                       then (case result_id_of (the claim) ''RefundReceiptV2'' of
                               Inl e \<Rightarrow> (Err e, m)
                             | Inr rid \<Rightarrow>
                                 (case get_refund_receipt_v2 rid (mg_store m) of
                                    None \<Rightarrow> (Err (ConfigurationError ''stored refund receipt is missing''), m)
                                  | Some existing \<Rightarrow> (Ok existing, m)))
                       else case get_refund_receipt_v2 refund_id (mg_store m) of
                         Some existing \<Rightarrow>
                           and_then (complete_operation ''refund'' key (Res_refund existing) m)
                             (\<lambda>_ m. (Ok existing, m))
                       | None \<Rightarrow>
                           and_then (on_store (authorize_refund_v2 refund_id sid value key digest
                                       (pe_claim_at env)) m)
                             (\<lambda>_ m. and_then (mark_executing ''refund'' key claim m)
                                (\<lambda>_ m. or_recover (refund_on_rail env settlement value reason key m)
                                   (refund_failed env refund_id key)))))))"

end
