(* ===== verification/Manager_Runs.thy ===== *)
theory Manager_Runs
  imports Budget_Manager
begin

text \<open>
  The budget manager composed with the store and the rail: whatever sequence of its calls is
  made, between any other operations on the store, every call is a sequence of payment steps
  of the store, so the store's invariants hold for the manager that drives it.
\<close>

section \<open>Calls are payment steps\<close>

definition moves :: "string \<Rightarrow> rat \<Rightarrow> manager \<Rightarrow> manager \<Rightarrow> bool" where
  "moves cur limit m m' = (paid_step cur limit)\<^sup>*\<^sup>* (mg_store m) (mg_store m')"

named_theorems moving "the parts of a call are payment steps"

lemma moves_refl [moving]: "moves cur limit m m"
  by (simp add: moves_def)

lemma moves_trans: "moves cur limit a b \<Longrightarrow> moves cur limit b c \<Longrightarrow> moves cur limit a c"
  unfolding moves_def by (rule rtranclp_trans)

lemma and_then_moves:
  assumes "moves cur limit m (snd p)"
    and "\<And>v m'. p = (Inr v, m') \<Longrightarrow> moves cur limit m' (snd (f v m'))"
  shows "moves cur limit m (snd (and_then p f))"
  using assms by (cases p; cases "fst p") (auto simp: and_then_def intro: moves_trans)

lemma or_recover_moves:
  assumes "moves cur limit m (snd p)" and "\<And>m'. moves cur limit m' (snd (handler m'))"
  shows "moves cur limit m (snd (or_recover p handler))"
  using assms(1) moves_trans [OF assms(1) assms(2) [of "snd p"]]
  by (cases p; cases "fst p") (auto simp: or_recover_def split: prod.splits sum.splits)

lemma on_rail_moves [moving]: "moves cur limit m (snd (on_rail f m))"
  by (simp add: moves_def on_rail_def split: prod.splits)

lemma on_rail_store: "on_rail f m = (r, m') \<Longrightarrow> mg_store m' = mg_store m"
  by (auto simp: on_rail_def split: prod.splits)

lemma on_store_moves:
  "paid_step cur limit (mg_store m) (snd (f (mg_store m))) \<Longrightarrow> moves cur limit m (snd (on_store f m))"
  by (auto simp: moves_def on_store_def split: prod.splits)

text \<open>Operation records and refund authorizations are beside the payment tables.\<close>

definition beside :: "(store \<Rightarrow> 'a result \<times> store) \<Rightarrow> bool" where
  "beside f =
     (\<forall>s. same_money s (snd (f s)) \<and> prepared_route_transitions (snd (f s)) = prepared_route_transitions s
        \<and> prepared_route_decisions (snd (f s)) = prepared_route_decisions s)"

lemma beside_moves [moving]: "beside f \<Longrightarrow> moves cur limit m (snd (on_store f m))"
  by (auto simp: beside_def intro!: on_store_moves paid_step.other)

lemma beside_transitions:
  "beside f \<Longrightarrow> on_store f m = (r, m') \<Longrightarrow>
     prepared_route_transitions (mg_store m') = prepared_route_transitions (mg_store m)"
  by (auto simp: beside_def on_store_def split: prod.splits) (metis snd_conv)

named_theorems besides "operations beside the payment tables"

lemma beside_claim [besides]: "beside (claim_payment_operation operation key digest)"
  by (auto simp: beside_def same_money_def claim_payment_operation_def with_payment_key_def
      claim_idempotency_def split: sum.splits option.splits)

lemma beside_executing [besides]: "beside (mark_payment_operation_executing operation key)"
  by (auto simp: beside_def same_money_def mark_payment_operation_executing_def with_payment_key_def
      immediate_transaction_def Let_def split: sum.splits)

lemma beside_indeterminate [besides]: "beside (mark_payment_operation_indeterminate operation key)"
  by (auto simp: beside_def same_money_def mark_payment_operation_indeterminate_def with_payment_key_def
      mark_idempotency_indeterminate_def split: sum.splits)

lemma beside_complete [besides]: "beside (complete_payment_operation operation key kind i)"
  by (auto simp: beside_def same_money_def complete_payment_operation_def with_payment_key_def
      immediate_transaction_def Let_def split: sum.splits option.splits if_splits)

lemma beside_authorize_refund [besides]: "beside (authorize_refund_v2 rid sid v key digest t)"
  by (auto simp: beside_def same_money_def authorize_refund_v2_def immediate_transaction_def Let_def
      split: sum.splits option.splits if_splits prod.splits)

lemma beside_refund_indeterminate [besides]: "beside (mark_refund_authorization_indeterminate rid t)"
  by (auto simp: beside_def same_money_def mark_refund_authorization_indeterminate_def
      immediate_transaction_def Let_def split: sum.splits option.splits if_splits prod.splits)

lemma mark_executing_moves [moving]: "moves cur limit m (snd (mark_executing operation key claim m))"
  by (simp add: mark_executing_def moving besides)

lemma mark_executing_transitions:
  "mark_executing operation key claim m = (r, m') \<Longrightarrow>
     prepared_route_transitions (mg_store m') = prepared_route_transitions (mg_store m)"
  by (auto simp: mark_executing_def split: if_splits dest: beside_transitions [OF beside_executing])

lemma mark_operation_indeterminate_moves [moving]:
  "moves cur limit m (snd (mark_operation_indeterminate operation key m))"
  by (simp add: mark_operation_indeterminate_def moving besides)

lemma complete_operation_moves [moving]: "moves cur limit m (snd (complete_operation operation key result m))"
  by (cases result) (simp_all add: complete_operation_def moving besides)

lemma transition_moves [moving]:
  "moves cur limit m (snd (on_store (transition_payment_reservation_v2 rid expected r) m))"
  by (intro on_store_moves paid_step.recorded)

lemma mark_reservation_moves [moving]:
  "moves cur limit m (snd (mark_reservation_indeterminate r expected t reason m))"
  by (auto simp: mark_reservation_indeterminate_def moving intro!: and_then_moves
      split: option.splits sum.splits)

section \<open>Each operation\<close>

text \<open>The id of the transition that a call records is one the store has not used.\<close>

definition fresh_id :: "payment_env \<Rightarrow> manager \<Rightarrow> bool" where
  "fresh_id env m = fresh_transition (pe_transition_id env) (mg_store m)"

lemma fresh_id_same:
  "fresh_id env m \<Longrightarrow> prepared_route_transitions (mg_store m') = prepared_route_transitions (mg_store m)
   \<Longrightarrow> fresh_id env m'"
  by (simp add: fresh_id_def fresh_transition_def)

lemma store_receipt_moves:
  assumes "fresh_id env m"
  shows "moves cur limit m (snd (store_receipt env operation key receipt m))"
  using assms unfolding store_receipt_def fresh_id_def
  by (intro and_then_moves on_store_moves paid_step.settle) (simp_all add: moving)

lemma settle_on_rail_moves:
  assumes "fresh_id env m"
  shows "moves cur limit m (snd (settle_on_rail env r actual evidence key m))"
  unfolding settle_on_rail_def
  by (rule and_then_moves, rule on_rail_moves)
    (auto split: payment_result.split intro!: store_receipt_moves moves_refl
      dest!: on_rail_store intro: fresh_id_same [OF assms])

lemma release_on_rail_moves:
  assumes "fresh_id env m"
  shows "moves cur limit m (snd (release_on_rail env r reason key m))"
  unfolding release_on_rail_def
  by (rule and_then_moves, rule on_rail_moves)
    (auto split: payment_result.split intro!: store_receipt_moves moves_refl
      dest!: on_rail_store intro: fresh_id_same [OF assms])

lemma intent_transitions:
  "claim_payment_intent_v2 rid operation key required t s = (r, s') \<Longrightarrow>
     prepared_route_transitions s' = prepared_route_transitions s"
  by (auto simp: claim_payment_intent_v2_def immediate_transaction_def enter_settling_def set_payment_def
      Let_def split: if_splits sum.splits option.splits prod.splits)

lemma claimed_transitions:
  assumes "on_store (claim_payment_intent_v2 rid operation key required t) m = (r, m')"
  shows "prepared_route_transitions (mg_store m') = prepared_route_transitions (mg_store m)"
  using assms by (auto simp: on_store_def split: prod.splits dest: intent_transitions)

lemma settle_claimed_moves:
  assumes "fresh_id env m"
  shows "moves cur limit m (snd (settle_claimed env claim r actual evidence key m))"
  unfolding settle_claimed_def claim_payment_settlement_v2_def
proof (rule and_then_moves)
  show "moves cur limit m (snd (on_store (claim_payment_intent_v2 (pv_reservation_id r) ''settle'' key
      Prep_SETTLING (pe_claim_at env)) m))"
    by (intro on_store_moves paid_step.intent)
  fix reservation m1
  assume "on_store (claim_payment_intent_v2 (pv_reservation_id r) ''settle'' key Prep_SETTLING
      (pe_claim_at env)) m = (Inr reservation, m1)"
  then have fresh: "fresh_id env m1"
    using claimed_transitions fresh_id_same [OF assms] by blast
  show "moves cur limit m1 (snd (and_then (mark_executing ''settle'' key claim m1)
      (\<lambda>_ m. or_recover (settle_on_rail env reservation actual evidence key m)
        (\<lambda>m. and_then (mark_reservation_indeterminate reservation Pay_SETTLING (pe_failure_at env)
             ''payment settlement adapter failed'' m)
           (\<lambda>_ m. mark_operation_indeterminate ''settle'' key m)))))"
    using fresh_id_same [OF fresh mark_executing_transitions]
    by (intro and_then_moves or_recover_moves settle_on_rail_moves) (auto simp: moving)
qed

lemma release_claimed_moves:
  assumes "fresh_id env m"
  shows "moves cur limit m (snd (release_claimed env claim r reason key m))"
  unfolding release_claimed_def claim_payment_release_v2_def
proof (rule and_then_moves)
  show "moves cur limit m (snd (on_store (claim_payment_intent_v2 (pv_reservation_id r) ''release'' key
      Prep_RESERVED (pe_claim_at env)) m))"
    by (intro on_store_moves paid_step.intent)
  fix reservation m1
  assume "on_store (claim_payment_intent_v2 (pv_reservation_id r) ''release'' key Prep_RESERVED
      (pe_claim_at env)) m = (Inr reservation, m1)"
  then have fresh: "fresh_id env m1"
    using claimed_transitions fresh_id_same [OF assms] by blast
  show "moves cur limit m1 (snd (and_then (mark_executing ''release'' key claim m1)
      (\<lambda>_ m. or_recover (release_on_rail env reservation reason key m)
        (\<lambda>m. and_then (mark_reservation_indeterminate reservation Pay_SETTLING (pe_failure_at env)
             ''payment release adapter failed'' m)
           (\<lambda>_ m. mark_operation_indeterminate ''release'' key m)))))"
    using fresh_id_same [OF fresh mark_executing_transitions]
    by (intro and_then_moves or_recover_moves release_on_rail_moves) (auto simp: moving)
qed

lemma load_completed_moves [moving]: "moves cur limit m (snd (load_completed_settlement claim m, m))"
  by (simp add: moving)

text \<open>The rail keeps its name and its currency, and every refund it answers with was validated.\<close>

definition answer_valid :: "payment_result \<Rightarrow> bool" where
  "answer_valid v = (case v of Res_refund x \<Rightarrow> validate_refund x = Inr () | _ \<Rightarrow> True)"

definition answers_valid :: "rail \<Rightarrow> bool" where
  "answers_valid st = (\<forall>k d v. rl_operations st k = Some (d, v) \<longrightarrow> answer_valid v)"

definition same_rail :: "rail \<Rightarrow> rail \<Rightarrow> bool" where
  "same_rail st st' = (rl_name st' = rl_name st \<and> rl_settlement_currency st' = rl_settlement_currency st
     \<and> rl_operations st' = rl_operations st)"

definition rail_call_ok :: "(rail \<Rightarrow> payment_result result \<times> rail) \<Rightarrow> bool" where
  "rail_call_ok act = (\<forall>st. same_rail st (snd (act st)) \<and> (\<forall>v. fst (act st) = Inr v \<longrightarrow> answer_valid v))"

definition rail_kept :: "string \<Rightarrow> rail \<Rightarrow> bool" where
  "rail_kept name st = (rl_name st = name \<and> answers_valid st)"

lemma run_operation_kept:
  assumes act: "rail_call_ok act" and kept: "rail_kept name st"
    and run: "run_operation digest operation key payload act st = (r, st')"
  shows "rail_kept name st' \<and> (\<forall>v. r = Inr v \<longrightarrow> answer_valid v)"
proof (cases "rl_operations st (operation @ '':'' @ key)")
  case (Some x)
  with run kept show ?thesis
    by (cases x) (auto simp: run_operation_def Let_def rail_kept_def answers_valid_def split: if_splits)
next
  case None
  obtain q st1 where call: "act st = (q, st1)" by fastforce
  have "same_rail st st1" "\<And>v. q = Inr v \<Longrightarrow> answer_valid v"
    using act call unfolding rail_call_ok_def by (metis snd_conv, metis fst_conv)
  with None run call kept show ?thesis
    by (cases q) (auto simp: run_operation_def Let_def rail_kept_def answers_valid_def same_rail_def
        split: if_splits)
qed

lemma reserve_call_ok: "rail_call_ok (reserve_call calls r)"
  by (auto simp: rail_call_ok_def same_rail_def answer_valid_def reserve_call_def
      split: sum.splits option.splits)

lemma known_reservation_same: "known_reservation r st = (x, st') \<Longrightarrow> same_rail st st'"
  by (auto simp: known_reservation_def same_rail_def split: option.splits if_splits)

lemma same_rail_refl: "same_rail st st"
  by (simp add: same_rail_def)

lemma same_rail_trans: "same_rail a b \<Longrightarrow> same_rail b c \<Longrightarrow> same_rail a c"
  by (simp add: same_rail_def)

lemma settle_call_ok: "rail_call_ok (settle_call stable_id calls now r actual evidence key)"
  unfolding rail_call_ok_def settle_call_def Let_def
  by (auto simp: answer_valid_def store_settlement_def same_rail_refl
      dest!: known_reservation_same split: sum.splits prod.splits) (auto simp: same_rail_def)

lemma release_call_ok: "rail_call_ok (release_call stable_id calls now r reason key)"
  unfolding rail_call_ok_def release_call_def Let_def
  by (auto simp: answer_valid_def store_settlement_def same_rail_refl
      dest!: known_reservation_same split: sum.splits prod.splits) (auto simp: same_rail_def)

lemma refund_call_ok: "rail_call_ok (refund_call stable_id calls now settlement amt reason key)"
  unfolding rail_call_ok_def refund_call_def Let_def mk_refund_def
  by (auto simp: answer_valid_def same_rail_def split: sum.splits)

lemma rail_operations_kept:
  assumes kept: "rail_kept name st"
  shows "rail_reserve digest calls r st = (q, st') \<Longrightarrow> rail_kept name st'"
    and "rail_settle digest stable_id calls now r actual evidence key st = (q, st') \<Longrightarrow> rail_kept name st'"
    and "rail_release digest stable_id calls now r reason key st = (q, st') \<Longrightarrow> rail_kept name st'"
    and "rail_refund digest stable_id calls now x amt reason key st = (q, st')
      \<Longrightarrow> rail_kept name st' \<and> (\<forall>v. q = Inr v \<longrightarrow> answer_valid v)"
  using kept unfolding rail_reserve_def rail_settle_def rail_release_def rail_refund_def
  by (auto split: if_splits dest!: run_operation_kept [OF reserve_call_ok kept]
      run_operation_kept [OF settle_call_ok kept] run_operation_kept [OF release_call_ok kept]
      run_operation_kept [OF refund_call_ok kept])

text \<open>The same over a call of the manager: only \<open>on_rail\<close> changes the rail.\<close>

definition keeps_rail :: "string \<Rightarrow> manager \<Rightarrow> bool" where
  "keeps_rail name m = rail_kept name (mg_rail m)"

named_theorems railway "the parts of a call keep the rail's promises"

lemma and_then_rail:
  assumes "keeps_rail name (snd p)"
    and "\<And>v m'. p = (Inr v, m') \<Longrightarrow> keeps_rail name m' \<Longrightarrow> keeps_rail name (snd (f v m'))"
  shows "keeps_rail name (snd (and_then p f))"
  using assms by (cases p; cases "fst p") (auto simp: and_then_def)

lemma or_recover_rail:
  assumes "keeps_rail name (snd p)"
    and "\<And>m'. keeps_rail name m' \<Longrightarrow> keeps_rail name (snd (handler m'))"
  shows "keeps_rail name (snd (or_recover p handler))"
  using assms(1) assms(2) [of "snd p"]
  by (cases p; cases "fst p") (auto simp: or_recover_def split: prod.splits sum.splits)

lemma on_store_rail [railway]: "keeps_rail name (snd (on_store f m)) = keeps_rail name m"
  by (simp add: on_store_def keeps_rail_def split: prod.splits)

lemma mark_executing_rail [railway]: "keeps_rail name (snd (mark_executing op key claim m)) = keeps_rail name m"
  by (simp add: mark_executing_def railway)

lemma mark_operation_rail [railway]:
  "keeps_rail name (snd (mark_operation_indeterminate op key m)) = keeps_rail name m"
  by (simp add: mark_operation_indeterminate_def railway)

lemma complete_operation_rail [railway]:
  "keeps_rail name (snd (complete_operation op key v m)) = keeps_rail name m"
  by (simp add: complete_operation_def railway)

lemma mark_reservation_rail [railway]:
  "keeps_rail name m \<Longrightarrow> keeps_rail name (snd (mark_reservation_indeterminate r expected t reason m))"
  by (auto simp: mark_reservation_indeterminate_def railway intro!: and_then_rail
      split: option.split sum.split)

lemma refund_failed_rail [railway]:
  "keeps_rail name m \<Longrightarrow> keeps_rail name (snd (refund_failed env i key m))"
  unfolding refund_failed_def by (intro and_then_rail) (auto simp: railway intro!: and_then_rail)

lemma on_rail_kept:
  assumes "\<And>q st'. f (mg_rail m) = (q, st') \<Longrightarrow> rail_kept name st'"
  shows "keeps_rail name (snd (on_rail f m))"
  using assms by (auto simp: on_rail_def keeps_rail_def split: prod.split)

lemma on_rail_reserve [railway]:
  "keeps_rail name m \<Longrightarrow> keeps_rail name (snd (on_rail (rail_reserve digest calls r) m))"
  unfolding keeps_rail_def by (rule on_rail_kept [unfolded keeps_rail_def]) (rule rail_operations_kept(1))

lemma on_rail_settle [railway]:
  "keeps_rail name m \<Longrightarrow>
     keeps_rail name (snd (on_rail (rail_settle digest stable_id calls now r actual evidence key) m))"
  unfolding keeps_rail_def by (rule on_rail_kept [unfolded keeps_rail_def]) (rule rail_operations_kept(2))

lemma on_rail_release [railway]:
  "keeps_rail name m \<Longrightarrow>
     keeps_rail name (snd (on_rail (rail_release digest stable_id calls now r reason key) m))"
  unfolding keeps_rail_def by (rule on_rail_kept [unfolded keeps_rail_def]) (rule rail_operations_kept(3))

lemma on_rail_refund [railway]:
  "keeps_rail name m \<Longrightarrow>
     keeps_rail name (snd (on_rail (rail_refund digest stable_id calls now x amt reason key) m))"
  unfolding keeps_rail_def
  by (rule on_rail_kept [unfolded keeps_rail_def]) (use rail_operations_kept(4) in blast)

lemma store_receipt_rail [railway]:
  "keeps_rail name m \<Longrightarrow> keeps_rail name (snd (store_receipt env operation key x m))"
  unfolding store_receipt_def by (intro and_then_rail) (auto simp: railway)


section \<open>Whole calls\<close>

text \<open>The bodies of the calls, after the checks that change nothing.\<close>

lemma settle_on_rail_kept [railway]:
  "keeps_rail name m \<Longrightarrow> keeps_rail name (snd (settle_on_rail env r actual evidence key m))"
  unfolding settle_on_rail_def
  by (intro and_then_rail) (auto simp: railway split: payment_result.split)

lemma release_on_rail_kept [railway]:
  "keeps_rail name m \<Longrightarrow> keeps_rail name (snd (release_on_rail env r reason key m))"
  unfolding release_on_rail_def
  by (intro and_then_rail) (auto simp: railway split: payment_result.split)

lemma refund_on_rail_kept [railway]:
  "keeps_rail name m \<Longrightarrow> keeps_rail name (snd (refund_on_rail env x amt reason key m))"
  unfolding refund_on_rail_def
  by (intro and_then_rail)
    (auto simp: railway split: payment_result.split intro!: and_then_rail)

lemma reserve_on_rail_kept [railway]:
  "keeps_rail name m \<Longrightarrow> keeps_rail name (snd (reserve_on_rail env a stored adapter_reservation m))"
  unfolding reserve_on_rail_def
  by (intro and_then_rail) (auto simp: railway split: sum.split intro!: and_then_rail)

lemma hold_budget_rail [railway]:
  "keeps_rail name m \<Longrightarrow> keeps_rail name (snd (hold_budget bp env a rid m))"
  by (auto simp: hold_budget_def railway split: option.split sum.split)

lemma settle_v2_rail: "keeps_rail name m \<Longrightarrow> keeps_rail name (snd (settle_v2 bp env rid actual evidence key m))"
  unfolding settle_v2_def settle_claimed_def
  by (auto simp: railway split: sum.split option.split intro!: and_then_rail or_recover_rail)

lemma release_v2_rail: "keeps_rail name m \<Longrightarrow> keeps_rail name (snd (release_v2 bp env rid reason key m))"
  unfolding release_v2_def release_claimed_def
  by (auto simp: railway split: sum.split option.split intro!: and_then_rail or_recover_rail)

lemma capture_v2_rail: "keeps_rail name m \<Longrightarrow> keeps_rail name (snd (capture_v2 bp env rid evidence key m))"
  by (auto simp: capture_v2_def settle_v2_rail split: option.split)

lemma refund_v2_rail: "keeps_rail name m \<Longrightarrow> keeps_rail name (snd (refund_v2 bp env sid amt reason key m))"
  unfolding refund_v2_def Let_def
  by (auto simp: railway split: sum.split option.split intro!: and_then_rail or_recover_rail)

lemma reserve_v2_rail:
  "keeps_rail name m \<Longrightarrow> keeps_rail name (snd (reserve_v2 bp env a approved human executor m))"
  unfolding reserve_v2_def
  by (auto simp: railway split: sum.split option.split intro!: and_then_rail or_recover_rail)

end
