(* ===== verification/Billing.thy ===== *)
theory Billing
  imports Prepared_Models
begin

text \<open>
  What an execution costs: \<open>billable_amount_for_terms\<close> and \<open>billable_amount_for_execution\<close> of
  \<open>aeep/payments.py\<close>, and \<open>resolve_usage_statement\<close> of \<open>aeep/economic/execution.py\<close>, which binds a
  provider's signed usage statement to the quote and applies the quote's terms. The check of
  the signature, the digest of the statement and the hash in a dispute id are arguments.
\<close>

section \<open>Terms\<close>

record billing_terms =
  bt_trigger :: BillingTrigger
  bt_failure :: FailureChargePolicy
  bt_retry :: RetryChargePolicy
  bt_maximum :: CurrencyAmount
  bt_fixed :: "CurrencyAmount option"
  bt_attempt_fee :: "CurrencyAmount option"

record execution_facts =
  xf_status :: ProviderExecutionStatus
  xf_started :: bool
  xf_accepted :: "bool option"
  xf_usage :: "CurrencyAmount option"
  xf_attempt :: int

text \<open>The loop over the three optional amounts stops at the first that does not fit.\<close>

fun amounts_within :: "CurrencyAmount \<Rightarrow> CurrencyAmount option list \<Rightarrow> unit result" where
  "amounts_within m [] = Ok ()"
| "amounts_within m (None # rest) = amounts_within m rest"
| "amounts_within m (Some a # rest) =
     (if currency a \<noteq> currency m
      then Err (ConfigurationError ''billing amount currency does not match authorization'')
      else if amount a > amount m then Err (ConfigurationError ''billing amount exceeds authorized maximum'')
      else amounts_within m rest)"

definition trigger_failed :: "billing_terms \<Rightarrow> execution_facts \<Rightarrow> bool" where
  "trigger_failed t f =
     (bt_trigger t = Bill_ON_SUCCESS \<and> xf_status f \<noteq> Prov_SUCCESS
      \<or> bt_trigger t = Bill_ON_ACCEPTED_RESULT \<and> xf_accepted f \<noteq> Some True)"

definition failure_charge :: "billing_terms \<Rightarrow> execution_facts \<Rightarrow> CurrencyAmount option" where
  "failure_charge t f =
     (case bt_failure t of
        Fail_NO_CHARGE \<Rightarrow> Some (zero_amount (currency (bt_maximum t)))
      | Fail_CHARGE_ACTUAL_USAGE \<Rightarrow> xf_usage f
      | Fail_CHARGE_FIXED_ATTEMPT_FEE \<Rightarrow> bt_attempt_fee t
      | Fail_CHARGE_MAXIMUM \<Rightarrow> Some (bt_maximum t)
      | Fail_MANUAL_RECONCILIATION \<Rightarrow> None)"

definition billable_amount_for_terms ::
  "billing_terms \<Rightarrow> execution_facts \<Rightarrow> CurrencyAmount option result"
where
  "billable_amount_for_terms t f =
     (let zero = zero_amount (currency (bt_maximum t)) in
      if xf_attempt f < 1 then Err (ValueError ''attempt_number must be positive'')
      else case amounts_within (bt_maximum t) [xf_usage f, bt_fixed t, bt_attempt_fee t] of
        Inl e \<Rightarrow> Err e
      | Inr _ \<Rightarrow>
          if xf_status f = Prov_INDETERMINATE then Ok None
          else if bt_retry t = Retry_MANUAL_RECONCILIATION then Ok None
          else if bt_retry t = Retry_FIRST_ATTEMPT_ONLY \<and> xf_attempt f > 1 then Ok (Some zero)
          else if bt_retry t = Retry_SUCCESSFUL_ATTEMPT_ONLY \<and> xf_status f \<noteq> Prov_SUCCESS
          then Ok (Some zero)
          else if bt_trigger t = Bill_MANUAL_RECONCILIATION then Ok None
          else if bt_trigger t = Bill_ON_PROVIDER_START \<and> \<not> xf_started f then Ok (Some zero)
          else if \<not> trigger_failed t f \<and> xf_status f = Prov_SUCCESS
          then if bt_fixed t \<noteq> None then Ok (bt_fixed t)
               else if xf_usage f \<noteq> None then Ok (xf_usage f)
               else if amount (bt_maximum t) = 0 then Ok (Some zero) else Ok None
          else Ok (failure_charge t f))"

definition quote_terms :: "BoundedQuote \<Rightarrow> billing_terms" where
  "quote_terms q = \<lparr>bt_trigger = bq_billing_trigger q, bt_failure = bq_failure_charge_policy q,
     bt_retry = bq_retry_charge_policy q, bt_maximum = bq_maximum_amount q, bt_fixed = None,
     bt_attempt_fee = bq_fixed_attempt_fee q\<rparr>"

definition billable_amount_for_execution ::
  "BoundedQuote \<Rightarrow> execution_facts \<Rightarrow> CurrencyAmount option \<Rightarrow> CurrencyAmount option result"
where
  "billable_amount_for_execution q f caller_fee =
     (if caller_fee \<noteq> None
      then Err (ConfigurationError ''fixed attempt fee must come from the signed quote, not the caller'')
      else billable_amount_for_terms (quote_terms q) f)"

section \<open>Usage statements\<close>

record EconomicExecutionResolution =
  er_usage_statement :: UsageStatement
  er_settlement_evidence :: SettlementEvidence
  er_billable_amount :: "CurrencyAmount option"
  er_dispute :: "PricingDispute option"

definition mk_evidence :: "SettlementEvidence \<Rightarrow> SettlementEvidence result" where
  "mk_evidence e =
     (if ident 1 200 (se_charge_id e) \<and> opt_all (ident 1 200) (se_usage_statement_id e)
         \<and> opt_all sha256_digest (se_evidence_digest e) \<and> opt_all (text_len 0 500) (se_external_reference e)
         \<and> opt_all valid_amount (se_provider_calculated_amount e)
      then Ok e else Err (ValueError ''settlement evidence field''))"

definition usage_binding_errors ::
  "UsageStatement \<Rightarrow> BoundedQuote \<Rightarrow> PreparedRouteDecision \<Rightarrow> string \<Rightarrow> string \<Rightarrow> (bool \<times> error) list"
where
  "usage_binding_errors u q d action attempt =
     [(pd_authorization_kind d \<noteq> Some Auth_SIGNED_QUOTE,
       ConfigurationError ''provider usage requires a signed-quote authorization''),
      (us_quote_id u \<noteq> bq_quote_id q, ConfigurationError ''usage statement quote_id does not match execution''),
      (us_prepared_id u \<noteq> pd_prepared_id d,
       ConfigurationError ''usage statement prepared_id does not match execution''),
      (us_action_id u \<noteq> action, ConfigurationError ''usage statement action_id does not match execution''),
      (us_attempt_id u \<noteq> attempt, ConfigurationError ''usage statement attempt_id does not match execution''),
      (us_provider_id u \<noteq> bq_provider_id q,
       ConfigurationError ''usage statement provider_id does not match execution''),
      (us_executor_id u \<noteq> bq_executor_id q,
       ConfigurationError ''usage statement executor_id does not match execution''),
      (us_executor_fingerprint u \<noteq> bq_executor_fingerprint q,
       ConfigurationError ''usage statement executor_fingerprint does not match execution''),
      (pd_authorization_id d \<noteq> Some (bq_quote_id q) \<or> pd_selected_quote_id d \<noteq> Some (bq_quote_id q),
       ConfigurationError ''prepared decision does not authorize this quote''),
      (pd_action_id d \<noteq> action \<or> pd_action_digest d \<noteq> bq_action_digest q,
       ConfigurationError ''prepared action does not match usage statement and quote''),
      (pd_selected_executor_id d \<noteq> Some (bq_executor_id q)
         \<or> pd_selected_executor_fingerprint d \<noteq> Some (bq_executor_fingerprint q),
       ConfigurationError ''prepared executor does not match usage statement''),
      (pd_maximum_cash_authorization d \<noteq> Some (bq_maximum_amount q),
       ConfigurationError ''prepared maximum authorization does not match quote'')]"

text \<open>The evidence and the dispute of a statement that claims more than the quote's maximum.\<close>

definition overclaim ::
  "(string \<Rightarrow> string \<Rightarrow> string) \<Rightarrow> string \<Rightarrow> string \<Rightarrow> UsageStatement \<Rightarrow> BoundedQuote \<Rightarrow> CurrencyAmount
    \<Rightarrow> EconomicExecutionResolution result"
where
  "overclaim identity charge digest u q claimed =
     (case mk_evidence \<lparr>se_charge_id = charge, se_evidence_level = Ev_SIGNED_USAGE_STATEMENT,
             se_usage_statement_id = Some (us_usage_statement_id u), se_evidence_digest = Some digest,
             se_external_reference = None, se_provider_calculated_amount = Some claimed\<rparr> of
        Inl e \<Rightarrow> Err e
      | Inr evidence \<Rightarrow>
          let p = \<lparr>dp_dispute_id = ''dispute_'' @ identity (bq_quote_id q) (us_usage_statement_id u),
             dp_prepared_id = us_prepared_id u, dp_quote_id = bq_quote_id q,
             dp_usage_statement_id = Some (us_usage_statement_id u), dp_provider_id = bq_provider_id q,
             dp_quoted_maximum = bq_maximum_amount q, dp_provider_claimed_amount = claimed,
             dp_status = Dispute_OPEN, dp_reason = ''provider usage statement exceeds the signed quote maximum'',
             dp_created_at = us_issued_at u, dp_resolved_at = None\<rparr> in
          case valid_dispute p of
            Inl e \<Rightarrow> Err e
          | Inr _ \<Rightarrow> Ok \<lparr>er_usage_statement = u, er_settlement_evidence = evidence, er_billable_amount = None,
                       er_dispute = Some p\<rparr>)"

definition resolve_usage_statement ::
  "(UsageStatement \<Rightarrow> BoundedQuote \<Rightarrow> bool) \<Rightarrow> (UsageStatement \<Rightarrow> string) \<Rightarrow> (string \<Rightarrow> string \<Rightarrow> string)
    \<Rightarrow> UsageStatement \<Rightarrow> BoundedQuote \<Rightarrow> PreparedRouteDecision \<Rightarrow> string \<Rightarrow> string \<Rightarrow> string \<Rightarrow> bool option \<Rightarrow> int
    \<Rightarrow> EconomicExecutionResolution result"
where
  "resolve_usage_statement verified digest identity u q d action attempt charge accepted number =
     (case first_error (usage_binding_errors u q d action attempt) of
        Inl e \<Rightarrow> Err e
      | Inr _ \<Rightarrow>
          let claimed = us_provider_calculated_amount u in
          if \<not> verified u q then Err (ConfigurationError ''usage statement verification failed'')
          else if differ_currency claimed (bq_maximum_amount q)
          then Err (ConfigurationError ''provider usage amount currency does not match quote'')
          else if exceeds_amount claimed (Some (bq_maximum_amount q))
          then overclaim identity charge (digest u) u q (the claimed)
          else
            let started = us_started_at u \<noteq> None in
            case (if bq_billing_trigger q = Bill_ON_PROVIDER_START \<and> \<not> started then Ok None
                  else billable_amount_for_execution q
                    \<lparr>xf_status = us_execution_status u, xf_started = started, xf_accepted = accepted,
                     xf_usage = claimed, xf_attempt = number\<rparr> None) of
              Inl e \<Rightarrow> Err e
            | Inr billable \<Rightarrow>
                (case mk_evidence \<lparr>se_charge_id = charge, se_evidence_level = Ev_SIGNED_USAGE_STATEMENT,
                        se_usage_statement_id = Some (us_usage_statement_id u),
                        se_evidence_digest = Some (digest u), se_external_reference = None,
                        se_provider_calculated_amount = (if claimed = billable then claimed else None)\<rparr> of
                   Inl e \<Rightarrow> Err e
                 | Inr evidence \<Rightarrow> Ok \<lparr>er_usage_statement = u, er_settlement_evidence = evidence,
                                 er_billable_amount = billable, er_dispute = None\<rparr>))"

section \<open>What is charged\<close>

lemma amounts_within_ok:
  "amounts_within m as = Inr u \<longleftrightarrow>
     (\<forall>a \<in> set as. opt_all (\<lambda>a. currency a = currency m \<and> amount a \<le> amount m) a)"
  by (induction m as rule: amounts_within.induct) (auto simp: not_less)

text \<open>A call that answers has positive attempts, fitting amounts, and one of these results.\<close>

lemma billable_cases:
  assumes "billable_amount_for_terms t f = Inr (Some a)"
  shows "a = zero_amount (currency (bt_maximum t)) \<or> a = bt_maximum t
     \<or> (currency a = currency (bt_maximum t) \<and> amount a \<le> amount (bt_maximum t)
        \<and> Some a \<in> {xf_usage f, bt_fixed t, bt_attempt_fee t})"
proof -
  from assms have fits: "amounts_within (bt_maximum t) [xf_usage f, bt_fixed t, bt_attempt_fee t] = Inr ()"
    by (auto simp: billable_amount_for_terms_def Let_def simp del: amounts_within.simps
        split: if_splits sum.splits)
  have result: "a = zero_amount (currency (bt_maximum t)) \<or> a = bt_maximum t
      \<or> Some a \<in> {xf_usage f, bt_fixed t, bt_attempt_fee t}"
    using assms fits
    by (cases "bt_failure t") (auto simp: billable_amount_for_terms_def failure_charge_def Let_def
        simp del: amounts_within.simps split: if_splits)
  have "opt_all (\<lambda>a. currency a = currency (bt_maximum t) \<and> amount a \<le> amount (bt_maximum t)) x"
    if "x \<in> {xf_usage f, bt_fixed t, bt_attempt_fee t}" for x
    using fits that unfolding amounts_within_ok by auto
  from this [of "Some a"] result show ?thesis by auto
qed

text \<open>
  Whatever the terms and the outcome, a charge that is resolved is in the currency of the
  authorization, not negative when the stated amounts are not, and at most its maximum.
\<close>

theorem billed_within_authorization:
  assumes "billable_amount_for_terms t f = Ok (Some a)" and "0 \<le> amount (bt_maximum t)"
    and "opt_all (\<lambda>x. 0 \<le> amount x) (xf_usage f)" and "opt_all (\<lambda>x. 0 \<le> amount x) (bt_fixed t)"
    and "opt_all (\<lambda>x. 0 \<le> amount x) (bt_attempt_fee t)"
  shows "currency a = currency (bt_maximum t) \<and> 0 \<le> amount a \<and> amount a \<le> amount (bt_maximum t)"
  using billable_cases [OF assms(1)] assms(2-5) by (auto simp: opt_all_def split: option.splits)

definition sample_terms :: billing_terms where
  "sample_terms = \<lparr>bt_trigger = Bill_ON_SUCCESS, bt_failure = Fail_CHARGE_FIXED_ATTEMPT_FEE,
     bt_retry = Retry_EACH_ATTEMPT, bt_maximum = \<lparr>amount = 5, currency = ''USD''\<rparr>, bt_fixed = None,
     bt_attempt_fee = Some \<lparr>amount = 1, currency = ''USD''\<rparr>\<rparr>"

definition sample_facts :: "ProviderExecutionStatus \<Rightarrow> execution_facts" where
  "sample_facts status = \<lparr>xf_status = status, xf_started = True, xf_accepted = None,
     xf_usage = Some \<lparr>amount = 3, currency = ''USD''\<rparr>, xf_attempt = 2\<rparr>"

lemma sample_billing:
  "billable_amount_for_terms sample_terms (sample_facts Prov_SUCCESS) = Ok (Some \<lparr>amount = 3, currency = ''USD''\<rparr>)"
  "billable_amount_for_terms sample_terms (sample_facts Prov_FAILED) = Ok (Some \<lparr>amount = 1, currency = ''USD''\<rparr>)"
  by (simp_all add: sample_terms_def sample_facts_def billable_amount_for_terms_def trigger_failed_def
      failure_charge_def)

theorem billed_within_authorization_witness:
  "currency \<lparr>amount = (1::rat), currency = ''USD''\<rparr> = ''USD'' \<and> (0::rat) \<le> 1 \<and> (1::rat) \<le> 5"
  using billed_within_authorization [OF sample_billing(2)] by (simp add: sample_terms_def sample_facts_def)

text \<open>
  A positive charge needs a reason in the terms: the outcome is known, no part of the terms
  asks for manual reconciliation, the retry policy admits this attempt, a provider-start
  trigger saw the start, and either the attempt succeeded with its trigger met or the failure
  policy charges.
\<close>

theorem positive_charge_is_due:
  assumes "billable_amount_for_terms t f = Ok (Some a)" and "0 < amount a"
  shows "1 \<le> xf_attempt f \<and> xf_status f \<noteq> Prov_INDETERMINATE
    \<and> bt_retry t \<noteq> Retry_MANUAL_RECONCILIATION \<and> bt_trigger t \<noteq> Bill_MANUAL_RECONCILIATION
    \<and> (bt_retry t = Retry_FIRST_ATTEMPT_ONLY \<longrightarrow> xf_attempt f = 1)
    \<and> (bt_retry t = Retry_SUCCESSFUL_ATTEMPT_ONLY \<longrightarrow> xf_status f = Prov_SUCCESS)
    \<and> (bt_trigger t = Bill_ON_PROVIDER_START \<longrightarrow> xf_started f)
    \<and> (if xf_status f = Prov_SUCCESS \<and> \<not> trigger_failed t f then bt_fixed t = Some a \<or> xf_usage f = Some a
       else bt_failure t \<notin> {Fail_NO_CHARGE, Fail_MANUAL_RECONCILIATION})"
proof -
  have "amounts_within (bt_maximum t) [xf_usage f, bt_fixed t, bt_attempt_fee t] = Inr ()"
    using assms(1) by (auto simp: billable_amount_for_terms_def Let_def simp del: amounts_within.simps
        split: if_splits sum.splits)
  then show ?thesis
    using assms
    by (cases "bt_failure t") (auto simp: billable_amount_for_terms_def failure_charge_def Let_def
        simp del: amounts_within.simps split: if_splits)
qed

theorem positive_charge_is_due_witness:
  "Fail_CHARGE_FIXED_ATTEMPT_FEE \<notin> {Fail_NO_CHARGE, Fail_MANUAL_RECONCILIATION}
   \<and> bt_failure sample_terms = Fail_CHARGE_FIXED_ATTEMPT_FEE"
  using positive_charge_is_due [OF sample_billing(2)]
  by (simp add: sample_terms_def sample_facts_def trigger_failed_def)

text \<open>
  C26 A usage statement is accepted only for the quote, decision, action and attempt it names.
  A claim above the quote's maximum is never billed: it opens a dispute for exactly that claim.
  Otherwise the billed amount is within the maximum, and the evidence repeats the provider's
  amount only when that amount is billed.
\<close>

theorem usage_never_overbilled:
  assumes "resolve_usage_statement verified digest identity u q d action attempt charge accepted number = Ok r"
    and "0 \<le> amount (bq_maximum_amount q)" and "opt_all (\<lambda>x. 0 \<le> amount x) (bq_fixed_attempt_fee q)"
    and "opt_all (\<lambda>x. 0 \<le> amount x) (us_provider_calculated_amount u)"
  shows "verified u q \<and> us_quote_id u = bq_quote_id q \<and> us_prepared_id u = pd_prepared_id d
    \<and> us_action_id u = action \<and> us_attempt_id u = attempt
    \<and> pd_maximum_cash_authorization d = Some (bq_maximum_amount q)
    \<and> (case er_dispute r of
         Some p \<Rightarrow> er_billable_amount r = None
           \<and> us_provider_calculated_amount u = Some (dp_provider_claimed_amount p)
           \<and> amount (bq_maximum_amount q) < amount (dp_provider_claimed_amount p)
       | None \<Rightarrow> opt_all (\<lambda>a. currency a = currency (bq_maximum_amount q) \<and> 0 \<le> amount a
             \<and> amount a \<le> amount (bq_maximum_amount q)) (er_billable_amount r)
           \<and> se_provider_calculated_amount (er_settlement_evidence r)
               \<in> {None, er_billable_amount r})"
proof -
  let ?f = "\<lparr>xf_status = us_execution_status u, xf_started = us_started_at u \<noteq> None, xf_accepted = accepted,
     xf_usage = us_provider_calculated_amount u, xf_attempt = number\<rparr>"
  from assms(1) have bind: "first_error (usage_binding_errors u q d action attempt) = Inr ()" "verified u q"
    by (auto simp: resolve_usage_statement_def Let_def split: sum.splits if_splits)
  then have ids: "us_quote_id u = bq_quote_id q" "us_prepared_id u = pd_prepared_id d" "us_action_id u = action"
    "us_attempt_id u = attempt" "pd_maximum_cash_authorization d = Some (bq_maximum_amount q)"
    by (simp_all add: first_error_iff usage_binding_errors_def)
  show ?thesis
  proof (cases "exceeds_amount (us_provider_calculated_amount u) (Some (bq_maximum_amount q))")
    case True
    then obtain c where c: "us_provider_calculated_amount u = Some c" "amount (bq_maximum_amount q) < amount c"
      by (cases "us_provider_calculated_amount u") auto
    with assms(1) bind True have "overclaim identity charge (digest u) u q c = Inr r"
      by (auto simp: resolve_usage_statement_def Let_def split: if_splits)
    with c bind ids show ?thesis by (auto simp: overclaim_def Let_def split: sum.splits)
  next
    case False
    with assms(1) bind obtain billable where billable: "billable = None
        \<or> billable_amount_for_terms (quote_terms q) ?f = Inr billable"
      and r: "er_billable_amount r = billable" "er_dispute r = None"
        "se_provider_calculated_amount (er_settlement_evidence r) \<in> {None, billable}"
      by (auto simp: resolve_usage_statement_def billable_amount_for_execution_def mk_evidence_def Let_def
          split: if_splits sum.splits)
    have "opt_all (\<lambda>a. currency a = currency (bq_maximum_amount q) \<and> 0 \<le> amount a
        \<and> amount a \<le> amount (bq_maximum_amount q)) billable"
    proof (cases billable)
      case (Some a)
      with billable billable_cases [of "quote_terms q" ?f a] assms(2-4) show ?thesis
        by (auto simp: quote_terms_def opt_all_def split: option.splits)
    qed simp
    with bind ids r show ?thesis by simp
  qed
qed

end
