(* ===== verification/Payment_Samples.thy ===== *)
theory Payment_Samples
  imports Payment_Runs Billing
begin

text \<open>
  A sample run of the payment path: a quoted decision is stored, claimed, reserved, invoked
  and settled. The properties of runs are applied to it.
\<close>

definition dollars :: "rat \<Rightarrow> CurrencyAmount" where
  "dollars q = \<lparr>amount = q, currency = ''USD''\<rparr>"

definition paid_signature :: SignatureEnvelopeV2 where
  "paid_signature = \<lparr>sv_ed25519 = True, sv_key_id = ''k1'', sv_value = ''sig'', sv_rfc8785 = True\<rparr>"

definition paid_digest :: string where
  "paid_digest = ''sha256:'' @ replicate 64 (CHR ''a'')"

definition paid_quote :: BoundedQuote where
  "paid_quote = \<lparr>bq_quote_id = ''q1'', bq_quote_request_id = ''qr1'', bq_offer_id = None,
     bq_provider_id = ''v1'', bq_capability = ''cap.one'', bq_executor_id = ''e1'',
     bq_executor_fingerprint = ''f1'', bq_action_digest = paid_digest, bq_nonce = ''nonce123'',
     bq_expected_amount = None, bq_maximum_amount = dollars 4, bq_estimated_meters = [],
     bq_billing_trigger = Bill_ON_SUCCESS, bq_failure_charge_policy = Fail_NO_CHARGE,
     bq_retry_charge_policy = Retry_FIRST_ATTEMPT_ONLY, bq_fixed_attempt_fee = None,
     bq_terms_digest = ''t1'', bq_issued_at = Aware 0, bq_expires_at = Aware 100,
     bq_signature = paid_signature\<rparr>"

definition paid_key :: signing_key_row where
  "paid_key = \<lparr>sk_provider_id = ''v1'', sk_key_id = ''k1'', sk_ed25519 = True, sk_active = True,
     sk_valid_from = Aware 0, sk_valid_until = Aware 1000, sk_revoked_at = None,
     sk_allowed_capabilities = []\<rparr>"

definition paid_decision :: PreparedRouteDecision where
  "paid_decision = \<lparr>pd_prepared_id = ''p1'', pd_action_id = ''act1'', pd_action_digest = paid_digest,
     pd_effective_policy_digest = ''pol1'', pd_selected_executor_id = Some ''e1'',
     pd_selected_executor_fingerprint = Some ''f1'', pd_selected_quote_id = Some ''q1'',
     pd_selected_offer_id = None, pd_selected_rate_card_id = None,
     pd_authorization_kind = Some Auth_SIGNED_QUOTE, pd_authorization_id = Some ''q1'',
     pd_authorization_rate_ids = [], pd_authorization_meter_quantities = [], pd_quote_ids = [''q1''],
     pd_candidate_rankings = [], pd_rejected_candidates = [], pd_quote_failures = [],
     pd_disclosed_quote_features = [], pd_expected_cash = \<lparr>ca_status = Stat_UNAVAILABLE, ca_components = []\<rparr>,
     pd_maximum_cash_authorization = Some (dollars 4), pd_quote_failure_policy = QF_REQUIRE_BINDING_QUOTE,
     pd_preparation_latency_ms = None, pd_quote_latency_ms = None, pd_quote_request_count = 1,
     pd_state = Prep_PREPARED, pd_created_at = Aware 0, pd_expires_at = Aware 50\<rparr>"

definition paid_reservation :: PaymentReservationV2 where
  "paid_reservation = \<lparr>pv_reservation_id = ''r1'', pv_charge_id = ''c1'', pv_prepared_id = ''p1'',
     pv_quote_id = Some ''q1'', pv_authorization_kind = Some Auth_SIGNED_QUOTE,
     pv_authorization_id = Some ''q1'', pv_action_id = ''act1'', pv_attempt_id = ''at1'',
     pv_maximum_amount = dollars 4, pv_adapter = ''local'', pv_idempotency_key = ''key1'',
     pv_state = Pay_RESERVED, pv_created_at = Aware 3, pv_updated_at = Aware 3,
     pv_indeterminate_reason = None\<rparr>"

definition paid_store0 :: store where
  "paid_store0 = empty_store\<lparr>bounded_quotes := [paid_quote], provider_signing_keys := [paid_key]\<rparr>"

definition paid_store1 :: store where
  "paid_store1 = snd (claim_prepared_decision ''p1'' ''tok'' (Aware 2)
     (snd (save_prepared_decision paid_decision paid_store0)))"

definition paid_store2 :: store where
  "paid_store2 = snd (reserve_payment_v2 (\<lambda>_ _ _. True) ''tr1'' paid_reservation ''tok'' None
     (Some (dollars 10)) True None paid_store1)"

lemma paid_store1_rows:
  "paid_store1 = paid_store0\<lparr>prepared_route_decisions := [\<lparr>pw_decision = paid_decision,
     pw_state = Prep_PREPARED, pw_claim_token = Some ''tok'', pw_claimed_at = Some (Aware 2)\<rparr>]\<rparr>"
  by (simp add: paid_store1_def paid_store0_def save_prepared_decision_def immediate_transaction_def
      immutable_row_insert_def is_prepared_def basis_stored_def paid_decision_def paid_quote_def
      get_prepared_decision_def prepared_row_of_def prepared_from_row_def claim_prepared_decision_def
      bounded_token_def text_len_def aware_or_error_def token_taken_def Let_def)

lemma paid_reservation_valid: "validate_payment paid_reservation = Inr ()"
  by (simp add: validate_payment_def paid_reservation_def payment_fields_ok_def authorization_errors_def
      ident_def text_len_def identifier_char_def upper_letter_def lower_letter_def decimal_digit_def
      valid_amount_def currency_code_def dollars_def)

lemma paid_transition_made:
  "mk_transition ''tr1'' ''p1'' Prep_PREPARED Prep_RESERVED (Aware 3) (''payment reservation '' @ ''r1'')
    = Inr \<lparr>pt_transition_id = ''tr1'', pt_prepared_id = ''p1'', pt_from_state = Prep_PREPARED,
        pt_to_state = Prep_RESERVED, pt_occurred_at = Aware 3, pt_reason = Some (''payment reservation '' @ ''r1'')\<rparr>"
  by (simp add: mk_transition_def validate_transition_def ident_def text_len_def identifier_char_def
      upper_letter_def lower_letter_def decimal_digit_def)

lemma paid_basis:
  "reservation_basis_maximum (\<lambda>_ _ _. True) paid_reservation paid_decision paid_store1 = Inr (dollars 4)"
  by (simp add: reservation_basis_maximum_def paid_store1_rows paid_store0_def find_quote_def
      paid_reservation_def paid_decision_def paid_quote_def require_valid_signature_def
      require_active_signing_key_def paid_key_def paid_signature_def Let_def)

lemma paid_room:
  "within_limit None paid_reservation (Some (dollars 10)) message paid_store1 = Inr ()"
  by (simp add: within_limit_def committed_amount_def missing_settlement_def paid_store1_rows paid_store0_def
      outstanding_payments_def captured_payments_def refunded_payments_def paid_reservation_def dollars_def)

lemma paid_store2_rows:
  "paid_store2 = paid_store1\<lparr>payment_reservations := [fresh_payment_row paid_reservation],
     prepared_route_decisions := [\<lparr>pw_decision = paid_decision, pw_state = Prep_RESERVED,
       pw_claim_token = Some ''tok'', pw_claimed_at = Some (Aware 2)\<rparr>],
     prepared_route_transitions := [\<lparr>pt_transition_id = ''tr1'', pt_prepared_id = ''p1'',
       pt_from_state = Prep_PREPARED, pt_to_state = Prep_RESERVED, pt_occurred_at = Aware 3,
       pt_reason = Some (''payment reservation '' @ ''r1'')\<rparr>]\<rparr>" (is "_ = ?s2")
proof -
  let ?w = "\<lparr>pw_decision = paid_decision, pw_state = Prep_PREPARED, pw_claim_token = Some ''tok'',
     pw_claimed_at = Some (Aware 2)\<rparr>"
  have rows: "payment_reservations paid_store1 = []" "prepared_route_transitions paid_store1 = []"
    "prepared_route_decisions paid_store1 = [?w]" "prepared_row_of ''p1'' paid_store1 = Some ?w"
    by (simp_all add: prepared_row_of_def paid_store1_rows paid_store0_def is_prepared_def paid_decision_def)
  have ids: "pv_prepared_id paid_reservation = ''p1''" "pv_state paid_reservation = Pay_RESERVED"
    "pv_reservation_id paid_reservation = ''r1''" "pv_maximum_amount paid_reservation = dollars 4"
    "pv_updated_at paid_reservation = Aware 3" "pd_prepared_id paid_decision = ''p1''"
    by (simp_all add: paid_reservation_def paid_decision_def)
  have bind: "first_error (reservation_binding_errors paid_reservation ?w) = Inr ()"
    by (simp add: reservation_binding_errors_def paid_reservation_def paid_decision_def Let_def)
  have "insert_payment ''tr1'' ''tok'' paid_reservation paid_store1 = (Inr paid_reservation, ?s2)"
    using paid_transition_made rows
    by (simp add: insert_payment_def immutable_row_insert_def ids is_payment_def fresh_payment_row_def
        transition_prepared_locked_def is_prepared_def Let_def)
  then show ?thesis
    using bind rows paid_basis paid_room ids
    by (simp add: paid_store2_def reserve_payment_v2_def bounded_token_def text_len_def dollars_def
        immediate_transaction_def within_limit_def)
qed

lemma paid_run1: "paid_run cur limit paid_store1"
proof -
  have "paid_run cur limit paid_store0"
    by (rule paid_run.stepped [OF paid_run.opened paid_step.other])
      (simp_all add: paid_store0_def same_money_def)
  then show ?thesis
    unfolding paid_store1_def by (intro paid_run.stepped [OF _ paid_step.claim] paid_run.stepped [OF _ paid_step.prepare])
qed

lemma paid_run2: "paid_run ''USD'' 10 paid_store2"
  unfolding paid_store2_def
  by (rule paid_run.stepped [OF paid_run1 paid_step.reserve [OF _ paid_reservation_valid]])
    (simp_all add: fresh_transition_def paid_store1_rows paid_store0_def dollars_def)

text \<open>The paid invocation, the settling state, and a receipt of some status.\<close>

definition paid_store3 :: store where
  "paid_store3 = snd (claim_prepared_for_paid_invocation (\<lambda>_ _ _. True) ''tr2'' ''p1'' ''tok'' paid_digest
     ''pol1'' ''e1'' ''f1'' Auth_SIGNED_QUOTE ''q1'' (Aware 4) paid_store2)"

definition paid_settling :: PreparedRouteTransition where
  "paid_settling = \<lparr>pt_transition_id = ''tr3'', pt_prepared_id = ''p1'', pt_from_state = Prep_INVOKING,
     pt_to_state = Prep_SETTLING, pt_occurred_at = Aware 5, pt_reason = None\<rparr>"

definition paid_store4 :: store where
  "paid_store4 = snd (claim_payment_settlement_v2 ''r1'' ''key2'' (Aware 6)
     (snd (save_prepared_transition paid_settling paid_store3)))"

definition paid_receipt :: "SettlementStatus \<Rightarrow> SettlementReceipt" where
  "paid_receipt status = \<lparr>sr_settlement_id = ''s1'', sr_charge_id = ''c1'', sr_prepared_id = ''p1'',
     sr_quote_id = Some ''q1'', sr_authorization_kind = Some Auth_SIGNED_QUOTE,
     sr_authorization_id = Some ''q1'', sr_reservation_id = ''r1'', sr_attempt_id = ''at1'',
     sr_reserved_amount = dollars 4, sr_captured_amount = dollars 3, sr_released_amount = dollars 1,
     sr_payment_rail = ''local'', sr_external_reference = None, sr_status = status,
     sr_evidence_level = Ev_PAYMENT_SETTLEMENT, sr_settled_at = Aware 7, sr_signature = None\<rparr>"

definition paid_store5 :: "SettlementStatus \<Rightarrow> store" where
  "paid_store5 status = snd (save_settlement_receipt (\<lambda>_ _. ''s1'') ''tr4'' (paid_receipt status) paid_store4)"

lemma paid_store3_rows:
  "paid_store3 = paid_store2\<lparr>prepared_route_decisions := [\<lparr>pw_decision = paid_decision, pw_state = Prep_INVOKING,
       pw_claim_token = Some ''tok'', pw_claimed_at = Some (Aware 2)\<rparr>],
     prepared_route_transitions := prepared_route_transitions paid_store2
       @ [\<lparr>pt_transition_id = ''tr2'', pt_prepared_id = ''p1'', pt_from_state = Prep_RESERVED,
           pt_to_state = Prep_INVOKING, pt_occurred_at = Aware 4,
           pt_reason = Some ''claimed paid invocation after atomic route and trust revalidation''\<rparr>]\<rparr>"
proof -
  let ?w = "\<lparr>pw_decision = paid_decision, pw_state = Prep_RESERVED, pw_claim_token = Some ''tok'',
     pw_claimed_at = Some (Aware 2)\<rparr>"
  have rows: "payment_row_for ''p1'' paid_store2 = Some (fresh_payment_row paid_reservation)"
    "prepared_route_decisions paid_store2 = [?w]" "prepared_row_of ''p1'' paid_store2 = Some ?w"
    "route_candidates paid_store2 = []"
    by (simp_all add: payment_row_for_def prepared_row_of_def paid_store2_rows paid_store1_rows paid_store0_def
        is_prepared_def paid_decision_def fresh_payment_row_def paid_reservation_def)
  have bind: "first_error (paid_binding_errors paid_digest ''pol1'' ''e1'' ''f1'' Auth_SIGNED_QUOTE ''q1'' ''tok''
      (Aware 4) ?w) = Inr ()"
    by (simp add: paid_binding_errors_def paid_decision_def Let_def)
  have basis: "invocation_basis_maximum (\<lambda>_ _ _. True) Auth_SIGNED_QUOTE ''q1'' ''e1'' ''f1'' (Aware 4) paid_decision
      paid_reservation paid_store2 = Inr (dollars 4)"
    by (simp add: invocation_basis_maximum_def paid_store2_rows paid_store1_rows paid_store0_def find_quote_def
        paid_reservation_def paid_decision_def paid_quote_def require_valid_signature_def
        require_active_signing_key_def paid_key_def paid_signature_def Let_def)
  have made: "mk_transition ''tr2'' ''p1'' Prep_RESERVED Prep_INVOKING (Aware 4)
      ''claimed paid invocation after atomic route and trust revalidation''
    = Inr \<lparr>pt_transition_id = ''tr2'', pt_prepared_id = ''p1'', pt_from_state = Prep_RESERVED,
           pt_to_state = Prep_INVOKING, pt_occurred_at = Aware 4,
           pt_reason = Some ''claimed paid invocation after atomic route and trust revalidation''\<rparr>"
    by (simp add: mk_transition_def validate_transition_def ident_def text_len_def identifier_char_def
        upper_letter_def lower_letter_def decimal_digit_def)
  have ids: "py_state (fresh_payment_row paid_reservation) = Pay_RESERVED"
    "py_operation_intent (fresh_payment_row paid_reservation) = None"
    "py_payload (fresh_payment_row paid_reservation) = paid_reservation"
    "pv_authorization_kind paid_reservation = Some Auth_SIGNED_QUOTE"
    "pv_authorization_id paid_reservation = Some ''q1''" "pv_maximum_amount paid_reservation = dollars 4"
    "pd_maximum_cash_authorization paid_decision = Some (dollars 4)" "pd_prepared_id paid_decision = ''p1''"
    by (simp_all add: fresh_payment_row_def paid_reservation_def paid_decision_def)
  have new: "select_row (\<lambda>x. pt_transition_id x = ''tr2'') (prepared_route_transitions paid_store2) = None"
    by (simp add: paid_store2_rows)
  show ?thesis
    using rows bind basis made new ids
    by (simp add: paid_store3_def claim_prepared_for_paid_invocation_def bounded_token_def text_len_def
        aware_or_error_def immediate_transaction_def transition_prepared_locked_def is_prepared_def Let_def)
qed

lemma paid_store4_rows:
  "payment_reservations paid_store4 = [(fresh_payment_row paid_reservation)\<lparr>py_state := Pay_SETTLING,
      py_operation_intent := Some (''settle'', ''key2''), py_updated_at := Aware 6\<rparr>]"
  "prepared_route_decisions paid_store4 = [\<lparr>pw_decision = paid_decision, pw_state = Prep_SETTLING,
      pw_claim_token = Some ''tok'', pw_claimed_at = Some (Aware 2)\<rparr>]"
  "prepared_route_transitions paid_store4 = prepared_route_transitions paid_store3 @ [paid_settling]"
  "settlement_receipts paid_store4 = []" "bounded_quotes paid_store4 = [paid_quote]"
proof -
  let ?s = "snd (save_prepared_transition paid_settling paid_store3)"
  have s: "?s = paid_store3\<lparr>prepared_route_decisions := [\<lparr>pw_decision = paid_decision, pw_state = Prep_SETTLING,
      pw_claim_token = Some ''tok'', pw_claimed_at = Some (Aware 2)\<rparr>],
      prepared_route_transitions := prepared_route_transitions paid_store3 @ [paid_settling]\<rparr>"
    by (simp add: save_prepared_transition_def paid_settling_def immediate_transaction_def
        transition_prepared_locked_def paid_store3_rows paid_store2_rows is_prepared_def paid_decision_def Let_def)
  have rows: "payment_row_of ''r1'' ?s = Some (fresh_payment_row paid_reservation)"
    "payment_reservations ?s = [fresh_payment_row paid_reservation]"
    "prepared_row_of ''p1'' ?s = Some \<lparr>pw_decision = paid_decision, pw_state = Prep_SETTLING,
      pw_claim_token = Some ''tok'', pw_claimed_at = Some (Aware 2)\<rparr>"
    unfolding s by (simp_all add: payment_row_of_def prepared_row_of_def paid_store3_rows paid_store2_rows
        is_payment_def fresh_payment_row_def paid_reservation_def is_prepared_def paid_decision_def)
  have ids: "py_state (fresh_payment_row paid_reservation) = Pay_RESERVED"
    "py_operation_intent (fresh_payment_row paid_reservation) = None"
    "py_updated_at (fresh_payment_row paid_reservation) = Aware 3"
    "py_payload (fresh_payment_row paid_reservation) = paid_reservation"
    "pv_prepared_id paid_reservation = ''p1''" "pv_reservation_id paid_reservation = ''r1''"
    by (simp_all add: fresh_payment_row_def paid_reservation_def)
  have st4: "paid_store4 = ?s\<lparr>payment_reservations := [(fresh_payment_row paid_reservation)\<lparr>py_state := Pay_SETTLING,
      py_operation_intent := Some (''settle'', ''key2''), py_updated_at := Aware 6\<rparr>]\<rparr>"
    using rows ids
    by (simp add: paid_store4_def claim_payment_settlement_v2_def claim_payment_intent_v2_def bounded_token_def
        text_len_def aware_or_error_def immediate_transaction_def enter_settling_def set_payment_def
        is_payment_def Let_def)
  show "payment_reservations paid_store4 = [(fresh_payment_row paid_reservation)\<lparr>py_state := Pay_SETTLING,
      py_operation_intent := Some (''settle'', ''key2''), py_updated_at := Aware 6\<rparr>]"
  "prepared_route_decisions paid_store4 = [\<lparr>pw_decision = paid_decision, pw_state = Prep_SETTLING,
      pw_claim_token = Some ''tok'', pw_claimed_at = Some (Aware 2)\<rparr>]"
  "prepared_route_transitions paid_store4 = prepared_route_transitions paid_store3 @ [paid_settling]"
  "settlement_receipts paid_store4 = []" "bounded_quotes paid_store4 = [paid_quote]"
    unfolding st4 s by (simp_all add: paid_store3_rows paid_store2_rows paid_store1_rows paid_store0_def)
qed

lemma paid_run4: "paid_run ''USD'' 10 paid_store4"
proof -
  have "paid_run ''USD'' 10 paid_store3"
    unfolding paid_store3_def by (rule paid_run.stepped [OF paid_run2 paid_step.invoke_paid])
  moreover have "validate_transition paid_settling = Inr ()"
    by (simp add: paid_settling_def validate_transition_def ident_def text_len_def identifier_char_def
        upper_letter_def lower_letter_def decimal_digit_def)
  ultimately show ?thesis
    unfolding paid_store4_def claim_payment_settlement_v2_def
    by (intro paid_run.stepped [OF _ paid_step.intent] paid_run.stepped [OF _ paid_step.transition])
qed

lemma paid_fresh4: "fresh_transition ''tr4'' paid_store4"
  by (simp add: fresh_transition_def paid_store4_rows paid_settling_def paid_store3_rows paid_store2_rows)

text \<open>Two receipts that are accepted: one settles, the other records a dispute.\<close>

lemma paid_receipt_saved:
  assumes "status = Set_SETTLED \<or> status = Set_DISPUTED"
  shows "save_settlement_receipt (\<lambda>_ _. ''s1'') ''tr4'' (paid_receipt status) paid_store4
      = (Ok (paid_receipt status), paid_store5 status)"
    and "settlement_receipts (paid_store5 status) = [paid_receipt status]"
    and "payment_reservations (paid_store5 status) = [(fresh_payment_row paid_reservation)\<lparr>
      py_state := settlement_target status, py_updated_at := Aware 7\<rparr>]"
proof -
  let ?y = "(fresh_payment_row paid_reservation)\<lparr>py_state := Pay_SETTLING,
      py_operation_intent := Some (''settle'', ''key2''), py_updated_at := Aware 6\<rparr>"
  let ?w = "\<lparr>pw_decision = paid_decision, pw_state = Prep_SETTLING,
      pw_claim_token = Some ''tok'', pw_claimed_at = Some (Aware 2)\<rparr>"
  have rows: "payment_row_of ''r1'' paid_store4 = Some ?y" "prepared_row_of ''p1'' paid_store4 = Some ?w"
    by (simp_all add: payment_row_of_def prepared_row_of_def paid_store4_rows is_payment_def is_prepared_def
        fresh_payment_row_def paid_reservation_def paid_decision_def)
  have ids: "sr_reservation_id (paid_receipt status) = ''r1''" "sr_prepared_id (paid_receipt status) = ''p1''"
    "sr_authorization_kind (paid_receipt status) = Some Auth_SIGNED_QUOTE"
    "sr_authorization_id (paid_receipt status) = Some ''q1''" "sr_settled_at (paid_receipt status) = Aware 7"
    "sr_settlement_id (paid_receipt status) = ''s1''" "sr_status (paid_receipt status) = status"
    "pv_prepared_id paid_reservation = ''p1''" "pv_reservation_id paid_reservation = ''r1''"
    "pd_prepared_id paid_decision = ''p1''"
    "fresh_payment_row paid_reservation = \<lparr>py_payload = paid_reservation, py_state = Pay_RESERVED,
       py_operation_intent = None, py_updated_at = Aware 3, py_indeterminate_reason = None\<rparr>"
    by (simp_all add: paid_receipt_def paid_reservation_def paid_decision_def fresh_payment_row_def)
  have bind: "first_error (settlement_binding_errors (paid_receipt status) paid_reservation paid_decision paid_store4)
      = Inr ()"
    by (simp add: settlement_binding_errors_def paid_receipt_def paid_reservation_def paid_decision_def
        find_quote_def paid_store4_rows paid_quote_def dollars_def Let_def)
  have state: "first_error (settlement_state_errors (\<lambda>_ _. ''s1'') (paid_receipt status) ?y ?w) = Inr ()"
    using assms by (auto simp: settlement_state_errors_def paid_receipt_def Let_def)
  obtain tr where made: "mk_transition ''tr4'' ''p1'' Prep_SETTLING (settlement_prepared_target status) (Aware 7)
      (settlement_reason (paid_receipt status)) = Inr tr"
    using assms by (auto simp: mk_transition_def settlement_reason_def paid_receipt_def validate_transition_def
        ident_def text_len_def identifier_char_def
        upper_letter_def lower_letter_def decimal_digit_def Let_def)
  have new: "immutable_insert_locked (\<lambda>a b. pt_transition_id a = pt_transition_id b) (\<lambda>a. pt_transition_id a = ''tr4'')
      tr (prepared_route_transitions paid_store4) = (Inr True, prepared_route_transitions paid_store4 @ [tr])"
    using mk_transition_ok(2) [OF made]
    by (simp add: immutable_insert_locked_def paid_store4_rows paid_settling_def paid_store3_rows paid_store2_rows)
  have saved: "save_settlement_receipt (\<lambda>_ _. ''s1'') ''tr4'' (paid_receipt status) paid_store4
      = (Ok (paid_receipt status), apply_settlement tr (prepared_route_transitions paid_store4 @ [tr])
          (paid_receipt status) ?y (paid_store4\<lparr>settlement_receipts := [paid_receipt status]\<rparr>))"
    using rows ids(1-9) bind state made new
    by (simp add: save_settlement_receipt_def immediate_transaction_def paid_store4_rows(4)
        immutable_insert_locked_def [of settlement_clash] fresh_payment_row_def Let_def)
  then show "save_settlement_receipt (\<lambda>_ _. ''s1'') ''tr4'' (paid_receipt status) paid_store4
      = (Ok (paid_receipt status), paid_store5 status)"
    by (simp add: paid_store5_def)
  show "settlement_receipts (paid_store5 status) = [paid_receipt status]"
    by (simp add: paid_store5_def saved apply_settlement_def set_payment_def Let_def)
  show "payment_reservations (paid_store5 status) = [(fresh_payment_row paid_reservation)\<lparr>
      py_state := settlement_target status, py_updated_at := Aware 7\<rparr>]"
    using assms by (auto simp: paid_store5_def saved apply_settlement_def set_payment_def Let_def paid_store4_rows
        is_payment_def ids)
qed

lemma paid_run5: "paid_run ''USD'' 10 (paid_store5 status)"
  unfolding paid_store5_def by (rule paid_run.stepped [OF paid_run4 paid_step.settle [OF paid_fresh4]])

text \<open>A keyed claim that is abandoned before its invocation.\<close>

definition keyed_store :: store where
  "keyed_store = snd (claim_prepared_decision_with_action_idempotency ''p1'' ''tok'' (Aware 2) ''key3'' paid_digest
     (snd (save_prepared_decision paid_decision paid_store0)))"

definition abandoned_store :: store where
  "abandoned_store = snd (abandon_prepared_action_idempotency ''tr1'' ''p1'' paid_digest (Aware 3) (Some ''tok'')
     keyed_store)"

lemma keyed_store_rows:
  "keyed_store = paid_store0\<lparr>prepared_route_decisions := [\<lparr>pw_decision = paid_decision,
       pw_state = Prep_PREPARED, pw_claim_token = Some ''tok'', pw_claimed_at = Some (Aware 2)\<rparr>],
     idempotency_records := [\<lparr>ir_key = ''key3'', ir_request_hash = paid_digest, ir_state = Idem_claimed,
       ir_decision_id = None, ir_status = None, ir_receipt_ids = []\<rparr>],
     prepared_action_idempotency := [\<lparr>ab_prepared_id = ''p1'', ab_idempotency_key = ''key3'',
       ab_action_digest = paid_digest, ab_bound_at = Aware 2\<rparr>]\<rparr>"
proof -
  have "save_prepared_decision paid_decision paid_store0 = (Ok paid_decision, paid_store0\<lparr>prepared_route_decisions :=
      [\<lparr>pw_decision = paid_decision, pw_state = Prep_PREPARED, pw_claim_token = None, pw_claimed_at = None\<rparr>]\<rparr>)"
    by (simp add: paid_store0_def save_prepared_decision_def immediate_transaction_def
      immutable_row_insert_def is_prepared_def basis_stored_def paid_decision_def paid_quote_def
      get_prepared_decision_def prepared_row_of_def prepared_from_row_def Let_def)
  moreover have "pd_action_digest paid_decision = paid_digest" "pd_prepared_id paid_decision = ''p1''"
    "pd_expires_at paid_decision = Aware 50" "length paid_digest = 71" "take 7 paid_digest = ''sha256:''"
    by (simp_all add: paid_decision_def paid_digest_def)
  ultimately show ?thesis
    by (simp add: keyed_store_def claim_prepared_decision_with_action_idempotency_def bounded_token_def text_len_def
        canonical_sha256_def aware_or_error_def immediate_transaction_def prepared_row_of_def is_prepared_def
        find_record_def bindings_of_def binding_conflict_def token_taken_def paid_store0_def Let_def)
qed

lemma keyed_run: "paid_run ''USD'' 10 keyed_store"
proof -
  have "paid_run ''USD'' 10 paid_store0"
    by (rule paid_run.stepped [OF paid_run.opened paid_step.other])
      (simp_all add: paid_store0_def same_money_def)
  then show ?thesis
    unfolding keyed_store_def by (intro paid_run.stepped [OF _ paid_step.keyed] paid_run.stepped [OF _ paid_step.prepare])
qed

lemma abandoned_call:
  "abandon_prepared_action_idempotency ''tr1'' ''p1'' paid_digest (Aware 3) (Some ''tok'') keyed_store
    = (Ok (paid_decision\<lparr>pd_state := Prep_CANCELLED\<rparr>), abandoned_store)"
proof -
  have "mk_transition ''tr1'' ''p1'' Prep_PREPARED Prep_CANCELLED (Aware 3)
      ''pre-invocation action idempotency claim abandoned'' = Inr \<lparr>pt_transition_id = ''tr1'',
        pt_prepared_id = ''p1'', pt_from_state = Prep_PREPARED, pt_to_state = Prep_CANCELLED, pt_occurred_at = Aware 3,
        pt_reason = Some ''pre-invocation action idempotency claim abandoned''\<rparr>"
    by (simp add: mk_transition_def validate_transition_def ident_def text_len_def identifier_char_def
        upper_letter_def lower_letter_def decimal_digit_def)
  moreover have "pd_prepared_id paid_decision = ''p1''" by (simp add: paid_decision_def)
  ultimately show ?thesis
    by (simp add: abandoned_store_def abandon_prepared_action_idempotency_def aware_or_error_def
        immediate_transaction_def prepared_row_of_def is_prepared_def keyed_store_rows paid_store0_def
        get_prepared_action_idempotency_def find_record_def abandon_state_def payment_row_for_def
        transition_prepared_locked_def get_prepared_decision_def prepared_from_row_def Let_def)
qed

section \<open>Witnesses\<close>

theorem prepaid_never_overspent_witness:
  "committed_amount None ''USD'' paid_store2 = Ok 4 \<and> (\<exists>c. committed_amount None ''USD'' paid_store2 = Ok c \<and> c \<le> 10)"
proof
  show "committed_amount None ''USD'' paid_store2 = Ok 4"
    by (simp add: committed_amount_def missing_settlement_def paid_store2_rows paid_store1_rows paid_store0_def
        outstanding_payments_def open_payment_def fresh_payment_row_def paid_reservation_def dollars_def
        captured_payments_def refunded_payments_def)
  show "\<exists>c. committed_amount None ''USD'' paid_store2 = Ok c \<and> c \<le> 10"
    by (rule prepaid_never_overspent [OF paid_run2]) simp
qed

theorem reservation_backed_witness:
  "\<exists>w. w \<in> set (prepared_route_decisions (paid_store5 Set_SETTLED)) \<and> authorized_by w paid_reservation
     \<and> pw_state w = Prep_SETTLED"
  using reservation_backed [OF paid_run5 [of Set_SETTLED], of "(fresh_payment_row paid_reservation)\<lparr>
      py_state := Pay_SETTLED, py_updated_at := Aware 7\<rparr>"] paid_receipt_saved(3) [of Set_SETTLED]
  by (auto simp: fresh_payment_row_def)

theorem invoked_at_most_once_witness:
  "invocations ''p1'' paid_store4 = 1 \<and> invocations ''p1'' paid_store4 \<le> 1"
proof
  show "invocations ''p1'' paid_store4 = 1"
    by (simp add: invocations_def paid_store4_rows paid_store3_rows paid_store2_rows paid_settling_def)
  show "invocations ''p1'' paid_store4 \<le> 1" by (rule invoked_at_most_once [OF paid_run4])
qed

theorem abandoned_never_invoked_witness:
  "invocations ''p1'' abandoned_store = 0 \<and> (decided ''p1'' Prep_CANCELLED abandoned_store
     \<or> decided ''p1'' Prep_RELEASED abandoned_store)"
proof (rule abandoned_never_invoked [OF keyed_run _ abandoned_call rtranclp.rtrancl_refl])
  show "fresh_transition ''tr1'' keyed_store"
    by (simp add: fresh_transition_def keyed_store_rows paid_store0_def)
qed

theorem unresolved_receipt_is_last_witness:
  "Pay_DISPUTED \<notin> {Pay_SETTLED, Pay_RELEASED} \<and> payment_reservations (paid_store5 Set_DISPUTED)
     = [(fresh_payment_row paid_reservation)\<lparr>py_state := Pay_DISPUTED, py_updated_at := Aware 7\<rparr>]"
proof
  let ?y = "(fresh_payment_row paid_reservation)\<lparr>py_state := Pay_DISPUTED, py_updated_at := Aware 7\<rparr>"
  note rows = paid_receipt_saved(2,3) [of Set_DISPUTED]
  have "py_state ?y \<notin> {Pay_SETTLED, Pay_RELEASED}"
    by (rule unresolved_receipt_is_last [OF paid_run5 [of Set_DISPUTED] _ _ rtranclp.rtrancl_refl,
          where x = "paid_receipt Set_DISPUTED"])
      (use rows in \<open>simp_all add: paid_receipt_def payment_id_def fresh_payment_row_def paid_reservation_def\<close>)
  then show "Pay_DISPUTED \<notin> {Pay_SETTLED, Pay_RELEASED}" by simp
  show "payment_reservations (paid_store5 Set_DISPUTED) = [?y]" using rows by simp
qed

theorem settlement_replayed_witness:
  "save_settlement_receipt (\<lambda>_ _. ''s1'') ''tr9'' (paid_receipt Set_SETTLED) (paid_store5 Set_SETTLED)
    = (Ok (paid_receipt Set_SETTLED), paid_store5 Set_SETTLED)"
  by (rule settlement_replayed [OF paid_run4 paid_fresh4 paid_receipt_saved(1)]) simp

text \<open>A usage statement that claims more than the quote allows.\<close>

definition paid_usage :: UsageStatement where
  "paid_usage = \<lparr>us_usage_statement_id = ''u1'', us_quote_id = ''q1'', us_prepared_id = ''p1'',
     us_action_id = ''act1'', us_attempt_id = ''at1'', us_provider_id = ''v1'', us_executor_id = ''e1'',
     us_executor_fingerprint = ''f1'', us_execution_status = Prov_SUCCESS, us_meters = [],
     us_provider_calculated_amount = Some (dollars 9), us_started_at = None, us_completed_at = None,
     us_issued_at = Aware 6, us_signature = paid_signature\<rparr>"

lemma paid_usage_disputed:
  "\<exists>r p. resolve_usage_statement (\<lambda>_ _. True) (\<lambda>_. paid_digest) (\<lambda>_ _. ''x'') paid_usage paid_quote paid_decision
      ''act1'' ''at1'' ''c1'' None 1 = Ok r \<and> er_dispute r = Some p"
proof -
  have "sha256_digest paid_digest"
    by (simp add: sha256_digest_def paid_digest_def hex64_def lower_hex_def list_all_iff)
  then show ?thesis
    by (simp add: resolve_usage_statement_def usage_binding_errors_def paid_usage_def paid_quote_def
        paid_decision_def dollars_def overclaim_def mk_evidence_def valid_dispute_def ident_def text_len_def
        identifier_char_def upper_letter_def lower_letter_def decimal_digit_def valid_amount_def
        currency_code_def Let_def)
qed

theorem usage_never_overbilled_witness:
  "\<exists>r. resolve_usage_statement (\<lambda>_ _. True) (\<lambda>_. paid_digest) (\<lambda>_ _. ''x'') paid_usage paid_quote paid_decision
      ''act1'' ''at1'' ''c1'' None 1 = Ok r \<and> er_billable_amount r = None"
proof -
  obtain r p where r: "resolve_usage_statement (\<lambda>_ _. True) (\<lambda>_. paid_digest) (\<lambda>_ _. ''x'') paid_usage paid_quote
      paid_decision ''act1'' ''at1'' ''c1'' None 1 = Ok r" "er_dispute r = Some p"
    using paid_usage_disputed by blast
  have "er_billable_amount r = None"
    using usage_never_overbilled [OF r(1)] r(2) by (simp add: paid_quote_def paid_usage_def dollars_def)
  with r(1) show ?thesis by blast
qed

end
