(* ===== verification/Manager_Safety.thy ===== *)
theory Manager_Safety
  imports Manager_Runs Payment_Samples
begin

text \<open>
  Runs of the budget manager: its calls in any order, between any other operations on the
  store. What the store promises holds along them, and the manager's own checks come first.
\<close>

section \<open>Whole calls as payment steps\<close>

lemma beside_fresh: "fresh_id env m \<Longrightarrow> beside f \<Longrightarrow> on_store f m = (r, m') \<Longrightarrow> fresh_id env m'"
  using fresh_id_same beside_transitions by blast

lemma settle_v2_moves:
  assumes "fresh_id env m"
  shows "moves cur limit m (snd (settle_v2 bp env rid actual evidence key m))"
  unfolding settle_v2_def
  by (auto simp: moving besides split: sum.split option.split
      intro!: and_then_moves settle_claimed_moves dest: beside_fresh [OF assms beside_claim])

lemma capture_v2_moves:
  assumes "fresh_id env m"
  shows "moves cur limit m (snd (capture_v2 bp env rid evidence key m))"
  by (simp add: capture_v2_def settle_v2_moves [OF assms] moving split: option.split)

lemma release_v2_moves:
  assumes "fresh_id env m"
  shows "moves cur limit m (snd (release_v2 bp env rid reason key m))"
  unfolding release_v2_def
  by (auto simp: moving besides split: sum.split option.split
      intro!: and_then_moves release_claimed_moves dest: beside_fresh [OF assms beside_claim])

lemma refund_on_rail_moves:
  assumes "keeps_rail name m"
  shows "moves cur limit m (snd (refund_on_rail env x amt reason key m))"
  unfolding refund_on_rail_def
proof (rule and_then_moves, rule on_rail_moves)
  fix answer m'
  assume rail: "on_rail (rail_refund (pe_rail_digest env) (pe_stable_id env) (pe_calls env)
      (pe_adapter_at env) x amt reason key) m = (Inr answer, m')"
  then have "answer_valid answer"
    using rail_operations_kept(4) [of name "mg_rail m"] assms
    by (auto simp: on_rail_def keeps_rail_def split: prod.splits)
  then show "moves cur limit m' (snd (case answer of
      Res_refund receipt \<Rightarrow>
        if rr_refund_id receipt \<noteq> pe_stable_id env ''refund'' key
        then (Err (ConfigurationError ''payment adapter returned an unexpected refund ID''), m')
        else if refund_invalid receipt x amt reason key
        then (Err (ConfigurationError ''payment adapter returned an invalid refund''), m')
        else and_then (on_store (complete_refund_v2 receipt) m')
          (\<lambda>saved m. and_then (complete_operation ''refund'' key (Res_refund saved) m)
             (\<lambda>_ m. (Ok saved, m)))
    | _ \<Rightarrow> (Err (TypeError ''refund result expected''), m')))"
    by (cases answer) (auto simp: answer_valid_def moving
        intro!: and_then_moves on_store_moves paid_step.complete)
qed

lemma on_store_kept: "on_store f m1 = (r, m') \<Longrightarrow> keeps_rail name m1 \<Longrightarrow> keeps_rail name m'"
  using on_store_rail [of name f m1] by simp

lemma mark_executing_kept:
  "mark_executing op k c m1 = (r, m') \<Longrightarrow> keeps_rail name m1 \<Longrightarrow> keeps_rail name m'"
  using mark_executing_rail [of name op k c m1] by simp

lemma refund_failed_moves: "moves cur limit m (snd (refund_failed env i key m))"
  unfolding refund_failed_def
  by (intro and_then_moves) (auto simp: moving besides intro!: and_then_moves)

lemma refund_v2_moves:
  assumes "keeps_rail name m"
  shows "moves cur limit m (snd (refund_v2 bp env sid amt reason key m))"
  unfolding refund_v2_def Let_def
  by (auto simp: moving besides split: sum.split option.split
      intro!: and_then_moves or_recover_moves refund_on_rail_moves [of name] refund_failed_moves)
    (meson assms on_store_kept mark_executing_kept)+

lemma hold_budget_moves:
  assumes "fresh_id env m" and "keeps_rail ''prepaid'' m" and "\<not> bp_unlimited_budget bp"
  shows "moves (bp_settlement_currency bp) (bp_prepaid_balance bp) m (snd (hold_budget bp env a rid m))"
  using assms unfolding hold_budget_def fresh_id_def keeps_rail_def rail_kept_def
  by (auto simp: prepaid_limit_def reserve_candidate_def mk_payment_def Let_def moving
      split: option.split sum.splits intro!: on_store_moves paid_step.reserve)

lemma reserve_on_rail_moves [moving]:
  "moves cur limit m (snd (reserve_on_rail env a stored adapter_reservation m))"
  unfolding reserve_on_rail_def
  by (auto simp: moving split: sum.split intro!: and_then_moves)

lemma reserve_v2_moves:
  assumes "fresh_id env m" and "keeps_rail ''prepaid'' m" and "\<not> bp_unlimited_budget bp"
  shows "moves (bp_settlement_currency bp) (bp_prepaid_balance bp) m
    (snd (reserve_v2 bp env a approved human executor m))"
  unfolding reserve_v2_def
  by (auto simp: moving besides split: sum.split option.split
      intro!: and_then_moves or_recover_moves hold_budget_moves assms(3))
    (meson assms beside_claim beside_fresh on_store_kept)+

section \<open>Runs\<close>

text \<open>
  A run starts with an empty store and the prepaid rail as it is opened. The manager is called
  with a transition id the store has not used; between its calls anything else of the program
  may operate on the store.
\<close>

inductive manager_step :: "budget_policy \<Rightarrow> manager \<Rightarrow> manager \<Rightarrow> bool" for bp where
  around: "paid_step (bp_settlement_currency bp) (bp_prepaid_balance bp) (mg_store m) s
    \<Longrightarrow> manager_step bp m (m\<lparr>mg_store := s\<rparr>)"
| reserve: "fresh_id env m \<Longrightarrow> manager_step bp m (snd (reserve_v2 bp env a approved human executor m))"
| settle: "fresh_id env m \<Longrightarrow> manager_step bp m (snd (settle_v2 bp env rid actual evidence key m))"
| capture: "fresh_id env m \<Longrightarrow> manager_step bp m (snd (capture_v2 bp env rid evidence key m))"
| release: "fresh_id env m \<Longrightarrow> manager_step bp m (snd (release_v2 bp env rid reason key m))"
| refund: "manager_step bp m (snd (refund_v2 bp env sid amt reason key m))"

inductive manager_run :: "budget_policy \<Rightarrow> manager \<Rightarrow> bool" for bp where
  opened: "prepaid_adapter_v2 balance = Inr st \<Longrightarrow> manager_run bp \<lparr>mg_store = empty_store, mg_rail = st\<rparr>"
| stepped: "manager_run bp m \<Longrightarrow> manager_step bp m m' \<Longrightarrow> manager_run bp m'"

lemma opened_rail_kept:
  assumes "prepaid_adapter_v2 balance = Inr st"
  shows "rail_kept ''prepaid'' st"
  using assms
  by (auto simp: prepaid_adapter_v2_def local_ledger_def rail_kept_def answers_valid_def
      split: if_splits sum.splits option.splits)

lemma manager_step_kept:
  "manager_step bp m m' \<Longrightarrow> keeps_rail name m \<Longrightarrow> keeps_rail name m'"
  by (induction rule: manager_step.induct)
    (simp_all add: settle_v2_rail reserve_v2_rail capture_v2_rail release_v2_rail refund_v2_rail,
      simp add: keeps_rail_def)

lemma manager_step_moves:
  assumes "manager_step bp m m'" and "keeps_rail ''prepaid'' m" and "\<not> bp_unlimited_budget bp"
  shows "moves (bp_settlement_currency bp) (bp_prepaid_balance bp) m m'"
  using assms
proof (cases rule: manager_step.cases)
  case (around s)
  then show ?thesis by (simp add: moves_def r_into_rtranclp)
qed (use assms in \<open>simp_all add: reserve_v2_moves settle_v2_moves capture_v2_moves release_v2_moves
    refund_v2_moves\<close>)

lemma manager_run_paid:
  assumes "manager_run bp m" and "\<not> bp_unlimited_budget bp"
  shows "keeps_rail ''prepaid'' m
    \<and> paid_run (bp_settlement_currency bp) (bp_prepaid_balance bp) (mg_store m)"
  using assms(1)
proof induction
  case (opened balance st)
  then show ?case by (simp add: keeps_rail_def opened_rail_kept paid_run.opened)
next
  case (stepped m m')
  with manager_step_moves [OF stepped.hyps(2) _ assms(2)] show ?case
    by (auto simp: moves_def intro: manager_step_kept run_append)
qed

section \<open>Properties\<close>

text \<open>
  C8 However the calls of the budget manager are ordered and interleaved with other operations
  on the store, and whatever the rail's callbacks answer or raise, the money that outstanding
  reservations hold and settled ones keep stays within the configured prepaid balance.
\<close>

theorem manager_never_overspends:
  assumes "manager_run bp m" and "\<not> bp_unlimited_budget bp" and "0 \<le> bp_prepaid_balance bp"
  shows "\<exists>c. committed_amount None (bp_settlement_currency bp) (mg_store m) = Ok c
    \<and> c \<le> bp_prepaid_balance bp"
  using run_committed manager_run_paid [OF assms(1,2)] assms(3) by blast

text \<open>The authority that the configuration and the approvals of a call give.\<close>

definition within_authority :: "budget_policy \<Rightarrow> CurrencyAmount \<Rightarrow> bool \<Rightarrow> bool \<Rightarrow> bool" where
  "within_authority bp maximum payment_approved human_approved =
     (currency maximum = bp_settlement_currency bp \<and> payment_approved
      \<and> amount maximum \<le> bp_max_per_action bp
      \<and> (human_approved \<or> \<not> bp_requires_human bp \<and> amount maximum \<le> bp_auto_approve_under bp))"

text \<open>
  C11 A reservation is made only within the manager's authority: in the settlement currency,
  with the operator's payment approval, within the maximum per action, and with a human's
  approval when the configuration or the amount asks for it. Otherwise, also when the same
  reservation was made before, the call fails and neither the store nor the rail has changed.
\<close>

theorem reserve_needs_authority:
  assumes "\<not> within_authority bp (rq_maximum a) payment_approved human_approved"
  shows "\<exists>e. reserve_v2 bp env a payment_approved human_approved executor m = (Inl e, m)"
  using assms
  by (auto simp: within_authority_def reserve_v2_def authorize_v2_def authorize_amount_def
      split: sum.split if_splits)

section \<open>A sample manager\<close>

definition sample_budget :: budget_policy where
  "sample_budget = \<lparr>bp_max_per_action = 5, bp_daily_limit = 20, bp_prepaid_balance = 10,
     bp_requires_human = False, bp_auto_approve_under = 5, bp_settlement_currency = ''USD'',
     bp_unlimited_budget = False, bp_adapter_configured = True\<rparr>"

definition sample_args :: reserve_args where
  "sample_args = \<lparr>rq_prepared = ''p1'', rq_quote = Some ''q1'', rq_kind = Auth_SIGNED_QUOTE,
     rq_authorization = ''q1'', rq_action = ''act1'', rq_attempt = ''at1'', rq_charge = ''c1'',
     rq_maximum = dollars 4, rq_key = ''key1'', rq_token = ''tok''\<rparr>"

definition prepaid_rail :: rail where
  "prepaid_rail = \<lparr>rl_name = ''prepaid'', rl_settlement_currency = ''USD'', rl_balance = 10,
     rl_unlimited_budget = False, rl_free_only = False, rl_provider_id = ''local.prepaid'',
     rl_operations = (\<lambda>_. None), rl_reservations = [], rl_charge_reservations = (\<lambda>_. None),
     rl_settlements = [], rl_reservation_settlements = (\<lambda>_. None), rl_refunds = []\<rparr>"

definition sample_env :: "datetime \<Rightarrow> string \<Rightarrow> payment_env" where
  "sample_env t tid = \<lparr>pe_digest = (\<lambda>_. ''d''), pe_rail_digest = (\<lambda>_ _. ''d''),
     pe_stable_id = (\<lambda>kind key. kind @ ''.'' @ key),
     pe_calls = \<lparr>reserve_external = (\<lambda>_. Ok Callback_none), settle_external = (\<lambda>_ _ _ _. Ok Callback_none),
       release_external = (\<lambda>_ _ _. Ok Callback_none), refund_external = (\<lambda>_ _ _ _. Ok Callback_none),
       reconcile_external = (\<lambda>_. Ok None)\<rparr>,
     pe_verify = (\<lambda>_ _ _. True), pe_transition_id = tid,
     pe_claim_at = t, pe_adapter_at = t, pe_failure_at = t\<rparr>"

lemma around_run:
  assumes "paid_run (bp_settlement_currency bp) (bp_prepaid_balance bp) s"
    and "prepaid_adapter_v2 balance = Inr st"
  shows "manager_run bp \<lparr>mg_store = s, mg_rail = st\<rparr>"
  using assms(1)
proof induction
  case opened
  show ?case by (rule manager_run.opened [OF assms(2)])
next
  case (stepped s s')
  from manager_run.stepped [OF stepped.IH manager_step.around [of bp _ s']] stepped.hyps(2) show ?case by simp
qed

lemma prepaid_rail_opened: "prepaid_adapter_v2 (dollars 10) = Inr prepaid_rail"
  by (simp add: prepaid_adapter_v2_def local_ledger_def prepaid_rail_def dollars_def normalize_currency_def
      currency_code_def upper_char_def upper_letter_def lower_letter_def)

theorem manager_never_overspends_witness:
  "\<exists>c. committed_amount None ''USD'' (mg_store (snd (reserve_v2 sample_budget (sample_env (Aware 3) ''tr1'')
       sample_args True False ''e1'' \<lparr>mg_store = paid_store1, mg_rail = prepaid_rail\<rparr>))) = Ok c \<and> c \<le> 10"
proof -
  let ?m = "\<lparr>mg_store = paid_store1, mg_rail = prepaid_rail\<rparr>"
  have "manager_run sample_budget ?m"
    by (rule around_run [OF paid_run1 prepaid_rail_opened])
  moreover have "fresh_id (sample_env (Aware 3) ''tr1'') ?m"
    by (simp add: fresh_id_def fresh_transition_def sample_env_def paid_store1_rows paid_store0_def)
  ultimately have "manager_run sample_budget (snd (reserve_v2 sample_budget (sample_env (Aware 3) ''tr1'')
      sample_args True False ''e1'' ?m))"
    by (intro manager_run.stepped [OF _ manager_step.reserve])
  from manager_never_overspends [OF this] show ?thesis by (simp add: sample_budget_def)
qed

theorem reserve_needs_authority_witness:
  "\<exists>e. reserve_v2 (sample_budget\<lparr>bp_auto_approve_under := 3\<rparr>) (sample_env (Aware 3) ''tr1'') sample_args
     True False ''e1'' \<lparr>mg_store = paid_store1, mg_rail = prepaid_rail\<rparr>
     = (Inl e, \<lparr>mg_store = paid_store1, mg_rail = prepaid_rail\<rparr>)"
  by (rule reserve_needs_authority) (simp add: within_authority_def sample_args_def sample_budget_def dollars_def)

end
