(* ===== verification/Manager_Retry.thy ===== *)
theory Manager_Retry
  imports Manager_Safety
begin

text \<open>
  Calling the manager again. A settlement that succeeded is answered from its operation
  record, under whatever clock; a settlement whose money moved on the rail but whose receipt
  was not stored cannot be recorded by a later call on the same rail.
\<close>

section \<open>What a successful call went through\<close>

lemma and_then_ok [simp]:
  "and_then p f = (Inr v, m') \<longleftrightarrow> (\<exists>u m1. p = (Inr u, m1) \<and> f u m1 = (Inr v, m'))"
  by (auto simp: and_then_def split: prod.splits sum.splits)

lemma or_recover_ok [simp]: "or_recover p handler = (Inr v, m') \<longleftrightarrow> p = (Inr v, m')"
  by (auto simp: or_recover_def split: prod.splits sum.splits)

lemma on_store_ok: "on_store f m = (Inr v, m') \<longleftrightarrow> (\<exists>s. f (mg_store m) = (Inr v, s) \<and> m' = m\<lparr>mg_store := s\<rparr>)"
  by (auto simp: on_store_def split: prod.splits)

lemma on_rail_ok: "on_rail f m = (Inr v, m') \<longleftrightarrow> (\<exists>st. f (mg_rail m) = (Inr v, st) \<and> m' = m\<lparr>mg_rail := st\<rparr>)"
  by (auto simp: on_rail_def split: prod.splits)

lemma select_updated:
  assumes "\<And>x. p (f x) = p x"
  shows "select_row p (update_rows q f t) = map_option (\<lambda>x. if q x then f x else x) (select_row p t)"
  using assms by (induction t) auto

definition payload_of :: "string \<Rightarrow> store \<Rightarrow> PaymentReservationV2 option" where
  "payload_of rid s = map_option py_payload (payment_row_of rid s)"

lemma payload_of_set:
  assumes "\<And>y. py_payload (f y) = py_payload y"
  shows "payload_of rid (set_payment hit f s) = payload_of rid s"
  using assms select_updated [of "is_payment rid" f hit "payment_reservations s"]
  by (auto simp: payload_of_def payment_row_of_def set_payment_def is_payment_def option.map_comp comp_def
      intro!: option.map_cong)

lemma payload_of_same: "payment_reservations s' = payment_reservations s \<Longrightarrow> payload_of rid s' = payload_of rid s"
  by (simp add: payload_of_def payment_row_of_def)

text \<open>A record of the key with this request, and one that is complete with a receipt.\<close>

definition hashed :: "string \<Rightarrow> string \<Rightarrow> store \<Rightarrow> bool" where
  "hashed k d s = (\<exists>row. find_record k s = Some row \<and> ir_request_hash row = d)"

definition settled_by :: "string \<Rightarrow> string \<Rightarrow> SettlementReceipt \<Rightarrow> store \<Rightarrow> bool" where
  "settled_by k d x s =
     (\<exists>row. find_record k s = Some row \<and> ir_request_hash row = d \<and> ir_state row = Idem_complete
        \<and> ir_status row = Some ''SettlementReceipt'' \<and> ir_receipt_ids row = [sr_settlement_id x]
        \<and> find_settlement (sr_settlement_id x) s = Some x)"

lemma claim_hashed:
  assumes "claim_payment_operation operation key d s = (Inr c, s')"
    and "payment_operation_key operation key = Inr k"
  shows "hashed k d s'" and "payment_reservations s' = payment_reservations s"
    and "settlement_receipts s' = settlement_receipts s"
    and "c = None \<Longrightarrow> find_record k s = None"
    and "c = Some row \<Longrightarrow> find_record k s' = Some row \<and> ir_request_hash row = d \<and> s' = s"
  using assms
  by (auto simp: claim_payment_operation_def with_payment_key_def claim_idempotency_def hashed_def
      find_record_def select_row_fresh select_row_None split: option.splits if_splits dest!: sym [of "Some _"])

lemma executing_hashed:
  assumes "mark_executing operation key claim m = (Inr u, m')" and "payment_operation_key operation key = Inr k"
  shows "hashed i d (mg_store m) \<Longrightarrow> hashed i d (mg_store m')"
    and "payment_reservations (mg_store m') = payment_reservations (mg_store m)"
    and "settlement_receipts (mg_store m') = settlement_receipts (mg_store m)"
    and "mg_rail m' = mg_rail m"
  using assms
  by (auto simp: mark_executing_def on_store_ok mark_payment_operation_executing_def with_payment_key_def
      immediate_transaction_def Let_def hashed_def find_record_def select_updated
      split: if_splits prod.splits sum.splits)

lemma complete_recorded:
  assumes call: "complete_payment_operation operation key ty i s = (Inr u, s')"
    and key: "payment_operation_key operation key = Inr k" and row: "find_record k s = Some row"
  shows "payment_reservations s' = payment_reservations s \<and> settlement_receipts s' = settlement_receipts s"
    and "\<exists>row'. find_record k s' = Some row' \<and> ir_request_hash row' = ir_request_hash row
      \<and> ir_state row' = Idem_complete \<and> ir_status row' = Some ty \<and> ir_receipt_ids row' = [i]"
proof -
  let ?hit = "\<lambda>x. ir_key x = k \<and> ir_state x \<in> {Idem_claimed, Idem_executing, Idem_indeterminate}"
  let ?f = "\<lambda>x. x\<lparr>ir_state := Idem_complete, ir_decision_id := Some operation, ir_status := Some ty,
      ir_receipt_ids := [i]\<rparr>"
  have cases: "(s' = s \<and> ir_state row = Idem_complete \<and> ir_status row = Some ty \<and> ir_receipt_ids row = [i])
      \<or> (s' = s\<lparr>idempotency_records := update_rows ?hit ?f (idempotency_records s)\<rparr>
         \<and> ir_state row \<noteq> Idem_complete)"
    using call row key unfolding complete_payment_operation_def with_payment_key_def
    by (simp add: transaction_ok Let_def split: if_splits)
  then show "payment_reservations s' = payment_reservations s \<and> settlement_receipts s' = settlement_receipts s"
    by (elim disjE) simp_all
  from cases show "\<exists>row'. find_record k s' = Some row' \<and> ir_request_hash row' = ir_request_hash row
      \<and> ir_state row' = Idem_complete \<and> ir_status row' = Some ty \<and> ir_receipt_ids row' = [i]"
  proof (elim disjE conjE)
    assume live: "ir_state row \<noteq> Idem_complete"
    have "?hit row" using select_row_SomeD [of "\<lambda>x. ir_key x = k"] row live
      by (cases "ir_state row") (auto simp: find_record_def)
    moreover have "select_row (\<lambda>x. ir_key x = k) (update_rows ?hit ?f (idempotency_records s))
        = map_option (\<lambda>x. if ?hit x then ?f x else x) (find_record k s)"
      unfolding find_record_def by (rule select_updated) simp
    ultimately have "find_record k (s\<lparr>idempotency_records := update_rows ?hit ?f (idempotency_records s)\<rparr>) = Some (?f row)"
      using row by (simp add: find_record_def)
    moreover assume "s' = s\<lparr>idempotency_records := update_rows ?hit ?f (idempotency_records s)\<rparr>"
    ultimately show ?thesis by simp
  qed (use row in simp)
qed

lemma complete_settled:
  assumes call: "complete_operation operation key (Res_settlement x) m = (Inr u, m')"
    and key: "payment_operation_key operation key = Inr k"
    and "hashed k d (mg_store m)" and found: "find_settlement (sr_settlement_id x) (mg_store m) = Some x"
  shows "settled_by k d x (mg_store m')"
    and "payment_reservations (mg_store m') = payment_reservations (mg_store m)"
    and "mg_rail m' = mg_rail m"
proof -
  obtain row where row: "find_record k (mg_store m) = Some row" "ir_request_hash row = d"
    using assms(3) by (auto simp: hashed_def)
  obtain s where s: "complete_payment_operation operation key ''SettlementReceipt'' (sr_settlement_id x)
      (mg_store m) = (Inr u, s)" "m' = m\<lparr>mg_store := s\<rparr>"
    using call by (auto simp: complete_operation_def on_store_ok)
  note done' = complete_recorded [OF s(1) key row(1)]
  from done'(1) found have "find_settlement (sr_settlement_id x) s = Some x" "payment_reservations s =
      payment_reservations (mg_store m)"
    by (auto simp: find_settlement_def)
  with done'(2) s(2) row show "settled_by k d x (mg_store m')"
    and "payment_reservations (mg_store m') = payment_reservations (mg_store m)" "mg_rail m' = mg_rail m"
    by (auto simp: settled_by_def)
qed

lemma intent_kept:
  assumes "claim_payment_intent_v2 rid operation key required t s = (Inr r, s')"
  shows "payload_of i s' = payload_of i s" and "idempotency_records s' = idempotency_records s"
    and "settlement_receipts s' = settlement_receipts s"
  using assms
  by (auto simp: claim_payment_intent_v2_def transaction_ok enter_settling_def Let_def payload_of_set
      set_payment_def [of _ _ s] split: if_splits sum.splits option.splits
      intro: payload_of_set [unfolded set_payment_def])

lemma saved_found:
  assumes "save_settlement_receipt result_id tid x s = (Inr v, s')"
  shows "v = x" and "find_settlement (sr_settlement_id x) s' = Some x"
    and "payload_of i s' = payload_of i s" and "idempotency_records s' = idempotency_records s"
proof -
  have here: "v = x \<and> find_settlement (sr_settlement_id x) s' = Some x
      \<and> payload_of i s' = payload_of i s \<and> idempotency_records s' = idempotency_records s"
    using assms
  proof (cases rule: settlement_result)
    case (found y w)
    have "select_row (\<lambda>z. sr_settlement_id z = sr_settlement_id x) t = Some x"
      if "select_row (\<lambda>z. settlement_clash z x) t = Some x" for t
      using that by (induction t) (auto simp: settlement_clash_def split: if_splits)
    with found show ?thesis by (simp add: find_settlement_def)
  next
    case (stored y w tr h b)
    let ?f = "\<lambda>z. z\<lparr>py_state := settlement_target (sr_status x), py_operation_intent := None,
        py_updated_at := sr_settled_at x, py_indeterminate_reason :=
          (if settlement_target (sr_status x) = Pay_INDETERMINATE then Some (unsettled_reason x) else None)\<rparr>"
    have "payload_of i s' = payload_of i (set_payment
        (\<lambda>z. is_payment (sr_reservation_id x) z \<and> py_state z = py_state y) ?f s)"
      by (rule payload_of_same) (simp add: stored(11) apply_settlement_def Let_def set_payment_def)
    also have "\<dots> = payload_of i s" by (rule payload_of_set) simp
    finally have "payload_of i s' = payload_of i s" .
    with stored show ?thesis
      by (auto simp: find_settlement_def apply_settlement_def set_payment_def Let_def settlement_clash_def
          intro!: select_row_fresh)
  qed
  then show "v = x" and "find_settlement (sr_settlement_id x) s' = Some x"
    and "payload_of i s' = payload_of i s" and "idempotency_records s' = idempotency_records s" by simp_all
qed

lemma rail_settle_currency:
  assumes "rail_settle digest stable_id calls now r actual evidence key st = (q, st')"
  shows "rl_settlement_currency st' = rl_settlement_currency st"
proof -
  have "same_rail st (snd (settle_call stable_id calls now r actual evidence key st))"
    using settle_call_ok by (auto simp: rail_call_ok_def)
  with assms show ?thesis
    by (auto simp: rail_settle_def run_operation_def same_rail_def Let_def
        split: option.splits prod.splits sum.splits if_splits)
qed

section \<open>A settlement that succeeded\<close>

text \<open>What the manager knows once \<open>settle_v2\<close> has returned a receipt.\<close>

lemma store_receipt_done:
  assumes call: "store_receipt env operation key x m = (Inr v, m')"
    and key: "payment_operation_key operation key = Inr k" and claimed: "hashed k d (mg_store m)"
  shows "settled_by k d v (mg_store m') \<and> payload_of i (mg_store m') = payload_of i (mg_store m)
    \<and> mg_rail m' = mg_rail m"
proof -
  obtain s u where saved: "save_settlement_receipt (payment_operation_result_id (pe_stable_id env))
      (pe_transition_id env) x (mg_store m) = (Inr v, s)"
    and completed: "complete_operation operation key (Res_settlement v) (m\<lparr>mg_store := s\<rparr>) = (Inr u, m')"
    using call by (auto simp: store_receipt_def on_store_ok)
  note kept = saved_found [OF saved]
  have "hashed k d s" using claimed kept(4) by (simp add: hashed_def find_record_def)
  with complete_settled [OF completed key, of d] kept(1-3) show ?thesis
    by (auto dest: payload_of_same)
qed

lemma settle_on_rail_ok:
  assumes call: "settle_on_rail env r actual evidence key m = (Inr v, m')"
  obtains x st where "rail_settle (pe_rail_digest env) (pe_stable_id env) (pe_calls env) (pe_adapter_at env)
      r actual evidence key (mg_rail m) = (Inr (Res_settlement x), st)"
    "sr_settlement_id x = pe_stable_id env ''settlement'' key"
    "\<not> settlement_invalid x r actual (rl_name st)"
    "store_receipt env ''settle'' key x (m\<lparr>mg_rail := st\<rparr>) = (Inr v, m')"
proof -
  obtain answer st where rail: "rail_settle (pe_rail_digest env) (pe_stable_id env) (pe_calls env)
      (pe_adapter_at env) r actual evidence key (mg_rail m) = (Inr answer, st)"
    using call by (auto simp: settle_on_rail_def on_rail_ok)
  with call that show ?thesis
    by (cases answer) (auto simp: settle_on_rail_def on_rail_ok split: if_splits)
qed

lemma settle_claimed_done:
  assumes call: "settle_claimed env claim r actual evidence key m = (Inr v, m')"
    and key: "payment_operation_key ''settle'' key = Inr k" and claimed: "hashed k d (mg_store m)"
  shows "settled_by k d v (mg_store m') \<and> payload_of i (mg_store m') = payload_of i (mg_store m)
    \<and> rl_settlement_currency (mg_rail m') = rl_settlement_currency (mg_rail m)"
proof -
  obtain q s u m1 where intent: "claim_payment_settlement_v2 (pv_reservation_id r) key (pe_claim_at env)
        (mg_store m) = (Inr q, s)"
    and executing: "mark_executing ''settle'' key claim (m\<lparr>mg_store := s\<rparr>) = (Inr u, m1)"
    and settling: "settle_on_rail env q actual evidence key m1 = (Inr v, m')"
    using call by (auto simp: settle_claimed_def on_store_ok)
  from settle_on_rail_ok [OF settling] obtain x st where
    rail: "rail_settle (pe_rail_digest env) (pe_stable_id env) (pe_calls env) (pe_adapter_at env)
      q actual evidence key (mg_rail m1) = (Inr (Res_settlement x), st)"
    and stored: "store_receipt env ''settle'' key x (m1\<lparr>mg_rail := st\<rparr>) = (Inr v, m')" by blast
  note kept = intent_kept [OF intent [unfolded claim_payment_settlement_v2_def]]
    and marked = executing_hashed [OF executing key]
  have "hashed k d (mg_store m1)"
    using claimed marked(1) kept(2) by (simp add: hashed_def find_record_def)
  with store_receipt_done [OF stored key, of d i] have
    "settled_by k d v (mg_store m') \<and> payload_of i (mg_store m') = payload_of i (mg_store m1) \<and> mg_rail m' = st"
    by simp
  with kept(1) marked(2,4) rail_settle_currency [OF rail] show ?thesis
    by (auto dest: payload_of_same)
qed

lemma settle_v2_call:
  assumes call: "settle_v2 bp env rid actual evidence key m = (Inr v, m')"
  obtains r c k s where "get_payment_reservation_v2 rid (mg_store m) = Some r"
    "validate_settlement_request r actual evidence = Inr ()" "require_v2_adapter bp m = Inr ()"
    "payment_operation_key ''settle'' key = Inr k"
    "claim_payment_operation ''settle'' key
       (pe_digest env (Req_settle (reservation_identity r) actual evidence)) (mg_store m) = (Inr c, s)"
    "completed_claim c \<Longrightarrow>
       load_completed_settlement (the c) (m\<lparr>mg_store := s\<rparr>) = Inr v \<and> m' = m\<lparr>mg_store := s\<rparr>"
    "\<not> completed_claim c \<Longrightarrow> \<forall>x. find_settlement (pe_stable_id env ''settlement'' key) s = Some x \<longrightarrow>
       (\<exists>u. complete_operation ''settle'' key (Res_settlement v) (m\<lparr>mg_store := s\<rparr>) = (Inr u, m') \<and> x = v)"
    "\<not> completed_claim c \<Longrightarrow> find_settlement (pe_stable_id env ''settlement'' key) s = None \<Longrightarrow>
       settle_claimed env c r actual evidence key (m\<lparr>mg_store := s\<rparr>) = (Inr v, m')"
proof -
  obtain r where r: "get_payment_reservation_v2 rid (mg_store m) = Some r"
      "validate_settlement_request r actual evidence = Inr ()" "require_v2_adapter bp m = Inr ()"
    using call by (auto simp: settle_v2_def split: sum.split_asm option.split_asm)
  let ?d = "pe_digest env (Req_settle (reservation_identity r) actual evidence)"
  obtain c m1 where claimed: "on_store (claim_payment_operation ''settle'' key ?d) m = (Inr c, m1)"
    and rest: "(if completed_claim c then (load_completed_settlement (the c) m1, m1)
       else case find_settlement (pe_stable_id env ''settlement'' key) (mg_store m1) of
         Some existing \<Rightarrow> and_then (complete_operation ''settle'' key (Res_settlement existing) m1)
             (\<lambda>_ m. (Ok existing, m))
       | None \<Rightarrow> (case get_prepared_decision (pv_prepared_id r) (mg_store m1) of
           None \<Rightarrow> (Err (ConfigurationError ''prepared decision is not ready for settlement''), m1)
         | Some d \<Rightarrow> if pd_state d \<noteq> Prep_SETTLING
             then (Err (ConfigurationError ''prepared decision is not ready for settlement''), m1)
             else settle_claimed env c r actual evidence key m1)) = (Inr v, m')"
    using call r by (auto simp: settle_v2_def)
  then obtain s where claim: "claim_payment_operation ''settle'' key ?d (mg_store m) = (Inr c, s)"
    and m1: "m1 = m\<lparr>mg_store := s\<rparr>" by (auto simp: on_store_ok)
  obtain k where key: "payment_operation_key ''settle'' key = Inr k"
    using claim by (cases "payment_operation_key ''settle'' key")
      (auto simp: claim_payment_operation_def with_payment_key_def)
  show ?thesis
    by (rule that [OF r key claim]) (use rest in \<open>auto simp: m1 split: option.splits if_splits\<close>)
qed

lemma settle_v2_done:
  assumes call: "settle_v2 bp env rid actual evidence key m = (Inr v, m')"
  obtains r k where "get_payment_reservation_v2 rid (mg_store m) = Some r"
    "validate_settlement_request r actual evidence = Inr ()"
    "payment_operation_key ''settle'' key = Inr k"
    "settled_by k (pe_digest env (Req_settle (reservation_identity r) actual evidence)) v (mg_store m')"
    "payload_of rid (mg_store m') = payload_of rid (mg_store m)"
    "require_v2_adapter bp m' = Inr ()"
proof -
  from settle_v2_call [OF call] obtain r c k s where r: "get_payment_reservation_v2 rid (mg_store m) = Some r"
    and valid: "validate_settlement_request r actual evidence = Inr ()" "require_v2_adapter bp m = Inr ()"
    and key: "payment_operation_key ''settle'' key = Inr k"
    and claim: "claim_payment_operation ''settle'' key
       (pe_digest env (Req_settle (reservation_identity r) actual evidence)) (mg_store m) = (Inr c, s)"
    and completed: "completed_claim c \<Longrightarrow>
       load_completed_settlement (the c) (m\<lparr>mg_store := s\<rparr>) = Inr v \<and> m' = m\<lparr>mg_store := s\<rparr>"
    and existing: "\<not> completed_claim c \<Longrightarrow> \<forall>x. find_settlement (pe_stable_id env ''settlement'' key) s = Some x \<longrightarrow>
       (\<exists>u. complete_operation ''settle'' key (Res_settlement v) (m\<lparr>mg_store := s\<rparr>) = (Inr u, m') \<and> x = v)"
    and settling: "\<not> completed_claim c \<Longrightarrow>
       find_settlement (pe_stable_id env ''settlement'' key) s = None \<Longrightarrow>
       settle_claimed env c r actual evidence key (m\<lparr>mg_store := s\<rparr>) = (Inr v, m')" by metis
  define d where "d = pe_digest env (Req_settle (reservation_identity r) actual evidence)"
  note claimed = claim_hashed [OF claim key]
  have hashed: "hashed k d (mg_store (m\<lparr>mg_store := s\<rparr>))" using claimed(1) by (simp add: d_def)
  have "settled_by k d v (mg_store m') \<and> payload_of rid (mg_store m') = payload_of rid s
    \<and> rl_settlement_currency (mg_rail m') = rl_settlement_currency (mg_rail m)"
  proof (cases "completed_claim c")
    case True
    then obtain row where row: "c = Some row" "ir_state row = Idem_complete"
      by (auto simp: completed_claim_def split: option.splits)
    from completed [OF True] row(1) obtain i where "result_id_of row ''SettlementReceipt'' = Inr i"
        "find_settlement i s = Some v" "m' = m\<lparr>mg_store := s\<rparr>"
      by (auto simp: load_completed_settlement_def split: sum.splits option.splits)
    with claimed(5) [OF row(1)] find_settlement_Some(2) show ?thesis
      by (auto simp: result_id_of_def settled_by_def d_def split: if_splits list.splits)
  next
    case False
    show ?thesis
    proof (cases "find_settlement (pe_stable_id env ''settlement'' key) s")
      case None
      with settle_claimed_done [OF settling [OF False None] key hashed, of rid] show ?thesis by simp
    next
      case (Some x)
      from existing [OF False] Some obtain u where
        "complete_operation ''settle'' key (Res_settlement v) (m\<lparr>mg_store := s\<rparr>) = (Inr u, m')" "x = v" by blast
      with complete_settled [OF this(1) key hashed] Some find_settlement_Some [OF Some] show ?thesis
        by (auto dest: payload_of_same)
    qed
  qed
  then have "settled_by k d v (mg_store m')" "payload_of rid (mg_store m') = payload_of rid (mg_store m)"
    "require_v2_adapter bp m' = Inr ()"
    using payload_of_same [OF claimed(2)] valid(2) by (simp_all add: require_v2_adapter_def)
  with that [OF r valid(1) key] show ?thesis by (simp add: d_def)
qed

lemma identity_payload: "reservation_identity (payment_from_row y) = reservation_identity (py_payload y)"
  by (simp add: reservation_identity_def payment_from_row_def)

lemma validate_payload:
  "validate_settlement_request (payment_from_row y) actual evidence
     = validate_settlement_request (py_payload y) actual evidence"
  by (simp add: validate_settlement_request_def payment_from_row_def)

text \<open>
  C9 A settlement that returned a receipt is final for its caller: calling \<open>settle_v2\<close> again
  with the same arguments, at whatever time and whatever the rail would answer, returns the
  same receipt and touches neither the store nor the rail, so no money moves twice.
\<close>

theorem settlement_retry_is_silent:
  assumes first: "settle_v2 bp env rid actual evidence key m = (Inr x, m')"
    and same: "pe_digest env' = pe_digest env"
  shows "settle_v2 bp env' rid actual evidence key m' = (Inr x, m')"
proof -
  from settle_v2_done [OF first] obtain r k where r: "get_payment_reservation_v2 rid (mg_store m) = Some r"
    and valid: "validate_settlement_request r actual evidence = Inr ()"
    and key: "payment_operation_key ''settle'' key = Inr k"
    and settled: "settled_by k (pe_digest env (Req_settle (reservation_identity r) actual evidence)) x (mg_store m')"
    and kept: "payload_of rid (mg_store m') = payload_of rid (mg_store m)"
    and adapter: "require_v2_adapter bp m' = Inr ()" .
  from r kept obtain y y' where y: "r = payment_from_row y" "payment_row_of rid (mg_store m') = Some y'"
      "py_payload y' = py_payload y"
    by (auto simp: get_payment_reservation_v2_def payload_of_def)
  from settled obtain row where row: "find_record k (mg_store m') = Some row"
      "ir_request_hash row = pe_digest env (Req_settle (reservation_identity r) actual evidence)"
      "ir_state row = Idem_complete" "ir_status row = Some ''SettlementReceipt''"
      "ir_receipt_ids row = [sr_settlement_id x]" "find_settlement (sr_settlement_id x) (mg_store m') = Some x"
    by (auto simp: settled_by_def)
  have "get_payment_reservation_v2 rid (mg_store m') = Some (payment_from_row y')"
    by (simp add: get_payment_reservation_v2_def y(2))
  moreover have "validate_settlement_request (payment_from_row y') actual evidence = Inr ()"
    "reservation_identity (payment_from_row y') = reservation_identity r"
    using valid y by (simp_all add: validate_payload identity_payload)
  moreover have "on_store (claim_payment_operation ''settle'' key
      (pe_digest env' (Req_settle (reservation_identity r) actual evidence))) m' = (Inr (Some row), m')"
    using row(1,2) key by (simp add: on_store_def claim_payment_operation_def with_payment_key_def
        claim_idempotency_def same)
  moreover have "load_completed_settlement row m' = Inr x"
    using row(3-) by (simp add: load_completed_settlement_def result_id_of_def)
  ultimately show ?thesis
    using row(3) adapter by (simp add: settle_v2_def completed_claim_def)
qed

section \<open>Money that moved and is never recorded\<close>

lemma or_recover_error: "fst p = Inl e \<Longrightarrow> \<exists>e'. fst (or_recover p handler) = Inl e'"
  by (cases p) (auto simp: or_recover_def split: prod.split sum.split)

lemma and_then_error: "\<exists>e. fst p = Inl e \<Longrightarrow> \<exists>e'. fst (and_then p f) = Inl e'"
  by (cases p) (auto simp: and_then_def)

text \<open>A receipt that is older than the reservation is refused.\<close>

lemma early_receipt_refused:
  assumes y: "payment_row_of (sr_reservation_id x) s = Some y" and "sr_settled_at x < py_updated_at y"
    and absent: "find_settlement (sr_settlement_id x) s = None"
  shows "\<exists>e. save_settlement_receipt result_id tid x s = (Inl e, s)"
proof (cases "save_settlement_receipt result_id tid x s")
  case (Pair q s')
  show ?thesis
  proof (cases q)
    case (Inl e)
    with Pair save_settlement_receipt_error show ?thesis by blast
  next
    case (Inr v)
    with Pair have "save_settlement_receipt result_id tid x s = (Inr v, s')" by simp
    then show ?thesis
    proof (cases rule: settlement_result)
      case (found y w)
      then show ?thesis using absent select_row_SomeD [OF found(8)]
        by (auto simp: find_settlement_def select_row_None)
    next
      case (stored y' w tr h b)
      with y assms(2) show ?thesis by (auto simp: settlement_state_errors_def Let_def)
    qed
  qed
qed

lemma resumed_intent:
  assumes call: "claim_payment_intent_v2 rid operation key required t s = (Inr q, s')"
    and y: "payment_row_of rid s = Some y" and "py_state y = Pay_INDETERMINATE"
  shows "\<exists>y'. payment_row_of rid s' = Some y' \<and> py_updated_at y' = t \<and> pv_reservation_id q = rid"
proof -
  have id: "is_payment rid y" using y select_row_SomeD [of "is_payment rid"] by (auto simp: payment_row_of_def)
  have "enter_settling rid (operation, key) t True y s = (Inr q, s')"
    using assms by (auto simp: claim_payment_intent_v2_def transaction_ok Let_def
        split: if_splits sum.splits option.splits)
  moreover have "payment_row_of rid (set_payment (is_payment rid) f s) = Some (f y)"
    if "\<And>z. py_payload (f z) = py_payload z" for f
    using y id select_updated [of "is_payment rid" f "is_payment rid" "payment_reservations s"] that
    by (simp add: payment_row_of_def set_payment_def is_payment_def)
  ultimately show ?thesis
    using id by (auto simp: enter_settling_def Let_def is_payment_def payment_from_row_def)
qed

lemma resumed_settlement_refused:
  assumes cached: "rl_operations (mg_rail m) (''settle:'' @ key) = Some (d, Res_settlement x)"
    and y: "payment_row_of (pv_reservation_id r) (mg_store m) = Some y" "py_state y = Pay_INDETERMINATE"
    and late: "sr_settled_at x < pe_claim_at env"
    and absent: "find_settlement (pe_stable_id env ''settlement'' key) (mg_store m) = None"
    and key: "payment_operation_key ''settle'' key = Inr k"
  shows "settle_claimed env claim r actual evidence key m \<noteq> (Inr v, m')"
proof
  assume "settle_claimed env claim r actual evidence key m = (Inr v, m')"
  then obtain q s u m1 where intent: "claim_payment_settlement_v2 (pv_reservation_id r) key (pe_claim_at env)
        (mg_store m) = (Inr q, s)"
    and executing: "mark_executing ''settle'' key claim (m\<lparr>mg_store := s\<rparr>) = (Inr u, m1)"
    and settling: "settle_on_rail env q actual evidence key m1 = (Inr v, m')"
    by (auto simp: settle_claimed_def on_store_ok)
  note marked = executing_hashed [OF executing key]
    and kept = intent_kept [OF intent [unfolded claim_payment_settlement_v2_def]]
  obtain y' where y': "payment_row_of (pv_reservation_id r) s = Some y'" "py_updated_at y' = pe_claim_at env"
      "pv_reservation_id q = pv_reservation_id r"
    using resumed_intent [OF intent [unfolded claim_payment_settlement_v2_def] y] by blast
  from settle_on_rail_ok [OF settling] obtain z st where
    rail: "rail_settle (pe_rail_digest env) (pe_stable_id env) (pe_calls env) (pe_adapter_at env)
      q actual evidence key (mg_rail m1) = (Inr (Res_settlement z), st)"
    and z: "sr_settlement_id z = pe_stable_id env ''settlement'' key" "\<not> settlement_invalid z q actual (rl_name st)"
    and stored: "store_receipt env ''settle'' key z (m1\<lparr>mg_rail := st\<rparr>) = (Inr v, m')" .
  have "z = x" using rail cached marked(4)
    by (auto simp: rail_settle_def run_operation_def Let_def split: if_splits)
  have row: "payment_row_of (sr_reservation_id z) (mg_store m1) = Some y'"
    using z(2) y' marked(2) by (simp add: settlement_invalid_def payment_row_of_def)
  have none: "find_settlement (sr_settlement_id z) (mg_store m1) = None"
    using absent marked(3) kept(3) z(1) by (simp add: find_settlement_def)
  have "sr_settled_at z < py_updated_at y'" using late y'(2) \<open>z = x\<close> by simp
  from early_receipt_refused [OF row this none, of "payment_operation_result_id (pe_stable_id env)"
      "pe_transition_id env"] stored show False
    by (auto simp: store_receipt_def on_store_ok)
qed

text \<open>
  C10 When the rail has settled a reservation and answered with a receipt, but the receipt was
  not stored and the reservation became indeterminate, a later \<open>settle_v2\<close> on that rail fails:
  the call moves the reservation's update time to the time of the call, the rail answers from
  its cache with the receipt of the first time, and the store refuses a receipt that is older
  than the update. The money has moved and cannot be recorded.
\<close>

theorem stranded_settlement:
  assumes cached: "rl_operations (mg_rail m) (''settle:'' @ key) = Some (d, Res_settlement x)"
    and y: "payment_row_of rid (mg_store m) = Some y" "py_state y = Pay_INDETERMINATE"
    and late: "sr_settled_at x < pe_claim_at env"
    and absent: "find_settlement (pe_stable_id env ''settlement'' key) (mg_store m) = None"
    and unfinished: "\<And>row. find_record (''payment:settle:'' @ key) (mg_store m) = Some row \<Longrightarrow>
        ir_state row \<noteq> Idem_complete"
  shows "\<exists>e m'. settle_v2 bp env rid actual evidence key m = (Inl e, m')"
proof (rule ccontr)
  assume "\<nexists>e m'. settle_v2 bp env rid actual evidence key m = (Inl e, m')"
  then obtain v m' where call: "settle_v2 bp env rid actual evidence key m = (Inr v, m')"
    by (metis surj_pair sum.exhaust)
  from settle_v2_call [OF call] obtain r c k s where r: "get_payment_reservation_v2 rid (mg_store m) = Some r"
    and key: "payment_operation_key ''settle'' key = Inr k"
    and claim: "claim_payment_operation ''settle'' key
       (pe_digest env (Req_settle (reservation_identity r) actual evidence)) (mg_store m) = (Inr c, s)"
    and settling: "\<not> completed_claim c \<Longrightarrow>
       find_settlement (pe_stable_id env ''settlement'' key) s = None \<Longrightarrow>
       settle_claimed env c r actual evidence key (m\<lparr>mg_store := s\<rparr>) = (Inr v, m')" by metis
  note claimed = claim_hashed [OF claim key]
  have "k = ''payment:settle:'' @ key"
    using key by (auto simp: payment_operation_key_def split: if_splits)
  with unfinished claimed(5) have "\<not> completed_claim c"
    by (cases c) (auto simp: completed_claim_def)
  moreover have none: "find_settlement (pe_stable_id env ''settlement'' key) s = None"
    using absent claimed(3) by (simp add: find_settlement_def)
  ultimately have "settle_claimed env c r actual evidence key (m\<lparr>mg_store := s\<rparr>) = (Inr v, m')"
    by (rule settling)
  moreover have "payment_row_of (pv_reservation_id r) s = Some y"
    using y(1) r claimed(2) select_row_SomeD [of "is_payment rid" "payment_reservations (mg_store m)" y]
    by (auto simp: get_payment_reservation_v2_def payment_from_row_def payment_row_of_def is_payment_def)
  ultimately show False
    using resumed_settlement_refused [OF _ _ y(2) late _ key] cached none by simp
qed

section \<open>Samples\<close>

definition local_rail :: rail where
  "local_rail = prepaid_rail\<lparr>rl_name := ''local''\<rparr>"

definition saved_env :: "datetime \<Rightarrow> payment_env" where
  "saved_env t = (sample_env t ''tr8'')\<lparr>pe_stable_id := (\<lambda>_ _. ''s1'')\<rparr>"

text \<open>The receipt is stored, but its operation record was not completed.\<close>

definition saved_manager :: manager where
  "saved_manager = \<lparr>mg_store = empty_store\<lparr>
       payment_reservations := [(fresh_payment_row paid_reservation)\<lparr>py_state := Pay_SETTLED,
         py_updated_at := Aware 7\<rparr>],
       settlement_receipts := [paid_receipt Set_SETTLED]\<rparr>, mg_rail = local_rail\<rparr>"

lemma saved_manager_settles:
  "\<exists>m'. settle_v2 sample_budget (saved_env (Aware 8)) ''r1'' (dollars 3) sample_evidence ''key2'' saved_manager
     = (Inr (paid_receipt Set_SETTLED), m')"
proof -
  have r: "get_payment_reservation_v2 ''r1'' (mg_store saved_manager)
      = Some (paid_reservation\<lparr>pv_state := Pay_SETTLED, pv_updated_at := Aware 7\<rparr>)"
    by (simp add: saved_manager_def get_payment_reservation_v2_def payment_row_of_def is_payment_def
        fresh_payment_row_def payment_from_row_def paid_reservation_def)
  have adapter: "require_v2_adapter sample_budget saved_manager = Inr ()"
    by (simp add: require_v2_adapter_def sample_budget_def saved_manager_def local_rail_def prepaid_rail_def)
  have valid: "validate_settlement_request (paid_reservation\<lparr>pv_state := Pay_SETTLED, pv_updated_at := Aware 7\<rparr>)
      (dollars 3) sample_evidence = Inr ()"
    by (simp add: validate_settlement_request_def paid_reservation_def dollars_def sample_evidence_def)
  have rows: "idempotency_records (mg_store saved_manager) = []"
    "settlement_receipts (mg_store saved_manager) = [paid_receipt Set_SETTLED]"
    by (simp_all add: saved_manager_def)
  have ids: "sr_settlement_id (paid_receipt Set_SETTLED) = ''s1''" "pe_stable_id (saved_env (Aware 8)) i k = ''s1''" for i k
    by (simp_all add: paid_receipt_def saved_env_def)
  show ?thesis
    by (simp add: settle_v2_def r adapter valid on_store_def claim_payment_operation_def with_payment_key_def
        payment_operation_key_def claim_idempotency_def find_record_def rows completed_claim_def
        find_settlement_def ids complete_operation_def complete_payment_operation_def
        immediate_transaction_def and_then_def Let_def)
qed

theorem settlement_retry_is_silent_witness:
  "\<exists>m'. settle_v2 sample_budget (saved_env (Aware 8)) ''r1'' (dollars 3) sample_evidence ''key2'' saved_manager
       = (Inr (paid_receipt Set_SETTLED), m')
     \<and> settle_v2 sample_budget (saved_env (Aware 9)) ''r1'' (dollars 3) sample_evidence ''key2'' m'
       = (Inr (paid_receipt Set_SETTLED), m')"
proof -
  obtain m' where first: "settle_v2 sample_budget (saved_env (Aware 8)) ''r1'' (dollars 3) sample_evidence ''key2''
      saved_manager = (Inr (paid_receipt Set_SETTLED), m')"
    using saved_manager_settles by blast
  have "pe_digest (saved_env (Aware 9)) = pe_digest (saved_env (Aware 8))"
    by (simp add: saved_env_def sample_env_def)
  from settlement_retry_is_silent [OF first this] first show ?thesis by blast
qed

text \<open>The rail has settled, storing its receipt failed, and the clock has moved on.\<close>

definition stranded_manager :: manager where
  "stranded_manager = \<lparr>mg_store = empty_store\<lparr>
       payment_reservations := [(fresh_payment_row paid_reservation)\<lparr>py_state := Pay_INDETERMINATE,
         py_operation_intent := Some (''settle'', ''key2''), py_updated_at := Aware 8,
         py_indeterminate_reason := Some ''payment settlement adapter failed''\<rparr>],
       prepared_route_decisions := [\<lparr>pw_decision = paid_decision, pw_state = Prep_SETTLING,
         pw_claim_token = Some ''tok'', pw_claimed_at = Some (Aware 2)\<rparr>],
       bounded_quotes := [paid_quote],
       idempotency_records := [\<lparr>ir_key = ''payment:settle:key2'', ir_request_hash = ''d'',
         ir_state = Idem_indeterminate, ir_decision_id = None, ir_status = None, ir_receipt_ids = []\<rparr>]\<rparr>,
     mg_rail = local_rail\<lparr>rl_operations := [''settle:key2'' \<mapsto> (''d'', Res_settlement (paid_receipt Set_SETTLED))]\<rparr>\<rparr>"

theorem stranded_settlement_witness:
  "\<exists>e m'. settle_v2 sample_budget (saved_env (Aware 9)) ''r1'' (dollars 3) sample_evidence ''key2'' stranded_manager
     = (Inl e, m')"
proof (rule stranded_settlement)
  show "rl_operations (mg_rail stranded_manager) (''settle:'' @ ''key2'')
      = Some (''d'', Res_settlement (paid_receipt Set_SETTLED))"
    by (simp add: stranded_manager_def)
  show "payment_row_of ''r1'' (mg_store stranded_manager) = Some ((fresh_payment_row paid_reservation)\<lparr>
      py_state := Pay_INDETERMINATE, py_operation_intent := Some (''settle'', ''key2''), py_updated_at := Aware 8,
      py_indeterminate_reason := Some ''payment settlement adapter failed''\<rparr>)"
    by (simp add: stranded_manager_def payment_row_of_def is_payment_def fresh_payment_row_def paid_reservation_def)
  show "sr_settled_at (paid_receipt Set_SETTLED) < pe_claim_at (saved_env (Aware 9))"
    by (simp add: paid_receipt_def saved_env_def sample_env_def less_datetime_def)
qed (auto simp: stranded_manager_def find_settlement_def find_record_def)

end
