(* ===== verification/Idempotency_Runs.thy ===== *)
theory Idempotency_Runs
  imports Prepared_Recovery
begin

text \<open>
  Runs of the store as far as the idempotency records see them: the operations on action and
  payment keys of \<open>Idempotency\<close>, the claim, abandonment and completion of a prepared action's
  key in \<open>Prepared_Store\<close> and \<open>Prepared_Recovery\<close>, and every other operation, which leaves the
  table as it is. No run makes a key that was once executing claimable again.
\<close>

section \<open>The operations that write the records\<close>

inductive record_step :: "store \<Rightarrow> store \<Rightarrow> bool" where
  claim: "record_step s (snd (claim_idempotency k h s))"
| complete: "record_step s (snd (complete_idempotency k d st ids s))"
| abandon: "record_step s (snd (abandon_idempotency k s))"
| executing: "record_step s (snd (mark_idempotency_executing k s))"
| indeterminate: "record_step s (snd (mark_idempotency_indeterminate k s))"
| claim_payment: "record_step s (snd (claim_payment_operation op k h s))"
| complete_payment: "record_step s (snd (complete_payment_operation op k ty rid s))"
| executing_payment: "record_step s (snd (mark_payment_operation_executing op k s))"
| indeterminate_payment: "record_step s (snd (mark_payment_operation_indeterminate op k s))"
| abandon_payment: "record_step s (snd (abandon_payment_operation op k s))"
| claim_action: "record_step s (snd (claim_prepared_decision_with_action_idempotency pid token t k digest s))"
| abandon_action: "record_step s (snd (abandon_prepared_action_idempotency tid pid digest t token s))"
| complete_action: "record_step s (snd (complete_prepared_action_idempotency pid digest d st rid s))"
| other: "idempotency_records s' = idempotency_records s \<Longrightarrow> record_step s s'"

lemma transaction_change:
  assumes "record_change (idempotency_records s) (idempotency_records (snd (body s)))"
  shows "record_change (idempotency_records s) (idempotency_records (snd (immediate_transaction body s)))"
  using assms by (auto simp: immediate_transaction_def record_change.keep split: prod.splits sum.splits)

lemma action_claim_change: "record_change (idempotency_records s)
    (idempotency_records (snd (claim_prepared_decision_with_action_idempotency pid token t k digest s)))"
proof -
  have fresh: "find_record k s = None \<Longrightarrow>
      record_change (idempotency_records s) (idempotency_records s @ [r])" if "ir_key r = k" for r
    using that by (intro record_change.fresh) (auto simp: find_record_def select_row_None)
  show ?thesis
    unfolding claim_prepared_decision_with_action_idempotency_def
    by (auto simp: Let_def record_change.keep fresh intro!: transaction_change split: sum.split option.split)
qed

lemma abandon_state_records:
  "abandon_state tid pid t token w s = (v, s') \<Longrightarrow> idempotency_records s' = idempotency_records s"
  by (auto simp: abandon_state_def transition_prepared_locked_def Let_def split: if_splits sum.splits option.splits)

lemma action_abandon_change: "record_change (idempotency_records s)
    (idempotency_records (snd (abandon_prepared_action_idempotency tid pid digest t token s)))"
  unfolding abandon_prepared_action_idempotency_def
  by (auto simp: Let_def record_change.keep abandon_state_records intro!: transaction_change record_change.drop
      split: sum.split option.split prod.split)

lemma action_completion_change: "record_change (idempotency_records s)
    (idempotency_records (snd (complete_prepared_action_idempotency pid digest d st rid s)))"
  unfolding complete_prepared_action_idempotency_def
  by (auto simp: record_change.keep intro!: transaction_change record_change.move split: sum.split option.split)

lemma record_step_change:
  "record_step s s' \<Longrightarrow> record_change (idempotency_records s) (idempotency_records s')"
  by (induction rule: record_step.induct)
    (simp_all add: claim_change abandon_change complete_change executing_change indeterminate_change
      complete_payment_change executing_payment_change claim_payment_operation_def
      mark_payment_operation_indeterminate_def abandon_payment_operation_def with_payment_change
      action_claim_change action_abandon_change action_completion_change record_change.keep)

section \<open>Property\<close>

lemma record_run_get:
  assumes "record_step\<^sup>*\<^sup>* s s'" and "distinct (map ir_key (idempotency_records s))"
    and "r \<in> set (idempotency_records s)" and "ir_state r \<noteq> Idem_claimed"
  shows "distinct (map ir_key (idempotency_records s'))
    \<and> (\<exists>q \<in> set (idempotency_records s'). ir_key q = ir_key r
        \<and> ir_request_hash q = ir_request_hash r \<and> ir_state q \<noteq> Idem_claimed
        \<and> (ir_state r = Idem_complete \<longrightarrow> q = r))"
  using assms
proof (induction rule: rtranclp_induct)
  case (step y z)
  then obtain q where d: "distinct (map ir_key (idempotency_records y))"
    and q: "q \<in> set (idempotency_records y)" "ir_key q = ir_key r"
      "ir_request_hash q = ir_request_hash r" "ir_state q \<noteq> Idem_claimed"
      "ir_state r = Idem_complete \<longrightarrow> q = r" by blast
  note ch = record_step_change [OF step.hyps(2)]
  from record_change_get [OF ch d q(1,4)] obtain p where p:
    "p \<in> set (idempotency_records z)" "ir_key p = ir_key q" "ir_request_hash p = ir_request_hash q"
    "p = q \<or> ir_state p \<in> set (record_transitions (ir_state q))" by blast
  have "ir_state p \<noteq> Idem_claimed" using p(4) q(4) by (cases "ir_state q") auto
  moreover have "ir_state r = Idem_complete \<longrightarrow> p = r" using p(4) q(5) by auto
  ultimately show ?case using record_change_distinct [OF ch d] p q by auto
qed blast

text \<open>
  C36 Once a key is executing, indeterminate or complete, no sequence of operations of the
  store makes it claimable again, be they on action keys, payment keys or prepared actions: a
  claim of the key then finds a record of the same request or is refused, and a complete record
  is found exactly as it was completed.
\<close>

theorem executed_key_never_reclaimed:
  assumes run: "record_step\<^sup>*\<^sup>* s s'" and d: "distinct (map ir_key (idempotency_records s))"
    and r: "find_record k s = Some r" and live: "ir_state r \<noteq> Idem_claimed"
  shows "\<exists>q. find_record k s' = Some q \<and> ir_request_hash q = ir_request_hash r
    \<and> (ir_state r = Idem_complete \<longrightarrow> q = r)
    \<and> fst (claim_idempotency k h s') \<noteq> Inr None"
proof -
  have mem: "r \<in> set (idempotency_records s)" "ir_key r = k"
    using select_row_SomeD r by (force simp: find_record_def)+
  from record_run_get [OF run d mem(1) live] obtain q where
    d': "distinct (map ir_key (idempotency_records s'))" and q: "q \<in> set (idempotency_records s')"
      "ir_key q = ir_key r" "ir_request_hash q = ir_request_hash r"
      "ir_state r = Idem_complete \<longrightarrow> q = r" by blast
  have "find_record k s' = Some q"
    using select_key_Some [OF d' q(1)] q(2) mem(2) by (simp add: find_record_def)
  with q show ?thesis by (auto simp: claim_idempotency_def)
qed

definition completed_payment :: store where
  "completed_payment =
     snd (complete_payment_operation ''settle'' ''k'' ''settlement'' ''s1''
       (snd (claim_payment_operation ''settle'' ''k'' ''h'' empty_store)))"

lemma completed_payment_records:
  "idempotency_records completed_payment =
     [\<lparr>ir_key = ''payment:settle:k'', ir_request_hash = ''h'', ir_state = Idem_complete,
       ir_decision_id = Some ''settle'', ir_status = Some ''settlement'', ir_receipt_ids = [''s1'']\<rparr>]"
  by (simp add: completed_payment_def complete_payment_operation_def claim_payment_operation_def
      with_payment_key_def payment_operation_key_def claim_idempotency_def find_record_def
      immediate_transaction_def Let_def)

theorem executed_key_never_reclaimed_witness:
  "fst (claim_idempotency ''payment:settle:k'' ''h''
     (snd (abandon_payment_operation ''settle'' ''k'' completed_payment))) \<noteq> Inr None"
proof -
  have "record_step\<^sup>*\<^sup>* completed_payment (snd (abandon_payment_operation ''settle'' ''k'' completed_payment))"
    by (rule r_into_rtranclp) (rule record_step.abandon_payment)
  moreover have "find_record ''payment:settle:k'' completed_payment
      = Some (hd (idempotency_records completed_payment))"
    by (simp add: find_record_def completed_payment_records)
  ultimately show ?thesis
    using executed_key_never_reclaimed [of completed_payment _ "''payment:settle:k''"]
    by (fastforce simp: completed_payment_records)
qed

end
