(* ===== verification/Cash_Reporting.thy ===== *)
theory Cash_Reporting
  imports Cash_Accounting Payment_Rail Prepared_Models
    "HOL-Library.Char_ord" "HOL-Library.List_Lexorder" "HOL-Library.Product_Lexorder"
begin

text \<open>
  Cash evidence built from economic records (\<open>aeep/accounting.py\<close>): priors from offers and
  quotes, evidence from usage statements, settlements and reconciliations, and the net charge
  that reports show for one settlement after its reconciliation and its refunds. The digest
  of the refunds behind a net charge is an argument.
\<close>

section \<open>Evidence of an economic record\<close>

fun level_value :: "EconomicEvidenceLevel \<Rightarrow> string" where
  "level_value Ev_UNKNOWN = ''UNKNOWN''"
| "level_value Ev_STATIC_PRIOR = ''STATIC_PRIOR''"
| "level_value Ev_PUBLISHED_OFFER = ''PUBLISHED_OFFER''"
| "level_value Ev_SIGNED_QUOTE = ''SIGNED_QUOTE''"
| "level_value Ev_SIGNED_USAGE_STATEMENT = ''SIGNED_USAGE_STATEMENT''"
| "level_value Ev_PAYMENT_SETTLEMENT = ''PAYMENT_SETTLEMENT''"
| "level_value Ev_BILLING_RECONCILED = ''BILLING_RECONCILED''"
| "level_value Ev_OPERATOR_ATTESTED = ''OPERATOR_ATTESTED''"

definition economic_evidence ::
  "EconomicEvidenceLevel \<Rightarrow> string \<Rightarrow> EvidenceSource \<Rightarrow> datetime \<Rightarrow> EvidenceStatus \<Rightarrow> TrustLevel
   \<Rightarrow> MeasurementEvidence" where
  "economic_evidence level record_id source observed status trust =
     \<lparr>me_status = status, me_source = source, me_trust = trust, me_evidence_id = Some record_id,
      me_source_reference = Some (''economic-evidence:'' @ level_value level), me_digest = None,
      me_observed_at = Some observed\<rparr>"

definition complete_evidence ::
  "EconomicEvidenceLevel \<Rightarrow> string \<Rightarrow> EvidenceSource \<Rightarrow> datetime \<Rightarrow> MeasurementEvidence" where
  "complete_evidence level record_id source observed =
     economic_evidence level record_id source observed Stat_COMPLETE Trust_VERIFIED"

section \<open>Priors\<close>

text \<open>
  The loop of \<open>cash_estimate_from_offer\<close>: the expected and the maximum total, each lost for
  good when a metered quantity is missing and, for the maximum, the rule names none.
\<close>

definition add_known :: "rat option \<Rightarrow> rat \<Rightarrow> rat option" where
  "add_known t q = map_option (\<lambda>x. x + q) t"

fun offer_totals ::
  "(string \<rightharpoonup> rat) \<Rightarrow> PricingRule list \<Rightarrow> rat option \<Rightarrow> rat option \<Rightarrow> (rat option \<times> rat option) result"
where
  "offer_totals quantities [] expected maximum = Ok (expected, maximum)"
| "offer_totals quantities (r # rs) expected maximum =
     (if pr_per_unit_amount r = None then
        (case evaluate_rule r 0 of
           Inl e \<Rightarrow> Err e
         | Inr a \<Rightarrow> offer_totals quantities rs (add_known expected (amount a)) (add_known maximum (amount a)))
      else
        (case quantities (case pr_meter r of None \<Rightarrow> [] | Some m \<Rightarrow> m) of
           None \<Rightarrow>
             (case pr_maximum_amount r of
                None \<Rightarrow> offer_totals quantities rs None None
              | Some m \<Rightarrow> offer_totals quantities rs None (add_known maximum (amount m)))
         | Some q \<Rightarrow>
             (case evaluate_rule r q of
                Inl e \<Rightarrow> Err e
              | Inr a \<Rightarrow>
                  offer_totals quantities rs (add_known expected (amount a)) (add_known maximum (amount a)))))"

definition mk_cash_estimate :: "rat option \<Rightarrow> rat option \<Rightarrow> MeasurementEvidence \<Rightarrow> CashEstimate result" where
  "mk_cash_estimate q u m =
     (let c = \<lparr>cs_amount_usd = q, cs_upper_bound_usd = u, cs_evidence = m\<rparr> in
      case validate_cash_estimate c of Inl e \<Rightarrow> Err e | Inr _ \<Rightarrow> Ok c)"

definition cash_estimate_from_offer :: "CapabilityOffer \<Rightarrow> (string \<rightharpoonup> rat) \<Rightarrow> CashEstimate result" where
  "cash_estimate_from_offer f quantities =
     (if co_settlement_currency f \<noteq> ''USD''
      then Err (ValueError ''legacy cash estimates only support USD'')
      else
        (case offer_totals quantities (co_pricing_rules f) (Some 0) (Some 0) of
           Inl e \<Rightarrow> Err e
         | Inr (expected, maximum) \<Rightarrow>
             (let upper = (case (maximum, co_fixed_attempt_fee f) of
                             (Some m, Some fee) \<Rightarrow> Some (max m (amount fee)) | _ \<Rightarrow> maximum) in
              mk_cash_estimate expected upper
                (complete_evidence Ev_PUBLISHED_OFFER (co_offer_id f) Src_PROVIDER_REPORT (co_issued_at f)))))"

definition cash_estimate_from_quote :: "BoundedQuote \<Rightarrow> CashEstimate result" where
  "cash_estimate_from_quote q =
     (if currency (bq_maximum_amount q) \<noteq> ''USD''
      then Err (ValueError ''legacy cash estimates only support USD'')
      else mk_cash_estimate (map_option amount (bq_expected_amount q)) (Some (amount (bq_maximum_amount q)))
        (complete_evidence Ev_SIGNED_QUOTE (bq_quote_id q) Src_PROVIDER_REPORT (bq_issued_at q)))"

section \<open>Merging evidence\<close>

definition authoritative :: "CashEvidence \<Rightarrow> bool" where
  "authoritative c =
     (ce_amount c \<noteq> None \<and> ce_classification c \<in> {Cash_VERIFIED, Cash_BILLING_RECONCILED})"

definition cash_status :: "CashEvidence list \<Rightarrow> EvidenceStatus" where
  "cash_status cs =
     (if cs = [] then Stat_UNAVAILABLE
      else if list_all (\<lambda>c. list_ex (\<lambda>d. ce_charge_id d = ce_charge_id c \<and> authoritative d) cs) cs
      then Stat_COMPLETE else Stat_PARTIAL)"

definition merge_cash :: "CashAccounting option \<Rightarrow> CashEvidence \<Rightarrow> CashAccounting result" where
  "merge_cash prior c =
     (let existing = (case prior of None \<Rightarrow> [] | Some a \<Rightarrow> ca_components a);
          eid = me_evidence_id (ce_evidence c) in
      case List.find (\<lambda>d. eid \<noteq> None \<and> me_evidence_id (ce_evidence d) = eid) existing of
        Some d \<Rightarrow>
          if d \<noteq> c then Err (ValueError ''conflicting economic evidence ID'')
          else mk_cash_accounting (cash_status existing) existing
      | None \<Rightarrow> mk_cash_accounting (cash_status (c # existing)) (c # existing))"

definition cash_component ::
  "string \<Rightarrow> rat option \<Rightarrow> string \<Rightarrow> CashClassification \<Rightarrow> MeasurementEvidence \<Rightarrow> string option \<Rightarrow> CashEvidence"
where
  "cash_component charge q cur k m billing =
     \<lparr>ce_charge_id = charge, ce_amount = q, ce_currency = cur, ce_classification = k,
      ce_evidence = m, ce_rate_snapshot_id = None, ce_billing_record_id = billing,
      ce_usage_fingerprint = None, ce_applied_rate_ids = [], ce_applied_meter_quantities = []\<rparr>"

text \<open>Constructing a component runs the validators of its class.\<close>

definition mk_component :: "CashEvidence \<Rightarrow> CashEvidence result" where
  "mk_component c =
     (case validate_measurement (ce_evidence c) of
        Inl e \<Rightarrow> Err e
      | Inr _ \<Rightarrow> (case validate_cash_evidence c of Inl e \<Rightarrow> Err e | Inr _ \<Rightarrow> Ok c))"

definition merge_component :: "CashAccounting option \<Rightarrow> CashEvidence \<Rightarrow> CashAccounting result" where
  "merge_component prior c =
     (case mk_component c of Inl e \<Rightarrow> Err e | Inr d \<Rightarrow> merge_cash prior d)"

definition cash_accounting_from_usage_statement ::
  "UsageStatement \<Rightarrow> string \<Rightarrow> CashAccounting option \<Rightarrow> CashAccounting result" where
  "cash_accounting_from_usage_statement u charge prior =
     (let claimed = us_provider_calculated_amount u in
      merge_component prior
        (cash_component charge (map_option amount claimed)
           (case claimed of None \<Rightarrow> ''USD'' | Some a \<Rightarrow> currency a)
           (if claimed = None then Cash_UNAVAILABLE else Cash_ESTIMATED)
           (economic_evidence Ev_SIGNED_USAGE_STATEMENT (us_usage_statement_id u) Src_PROVIDER_REPORT
              (us_issued_at u) Stat_PARTIAL Trust_VERIFIED) None))"

definition settlement_verified :: "SettlementReceipt \<Rightarrow> bool" where
  "settlement_verified s =
     (sr_status s \<in> {Set_COMPLETED, Set_SETTLED, Set_RELEASED} \<and> is_payment_evidence (sr_evidence_level s))"

definition settlement_component :: "SettlementReceipt \<Rightarrow> CashEvidence" where
  "settlement_component s =
     (let v = settlement_verified s in
      cash_component (sr_charge_id s) (Some (amount (sr_captured_amount s))) (currency (sr_captured_amount s))
        (if v then Cash_VERIFIED else Cash_ESTIMATED)
        (economic_evidence (sr_evidence_level s) (sr_settlement_id s)
           (if v then Src_BILLING_RECORD else Src_OPERATOR_REPORT) (sr_settled_at s)
           (if v then Stat_COMPLETE else Stat_PARTIAL) (if v then Trust_VERIFIED else Trust_OBSERVED))
        (Some (sr_settlement_id s)))"

definition cash_accounting_from_settlement ::
  "SettlementReceipt \<Rightarrow> CashAccounting option \<Rightarrow> CashAccounting result" where
  "cash_accounting_from_settlement s prior = merge_component prior (settlement_component s)"

definition reconciliation_level :: "ReconciliationStatus \<Rightarrow> EconomicEvidenceLevel" where
  "reconciliation_level st =
     (if st \<in> {Recon_MATCHED, Recon_UNDERCHARGED, Recon_OVERCHARGED, Recon_RESOLVED}
      then Ev_BILLING_RECONCILED else Ev_UNKNOWN)"

definition is_billing_reconciled :: "ReconciliationStatus \<Rightarrow> bool" where
  "is_billing_reconciled st = (reconciliation_level st = Ev_BILLING_RECONCILED)"

text \<open>\<open>BillingReconciliation\<close> with its field constraints.\<close>

definition validate_reconciliation :: "BillingReconciliation \<Rightarrow> unit result" where
  "validate_reconciliation b = first_error
     [(\<not> (ident 1 200 (br_reconciliation_id b) \<and> ident 1 200 (br_settlement_id b)
          \<and> ident 1 200 (br_provider_id b) \<and> opt_all (text_len 0 500) (br_invoice_reference b)
          \<and> opt_all (text_len 0 500) (br_billing_record_reference b)
          \<and> valid_amount (br_expected_amount b) \<and> valid_amount (br_billed_amount b)
          \<and> valid_amount (br_discrepancy b) \<and> opt_all sha256_digest (br_evidence_digest b)
          \<and> aware (br_reconciled_at b)), ValueError ''billing reconciliation field''),
      (card {currency (br_expected_amount b), currency (br_billed_amount b),
             currency (br_discrepancy b)} \<noteq> 1,
       ValueError ''reconciliation amounts must use one currency''),
      (amount (br_discrepancy b) \<noteq> \<bar>amount (br_billed_amount b) - amount (br_expected_amount b)\<bar>,
       ValueError ''reconciliation discrepancy does not match billed difference'')]"

definition reconciliation_component :: "BillingReconciliation \<Rightarrow> string \<Rightarrow> CashEvidence" where
  "reconciliation_component b charge =
     (let v = is_billing_reconciled (br_status b) in
      cash_component charge (Some (amount (br_billed_amount b))) (currency (br_billed_amount b))
        (if v then Cash_BILLING_RECONCILED else Cash_ESTIMATED)
        (economic_evidence (if v then Ev_BILLING_RECONCILED else Ev_UNKNOWN) (br_reconciliation_id b)
           (if v then Src_BILLING_RECORD else Src_OPERATOR_REPORT) (br_reconciled_at b)
           (if v then Stat_COMPLETE else Stat_PARTIAL) (if v then Trust_VERIFIED else Trust_OBSERVED))
        (Some (br_reconciliation_id b)))"

definition cash_accounting_from_reconciliation ::
  "BillingReconciliation \<Rightarrow> string \<Rightarrow> CashAccounting option \<Rightarrow> CashAccounting result" where
  "cash_accounting_from_reconciliation b charge prior =
     merge_component prior (reconciliation_component b charge)"

section \<open>The reported charge of a settlement\<close>

definition conflicting_report_cash :: "SettlementReceipt \<Rightarrow> string \<Rightarrow> CashAccounting result" where
  "conflicting_report_cash s reason =
     (case mk_component (cash_component (sr_charge_id s) None (currency (sr_captured_amount s)) Cash_UNAVAILABLE
         \<lparr>me_status = Stat_CONFLICT, me_source = Src_BILLING_RECORD, me_trust = Trust_VERIFIED,
          me_evidence_id = Some (sr_settlement_id s), me_source_reference = Some reason,
          me_digest = None, me_observed_at = Some (sr_settled_at s)\<rparr> None) of
        Inl e \<Rightarrow> Err e
      | Inr c \<Rightarrow> mk_cash_accounting Stat_CONFLICT [c])"

definition eligible_reconciliation :: "SettlementReceipt \<Rightarrow> BillingReconciliation \<Rightarrow> bool" where
  "eligible_reconciliation s b =
     (br_settlement_id b = sr_settlement_id s \<and> is_billing_reconciled (br_status b)
      \<and> br_expected_amount b = sr_captured_amount s
      \<and> (br_invoice_reference b \<noteq> None \<or> br_billing_record_reference b \<noteq> None
         \<or> br_evidence_digest b \<noteq> None))"

text \<open>\<open>max\<close> with a key keeps the first of several maximal items.\<close>

definition max_by :: "('a \<Rightarrow> 'k::linorder) \<Rightarrow> 'a list \<Rightarrow> 'a option" where
  "max_by key xs =
     (case xs of [] \<Rightarrow> None
      | y # ys \<Rightarrow> Some (foldl (\<lambda>best z. if key best < key z then z else best) y ys))"

definition reconciliation_key :: "BillingReconciliation \<Rightarrow> datetime \<times> string" where
  "reconciliation_key b = (br_reconciled_at b, br_reconciliation_id b)"

definition latest_reconciliation ::
  "SettlementReceipt \<Rightarrow> BillingReconciliation list \<Rightarrow> BillingReconciliation option" where
  "latest_reconciliation s bs = max_by reconciliation_key (filter (eligible_reconciliation s) bs)"

text \<open>The loop over the refunds; the result is the reason of a conflict or the unique refunds.\<close>

fun collect_refunds ::
  "SettlementReceipt \<Rightarrow> string \<Rightarrow> RefundReceiptV2 list \<Rightarrow> RefundReceiptV2 list
   \<Rightarrow> string + RefundReceiptV2 list" where
  "collect_refunds s cur unique [] = Inr unique"
| "collect_refunds s cur unique (r # rs) =
     (case List.find (\<lambda>u. rr_refund_id u = rr_refund_id r) unique of
        Some u \<Rightarrow>
          if u \<noteq> r then Inl ''refund ID conflicts with immutable refund evidence''
          else collect_refunds s cur unique rs
      | None \<Rightarrow>
          if rr_settlement_id r \<noteq> sr_settlement_id s \<or> rr_charge_id r \<noteq> sr_charge_id s
             \<or> currency (rr_amount r) \<noteq> cur
          then Inl ''refund binding conflicts with settlement''
          else collect_refunds s cur (unique @ [r]) rs)"

definition refunds_total :: "RefundReceiptV2 list \<Rightarrow> rat" where
  "refunds_total rs = sum_list (map (\<lambda>r. amount (rr_amount r)) rs)"

definition net_component ::
  "(RefundReceiptV2 list \<Rightarrow> string) \<Rightarrow> SettlementReceipt \<Rightarrow> BillingReconciliation option \<Rightarrow> CurrencyAmount
   \<Rightarrow> RefundReceiptV2 list \<Rightarrow> CashEvidence" where
  "net_component digest s b base unique =
     (let level = (case b of Some x \<Rightarrow> reconciliation_level (br_status x) | None \<Rightarrow> sr_evidence_level s);
          times = sr_settled_at s # map rr_refunded_at unique
                  @ (case b of Some x \<Rightarrow> [br_reconciled_at x] | None \<Rightarrow> []) in
      cash_component (sr_charge_id s) (Some (amount base - refunds_total unique)) (currency base)
        (if b \<noteq> None then Cash_BILLING_RECONCILED else Cash_VERIFIED)
        (complete_evidence level (''net_'' @ digest (sort_key rr_refund_id unique)) Src_BILLING_RECORD
           (Max (set times)))
        (Some (case b of Some x \<Rightarrow> br_reconciliation_id x | None \<Rightarrow> sr_settlement_id s)))"

definition net_cash ::
  "(RefundReceiptV2 list \<Rightarrow> string) \<Rightarrow> SettlementReceipt \<Rightarrow> CashAccounting \<Rightarrow> BillingReconciliation option
   \<Rightarrow> CurrencyAmount \<Rightarrow> RefundReceiptV2 list \<Rightarrow> CashAccounting result" where
  "net_cash digest s settled b base unique =
     (if amount base < refunds_total unique
      then conflicting_report_cash s ''refund evidence exceeds the authoritative charge''
      else if unique = [] then
        (case b of None \<Rightarrow> Ok settled
         | Some x \<Rightarrow> cash_accounting_from_reconciliation x (sr_charge_id s) (Some settled))
      else
        (case mk_component (net_component digest s b base unique) of
           Inl e \<Rightarrow> Err e | Inr c \<Rightarrow> mk_cash_accounting Stat_COMPLETE [c]))"

definition cash_accounting_for_reporting ::
  "(RefundReceiptV2 list \<Rightarrow> string) \<Rightarrow> SettlementReceipt \<Rightarrow> BillingReconciliation list
   \<Rightarrow> RefundReceiptV2 list \<Rightarrow> CashAccounting result" where
  "cash_accounting_for_reporting digest s reconciliations refunds =
     (case cash_accounting_from_settlement s None of
        Inl e \<Rightarrow> Err e
      | Inr settled \<Rightarrow>
          if actual_cash_cost settled (currency (sr_captured_amount s)) = None then Ok settled
          else
            (let b = latest_reconciliation s reconciliations;
                 base = (case b of None \<Rightarrow> sr_captured_amount s | Some x \<Rightarrow> br_billed_amount x) in
             if currency base \<noteq> currency (sr_captured_amount s)
             then conflicting_report_cash s ''reconciliation currency conflicts with settlement''
             else
               (case collect_refunds s (currency base) [] refunds of
                  Inl reason \<Rightarrow> conflicting_report_cash s reason
                | Inr unique \<Rightarrow> net_cash digest s settled b base unique)))"

section \<open>Components and accountings\<close>

lemma max_by_in: "max_by key xs = Some x \<Longrightarrow> x \<in> set xs"
proof (cases xs)
  case (Cons y ys)
  have "foldl (\<lambda>best z. if key best < key z then z else best) y zs \<in> insert y (set zs)" for zs
    by (induction zs arbitrary: y) (auto split: if_splits)
  then show "max_by key xs = Some x \<Longrightarrow> x \<in> set xs" by (auto simp: Cons max_by_def)
qed (simp add: max_by_def)

lemma cash_component_simps [simp]:
  "ce_charge_id (cash_component i q cur k m b) = i" "ce_amount (cash_component i q cur k m b) = q"
  "ce_currency (cash_component i q cur k m b) = cur" "ce_classification (cash_component i q cur k m b) = k"
  "ce_evidence (cash_component i q cur k m b) = m" "ce_billing_record_id (cash_component i q cur k m b) = b"
  by (simp_all add: cash_component_def)

lemma economic_evidence_simps [simp]:
  "me_status (economic_evidence l r src t st tr) = st" "me_source (economic_evidence l r src t st tr) = src"
  "me_evidence_id (economic_evidence l r src t st tr) = Some r"
  "me_source_reference (economic_evidence l r src t st tr) = Some (''economic-evidence:'' @ level_value l)"
  by (simp_all add: economic_evidence_def)

lemma level_value_short [simp]: "length (level_value l) \<le> 482"
  by (cases l) simp_all

text \<open>A component with a known amount and evidence from a source is valid when its fields fit.\<close>

lemma mk_component_known:
  assumes "k \<in> {Cash_VERIFIED, Cash_BILLING_RECONCILED, Cash_ESTIMATED}" and "text_len 1 200 i" and "0 \<le> q"
    and "iso_currency cur" and "opt_all (text_len 0 200) b" and "text_len 0 200 r"
    and "st \<noteq> Stat_UNAVAILABLE" and "src \<noteq> Src_UNAVAILABLE"
  shows "mk_component (cash_component i (Some q) cur k (economic_evidence l r src t st tr) b)
    = Inr (cash_component i (Some q) cur k (economic_evidence l r src t st tr) b)"
proof -
  have "validate_measurement (economic_evidence l r src t st tr) = Inr ()"
    using assms(6-8) by (auto simp: validate_measurement_def first_error_iff text_len_def)
  moreover have "validate_cash_evidence (cash_component i (Some q) cur k (economic_evidence l r src t st tr) b) = Inr ()"
    using assms by (auto simp: validate_cash_evidence_def first_error_iff cash_component_def)
  ultimately show ?thesis by (simp add: mk_component_def)
qed

lemma iso_currency_code: "currency_code c \<Longrightarrow> iso_currency c"
  by (simp add: currency_code_def iso_currency_def upper_letter_def [abs_def])

lemmas cash_reading = actual_cash_cost_def resolved_components_def charge_ids_def charge_choices_def
  strongest_cash_evidence_def known_cash_def claims_def eligible_cash_def amount_or_zero_def Let_def

text \<open>One charge with one authoritative component, alone or above a weaker report.\<close>

lemma single_cost:
  assumes "authoritative c" and "mk_cash_accounting Stat_COMPLETE [c] = Inr a"
  shows "actual_cash_cost a cur = (if ce_currency c = cur then ce_amount c else None)"
proof -
  have "ca_components a = [c]" "ca_status a = Stat_COMPLETE"
    using assms(2) by (auto simp: mk_cash_accounting_def cash_reading split: if_splits)
  then show ?thesis
    using assms(1) by (auto simp: cash_reading authoritative_def)
qed

lemma single_accounting:
  "mk_cash_accounting st [c] = Inr \<lparr>ca_status = st, ca_components = [c]\<rparr>"
  by (auto simp: mk_cash_accounting_def cash_reading)

lemma upgraded_cost:
  assumes "ce_classification c = Cash_BILLING_RECONCILED" and "ce_classification d = Cash_VERIFIED"
    and "ce_charge_id c = ce_charge_id d" and "ce_amount c \<noteq> None" and "ce_amount d \<noteq> None"
  shows "\<exists>a. mk_cash_accounting (cash_status [c, d]) [c, d] = Inr a
    \<and> actual_cash_cost a cur = (if ce_currency c = cur then ce_amount c else None)"
proof -
  have status: "cash_status [c, d] = Stat_COMPLETE"
    using assms by (simp add: cash_status_def authoritative_def)
  have choices: "charge_choices [c, d] (ce_charge_id d) = [c]"
    using assms by (auto simp: charge_choices_def strongest_cash_evidence_def known_cash_def Let_def)
  show ?thesis
    using assms unfolding status
    by (auto simp: mk_cash_accounting_def choices claims_def actual_cash_cost_def resolved_components_def
        charge_ids_def eligible_cash_def amount_or_zero_def Let_def)
qed

lemma incomplete_cost: "ca_status a \<noteq> Stat_COMPLETE \<Longrightarrow> actual_cash_cost a cur = None"
  by (simp add: actual_cash_cost_def)

lemma conflict_report:
  assumes "text_len 1 200 (sr_charge_id s)" and "text_len 0 200 (sr_settlement_id s)"
    and "iso_currency (currency (sr_captured_amount s))" and "length reason \<le> 500"
  shows "\<exists>a. conflicting_report_cash s reason = Inr a \<and> ca_status a = Stat_CONFLICT"
  using assms by (simp add: conflicting_report_cash_def mk_component_def validate_measurement_def
      validate_cash_evidence_def cash_component_def first_error_iff text_len_def single_accounting)

section \<open>What the refund loop accepts\<close>

definition refund_of :: "SettlementReceipt \<Rightarrow> string \<Rightarrow> RefundReceiptV2 \<Rightarrow> bool" where
  "refund_of s cur r =
     (rr_settlement_id r = sr_settlement_id s \<and> rr_charge_id r = sr_charge_id s \<and> currency (rr_amount r) = cur)"

text \<open>Every refund belongs to the settlement and no two different ones share an id.\<close>

definition refunds_consistent :: "SettlementReceipt \<Rightarrow> string \<Rightarrow> RefundReceiptV2 set \<Rightarrow> bool" where
  "refunds_consistent s cur R =
     ((\<forall>r \<in> R. refund_of s cur r) \<and> (\<forall>r \<in> R. \<forall>u \<in> R. rr_refund_id r = rr_refund_id u \<longrightarrow> r = u))"

lemma consistent_insert:
  assumes "refunds_consistent s cur R" and "refund_of s cur r" and "\<forall>u \<in> R. rr_refund_id u \<noteq> rr_refund_id r"
  shows "refunds_consistent s cur (insert r R)"
  using assms by (auto simp: refunds_consistent_def)

text \<open>One step of the loop: a repeated refund is skipped, a new one is bound and appended.\<close>

lemma collect_refunds_step:
  "collect_refunds s cur acc (r # rs) = Inr unique \<longleftrightarrow>
     (case List.find (\<lambda>u. rr_refund_id u = rr_refund_id r) acc of
        Some u \<Rightarrow> u = r \<and> collect_refunds s cur acc rs = Inr unique
      | None \<Rightarrow> refund_of s cur r \<and> collect_refunds s cur (acc @ [r]) rs = Inr unique)"
  by (auto simp: refund_of_def split: option.splits)

lemma collect_refunds_sound:
  assumes "collect_refunds s cur acc rs = Inr unique"
    and "distinct (map rr_refund_id acc)" and "refunds_consistent s cur (set acc)"
  shows "set unique = set acc \<union> set rs \<and> distinct (map rr_refund_id unique)
    \<and> refunds_consistent s cur (set unique)"
  using assms
proof (induction rs arbitrary: acc)
  case (Cons r rs)
  show ?case
  proof (cases "List.find (\<lambda>u. rr_refund_id u = rr_refund_id r) acc")
    case None
    then have fresh: "\<forall>u \<in> set acc. rr_refund_id u \<noteq> rr_refund_id r" by (simp add: find_None_iff)
    have step: "refund_of s cur r" "collect_refunds s cur (acc @ [r]) rs = Inr unique"
      using Cons.prems(1) None unfolding collect_refunds_step by simp_all
    have "distinct (map rr_refund_id (acc @ [r]))" using Cons.prems(2) fresh by auto
    moreover have "refunds_consistent s cur (set (acc @ [r]))"
      using consistent_insert [OF Cons.prems(3) step(1) fresh] by simp
    ultimately show ?thesis using Cons.IH [OF step(2)] by auto
  next
    case (Some u)
    then have "u \<in> set acc" by (auto simp: find_Some_iff)
    moreover have "u = r" "collect_refunds s cur acc rs = Inr unique"
      using Cons.prems(1) Some unfolding collect_refunds_step by simp_all
    ultimately show ?thesis using Cons.IH [OF _ Cons.prems(2,3)] by auto
  qed
qed simp

lemma collect_refunds_complete:
  assumes "refunds_consistent s cur (set acc \<union> set rs)"
  shows "\<exists>unique. collect_refunds s cur acc rs = Inr unique"
  using assms
proof (induction rs arbitrary: acc)
  case (Cons r rs)
  show ?case
  proof (cases "List.find (\<lambda>u. rr_refund_id u = rr_refund_id r) acc")
    case None
    then show ?thesis
      using Cons.IH [of "acc @ [r]"] Cons.prems unfolding collect_refunds_step
      by (simp add: refunds_consistent_def)
  next
    case (Some u)
    then have "u \<in> set acc" "rr_refund_id u = rr_refund_id r" by (auto simp: find_Some_iff)
    then have "u = r" using Cons.prems unfolding refunds_consistent_def by (metis Un_iff list.set_intros(1))
    then show ?thesis
      using Cons.IH [of acc] Cons.prems Some unfolding collect_refunds_step
      by (simp add: refunds_consistent_def)
  qed
qed simp

lemma collect_refunds_reason: "collect_refunds s cur acc rs = Inl reason \<Longrightarrow> length reason \<le> 500"
  by (induction s cur acc rs rule: collect_refunds.induct) (auto split: option.splits if_splits)

lemma refunds_total_set:
  "distinct (map rr_refund_id rs) \<Longrightarrow> refunds_total rs = (\<Sum>r \<in> set rs. amount (rr_amount r))"
  unfolding refunds_total_def by (rule sum_list_distinct_conv_sum_set) (simp add: distinct_map)

section \<open>The reported cost\<close>

text \<open>The records the report is built from, as the store holds them.\<close>

definition reporting_records :: "SettlementReceipt \<Rightarrow> BillingReconciliation list \<Rightarrow> bool" where
  "reporting_records s bs =
     (is_ok (validate_settlement s) \<and> list_all (\<lambda>b. is_ok (validate_reconciliation b)) bs
      \<and> list_all (\<lambda>b. br_reconciliation_id b \<noteq> sr_settlement_id s) bs)"

definition base_charge :: "SettlementReceipt \<Rightarrow> BillingReconciliation list \<Rightarrow> CurrencyAmount" where
  "base_charge s bs =
     (case latest_reconciliation s bs of None \<Rightarrow> sr_captured_amount s | Some b \<Rightarrow> br_billed_amount b)"

lemma ident_text: "ident lo hi s \<Longrightarrow> text_len lo hi s"
  by (simp add: ident_def)

lemma settlement_ready:
  assumes "is_ok (validate_settlement s)"
  shows "text_len 1 200 (sr_charge_id s)" "text_len 0 200 (sr_settlement_id s)"
    "iso_currency (currency (sr_captured_amount s))" "0 \<le> amount (sr_captured_amount s)"
proof -
  have "settlement_fields_ok s"
    using assms by (auto simp: validate_settlement_def is_ok_iff first_error_iff Let_def)
  then show "text_len 1 200 (sr_charge_id s)" "text_len 0 200 (sr_settlement_id s)"
    "iso_currency (currency (sr_captured_amount s))" "0 \<le> amount (sr_captured_amount s)"
    by (auto simp: settlement_fields_ok_def valid_amount_def iso_currency_code ident_def text_len_def)
qed

lemma reconciliation_ready:
  assumes "is_ok (validate_reconciliation b)"
  shows "text_len 0 200 (br_reconciliation_id b)" "iso_currency (currency (br_billed_amount b))"
    "0 \<le> amount (br_billed_amount b)" "currency (br_billed_amount b) = currency (br_expected_amount b)"
proof -
  have "valid_amount (br_billed_amount b)" "ident 1 200 (br_reconciliation_id b)"
    and one: "card {currency (br_expected_amount b), currency (br_billed_amount b),
       currency (br_discrepancy b)} = 1"
    using assms by (auto simp: validate_reconciliation_def is_ok_iff first_error_iff)
  then show "text_len 0 200 (br_reconciliation_id b)" "iso_currency (currency (br_billed_amount b))"
    "0 \<le> amount (br_billed_amount b)"
    by (auto simp: valid_amount_def iso_currency_code ident_def text_len_def)
  show "currency (br_billed_amount b) = currency (br_expected_amount b)"
    using one by (auto simp: card_1_singleton_iff)
qed

text \<open>A settlement is cash of its own exactly when it is verified.\<close>

lemma settlement_cash:
  assumes "is_ok (validate_settlement s)"
  obtains a where "cash_accounting_from_settlement s None = Inr a"
    "ca_components a = [settlement_component s]"
    "\<And>cur. actual_cash_cost a cur =
       (if settlement_verified s \<and> currency (sr_captured_amount s) = cur
        then Some (amount (sr_captured_amount s)) else None)"
proof -
  let ?c = "settlement_component s"
  have "mk_component ?c = Inr ?c"
    using settlement_ready [OF assms]
    unfolding settlement_component_def Let_def by (intro mk_component_known) auto
  then have eq: "cash_accounting_from_settlement s None
      = Inr \<lparr>ca_status = cash_status [?c], ca_components = [?c]\<rparr>"
    by (simp add: cash_accounting_from_settlement_def merge_component_def merge_cash_def single_accounting)
  have "actual_cash_cost \<lparr>ca_status = cash_status [?c], ca_components = [?c]\<rparr> cur =
      (if settlement_verified s \<and> currency (sr_captured_amount s) = cur
       then Some (amount (sr_captured_amount s)) else None)" for cur
    by (auto simp: settlement_component_def authoritative_def cash_status_def cash_reading)
  then show thesis by (rule that [OF eq, rotated]) simp
qed

lemma latest_reconciliation_facts:
  assumes "latest_reconciliation s bs = Some b" and "reporting_records s bs"
  shows "b \<in> set bs" "eligible_reconciliation s b" "is_ok (validate_reconciliation b)"
    "br_reconciliation_id b \<noteq> sr_settlement_id s" "is_billing_reconciled (br_status b)"
proof -
  have "b \<in> set (filter (eligible_reconciliation s) bs)"
    using assms(1) max_by_in by (fastforce simp: latest_reconciliation_def)
  then show "b \<in> set bs" "eligible_reconciliation s b" by simp_all
  then show "is_ok (validate_reconciliation b)" "br_reconciliation_id b \<noteq> sr_settlement_id s"
    "is_billing_reconciled (br_status b)"
    using assms(2) by (auto simp: reporting_records_def list_all_iff eligible_reconciliation_def)
qed

lemma base_charge_facts:
  assumes "reporting_records s bs"
  shows "currency (base_charge s bs) = currency (sr_captured_amount s)" "0 \<le> amount (base_charge s bs)"
proof -
  have ok: "is_ok (validate_settlement s)" using assms by (simp add: reporting_records_def)
  show "currency (base_charge s bs) = currency (sr_captured_amount s)" "0 \<le> amount (base_charge s bs)"
    using latest_reconciliation_facts [OF _ assms] reconciliation_ready settlement_ready [OF ok]
    by (auto simp: base_charge_def eligible_reconciliation_def split: option.splits)
qed

text \<open>The last part of the report: the net charge of the refunds the loop accepted.\<close>

lemma net_cash_cost:
  assumes rec: "reporting_records s bs" and len: "\<And>rs. length (digest rs) = 64"
    and settled: "ca_components a = [settlement_component s]"
      "actual_cash_cost a cur = (if currency (sr_captured_amount s) = cur
         then Some (amount (sr_captured_amount s)) else None)"
    and verified: "settlement_verified s"
  shows "\<exists>n. net_cash digest s a (latest_reconciliation s bs) (base_charge s bs) unique = Inr n
    \<and> actual_cash_cost n cur =
      (if refunds_total unique \<le> amount (base_charge s bs) \<and> currency (sr_captured_amount s) = cur
       then Some (amount (base_charge s bs) - refunds_total unique) else None)"
proof -
  let ?b = "latest_reconciliation s bs" and ?base = "base_charge s bs"
  have ok: "is_ok (validate_settlement s)" using rec by (simp add: reporting_records_def)
  note ready = settlement_ready [OF ok]
  note cur = base_charge_facts [OF rec]
  consider (over) "amount ?base < refunds_total unique"
    | (plain) "\<not> amount ?base < refunds_total unique" "unique = []" "?b = None"
    | (billed) x where "\<not> amount ?base < refunds_total unique" "unique = []" "?b = Some x"
    | (net) "\<not> amount ?base < refunds_total unique" "unique \<noteq> []"
    by (cases ?b) auto
  then show ?thesis
  proof cases
    case over
    then show ?thesis
      using conflict_report [OF ready(1-3), of "''refund evidence exceeds the authoritative charge''"]
      by (auto simp: net_cash_def incomplete_cost)
  next
    case plain
    then show ?thesis by (simp add: net_cash_def refunds_total_def base_charge_def settled(2) ready(4))
  next
    case billed
    note x = latest_reconciliation_facts [OF billed(3) rec]
    let ?c = "reconciliation_component x (sr_charge_id s)" and ?d = "settlement_component s"
    have "mk_component ?c = Inr ?c"
      using reconciliation_ready [OF x(3)] ready(1)
      unfolding reconciliation_component_def Let_def by (intro mk_component_known) auto
    moreover have "me_evidence_id (ce_evidence ?d) \<noteq> me_evidence_id (ce_evidence ?c)"
      using x(4) by (simp add: reconciliation_component_def settlement_component_def Let_def)
    ultimately have "net_cash digest s a ?b ?base unique = mk_cash_accounting (cash_status [?c, ?d]) [?c, ?d]"
      using billed by (auto simp: net_cash_def cash_accounting_from_reconciliation_def merge_component_def
          merge_cash_def settled(1) Let_def)
    moreover have "\<exists>n. mk_cash_accounting (cash_status [?c, ?d]) [?c, ?d] = Inr n
        \<and> actual_cash_cost n cur = (if ce_currency ?c = cur then ce_amount ?c else None)"
      using x(5) verified by (intro upgraded_cost)
        (simp_all add: reconciliation_component_def settlement_component_def Let_def)
    moreover have "ce_currency ?c = currency ?base" "ce_amount ?c = Some (amount ?base)"
      using billed by (simp_all add: reconciliation_component_def base_charge_def Let_def)
    ultimately show ?thesis using billed cur by (auto simp: refunds_total_def)
  next
    case net
    let ?c = "net_component digest s ?b ?base unique"
    have "mk_component ?c = Inr ?c"
      using net(1) ready cur len latest_reconciliation_facts [OF _ rec]
      unfolding net_component_def complete_evidence_def Let_def
      by (intro mk_component_known)
        (auto simp: text_len_def split: option.splits dest!: reconciliation_ready(1))
    then have "net_cash digest s a ?b ?base unique = Inr \<lparr>ca_status = Stat_COMPLETE, ca_components = [?c]\<rparr>"
      using net by (simp add: net_cash_def single_accounting)
    moreover have "authoritative ?c"
      by (simp add: authoritative_def net_component_def Let_def)
    note single_cost [OF this single_accounting, of cur]
    moreover have "ce_currency ?c = currency ?base" "ce_amount ?c = Some (amount ?base - refunds_total unique)"
      by (simp_all add: net_component_def Let_def)
    ultimately show ?thesis using net cur(1) by auto
  qed
qed

lemma reporting_verified:
  assumes "cash_accounting_from_settlement s None = Inr a"
    and "actual_cash_cost a (currency (sr_captured_amount s)) \<noteq> None"
    and "reporting_records s bs"
  shows "cash_accounting_for_reporting digest s bs rs =
    (case collect_refunds s (currency (sr_captured_amount s)) [] rs of
       Inl reason \<Rightarrow> conflicting_report_cash s reason
     | Inr unique \<Rightarrow> net_cash digest s a (latest_reconciliation s bs) (base_charge s bs) unique)"
  unfolding cash_accounting_for_reporting_def assms(1) sum.case Let_def base_charge_def [symmetric]
    base_charge_facts(1) [OF assms(3)]
  by (simp only: assms(2) not_False_eq_True if_False simp_thms)

text \<open>
  C17 The cash reported for a settlement is its net charge, and only that: the report names an
  actual cost exactly when the settlement is verified payment evidence in that currency, all
  refunds belong to it, no two different refunds share an id and together they stay within
  the charge; the cost is then the charge (the latest eligible reconciliation's billed
  amount, or the captured amount) less every distinct refund, however often it is listed.
\<close>

theorem reported_cash_is_net:
  assumes "reporting_records s bs" and "\<And>rs. length (digest rs) = 64"
  shows "\<exists>a. cash_accounting_for_reporting digest s bs rs = Inr a
    \<and> (actual_cash_cost a cur = Some q \<longleftrightarrow>
        settlement_verified s \<and> currency (sr_captured_amount s) = cur
        \<and> refunds_consistent s cur (set rs)
        \<and> (\<Sum>r \<in> set rs. amount (rr_amount r)) \<le> amount (base_charge s bs)
        \<and> q = amount (base_charge s bs) - (\<Sum>r \<in> set rs. amount (rr_amount r)))"
proof -
  let ?cap = "currency (sr_captured_amount s)"
  have ok: "is_ok (validate_settlement s)" using assms(1) by (simp add: reporting_records_def)
  note ready = settlement_ready [OF ok]
  obtain a where a: "cash_accounting_from_settlement s None = Inr a" "ca_components a = [settlement_component s]"
    "\<And>c. actual_cash_cost a c = (if settlement_verified s \<and> ?cap = c
        then Some (amount (sr_captured_amount s)) else None)"
    by (rule settlement_cash [OF ok]) (rule that, assumption, assumption, simp only:)
  show ?thesis
  proof (cases "settlement_verified s")
    case False
    then show ?thesis by (simp add: cash_accounting_for_reporting_def a)
  next
    case True
    have report: "cash_accounting_for_reporting digest s bs rs = (case collect_refunds s ?cap [] rs of
        Inl reason \<Rightarrow> conflicting_report_cash s reason
      | Inr unique \<Rightarrow> net_cash digest s a (latest_reconciliation s bs) (base_charge s bs) unique)"
      by (rule reporting_verified [OF a(1) _ assms(1)]) (simp add: a(3) True)
    show ?thesis
    proof (cases "collect_refunds s ?cap [] rs")
      case (Inl reason)
      then have "\<not> refunds_consistent s ?cap (set rs)" using collect_refunds_complete [of s ?cap "[]" rs] by auto
      then show ?thesis
        using conflict_report [OF ready(1-3) collect_refunds_reason [OF Inl]] Inl
        by (auto simp: report incomplete_cost)
    next
      case (Inr unique)
      have u: "set unique = set rs" "distinct (map rr_refund_id unique)" "refunds_consistent s ?cap (set unique)"
        using collect_refunds_sound [OF Inr] by (auto simp: refunds_consistent_def)
      have tot: "refunds_total unique = (\<Sum>r \<in> set rs. amount (rr_amount r))"
        by (simp add: refunds_total_set [OF u(2)] u(1))
      have "actual_cash_cost a cur = (if ?cap = cur then Some (amount (sr_captured_amount s)) else None)"
        by (simp add: a(3) True)
      from net_cash_cost [OF assms(1) _ a(2) this True, of digest unique] assms(2) obtain n where
        "net_cash digest s a (latest_reconciliation s bs) (base_charge s bs) unique = Inr n"
        "actual_cash_cost n cur = (if refunds_total unique \<le> amount (base_charge s bs) \<and> ?cap = cur
           then Some (amount (base_charge s bs) - refunds_total unique) else None)"
        by blast
      then show ?thesis using True u by (auto simp: report Inr tot)
    qed
  qed
qed

section \<open>A settlement, its invoice and a refund listed twice\<close>

definition sample_settlement :: SettlementReceipt where
  "sample_settlement =
     \<lparr>sr_settlement_id = ''set1'', sr_charge_id = ''ch1'', sr_prepared_id = ''prep1'', sr_quote_id = None,
      sr_authorization_kind = Some Auth_PUBLISHED_OFFER, sr_authorization_id = Some ''offer1'',
      sr_reservation_id = ''res1'', sr_attempt_id = ''att1'',
      sr_reserved_amount = \<lparr>amount = 12, currency = ''USD''\<rparr>,
      sr_captured_amount = \<lparr>amount = 12, currency = ''USD''\<rparr>,
      sr_released_amount = \<lparr>amount = 0, currency = ''USD''\<rparr>, sr_payment_rail = ''local'',
      sr_external_reference = None, sr_status = Set_SETTLED, sr_evidence_level = Ev_PAYMENT_SETTLEMENT,
      sr_settled_at = Aware 5, sr_signature = None\<rparr>"

definition sample_invoice :: BillingReconciliation where
  "sample_invoice =
     \<lparr>br_reconciliation_id = ''rec1'', br_settlement_id = ''set1'', br_provider_id = ''p1'',
      br_invoice_reference = Some ''inv1'', br_billing_record_reference = None,
      br_expected_amount = \<lparr>amount = 12, currency = ''USD''\<rparr>,
      br_billed_amount = \<lparr>amount = 10, currency = ''USD''\<rparr>,
      br_discrepancy = \<lparr>amount = 2, currency = ''USD''\<rparr>, br_status = Recon_UNDERCHARGED,
      br_evidence_digest = None, br_reconciled_at = Aware 9\<rparr>"

definition sample_refund :: RefundReceiptV2 where
  "sample_refund =
     \<lparr>rr_refund_id = ''rf1'', rr_settlement_id = ''set1'', rr_charge_id = ''ch1'',
      rr_amount = \<lparr>amount = 3, currency = ''USD''\<rparr>, rr_reason = ''late'', rr_idempotency_key = ''k1'',
      rr_refunded_at = Aware 8, rr_external_reference = None, rr_signature = None\<rparr>"

lemma sample_reporting: "reporting_records sample_settlement [sample_invoice]"
proof -
  have "validate_settlement sample_settlement = Inr ()" by code_simp
  moreover have "validate_reconciliation sample_invoice = Inr ()" by code_simp
  ultimately show ?thesis
    by (simp add: reporting_records_def) (simp add: sample_settlement_def sample_invoice_def)
qed

theorem reported_cash_is_net_witness:
  "\<exists>a. cash_accounting_for_reporting (\<lambda>_. replicate 64 CHR ''0'') sample_settlement [sample_invoice]
      [sample_refund, sample_refund] = Inr a \<and> actual_cash_cost a ''USD'' = Some 7"
proof -
  have "eligible_reconciliation sample_settlement sample_invoice"
    by (simp add: eligible_reconciliation_def sample_settlement_def sample_invoice_def
        is_billing_reconciled_def reconciliation_level_def)
  then have base: "base_charge sample_settlement [sample_invoice] = \<lparr>amount = 10, currency = ''USD''\<rparr>"
    by (simp add: base_charge_def latest_reconciliation_def max_by_def) (simp add: sample_invoice_def)
  have "settlement_verified sample_settlement" "currency (sr_captured_amount sample_settlement) = ''USD''"
    by (simp_all add: settlement_verified_def sample_settlement_def is_payment_evidence_def)
  moreover have "refunds_consistent sample_settlement ''USD'' {sample_refund}"
    by (simp add: refunds_consistent_def refund_of_def sample_settlement_def sample_refund_def)
  moreover have "amount (rr_amount sample_refund) = 3" by (simp add: sample_refund_def)
  ultimately show ?thesis
    using reported_cash_is_net [OF sample_reporting, of "\<lambda>_. replicate 64 CHR ''0''"
        "[sample_refund, sample_refund]" "''USD''" 7]
    by (simp add: base)
qed

section \<open>What is never actual cash\<close>

text \<open>
  A provider's own statement of what a use cost, or a comparison that is not resolved, never
  becomes an actual cost by itself.
\<close>

lemma estimate_never_actual:
  assumes "ce_classification c \<notin> {Cash_VERIFIED, Cash_BILLING_RECONCILED}"
    and "merge_component None c = Inr a"
  shows "actual_cash_cost a cur = None"
proof -
  have "mk_cash_accounting Stat_PARTIAL [c] = Inr a"
    using assms by (auto simp: merge_component_def merge_cash_def cash_status_def authoritative_def
        mk_component_def split: sum.splits)
  then show ?thesis by (auto simp: single_accounting incomplete_cost)
qed

lemma statement_never_actual_cash:
  "cash_accounting_from_usage_statement u charge None = Inr a \<Longrightarrow> actual_cash_cost a cur = None"
  unfolding cash_accounting_from_usage_statement_def Let_def
  by (rule estimate_never_actual) auto

lemma unresolved_never_actual_cash:
  "\<not> is_billing_reconciled (br_status b) \<Longrightarrow> cash_accounting_from_reconciliation b charge None = Inr a
     \<Longrightarrow> actual_cash_cost a cur = None"
  unfolding cash_accounting_from_reconciliation_def
  by (rule estimate_never_actual) (auto simp: reconciliation_component_def Let_def)

end
