(* ===== verification/Receipt_Accounting.thy ===== *)
theory Receipt_Accounting
  imports Routing_Models Cash_Reporting Canonical_JSON
begin

text \<open>
  What several execution receipts cost together (\<open>independent_receipts\<close> and
  \<open>aggregate_accounting\<close> of \<open>aeep/accounting.py\<close>). The parse of the list of component receipts
  in a receipt's metadata is an argument.
\<close>

section \<open>Receipts\<close>

datatype ModelAccessChannel =
    Channel_API | Channel_SUBSCRIPTION | Channel_PURCHASED_CREDIT | Channel_MIXED | Channel_UNKNOWN

fun channel_value :: "ModelAccessChannel \<Rightarrow> string" where
  "channel_value Channel_API = ''api''"
| "channel_value Channel_SUBSCRIPTION = ''subscription''"
| "channel_value Channel_PURCHASED_CREDIT = ''purchased_credit''"
| "channel_value Channel_MIXED = ''mixed''"
| "channel_value Channel_UNKNOWN = ''unknown''"

record ModelTokenUsage =
  mu_provider :: string
  mu_model :: string
  mu_access_channel :: ModelAccessChannel
  mu_input_tokens :: int
  mu_cached_input_tokens :: int
  mu_cache_write_input_tokens :: int
  mu_output_tokens :: int
  mu_reasoning_output_tokens :: int
  mu_evidence :: MeasurementEvidence

definition model_usage_ok :: "ModelTokenUsage \<Rightarrow> bool" where
  "model_usage_ok m =
     (text_len 1 100 (mu_provider m) \<and> text_len 1 200 (mu_model m) \<and> 0 \<le> mu_input_tokens m
      \<and> 0 \<le> mu_cached_input_tokens m \<and> 0 \<le> mu_cache_write_input_tokens m
      \<and> 0 \<le> mu_output_tokens m \<and> 0 \<le> mu_reasoning_output_tokens m
      \<and> mu_cached_input_tokens m + mu_cache_write_input_tokens m \<le> mu_input_tokens m
      \<and> mu_reasoning_output_tokens m \<le> mu_output_tokens m)"

record ToolFootprint =
  tf_schema_bytes :: int
  tf_schema_approx_tokens :: int
  tf_raw_result_bytes :: int
  tf_raw_result_approx_tokens :: int
  tf_filtered_result_bytes :: int
  tf_filtered_result_approx_tokens :: int
  tf_exposed_to_model :: bool

record ResourceAccounting =
  acc_cash :: CashAccounting
  acc_subscription_usage :: "SubscriptionUsage list"
  acc_model_usage :: "ModelTokenUsage list"
  acc_tool_footprint :: "ToolFootprint option"

text \<open>
  Of a receipt the accounting and the workflow engine read these fields; the metadata entry
  \<open>component_receipt_ids\<close> is present when it is a string.
\<close>

record ExecutionReceipt =
  xr_receipt_id :: string
  xr_decision_id :: string
  xr_duration_ms :: rat
  xr_accounting :: ResourceAccounting
  xr_component_receipt_ids :: "string option"

section \<open>Receipts that count\<close>

text \<open>A dict built from items keeps the place of the first and the value of the last of a key.\<close>

definition first_places :: "'a list \<Rightarrow> 'a list" where
  "first_places xs = rev (remdups (rev xs))"

definition latest_receipts :: "ExecutionReceipt list \<Rightarrow> ExecutionReceipt list" where
  "latest_receipts rs =
     List.map_filter (\<lambda>i. List.find (\<lambda>r. xr_receipt_id r = i) (rev rs)) (first_places (map xr_receipt_id rs))"

definition string_items :: "json list \<Rightarrow> string list option" where
  "string_items xs =
     (if list_all (\<lambda>x. case x of J_string _ \<Rightarrow> True | _ \<Rightarrow> False) xs
      then Some (List.map_filter (\<lambda>x. case x of J_string s \<Rightarrow> Some s | _ \<Rightarrow> None) xs) else None)"

definition component_ids :: "(string \<Rightarrow> json option) \<Rightarrow> ExecutionReceipt \<Rightarrow> string list" where
  "component_ids loads r =
     (case xr_component_receipt_ids r of
        None \<Rightarrow> []
      | Some t \<Rightarrow>
          (case loads t of
             Some (J_array xs) \<Rightarrow>
               (case string_items xs of
                  None \<Rightarrow> [] | Some ids \<Rightarrow> filter (\<lambda>i. i \<noteq> xr_receipt_id r) ids)
           | _ \<Rightarrow> []))"

definition independent_receipts ::
  "(string \<Rightarrow> json option) \<Rightarrow> ExecutionReceipt list \<Rightarrow> ExecutionReceipt list" where
  "independent_receipts loads rs =
     (let items = latest_receipts rs; components = concat (map (component_ids loads) items) in
      filter (\<lambda>r. xr_receipt_id r \<notin> set components) items)"

section \<open>Aggregation\<close>

definition aggregate_status :: "ExecutionReceipt list \<Rightarrow> EvidenceStatus" where
  "aggregate_status items =
     (let stats = map (\<lambda>r. ca_status (acc_cash (xr_accounting r))) items;
          components = concat (map (\<lambda>r. ca_components (acc_cash (xr_accounting r))) items) in
      if items = [] then Stat_UNAVAILABLE
      else if Stat_CONFLICT \<in> set stats then Stat_CONFLICT
      else if list_ex (\<lambda>st. st \<noteq> Stat_COMPLETE) stats
      then (if components \<noteq> [] then Stat_PARTIAL else Stat_UNAVAILABLE)
      else Stat_COMPLETE)"

definition mixed_evidence :: MeasurementEvidence where
  "mixed_evidence = unavailable_evidence
     \<lparr>me_status := Stat_PARTIAL, me_source := Src_OPERATOR_REPORT, me_trust := Trust_OBSERVED\<rparr>"

definition usage_key :: "SubscriptionUsage \<Rightarrow> string \<times> string \<times> string" where
  "usage_key u = (su_provider u, su_resource_pool u, su_unit u)"

definition sum_known :: "rat option list \<Rightarrow> rat option" where
  "sum_known qs = (if None \<in> set qs then None else Some (sum_list (map the qs)))"

definition merge_usage :: "SubscriptionUsage list \<Rightarrow> SubscriptionUsage" where
  "merge_usage us =
     (let u = hd us in
      \<lparr>su_provider = su_provider u, su_resource_pool = su_resource_pool u, su_unit = su_unit u,
       su_consumed = sum_known (map su_consumed us),
       su_source = (if list_all (\<lambda>v. su_source v = su_source u) us then su_source u else mixed_evidence),
       su_included_or_paid =
         (if list_all (\<lambda>v. su_included_or_paid v = su_included_or_paid u) us
          then su_included_or_paid u else Charge_MIXED),
       su_rate_snapshot_id = None, su_usage_fingerprint = None\<rparr>)"

definition merge_groups :: "('a \<Rightarrow> 'k::linorder) \<Rightarrow> ('a list \<Rightarrow> 'a) \<Rightarrow> 'a list \<Rightarrow> 'a list" where
  "merge_groups key merge xs =
     map (\<lambda>k. merge (filter (\<lambda>x. key x = k) xs)) (sorted_list_of_set (set (map key xs)))"

definition model_key :: "ModelTokenUsage \<Rightarrow> string \<times> string \<times> string" where
  "model_key m = (mu_provider m, mu_model m, channel_value (mu_access_channel m))"

definition merge_model_usage :: "ModelTokenUsage list \<Rightarrow> ModelTokenUsage" where
  "merge_model_usage ms =
     (let m = hd ms in
      \<lparr>mu_provider = mu_provider m, mu_model = mu_model m, mu_access_channel = mu_access_channel m,
       mu_input_tokens = sum_list (map mu_input_tokens ms),
       mu_cached_input_tokens = sum_list (map mu_cached_input_tokens ms),
       mu_cache_write_input_tokens = sum_list (map mu_cache_write_input_tokens ms),
       mu_output_tokens = sum_list (map mu_output_tokens ms),
       mu_reasoning_output_tokens = sum_list (map mu_reasoning_output_tokens ms),
       mu_evidence = (if list_all (\<lambda>n. mu_evidence n = mu_evidence m) ms then mu_evidence m
                      else mixed_evidence)\<rparr>)"

definition merge_footprints :: "ToolFootprint list \<Rightarrow> ToolFootprint option" where
  "merge_footprints fs =
     (if fs = [] then None
      else Some
       \<lparr>tf_schema_bytes = sum_list (map tf_schema_bytes fs),
        tf_schema_approx_tokens = sum_list (map tf_schema_approx_tokens fs),
        tf_raw_result_bytes = sum_list (map tf_raw_result_bytes fs),
        tf_raw_result_approx_tokens = sum_list (map tf_raw_result_approx_tokens fs),
        tf_filtered_result_bytes = sum_list (map tf_filtered_result_bytes fs),
        tf_filtered_result_approx_tokens = sum_list (map tf_filtered_result_approx_tokens fs),
        tf_exposed_to_model = list_ex tf_exposed_to_model fs\<rparr>)"

definition aggregate_accounting ::
  "(string \<Rightarrow> json option) \<Rightarrow> ExecutionReceipt list \<Rightarrow> ResourceAccounting result" where
  "aggregate_accounting loads rs =
     (let items = independent_receipts loads rs; accs = map xr_accounting items in
      case mk_cash_accounting (aggregate_status items) (concat (map (\<lambda>a. ca_components (acc_cash a)) accs)) of
        Inl e \<Rightarrow> Err e
      | Inr cash \<Rightarrow>
          Ok \<lparr>acc_cash = cash,
              acc_subscription_usage =
                merge_groups usage_key merge_usage (concat (map acc_subscription_usage accs)),
              acc_model_usage =
                merge_groups model_key merge_model_usage (concat (map acc_model_usage accs)),
              acc_tool_footprint = merge_footprints (List.map_filter acc_tool_footprint accs)\<rparr>)"

section \<open>Costs over disjoint charges add up\<close>

definition charges :: "CashEvidence list \<Rightarrow> string set" where
  "charges cs = ce_charge_id ` set cs"

lemma choices_append:
  "i \<notin> charges ds \<Longrightarrow> charge_choices (cs @ ds) i = charge_choices cs i"
  "i \<notin> charges cs \<Longrightarrow> charge_choices (cs @ ds) i = charge_choices ds i"
  by (auto simp: charge_choices_def charges_def image_iff intro!: arg_cong [where f = strongest_cash_evidence]
      simp: filter_empty_conv)

definition complete_cost :: "CashEvidence list \<Rightarrow> string \<Rightarrow> rat option" where
  "complete_cost cs cur = actual_cash_cost \<lparr>ca_status = Stat_COMPLETE, ca_components = cs\<rparr> cur"

text \<open>What a named cost says of the charges behind it.\<close>

definition costed :: "CashEvidence list \<Rightarrow> string \<Rightarrow> bool" where
  "costed cs cur =
     (cs \<noteq> [] \<and> agreed_ids cs = charges cs
      \<and> (\<forall>i \<in> charges cs. case fact_of cs i of (q, c, k) \<Rightarrow> eligible_cash k \<and> c = cur)
      \<and> ((\<forall>i \<in> charges cs. fst (fact_of cs i) = Some 0)
          \<longrightarrow> (\<forall>i \<in> charges cs. snd (snd (fact_of cs i)) \<in> {Cash_VERIFIED, Cash_BILLING_RECONCILED})))"

lemma agreed_subset: "agreed_ids cs \<subseteq> charges cs"
  by (auto simp: agreed_ids_def charges_def)

lemma agreed_all: "agreed_ids cs = charges cs \<longleftrightarrow> card (agreed_ids cs) = card (charges cs)"
  using card_subset_eq [OF _ agreed_subset] by (auto simp: charges_def)

lemma complete_cost_iff:
  "complete_cost cs cur = Some q \<longleftrightarrow> costed cs cur \<and> q = (\<Sum>i \<in> charges cs. facts_amount (fact_of cs i))"
proof (cases "cs \<noteq> [] \<and> agreed_ids cs = charges cs")
  case True
  then have "fact_of cs ` agreed_ids cs \<noteq> {}" by (simp add: charges_def)
  with True show ?thesis
    unfolding complete_cost_def actual_cash_cost_facts costed_def Let_def
    by (auto simp: charges_def case_prod_unfold)
next
  case False
  then have "cs = [] \<or> card (agreed_ids cs) \<noteq> card (ce_charge_id ` set cs)"
    unfolding agreed_all by (simp add: charges_def)
  then have "complete_cost cs cur = None" by (auto simp: complete_cost_def actual_cash_cost_facts Let_def)
  then show ?thesis using False by (auto simp: costed_def)
qed

lemma fact_of_append:
  "i \<notin> charges ds \<Longrightarrow> fact_of (cs @ ds) i = fact_of cs i"
  "i \<notin> charges cs \<Longrightarrow> fact_of (cs @ ds) i = fact_of ds i"
  by (simp_all add: fact_of_def choices_append)

lemma agreed_append:
  assumes "charges cs \<inter> charges ds = {}"
  shows "agreed_ids (cs @ ds) = agreed_ids cs \<union> agreed_ids ds"
proof -
  have "card (claims (charge_choices (cs @ ds) i)) = card (claims (charge_choices cs i))" if "i \<in> charges cs" for i
    using that assms by (subst choices_append(1)) auto
  moreover have "card (claims (charge_choices (cs @ ds) i)) = card (claims (charge_choices ds i))"
    if "i \<in> charges ds" for i
    using that assms by (subst choices_append(2)) auto
  ultimately show ?thesis by (auto simp: agreed_ids_def charges_def image_Un)
qed

lemma cost_append:
  assumes A: "complete_cost cs cur = Some p" and B: "complete_cost ds cur = Some q"
    and disjoint: "charges cs \<inter> charges ds = {}"
  shows "complete_cost (cs @ ds) cur = Some (p + q)"
proof -
  have f: "fact_of (cs @ ds) i = fact_of cs i" if "i \<in> charges cs" for i
    using that disjoint by (intro fact_of_append) auto
  have g: "fact_of (cs @ ds) i = fact_of ds i" if "i \<in> charges ds" for i
    using that disjoint by (intro fact_of_append) auto
  have union: "charges (cs @ ds) = charges cs \<union> charges ds" by (auto simp: charges_def)
  have "costed (cs @ ds) cur"
    using A B unfolding complete_cost_iff costed_def union agreed_append [OF disjoint]
    by (simp add: ball_Un f g)
  moreover have "(\<Sum>i \<in> charges (cs @ ds). facts_amount (fact_of (cs @ ds) i)) = p + q"
  proof -
    have "finite (charges cs)" "finite (charges ds)" by (simp_all add: charges_def)
    then have "(\<Sum>i \<in> charges (cs @ ds). facts_amount (fact_of (cs @ ds) i)) =
        (\<Sum>i \<in> charges cs. facts_amount (fact_of (cs @ ds) i)) + (\<Sum>i \<in> charges ds. facts_amount (fact_of (cs @ ds) i))"
      unfolding union using disjoint by (rule sum.union_disjoint)
    then show ?thesis using A B unfolding complete_cost_iff by (simp add: f g)
  qed
  ultimately show ?thesis unfolding complete_cost_iff by simp
qed

text \<open>The charges of each receipt are its own.\<close>

fun disjoint_charges :: "CashEvidence list list \<Rightarrow> bool" where
  "disjoint_charges [] = True"
| "disjoint_charges (cs # css) = (charges cs \<inter> charges (concat css) = {} \<and> disjoint_charges css)"

lemma cost_concat:
  assumes "css \<noteq> []" and "disjoint_charges css"
    and "list_all2 (\<lambda>cs q. complete_cost cs cur = Some q) css qs"
  shows "complete_cost (concat css) cur = Some (sum_list qs)"
  using assms
proof (induction css arbitrary: qs)
  case (Cons cs css)
  obtain q qs' where q: "qs = q # qs'" "complete_cost cs cur = Some q"
      "list_all2 (\<lambda>cs q. complete_cost cs cur = Some q) css qs'"
    using Cons.prems(3) by (cases qs) auto
  show ?case
  proof (cases css)
    case Nil
    then show ?thesis using q by simp
  next
    case (Cons x xs)
    then have "complete_cost (concat css) cur = Some (sum_list qs')"
      using Cons.IH [OF _ _ q(3)] Cons.prems(2) by simp
    then show ?thesis using cost_append [OF q(2)] Cons.prems(2) q(1) by simp
  qed
qed simp

text \<open>A complete accounting with a cost has no conflict when it is built again.\<close>

lemma rebuilt_accounting:
  assumes "complete_cost cs cur = Some q"
  shows "mk_cash_accounting Stat_COMPLETE cs = Inr \<lparr>ca_status = Stat_COMPLETE, ca_components = cs\<rparr>"
proof -
  have "cs \<noteq> []" "agreed_ids cs = charges cs" using assms by (auto simp: complete_cost_iff costed_def)
  then have "card (claims (charge_choices cs (ce_charge_id c))) = 1" if "c \<in> set cs" for c
    using that by (auto simp: agreed_ids_def charges_def set_eq_iff)
  then have "\<not> list_ex (\<lambda>c. card (claims (charge_choices cs (ce_charge_id c))) > 1) cs"
    by (auto simp: list_ex_iff)
  then show ?thesis using \<open>cs \<noteq> []\<close> unfolding mk_cash_accounting_def by simp
qed

lemma cost_complete: "actual_cash_cost a cur = Some q \<Longrightarrow>
    ca_status a = Stat_COMPLETE \<and> complete_cost (ca_components a) cur = Some q"
  unfolding complete_cost_def
  by (cases a) (auto simp: actual_cash_cost_def split: if_splits)

section \<open>Receipts together\<close>

definition receipt_cash :: "ExecutionReceipt \<Rightarrow> CashAccounting" where
  "receipt_cash r = acc_cash (xr_accounting r)"

lemma built_status:
  "mk_cash_accounting st cs = Inr a \<Longrightarrow> ca_status a = st \<or> ca_status a = Stat_CONFLICT"
  unfolding mk_cash_accounting_def by (simp split: if_splits) auto

lemma aggregate_cash:
  "aggregate_accounting loads rs = Inr a \<Longrightarrow>
     mk_cash_accounting (aggregate_status (independent_receipts loads rs))
       (concat (map (\<lambda>r. ca_components (receipt_cash r)) (independent_receipts loads rs))) = Inr (acc_cash a)"
  by (auto simp: aggregate_accounting_def Let_def receipt_cash_def o_def split: sum.splits)

text \<open>The cost is unknown as soon as the cash of one receipt is not complete.\<close>

lemma aggregate_incomplete:
  assumes "aggregate_accounting loads rs = Inr a" and "r \<in> set (independent_receipts loads rs)"
    and "ca_status (receipt_cash r) \<noteq> Stat_COMPLETE"
  shows "actual_cash_cost (acc_cash a) cur = None"
proof -
  have "aggregate_status (independent_receipts loads rs) \<noteq> Stat_COMPLETE"
    using assms(2,3) by (auto simp: aggregate_status_def Let_def list_ex_iff receipt_cash_def)
  then have "ca_status (acc_cash a) \<noteq> Stat_COMPLETE"
    using built_status [OF aggregate_cash [OF assms(1)]] by auto
  then show ?thesis by (rule incomplete_cost)
qed

lemma items_cost:
  assumes items: "independent_receipts loads rs = items" "items \<noteq> []"
    and disjoint: "disjoint_charges (map (\<lambda>r. ca_components (receipt_cash r)) items)"
    and costs: "\<And>r. r \<in> set items \<Longrightarrow> actual_cash_cost (receipt_cash r) cur = Some (cost r)"
  shows "\<exists>a. aggregate_accounting loads rs = Inr a
    \<and> actual_cash_cost (acc_cash a) cur = Some (sum_list (map cost items))"
proof -
  let ?css = "map (\<lambda>r. ca_components (receipt_cash r)) items"
  have each: "ca_status (receipt_cash r) = Stat_COMPLETE"
    "complete_cost (ca_components (receipt_cash r)) cur = Some (cost r)" if "r \<in> set items" for r
    using cost_complete [OF costs [OF that]] by simp_all
  then have "list_all2 (\<lambda>cs q. complete_cost cs cur = Some q) ?css (map cost items)"
    by (simp add: list_all2_conv_all_nth)
  then have tot: "complete_cost (concat ?css) cur = Some (sum_list (map cost items))"
    using items(2) by (intro cost_concat [OF _ disjoint]) simp_all
  have "Stat_CONFLICT \<notin> set (map (\<lambda>r. ca_status (receipt_cash r)) items)"
    "\<not> list_ex (\<lambda>st. st \<noteq> Stat_COMPLETE) (map (\<lambda>r. ca_status (receipt_cash r)) items)"
    using each(1) by (auto simp: list_ex_iff)
  then have "aggregate_status items = Stat_COMPLETE"
    using items(2) by (simp add: aggregate_status_def Let_def receipt_cash_def)
  then have "mk_cash_accounting (aggregate_status items) (concat ?css)
      = Inr \<lparr>ca_status = Stat_COMPLETE, ca_components = concat ?css\<rparr>"
    using rebuilt_accounting [OF tot] by simp
  then have "\<exists>a. aggregate_accounting loads rs = Inr a
      \<and> acc_cash a = \<lparr>ca_status = Stat_COMPLETE, ca_components = concat ?css\<rparr>"
    by (simp add: aggregate_accounting_def items(1) Let_def receipt_cash_def o_def)
  then show ?thesis using tot by (auto simp: complete_cost_def)
qed

text \<open>
  The receipts that count, by their ids: of an id the receipt listed last stands, and it counts
  when no standing receipt names the id among its components.
\<close>

definition standing :: "ExecutionReceipt list \<Rightarrow> string \<Rightarrow> ExecutionReceipt" where
  "standing rs i = last (filter (\<lambda>r. xr_receipt_id r = i) rs)"

definition counted_ids :: "(string \<Rightarrow> json option) \<Rightarrow> ExecutionReceipt list \<Rightarrow> string set" where
  "counted_ids loads rs =
     xr_receipt_id ` set rs - (\<Union>j \<in> xr_receipt_id ` set rs. set (component_ids loads (standing rs j)))"

lemma find_hd: "List.find p xs = (if filter p xs = [] then None else Some (hd (filter p xs)))"
  by (induction xs) auto

lemma find_standing: "i \<in> xr_receipt_id ` set rs \<Longrightarrow>
    List.find (\<lambda>r. xr_receipt_id r = i) (rev rs) = Some (standing rs i)"
  by (auto simp: find_hd standing_def rev_filter [symmetric] hd_rev filter_empty_conv)

lemma standing_id: "i \<in> xr_receipt_id ` set rs \<Longrightarrow> xr_receipt_id (standing rs i) = i"
  using find_standing [of i rs] by (auto simp: find_Some_iff)

lemma map_filter_known: "(\<And>x. x \<in> set xs \<Longrightarrow> f x = Some (g x)) \<Longrightarrow> List.map_filter f xs = map g xs"
  by (induction xs) (simp_all add: List.map_filter_simps)

lemma latest_standing: "latest_receipts rs = map (standing rs) (first_places (map xr_receipt_id rs))"
  unfolding latest_receipts_def
  by (rule map_filter_known) (simp add: first_places_def find_standing)

lemma independent_standing:
  obtains "is" where "distinct is" "set is = counted_ids loads rs" "independent_receipts loads rs = map (standing rs) is"
proof
  let ?c = "set (concat (map (component_ids loads) (latest_receipts rs)))"
  let ?is = "filter (\<lambda>i. i \<notin> ?c) (first_places (map xr_receipt_id rs))"
  show "distinct ?is" by (simp add: first_places_def)
  show "set ?is = counted_ids loads rs"
    by (auto simp: counted_ids_def latest_standing first_places_def)
  show "independent_receipts loads rs = map (standing rs) ?is"
    unfolding independent_receipts_def Let_def
    by (subst latest_standing) (auto simp: filter_map first_places_def standing_id intro!: arg_cong [of _ _ "map _"] filter_cong)
qed

lemma disjoint_pairs:
  "distinct is \<Longrightarrow> (\<And>i j. i \<in> set is \<Longrightarrow> j \<in> set is \<Longrightarrow> i \<noteq> j \<Longrightarrow> charges (f i) \<inter> charges (f j) = {})
   \<Longrightarrow> disjoint_charges (map f is)"
proof (induction "is")
  case (Cons a "is")
  have "charges (concat (map f is)) = (\<Union>i \<in> set is. charges (f i))" by (auto simp: charges_def)
  moreover have "charges (f a) \<inter> charges (f i) = {}" if "i \<in> set is" for i
    using Cons.prems that by auto
  ultimately show ?case using Cons by auto
qed simp

text \<open>
  C18 What several attempts cost together is the sum of what each cost: of every receipt id
  the receipt listed last counts, once however often the id is listed, and not at all when
  another standing receipt names it as a component. When some receipt counts, no two that count
  share a charge and each names its cost, the aggregate names the sum of the costs.
\<close>

theorem aggregate_cost_adds_up:
  assumes "counted_ids loads rs \<noteq> {}"
    and disjoint: "\<And>i j. i \<in> counted_ids loads rs \<Longrightarrow> j \<in> counted_ids loads rs \<Longrightarrow> i \<noteq> j
      \<Longrightarrow> charges (ca_components (receipt_cash (standing rs i)))
        \<inter> charges (ca_components (receipt_cash (standing rs j))) = {}"
    and costs: "\<And>i. i \<in> counted_ids loads rs \<Longrightarrow> actual_cash_cost (receipt_cash (standing rs i)) cur = Some (cost i)"
  shows "\<exists>a. aggregate_accounting loads rs = Inr a
    \<and> actual_cash_cost (acc_cash a) cur = Some (\<Sum>i \<in> counted_ids loads rs. cost i)"
proof -
  obtain "is" where i: "distinct is" "set is = counted_ids loads rs" "independent_receipts loads rs = map (standing rs) is"
    by (rule independent_standing)
  have id: "xr_receipt_id (standing rs i) = i" if "i \<in> set is" for i
    using that i(2) by (intro standing_id) (auto simp: counted_ids_def)
  have "disjoint_charges (map (\<lambda>r. ca_components (receipt_cash r)) (map (standing rs) is))"
    using disjoint_pairs [OF i(1), of "\<lambda>i. ca_components (receipt_cash (standing rs i))"] disjoint i(2) by (simp add: o_def)
  moreover have "map (standing rs) is \<noteq> []" using assms(1) i(2) by auto
  moreover have "actual_cash_cost (receipt_cash r) cur = Some (cost (xr_receipt_id r))" if "r \<in> set (map (standing rs) is)" for r
    using that costs i(2) by (auto simp: id)
  ultimately have "\<exists>a. aggregate_accounting loads rs = Inr a \<and> actual_cash_cost (acc_cash a) cur
      = Some (sum_list (map (\<lambda>r. cost (xr_receipt_id r)) (map (standing rs) is)))"
    using items_cost [OF i(3), of cur "\<lambda>r. cost (xr_receipt_id r)"] by blast
  moreover have "map (\<lambda>r. cost (xr_receipt_id r)) (map (standing rs) is) = map cost is"
    by (simp add: id)
  ultimately show ?thesis using i(1,2) by (simp add: sum_list_distinct_conv_sum_set)
qed

section \<open>Listed twice, and listed with its summary\<close>

lemma remdups_absorb: "set xs \<subseteq> set ys \<Longrightarrow> remdups (xs @ ys) = remdups ys"
  by (induction xs) auto

lemma find_twice: "List.find p (xs @ xs) = List.find p xs"
  using select_row_append [of p xs xs] by (auto simp: select_row_def split: option.splits)

lemma receipts_listed_twice: "independent_receipts loads (rs @ rs) = independent_receipts loads rs"
  by (simp add: independent_receipts_def latest_receipts_def first_places_def remdups_absorb find_twice)

definition sample_receipt :: "string \<Rightarrow> string \<Rightarrow> rat \<Rightarrow> string option \<Rightarrow> ExecutionReceipt" where
  "sample_receipt i charge q components =
     \<lparr>xr_receipt_id = i, xr_decision_id = ''d1'', xr_duration_ms = 5,
      xr_accounting = \<lparr>acc_cash = \<lparr>ca_status = Stat_COMPLETE, ca_components = [sample_charge charge q Cash_VERIFIED]\<rparr>,
        acc_subscription_usage = [], acc_model_usage = [], acc_tool_footprint = None\<rparr>,
      xr_component_receipt_ids = components\<rparr>"

lemma sample_receipt_cost: "actual_cash_cost (receipt_cash (sample_receipt i charge q c)) ''USD'' = Some q"
  using single_cost [of "sample_charge charge q Cash_VERIFIED" "receipt_cash (sample_receipt i charge q c)"]
  by (simp add: authoritative_def sample_charge_def sample_receipt_def receipt_cash_def single_accounting)

text \<open>
  Two attempts of which one is listed twice, their summary, which names both, and another
  attempt: the summary and the last count.
\<close>

theorem aggregate_cost_adds_up_witness:
  "(let r = sample_receipt ''r1'' ''c1'' 3 None; s = sample_receipt ''r2'' ''c2'' 4 None;
      both = sample_receipt ''r3'' ''c3'' 7 (Some ''ids''); t = sample_receipt ''r4'' ''c4'' 5 None in
    \<exists>a. aggregate_accounting (\<lambda>_. Some (J_array [J_string ''r1'', J_string ''r2''])) [r, s, r, both, t] = Inr a
      \<and> actual_cash_cost (acc_cash a) ''USD'' = Some 12)"
proof -
  let ?loads = "\<lambda>_::string. Some (J_array [J_string ''r1'', J_string ''r2''])"
  let ?r = "sample_receipt ''r1'' ''c1'' 3 None" and ?s = "sample_receipt ''r2'' ''c2'' 4 None"
    and ?both = "sample_receipt ''r3'' ''c3'' 7 (Some ''ids'')" and ?t = "sample_receipt ''r4'' ''c4'' 5 None"
  let ?rs = "[?r, ?s, ?r, ?both, ?t]"
  have ids: "xr_receipt_id (sample_receipt i c q k) = i" "xr_component_receipt_ids (sample_receipt i c q k) = k" for i c q k
    by (simp_all add: sample_receipt_def)
  have standing: "standing ?rs ''r1'' = ?r" "standing ?rs ''r2'' = ?s" "standing ?rs ''r3'' = ?both" "standing ?rs ''r4'' = ?t"
    by (simp_all add: standing_def ids)
  have counted: "counted_ids ?loads ?rs = {''r3'', ''r4''}"
    by (auto simp: counted_ids_def ids standing component_ids_def string_items_def List.map_filter_simps)
  have own: "charges (ca_components (receipt_cash (sample_receipt i c q k))) = {c}" for i c q k
    by (simp add: charges_def sample_receipt_def receipt_cash_def sample_charge_def)
  have "charges (ca_components (receipt_cash (standing ?rs i))) \<inter> charges (ca_components (receipt_cash (standing ?rs j))) = {}"
    if "i \<in> counted_ids ?loads ?rs" "j \<in> counted_ids ?loads ?rs" "i \<noteq> j" for i j
    using that unfolding counted by (elim insertE emptyE) (simp_all add: standing own)
  moreover have "actual_cash_cost (receipt_cash (standing ?rs i)) ''USD'' = Some (if i = ''r3'' then 7 else 5)"
    if "i \<in> counted_ids ?loads ?rs" for i
    using that unfolding counted by (elim insertE emptyE) (simp_all add: standing sample_receipt_cost)
  moreover have "counted_ids ?loads ?rs \<noteq> {}" by (simp add: counted)
  ultimately have "\<exists>a. aggregate_accounting ?loads ?rs = Inr a \<and> actual_cash_cost (acc_cash a) ''USD''
      = Some (\<Sum>i \<in> counted_ids ?loads ?rs. if i = ''r3'' then 7 else 5)"
    by (intro aggregate_cost_adds_up)
  then show ?thesis by (simp add: counted)
qed

lemma summary_replaces_parts:
  "independent_receipts (\<lambda>_. Some (J_array [J_string ''r1'', J_string ''r2'']))
     [sample_receipt ''r1'' ''c1'' 3 None, sample_receipt ''r2'' ''c2'' 4 None, sample_receipt ''s'' ''c3'' 7 (Some ''ids'')]
   = [sample_receipt ''s'' ''c3'' 7 (Some ''ids'')]"
proof -
  have "xr_receipt_id (sample_receipt i c q k) = i" "xr_component_receipt_ids (sample_receipt i c q k) = k" for i c q k
    by (simp_all add: sample_receipt_def)
  then show ?thesis
    by (simp add: independent_receipts_def latest_receipts_def first_places_def component_ids_def string_items_def
        List.map_filter_simps Let_def)
qed

end
