(* ===== verification/Rate_Pricing.thy ===== *)
theory Rate_Pricing
  imports Receipt_Accounting Authorization_Basis "HOL-Library.AList"
begin

text \<open>
  The price of measured model usage under a rate card (\<open>aeep/accounting.py\<close>): the selection of
  a rate, the priced lines and their total as attributable cash or as a counterfactual cost,
  and the subscription units of a usage. The fingerprint of a usage is an argument.
\<close>

section \<open>Selecting a rate\<close>

record rate_selection =
  sel_service_tier :: "string option"
  sel_region :: "string option"
  sel_tool_name :: "string option"

text \<open>A rate without a region or tool applies to all; an absent request matches only those.\<close>

definition name_applies :: "string option \<Rightarrow> string option \<Rightarrow> bool" where
  "name_applies wanted offered = (case wanted of None \<Rightarrow> offered = None | Some _ \<Rightarrow> offered \<in> {None, wanted})"

definition tier_applies :: "rate_selection \<Rightarrow> RateCardRate \<Rightarrow> bool" where
  "tier_applies sel r =
     (rc_service_tier r = sel_service_tier sel \<and> name_applies (sel_region sel) (rc_region r)
      \<and> name_applies (sel_tool_name sel) (rc_tool_name r))"

definition rate_selected :: "RateType \<Rightarrow> rate_selection \<Rightarrow> int \<Rightarrow> string option \<Rightarrow> RateCardRate \<Rightarrow> bool" where
  "rate_selected kind sel ctx meter r =
     (rc_rate_type r = kind \<and> tier_applies sel r \<and> opt_all (\<lambda>m. rc_meter r = m) meter
      \<and> opt_all (\<lambda>n. n \<le> ctx) (rc_long_context_min r) \<and> opt_all (\<lambda>n. ctx \<le> n) (rc_long_context_max r))"

definition specificity :: "RateCardRate \<Rightarrow> nat" where
  "specificity r = (if rc_region r \<noteq> None then 1 else 0) + (if rc_tool_name r \<noteq> None then 1 else 0)"

definition most_specific :: "RateCardRate list \<Rightarrow> RateCardRate list" where
  "most_specific rs = filter (\<lambda>r. specificity r = Max (specificity ` set rs)) rs"

definition best_rates ::
  "RateType \<Rightarrow> rate_selection \<Rightarrow> int \<Rightarrow> string option \<Rightarrow> RateCardRate list \<Rightarrow> RateCardRate list" where
  "best_rates kind sel ctx meter rs =
     (let matches = filter (rate_selected kind sel ctx meter) rs; bounded = filter bounded_rate matches in
      most_specific (if bounded \<noteq> [] then bounded else matches))"

definition rate_for ::
  "RateCardSnapshot \<Rightarrow> RateType \<Rightarrow> rate_selection \<Rightarrow> int \<Rightarrow> string option \<Rightarrow> RateCardRate option result" where
  "rate_for s kind sel ctx meter =
     (case best_rates kind sel ctx meter (rs_rates s) of
        [] \<Rightarrow> Ok None
      | [r] \<Rightarrow> Ok (Some r)
      | _ \<Rightarrow> Err (ValueError ''ambiguous rate''))"

section \<open>The lines of a price\<close>

fun rate_type_value :: "RateType \<Rightarrow> string" where
  "rate_type_value Rate_INPUT_TOKEN = ''input_token''"
| "rate_type_value Rate_CACHED_INPUT_TOKEN = ''cached_input_token''"
| "rate_type_value Rate_OUTPUT_TOKEN = ''output_token''"
| "rate_type_value Rate_CACHE_WRITE_TOKEN = ''cache_write_token''"
| "rate_type_value Rate_TOOL_CALL = ''tool_call''"
| "rate_type_value Rate_SUBSCRIPTION_UNIT = ''subscription_unit''"
| "rate_type_value Rate_OTHER = ''other''"

definition extra_rate :: "rate_selection \<Rightarrow> RateCardRate \<Rightarrow> bool" where
  "extra_rate sel r =
     (rc_rate_type r \<in> {Rate_CACHE_WRITE_TOKEN, Rate_TOOL_CALL, Rate_OTHER} \<and> tier_applies sel r)"

definition extra_keys :: "RateCardSnapshot \<Rightarrow> rate_selection \<Rightarrow> (RateType \<times> string) list" where
  "extra_keys s sel =
     sort_key (\<lambda>(k, m). (rate_type_value k, m))
       (remdups (map (\<lambda>r. (rc_rate_type r, rc_meter r)) (filter (extra_rate sel) (rs_rates s))))"

fun select_extras ::
  "RateCardSnapshot \<Rightarrow> rate_selection \<Rightarrow> int \<Rightarrow> (RateType \<times> string) list \<Rightarrow> RateCardRate option list result" where
  "select_extras s sel ctx [] = Ok []"
| "select_extras s sel ctx ((kind, meter) # ks) =
     (case rate_for s kind sel ctx (Some meter) of
        Inl e \<Rightarrow> Err e
      | Inr r \<Rightarrow> (case select_extras s sel ctx ks of Inl e \<Rightarrow> Err e | Inr rs \<Rightarrow> Ok (r # rs)))"

record selected_rates =
  sr_input :: "RateCardRate option"
  sr_output :: "RateCardRate option"
  sr_cached :: "RateCardRate option"
  sr_extras :: "RateCardRate option list"

definition select_rates :: "RateCardSnapshot \<Rightarrow> rate_selection \<Rightarrow> int \<Rightarrow> selected_rates result" where
  "select_rates s sel ctx =
     (case rate_for s Rate_INPUT_TOKEN sel ctx None of
        Inl e \<Rightarrow> Err e
      | Inr i \<Rightarrow>
          (case rate_for s Rate_OUTPUT_TOKEN sel ctx None of
             Inl e \<Rightarrow> Err e
           | Inr out \<Rightarrow>
               (case rate_for s Rate_CACHED_INPUT_TOKEN sel ctx None of
                  Inl e \<Rightarrow> Err e
                | Inr c \<Rightarrow>
                    (case select_extras s sel ctx (extra_keys s sel) of
                       Inl e \<Rightarrow> Err e
                     | Inr xs \<Rightarrow> Ok \<lparr>sr_input = i, sr_output = out, sr_cached = c, sr_extras = xs\<rparr>))))"

definition known_extras :: "selected_rates \<Rightarrow> RateCardRate list" where
  "known_extras sel = List.map_filter id (sr_extras sel)"

text \<open>
  \<open>written\<close> tells whether the caller set the number of cache-write tokens; then it is the
  quantity of its meter.
\<close>

definition known_meters :: "bool \<Rightarrow> ModelTokenUsage \<Rightarrow> (string \<times> rat) list \<Rightarrow> (string \<times> rat) list" where
  "known_meters written u quantities =
     (if written then AList.update ''cache_write_input_tokens'' (of_int (mu_cache_write_input_tokens u)) quantities
      else quantities)"

definition rates_complete :: "selected_rates \<Rightarrow> ModelTokenUsage \<Rightarrow> (string \<times> rat) list \<Rightarrow> bool" where
  "rates_complete sel u meters =
     (sr_input sel \<noteq> None \<and> sr_output sel \<noteq> None
      \<and> \<not> (mu_cached_input_tokens u \<noteq> 0 \<and> sr_cached sel = None)
      \<and> None \<notin> set (sr_extras sel)
      \<and> \<not> (mu_cache_write_input_tokens u \<noteq> 0
           \<and> \<not> list_ex (\<lambda>r. rc_rate_type r = Rate_CACHE_WRITE_TOKEN) (known_extras sel))
      \<and> list_all (\<lambda>r. map_of meters (rc_meter r) \<noteq> None) (known_extras sel))"

definition price_lines ::
  "selected_rates \<Rightarrow> ModelTokenUsage \<Rightarrow> (string \<times> rat) list \<Rightarrow> (RateCardRate \<times> rat) list" where
  "price_lines sel u meters =
     [(the (sr_input sel), of_int (mu_input_tokens u - mu_cached_input_tokens u - mu_cache_write_input_tokens u)),
      (the (sr_output sel), of_int (mu_output_tokens u))]
     @ (case sr_cached sel of
          None \<Rightarrow> []
        | Some r \<Rightarrow>
            if mu_cached_input_tokens u \<noteq> 0 then [(r, of_int (mu_cached_input_tokens u))] else [])
     @ map (\<lambda>r. (r, the (map_of meters (rc_meter r)))) (known_extras sel)"

definition lines_total :: "(RateCardRate \<times> rat) list \<Rightarrow> rat" where
  "lines_total ls = sum_list (map (\<lambda>(r, q). rate_charge r q) ls)"

definition lines_quantities :: "(RateCardRate \<times> rat) list \<Rightarrow> (string \<times> rat) list" where
  "lines_quantities ls = foldl (\<lambda>acc (r, q). AList.update (rc_rate_id r) q acc) [] ls"

section \<open>Pricing\<close>

record CounterfactualCashCost =
  cf_amount :: "rat option"
  cf_currency :: string
  cf_rate_snapshot_id :: string
  cf_provider :: string
  cf_model :: string
  cf_usage_fingerprint :: string
  cf_applied_rate_ids :: "string list"
  cf_applied_meter_quantities :: "(string \<times> rat) list"
  cf_status :: EvidenceStatus

definition mk_counterfactual :: "CounterfactualCashCost \<Rightarrow> CounterfactualCashCost result" where
  "mk_counterfactual c =
     (if opt_all (\<lambda>q. 0 \<le> q) (cf_amount c) \<and> iso_currency (cf_currency c) then Ok c
      else Err (ValueError ''counterfactual cash cost field''))"

datatype priced = Actual_cash CashEvidence | Counterfactual_cash CounterfactualCashCost

definition measured_usage :: "ModelTokenUsage \<Rightarrow> bool" where
  "measured_usage u =
     (me_status (mu_evidence u) = Stat_COMPLETE
      \<and> me_trust (mu_evidence u) \<in> {Trust_OBSERVED, Trust_VERIFIED, Trust_ATTESTED})"

definition actual_price ::
  "string \<Rightarrow> string \<Rightarrow> RateCardSnapshot \<Rightarrow> string \<Rightarrow> rat option \<Rightarrow> (RateCardRate \<times> rat) list \<Rightarrow> CashEvidence" where
  "actual_price charge cur s fp due ls =
     \<lparr>ce_charge_id = charge, ce_amount = due, ce_currency = cur,
      ce_classification = (if due \<noteq> None then Cash_PINNED_RATE_BILLABLE_USAGE else Cash_UNAVAILABLE),
      ce_evidence = (if due \<noteq> None
        then unavailable_evidence\<lparr>me_status := Stat_COMPLETE, me_source := Src_PRICED_MEASURED_BILLABLE_USAGE,
               me_trust := Trust_VERIFIED\<rparr>
        else unavailable_evidence),
      ce_rate_snapshot_id = (if due \<noteq> None then rs_snapshot_id s else None), ce_billing_record_id = None,
      ce_usage_fingerprint = Some fp, ce_applied_rate_ids = map (rc_rate_id \<circ> fst) ls,
      ce_applied_meter_quantities = lines_quantities ls\<rparr>"

definition counterfactual_price ::
  "string \<Rightarrow> RateCardSnapshot \<Rightarrow> ModelTokenUsage \<Rightarrow> string \<Rightarrow> rat option \<Rightarrow> (RateCardRate \<times> rat) list
   \<Rightarrow> CounterfactualCashCost" where
  "counterfactual_price cur s u fp due ls =
     \<lparr>cf_amount = due, cf_currency = cur,
      cf_rate_snapshot_id = (case rs_snapshot_id s of None \<Rightarrow> [] | Some i \<Rightarrow> i),
      cf_provider = mu_provider u, cf_model = mu_model u, cf_usage_fingerprint = fp,
      cf_applied_rate_ids = map (rc_rate_id \<circ> fst) ls, cf_applied_meter_quantities = lines_quantities ls,
      cf_status = (if due \<noteq> None then Stat_COMPLETE else Stat_PARTIAL)\<rparr>"

definition price_model_usage ::
  "(ModelTokenUsage \<Rightarrow> string) \<Rightarrow> ModelTokenUsage \<Rightarrow> RateCardSnapshot \<Rightarrow> bool \<Rightarrow> string \<Rightarrow> rate_selection
   \<Rightarrow> bool \<Rightarrow> (string \<times> rat) list \<Rightarrow> priced result" where
  "price_model_usage fingerprint u s actual charge sel written quantities =
     (if mu_provider u \<noteq> rs_provider s \<or> mu_model u \<noteq> rs_model s
      then Err (ValueError ''usage does not match rate-card provider/model'')
      else case rs_currency s of
        None \<Rightarrow> Err (ValueError ''model cash pricing requires a monetary rate-card currency'')
      | Some cur \<Rightarrow>
          if actual \<and> \<not> measured_usage u
          then Err (ValueError ''attributable tariff cash requires complete measured usage evidence'')
          else case select_rates s sel (mu_input_tokens u) of
            Inl e \<Rightarrow> Err e
          | Inr rates \<Rightarrow>
              (let meters = known_meters written u quantities;
                   complete = rates_complete rates u meters;
                   ls = (if complete then price_lines rates u meters else []);
                   due = (if complete then Some (lines_total ls) else None) in
               if actual then
                 (if mu_access_channel u \<noteq> Channel_API
                  then Err (ValueError ''only an API access channel can create tariff-derived actual cash'')
                  else map_sum id Actual_cash (mk_component (actual_price charge cur s (fingerprint u) due ls)))
               else map_sum id Counterfactual_cash
                      (mk_counterfactual (counterfactual_price cur s u (fingerprint u) due ls))))"

section \<open>Subscription units\<close>

definition mk_subscription_usage :: "SubscriptionUsage \<Rightarrow> SubscriptionUsage result" where
  "mk_subscription_usage u =
     (if \<not> (text_len 1 100 (su_provider u) \<and> text_len 1 200 (su_resource_pool u) \<and> text_len 1 100 (su_unit u)
          \<and> opt_all (\<lambda>q. 0 \<le> q) (su_consumed u) \<and> opt_all (text_len 0 100) (su_rate_snapshot_id u)
          \<and> opt_all (text_len 0 128) (su_usage_fingerprint u))
      then Err (ValueError ''subscription usage field'')
      else if su_consumed u \<noteq> None \<and> me_status (su_source u) = Stat_UNAVAILABLE
      then Err (ValueError ''known subscription usage requires evidence'')
      else Ok u)"

definition token_meters :: "ModelTokenUsage \<Rightarrow> (string \<times> int) list" where
  "token_meters u =
     [(''input_tokens'', mu_input_tokens u), (''cached_input_tokens'', mu_cached_input_tokens u),
      (''cache_write_input_tokens'', mu_cache_write_input_tokens u), (''output_tokens'', mu_output_tokens u)]"

definition subscription_rates :: "RateCardSnapshot \<Rightarrow> RateCardRate list" where
  "subscription_rates s = filter (\<lambda>r. rc_rate_type r = Rate_SUBSCRIPTION_UNIT) (rs_rates s)"

definition subscription_usage_from_tokens ::
  "(ModelTokenUsage \<Rightarrow> string) \<Rightarrow> ModelTokenUsage \<Rightarrow> RateCardSnapshot \<Rightarrow> string \<Rightarrow> string \<Rightarrow> SubscriptionCharge
   \<Rightarrow> SubscriptionUsage result" where
  "subscription_usage_from_tokens fingerprint u s pool unit paid =
     (let rates = subscription_rates s;
          unknown = \<lparr>su_provider = mu_provider u, su_resource_pool = pool, su_unit = unit, su_consumed = None,
            su_source = unavailable_evidence, su_included_or_paid = paid, su_rate_snapshot_id = None,
            su_usage_fingerprint = None\<rparr> in
      if me_status (mu_evidence u) \<noteq> Stat_COMPLETE then mk_subscription_usage unknown
      else if rates = [] \<or> list_ex (\<lambda>r. map_of (token_meters u) (rc_meter r) = None) rates
      then mk_subscription_usage unknown
      else mk_subscription_usage (unknown\<lparr>
        su_consumed := Some (sum_list (map (\<lambda>r. rate_charge r (of_int (the (map_of (token_meters u) (rc_meter r))))) rates)),
        su_source := unavailable_evidence\<lparr>me_status := Stat_COMPLETE, me_source := Src_PINNED_RATE_TABLE,
          me_trust := Trust_VERIFIED\<rparr>,
        su_rate_snapshot_id := rs_snapshot_id s, su_usage_fingerprint := Some (fingerprint u)\<rparr>))"

definition subscription_model_accounting ::
  "(ModelTokenUsage \<Rightarrow> string) \<Rightarrow> ModelTokenUsage \<Rightarrow> string \<Rightarrow> string \<Rightarrow> rat option \<Rightarrow> MeasurementEvidence option
   \<Rightarrow> SubscriptionCharge \<Rightarrow> bool \<Rightarrow> ResourceAccounting result" where
  "subscription_model_accounting fingerprint u pool unit consumed evidence paid free =
     (case mk_subscription_usage \<lparr>su_provider = mu_provider u, su_resource_pool = pool, su_unit = unit,
          su_consumed = consumed, su_source = (case evidence of None \<Rightarrow> unavailable_evidence | Some e \<Rightarrow> e),
          su_included_or_paid = paid, su_rate_snapshot_id = None, su_usage_fingerprint = Some (fingerprint u)\<rparr> of
        Inl e \<Rightarrow> Err e
      | Inr sub \<Rightarrow>
          (let component = \<lparr>ce_charge_id = ''included:'' @ pool @ '':'' @ fingerprint u, ce_amount = Some 0,
                 ce_currency = ''USD'', ce_classification = Cash_VERIFIED,
                 ce_evidence = unavailable_evidence\<lparr>me_status := Stat_COMPLETE,
                   me_source := Src_CONFIRMED_NO_INCREMENTAL_CHARGE, me_trust := Trust_VERIFIED\<rparr>,
                 ce_rate_snapshot_id = None, ce_billing_record_id = None,
                 ce_usage_fingerprint = Some (fingerprint u), ce_applied_rate_ids = [],
                 ce_applied_meter_quantities = []\<rparr>;
               cash = (if free
                 then (case mk_component component of
                         Inl e \<Rightarrow> Err e | Inr c \<Rightarrow> mk_cash_accounting Stat_COMPLETE [c])
                 else mk_cash_accounting Stat_UNAVAILABLE []) in
           case cash of
             Inl e \<Rightarrow> Err e
           | Inr a \<Rightarrow> Ok \<lparr>acc_cash = a, acc_subscription_usage = [sub], acc_model_usage = [u],
                            acc_tool_footprint = None\<rparr>))"

section \<open>What a selection finds\<close>

lemma list_few_cases [case_names none one more]:
  assumes "xs = [] \<Longrightarrow> P" and "\<And>x. xs = [x] \<Longrightarrow> P" and "\<And>x y ys. xs = x # y # ys \<Longrightarrow> P"
  shows P
  using assms by (cases xs rule: remdups_adj.cases) auto

lemma rate_for_sound:
  assumes "rate_for s kind sel ctx meter = Inr (Some r)"
  shows "r \<in> set (rs_rates s)" "rate_selected kind sel ctx meter r"
proof -
  have "best_rates kind sel ctx meter (rs_rates s) = [r]"
    using assms by (cases "best_rates kind sel ctx meter (rs_rates s)" rule: list_few_cases) (auto simp: rate_for_def)
  then have "r \<in> set (best_rates kind sel ctx meter (rs_rates s))" by simp
  then show "r \<in> set (rs_rates s)" "rate_selected kind sel ctx meter r"
    by (simp_all add: best_rates_def most_specific_def Let_def split: if_splits)
qed

text \<open>A selection sees the rates of a card as a collection, not as a list.\<close>

lemma at_most_one_mset:
  assumes "mset xs = mset ys"
  shows "(case xs of [] \<Rightarrow> a | [x] \<Rightarrow> f x | _ \<Rightarrow> b) = (case ys of [] \<Rightarrow> a | [y] \<Rightarrow> f y | _ \<Rightarrow> b)"
proof -
  have "length xs = length ys" using assms by (rule mset_eq_length)
  then show ?thesis using assms by (auto split: list.splits)
qed

lemma most_specific_mset: "mset xs = mset ys \<Longrightarrow> mset (most_specific xs) = mset (most_specific ys)"
  using mset_eq_setD [of xs ys] by (simp add: most_specific_def mset_filter)

lemma rate_for_mset:
  assumes "mset rates = mset (rs_rates s)"
  shows "rate_for (s\<lparr>rs_rates := rates\<rparr>) kind sel ctx meter = rate_for s kind sel ctx meter"
proof -
  let ?m = "filter (rate_selected kind sel ctx meter)"
  have matches: "mset (?m rates) = mset (?m (rs_rates s))" using assms by (simp only: mset_filter)
  then have bounded: "mset (filter bounded_rate (?m rates)) = mset (filter bounded_rate (?m (rs_rates s)))"
    by (simp only: mset_filter)
  have empty: "filter bounded_rate (?m rates) = [] \<longleftrightarrow> filter bounded_rate (?m (rs_rates s)) = []"
    using mset_eq_length [OF bounded] by (metis length_0_conv)
  have "mset (best_rates kind sel ctx meter rates) = mset (best_rates kind sel ctx meter (rs_rates s))"
  proof (cases "filter bounded_rate (?m (rs_rates s)) = []")
    case True
    then show ?thesis unfolding best_rates_def Let_def using most_specific_mset [OF matches]
      by (simp only: empty simp_thms if_True if_False)
  next
    case False
    then show ?thesis unfolding best_rates_def Let_def using most_specific_mset [OF bounded]
      by (simp only: empty simp_thms if_True if_False)
  qed
  from at_most_one_mset [OF this] show ?thesis by (simp add: rate_for_def)
qed

lemma rate_type_value_inj: "rate_type_value k = rate_type_value l \<longleftrightarrow> k = l"
  by (cases k; cases l) simp_all

lemma extra_keys_mset:
  assumes "mset rates = mset (rs_rates s)"
  shows "extra_keys (s\<lparr>rs_rates := rates\<rparr>) sel = extra_keys s sel"
proof -
  let ?f = "\<lambda>(k, m :: string). (rate_type_value k, m)"
  let ?ks = "\<lambda>rs. remdups (map (\<lambda>r. (rc_rate_type r, rc_meter r)) (filter (extra_rate sel) rs))"
  have "mset (?ks rates) = mset (?ks (rs_rates s))"
    using mset_eq_setD [OF assms] by (simp add: set_eq_iff_mset_remdups_eq [symmetric])
  moreover have "inj_on ?f (set (?ks rates))" by (auto simp: inj_on_def rate_type_value_inj)
  ultimately show ?thesis
    by (simp add: extra_keys_def sort_key_inj_key_eq)
qed

lemma select_extras_mset:
  "mset rates = mset (rs_rates s) \<Longrightarrow>
     select_extras (s\<lparr>rs_rates := rates\<rparr>) sel ctx ks = select_extras s sel ctx ks"
  by (induction ks) (auto simp: rate_for_mset split: sum.splits)

text \<open>
  The price does not depend on the order in which a card lists its rates: not the amount, not
  the rates applied, and not whether the card is ambiguous for this use.
\<close>

theorem price_order_irrelevant:
  assumes "mset rates = mset (rs_rates s)"
  shows "price_model_usage fp u (s\<lparr>rs_rates := rates\<rparr>) actual charge sel written quantities
    = price_model_usage fp u s actual charge sel written quantities"
proof -
  have "select_rates (s\<lparr>rs_rates := rates\<rparr>) sel ctx = select_rates s sel ctx" for ctx
    by (simp add: select_rates_def rate_for_mset [OF assms] extra_keys_mset [OF assms] select_extras_mset [OF assms]
        cong: sum.case_cong)
  then show ?thesis
    by (simp add: price_model_usage_def actual_price_def counterfactual_price_def Let_def
        cong: option.case_cong sum.case_cong if_cong)
qed

section \<open>A price covers the usage\<close>

lemma select_extras_sound:
  "select_extras s sel ctx ks = Inr xs \<Longrightarrow>
     length xs = length ks
     \<and> (\<forall>(x, k) \<in> set (zip xs ks). \<forall>r. x = Some r \<longrightarrow>
          r \<in> set (rs_rates s) \<and> (rc_rate_type r, rc_meter r) = k)"
proof (induction ks arbitrary: xs)
  case (Cons k ks)
  obtain kind meter where k: "k = (kind, meter)" by (cases k)
  then obtain x ys where x: "rate_for s kind sel ctx (Some meter) = Inr x" "select_extras s sel ctx ks = Inr ys"
      "xs = x # ys"
    using Cons.prems by (auto split: sum.splits)
  have "r \<in> set (rs_rates s) \<and> (rc_rate_type r, rc_meter r) = k" if "x = Some r" for r
    using rate_for_sound [of s kind sel ctx "Some meter" r] x(1) that k by (simp add: rate_selected_def)
  then show ?case using Cons.IH [OF x(2)] x(3) by auto
qed simp

text \<open>The known extra rates have distinct pairs of a type and a meter.\<close>

lemma zip_keys_distinct:
  "length xs = length ks \<Longrightarrow> distinct ks \<Longrightarrow>
     \<forall>(x, k) \<in> set (zip xs ks). \<forall>r. x = Some r \<longrightarrow> f r = k \<Longrightarrow>
     distinct (map f (List.map_filter id xs)) \<and> f ` set (List.map_filter id xs) \<subseteq> set ks"
proof (induction xs ks rule: list_induct2)
  case (Cons x xs k ks)
  then show ?case by (cases x) (auto simp: List.map_filter_simps)
qed (simp add: List.map_filter_simps)

lemma zip_keys_all:
  "length xs = length ks \<Longrightarrow> None \<notin> set xs \<Longrightarrow>
     \<forall>(x, k) \<in> set (zip xs ks). \<forall>r. x = Some r \<longrightarrow> f r = k \<Longrightarrow> map f (List.map_filter id xs) = ks"
proof (induction xs ks rule: list_induct2)
  case (Cons x xs k ks)
  then show ?case by (cases x) (auto simp: List.map_filter_simps)
qed (simp add: List.map_filter_simps)

lemma distinct_extra_keys: "distinct (extra_keys s sel)"
  by (simp add: extra_keys_def)

lemma extra_key_kinds: "(k, m) \<in> set (extra_keys s sel) \<Longrightarrow>
    k \<in> {Rate_CACHE_WRITE_TOKEN, Rate_TOOL_CALL, Rate_OTHER}"
  by (auto simp: extra_keys_def extra_rate_def)

lemma map_filter_in: "r \<in> set (List.map_filter id xs) \<longleftrightarrow> Some r \<in> set xs"
  by (auto simp: List.map_filter_def intro: rev_image_eqI)

text \<open>What a selection of rates guarantees.\<close>

definition sound_rates :: "RateCardSnapshot \<Rightarrow> selected_rates \<Rightarrow> bool" where
  "sound_rates s sel =
     (opt_all (\<lambda>r. r \<in> set (rs_rates s) \<and> rc_rate_type r = Rate_INPUT_TOKEN) (sr_input sel)
      \<and> opt_all (\<lambda>r. r \<in> set (rs_rates s) \<and> rc_rate_type r = Rate_OUTPUT_TOKEN) (sr_output sel)
      \<and> opt_all (\<lambda>r. r \<in> set (rs_rates s) \<and> rc_rate_type r = Rate_CACHED_INPUT_TOKEN) (sr_cached sel)
      \<and> set (known_extras sel) \<subseteq> set (rs_rates s)
      \<and> rc_rate_type ` set (known_extras sel) \<subseteq> {Rate_CACHE_WRITE_TOKEN, Rate_TOOL_CALL, Rate_OTHER}
      \<and> distinct (map (\<lambda>r. (rc_rate_type r, rc_meter r)) (known_extras sel)))"

lemma select_rates_sound:
  assumes "select_rates s sel ctx = Inr rates"
  shows "sound_rates s rates"
proof -
  obtain i out c xs where x: "rate_for s Rate_INPUT_TOKEN sel ctx None = Inr i"
      "rate_for s Rate_OUTPUT_TOKEN sel ctx None = Inr out"
      "rate_for s Rate_CACHED_INPUT_TOKEN sel ctx None = Inr c"
      "select_extras s sel ctx (extra_keys s sel) = Inr xs"
      "rates = \<lparr>sr_input = i, sr_output = out, sr_cached = c, sr_extras = xs\<rparr>"
    using assms by (auto simp: select_rates_def split: sum.splits)
  have one: "opt_all (\<lambda>r. r \<in> set (rs_rates s) \<and> rc_rate_type r = k) v"
    if "rate_for s k sel ctx None = Inr v" for k v
    using that rate_for_sound [of s k sel ctx None] by (cases v) (auto simp: rate_selected_def)
  note extras = select_extras_sound [OF x(4)]
  have keys: "\<forall>(x, k) \<in> set (zip xs (extra_keys s sel)). \<forall>r. x = Some r \<longrightarrow> (rc_rate_type r, rc_meter r) = k"
    using extras by fast
  note dist = zip_keys_distinct [OF conjunct1 [OF extras] distinct_extra_keys keys]
  have "set (known_extras rates) \<subseteq> set (rs_rates s)"
  proof
    fix r assume "r \<in> set (known_extras rates)"
    then have "Some r \<in> set xs" by (simp add: known_extras_def x(5) map_filter_in)
    then obtain k where "(Some r, k) \<in> set (zip xs (extra_keys s sel))"
      using extras by (metis in_set_impl_in_set_zip1)
    then show "r \<in> set (rs_rates s)" using extras by fast
  qed
  moreover have "rc_rate_type ` set (known_extras rates) \<subseteq> {Rate_CACHE_WRITE_TOKEN, Rate_TOOL_CALL, Rate_OTHER}"
    using dist extra_key_kinds [of _ _ s sel] by (fastforce simp: known_extras_def x(5))
  ultimately show ?thesis
    using one [OF x(1)] one [OF x(2)] one [OF x(3)] dist by (simp add: sound_rates_def x(5) known_extras_def)
qed

definition kind_total :: "RateType \<Rightarrow> (RateCardRate \<times> rat) list \<Rightarrow> rat" where
  "kind_total k ls = sum_list (map snd (filter (\<lambda>l. rc_rate_type (fst l) = k) ls))"

lemma lines_sound:
  assumes sound: "sound_rates s rates" and complete: "rates_complete rates u meters"
  defines "ls \<equiv> price_lines rates u meters"
  shows "distinct (map fst ls)" "fst ` set ls \<subseteq> set (rs_rates s)"
    "kind_total Rate_OUTPUT_TOKEN ls = of_int (mu_output_tokens u)"
    "kind_total Rate_CACHED_INPUT_TOKEN ls = of_int (mu_cached_input_tokens u)"
    "kind_total Rate_INPUT_TOKEN ls
       = of_int (mu_input_tokens u - mu_cached_input_tokens u - mu_cache_write_input_tokens u)"
proof -
  obtain i out where io: "sr_input rates = Some i" "sr_output rates = Some out"
    using complete by (auto simp: rates_complete_def)
  let ?x = "known_extras rates" and ?c = "case sr_cached rates of None \<Rightarrow> [] | Some r \<Rightarrow>
    if mu_cached_input_tokens u \<noteq> 0 then [(r, of_int (mu_cached_input_tokens u))] else []"
  let ?xs = "map (\<lambda>r. (r, the (map_of meters (rc_meter r)))) ?x"
  have ls: "ls = [(i, of_int (mu_input_tokens u - mu_cached_input_tokens u - mu_cache_write_input_tokens u)),
      (out, of_int (mu_output_tokens u))] @ ?c @ ?xs"
    by (simp add: ls_def price_lines_def io)
  have kinds: "rc_rate_type i = Rate_INPUT_TOKEN" "rc_rate_type out = Rate_OUTPUT_TOKEN"
    "\<And>r. sr_cached rates = Some r \<Longrightarrow> rc_rate_type r = Rate_CACHED_INPUT_TOKEN \<and> r \<in> set (rs_rates s)"
    "i \<in> set (rs_rates s)" "out \<in> set (rs_rates s)"
    using sound io by (auto simp: sound_rates_def)
  have extra: "rc_rate_type r \<in> {Rate_CACHE_WRITE_TOKEN, Rate_TOOL_CALL, Rate_OTHER} \<and> r \<in> set (rs_rates s)"
    if "r \<in> set ?x" for r using sound that by (auto simp: sound_rates_def)
  have cached: "mu_cached_input_tokens u = 0" if "sr_cached rates = None"
    using complete that by (auto simp: rates_complete_def)
  have "distinct ?x" using sound by (auto simp: sound_rates_def distinct_map)
  then show "distinct (map fst ls)"
    using kinds extra by (auto simp: ls o_def split: option.splits dest!: extra)
  show "fst ` set ls \<subseteq> set (rs_rates s)"
    using kinds extra by (auto simp: ls split: option.splits if_splits)
  have other: "filter (\<lambda>l. rc_rate_type (fst l) = k) ?xs = []"
    if "k \<in> {Rate_INPUT_TOKEN, Rate_OUTPUT_TOKEN, Rate_CACHED_INPUT_TOKEN}" for k
    using that extra by (fastforce simp: filter_empty_conv)
  show "kind_total Rate_OUTPUT_TOKEN ls = of_int (mu_output_tokens u)"
    "kind_total Rate_CACHED_INPUT_TOKEN ls = of_int (mu_cached_input_tokens u)"
    "kind_total Rate_INPUT_TOKEN ls
       = of_int (mu_input_tokens u - mu_cached_input_tokens u - mu_cache_write_input_tokens u)"
    using kinds cached other by (auto simp: kind_total_def ls split: option.splits)
qed

text \<open>The lines of an extra type are those of the pairs of a type and a meter, each with its quantity.\<close>

definition rate_key :: "RateCardRate \<Rightarrow> RateType \<times> string" where
  "rate_key r = (rc_rate_type r, rc_meter r)"

definition extra_lines :: "(RateCardRate \<times> rat) list \<Rightarrow> (RateCardRate \<times> rat) list" where
  "extra_lines ls =
     filter (\<lambda>l. rc_rate_type (fst l) \<in> {Rate_CACHE_WRITE_TOKEN, Rate_TOOL_CALL, Rate_OTHER}) ls"

lemma selected_keys:
  assumes "select_rates s sel ctx = Inr rates" and "None \<notin> set (sr_extras rates)"
  shows "map rate_key (known_extras rates) = extra_keys s sel"
proof -
  have xs: "select_extras s sel ctx (extra_keys s sel) = Inr (sr_extras rates)"
    using assms(1) by (auto simp: select_rates_def split: sum.splits)
  show ?thesis
    unfolding known_extras_def using select_extras_sound [OF xs] assms(2)
    by (intro zip_keys_all) (auto simp: rate_key_def)
qed

lemma price_extra_lines:
  assumes sound: "sound_rates s rates" and complete: "rates_complete rates u meters"
  shows "extra_lines (price_lines rates u meters)
    = map (\<lambda>r. (r, the (map_of meters (rc_meter r)))) (known_extras rates)"
proof -
  obtain i out where io: "sr_input rates = Some i" "sr_output rates = Some out"
    using complete by (auto simp: rates_complete_def)
  have extra: "rc_rate_type r \<in> {Rate_CACHE_WRITE_TOKEN, Rate_TOOL_CALL, Rate_OTHER}" if "r \<in> set (known_extras rates)" for r
    using sound that by (auto simp: sound_rates_def)
  have "filter (\<lambda>l. rc_rate_type (fst l) \<in> {Rate_CACHE_WRITE_TOKEN, Rate_TOOL_CALL, Rate_OTHER})
      (map (\<lambda>r. (r, the (map_of meters (rc_meter r)))) (known_extras rates))
    = map (\<lambda>r. (r, the (map_of meters (rc_meter r)))) (known_extras rates)"
    using extra by (intro filter_True) auto
  moreover have "rc_rate_type i = Rate_INPUT_TOKEN" "rc_rate_type out = Rate_OUTPUT_TOKEN"
    "\<And>r. sr_cached rates = Some r \<Longrightarrow> rc_rate_type r = Rate_CACHED_INPUT_TOKEN"
    using sound io by (auto simp: sound_rates_def)
  ultimately show ?thesis by (auto simp: extra_lines_def price_lines_def io split: option.splits)
qed

text \<open>When all cache-write rates read the meter of the usage, they charge its cache-write tokens.\<close>

definition cache_write_meter :: string where
  "cache_write_meter = ''cache_write_input_tokens''"

lemma cache_write_total:
  assumes ls: "extra_lines ls = map (\<lambda>r. (r, the (map_of (known_meters True u quantities) (rc_meter r)))) xs"
    and keys: "distinct (map rate_key xs)"
    and meter: "\<And>r. r \<in> set xs \<Longrightarrow> rc_rate_type r = Rate_CACHE_WRITE_TOKEN \<Longrightarrow> rc_meter r = cache_write_meter"
    and known: "mu_cache_write_input_tokens u \<noteq> 0 \<Longrightarrow> \<exists>r \<in> set xs. rc_rate_type r = Rate_CACHE_WRITE_TOKEN"
  shows "kind_total Rate_CACHE_WRITE_TOKEN ls = of_int (mu_cache_write_input_tokens u)"
proof -
  let ?p = "\<lambda>r. rc_rate_type r = Rate_CACHE_WRITE_TOKEN" and ?n = "of_int (mu_cache_write_input_tokens u) :: rat"
  let ?ws = "filter ?p xs"
  have "filter (\<lambda>l. ?p (fst l)) ls = filter (\<lambda>l. ?p (fst l)) (extra_lines ls)"
    by (auto simp: extra_lines_def intro: filter_cong)
  then have tot: "kind_total Rate_CACHE_WRITE_TOKEN ls
      = sum_list (map (\<lambda>r. the (map_of (known_meters True u quantities) (rc_meter r))) ?ws)"
    by (simp add: kind_total_def ls filter_map o_def)
  have "the (map_of (known_meters True u quantities) (rc_meter r)) = ?n" if "r \<in> set ?ws" for r
    using that meter by (simp add: known_meters_def cache_write_meter_def update_conv')
  then have vals: "map (\<lambda>r. the (map_of (known_meters True u quantities) (rc_meter r))) ?ws = map (\<lambda>_. ?n) ?ws"
    by simp
  have "distinct (map rate_key ?ws)" using keys by (rule distinct_map_filter)
  moreover have "rate_key r = (Rate_CACHE_WRITE_TOKEN, cache_write_meter)" if "r \<in> set ?ws" for r
    using that meter by (simp add: rate_key_def)
  ultimately have "?ws = [] \<or> (\<exists>r. ?ws = [r])"
    by (cases ?ws rule: remdups_adj.cases) (simp, simp, metis distinct_length_2_or_more list.set_intros list.simps(9))
  moreover have "?ws \<noteq> [] \<or> ?n = 0" using known by (auto simp: filter_empty_conv)
  ultimately show ?thesis unfolding tot vals by auto
qed

fun price_of :: "priced \<Rightarrow> rat option" where
  "price_of (Actual_cash c) = ce_amount c"
| "price_of (Counterfactual_cash c) = cf_amount c"

fun applied_rates :: "priced \<Rightarrow> string list" where
  "applied_rates (Actual_cash c) = ce_applied_rate_ids c"
| "applied_rates (Counterfactual_cash c) = cf_applied_rate_ids c"

lemma mk_component_keeps: "mk_component c = Inr d \<Longrightarrow> d = c \<and> opt_all (\<lambda>q. 0 \<le> q) (ce_amount c)"
  by (auto simp: mk_component_def validate_cash_evidence_def split: sum.splits if_splits)

lemma price_parts:
  assumes "price_model_usage fp u s actual charge sel written quantities = Inr p" and "price_of p = Some q"
  obtains rates where "select_rates s sel (mu_input_tokens u) = Inr rates"
    "rates_complete rates u (known_meters written u quantities)"
    "q = lines_total (price_lines rates u (known_meters written u quantities))" "0 \<le> q"
    "applied_rates p = map (rc_rate_id \<circ> fst) (price_lines rates u (known_meters written u quantities))"
proof -
  let ?m = "known_meters written u quantities"
  obtain cur rates where x: "rs_currency s = Some cur" "select_rates s sel (mu_input_tokens u) = Inr rates"
    using assms(1) by (auto simp: price_model_usage_def split: if_splits option.splits sum.splits)
  let ?ls = "if rates_complete rates u ?m then price_lines rates u ?m else []"
  let ?due = "if rates_complete rates u ?m then Some (lines_total ?ls) else None"
  have "(\<exists>c. p = Actual_cash c \<and> mk_component (actual_price charge cur s (fp u) ?due ?ls) = Inr c)
      \<or> (\<exists>c. p = Counterfactual_cash c \<and> mk_counterfactual (counterfactual_price cur s u (fp u) ?due ?ls) = Inr c)"
    using assms(1) x by (auto simp: price_model_usage_def Let_def map_sum_def split: if_splits sum.splits)
  then have "price_of p = ?due \<and> applied_rates p = map (rc_rate_id \<circ> fst) ?ls \<and> opt_all (\<lambda>q. 0 \<le> q) ?due"
    by (elim disjE exE conjE)
      (auto simp: actual_price_def mk_counterfactual_def counterfactual_price_def dest!: mk_component_keeps split: if_splits)
  then show thesis using assms(2) x(2) by (intro that) (auto split: if_splits)
qed

lemma distinct_rates:
  assumes "validate_snapshot cid s0 = Inr s" and "distinct (map fst ls)" and "fst ` set ls \<subseteq> set (rs_rates s)"
  shows "distinct (map (rc_rate_id \<circ> fst) ls)"
proof -
  have "distinct (map rc_rate_id (rs_rates s))"
    using assms(1) by (auto simp: validate_snapshot_def Let_def first_error_iff split: sum.splits if_splits)
  then have "inj_on rc_rate_id (set (map fst ls))"
    using assms(3) by (auto simp: distinct_map intro: inj_on_subset)
  then have "distinct (map rc_rate_id (map fst ls))"
    using assms(2) by (subst distinct_map) simp
  then show ?thesis by simp
qed

text \<open>
  C19 A price under a validated rate card charges the usage without a gap and without charging
  twice. The amount is the sum of the charges of its lines and is never negative, and no rate is
  applied twice. The output, the cached and the fresh input tokens are each charged at rates of
  their own type, where fresh are those neither cached nor written to a cache. The other lines
  are exactly one for each pair of an extra type and a meter that the card offers for the
  selection, with the known quantity of the meter. Written tokens have a cache-write line, and
  when they were given as such and every cache-write rate of the card reads their meter, fresh,
  cached and written tokens charged together are the input tokens.
\<close>

theorem price_covers_usage:
  assumes "validate_snapshot cid s0 = Inr s"
    and "price_model_usage fp u s actual charge sel written quantities = Inr p" and "price_of p = Some q"
  shows "\<exists>ls. q = lines_total ls \<and> 0 \<le> q \<and> applied_rates p = map (rc_rate_id \<circ> fst) ls
    \<and> distinct (applied_rates p) \<and> fst ` set ls \<subseteq> set (rs_rates s)
    \<and> kind_total Rate_OUTPUT_TOKEN ls = of_int (mu_output_tokens u)
    \<and> kind_total Rate_CACHED_INPUT_TOKEN ls = of_int (mu_cached_input_tokens u)
    \<and> kind_total Rate_INPUT_TOKEN ls + kind_total Rate_CACHED_INPUT_TOKEN ls
        + of_int (mu_cache_write_input_tokens u) = of_int (mu_input_tokens u)
    \<and> distinct (map (rate_key \<circ> fst) (extra_lines ls))
    \<and> (rate_key \<circ> fst) ` set (extra_lines ls) = rate_key ` {r \<in> set (rs_rates s). extra_rate sel r}
    \<and> (\<forall>(r, n) \<in> set (extra_lines ls). map_of (known_meters written u quantities) (rc_meter r) = Some n)
    \<and> (mu_cache_write_input_tokens u \<noteq> 0 \<longrightarrow> (\<exists>l \<in> set ls. rc_rate_type (fst l) = Rate_CACHE_WRITE_TOKEN))
    \<and> (written \<and> (\<forall>r \<in> set (rs_rates s). rc_rate_type r = Rate_CACHE_WRITE_TOKEN \<longrightarrow> rc_meter r = cache_write_meter)
        \<longrightarrow> kind_total Rate_INPUT_TOKEN ls + kind_total Rate_CACHED_INPUT_TOKEN ls
              + kind_total Rate_CACHE_WRITE_TOKEN ls = of_int (mu_input_tokens u))"
proof -
  let ?m = "known_meters written u quantities"
  obtain rates where r: "select_rates s sel (mu_input_tokens u) = Inr rates" "rates_complete rates u ?m"
    "q = lines_total (price_lines rates u ?m)" "0 \<le> q"
    "applied_rates p = map (rc_rate_id \<circ> fst) (price_lines rates u ?m)"
    using assms(2,3) by (rule price_parts)
  define ls where "ls = price_lines rates u ?m"
  note sound = select_rates_sound [OF r(1)]
  note lines = lines_sound [OF sound r(2), folded ls_def]
  note extra = price_extra_lines [OF sound r(2), folded ls_def]
  have keys: "map rate_key (known_extras rates) = extra_keys s sel"
    using selected_keys [OF r(1)] r(2) by (simp add: rates_complete_def)
  then have key_list: "map (rate_key \<circ> fst) (extra_lines ls) = extra_keys s sel"
    by (simp add: extra o_def)
  have key_set: "set (extra_keys s sel) = rate_key ` {r \<in> set (rs_rates s). extra_rate sel r}"
    by (auto simp: extra_keys_def rate_key_def)
  have cache_write: "\<exists>r \<in> set (known_extras rates). rc_rate_type r = Rate_CACHE_WRITE_TOKEN"
    if "mu_cache_write_input_tokens u \<noteq> 0"
    using r(2) that by (auto simp: rates_complete_def list_ex_iff)
  have members: "(r, the (map_of ?m (rc_meter r))) \<in> set (extra_lines ls)" if "r \<in> set (known_extras rates)" for r
    using that by (simp add: extra)
  have "kind_total Rate_CACHE_WRITE_TOKEN ls = of_int (mu_cache_write_input_tokens u)"
    if written and "\<forall>r \<in> set (rs_rates s). rc_rate_type r = Rate_CACHE_WRITE_TOKEN \<longrightarrow> rc_meter r = cache_write_meter"
    using that extra keys distinct_extra_keys [of s sel] sound cache_write
    by (intro cache_write_total [of ls u quantities "known_extras rates"]) (auto simp: sound_rates_def)
  then have sums: "kind_total Rate_INPUT_TOKEN ls + kind_total Rate_CACHED_INPUT_TOKEN ls
        + of_int (mu_cache_write_input_tokens u) = of_int (mu_input_tokens u)"
    "written \<and> (\<forall>r \<in> set (rs_rates s). rc_rate_type r = Rate_CACHE_WRITE_TOKEN \<longrightarrow> rc_meter r = cache_write_meter)
      \<longrightarrow> kind_total Rate_INPUT_TOKEN ls + kind_total Rate_CACHED_INPUT_TOKEN ls
        + kind_total Rate_CACHE_WRITE_TOKEN ls = of_int (mu_input_tokens u)"
    using lines(4,5) by simp_all
  have quantities: "\<forall>(r, n) \<in> set (extra_lines ls). map_of ?m (rc_meter r) = Some n"
    using r(2) by (auto simp: extra rates_complete_def list_all_iff)
  have charged: "mu_cache_write_input_tokens u \<noteq> 0 \<longrightarrow> (\<exists>l \<in> set ls. rc_rate_type (fst l) = Rate_CACHE_WRITE_TOKEN)"
    using cache_write members by (force simp: extra_lines_def)
  have offered: "distinct (map (rate_key \<circ> fst) (extra_lines ls))"
    "(rate_key \<circ> fst) ` set (extra_lines ls) = rate_key ` {r \<in> set (rs_rates s). extra_rate sel r}"
    unfolding key_list using arg_cong [OF key_list, of set] key_set distinct_extra_keys [of s sel]
    by (simp_all only: set_map)
  have amount: "q = lines_total ls" "applied_rates p = map (rc_rate_id \<circ> fst) ls"
    using r(3,5) by (simp_all only: ls_def)
  have "distinct (applied_rates p)"
    unfolding amount(2) by (rule distinct_rates [OF assms(1) lines(1,2)])
  then show ?thesis
    using r(4) amount lines(2-4) sums offered quantities charged by (intro exI [of _ ls] conjI)
qed

section \<open>Subscription units ignore the conditions of a rate\<close>

definition unconditional :: "RateCardRate \<Rightarrow> RateCardRate" where
  "unconditional r = r\<lparr>rc_service_tier := None, rc_region := None, rc_tool_name := None,
     rc_long_context_min := None, rc_long_context_max := None\<rparr>"

lemma unconditional_fields [simp]:
  "rc_rate_type (unconditional r) = rc_rate_type r" "rc_meter (unconditional r) = rc_meter r"
  "rate_charge (unconditional r) q = rate_charge r q"
  by (simp_all add: unconditional_def rate_charge_def)

text \<open>
  Unlike the price, the subscription units of a usage do not select rates: a rate for another
  tier, region, tool or context length is added to the sum like any other.
\<close>

lemma subscription_units_ignore_conditions:
  "subscription_usage_from_tokens fp u (s\<lparr>rs_rates := map unconditional (rs_rates s)\<rparr>) pool unit paid
     = subscription_usage_from_tokens fp u s pool unit paid"
proof -
  have rates: "subscription_rates (s\<lparr>rs_rates := map unconditional (rs_rates s)\<rparr>) = map unconditional (subscription_rates s)"
    by (simp add: subscription_rates_def filter_map o_def)
  show ?thesis
    by (simp add: subscription_usage_from_tokens_def rates list_ex_iff o_def Let_def cong: if_cong)
qed

section \<open>A card with prices for cached tokens\<close>

definition token_rate :: "string \<Rightarrow> RateType \<Rightarrow> string \<Rightarrow> rat \<Rightarrow> RateCardRate" where
  "token_rate i k meter q =
     (sample_rate i None None q)\<lparr>rc_rate_type := k, rc_meter := meter, rc_unit_quantity := 1000000\<rparr>"

definition token_card :: RateCardSnapshot where
  "token_card = sample_card\<lparr>rs_rates :=
     [token_rate ''w'' Rate_CACHE_WRITE_TOKEN ''cache_write_input_tokens'' 4,
      token_rate ''i'' Rate_INPUT_TOKEN ''input_tokens'' 3, token_rate ''o'' Rate_OUTPUT_TOKEN ''output_tokens'' 15,
      token_rate ''c'' Rate_CACHED_INPUT_TOKEN ''cached_input_tokens'' 1]\<rparr>"

definition token_use :: ModelTokenUsage where
  "token_use = \<lparr>mu_provider = ''p'', mu_model = ''m'', mu_access_channel = Channel_API, mu_input_tokens = 1000,
     mu_cached_input_tokens = 400, mu_cache_write_input_tokens = 100, mu_output_tokens = 200,
     mu_reasoning_output_tokens = 0,
     mu_evidence = unavailable_evidence\<lparr>me_status := Stat_COMPLETE, me_source := Src_LOCAL_METER,
       me_trust := Trust_OBSERVED\<rparr>\<rparr>"

definition plain_selection :: rate_selection where
  "plain_selection = \<lparr>sel_service_tier = None, sel_region = None, sel_tool_name = None\<rparr>"

lemma token_card_valid: "validate_snapshot (\<lambda>_. ''rate_1'') token_card = Inr token_card"
  by (simp add: validate_snapshot_def token_card_def token_rate_def sample_card_def sample_rate_def text_len_def
      currency_code_def upper_letter_def validate_rate_def monetary_rates_def rate_semantic_key_def rate_group_def
      bounded_rate_def)

lemma token_price:
  "(case price_model_usage (\<lambda>_. ''fp'') token_use token_card True ''charge'' plain_selection True [] of
      Inl _ \<Rightarrow> False
    | Inr p \<Rightarrow> price_of p = Some (53 / 10000) \<and> applied_rates p = [''i'', ''o'', ''c'', ''w''])"
  by code_simp

theorem price_covers_usage_witness:
  "\<exists>p ls. price_model_usage (\<lambda>_. ''fp'') token_use token_card True ''charge'' plain_selection True [] = Inr p
     \<and> price_of p = Some (53 / 10000) \<and> 53 / 10000 = lines_total ls \<and> map (rc_rate_id \<circ> fst) ls = [''i'', ''o'', ''c'', ''w'']
     \<and> kind_total Rate_CACHED_INPUT_TOKEN ls = 400 \<and> kind_total Rate_INPUT_TOKEN ls = 500
     \<and> kind_total Rate_CACHE_WRITE_TOKEN ls = 100"
proof -
  obtain p where p: "price_model_usage (\<lambda>_. ''fp'') token_use token_card True ''charge'' plain_selection True [] = Inr p"
    "price_of p = Some (53 / 10000)" "applied_rates p = [''i'', ''o'', ''c'', ''w'']"
    using token_price by (auto split: sum.splits)
  have "\<forall>r \<in> set (rs_rates token_card). rc_rate_type r = Rate_CACHE_WRITE_TOKEN \<longrightarrow> rc_meter r = cache_write_meter"
    by (simp add: token_card_def token_rate_def cache_write_meter_def)
  then show ?thesis
    using price_covers_usage [OF token_card_valid p(1,2)] p by (auto simp: token_use_def)
qed

end
