(* ===== verification/Json_Pointer.thy ===== *)
theory Json_Pointer
  imports Canonical_JSON Economic_Models
begin

text \<open>
  The JSON Pointers of \<open>aeep/workflow.py\<close>: parsing, reading and replacing. Replacement is by
  value: the code assigns the object found at the source, which makes no difference as long as
  no later replacement writes below an earlier one. A string's characters are code points of
  Latin-1, where \<open>str.isdigit\<close> also accepts the three superscript digits.
\<close>

section \<open>Tokens\<close>

fun split_on :: "char \<Rightarrow> string \<Rightarrow> string list" where
  "split_on sep [] = [[]]"
| "split_on sep (c # cs) =
     (if c = sep then [] # split_on sep cs
      else (case split_on sep cs of [] \<Rightarrow> [[c]] | p # ps \<Rightarrow> (c # p) # ps))"

text \<open>\<open>str.replace\<close> of a pattern of two characters.\<close>

fun replace_pair :: "char \<Rightarrow> char \<Rightarrow> char \<Rightarrow> string \<Rightarrow> string" where
  "replace_pair a b r (c # d # cs) =
     (if c = a \<and> d = b then r # replace_pair a b r cs else c # replace_pair a b r (d # cs))"
| "replace_pair a b r cs = cs"

definition unescape :: "string \<Rightarrow> string" where
  "unescape part = replace_pair CHR ''~'' CHR ''0'' CHR ''~'' (replace_pair CHR ''~'' CHR ''1'' CHR ''/'' part)"

definition pointer_tokens :: "string \<Rightarrow> string list result" where
  "pointer_tokens p =
     (case p of
        [] \<Rightarrow> Ok []
      | c # rest \<Rightarrow>
          if c \<noteq> CHR ''/'' then Err (ValueError ''workflow paths must be RFC 6901 JSON Pointers'')
          else Ok (map unescape (split_on CHR ''/'' rest)))"

section \<open>One step down\<close>

definition digit_like :: "char \<Rightarrow> bool" where
  "digit_like c = (decimal_digit c \<or> c \<in> {CHR 0xB2, CHR 0xB3, CHR 0xB9})"

definition isdigit :: "string \<Rightarrow> bool" where
  "isdigit t = (t \<noteq> [] \<and> list_all digit_like t)"

text \<open>\<open>int\<close> on a token that \<open>isdigit\<close> accepts, with the interpreter's limit of 4300 digits.\<close>

definition int_of_token :: "string \<Rightarrow> nat result" where
  "int_of_token t =
     (if list_all decimal_digit t \<and> length t \<le> 4300 then Ok (text_value t)
      else Err (ValueError ''invalid literal for int()''))"

definition list_index :: "string \<Rightarrow> 'a list \<Rightarrow> nat option result" where
  "list_index t xs =
     (if \<not> isdigit t then Ok None
      else (case int_of_token t of
              Inl e \<Rightarrow> Err e | Inr n \<Rightarrow> Ok (if n < length xs then Some n else None)))"

definition child :: "error \<Rightarrow> string \<Rightarrow> json \<Rightarrow> json result" where
  "child missing t v =
     (case v of
        J_object kvs \<Rightarrow> (case map_of kvs t of None \<Rightarrow> Err missing | Some w \<Rightarrow> Ok w)
      | J_array xs \<Rightarrow>
          (case list_index t xs of
             Inl e \<Rightarrow> Err e
           | Inr None \<Rightarrow> Err missing
           | Inr (Some n) \<Rightarrow> Ok (xs ! n))
      | _ \<Rightarrow> Err missing)"

definition put_child :: "error \<Rightarrow> string \<Rightarrow> json \<Rightarrow> json \<Rightarrow> json result" where
  "put_child missing t r v =
     (case v of
        J_object kvs \<Rightarrow>
          if t \<in> fst ` set kvs then Ok (J_object (map (\<lambda>(k, w). (k, if k = t then r else w)) kvs))
          else Err missing
      | J_array xs \<Rightarrow>
          (case list_index t xs of
             Inl e \<Rightarrow> Err e
           | Inr None \<Rightarrow> Err missing
           | Inr (Some n) \<Rightarrow> Ok (J_array (xs[n := r])))
      | _ \<Rightarrow> Err missing)"

section \<open>Reading and replacing\<close>

fun get_at :: "error \<Rightarrow> string list \<Rightarrow> json \<Rightarrow> json result" where
  "get_at missing [] v = Ok v"
| "get_at missing (t # ts) v =
     (case child missing t v of Inl e \<Rightarrow> Err e | Inr w \<Rightarrow> get_at missing ts w)"

definition pointer_get :: "json \<Rightarrow> string \<Rightarrow> json result" where
  "pointer_get v p =
     (case pointer_tokens p of
        Inl e \<Rightarrow> Err e
      | Inr ts \<Rightarrow> get_at (ValueError ''JSON Pointer does not exist'') ts v)"

fun put_at :: "error \<Rightarrow> string list \<Rightarrow> json \<Rightarrow> json \<Rightarrow> json result" where
  "put_at missing [] r v = Err (ValueError ''binding cannot replace the action-input root'')"
| "put_at missing [t] r v = put_child missing t r v"
| "put_at missing (t # u # ts) r v =
     (case child missing t v of
        Inl e \<Rightarrow> Err e
      | Inr w \<Rightarrow>
          (case put_at missing (u # ts) r w of
             Inl e \<Rightarrow> Err e | Inr w' \<Rightarrow> put_child missing t w' v))"

definition pointer_replace :: "json \<Rightarrow> string \<Rightarrow> json \<Rightarrow> json result" where
  "pointer_replace v p r =
     (case pointer_tokens p of
        Inl e \<Rightarrow> Err e
      | Inr ts \<Rightarrow> put_at (ValueError ''binding target does not exist'') ts r v)"

text \<open>\<open>schema_pointer_exists\<close>: the check of a source path against an inline output schema.\<close>

definition schema_items :: "(string \<times> json) list \<Rightarrow> json" where
  "schema_items kvs = (case map_of kvs ''items'' of None \<Rightarrow> J_null | Some s \<Rightarrow> s)"

fun schema_tokens_exist :: "string list \<Rightarrow> json \<Rightarrow> bool" where
  "schema_tokens_exist [] s = True"
| "schema_tokens_exist (t # ts) s =
     (case s of
        J_object kvs \<Rightarrow>
          (case map_of kvs ''properties'' of
             Some (J_object props) \<Rightarrow>
               (case map_of props t of
                  Some sub \<Rightarrow> schema_tokens_exist ts sub
                | None \<Rightarrow>
                    if map_of kvs ''type'' = Some (J_string ''array'') \<and> isdigit t
                    then schema_tokens_exist ts (schema_items kvs)
                    else map_of kvs ''additionalProperties'' = Some (J_bool True))
           | _ \<Rightarrow>
               if map_of kvs ''type'' = Some (J_string ''array'') \<and> isdigit t
               then schema_tokens_exist ts (schema_items kvs)
               else map_of kvs ''additionalProperties'' = Some (J_bool True))
      | _ \<Rightarrow> False)"

definition schema_pointer_exists :: "json option \<Rightarrow> string \<Rightarrow> bool result" where
  "schema_pointer_exists schema p =
     (case schema of
        None \<Rightarrow> Ok True
      | Some s \<Rightarrow> (case pointer_tokens p of Inl e \<Rightarrow> Err e | Inr ts \<Rightarrow> Ok (schema_tokens_exist ts s)))"

section \<open>Laws of one step\<close>

text \<open>
  Two tokens may name the same place when they are equal or read as the same index, as \<open>1\<close>
  and \<open>01\<close> do in an array.
\<close>

definition same_place :: "string \<Rightarrow> string \<Rightarrow> bool" where
  "same_place t u =
     (t = u \<or> isdigit t \<and> isdigit u \<and> is_ok (int_of_token t) \<and> int_of_token t = int_of_token u)"

lemma same_place_refl [simp]: "same_place t t"
  by (simp add: same_place_def)

lemma map_of_replaced:
  "map_of (map (\<lambda>(k, w). (k, if k = t then r else w)) kvs) u =
     (if u = t \<and> map_of kvs t \<noteq> None then Some r else map_of kvs u)"
  by (induction kvs) auto

lemma key_known: "t \<in> fst ` set kvs \<longleftrightarrow> map_of kvs t \<noteq> None"
  by (simp add: map_of_eq_None_iff)

lemma put_child_cases:
  assumes "put_child m t r v = Inr v'"
  obtains (object) kvs w where "v = J_object kvs" "map_of kvs t = Some w"
      "v' = J_object (map (\<lambda>(k, w). (k, if k = t then r else w)) kvs)"
  | (array) xs n where "v = J_array xs" "isdigit t" "int_of_token t = Inr n" "n < length xs"
      "v' = J_array (xs[n := r])"
  using assms unfolding put_child_def key_known list_index_def
  by (auto split: json.splits if_splits sum.splits option.splits)

lemma child_put_same:
  assumes "put_child m t r v = Inr v'" shows "child m' t v' = Inr r"
  using assms by (cases rule: put_child_cases) (simp_all add: child_def map_of_replaced list_index_def)

lemma child_put_other:
  assumes "put_child m t r v = Inr v'" and "\<not> same_place t u"
  shows "child m' u v' = child m' u v"
  using assms(1)
proof (cases rule: put_child_cases)
  case object
  then show ?thesis using assms(2) by (auto simp: child_def map_of_replaced same_place_def)
next
  case (array xs n)
  then have "int_of_token u \<noteq> Inr n" if "isdigit u" using assms(2) that by (auto simp: same_place_def)
  then show ?thesis using array
    by (auto simp: child_def list_index_def split: sum.splits option.splits)
qed

lemma put_child_ok: "is_ok (put_child m t r v) \<longleftrightarrow> is_ok (child m' t v)"
  unfolding put_child_def child_def key_known by (auto split: json.splits sum.splits option.splits)

lemma child_message: "child m t v = Inr w \<Longrightarrow> child m' t v = Inr w"
  by (auto simp: child_def split: json.splits sum.splits option.splits)

lemma get_at_message: "get_at m ts v = Inr w \<Longrightarrow> get_at m' ts v = Inr w"
proof (induction ts arbitrary: v)
  case (Cons t ts)
  then obtain x where x: "child m t v = Inr x" "get_at m ts x = Inr w" by (auto split: sum.splits)
  show ?case using Cons.IH [OF x(2)] child_message [OF x(1), of m'] by simp
qed simp

section \<open>Laws of replacement\<close>

text \<open>The tokens \<open>us\<close> lead strictly below the place of \<open>ts\<close>; two places overlap when one
  leads to the other or below it.\<close>

fun leads_to :: "string list \<Rightarrow> string list \<Rightarrow> bool" where
  "leads_to [] us = True"
| "leads_to (t # ts) [] = False"
| "leads_to (t # ts) (u # us) = (same_place t u \<and> leads_to ts us)"

definition overlap :: "string list \<Rightarrow> string list \<Rightarrow> bool" where
  "overlap ts us = (leads_to ts us \<or> leads_to us ts)"

definition below :: "string list \<Rightarrow> string list \<Rightarrow> bool" where
  "below ts us = (leads_to ts us \<and> length ts < length us)"

lemma put_at_step:
  "put_at m (t # ts) r v = Inr v' \<longleftrightarrow>
     (if ts = [] then put_child m t r v = Inr v'
      else \<exists>w w'. child m t v = Inr w \<and> put_at m ts r w = Inr w' \<and> put_child m t w' v = Inr v')"
  by (cases ts) (auto split: sum.splits)

lemma put_at_reads_back:
  "put_at m ts r v = Inr v' \<Longrightarrow> get_at m' ts v' = Inr r"
proof (induction ts arbitrary: v v')
  case (Cons t ts)
  then show ?case
    unfolding put_at_step by (auto simp: child_put_same split: if_splits)
qed simp

lemma child_put_alias:
  assumes "put_child m t r v = Inr v'" and "same_place t u"
  shows "child m' u v' = Inr r \<and> child m' u v = child m' t v \<or> child m' u v' = child m' u v"
  using assms(1)
proof (cases rule: put_child_cases)
  case object
  then show ?thesis by (auto simp: child_def map_of_replaced)
next
  case (array xs n)
  then have "isdigit u \<and> int_of_token u = Inr n" using assms(2) by (auto simp: same_place_def)
  with array show ?thesis by (simp add: child_def list_index_def)
qed

lemma put_at_elsewhere:
  "put_at m ts r v = Inr v' \<Longrightarrow> \<not> overlap ts us \<Longrightarrow> get_at m' us v' = get_at m' us v"
proof (induction ts arbitrary: us v v')
  case (Cons t ts)
  then obtain u us' where us: "us = u # us'" by (cases us) (simp_all add: overlap_def)
  show ?case
  proof (cases "same_place t u")
    case False
    obtain w where "put_child m t w v = Inr v'" using Cons.prems(1) unfolding put_at_step by (auto split: if_splits)
    then show ?thesis by (simp add: us child_put_other [OF _ False])
  next
    case True
    then have no: "\<not> overlap ts us'" and "ts \<noteq> []"
      using Cons.prems(2) by (auto simp: us overlap_def same_place_def)
    then obtain w w' where w: "child m t v = Inr w" "put_at m ts r w = Inr w'" "put_child m t w' v = Inr v'"
      using Cons.prems(1) unfolding put_at_step by auto
    have "child m' t v = Inr w" by (rule child_message [OF w(1)])
    then show ?thesis
      using child_put_alias [OF w(3) True, of m'] Cons.IH [OF w(2) no] by (auto simp: us)
  qed
qed simp

text \<open>A place that is not below the target still exists after a replacement.\<close>

lemma put_at_keeps_places:
  "put_at m ts r v = Inr v' \<Longrightarrow> \<not> below ts us \<Longrightarrow> is_ok (get_at m' us v) \<Longrightarrow> is_ok (get_at m' us v')"
proof (induction ts arbitrary: us v v')
  case (Cons t ts)
  show ?case
  proof (cases us)
    case us: (Cons u us')
    obtain x where x: "child m' u v = Inr x" "is_ok (get_at m' us' x)"
      using Cons.prems(3) by (auto simp: us split: sum.splits)
    obtain w where w: "put_child m t w v = Inr v'"
      and deep: "ts \<noteq> [] \<Longrightarrow> \<exists>y. child m t v = Inr y \<and> put_at m ts r y = Inr w"
      using Cons.prems(1) unfolding put_at_step by (auto split: if_splits)
    show ?thesis
    proof (cases "same_place t u")
      case False
      then show ?thesis by (simp add: us child_put_other [OF w False] x)
    next
      case True
      then have nb: "\<not> below ts us'" using Cons.prems(2) by (simp add: us below_def)
      have "is_ok (get_at m' us' w)" if same: "child m' u v = child m' t v"
      proof (cases "ts = []")
        case True
        then have "us' = []" using nb by (simp add: below_def)
        then show ?thesis by simp
      next
        case False
        then obtain y where y: "child m t v = Inr y" "put_at m ts r y = Inr w" using deep by blast
        then have "y = x" using x(1) same child_message [OF y(1), of m'] by simp
        then show ?thesis using Cons.IH [OF y(2) nb] x(2) by simp
      qed
      then show ?thesis using child_put_alias [OF w True, of m'] x by (auto simp: us)
    qed
  qed simp
qed simp

text \<open>Replacement succeeds exactly on the places that exist, the root apart.\<close>

lemma put_at_ok: "is_ok (put_at m ts r v) \<longleftrightarrow> ts \<noteq> [] \<and> is_ok (get_at m' ts v)"
proof (induction m ts r v rule: put_at.induct)
  case (3 m t u ts r v)
  show ?case
  proof (cases "child m t v")
    case (Inl e)
    then have "\<not> is_ok (child m' t v)" using child_message [of m' t v _ m] by (auto simp: is_ok_iff)
    then show ?thesis using Inl by (auto simp: is_ok_iff split: sum.splits)
  next
    case (Inr w)
    have put: "\<exists>v'. put_child m t x v = Inr v'" for x
      using put_child_ok [of m t x v m] Inr by (simp add: is_ok_iff)
    have "is_ok (put_at m (t # u # ts) r v) = is_ok (put_at m (u # ts) r w)"
      using Inr put by (auto simp: is_ok_iff split: sum.splits)
    then show ?thesis using 3 [OF Inr] child_message [OF Inr, of m'] by simp
  qed
next
  case (2 m t r v)
  show ?case using put_child_ok [of m t r v m'] by (cases "child m' t v") simp_all
qed simp

text \<open>
  C24 Reading back a replacement gives the replacement, and no place is touched that does not
  overlap the target, where tokens that read as the same array index name the same place.
\<close>

theorem replace_then_get:
  assumes "pointer_replace v p r = Inr v'"
  shows "pointer_get v' p = Inr r
    \<and> (\<forall>q ts us. pointer_tokens p = Inr ts \<and> pointer_tokens q = Inr us \<and> \<not> overlap ts us
          \<longrightarrow> pointer_get v' q = pointer_get v q)"
proof -
  obtain ts where ts: "pointer_tokens p = Inr ts" "put_at (ValueError ''binding target does not exist'') ts r v = Inr v'"
    using assms by (auto simp: pointer_replace_def split: sum.splits)
  then show ?thesis
    using put_at_reads_back [OF ts(2)] put_at_elsewhere [OF ts(2)] by (auto simp: pointer_get_def)
qed

theorem replace_then_get_witness:
  "pointer_replace (J_object [(''a/b'', J_array [J_null, J_int 1])]) ''/a~1b/1'' (J_int 7)
     = Inr (J_object [(''a/b'', J_array [J_null, J_int 7])])
   \<and> pointer_get (J_object [(''a/b'', J_array [J_null, J_int 7])]) ''/a~1b/1'' = Inr (J_int 7)"
proof -
  have "pointer_replace (J_object [(''a/b'', J_array [J_null, J_int 1])]) ''/a~1b/1'' (J_int 7)
     = Inr (J_object [(''a/b'', J_array [J_null, J_int 7])])"
    by code_simp
  from this replace_then_get [OF this] show ?thesis by blast
qed

text \<open>
  A replacement succeeds exactly when the pointer reads an existing value and is not the
  empty pointer of the root.
\<close>

theorem replace_succeeds_iff:
  "is_ok (pointer_replace v p r) \<longleftrightarrow> p \<noteq> [] \<and> is_ok (pointer_get v p)"
proof (cases "pointer_tokens p")
  case (Inr ts)
  have "ts = [] \<longleftrightarrow> p = []"
  proof (cases p)
    case (Cons c cs)
    have "split_on d cs \<noteq> []" for d by (cases cs) (auto split: list.splits)
    then show ?thesis using Inr Cons by (auto simp: pointer_tokens_def split: if_splits)
  qed (use Inr in \<open>simp add: pointer_tokens_def\<close>)
  then show ?thesis
    using put_at_ok [of "ValueError ''binding target does not exist''" ts r v
        "ValueError ''JSON Pointer does not exist''"] Inr
    by (simp add: pointer_replace_def pointer_get_def)
qed (auto simp: pointer_replace_def pointer_get_def)

end
