(* ===== verification/Workflow_Models.thy ===== *)
theory Workflow_Models
  imports Json_Pointer Routing_Policy
begin

text \<open>
  Caller-authored workflows (\<open>aeep/workflow.py\<close>): the request, its validation as a directed
  acyclic graph, and what the validation guarantees: a request is accepted exactly when its
  identifiers are distinct, its references and paths resolve, and no step depends on itself
  through others.
\<close>

section \<open>Requests\<close>

text \<open>Of an action the workflow code reads and changes these fields.\<close>

record ActionRequest =
  aq_action_id :: string
  aq_capability :: string
  aq_input :: json
  aq_policy :: string
  aq_constraints :: ActionConstraints
  aq_context :: ActionContext

record WorkflowInputBinding =
  wb_target_path :: string
  wb_source_step_id :: "string option"
  wb_source_path :: string

record WorkflowStep =
  ws_step_id :: string
  ws_action :: ActionRequest
  ws_depends_on :: "string list"
  ws_bindings :: "WorkflowInputBinding list"

record WorkflowOutputProjection =
  wp_name :: string
  wp_step_id :: string
  wp_path :: string

record WorkflowRequest =
  wr_workflow_id :: string
  wr_input :: json
  wr_constraints :: ActionConstraints
  wr_max_cash_usd :: "rat option"
  wr_steps :: "WorkflowStep list"
  wr_outputs :: "WorkflowOutputProjection list"

section \<open>The cycle check\<close>

definition step_of :: "WorkflowStep list \<Rightarrow> string \<Rightarrow> WorkflowStep option" where
  "step_of steps i = List.find (\<lambda>s. ws_step_id s = i) steps"

text \<open>
  \<open>visit\<close> on a list of steps: the loop over \<open>ids\<close> and, one level deeper, the loop over the
  dependencies of the step being visited, which is marked while that loop runs. The result is
  the set of finished steps. An id without a step is the \<open>KeyError\<close> of the lookup.
\<close>

function visit_all ::
  "WorkflowStep list \<Rightarrow> string list \<Rightarrow> string set \<Rightarrow> string set \<Rightarrow> string set result" where
  "visit_all steps [] visiting visited = Ok visited"
| "visit_all steps (i # is) visiting visited =
     (if i \<in> visiting then Err (ValueError ''workflow dependency cycle'')
      else if i \<in> visited then visit_all steps is visiting visited
      else (case step_of steps i of
              None \<Rightarrow> Err (ExternalError ''KeyError'')
            | Some s \<Rightarrow>
                (case visit_all steps (ws_depends_on s) (insert i visiting) visited of
                   Inl e \<Rightarrow> Err e
                 | Inr visited' \<Rightarrow> visit_all steps is visiting (insert i visited'))))"
  by pat_completeness auto

definition unmarked :: "WorkflowStep list \<Rightarrow> string set \<Rightarrow> nat" where
  "unmarked steps visiting = card (ws_step_id ` set steps - visiting)"

lemma step_of_SomeD: "step_of steps i = Some s \<Longrightarrow> s \<in> set steps \<and> ws_step_id s = i"
  by (auto simp: step_of_def find_Some_iff)

lemma unmarked_insert:
  assumes "step_of steps i = Some s" and "i \<notin> visiting"
  shows "unmarked steps (insert i visiting) < unmarked steps visiting"
proof -
  have "i \<in> ws_step_id ` set steps - visiting" using step_of_SomeD [OF assms(1)] assms(2) by auto
  then show ?thesis unfolding unmarked_def
    by (intro psubset_card_mono) auto
qed

termination visit_all
  by (relation "measures [\<lambda>(steps, is, visiting, visited). unmarked steps visiting,
        \<lambda>(steps, is, visiting, visited). length is]")
    (auto simp: unmarked_insert)

section \<open>Validation\<close>

fun check_bindings :: "WorkflowRequest \<Rightarrow> WorkflowStep \<Rightarrow> WorkflowInputBinding list \<Rightarrow> unit result" where
  "check_bindings req s [] = Ok ()"
| "check_bindings req s (b # bs) =
     (if \<not> opt_all (\<lambda>src. src \<in> set (ws_depends_on s)) (wb_source_step_id b)
      then Err (ValueError ''binding source must be a declared dependency'')
      else case pointer_tokens (wb_target_path b) of
        Inl e \<Rightarrow> Err e
      | Inr _ \<Rightarrow>
          (case pointer_tokens (wb_source_path b) of
             Inl e \<Rightarrow> Err e
           | Inr _ \<Rightarrow>
               (case pointer_get (aq_input (ws_action s)) (wb_target_path b) of
                  Inl e \<Rightarrow> Err e
                | Inr _ \<Rightarrow>
                    if wb_source_step_id b \<noteq> None then check_bindings req s bs
                    else (case pointer_get (wr_input req) (wb_source_path b) of
                            Inl e \<Rightarrow> Err e
                          | Inr _ \<Rightarrow> check_bindings req s bs))))"

fun check_steps :: "WorkflowRequest \<Rightarrow> WorkflowStep list \<Rightarrow> unit result" where
  "check_steps req [] = Ok ()"
| "check_steps req (s # ss) =
     (if ws_step_id s \<in> set (ws_depends_on s)
         \<or> \<not> set (ws_depends_on s) \<subseteq> ws_step_id ` set (wr_steps req)
      then Err (ValueError ''invalid dependency for step'')
      else if \<not> distinct (map wb_target_path (ws_bindings s))
      then Err (ValueError ''duplicate binding target for step'')
      else case check_bindings req s (ws_bindings s) of
        Inl e \<Rightarrow> Err e
      | Inr _ \<Rightarrow> check_steps req ss)"

fun check_projections :: "WorkflowRequest \<Rightarrow> WorkflowOutputProjection list \<Rightarrow> unit result" where
  "check_projections req [] = Ok ()"
| "check_projections req (p # ps) =
     (if wp_step_id p \<notin> ws_step_id ` set (wr_steps req)
      then Err (ValueError ''workflow output references unknown step'')
      else case pointer_tokens (wp_path p) of
        Inl e \<Rightarrow> Err e
      | Inr _ \<Rightarrow> check_projections req ps)"

definition valid_dag :: "WorkflowRequest \<Rightarrow> unit result" where
  "valid_dag req =
     (let ids = map ws_step_id (wr_steps req) in
      if \<not> distinct ids then Err (ValueError ''duplicate workflow step id'')
      else case check_steps req (wr_steps req) of
        Inl e \<Rightarrow> Err e
      | Inr _ \<Rightarrow>
          (case visit_all (wr_steps req) ids {} {} of
             Inl e \<Rightarrow> Err e
           | Inr _ \<Rightarrow>
               if \<not> distinct (map wp_name (wr_outputs req))
               then Err (ValueError ''duplicate workflow output name'')
               else check_projections req (wr_outputs req)))"

text \<open>The constraints of the fields, checked before the graph.\<close>

definition is_object :: "json \<Rightarrow> bool" where
  "is_object v = (case v of J_object _ \<Rightarrow> True | _ \<Rightarrow> False)"

definition workflow_fields_ok :: "WorkflowRequest \<Rightarrow> bool" where
  "workflow_fields_ok req =
     (ident 1 200 (wr_workflow_id req) \<and> is_object (wr_input req) \<and> opt_all (\<lambda>q. 0 \<le> q) (wr_max_cash_usd req)
      \<and> 1 \<le> length (wr_steps req) \<and> length (wr_steps req) \<le> 64
      \<and> list_all (\<lambda>s. ident 1 100 (ws_step_id s) \<and> distinct (ws_depends_on s)
           \<and> text_len 1 200 (aq_capability (ws_action s)) \<and> is_object (aq_input (ws_action s))) (wr_steps req)
      \<and> list_all (\<lambda>p. text_len 1 100 (wp_name p)) (wr_outputs req))"

definition validate_workflow :: "WorkflowRequest \<Rightarrow> unit result" where
  "validate_workflow req =
     (if \<not> workflow_fields_ok req then Err (ValueError ''workflow field'') else valid_dag req)"

section \<open>What the cycle check decides\<close>

definition depends :: "WorkflowStep list \<Rightarrow> (string \<times> string) set" where
  "depends steps = {(i, d). \<exists>s. step_of steps i = Some s \<and> d \<in> set (ws_depends_on s)}"

lemma visit_all_closed:
  assumes "visit_all steps is visiting visited = Inr D" and "visiting \<inter> visited = {}"
    and "depends steps `` visited \<subseteq> visited"
  shows "visited \<subseteq> D \<and> set is \<subseteq> D \<and> visiting \<inter> D = {} \<and> depends steps `` D \<subseteq> D"
  using assms
proof (induction steps "is" visiting visited arbitrary: D rule: visit_all.induct)
  case (2 steps i "is" visiting visited)
  have i: "i \<notin> visiting" using "2.prems"(1) by (auto split: if_splits)
  show ?case
  proof (cases "i \<in> visited")
    case True
    then show ?thesis using 2 i by auto
  next
    case False
    then obtain s E where s: "step_of steps i = Some s"
      and E: "visit_all steps (ws_depends_on s) (insert i visiting) visited = Inr E"
      and D: "visit_all steps is visiting (insert i E) = Inr D"
      using "2.prems"(1) i by (auto split: option.splits sum.splits)
    have e: "visited \<subseteq> E" "set (ws_depends_on s) \<subseteq> E" "insert i visiting \<inter> E = {}" "depends steps `` E \<subseteq> E"
      using "2.IH"(2) [OF i False s E] "2.prems"(2,3) False by auto
    have "depends steps `` {i} \<subseteq> E" using e(2) s by (auto simp: depends_def)
    then have "depends steps `` insert i E \<subseteq> insert i E" using e(4) by auto
    then show ?thesis using "2.IH"(3) [OF i False s E D] e i by auto
  qed
qed auto

text \<open>Nothing that was finished depends on itself.\<close>

lemma closed_reach:
  assumes "r `` D \<subseteq> D" and "x \<in> D" and "(x, y) \<in> r\<^sup>*"
  shows "y \<in> D"
  using assms(3,1,2) by (induction rule: rtrancl_induct) auto

lemma visit_all_sound:
  assumes "visit_all steps is visiting visited = Inr D" and "visiting \<inter> visited = {}"
    and "depends steps `` visited \<subseteq> visited" and "\<forall>x \<in> visited. (x, x) \<notin> (depends steps)\<^sup>+"
  shows "\<forall>x \<in> D. (x, x) \<notin> (depends steps)\<^sup>+"
  using assms
proof (induction steps "is" visiting visited arbitrary: D rule: visit_all.induct)
  case (2 steps i "is" visiting visited)
  have i: "i \<notin> visiting" using "2.prems"(1) by (auto split: if_splits)
  show ?case
  proof (cases "i \<in> visited")
    case True
    then show ?thesis using 2 i by auto
  next
    case False
    then obtain s E where s: "step_of steps i = Some s"
      and E: "visit_all steps (ws_depends_on s) (insert i visiting) visited = Inr E"
      and D: "visit_all steps is visiting (insert i E) = Inr D"
      using "2.prems"(1) i by (auto split: option.splits sum.splits)
    have e: "set (ws_depends_on s) \<subseteq> E" "insert i visiting \<inter> E = {}" "depends steps `` E \<subseteq> E"
      using visit_all_closed [OF E] "2.prems"(2,3) False by auto
    have deps: "depends steps `` {i} \<subseteq> E" using e(1) s by (auto simp: depends_def)
    have "(i, i) \<notin> (depends steps)\<^sup>+"
    proof
      assume "(i, i) \<in> (depends steps)\<^sup>+"
      then obtain d where "(i, d) \<in> depends steps" "(d, i) \<in> (depends steps)\<^sup>*" by (meson tranclD)
      then show False using deps closed_reach [OF e(3)] e(2) by auto
    qed
    moreover have "\<forall>x \<in> E. (x, x) \<notin> (depends steps)\<^sup>+"
      using "2.IH"(2) [OF i False s E] "2.prems"(2-4) False by auto
    ultimately have ok: "\<forall>x \<in> insert i E. (x, x) \<notin> (depends steps)\<^sup>+" by simp
    have closed: "depends steps `` insert i E \<subseteq> insert i E" using deps e(3) by auto
    have free: "visiting \<inter> insert i E = {}" using e(2) i by auto
    show ?thesis by (rule "2.IH"(3) [OF i False s E D free closed ok])
  qed
qed auto

text \<open>On an acyclic graph no step under visit is met again.\<close>

lemma visit_all_complete:
  assumes "acyclic (depends steps)" and "\<forall>v \<in> visiting. \<forall>i \<in> set is. (v, i) \<in> (depends steps)\<^sup>+"
    and "\<forall>i \<in> set is. step_of steps i \<noteq> None" and "\<forall>(i, d) \<in> depends steps. step_of steps d \<noteq> None"
  shows "\<exists>D. visit_all steps is visiting visited = Inr D"
  using assms
proof (induction steps "is" visiting visited rule: visit_all.induct)
  case (2 steps i "is" visiting visited)
  have i: "i \<notin> visiting" using "2.prems"(1,2) by (auto simp: acyclic_def)
  show ?case
  proof (cases "i \<in> visited")
    case True
    then show ?thesis using "2.IH"(1) [OF i True] "2.prems" i by auto
  next
    case False
    obtain s where s: "step_of steps i = Some s" using "2.prems"(3) by auto
    have dep: "(i, d) \<in> depends steps" if "d \<in> set (ws_depends_on s)" for d
      using s that by (auto simp: depends_def)
    have path: "(v, d) \<in> (depends steps)\<^sup>+" if "v \<in> insert i visiting" "d \<in> set (ws_depends_on s)" for v d
      using that "2.prems"(2) dep [OF that(2)] by (auto intro: trancl_into_trancl)
    have known: "step_of steps d \<noteq> None" if "d \<in> set (ws_depends_on s)" for d
      using dep [OF that] "2.prems"(4) by auto
    obtain E where E: "visit_all steps (ws_depends_on s) (insert i visiting) visited = Inr E"
      using "2.IH"(2) [OF i False s "2.prems"(1)] path known "2.prems"(4) by blast
    obtain D where "visit_all steps is visiting (insert i E) = Inr D"
      using "2.IH"(3) [OF i False s E "2.prems"(1)] "2.prems"(2-4) by auto
    then show ?thesis using i False s E by simp
  qed
qed simp

section \<open>What validation decides\<close>

lemma step_of_known: "step_of steps i \<noteq> None \<longleftrightarrow> i \<in> ws_step_id ` set steps"
  by (auto simp: step_of_def find_None_iff)

lemma step_of_distinct:
  assumes "distinct (map ws_step_id steps)" and "s \<in> set steps"
  shows "step_of steps (ws_step_id s) = Some s"
  using select_key_Some [OF assms] by (simp add: step_of_def select_row_def)

lemma cycle_check:
  assumes "\<forall>s \<in> set steps. set (ws_depends_on s) \<subseteq> ws_step_id ` set steps"
  shows "is_ok (visit_all steps (map ws_step_id steps) {} {}) \<longleftrightarrow> acyclic (depends steps)"
proof
  assume "is_ok (visit_all steps (map ws_step_id steps) {} {})"
  then obtain D where D: "visit_all steps (map ws_step_id steps) {} {} = Inr D" by (auto simp: is_ok_iff)
  have "ws_step_id ` set steps \<subseteq> D" using visit_all_closed [OF D] by simp
  moreover have "\<forall>x \<in> D. (x, x) \<notin> (depends steps)\<^sup>+" using visit_all_sound [OF D] by simp
  moreover have "x \<in> ws_step_id ` set steps" if "(x, x) \<in> (depends steps)\<^sup>+" for x
    using tranclD [OF that] step_of_known [of steps x] by (auto simp: depends_def)
  ultimately show "acyclic (depends steps)" unfolding acyclic_def by blast
next
  assume acyclic: "acyclic (depends steps)"
  have "\<forall>(i, d) \<in> depends steps. step_of steps d \<noteq> None"
    using assms step_of_SomeD unfolding step_of_known by (fastforce simp: depends_def)
  then show "is_ok (visit_all steps (map ws_step_id steps) {} {})"
    using visit_all_complete [OF acyclic, of "{}" "map ws_step_id steps" "{}"] step_of_known [of steps]
    by (auto simp: is_ok_iff)
qed

text \<open>A binding and a step that resolve, and a projection that names a step.\<close>

definition binding_resolves :: "WorkflowRequest \<Rightarrow> WorkflowStep \<Rightarrow> WorkflowInputBinding \<Rightarrow> bool" where
  "binding_resolves req s b =
     (is_ok (pointer_get (aq_input (ws_action s)) (wb_target_path b)) \<and> is_ok (pointer_tokens (wb_source_path b))
      \<and> (case wb_source_step_id b of
           Some src \<Rightarrow> src \<in> set (ws_depends_on s)
         | None \<Rightarrow> is_ok (pointer_get (wr_input req) (wb_source_path b))))"

definition step_resolves :: "WorkflowRequest \<Rightarrow> WorkflowStep \<Rightarrow> bool" where
  "step_resolves req s =
     (ws_step_id s \<notin> set (ws_depends_on s) \<and> set (ws_depends_on s) \<subseteq> ws_step_id ` set (wr_steps req)
      \<and> distinct (map wb_target_path (ws_bindings s)) \<and> (\<forall>b \<in> set (ws_bindings s). binding_resolves req s b))"

lemma get_needs_tokens: "is_ok (pointer_get v p) \<Longrightarrow> is_ok (pointer_tokens p)"
  by (auto simp: pointer_get_def is_ok_def split: sum.splits)

text \<open>A check followed by another accepts when both do.\<close>

lemma is_ok_chain: "is_ok (case r of Inl e \<Rightarrow> Err e | Inr _ \<Rightarrow> k) \<longleftrightarrow> is_ok r \<and> is_ok k"
  by (cases r) simp_all

lemma check_bindings_iff:
  "is_ok (check_bindings req s bs) \<longleftrightarrow> (\<forall>b \<in> set bs. binding_resolves req s b)"
proof (induction bs)
  case (Cons b bs)
  have "is_ok (check_bindings req s (b # bs)) \<longleftrightarrow> binding_resolves req s b \<and> is_ok (check_bindings req s bs)"
    using get_needs_tokens [of "aq_input (ws_action s)" "wb_target_path b"]
    by (cases "wb_source_step_id b") (auto simp: is_ok_chain binding_resolves_def)
  with Cons.IH show ?case by simp
qed simp

lemma check_steps_iff: "is_ok (check_steps req ss) \<longleftrightarrow> (\<forall>s \<in> set ss. step_resolves req s)"
proof (induction ss)
  case (Cons s ss)
  have "is_ok (check_steps req (s # ss)) \<longleftrightarrow> step_resolves req s \<and> is_ok (check_steps req ss)"
    by (auto simp: is_ok_chain step_resolves_def check_bindings_iff)
  with Cons.IH show ?case by simp
qed simp

lemma check_projections_iff:
  "is_ok (check_projections req ps) \<longleftrightarrow>
     (\<forall>p \<in> set ps. wp_step_id p \<in> ws_step_id ` set (wr_steps req) \<and> is_ok (pointer_tokens (wp_path p)))"
  by (induction ps) (auto simp: is_ok_chain)

text \<open>
  C15 A workflow is accepted exactly when it is a directed acyclic graph whose references
  resolve: step ids and output names are distinct, every binding and dependency resolves
  within the request, outputs name steps, and no step reaches itself over dependencies. The
  check always ends, also on cyclic and self-referential requests.
\<close>

theorem workflow_accepted_iff:
  "is_ok (valid_dag req) \<longleftrightarrow>
     distinct (map ws_step_id (wr_steps req)) \<and> distinct (map wp_name (wr_outputs req))
     \<and> (\<forall>s \<in> set (wr_steps req). step_resolves req s)
     \<and> (\<forall>p \<in> set (wr_outputs req). wp_step_id p \<in> ws_step_id ` set (wr_steps req)
          \<and> is_ok (pointer_tokens (wp_path p)))
     \<and> acyclic (depends (wr_steps req))"
proof -
  have cycle: "is_ok (visit_all (wr_steps req) (map ws_step_id (wr_steps req)) {} {})
      \<longleftrightarrow> acyclic (depends (wr_steps req))" if "\<forall>s \<in> set (wr_steps req). step_resolves req s"
    by (rule cycle_check) (use that in \<open>auto simp: step_resolves_def\<close>)
  show ?thesis
    unfolding valid_dag_def Let_def is_ok_chain is_ok_if check_steps_iff check_projections_iff
    using cycle by auto
qed

end
