(* ===== verification/Workflow_Engine.thy ===== *)
theory Workflow_Engine
  imports Workflow_Models Receipt_Accounting Routing_Score
begin

text \<open>
  \<open>Router.execute_workflow\<close> (\<open>aeep/router.py\<close>): the steps of a validated workflow run in waves.
  A wave is taken from the steps whose dependencies have outputs, alone when a step is
  exclusive and at most eight otherwise. Without economic networking each step is routed and
  executed; with it each is prepared, checked against the budget and executed as prepared.
  Routing, preparation and execution act on a world that is an argument; a task group's
  results are one function of the step, so its interleaving is that function's business.
\<close>

section \<open>State and environment\<close>

datatype ExecutionStatus =
    Exec_SUCCESS | Exec_FAILED | Exec_TIMEOUT | Exec_REJECTED | Exec_HOST_SELECTED
  | Exec_DELEGATED | Exec_UNKNOWN

datatype WorkflowStatus = Flow_SUCCESS | Flow_FAILED | Flow_WAITING

record RouteDecision =
  rd_decision_id :: string
  rd_selected_executor_id :: "string option"
  rd_candidates :: "CandidateScore list"
  rd_explanation :: string

record ExecutionOutcome =
  eo_ok :: bool
  eo_status :: ExecutionStatus
  eo_output :: json
  eo_decision_id :: string
  eo_receipts :: "ExecutionReceipt list"

text \<open>An executor with the truth value of its configuration entry \<open>exclusive_resource\<close>.\<close>

record WorkflowExecutor = ExecutorSpec +
  wx_enabled :: bool
  wx_exclusive_resource :: bool

type_synonym quota_key = "string \<times> string"

record 'w run =
  run_outputs :: "(string \<times> json) list"
  run_receipts :: "ExecutionReceipt list"
  run_durations :: "(string \<times> rat) list"
  run_pending :: "WorkflowStep list"
  run_quota_start :: "(quota_key \<times> SubscriptionQuota) list"
  run_quota_consumed :: "quota_key \<Rightarrow> rat"
  run_world :: 'w

record 'w workflow_env =
  we_loads :: "string \<Rightarrow> json option"
  we_to_float :: "rat \<Rightarrow> rat"
  we_currency :: string
  we_economic :: bool
  we_schemas :: "string \<Rightarrow> 'w \<Rightarrow> json option list"
  we_executor :: "string \<Rightarrow> 'w \<Rightarrow> WorkflowExecutor result"
  we_compatible :: "string \<Rightarrow> json \<Rightarrow> 'w \<Rightarrow> WorkflowExecutor list"
  we_quota :: "WorkflowExecutor \<Rightarrow> ActionContext \<Rightarrow> 'w \<Rightarrow> SubscriptionQuota option result"
  we_resource_unit :: "string \<Rightarrow> string option"
  we_route :: "ActionRequest \<Rightarrow> 'w \<Rightarrow> RouteDecision result \<times> 'w"
  we_execute :: "(string \<times> RouteDecision) list \<Rightarrow> 'w \<Rightarrow> (string \<Rightarrow> ExecutionOutcome result) \<times> 'w"
  we_prepare :: "(string \<times> ActionRequest) list \<Rightarrow> 'w \<Rightarrow> (string \<Rightarrow> PreparedRouteDecision result) \<times> 'w"
  we_prepared_state :: "string \<Rightarrow> 'w \<Rightarrow> PreparedDecisionState option"
  we_cancel :: "string \<Rightarrow> 'w \<Rightarrow> unit result \<times> 'w"
  we_context :: "string \<Rightarrow> 'w \<Rightarrow> RouteDecision option"
  we_execute_prepared ::
    "(string \<times> PreparedRouteDecision) list \<Rightarrow> 'w \<Rightarrow> (string \<Rightarrow> ExecutionOutcome result) \<times> 'w"

text \<open>
  What a part of the loop does: raise an exception, return a result of the workflow, or go on.
  \<open>stop_timed\<close> tells whether the durations of the steps go into the result.
\<close>

record stop =
  stop_status :: WorkflowStatus
  stop_error :: "string option"
  stop_waiting :: "(string \<times> string) option"
  stop_timed :: bool

datatype ('w, 'a) flow = Raise error "'w run" | Return stop "'w run" | Go 'a "'w run"

definition failed :: "string \<Rightarrow> bool \<Rightarrow> stop" where
  "failed msg timed =
     \<lparr>stop_status = Flow_FAILED, stop_error = Some msg, stop_waiting = None, stop_timed = timed\<rparr>"

definition waiting_on :: "string \<Rightarrow> string \<Rightarrow> stop" where
  "waiting_on step decision =
     \<lparr>stop_status = Flow_WAITING, stop_error = None, stop_waiting = Some (step, decision), stop_timed = True\<rparr>"

definition succeeded :: stop where
  "succeeded = \<lparr>stop_status = Flow_SUCCESS, stop_error = None, stop_waiting = None, stop_timed = True\<rparr>"

definition flow_of :: "'a result \<Rightarrow> 'w run \<Rightarrow> ('a \<Rightarrow> ('w, 'b) flow) \<Rightarrow> ('w, 'b) flow" where
  "flow_of r run k = (case r of Inl e \<Rightarrow> Raise e run | Inr v \<Rightarrow> k v)"

text \<open>Assignment to a key of a dict, and to a default of zero before an addition.\<close>

definition put_key :: "'k \<Rightarrow> 'v \<Rightarrow> ('k \<times> 'v) list \<Rightarrow> ('k \<times> 'v) list" where
  "put_key k v kvs =
     (if k \<in> fst ` set kvs then map (\<lambda>(k', v'). (k', if k' = k then v else v')) kvs else kvs @ [(k, v)])"

definition add_key :: "'k \<Rightarrow> rat \<Rightarrow> ('k \<times> rat) list \<Rightarrow> ('k \<times> rat) list" where
  "add_key k q kvs = put_key k ((case map_of kvs k of None \<Rightarrow> 0 | Some v \<Rightarrow> v) + q) kvs"

definition setdefault :: "'k \<Rightarrow> 'v \<Rightarrow> ('k \<times> 'v) list \<Rightarrow> ('k \<times> 'v) list" where
  "setdefault k v kvs = (if k \<in> fst ` set kvs then kvs else kvs @ [(k, v)])"

section \<open>Actions of the ready steps\<close>

definition ready_steps :: "'w run \<Rightarrow> WorkflowStep list" where
  "ready_steps run =
     sort_key ws_step_id
       (filter (\<lambda>s. list_all (\<lambda>d. d \<in> fst ` set (run_outputs run)) (ws_depends_on s)) (run_pending run))"

text \<open>The inputs of a step: every binding reads its source and replaces its target.\<close>

fun bind_inputs ::
  "json \<Rightarrow> (string \<times> json) list \<Rightarrow> WorkflowInputBinding list \<Rightarrow> json \<Rightarrow> json result" where
  "bind_inputs wf_input outputs [] input = Ok input"
| "bind_inputs wf_input outputs (b # bs) input =
     (case (case wb_source_step_id b of
              None \<Rightarrow> Ok wf_input
            | Some src \<Rightarrow> (case map_of outputs src of None \<Rightarrow> Err (ExternalError ''KeyError'') | Some v \<Rightarrow> Ok v)) of
        Inl e \<Rightarrow> Err e
      | Inr source \<Rightarrow>
          (case pointer_get source (wb_source_path b) of
             Inl e \<Rightarrow> Err e
           | Inr v \<Rightarrow>
               (case pointer_replace input (wb_target_path b) v of
                  Inl e \<Rightarrow> Err e
                | Inr input' \<Rightarrow> bind_inputs wf_input outputs bs input')))"

definition constrained :: "WorkflowRequest \<Rightarrow> ActionRequest \<Rightarrow> ActionRequest" where
  "constrained req a = a\<lparr>aq_constraints := merge_constraints (wr_constraints req) (aq_constraints a)\<rparr>"

definition with_budget :: "rat option \<Rightarrow> ActionRequest \<Rightarrow> ActionRequest" where
  "with_budget remaining a =
     (case remaining of
        None \<Rightarrow> a
      | Some q \<Rightarrow>
          a\<lparr>aq_context := (aq_context a)\<lparr>cx_compute := (cx_compute (aq_context a))\<lparr>av_monetary_budget_usd := Some q\<rparr>\<rparr>,
            aq_constraints := (aq_constraints a)\<lparr>max_cost_usd :=
              Some (case max_cost_usd (aq_constraints a) of None \<Rightarrow> q | Some m \<Rightarrow> min m q)\<rparr>\<rparr>)"

definition cash_of :: "'w workflow_env \<Rightarrow> ExecutionReceipt list \<Rightarrow> string \<Rightarrow> rat option result" where
  "cash_of env rs cur =
     (case aggregate_accounting (we_loads env) rs of
        Inl e \<Rightarrow> Err e | Inr a \<Rightarrow> Ok (actual_cash_cost (acc_cash a) cur))"

section \<open>Reservations of subscription units\<close>

definition reserve_usages ::
  "(rat \<Rightarrow> rat) \<Rightarrow> SubscriptionUsage list \<Rightarrow> (quota_key \<times> rat) list \<Rightarrow> (quota_key \<times> rat) list" where
  "reserve_usages to_float us res =
     foldl (\<lambda>acc u. add_key (su_resource_pool u, su_unit u)
       (to_float (case su_consumed u of None \<Rightarrow> 0 | Some q \<Rightarrow> q)) acc) res us"

definition reserve_step ::
  "'w workflow_env \<Rightarrow> 'w \<Rightarrow> WorkflowExecutor \<Rightarrow> ActionContext \<Rightarrow> CandidateScore list
   \<Rightarrow> (quota_key \<times> rat) list \<times> (quota_key \<times> SubscriptionQuota) list
   \<Rightarrow> ((quota_key \<times> rat) list \<times> (quota_key \<times> SubscriptionQuota) list) result" where
  "reserve_step env w spec cx candidates res_quotas =
     (case ex_resource_pool spec of
        None \<Rightarrow> Ok res_quotas
      | Some pool \<Rightarrow>
          if pool = [] then Ok res_quotas
          else (case we_quota env spec cx w of
            Inl e \<Rightarrow> Err e
          | Inr quota \<Rightarrow>
              (case List.find (\<lambda>c. cd_executor_id c = ex_id spec) candidates of
                 None \<Rightarrow> Err (ExternalError ''RuntimeError'')
               | Some c \<Rightarrow>
                   (let unit = (case quota of Some q \<Rightarrow> sq_unit q | None \<Rightarrow>
                          (case we_resource_unit env pool of Some u \<Rightarrow> u | None \<Rightarrow> ''provider_unit''));
                        key = (pool, unit);
                        known = filter (\<lambda>u. su_resource_pool u = pool \<and> su_consumed u \<noteq> None)
                          (re_subscription_usage (cd_estimate c));
                        res = (if known \<noteq> [] then reserve_usages (we_to_float env) known (fst res_quotas)
                               else add_key key (rv_subscription_units (re_resources (cd_estimate c))) (fst res_quotas))
                    in Ok (res, case quota of None \<Rightarrow> snd res_quotas
                                | Some q \<Rightarrow> setdefault key q (snd res_quotas))))))"

fun reserve_wave ::
  "'w workflow_env \<Rightarrow> 'w \<Rightarrow> (WorkflowExecutor \<times> ActionContext \<times> CandidateScore list) list
   \<Rightarrow> (quota_key \<times> rat) list \<times> (quota_key \<times> SubscriptionQuota) list
   \<Rightarrow> ((quota_key \<times> rat) list \<times> (quota_key \<times> SubscriptionQuota) list) result" where
  "reserve_wave env w [] acc = Ok acc"
| "reserve_wave env w ((spec, cx, candidates) # rest) acc =
     (case reserve_step env w spec cx candidates acc of
        Inl e \<Rightarrow> Err e | Inr acc' \<Rightarrow> reserve_wave env w rest acc')"

definition over_quota ::
  "'w workflow_env \<Rightarrow> (quota_key \<times> SubscriptionQuota) list \<Rightarrow> (quota_key \<Rightarrow> rat) \<Rightarrow> (quota_key \<times> rat) list \<Rightarrow> bool"
where
  "over_quota env quotas consumed res =
     list_ex (\<lambda>(k, reserved). case map_of quotas k of
         None \<Rightarrow> False
       | Some q \<Rightarrow> (case sq_remaining_units q of
           None \<Rightarrow> False | Some left \<Rightarrow> we_to_float env left < consumed k + reserved)) res"

text \<open>After a wave: what was measured, or what was reserved where nothing was measured.\<close>

definition consume_wave ::
  "'w workflow_env \<Rightarrow> ExecutionReceipt list \<Rightarrow> (quota_key \<times> rat) list \<Rightarrow> (quota_key \<Rightarrow> rat) \<Rightarrow> (quota_key \<Rightarrow> rat) result"
where
  "consume_wave env wave_receipts res consumed =
     (case aggregate_accounting (we_loads env) wave_receipts of
        Inl e \<Rightarrow> Err e
      | Inr a \<Rightarrow>
          (let actual = map_of (rev (List.map_filter
                 (\<lambda>u. map_option (\<lambda>q. ((su_resource_pool u, su_unit u), we_to_float env q)) (su_consumed u))
                 (acc_subscription_usage a)))
           in Ok (foldl (\<lambda>f (k, reserved). f(k := f k + (case actual k of None \<Rightarrow> reserved | Some q \<Rightarrow> q))) consumed res)))"

section \<open>A wave without economic networking\<close>

record routed =
  rt_step :: string
  rt_action :: ActionRequest
  rt_decision :: RouteDecision
  rt_spec :: WorkflowExecutor

text \<open>What the budget leaves for an action: \<open>None\<close> when the cash spent so far is unknown.\<close>

definition offline_remaining ::
  "'w workflow_env \<Rightarrow> WorkflowRequest \<Rightarrow> ExecutionReceipt list \<Rightarrow> rat option option result" where
  "offline_remaining env req receipts =
     (case wr_max_cash_usd req of
        None \<Rightarrow> Ok (Some None)
      | Some budget \<Rightarrow>
          (case cash_of env receipts ''USD'' of
             Inl e \<Rightarrow> Err e
           | Inr spent \<Rightarrow>
               if receipts = [] then Ok (Some (Some (max 0 (we_to_float env budget))))
               else Ok (case spent of
                          None \<Rightarrow> None
                        | Some q \<Rightarrow> Some (Some (max 0 (we_to_float env (budget - q)))))))"

fun route_ready ::
  "'w workflow_env \<Rightarrow> WorkflowRequest \<Rightarrow> WorkflowStep list \<Rightarrow> routed list \<Rightarrow> 'w run \<Rightarrow> ('w, routed list) flow"
where
  "route_ready env req [] routed run = Go routed run"
| "route_ready env req (s # ss) routed run =
     flow_of (offline_remaining env req (run_receipts run)) run (\<lambda>left.
       case left of
         None \<Rightarrow> Return (failed ''workflow cash is unavailable under a finite budget'' False) run
       | Some remaining \<Rightarrow>
           flow_of (bind_inputs (wr_input req) (run_outputs run) (ws_bindings s) (aq_input (ws_action s))) run (\<lambda>input.
             let action = (with_budget remaining (constrained req (ws_action s)))\<lparr>aq_input := input\<rparr> in
             case we_route env action (run_world run) of
               (Inl e, w) \<Rightarrow> Raise e (run\<lparr>run_world := w\<rparr>)
             | (Inr d, w) \<Rightarrow>
                 (let run' = run\<lparr>run_world := w\<rparr> in
                  case rd_selected_executor_id d of
                    None \<Rightarrow> Return (failed (rd_explanation d) False) run'
                  | Some eid \<Rightarrow> flow_of (we_executor env eid w) run' (\<lambda>spec.
                      route_ready env req ss
                        (routed @ [\<lparr>rt_step = ws_step_id s, rt_action = action, rt_decision = d, rt_spec = spec\<rparr>])
                        run'))))"

definition offline_exclusive :: "routed \<Rightarrow> bool" where
  "offline_exclusive r =
     (side_effect_rank SE_READ < side_effect_rank (ex_side_effect (rt_spec r)) \<or> wx_exclusive_resource (rt_spec r))"

definition wave_of :: "('a \<Rightarrow> bool) \<Rightarrow> 'a list \<Rightarrow> 'a list" where
  "wave_of exclusive ready =
     (case filter exclusive ready of [] \<Rightarrow> take 8 ready | x # _ \<Rightarrow> [x])"

definition record_output :: "string \<Rightarrow> json \<Rightarrow> 'w run \<Rightarrow> 'w run" where
  "record_output i v run =
     run\<lparr>run_outputs := put_key i v (run_outputs run),
         run_pending := filter (\<lambda>s. ws_step_id s \<noteq> i) (run_pending run)\<rparr>"

definition record_receipts :: "string \<Rightarrow> ExecutionReceipt list \<Rightarrow> 'w run \<Rightarrow> 'w run" where
  "record_receipts i rs run =
     run\<lparr>run_receipts := run_receipts run @ rs,
         run_durations := put_key i (sum_list (map xr_duration_ms rs)) (run_durations run)\<rparr>"

definition hands_over :: "ExecutionOutcome \<Rightarrow> bool" where
  "hands_over out = (eo_status out \<in> {Exec_HOST_SELECTED, Exec_DELEGATED})"

text \<open>The loop over the results of a wave, in the order of the wave.\<close>

fun collect_offline ::
  "(string \<Rightarrow> ExecutionOutcome result) \<Rightarrow> string list \<Rightarrow> 'w run \<Rightarrow> ('w, unit) flow" where
  "collect_offline outcomes [] run = Go () run"
| "collect_offline outcomes (i # is) run =
     (case outcomes i of
        Inl e \<Rightarrow> Return (failed ''step failed'' False) run
      | Inr out \<Rightarrow>
          (let run' = record_receipts i (eo_receipts out) run in
           if hands_over out then Return (waiting_on i (eo_decision_id out)) run'
           else if \<not> eo_ok out then Return (failed ''step did not produce a valid result'' False) run'
           else collect_offline outcomes is (record_output i (eo_output out) run')))"

definition receipts_of :: "(string \<Rightarrow> ExecutionOutcome result) \<Rightarrow> string list \<Rightarrow> ExecutionReceipt list" where
  "receipts_of outcomes is =
     concat (map (\<lambda>i. case outcomes i of Inl _ \<Rightarrow> [] | Inr out \<Rightarrow> eo_receipts out) is)"

definition execute_offline ::
  "'w workflow_env \<Rightarrow> routed list \<Rightarrow> (quota_key \<times> rat) list \<Rightarrow> 'w run \<Rightarrow> ('w, unit) flow" where
  "execute_offline env wave res run =
     (case we_execute env (map (\<lambda>r. (rt_step r, rt_decision r)) wave) (run_world run) of
        (outcomes, w) \<Rightarrow>
          (case collect_offline outcomes (map rt_step wave) (run\<lparr>run_world := w\<rparr>) of
             Raise e r \<Rightarrow> Raise e r
           | Return st r \<Rightarrow> Return st r
           | Go _ r \<Rightarrow>
               flow_of (consume_wave env (receipts_of outcomes (map rt_step wave)) res (run_quota_consumed r)) r
                 (\<lambda>consumed. Go () (r\<lparr>run_quota_consumed := consumed\<rparr>))))"

definition offline_wave ::
  "'w workflow_env \<Rightarrow> WorkflowRequest \<Rightarrow> WorkflowStep list \<Rightarrow> 'w run \<Rightarrow> ('w, unit) flow" where
  "offline_wave env req ready run =
     (case route_ready env req ready [] run of
        Raise e r \<Rightarrow> Raise e r
      | Return st r \<Rightarrow> Return st r
      | Go routed r \<Rightarrow>
          (let wave = wave_of offline_exclusive routed in
           flow_of (reserve_wave env (run_world r)
               (map (\<lambda>x. (rt_spec x, aq_context (rt_action x), rd_candidates (rt_decision x))) wave)
               ([], run_quota_start r)) r
             (\<lambda>(res, quotas).
                let r' = r\<lparr>run_quota_start := quotas\<rparr> in
                if over_quota env quotas (run_quota_consumed r') res
                then Return (failed ''parallel subscription reservation exceeds'' False) r'
                else execute_offline env wave res r')))"

section \<open>A wave with economic networking\<close>

text \<open>The cash accounted so far and what the budget leaves, or the reason to stop.\<close>

definition economic_budget ::
  "'w workflow_env \<Rightarrow> WorkflowRequest \<Rightarrow> ExecutionReceipt list \<Rightarrow> (string + rat \<times> rat option) result" where
  "economic_budget env req receipts =
     (if wr_max_cash_usd req \<noteq> None \<and> we_currency env \<noteq> ''USD''
      then Ok (Inl ''USD workflow budget cannot authorize another currency'')
      else case cash_of env receipts (we_currency env) of
        Inl e \<Rightarrow> Err e
      | Inr prior \<Rightarrow>
          if wr_max_cash_usd req \<noteq> None \<and> receipts \<noteq> [] \<and> prior = None
          then Ok (Inl ''workflow cash is unavailable under a finite budget'')
          else
            (let accounted = (case prior of None \<Rightarrow> 0 | Some q \<Rightarrow> q);
                 remaining = map_option (\<lambda>b. b - accounted) (wr_max_cash_usd req) in
             if (case remaining of None \<Rightarrow> False | Some q \<Rightarrow> q < 0)
             then Ok (Inl ''workflow cash budget is already exhausted'')
             else Ok (Inr (accounted, remaining))))"

fun resolve_actions ::
  "'w workflow_env \<Rightarrow> WorkflowRequest \<Rightarrow> rat option \<Rightarrow> (string \<times> json) list \<Rightarrow> WorkflowStep list
   \<Rightarrow> (string \<times> ActionRequest) list result" where
  "resolve_actions env req remaining outputs [] = Ok []"
| "resolve_actions env req remaining outputs (s # ss) =
     (case bind_inputs (wr_input req) outputs (ws_bindings s) (aq_input (ws_action s)) of
        Inl e \<Rightarrow> Err e
      | Inr input \<Rightarrow>
          (case resolve_actions env req remaining outputs ss of
             Inl e \<Rightarrow> Err e
           | Inr rest \<Rightarrow>
               Ok ((ws_step_id s, (with_budget (map_option (we_to_float env) remaining)
                       (constrained req (ws_action s)))\<lparr>aq_input := input\<rparr>) # rest)))"

definition may_be_exclusive :: "WorkflowExecutor \<Rightarrow> bool" where
  "may_be_exclusive spec =
     (wx_enabled spec
      \<and> (side_effect_rank SE_READ < side_effect_rank (ex_side_effect spec)
         \<or> ex_kind spec \<in> {Kind_DELEGATE, Kind_HOST, Kind_MANAGED_HOST} \<or> wx_exclusive_resource spec))"

definition economic_exclusive :: "'w workflow_env \<Rightarrow> 'w \<Rightarrow> string \<times> ActionRequest \<Rightarrow> bool" where
  "economic_exclusive env w step =
     list_ex may_be_exclusive (we_compatible env (aq_capability (snd step)) (aq_input (snd step)) w)"

fun cancel_uninvoked :: "'w workflow_env \<Rightarrow> string list \<Rightarrow> 'w \<Rightarrow> unit result \<times> 'w" where
  "cancel_uninvoked env [] w = (Ok (), w)"
| "cancel_uninvoked env (p # ps) w =
     (if we_prepared_state env p w \<in> {Some Prep_PREPARED, Some Prep_RESERVED}
      then (case we_cancel env p w of (Inl e, w') \<Rightarrow> (Err e, w') | (Inr _, w') \<Rightarrow> cancel_uninvoked env ps w')
      else cancel_uninvoked env ps w)"

definition stop_cancelled ::
  "'w workflow_env \<Rightarrow> string list \<Rightarrow> stop \<Rightarrow> 'w run \<Rightarrow> ('w, 'a) flow" where
  "stop_cancelled env prepared st run =
     (case cancel_uninvoked env prepared (run_world run) of
        (Inl e, w) \<Rightarrow> Raise e (run\<lparr>run_world := w\<rparr>)
      | (Inr _, w) \<Rightarrow> Return st (run\<lparr>run_world := w\<rparr>))"

record admitted =
  am_step :: string
  am_action :: ActionRequest
  am_prepared :: PreparedRouteDecision
  am_decision :: RouteDecision
  am_spec :: WorkflowExecutor

text \<open>The checks of one prepared decision: a reason to refuse it, or what its execution needs.\<close>

definition prepared_problem :: "string \<Rightarrow> PreparedRouteDecision \<Rightarrow> string option" where
  "prepared_problem cur p =
     (if \<not> feasible p \<or> pd_selected_executor_id p = None then Some ''no prepared route is feasible''
      else case pd_maximum_cash_authorization p of
        None \<Rightarrow> Some ''prepared cash maximum is unknown''
      | Some m \<Rightarrow>
          if currency m \<noteq> cur then Some ''prepared cash currency is inconsistent''
          else if amount m > 0 \<and> (pd_authorization_kind p = None \<or> pd_authorization_id p = None)
          then Some ''nonzero cash maximum lacks immutable authorization''
          else if amount m = 0 \<and> pd_authorization_kind p = None
                  \<and> actual_cash_cost (pd_expected_cash p) cur \<noteq> Some 0
          then Some ''unknown cash cannot be treated as confirmed free''
          else None)"

definition maximum_of :: "PreparedRouteDecision \<Rightarrow> rat" where
  "maximum_of p = (case pd_maximum_cash_authorization p of None \<Rightarrow> 0 | Some m \<Rightarrow> amount m)"

fun admit_wave ::
  "'w workflow_env \<Rightarrow> 'w \<Rightarrow> (string \<times> ActionRequest \<times> PreparedRouteDecision) list
   \<Rightarrow> admitted list \<Rightarrow> rat \<Rightarrow> (string + admitted list \<times> rat) result" where
  "admit_wave env w [] acc tot = Ok (Inr (acc, tot))"
| "admit_wave env w ((i, action, p) # rest) acc tot =
     (case prepared_problem (we_currency env) p of
        Some reason \<Rightarrow> Ok (Inl reason)
      | None \<Rightarrow>
          (case we_context env (pd_prepared_id p) w of
             None \<Rightarrow> Ok (Inl ''prepared workflow context is unavailable'')
           | Some d \<Rightarrow>
               (case we_executor env (the (pd_selected_executor_id p)) w of
                  Inl e \<Rightarrow> Err e
                | Inr spec \<Rightarrow>
                    admit_wave env w rest
                      (acc @ [\<lparr>am_step = i, am_action = action, am_prepared = p, am_decision = d, am_spec = spec\<rparr>])
                      (tot + maximum_of p))))"

text \<open>
  The results of an executed wave: receipts first, then the first exception, then outputs; the
  last step that hands over and the last that failed decide what is returned.
\<close>

fun keep_receipts ::
  "(string \<Rightarrow> ExecutionOutcome result) \<Rightarrow> string list \<Rightarrow> 'w run \<Rightarrow> 'w run" where
  "keep_receipts outcomes [] run = run"
| "keep_receipts outcomes (i # is) run =
     keep_receipts outcomes is
       (case outcomes i of Inl _ \<Rightarrow> run | Inr out \<Rightarrow> record_receipts i (eo_receipts out) run)"

fun keep_outputs ::
  "(string \<Rightarrow> ExecutionOutcome result) \<Rightarrow> string list \<Rightarrow> (string \<times> string) option \<Rightarrow> bool \<Rightarrow> 'w run
   \<Rightarrow> (string \<times> string) option \<times> bool \<times> 'w run" where
  "keep_outputs outcomes [] waiting bad run = (waiting, bad, run)"
| "keep_outputs outcomes (i # is) waiting bad run =
     (case outcomes i of
        Inl _ \<Rightarrow> keep_outputs outcomes is waiting bad run
      | Inr out \<Rightarrow>
          if hands_over out then keep_outputs outcomes is (Some (i, eo_decision_id out)) bad run
          else if \<not> eo_ok out then keep_outputs outcomes is waiting True run
          else keep_outputs outcomes is waiting bad (record_output i (eo_output out) run))"

definition finish_economic ::
  "'w workflow_env \<Rightarrow> (string \<Rightarrow> ExecutionOutcome result) \<Rightarrow> string list \<Rightarrow> (quota_key \<times> rat) list \<Rightarrow> 'w run
   \<Rightarrow> ('w, unit) flow" where
  "finish_economic env outcomes wave res run =
     (case keep_outputs outcomes wave None False run of
        (waiting, bad, r) \<Rightarrow>
          flow_of (consume_wave env (receipts_of outcomes wave) res (run_quota_consumed r)) r (\<lambda>consumed.
            let r' = r\<lparr>run_quota_consumed := consumed\<rparr> in
            case waiting of
              Some (i, decision) \<Rightarrow> Return (waiting_on i decision) r'
            | None \<Rightarrow>
                if bad then Return (failed ''step did not produce a valid result'' True) r' else Go () r'))"

definition execute_economic ::
  "'w workflow_env \<Rightarrow> admitted list \<Rightarrow> (quota_key \<times> rat) list \<Rightarrow> 'w run \<Rightarrow> ('w, unit) flow" where
  "execute_economic env wave res run =
     (case we_execute_prepared env (map (\<lambda>a. (am_step a, am_prepared a)) wave) (run_world run) of
        (outcomes, w) \<Rightarrow>
          (let steps = map am_step wave;
               r = keep_receipts outcomes steps (run\<lparr>run_world := w\<rparr>) in
           if list_ex (\<lambda>i. \<not> is_ok (outcomes i)) steps
           then stop_cancelled env (map (\<lambda>a. pd_prepared_id (am_prepared a)) wave) (failed ''step failed'' True) r
           else finish_economic env outcomes steps res r))"

text \<open>The part of a wave after its steps were prepared.\<close>

definition run_admitted ::
  "'w workflow_env \<Rightarrow> string list \<Rightarrow> admitted list \<Rightarrow> 'w run \<Rightarrow> ('w, unit) flow" where
  "run_admitted env ids wave run =
     flow_of (reserve_wave env (run_world run)
         (map (\<lambda>a. (am_spec a, aq_context (am_action a), rd_candidates (am_decision a))) wave)
         ([], run_quota_start run)) run
       (\<lambda>(res, quotas).
          let r = run\<lparr>run_quota_start := quotas\<rparr> in
          if over_quota env quotas (run_quota_consumed r) res
          then stop_cancelled env ids (failed ''parallel subscription reservation exceeds'' False) r
          else execute_economic env wave res r)"

definition prepared_of ::
  "(string \<Rightarrow> PreparedRouteDecision result) \<Rightarrow> string list \<Rightarrow> PreparedRouteDecision list" where
  "prepared_of results is =
     List.map_filter (\<lambda>i. case results i of Inl _ \<Rightarrow> None | Inr p \<Rightarrow> Some p) is"

definition over_budget :: "WorkflowRequest \<Rightarrow> rat \<Rightarrow> rat \<Rightarrow> bool" where
  "over_budget req accounted tot =
     (case wr_max_cash_usd req of None \<Rightarrow> False | Some b \<Rightarrow> b < accounted + tot)"

definition prepare_wave ::
  "'w workflow_env \<Rightarrow> WorkflowRequest \<Rightarrow> rat \<Rightarrow> (string \<times> ActionRequest) list \<Rightarrow> 'w run \<Rightarrow> ('w, unit) flow" where
  "prepare_wave env req accounted wave run =
     (case we_prepare env wave (run_world run) of
        (results, w) \<Rightarrow>
          (let r = run\<lparr>run_world := w\<rparr>;
               ids = map pd_prepared_id (prepared_of results (map fst wave)) in
           if list_ex (\<lambda>x. \<not> is_ok (results (fst x))) wave
           then stop_cancelled env ids (failed ''step preparation failed'' False) r
           else flow_of (admit_wave env w
                    (zip (map fst wave) (zip (map snd wave) (prepared_of results (map fst wave)))) [] 0) r
                  (\<lambda>a. case a of
                     Inl reason \<Rightarrow> stop_cancelled env ids (failed reason False) r
                   | Inr (admitted, tot) \<Rightarrow>
                       if over_budget req accounted tot
                       then stop_cancelled env ids
                              (failed ''prepared workflow cash maxima exceed the workflow budget'' False) r
                       else run_admitted env ids admitted r)))"

definition economic_wave ::
  "'w workflow_env \<Rightarrow> WorkflowRequest \<Rightarrow> WorkflowStep list \<Rightarrow> 'w run \<Rightarrow> ('w, unit) flow" where
  "economic_wave env req ready run =
     flow_of (economic_budget env req (run_receipts run)) run (\<lambda>b. case b of
         Inl reason \<Rightarrow> Return (failed reason False) run
       | Inr (accounted, remaining) \<Rightarrow>
           flow_of (resolve_actions env req remaining (run_outputs run) ready) run (\<lambda>actions.
             prepare_wave env req accounted (wave_of (economic_exclusive env (run_world run)) actions) run))"

section \<open>The loop\<close>

definition workflow_wave ::
  "'w workflow_env \<Rightarrow> WorkflowRequest \<Rightarrow> WorkflowStep list \<Rightarrow> 'w run \<Rightarrow> ('w, unit) flow" where
  "workflow_wave env req ready run =
     (if we_economic env then economic_wave env req ready run else offline_wave env req ready run)"

text \<open>A wave that goes on has removed its steps from the pending ones.\<close>

lemma flow_of_Go [simp]: "flow_of r run k = Go v run' \<longleftrightarrow> (\<exists>x. r = Inr x \<and> k x = Go v run')"
  by (cases r) (simp_all add: flow_of_def)

lemma stop_cancelled_Go [simp]: "stop_cancelled env ps st run \<noteq> Go v run'"
  by (simp add: stop_cancelled_def split: prod.splits sum.splits)

text \<open>Two runs that differ in nothing the order of the steps rests on.\<close>

definition same_progress :: "'w run \<Rightarrow> 'w run \<Rightarrow> bool" where
  "same_progress r s = (run_outputs r = run_outputs s \<and> run_pending r = run_pending s)"

text \<open>The steps \<open>is\<close> have produced their outputs, in this order, and are no longer pending.\<close>

definition advanced :: "string list \<Rightarrow> 'w run \<Rightarrow> 'w run \<Rightarrow> bool" where
  "advanced is r s =
     (run_pending s = filter (\<lambda>x. ws_step_id x \<notin> set is) (run_pending r)
      \<and> (distinct is \<and> set is \<inter> fst ` set (run_outputs r) = {}
          \<longrightarrow> map fst (run_outputs s) = map fst (run_outputs r) @ is))"

lemma advanced_Nil: "same_progress r s \<Longrightarrow> advanced [] r s"
  by (simp add: advanced_def same_progress_def)

lemma keys_put: "map fst (put_key k v kvs) = (if k \<in> fst ` set kvs then map fst kvs else map fst kvs @ [k])"
  by (auto simp: put_key_def o_def case_prod_unfold)

lemma advanced_step:
  assumes "advanced is (record_output i v r) s"
  shows "advanced (i # is) r s"
proof -
  have "run_pending s = filter (\<lambda>x. ws_step_id x \<notin> set (i # is)) (run_pending r)"
    using assms by (auto simp: advanced_def record_output_def intro: filter_cong)
  moreover have "map fst (run_outputs s) = map fst (run_outputs r) @ i # is"
    if "distinct (i # is)" "set (i # is) \<inter> fst ` set (run_outputs r) = {}"
  proof -
    have keys: "map fst (run_outputs (record_output i v r)) = map fst (run_outputs r) @ [i]"
      using that by (simp add: record_output_def keys_put)
    then have "fst ` set (run_outputs (record_output i v r)) = insert i (fst ` set (run_outputs r))"
      by (metis Un_insert_right image_set list.simps(15) set_append sup_bot.right_neutral empty_set)
    then show ?thesis using assms that keys by (simp add: advanced_def)
  qed
  ultimately show ?thesis by (simp add: advanced_def)
qed

lemma advanced_change:
  "same_progress r r' \<Longrightarrow> advanced is r' s \<Longrightarrow> same_progress s s' \<Longrightarrow> advanced is r s'"
  by (simp add: advanced_def same_progress_def)

lemma same_progress_record [simp]: "same_progress r (record_receipts i rs r)"
  by (simp add: same_progress_def record_receipts_def)

lemma collect_offline_Go:
  "collect_offline outcomes is run = Go () r \<Longrightarrow> advanced is run r"
proof (induction outcomes "is" run rule: collect_offline.induct)
  case (2 outcomes i "is" run)
  obtain out where out: "outcomes i = Inr out" using 2(2) by (cases "outcomes i") simp_all
  have ok: "\<not> hands_over out" "eo_ok out"
    and rest: "collect_offline outcomes is (record_output i (eo_output out) (record_receipts i (eo_receipts out) run)) = Go () r"
    using 2(2) out by (auto simp: Let_def split: if_splits)
  have "advanced is (record_output i (eo_output out) (record_receipts i (eo_receipts out) run)) r"
    using 2(1) [OF out refl] ok rest by simp
  then have "advanced (i # is) (record_receipts i (eo_receipts out) run) r" by (rule advanced_step)
  then show ?case by (rule advanced_change [rotated]) (simp_all add: same_progress_def record_receipts_def)
qed (simp add: advanced_Nil same_progress_def)

text \<open>One step of the routing loop that goes on.\<close>

definition routed_action :: "WorkflowRequest \<Rightarrow> WorkflowStep \<Rightarrow> rat option \<Rightarrow> json \<Rightarrow> ActionRequest" where
  "routed_action req s remaining input =
     (with_budget remaining (constrained req (ws_action s)))\<lparr>aq_input := input\<rparr>"

lemma route_ready_Cons_Go:
  assumes "route_ready env req (s # ss) routed run = Go routed' r"
  obtains remaining input d w eid spec where
    "offline_remaining env req (run_receipts run) = Inr (Some remaining)"
    "bind_inputs (wr_input req) (run_outputs run) (ws_bindings s) (aq_input (ws_action s)) = Inr input"
    "we_route env (routed_action req s remaining input) (run_world run) = (Inr d, w)"
    "rd_selected_executor_id d = Some eid" "we_executor env eid w = Inr spec"
    "route_ready env req ss (routed @ [\<lparr>rt_step = ws_step_id s, rt_action = routed_action req s remaining input,
        rt_decision = d, rt_spec = spec\<rparr>]) (run\<lparr>run_world := w\<rparr>) = Go routed' r"
proof -
  obtain left where left: "offline_remaining env req (run_receipts run) = Inr left"
    using assms by auto
  then obtain remaining where rem: "left = Some remaining" using assms by (cases left) simp_all
  obtain input where input: "bind_inputs (wr_input req) (run_outputs run) (ws_bindings s) (aq_input (ws_action s)) = Inr input"
    using assms left rem by auto
  obtain res w where route: "we_route env (routed_action req s remaining input) (run_world run) = (res, w)"
    by (cases "we_route env (routed_action req s remaining input) (run_world run)")
  then obtain d where d: "res = Inr d"
    using assms left rem input by (cases res) (simp_all add: flow_of_def routed_action_def)
  obtain eid where eid: "rd_selected_executor_id d = Some eid"
    using assms left rem input route d
    by (cases "rd_selected_executor_id d") (simp_all add: flow_of_def routed_action_def)
  have "\<exists>spec. we_executor env eid w = Inr spec \<and> route_ready env req ss (routed @ [\<lparr>rt_step = ws_step_id s,
      rt_action = routed_action req s remaining input, rt_decision = d, rt_spec = spec\<rparr>]) (run\<lparr>run_world := w\<rparr>) = Go routed' r"
    using assms left rem input route d eid by (simp add: routed_action_def Let_def)
  with left rem input route d eid show thesis by (blast intro: that)
qed

lemma route_ready_Go:
  "route_ready env req ss routed run = Go routed' r \<Longrightarrow>
     same_progress run r \<and> run_receipts r = run_receipts run
     \<and> map rt_step routed' = map rt_step routed @ map ws_step_id ss"
proof (induction ss arbitrary: routed run)
  case (Cons s ss)
  from Cons.prems show ?case
    by (rule route_ready_Cons_Go) (drule Cons.IH, simp add: same_progress_def)
qed (simp add: same_progress_def)

lemma wave_of_subset: "ready \<noteq> [] \<Longrightarrow> wave_of p ready \<noteq> [] \<and> set (wave_of p ready) \<subseteq> set ready"
  by (cases "filter p ready") (auto simp: wave_of_def filter_eq_Cons_iff dest: in_set_takeD)

lemma distinct_wave_of: "distinct (map f ready) \<Longrightarrow> distinct (map f (wave_of p ready))"
  by (simp add: wave_of_def take_map [symmetric] distinct_take split: list.splits)

text \<open>A wave of either kind that goes on has advanced steps of its ready list.\<close>

definition advances_some :: "WorkflowStep list \<Rightarrow> 'w run \<Rightarrow> 'w run \<Rightarrow> bool" where
  "advances_some ready r s =
     (\<exists>is. is \<noteq> [] \<and> set is \<subseteq> ws_step_id ` set ready \<and> (distinct (map ws_step_id ready) \<longrightarrow> distinct is)
       \<and> advanced is r s)"

lemma execute_offline_Go:
  assumes "execute_offline env wave res run = Go () r"
  shows "advanced (map rt_step wave) run r"
proof -
  obtain outcomes w r2 consumed where
    "collect_offline outcomes (map rt_step wave) (run\<lparr>run_world := w\<rparr>) = Go () r2"
    "r = r2\<lparr>run_quota_consumed := consumed\<rparr>"
    using assms by (auto simp: execute_offline_def split: prod.splits flow.splits)
  then show ?thesis
    by (intro advanced_change [OF _ collect_offline_Go]) (auto simp: same_progress_def)
qed

text \<open>The steps of a wave are some of the ready ones.\<close>

lemma wave_steps:
  assumes "map f items = map ws_step_id ready"
  shows "set (map f (wave_of p items)) \<subseteq> ws_step_id ` set ready"
    "distinct (map ws_step_id ready) \<Longrightarrow> distinct (map f (wave_of p items))"
    "ready \<noteq> [] \<Longrightarrow> map f (wave_of p items) \<noteq> []"
proof -
  have ids: "f ` set items = ws_step_id ` set ready" using arg_cong [OF assms, of set] by simp
  show "set (map f (wave_of p items)) \<subseteq> ws_step_id ` set ready"
  proof (cases "items = []")
    case False
    then have "set (wave_of p items) \<subseteq> set items" using wave_of_subset by blast
    then show ?thesis unfolding ids [symmetric] set_map by (rule image_mono)
  qed (simp add: wave_of_def)
  show "distinct (map ws_step_id ready) \<Longrightarrow> distinct (map f (wave_of p items))"
    using distinct_wave_of [of f items p] assms by simp
  show "ready \<noteq> [] \<Longrightarrow> map f (wave_of p items) \<noteq> []"
    using wave_of_subset [of items p] assms by (cases items) auto
qed

lemma offline_wave_Go:
  assumes "offline_wave env req ready run = Go () r" and "ready \<noteq> []"
  shows "advances_some ready run r"
proof -
  obtain routed r1 where routed: "route_ready env req ready [] run = Go routed r1"
    using assms(1) by (cases "route_ready env req ready [] run") (simp_all add: offline_wave_def)
  let ?wave = "wave_of offline_exclusive routed"
  have steps: "map rt_step routed = map ws_step_id ready" "same_progress run r1"
    using route_ready_Go [OF routed] by simp_all
  obtain res quotas where "execute_offline env ?wave res (r1\<lparr>run_quota_start := quotas\<rparr>) = Go () r"
    using assms(1) routed by (auto simp: offline_wave_def Let_def split: prod.splits if_splits)
  then have "advanced (map rt_step ?wave) run r"
    using steps(2) by (intro advanced_change [OF _ execute_offline_Go]) (auto simp: same_progress_def)
  then show ?thesis unfolding advances_some_def
    using wave_steps [OF steps(1), of offline_exclusive] assms(2) by blast
qed

lemma keep_receipts_progress: "same_progress run (keep_receipts outcomes is run)"
  by (induction outcomes "is" run rule: keep_receipts.induct)
    (auto simp: same_progress_def record_receipts_def split: sum.splits)

lemma keep_outputs_Go:
  "keep_outputs outcomes is waiting bad run = (None, False, r) \<Longrightarrow> \<forall>i \<in> set is. is_ok (outcomes i)
     \<Longrightarrow> waiting = None \<and> \<not> bad \<and> advanced is run r"
proof (induction outcomes "is" waiting bad run rule: keep_outputs.induct)
  case (2 outcomes i "is" waiting bad run)
  obtain out where out: "outcomes i = Inr out" using 2(6) by (auto simp: is_ok_iff)
  show ?case
  proof (cases "hands_over out")
    case True
    then show ?thesis using 2 out by auto
  next
    case False
    have ok: "eo_ok out"
    proof (rule ccontr)
      assume "\<not> eo_ok out"
      then show False using 2(3) [OF out False] 2(5,6) out False by simp
    qed
    then have "waiting = None \<and> \<not> bad \<and> advanced is (record_output i (eo_output out) run) r"
      using 2(4) [OF out False] 2(5,6) out False by simp
    then show ?thesis by (auto intro: advanced_step)
  qed
qed (simp add: advanced_Nil same_progress_def)

lemma admit_wave_steps:
  "admit_wave env w items acc tot = Inr (Inr (wave, tot2)) \<Longrightarrow>
     map am_step wave = map am_step acc @ map fst items"
  by (induction env w items acc tot rule: admit_wave.induct) (auto split: option.splits sum.splits)

lemma resolve_actions_steps:
  "resolve_actions env req remaining outputs ss = Inr actions \<Longrightarrow> map fst actions = map ws_step_id ss"
  by (induction ss arbitrary: actions) (auto split: sum.splits)

lemma prepared_of_length:
  "\<forall>i \<in> set is. is_ok (results i) \<Longrightarrow> length (prepared_of results is) = length is"
  by (induction "is") (auto simp: prepared_of_def List.map_filter_simps is_ok_iff)

lemma run_admitted_Go:
  assumes "run_admitted env ids wave run = Go () r"
  shows "advanced (map am_step wave) run r"
proof -
  obtain res quotas where "execute_economic env wave res (run\<lparr>run_quota_start := quotas\<rparr>) = Go () r"
    using assms by (auto simp: run_admitted_def Let_def split: prod.splits if_splits)
  then obtain outcomes w where all: "\<forall>i \<in> set (map am_step wave). is_ok (outcomes i)"
    and fin: "finish_economic env outcomes (map am_step wave) res
      (keep_receipts outcomes (map am_step wave) (run\<lparr>run_quota_start := quotas, run_world := w\<rparr>)) = Go () r"
    by (auto simp: execute_economic_def Let_def list_ex_iff split: prod.splits if_splits)
  let ?r0 = "keep_receipts outcomes (map am_step wave) (run\<lparr>run_quota_start := quotas, run_world := w\<rparr>)"
  obtain waiting bad r1 where kept: "keep_outputs outcomes (map am_step wave) None False ?r0 = (waiting, bad, r1)"
    by (cases "keep_outputs outcomes (map am_step wave) None False ?r0")
  then obtain consumed where "waiting = None" "\<not> bad" "r = r1\<lparr>run_quota_consumed := consumed\<rparr>"
    using fin by (cases waiting) (auto simp: finish_economic_def Let_def split: if_splits)
  then have "advanced (map am_step wave) ?r0 r1"
    using keep_outputs_Go [of outcomes "map am_step wave" None False ?r0 r1] all kept by simp
  moreover have "same_progress run ?r0"
    using keep_receipts_progress [of "run\<lparr>run_quota_start := quotas, run_world := w\<rparr>"] by (simp add: same_progress_def)
  moreover have "same_progress r1 r" using \<open>r = r1\<lparr>run_quota_consumed := consumed\<rparr>\<close> by (simp add: same_progress_def)
  ultimately show ?thesis using advanced_change by blast
qed

text \<open>What a prepared wave that goes on has passed.\<close>

definition wave_items ::
  "(string \<Rightarrow> PreparedRouteDecision result) \<Rightarrow> (string \<times> ActionRequest) list
   \<Rightarrow> (string \<times> ActionRequest \<times> PreparedRouteDecision) list" where
  "wave_items results wave = zip (map fst wave) (zip (map snd wave) (prepared_of results (map fst wave)))"

lemma prepare_wave_Go:
  assumes "prepare_wave env req accounted wave run = Go () r"
  obtains results w admitted tot ids where "we_prepare env wave (run_world run) = (results, w)"
    "\<forall>i \<in> set (map fst wave). is_ok (results i)"
    "admit_wave env w (wave_items results wave) [] 0 = Inr (Inr (admitted, tot))"
    "\<not> over_budget req accounted tot" "run_admitted env ids admitted (run\<lparr>run_world := w\<rparr>) = Go () r"
proof -
  obtain results w where results: "we_prepare env wave (run_world run) = (results, w)"
    by (cases "we_prepare env wave (run_world run)")
  have all: "\<forall>i \<in> set (map fst wave). is_ok (results i)"
    using assms results by (auto simp: prepare_wave_def Let_def list_ex_iff split: if_splits)
  obtain x where x: "admit_wave env w (wave_items results wave) [] 0 = Inr x"
    using assms results by (auto simp: prepare_wave_def Let_def wave_items_def split: if_splits)
  show thesis
  proof (cases x)
    case (Inl reason)
    then show ?thesis
      using assms results x by (simp add: prepare_wave_def Let_def wave_items_def split: if_splits)
  next
    case (Inr y)
    then obtain admitted tot where "x = Inr (admitted, tot)" by (cases y) simp
    then show ?thesis
      using that [OF results all] assms results x
      by (simp add: prepare_wave_def Let_def wave_items_def split: if_splits)
  qed
qed

lemma economic_wave_Go:
  assumes "economic_wave env req ready run = Go () r"
  obtains accounted remaining actions where "economic_budget env req (run_receipts run) = Inr (Inr (accounted, remaining))"
    "resolve_actions env req remaining (run_outputs run) ready = Inr actions"
    "prepare_wave env req accounted (wave_of (economic_exclusive env (run_world run)) actions) run = Go () r"
proof -
  obtain x where x: "economic_budget env req (run_receipts run) = Inr x"
    using assms by (auto simp: economic_wave_def)
  then show thesis using that assms by (cases x) (auto simp: economic_wave_def)
qed

lemma prepare_wave_advanced:
  assumes "prepare_wave env req accounted wave run = Go () r"
  shows "advanced (map fst wave) run r"
proof -
  obtain results w admitted tot ids' where all: "\<forall>i \<in> set (map fst wave). is_ok (results i)"
    and admitted: "admit_wave env w (wave_items results wave) [] 0 = Inr (Inr (admitted, tot))"
    and go: "run_admitted env ids' admitted (run\<lparr>run_world := w\<rparr>) = Go () r"
    using assms by (rule prepare_wave_Go)
  have "map am_step admitted = map fst wave"
    using admit_wave_steps [OF admitted] prepared_of_length [OF all] by (simp add: wave_items_def)
  then show ?thesis
    using run_admitted_Go [OF go] by (auto intro: advanced_change [rotated] simp: same_progress_def)
qed

lemma economic_wave_advances:
  assumes "economic_wave env req ready run = Go () r" and "ready \<noteq> []"
  shows "advances_some ready run r"
proof -
  obtain remaining accounted actions where actions: "resolve_actions env req remaining (run_outputs run) ready = Inr actions"
    and prep: "prepare_wave env req accounted (wave_of (economic_exclusive env (run_world run)) actions) run = Go () r"
    using assms(1) by (rule economic_wave_Go)
  show ?thesis unfolding advances_some_def
    using wave_steps [OF resolve_actions_steps [OF actions], of "economic_exclusive env (run_world run)"]
      prepare_wave_advanced [OF prep] assms(2) by blast
qed

lemma workflow_wave_Go:
  "workflow_wave env req ready run = Go () r \<Longrightarrow> ready \<noteq> [] \<Longrightarrow> advances_some ready run r"
  by (auto simp: workflow_wave_def economic_wave_advances offline_wave_Go split: if_splits)

lemma wave_progress:
  assumes "workflow_wave env req (ready_steps run) run = Go () r" and "ready_steps run \<noteq> []"
  shows "length (run_pending r) < length (run_pending run)"
proof -
  obtain "is" where i: "is \<noteq> []" "set is \<subseteq> ws_step_id ` set (ready_steps run)" "advanced is run r"
    using workflow_wave_Go [OF assms] by (auto simp: advances_some_def)
  then have "hd is \<in> ws_step_id ` set (run_pending run)" by (cases "is") (auto simp: ready_steps_def)
  then obtain s where "s \<in> set (run_pending run)" "ws_step_id s \<in> set is"
    using i(1) by (metis image_iff hd_in_set)
  then show ?thesis using i(3) by (auto simp: advanced_def intro: length_filter_less)
qed

function workflow_loop ::
  "'w workflow_env \<Rightarrow> WorkflowRequest \<Rightarrow> 'w run \<Rightarrow> ('w, unit) flow" where
  "workflow_loop env req run =
     (if run_pending run = [] then Return succeeded run
      else if ready_steps run = []
      then Return (failed ''workflow has no executable ready step'' False) run
      else (case workflow_wave env req (ready_steps run) run of
              Raise e r \<Rightarrow> Raise e r
            | Return st r \<Rightarrow> Return st r
            | Go _ r \<Rightarrow> workflow_loop env req r))"
  by pat_completeness auto

termination workflow_loop
  by (relation "measure (\<lambda>(env, req, run). length (run_pending run))") (auto simp: wave_progress)

declare workflow_loop.simps [simp del]

end
