(* ===== verification/Estimator.thy ===== *)
theory Estimator
  imports Workflow_Engine
begin

text \<open>
  Route estimates that learn (\<open>aeep/estimator.py\<close>): the static estimate of an executor is mixed
  with shared evidence of its provider and with the receipts of its exact cohort. A float is
  the rational it stands for and every float operation rounds its exact result with
  \<open>es_round\<close>, an argument like the conversion of a decimal to a float and back, the square root,
  the parse of a number in a string, the cohort of an executor and the stored records.
  Infinities and the overflow to them are left out; an integer in an evidence summary is taken
  to be a float.
\<close>

section \<open>Estimates\<close>

datatype EstimateSource =
    Est_STATIC | Est_HISTORICAL | Est_BLENDED | Est_QUOTE | Est_OBSERVED

record EstimateUncertainty =
  eu_sample_size :: nat
  eu_cohort_digest :: string
  eu_resources_p50 :: ResourceVector
  eu_resources_p95 :: ResourceVector
  eu_cash_p95_usd :: "rat option"
  eu_success_lower_bound :: rat
  eu_quality_sample_size :: nat
  eu_quality_lower_bound :: "rat option"

record LearnedEstimate = RouteEstimate +
  le_source :: EstimateSource
  le_sample_size :: nat
  le_uncertainty :: "EstimateUncertainty option"

record EstimatorPolicy = PolicyConfig +
  ep_history_weight :: rat
  ep_history_prior_samples :: nat
  ep_reuse_enabled :: bool
  ep_max_shared_weight :: rat
  ep_shared_prior_samples :: nat

definition mk_resources :: "ResourceVector \<Rightarrow> ResourceVector result" where
  "mk_resources r = (if resources_ok r then Ok r else Err (ValueError ''resource vector field''))"

definition mk_estimate :: "LearnedEstimate \<Rightarrow> LearnedEstimate result" where
  "mk_estimate e =
     (if estimate_ok (RouteEstimate.truncate e) then Ok e else Err (ValueError ''route estimate field''))"

definition unit_interval :: "rat \<Rightarrow> bool" where
  "unit_interval q = (0 \<le> q \<and> q \<le> 1)"

definition mk_uncertainty :: "EstimateUncertainty \<Rightarrow> EstimateUncertainty result" where
  "mk_uncertainty e =
     (if 5 \<le> eu_sample_size e \<and> sha256_digest (eu_cohort_digest e)
         \<and> opt_all (\<lambda>q. 0 \<le> q) (eu_cash_p95_usd e) \<and> unit_interval (eu_success_lower_bound e)
         \<and> opt_all unit_interval (eu_quality_lower_bound e)
      then Ok e else Err (ValueError ''estimate uncertainty field''))"

section \<open>Blending\<close>

text \<open>
  The float arithmetic: \<open>es_to_float\<close> is \<open>float\<close> of a decimal, \<open>es_decimal\<close> is
  \<open>Decimal(str(x))\<close>, \<open>es_root\<close> is \<open>math.sqrt\<close>, and \<open>es_round\<close> rounds a result to a float.
\<close>

record float_env =
  es_to_float :: "rat \<Rightarrow> rat"
  es_round :: "rat \<Rightarrow> rat"
  es_decimal :: "rat \<Rightarrow> rat"
  es_root :: "rat \<Rightarrow> rat"

definition blend :: "'z float_env_scheme \<Rightarrow> rat \<Rightarrow> rat \<Rightarrow> rat \<Rightarrow> rat" where
  "blend fe a b w =
     es_round fe (es_round fe (a * es_round fe (1 - w)) + es_round fe (b * w))"

text \<open>\<open>round\<close> of a float: to the nearest integer, a half to the even one.\<close>

definition round_even :: "rat \<Rightarrow> int" where
  "round_even q =
     (let n = floor q; d = q - of_int n in
      if d < 1 / 2 then n else if d > 1 / 2 then n + 1 else if even n then n else n + 1)"

definition blend_count :: "'z float_env_scheme \<Rightarrow> int \<Rightarrow> int \<Rightarrow> rat \<Rightarrow> int" where
  "blend_count fe a b w =
     round_even (blend fe (es_round fe (of_int a)) (es_round fe (of_int b)) w)"

definition blend_resources ::
  "'z float_env_scheme \<Rightarrow> ResourceVector \<Rightarrow> ResourceVector \<Rightarrow> rat \<Rightarrow> ResourceVector result" where
  "blend_resources fe a b w = mk_resources
     \<lparr>rv_monetary_usd = blend fe (rv_monetary_usd a) (rv_monetary_usd b) w,
      rv_latency_ms = blend fe (rv_latency_ms a) (rv_latency_ms b) w,
      rv_cpu_ms = blend fe (rv_cpu_ms a) (rv_cpu_ms b) w,
      rv_memory_mb_seconds = blend fe (rv_memory_mb_seconds a) (rv_memory_mb_seconds b) w,
      rv_peak_memory_mb = blend fe (rv_peak_memory_mb a) (rv_peak_memory_mb b) w,
      rv_gpu_ms = blend fe (rv_gpu_ms a) (rv_gpu_ms b) w,
      rv_network_bytes = blend_count fe (rv_network_bytes a) (rv_network_bytes b) w,
      rv_context_tokens = blend_count fe (rv_context_tokens a) (rv_context_tokens b) w,
      rv_input_tokens = blend_count fe (rv_input_tokens a) (rv_input_tokens b) w,
      rv_cached_input_tokens = blend_count fe (rv_cached_input_tokens a) (rv_cached_input_tokens b) w,
      rv_cache_write_input_tokens = blend_count fe (rv_cache_write_input_tokens a) (rv_cache_write_input_tokens b) w,
      rv_output_tokens = blend_count fe (rv_output_tokens a) (rv_output_tokens b) w,
      rv_reasoning_output_tokens = blend_count fe (rv_reasoning_output_tokens a) (rv_reasoning_output_tokens b) w,
      rv_subscription_units = blend fe (rv_subscription_units a) (rv_subscription_units b) w\<rparr>"

definition blend_cash ::
  "'z float_env_scheme \<Rightarrow> CashEstimate \<Rightarrow> CashEstimate \<Rightarrow> rat \<Rightarrow> CashEstimate result" where
  "blend_cash fe a b w =
     (case (cs_amount_usd b, cs_amount_usd a) of
        (None, _) \<Rightarrow> Ok a
      | (Some _, None) \<Rightarrow> Ok b
      | (Some y, Some x) \<Rightarrow>
          (let q = es_decimal fe (blend fe (es_to_float fe x) (es_to_float fe y) w);
               bounds = List.map_filter id [cs_upper_bound_usd a, cs_upper_bound_usd b];
               upper = (if bounds \<noteq> [] \<and> q \<le> Max (set bounds) then Some (Max (set bounds)) else None) in
           mk_cash_estimate (Some q) upper (cs_evidence b)))"

section \<open>Receipts of a cohort\<close>

record ObservedReceipt = ExecutionReceipt +
  ob_status :: ExecutionStatus
  ob_actual_resources :: ResourceVector
  ob_output_valid :: "bool option"
  ob_task_valid :: "bool option"
  ob_quality_score :: "rat option"

definition receipt_success :: "ObservedReceipt \<Rightarrow> bool" where
  "receipt_success r =
     (ob_status r = Exec_SUCCESS \<and> ob_output_valid r \<noteq> Some False \<and> ob_task_valid r \<noteq> Some False)"

definition observed_cash :: "ObservedReceipt \<Rightarrow> rat option" where
  "observed_cash r = actual_cash_cost (acc_cash (xr_accounting r)) ''USD''"

definition known_units :: "ObservedReceipt \<Rightarrow> rat list" where
  "known_units r =
     List.map_filter su_consumed
       (filter (\<lambda>u. me_trust (su_source u) \<in> {Trust_OBSERVED, Trust_VERIFIED, Trust_ATTESTED}
          \<and> me_source (su_source u) \<noteq> Src_PROVIDER_REPORT) (acc_subscription_usage (xr_accounting r)))"

definition eligible_resources ::
  "'z float_env_scheme \<Rightarrow> ObservedReceipt \<Rightarrow> ResourceVector \<Rightarrow> ResourceVector result" where
  "eligible_resources fe r fallback = mk_resources ((ob_actual_resources r)
     \<lparr>rv_monetary_usd := (case observed_cash r of None \<Rightarrow> rv_monetary_usd fallback | Some q \<Rightarrow> es_to_float fe q),
      rv_subscription_units := (case known_units r of [q] \<Rightarrow> es_to_float fe q | _ \<Rightarrow> rv_subscription_units fallback)\<rparr>)"

text \<open>Exponential averages over the receipts, oldest first, with \<open>alpha = 0.30\<close>.\<close>

fun average_resources ::
  "'z float_env_scheme \<Rightarrow> ObservedReceipt list \<Rightarrow> ResourceVector \<Rightarrow> ResourceVector result" where
  "average_resources fe [] v = Ok v"
| "average_resources fe (r # rs) v =
     (case eligible_resources fe r v of
        Inl e \<Rightarrow> Err e
      | Inr x \<Rightarrow>
          (case blend_resources fe v x (es_round fe (3 / 10)) of
             Inl e \<Rightarrow> Err e | Inr v' \<Rightarrow> average_resources fe rs v'))"

definition success_value :: "ObservedReceipt \<Rightarrow> rat" where
  "success_value r = (if receipt_success r then 1 else 0)"

definition success_average :: "'z float_env_scheme \<Rightarrow> ObservedReceipt list \<Rightarrow> rat" where
  "success_average fe rs =
     foldl (\<lambda>v r. blend fe v (success_value r) (es_round fe (3 / 10))) (success_value (hd rs)) (tl rs)"

text \<open>Cash is averaged in decimals, with the weights \<open>0.7\<close> and \<open>0.3\<close>.\<close>

definition average :: "rat list \<Rightarrow> rat" where
  "average xs = foldl (\<lambda>v x. v * (7 / 10) + x * (3 / 10)) (hd xs) (tl xs)"

definition quality_ratio :: "'z float_env_scheme \<Rightarrow> ObservedReceipt list \<Rightarrow> rat \<Rightarrow> rat" where
  "quality_ratio fe rs fallback =
     (let samples = List.map_filter ob_output_valid rs in
      if samples = [] then fallback
      else es_round fe (of_nat (length (filter id samples)) / of_nat (length samples)))"

definition historical_cash :: "ObservedReceipt list \<Rightarrow> CashEstimate \<Rightarrow> CashEstimate result" where
  "historical_cash rs fallback =
     (let known = List.map_filter observed_cash rs in
      if known = [] then Ok fallback
      else mk_cash_estimate (Some (average known)) None (unavailable_evidence\<lparr>me_status :=
            (if length known = length rs then Stat_COMPLETE else Stat_PARTIAL),
          me_source := Src_LOCAL_METER, me_trust := Trust_OBSERVED\<rparr>))"

definition least_success :: "'z float_env_scheme \<Rightarrow> rat" where
  "least_success fe = es_round fe (1 / 1000)"

definition recent_success :: "'z float_env_scheme \<Rightarrow> ObservedReceipt list \<Rightarrow> rat" where
  "recent_success fe rs = max (least_success fe) (min 1 (success_average fe rs))"

definition recent_risk :: "'z float_env_scheme \<Rightarrow> ObservedReceipt list \<Rightarrow> rat" where
  "recent_risk fe rs = min 1 (es_round fe (es_round fe (1 - success_average fe rs) * (1 / 2)))"

definition historical ::
  "'z float_env_scheme \<Rightarrow> ObservedReceipt list \<Rightarrow> LearnedEstimate \<Rightarrow> LearnedEstimate result" where
  "historical fe rs prior =
     (case eligible_resources fe (hd rs) (re_resources prior) of
        Inl e \<Rightarrow> Err e
      | Inr v \<Rightarrow>
          (case average_resources fe (tl rs) v of
             Inl e \<Rightarrow> Err e
           | Inr resources \<Rightarrow>
               (case historical_cash rs (re_cash prior) of
                  Inl e \<Rightarrow> Err e
                | Inr cash \<Rightarrow> mk_estimate
                    \<lparr>re_resources = resources, re_cash = cash, re_subscription_usage = re_subscription_usage prior,
                     re_success_probability = recent_success fe rs,
                     re_quality_score = max 0 (min 1 (quality_ratio fe rs (re_quality_score prior))),
                     re_risk_score = max (re_risk_score prior) (recent_risk fe rs),
                     re_confidence = min 1 (es_round fe (of_nat (length rs) / 20)), le_source = Est_HISTORICAL,
                     le_sample_size = length rs, le_uncertainty = None\<rparr>)))"

section \<open>Empirical bounds\<close>

definition nearest_rank :: "rat list \<Rightarrow> rat \<Rightarrow> rat" where
  "nearest_rank xs p = sort xs ! nat (max 0 (ceiling (p * of_nat (length xs)) - 1))"

definition percentile_count ::
  "'z float_env_scheme \<Rightarrow> ResourceVector list \<Rightarrow> rat \<Rightarrow> (ResourceVector \<Rightarrow> int) \<Rightarrow> int" where
  "percentile_count fe rs p f = round_even (nearest_rank (map (\<lambda>r. es_round fe (of_int (f r))) rs) p)"

definition resource_percentile :: "'z float_env_scheme \<Rightarrow> ResourceVector list \<Rightarrow> rat \<Rightarrow> ResourceVector result" where
  "resource_percentile fe rs p = mk_resources
     \<lparr>rv_monetary_usd = nearest_rank (map rv_monetary_usd rs) p,
      rv_latency_ms = nearest_rank (map rv_latency_ms rs) p,
      rv_cpu_ms = nearest_rank (map rv_cpu_ms rs) p,
      rv_memory_mb_seconds = nearest_rank (map rv_memory_mb_seconds rs) p,
      rv_peak_memory_mb = nearest_rank (map rv_peak_memory_mb rs) p,
      rv_gpu_ms = nearest_rank (map rv_gpu_ms rs) p,
      rv_network_bytes = percentile_count fe rs p rv_network_bytes,
      rv_context_tokens = percentile_count fe rs p rv_context_tokens,
      rv_input_tokens = percentile_count fe rs p rv_input_tokens,
      rv_cached_input_tokens = percentile_count fe rs p rv_cached_input_tokens,
      rv_cache_write_input_tokens = percentile_count fe rs p rv_cache_write_input_tokens,
      rv_output_tokens = percentile_count fe rs p rv_output_tokens,
      rv_reasoning_output_tokens = percentile_count fe rs p rv_reasoning_output_tokens,
      rv_subscription_units = nearest_rank (map rv_subscription_units rs) p\<rparr>"

definition wilson_lower_bound :: "'z float_env_scheme \<Rightarrow> nat \<Rightarrow> nat \<Rightarrow> rat" where
  "wilson_lower_bound fe successes trials =
     (let rnd = es_round fe; n = of_nat trials; z = rnd (196 / 100); zz = rnd (z * z);
          proportion = rnd (of_nat successes / n);
          denominator = rnd (1 + rnd (zz / n)); centre = rnd (proportion + rnd (zz / (2 * n)));
          margin = rnd (z * es_root fe
            (rnd (rnd (rnd (proportion * rnd (1 - proportion)) / n) + rnd (zz / (4 * n * n))))) in
      max 0 (rnd (rnd (centre - margin) / denominator)))"

definition mean :: "rat list \<Rightarrow> rat" where
  "mean xs = sum_list xs / of_nat (length xs)"

text \<open>\<open>fmean\<close> rounds the sum and the quotient; \<open>pstdev\<close> takes the root of the exact variance.\<close>

definition fmean :: "'z float_env_scheme \<Rightarrow> rat list \<Rightarrow> rat" where
  "fmean fe xs = es_round fe (es_round fe (sum_list xs) / of_nat (length xs))"

definition pstdev :: "'z float_env_scheme \<Rightarrow> rat list \<Rightarrow> rat" where
  "pstdev fe xs = es_root fe (mean (map (\<lambda>x. (x - mean xs) * (x - mean xs)) xs))"

definition observed_quality :: "ObservedReceipt \<Rightarrow> rat option" where
  "observed_quality r =
     (case ob_quality_score r of
        Some q \<Rightarrow> Some q
      | None \<Rightarrow> map_option (\<lambda>ok. if ok then 1 else 0) (ob_task_valid r))"

definition quality_bound :: "'z float_env_scheme \<Rightarrow> rat list \<Rightarrow> rat option" where
  "quality_bound fe qs =
     (if 5 \<le> length qs
      then (let margin = es_round fe (es_round fe (es_round fe (196 / 100) * pstdev fe qs)
                  / es_root fe (of_nat (length qs))) in
            Some (max 0 (min 1 (es_round fe (fmean fe qs - margin)))))
      else None)"

definition cash_p95 :: "ObservedReceipt list \<Rightarrow> rat option" where
  "cash_p95 rs =
     (let known = List.map_filter observed_cash rs in
      if length known = length rs
      then Some (sort known ! nat (ceiling (19 / 20 * of_nat (length rs) :: rat) - 1))
      else None)"

definition empirical_uncertainty ::
  "'z float_env_scheme \<Rightarrow> ObservedReceipt list \<Rightarrow> string \<Rightarrow> EstimateUncertainty option result" where
  "empirical_uncertainty fe rs cohort =
     (if length rs < 5 then Ok None
      else case resource_percentile fe (map ob_actual_resources rs) (1 / 2) of
        Inl e \<Rightarrow> Err e
      | Inr p50 \<Rightarrow>
          (case resource_percentile fe (map ob_actual_resources rs) (19 / 20) of
             Inl e \<Rightarrow> Err e
           | Inr p95 \<Rightarrow>
               (let qs = List.map_filter observed_quality rs in
                map_sum id Some (mk_uncertainty
                  \<lparr>eu_sample_size = length rs, eu_cohort_digest = cohort, eu_resources_p50 = p50,
                   eu_resources_p95 = p95, eu_cash_p95_usd = cash_p95 rs,
                   eu_success_lower_bound =
                     wilson_lower_bound fe (length (filter receipt_success rs)) (length rs),
                   eu_quality_sample_size = length qs, eu_quality_lower_bound = quality_bound fe qs\<rparr>))))"

section \<open>Shared evidence\<close>

text \<open>
  The summaries of evidence records are JSON objects. \<open>parse\<close> is the value of a string that
  denotes a finite float.
\<close>

definition json_field :: "string \<Rightarrow> json \<Rightarrow> json option" where
  "json_field k v = (case v of J_object kvs \<Rightarrow> map_of kvs k | _ \<Rightarrow> None)"

fun number_value :: "(string \<Rightarrow> rat option) \<Rightarrow> json \<Rightarrow> rat option" where
  "number_value parse (J_int n) = Some (of_int n)"
| "number_value parse (J_float q) = Some q"
| "number_value parse (J_string s) = parse s"
| "number_value parse v = None"

definition field_number :: "(string \<Rightarrow> rat option) \<Rightarrow> string \<Rightarrow> json \<Rightarrow> rat option" where
  "field_number parse k v = Option.bind (json_field k v) (number_value parse)"

definition integer_value :: "(string \<Rightarrow> rat option) \<Rightarrow> json option \<Rightarrow> nat" where
  "integer_value parse v =
     (case Option.bind v (number_value parse) of
        None \<Rightarrow> 0 | Some q \<Rightarrow> if 0 \<le> q then nat (floor q) else 0)"

definition first_some :: "'a option list \<Rightarrow> 'a option" where
  "first_some xs = Option.bind (List.find (\<lambda>x. x \<noteq> None) xs) id"

fun summary_median :: "(string \<Rightarrow> rat option) \<Rightarrow> string list \<Rightarrow> json \<Rightarrow> rat option"
  and nested_median :: "(string \<Rightarrow> rat option) \<Rightarrow> string list \<Rightarrow> (string \<times> json) list \<Rightarrow> rat option" where
  "summary_median parse ks (J_object kvs) =
     (case first_some (map (\<lambda>k. field_number parse k (J_object kvs)) ks) of
        Some q \<Rightarrow> Some q | None \<Rightarrow> nested_median parse ks kvs)"
| "summary_median parse ks v = number_value parse v"
| "nested_median parse ks [] = None"
| "nested_median parse ks ((k, v) # kvs) =
     (case summary_median parse ks v of Some q \<Rightarrow> Some q | None \<Rightarrow> nested_median parse ks kvs)"

definition median_of :: "(string \<Rightarrow> rat option) \<Rightarrow> string list \<Rightarrow> json option \<Rightarrow> rat option" where
  "median_of parse ks v = Option.bind v (summary_median parse ks)"

datatype EvidenceAcceptanceStatus =
    Acc_PENDING | Acc_ACCEPTED | Acc_ACCEPTED_AS_PRIOR | Acc_REJECTED | Acc_STALE | Acc_SUPERSEDED

record EvidenceAcceptance =
  ac_evidence_id :: string
  ac_metric :: string
  ac_status :: EvidenceAcceptanceStatus
  ac_confidence :: rat
  ac_effective_trust :: TrustLevel
  ac_evaluated_at :: datetime

record EvidenceReference =
  ev_evidence_id :: string
  ev_summary :: "json option"

record estimator_env = float_env +
  es_parse :: "string \<Rightarrow> rat option"
  es_evidence :: "EvidenceReference list"
  es_acceptances :: "EvidenceAcceptance list"
  es_behavior :: string
  es_binding :: "(string \<times> string) option"
  es_cohort :: "string option \<Rightarrow> string \<times> string"
  es_receipts :: "string \<Rightarrow> string \<Rightarrow> ObservedReceipt list"

text \<open>The latest accepted evidence of each metric, metrics in the order of their first.\<close>

definition latest_accepted :: "EvidenceAcceptance list \<Rightarrow> EvidenceAcceptance list" where
  "latest_accepted acs =
     (let accepted = filter (\<lambda>a. ac_status a \<in> {Acc_ACCEPTED, Acc_ACCEPTED_AS_PRIOR}) acs in
      List.map_filter (\<lambda>m. List.find (\<lambda>a. ac_metric a = m) (rev accepted)) (first_places (map ac_metric accepted)))"

definition summary_of :: "estimator_env \<Rightarrow> EvidenceAcceptance \<Rightarrow> json option" where
  "summary_of env a =
     Option.bind (List.find (\<lambda>e. ev_evidence_id e = ac_evidence_id a) (rev (es_evidence env))) ev_summary"

definition summary_samples :: "(string \<Rightarrow> rat option) \<Rightarrow> json \<Rightarrow> nat" where
  "summary_samples parse summary =
     (let n = integer_value parse (json_field ''sample_size'' summary) in
      if n \<noteq> 0 then n
      else (case json_field ''success'' summary of
              Some (J_object kvs) \<Rightarrow> integer_value parse (json_field ''trials'' (J_object kvs)) | _ \<Rightarrow> 0))"

definition shared_weight :: "'z float_env_scheme \<Rightarrow> EstimatorPolicy \<Rightarrow> EvidenceAcceptance \<Rightarrow> nat \<Rightarrow> rat" where
  "shared_weight fe policy a n =
     min (ep_max_shared_weight policy)
       (es_round fe (es_round fe (es_to_float fe (ac_confidence a) * of_nat n)
          / of_nat (n + ep_shared_prior_samples policy)))"

text \<open>One token count of the resources: its name, its value and its assignment.\<close>

definition token_fields ::
  "(string \<times> (ResourceVector \<Rightarrow> int) \<times> (int \<Rightarrow> ResourceVector \<Rightarrow> ResourceVector)) list" where
  "token_fields =
     [(''input_tokens'', rv_input_tokens, \<lambda>n r. r\<lparr>rv_input_tokens := n\<rparr>),
      (''cached_input_tokens'', rv_cached_input_tokens, \<lambda>n r. r\<lparr>rv_cached_input_tokens := n\<rparr>),
      (''cache_write_input_tokens'', rv_cache_write_input_tokens, \<lambda>n r. r\<lparr>rv_cache_write_input_tokens := n\<rparr>),
      (''output_tokens'', rv_output_tokens, \<lambda>n r. r\<lparr>rv_output_tokens := n\<rparr>),
      (''reasoning_output_tokens'', rv_reasoning_output_tokens, \<lambda>n r. r\<lparr>rv_reasoning_output_tokens := n\<rparr>)]"

fun share_tokens ::
  "estimator_env \<Rightarrow> json \<Rightarrow> rat
   \<Rightarrow> (string \<times> (ResourceVector \<Rightarrow> int) \<times> (int \<Rightarrow> ResourceVector \<Rightarrow> ResourceVector)) list
   \<Rightarrow> ResourceVector \<Rightarrow> ResourceVector result" where
  "share_tokens env tokens w [] r = Ok r"
| "share_tokens env tokens w ((name, field, assign) # fs) r =
     (case median_of (es_parse env) [''median''] (json_field name tokens) of
        None \<Rightarrow> share_tokens env tokens w fs r
      | Some q \<Rightarrow>
          (case mk_resources (assign (round_even (blend env (es_round env (of_int (field r))) q w)) r) of
             Inl e \<Rightarrow> Err e | Inr r' \<Rightarrow> share_tokens env tokens w fs r'))"

definition share_latency ::
  "estimator_env \<Rightarrow> json \<Rightarrow> rat \<Rightarrow> ResourceVector \<Rightarrow> ResourceVector result" where
  "share_latency env summary w r =
     (case median_of (es_parse env) [''median_ms'', ''end_to_end_ms''] (json_field ''latency'' summary) of
        None \<Rightarrow> Ok r
      | Some q \<Rightarrow> mk_resources (r\<lparr>rv_latency_ms := blend env (rv_latency_ms r) q w\<rparr>))"

definition share_correctness ::
  "estimator_env \<Rightarrow> json \<Rightarrow> rat \<Rightarrow> LearnedEstimate \<Rightarrow> LearnedEstimate" where
  "share_correctness env success w e =
     (let trials = integer_value (es_parse env) (json_field ''trials'' success);
          rate = (case field_number (es_parse env) ''success_rate'' success of
            Some q \<Rightarrow> Some q
          | None \<Rightarrow> if trials = 0 then None
                    else Some (es_round env (of_nat (integer_value (es_parse env) (json_field ''successes'' success)) / of_nat trials)));
          e1 = (case rate of None \<Rightarrow> e
                | Some q \<Rightarrow> e\<lparr>re_success_probability := min 1 (max (least_success env) (blend env (re_success_probability e) q w))\<rparr>) in
      case field_number (es_parse env) ''quality_median'' success of
        None \<Rightarrow> e1
      | Some q \<Rightarrow> e1\<lparr>re_quality_score := min 1 (max 0 (blend env (re_quality_score e1) q w))\<rparr>)"

definition cost_amount :: "(string \<Rightarrow> rat option) \<Rightarrow> json \<Rightarrow> rat option" where
  "cost_amount parse cost =
     (case median_of parse [''median'', ''actual_cash_usd''] (json_field ''actual_cash'' cost) of
        Some q \<Rightarrow> Some q | None \<Rightarrow> field_number parse ''actual_cash_usd'' cost)"

definition share_cost ::
  "estimator_env \<Rightarrow> EvidenceAcceptance \<Rightarrow> json \<Rightarrow> rat \<Rightarrow> CashEstimate \<Rightarrow> CashEstimate result" where
  "share_cost env a cost w c =
     (case cost_amount (es_parse env) cost of
        None \<Rightarrow> Ok c
      | Some q \<Rightarrow>
          if q < 0 then Ok c
          else mk_cash_estimate
            (Some (es_decimal env (blend env (es_to_float env (case cs_amount_usd c of None \<Rightarrow> 0 | Some x \<Rightarrow> x)) q w)))
            (cs_upper_bound_usd c)
            (unavailable_evidence\<lparr>me_status := Stat_COMPLETE, me_source := Src_STATIC_ESTIMATE,
               me_trust := ac_effective_trust a, me_evidence_id := Some (ac_evidence_id a),
               me_observed_at := Some (ac_evaluated_at a)\<rparr>))"

definition set_resources :: "LearnedEstimate \<Rightarrow> ResourceVector result \<Rightarrow> LearnedEstimate result" where
  "set_resources e r = (case r of Inl x \<Rightarrow> Err x | Inr v \<Rightarrow> Ok (e\<lparr>re_resources := v\<rparr>))"

definition share_metric ::
  "estimator_env \<Rightarrow> EvidenceAcceptance \<Rightarrow> json \<Rightarrow> rat \<Rightarrow> LearnedEstimate \<Rightarrow> LearnedEstimate result" where
  "share_metric env a summary w e =
     (if ac_metric a = ''latency'' then set_resources e (share_latency env summary w (re_resources e))
      else if ac_metric a = ''tokens'' then
        (case json_field ''tokens'' summary of
           Some (J_object kvs) \<Rightarrow>
             set_resources e (share_tokens env (J_object kvs) w token_fields (re_resources e))
         | _ \<Rightarrow> Ok e)
      else if ac_metric a = ''correctness'' then
        (case json_field ''success'' summary of
           Some (J_object kvs) \<Rightarrow> Ok (share_correctness env (J_object kvs) w e) | _ \<Rightarrow> Ok e)
      else if ac_metric a = ''cost'' then
        (case json_field ''cost'' summary of
           Some (J_object kvs) \<Rightarrow>
             (case share_cost env a (J_object kvs) w (re_cash e) of
                Inl x \<Rightarrow> Err x | Inr c \<Rightarrow> Ok (e\<lparr>re_cash := c\<rparr>))
         | _ \<Rightarrow> Ok e)
      else Ok e)"

text \<open>The loop over the latest acceptances, with the largest sample seen.\<close>

fun share_all ::
  "estimator_env \<Rightarrow> EstimatorPolicy \<Rightarrow> EvidenceAcceptance list \<Rightarrow> LearnedEstimate \<Rightarrow> nat
   \<Rightarrow> (LearnedEstimate \<times> nat) result" where
  "share_all env policy [] e best = Ok (e, best)"
| "share_all env policy (a # as) e best =
     (case summary_of env a of
        None \<Rightarrow> share_all env policy as e best
      | Some summary \<Rightarrow>
          (let n = summary_samples (es_parse env) summary; w = shared_weight env policy a n in
           if w \<le> 0 then share_all env policy as e (max best n)
           else (case share_metric env a summary w e of
                   Inl x \<Rightarrow> Err x
                 | Inr e' \<Rightarrow>
                     share_all env policy as
                       (e'\<lparr>re_confidence := min 1 (blend env (re_confidence e') (es_to_float env (ac_confidence a)) w)\<rparr>) (max best n))))"

definition shared_prior ::
  "estimator_env \<Rightarrow> EstimatorPolicy \<Rightarrow> LearnedEstimate \<Rightarrow> LearnedEstimate result" where
  "shared_prior env policy spec_estimate =
     (if \<not> ep_reuse_enabled policy then Ok spec_estimate
      else (let latest = latest_accepted (es_acceptances env) in
            case share_all env policy latest spec_estimate 0 of
              Inl x \<Rightarrow> Err x
            | Inr (e, best) \<Rightarrow>
                Ok (if latest = [] then e else e\<lparr>le_source := Est_BLENDED, le_sample_size := best\<rparr>)))"

section \<open>The estimate\<close>

definition history_share :: "'z float_env_scheme \<Rightarrow> EstimatorPolicy \<Rightarrow> nat \<Rightarrow> rat" where
  "history_share fe policy n =
     es_round fe (ep_history_weight policy * es_round fe (of_nat n / of_nat (n + ep_history_prior_samples policy)))"

definition blended_estimate ::
  "estimator_env \<Rightarrow> EstimatorPolicy \<Rightarrow> LearnedEstimate \<Rightarrow> LearnedEstimate \<Rightarrow> string \<Rightarrow> ObservedReceipt list
   \<Rightarrow> LearnedEstimate result" where
  "blended_estimate env policy spec_estimate base cohort rs =
     (case historical env rs base of
        Inl x \<Rightarrow> Err x
      | Inr h \<Rightarrow>
          (case empirical_uncertainty env rs cohort of
             Inl x \<Rightarrow> Err x
           | Inr uncertainty \<Rightarrow>
               (let w = history_share env policy (length rs) in
                case blend_resources env (re_resources base) (re_resources h) w of
                  Inl x \<Rightarrow> Err x
                | Inr resources \<Rightarrow>
                    (case blend_cash env (re_cash base) (re_cash h) w of
                       Inl x \<Rightarrow> Err x
                     | Inr cash \<Rightarrow> mk_estimate
                         \<lparr>re_resources = resources, re_cash = cash,
                          re_subscription_usage = (if re_subscription_usage h \<noteq> [] then re_subscription_usage h
                            else re_subscription_usage spec_estimate),
                          re_success_probability =
                            blend env (re_success_probability spec_estimate) (re_success_probability h) w,
                          re_quality_score = blend env (re_quality_score spec_estimate) (re_quality_score h) w,
                          re_risk_score = blend env (re_risk_score spec_estimate) (re_risk_score h) w,
                          re_confidence = min 1 (blend env (re_confidence base) (re_confidence h) w),
                          le_source = Est_BLENDED, le_sample_size = length rs, le_uncertainty = uncertainty\<rparr>))))"

definition cohort_receipts :: "estimator_env \<Rightarrow> string option \<Rightarrow> ObservedReceipt list" where
  "cohort_receipts env runtime =
     (case es_cohort env runtime of
        (fingerprint, cohort) \<Rightarrow>
          filter (\<lambda>r. ob_status r \<notin> {Exec_DELEGATED, Exec_HOST_SELECTED, Exec_UNKNOWN})
            (es_receipts env fingerprint cohort))"

text \<open>The runtime of a managed host, when its binding is that of the executor's behavior.\<close>

definition known_runtime :: "estimator_env \<Rightarrow> string option" where
  "known_runtime env =
     (case es_binding env of
        None \<Rightarrow> None | Some (behavior, digest) \<Rightarrow> if behavior = es_behavior env then Some digest else None)"

definition estimate ::
  "estimator_env \<Rightarrow> EstimatorPolicy \<Rightarrow> ExecutorSpec \<Rightarrow> LearnedEstimate \<Rightarrow> LearnedEstimate result" where
  "estimate env policy spec spec_estimate =
     (case shared_prior env policy spec_estimate of
        Inl x \<Rightarrow> Err x
      | Inr base \<Rightarrow>
          if ex_kind spec = Kind_MANAGED_HOST \<and> known_runtime env = None then Ok base
          else (let runtime = (if ex_kind spec = Kind_MANAGED_HOST then known_runtime env else None);
                    rs = cohort_receipts env runtime in
                if rs = [] then Ok base
                else blended_estimate env policy spec_estimate base (snd (es_cohort env runtime)) rs))"

end
