(* ===== verification/Estimator_Laws.thy ===== *)
theory Estimator_Laws
  imports Estimator
begin

text \<open>
  What the estimator guarantees: its percentiles are nearest ranks, an estimate that is built is
  valid, and building one fails only where shared evidence is mixed in or where rounding takes
  the mixed success probability below the least one.
\<close>

section \<open>Nearest ranks\<close>

lemma length_filter_sort: "length (filter p (sort xs)) = length (filter p xs)"
  by (metis mset_filter mset_sort size_mset)

lemma sorted_counts:
  assumes "sorted s" and "k < length s"
  shows "Suc k \<le> length (filter (\<lambda>x. x \<le> s ! k) s)" "length (filter (\<lambda>x. x < s ! k) s) \<le> k"
proof -
  have low: "x \<le> s ! k" if "x \<in> set (take (Suc k) s)" for x
    using that assms by (auto simp: in_set_conv_nth sorted_iff_nth_mono)
  have "length (filter (\<lambda>x. x \<le> s ! k) (take (Suc k) s)) = Suc k"
    using low assms(2) by (simp add: filter_id_conv [THEN iffD2])
  moreover have "filter (\<lambda>x. x \<le> s ! k) s
      = filter (\<lambda>x. x \<le> s ! k) (take (Suc k) s) @ filter (\<lambda>x. x \<le> s ! k) (drop (Suc k) s)"
    by (metis append_take_drop_id filter_append)
  ultimately show "Suc k \<le> length (filter (\<lambda>x. x \<le> s ! k) s)" by simp
  have high: "\<not> x < s ! k" if "x \<in> set (drop k s)" for x
    using that assms by (auto simp: in_set_conv_nth sorted_iff_nth_mono not_less)
  have "filter (\<lambda>x. x < s ! k) s = filter (\<lambda>x. x < s ! k) (take k s)"
    using high by (metis append_take_drop_id filter_append filter_False append_Nil2)
  then show "length (filter (\<lambda>x. x < s ! k) s) \<le> k"
    by (metis length_filter_le length_take min.bounded_iff)
qed

lemma rank_index:
  fixes p :: rat
  assumes "xs \<noteq> []" and "0 < p" and "p \<le> 1"
  defines "k \<equiv> nat (max 0 (ceiling (p * of_nat (length xs)) - 1))"
  shows "k < length xs" "p * of_nat (length xs) \<le> of_nat (Suc k)" "of_nat k < p * of_nat (length xs)"
proof -
  let ?n = "p * of_nat (length xs)"
  have n: "0 < ?n" "?n \<le> of_nat (length xs)"
    using assms(1-3) by (simp_all add: mult_left_le_one_le)
  then have c: "1 \<le> ceiling ?n" "ceiling ?n \<le> int (length xs)"
    by (simp_all add: ceiling_le_iff one_le_ceiling)
  then have k: "int k = ceiling ?n - 1" by (simp add: k_def)
  then show "k < length xs" using c by linarith
  have "(of_nat (Suc k) :: rat) = of_int (ceiling ?n)" using k by (metis add.commute diff_add_cancel of_int_of_nat_eq of_nat_Suc)
  then show "?n \<le> of_nat (Suc k)" by simp
  have "(of_nat k :: rat) = of_int (ceiling ?n - 1)" using k by (metis of_int_of_nat_eq)
  then show "of_nat k < ?n" using ceiling_correct [of ?n] by simp
qed

lemma nearest_rank_in: "xs \<noteq> [] \<Longrightarrow> 0 < p \<Longrightarrow> p \<le> 1 \<Longrightarrow> nearest_rank xs p \<in> set xs"
  using rank_index(1) [of xs p] nth_mem [of _ "sort xs"] by (simp add: nearest_rank_def)

text \<open>
  C23 The percentile the estimator reports is an observed value, at least that share of the
  observations is not above it, and less than that share is below it.
\<close>

theorem nearest_rank_bounds:
  assumes "xs \<noteq> []" and "0 < p" and "p \<le> 1"
  shows "nearest_rank xs p \<in> set xs
    \<and> p * of_nat (length xs) \<le> of_nat (length (filter (\<lambda>x. x \<le> nearest_rank xs p) xs))
    \<and> of_nat (length (filter (\<lambda>x. x < nearest_rank xs p) xs)) < p * of_nat (length xs)"
proof -
  let ?k = "nat (max 0 (ceiling (p * of_nat (length xs)) - 1))"
  note k = rank_index [OF assms]
  have v: "nearest_rank xs p = sort xs ! ?k" by (simp add: nearest_rank_def)
  note counts = sorted_counts [OF sorted_sort, of ?k xs, unfolded length_filter_sort length_sort, OF k(1)]
  have "(of_nat (Suc ?k) :: rat) \<le> of_nat (length (filter (\<lambda>x. x \<le> sort xs ! ?k) xs))"
    using counts(1) by (simp only: of_nat_le_iff)
  then have "p * of_nat (length xs) \<le> of_nat (length (filter (\<lambda>x. x \<le> sort xs ! ?k) xs))"
    using k(2) by (rule order_trans [rotated])
  moreover have "(of_nat (length (filter (\<lambda>x. x < sort xs ! ?k) xs)) :: rat) \<le> of_nat ?k"
    using counts(2) by (simp only: of_nat_le_iff)
  then have "of_nat (length (filter (\<lambda>x. x < sort xs ! ?k) xs)) < p * of_nat (length xs)"
    using k(3) by (rule order_le_less_trans)
  ultimately show ?thesis using nearest_rank_in [OF assms] unfolding v by blast
qed

section \<open>Float arithmetic\<close>

text \<open>
  What binary64 promises of rounding to the nearest float, ties to even: it keeps the order, 0, 1
  and every float; it errs by at most \<open>2\<^sup>-\<^sup>5\<^sup>3\<close> between 0 and 1; the next float above 1 is \<open>2\<^sup>-\<^sup>5\<^sup>2\<close>
  away, so what is nearer to 1, or halfway, rounds to at most 1. The float \<open>0.001\<close> is a little
  more than a thousandth.
\<close>

definition float_rounding :: "(rat \<Rightarrow> rat) \<Rightarrow> bool" where
  "float_rounding rnd =
     ((\<forall>p q. p \<le> q \<longrightarrow> rnd p \<le> rnd q) \<and> (\<forall>q. rnd (rnd q) = rnd q) \<and> rnd 0 = 0 \<and> rnd 1 = 1
      \<and> (\<forall>q. 0 \<le> q \<and> q \<le> 1 \<longrightarrow> rnd q \<le> q + 1 / 2 ^ 53) \<and> (\<forall>q. q \<le> 1 + 1 / 2 ^ 53 \<longrightarrow> rnd q \<le> 1)
      \<and> 1 / 1000 \<le> rnd (1 / 1000))"

definition sound_floats :: "'z float_env_scheme \<Rightarrow> bool" where
  "sound_floats fe =
     (float_rounding (es_round fe) \<and> (\<forall>q. 0 \<le> q \<longrightarrow> 0 \<le> es_to_float fe q)
      \<and> (\<forall>q. 0 \<le> q \<longrightarrow> 0 \<le> es_decimal fe q) \<and> (\<forall>q. 0 \<le> q \<longrightarrow> 0 \<le> es_root fe q))"

lemma rounding_mono: "float_rounding rnd \<Longrightarrow> p \<le> q \<Longrightarrow> rnd p \<le> rnd q"
  and rounding_idem: "float_rounding rnd \<Longrightarrow> rnd (rnd q) = rnd q"
  by (simp_all add: float_rounding_def)

lemma rounding_nonneg: "float_rounding rnd \<Longrightarrow> 0 \<le> q \<Longrightarrow> 0 \<le> rnd q"
  using rounding_mono [of rnd 0 q] by (simp add: float_rounding_def)

lemma rounding_le_1: "float_rounding rnd \<Longrightarrow> q \<le> 1 \<Longrightarrow> rnd q \<le> 1"
  using rounding_mono [of rnd q 1] by (simp add: float_rounding_def)

lemma rounding_unit: "float_rounding rnd \<Longrightarrow> unit_interval q \<Longrightarrow> unit_interval (rnd q)"
  by (simp add: unit_interval_def rounding_nonneg rounding_le_1)

lemma rounding_error: "float_rounding rnd \<Longrightarrow> 0 \<le> q \<Longrightarrow> q \<le> 1 \<Longrightarrow> rnd q \<le> q + 1 / 2 ^ 53"
  and rounding_near_1: "float_rounding rnd \<Longrightarrow> q \<le> 1 + 1 / 2 ^ 53 \<Longrightarrow> rnd q \<le> 1"
  unfolding float_rounding_def by blast+

lemma floatsD:
  assumes "sound_floats fe"
  shows "float_rounding (es_round fe)" "0 \<le> q \<Longrightarrow> 0 \<le> es_to_float fe q"
    "0 \<le> q \<Longrightarrow> 0 \<le> es_decimal fe q" "0 \<le> q \<Longrightarrow> 0 \<le> es_root fe q"
  using assms by (simp_all add: sound_floats_def)

lemma least_success_bounds:
  "sound_floats fe \<Longrightarrow> 1 / 1000 \<le> least_success fe" "sound_floats fe \<Longrightarrow> least_success fe \<le> 1"
  using floatsD(1) [of fe] rounding_le_1 [of "es_round fe" "1 / 1000"]
  by (simp_all add: least_success_def float_rounding_def)

section \<open>Blends stay in range\<close>

text \<open>A weight is a float between 0 and 1.\<close>

definition weight_ok :: "'z float_env_scheme \<Rightarrow> rat \<Rightarrow> bool" where
  "weight_ok fe w = (unit_interval w \<and> es_round fe w = w)"

lemma weight_complement: "sound_floats fe \<Longrightarrow> unit_interval w \<Longrightarrow> unit_interval (es_round fe (1 - w))"
  by (rule rounding_unit [OF floatsD(1)]) (simp_all add: unit_interval_def)

lemma blend_nonneg: "sound_floats fe \<Longrightarrow> 0 \<le> a \<Longrightarrow> 0 \<le> b \<Longrightarrow> unit_interval w \<Longrightarrow> 0 \<le> blend fe a b w"
proof -
  assume fe: "sound_floats fe" and ab: "0 \<le> a" "0 \<le> b" and w: "unit_interval w"
  note nonneg = rounding_nonneg [OF floatsD(1) [OF fe]]
  have "0 \<le> a * es_round fe (1 - w)" "0 \<le> b * w"
    using ab w weight_complement [OF fe w] by (simp_all add: unit_interval_def)
  then show "0 \<le> blend fe a b w" unfolding blend_def by (simp add: nonneg)
qed

lemma blend_le_1:
  assumes fe: "sound_floats fe" and "a \<le> 1" "b \<le> 1" and w: "weight_ok fe w"
  shows "blend fe a b w \<le> 1"
proof -
  let ?rnd = "es_round fe"
  note laws = floatsD(1) [OF fe]
  have w: "0 \<le> w" "w \<le> 1" "?rnd w = w" using w by (simp_all add: weight_ok_def unit_interval_def)
  have c: "unit_interval (?rnd (1 - w))"
    using weight_complement [OF fe] w by (simp add: unit_interval_def)
  have "a * ?rnd (1 - w) \<le> ?rnd (1 - w)" "b * w \<le> w"
    using c w assms(2,3) mult_right_mono [of a 1 "?rnd (1 - w)"] mult_right_mono [of b 1 w]
    by (simp_all add: unit_interval_def)
  then have "?rnd (a * ?rnd (1 - w)) \<le> ?rnd (1 - w)" "?rnd (b * w) \<le> w"
    using rounding_mono [OF laws] rounding_idem [OF laws] w(3) by metis+
  moreover have "?rnd (1 - w) \<le> 1 - w + 1 / 2 ^ 53"
    using w(1,2) by (intro rounding_error [OF laws]) simp_all
  ultimately have "?rnd (a * ?rnd (1 - w)) + ?rnd (b * w) \<le> 1 + 1 / 2 ^ 53" by linarith
  then show ?thesis unfolding blend_def by (rule rounding_near_1 [OF laws])
qed

lemma blend_unit:
  "sound_floats fe \<Longrightarrow> unit_interval a \<Longrightarrow> unit_interval b \<Longrightarrow> weight_ok fe w \<Longrightarrow> unit_interval (blend fe a b w)"
  using blend_nonneg [of fe a b w] blend_le_1 [of fe a b w] by (simp add: unit_interval_def weight_ok_def)

lemma alpha_ok: "sound_floats fe \<Longrightarrow> weight_ok fe (es_round fe (3 / 10))"
  using rounding_unit [OF floatsD(1), of fe "3 / 10"] rounding_idem [OF floatsD(1), of fe]
  by (simp add: weight_ok_def unit_interval_def)

lemma min_unit: "unit_interval q \<Longrightarrow> unit_interval (min 1 q)"
  by (simp add: unit_interval_def)

lemma round_even_nonneg: "0 \<le> q \<Longrightarrow> 0 \<le> round_even q"
  by (simp add: round_even_def Let_def)

lemma blend_count_nonneg:
  "sound_floats fe \<Longrightarrow> 0 \<le> a \<Longrightarrow> 0 \<le> b \<Longrightarrow> unit_interval w \<Longrightarrow> 0 \<le> blend_count fe a b w"
  by (simp add: blend_count_def round_even_nonneg blend_nonneg rounding_nonneg floatsD)

lemma mk_resources_iff: "mk_resources r = Inr v \<longleftrightarrow> resources_ok r \<and> v = r"
  by (auto simp: mk_resources_def)

lemma blend_resources_ok:
  assumes "sound_floats fe" and "resources_ok a" and "resources_ok b" and "unit_interval w"
  shows "\<exists>v. blend_resources fe a b w = Inr v \<and> resources_ok v"
  using assms by (simp add: blend_resources_def mk_resources_iff) (simp add: resources_ok_def blend_nonneg blend_count_nonneg)

lemma mk_cash_estimate_iff:
  "mk_cash_estimate q u m = Inr c \<longleftrightarrow>
     c = \<lparr>cs_amount_usd = q, cs_upper_bound_usd = u, cs_evidence = m\<rparr> \<and> is_ok (validate_cash_estimate c)"
  by (auto simp: mk_cash_estimate_def Let_def is_ok_iff split: sum.splits)

lemma valid_cash:
  "is_ok (validate_cash_estimate c) \<longleftrightarrow>
     opt_all (\<lambda>q. 0 \<le> q) (cs_amount_usd c) \<and> opt_all (\<lambda>q. 0 \<le> q) (cs_upper_bound_usd c)
     \<and> (cs_amount_usd c \<noteq> None \<or> cs_upper_bound_usd c \<noteq> None \<longrightarrow> me_status (cs_evidence c) \<noteq> Stat_UNAVAILABLE)
     \<and> (\<forall>q u. cs_amount_usd c = Some q \<and> cs_upper_bound_usd c = Some u \<longrightarrow> q \<le> u)"
  by (cases "cs_amount_usd c"; cases "cs_upper_bound_usd c")
    (auto simp: validate_cash_estimate_def first_error_iff)

lemma blend_cash_ok:
  assumes "is_ok (validate_cash_estimate a)" and "is_ok (validate_cash_estimate b)" and "unit_interval w"
    and fe: "sound_floats fe"
  shows "\<exists>c. blend_cash fe a b w = Inr c \<and> is_ok (validate_cash_estimate c)"
proof (cases "cs_amount_usd b = None \<or> cs_amount_usd a = None")
  case True
  then show ?thesis using assms(1,2) by (auto simp: blend_cash_def split: option.splits)
next
  case False
  then obtain x y where xy: "cs_amount_usd a = Some x" "cs_amount_usd b = Some y" by auto
  let ?q = "es_decimal fe (blend fe (es_to_float fe x) (es_to_float fe y) w)"
  let ?bounds = "List.map_filter id [cs_upper_bound_usd a, cs_upper_bound_usd b]"
  let ?u = "if ?bounds \<noteq> [] \<and> ?q \<le> Max (set ?bounds) then Some (Max (set ?bounds)) else None"
  let ?c = "\<lparr>cs_amount_usd = Some ?q, cs_upper_bound_usd = ?u, cs_evidence = cs_evidence b\<rparr>"
  have "0 \<le> x" "0 \<le> y" "me_status (cs_evidence b) \<noteq> Stat_UNAVAILABLE"
    using assms(1,2) xy by (simp_all add: valid_cash)
  then have q: "0 \<le> ?q" using assms(3) by (simp add: blend_nonneg floatsD [OF fe] fe)
  then have "is_ok (validate_cash_estimate ?c)"
    using \<open>me_status (cs_evidence b) \<noteq> Stat_UNAVAILABLE\<close>
    by (subst valid_cash) (auto intro: order_trans split: if_splits)
  moreover have "blend_cash fe a b w = mk_cash_estimate (Some ?q) ?u (cs_evidence b)"
    by (simp add: blend_cash_def Let_def xy)
  ultimately have "blend_cash fe a b w = Inr ?c"
    by (simp only: mk_cash_estimate_iff simp_thms)
  with \<open>is_ok (validate_cash_estimate ?c)\<close> show ?thesis by blast
qed

section \<open>What receipts contribute\<close>

text \<open>What the validation of a stored receipt has established.\<close>

definition receipt_valid :: "ObservedReceipt \<Rightarrow> bool" where
  "receipt_valid r =
     (resources_ok (ob_actual_resources r) \<and> list_all usage_ok (acc_subscription_usage (xr_accounting r))
      \<and> list_all (\<lambda>c. opt_all (\<lambda>q. 0 \<le> q) (ce_amount c)) (ca_components (acc_cash (xr_accounting r)))
      \<and> opt_all unit_interval (ob_quality_score r))"

lemma resolved_subset: "set (resolved_components a) \<subseteq> set (ca_components a)"
proof
  fix c assume "c \<in> set (resolved_components a)"
  then obtain i where i: "c = hd (charge_choices (ca_components a) i)"
      "card (claims (charge_choices (ca_components a) i)) = 1"
    by (auto simp: resolved_components_def)
  then have "charge_choices (ca_components a) i \<noteq> []" by (auto simp: claims_def)
  then have "c \<in> set (charge_choices (ca_components a) i)" using i(1) by simp
  then show "c \<in> set (ca_components a)"
    by (auto simp: charge_choices_def strongest_cash_evidence_def Let_def split: if_splits)
qed

lemma observed_cash_nonneg:
  assumes "receipt_valid r" and "observed_cash r = Some q"
  shows "0 \<le> q"
proof -
  let ?a = "acc_cash (xr_accounting r)"
  have "q = sum_list (map amount_or_zero (resolved_components ?a))"
    using assms(2) by (simp add: observed_cash_def actual_cash_cost_def Let_def split: if_splits)
  moreover have "0 \<le> amount_or_zero c" if "c \<in> set (resolved_components ?a)" for c
  proof -
    have "opt_all (\<lambda>q. 0 \<le> q) (ce_amount c)"
      using assms(1) subsetD [OF resolved_subset that] by (simp add: receipt_valid_def list_all_iff)
    then show ?thesis by (cases "ce_amount c") (simp_all add: amount_or_zero_def)
  qed
  ultimately show ?thesis by (auto intro!: sum_list_nonneg)
qed

lemma known_units_nonneg: "receipt_valid r \<Longrightarrow> q \<in> set (known_units r) \<Longrightarrow> 0 \<le> q"
  by (auto simp: known_units_def List.map_filter_def receipt_valid_def list_all_iff usage_ok_def)

lemma eligible_ok:
  assumes "receipt_valid r" and "resources_ok v" and fe: "sound_floats fe"
  shows "\<exists>x. eligible_resources fe r v = Inr x \<and> resources_ok x"
proof -
  let ?m = "case observed_cash r of None \<Rightarrow> rv_monetary_usd v | Some q \<Rightarrow> es_to_float fe q"
  let ?u = "case known_units r of [q] \<Rightarrow> es_to_float fe q | _ \<Rightarrow> rv_subscription_units v"
  have "0 \<le> ?m" using assms(2) floatsD(2) [OF fe] observed_cash_nonneg [OF assms(1)]
    by (auto simp: resources_ok_def split: option.splits)
  moreover have "0 \<le> ?u" using assms(2) floatsD(2) [OF fe] known_units_nonneg [OF assms(1)]
    by (auto simp: resources_ok_def split: list.splits)
  moreover have "resources_ok (ob_actual_resources r)" using assms(1) by (simp add: receipt_valid_def)
  ultimately show ?thesis
    by (simp add: eligible_resources_def mk_resources_iff) (simp add: resources_ok_def)
qed

lemma average_resources_ok:
  assumes fe: "sound_floats fe"
  shows "list_all receipt_valid rs \<Longrightarrow> resources_ok v \<Longrightarrow>
    \<exists>x. average_resources fe rs v = Inr x \<and> resources_ok x"
proof (induction rs arbitrary: v)
  case (Cons r rs)
  obtain x where x: "eligible_resources fe r v = Inr x" "resources_ok x"
    using eligible_ok [of r v fe] Cons.prems fe by auto
  obtain y where y: "blend_resources fe v x (es_round fe (3 / 10)) = Inr y" "resources_ok y"
    using blend_resources_ok [OF fe Cons.prems(2) x(2)] alpha_ok [OF fe] by (auto simp: weight_ok_def)
  show ?case using Cons.IH [OF _ y(2)] Cons.prems(1) x(1) y(1) by simp
qed simp

lemma success_average_nonneg:
  assumes fe: "sound_floats fe"
  shows "0 \<le> success_average fe rs"
proof -
  have each: "0 \<le> success_value r" for r by (simp add: success_value_def)
  have "0 \<le> v \<Longrightarrow> 0 \<le> foldl (\<lambda>v r. blend fe v (success_value r) (es_round fe (3 / 10))) v rs" for v rs
    using each alpha_ok [OF fe] by (induction rs arbitrary: v) (simp_all add: blend_nonneg fe weight_ok_def)
  then show ?thesis using each by (simp add: success_average_def)
qed

lemma average_range:
  assumes "xs \<noteq> []" and "\<And>x. x \<in> set xs \<Longrightarrow> a \<le> x" and "\<And>x. x \<in> set xs \<Longrightarrow> x \<le> b"
  shows "a \<le> average xs \<and> average xs \<le> b"
proof -
  have "a \<le> v \<Longrightarrow> v \<le> b \<Longrightarrow> (\<forall>y \<in> set ys. a \<le> y \<and> y \<le> b) \<Longrightarrow>
      a \<le> foldl (\<lambda>v x. v * (7 / 10) + x * (3 / 10)) v ys \<and> foldl (\<lambda>v x. v * (7 / 10) + x * (3 / 10)) v ys \<le> b"
    for v ys
    by (induction ys arbitrary: v) auto
  then show ?thesis using assms by (cases xs) (auto simp: average_def)
qed

lemma historical_cash_ok:
  assumes "list_all receipt_valid rs" and "is_ok (validate_cash_estimate c)"
  shows "\<exists>d. historical_cash rs c = Inr d \<and> is_ok (validate_cash_estimate d)"
proof (cases "List.map_filter observed_cash rs = []")
  case False
  have "0 \<le> x" if "x \<in> set (List.map_filter observed_cash rs)" for x
    using that assms(1) observed_cash_nonneg by (auto simp: List.map_filter_def list_all_iff)
  then obtain q where q: "average (List.map_filter observed_cash rs) = q" "0 \<le> q"
    using average_range [OF False, of 0 "Max (set (List.map_filter observed_cash rs))"] by simp
  show ?thesis
    using False by (simp add: historical_cash_def Let_def mk_cash_estimate_iff valid_cash q unavailable_evidence_def)
qed (simp add: historical_cash_def assms(2))

section \<open>The parts of an estimate are valid\<close>

abbreviation valid_estimate :: "LearnedEstimate \<Rightarrow> bool" where
  "valid_estimate e \<equiv> estimate_ok (RouteEstimate.truncate e)"

lemma valid_estimate_iff:
  "valid_estimate e \<longleftrightarrow>
     resources_ok (re_resources e) \<and> is_ok (validate_cash_estimate (re_cash e))
     \<and> list_all usage_ok (re_subscription_usage e)
     \<and> 1 / 1000 \<le> re_success_probability e \<and> re_success_probability e \<le> 1
     \<and> unit_interval (re_quality_score e) \<and> unit_interval (re_risk_score e) \<and> unit_interval (re_confidence e)"
  by (auto simp: estimate_ok_def RouteEstimate.truncate_def unit_interval_def)

lemma mk_estimate_iff: "mk_estimate e = Inr d \<longleftrightarrow> valid_estimate e \<and> d = e"
  by (auto simp: mk_estimate_def)

lemma historical_ok:
  assumes "rs \<noteq> []" and "list_all receipt_valid rs" and prior: "valid_estimate prior"
    and fe: "sound_floats fe"
  shows "\<exists>h. historical fe rs prior = Inr h \<and> valid_estimate h"
proof -
  have hd_tl: "receipt_valid (hd rs)" "list_all receipt_valid (tl rs)"
    using assms(1,2) by (cases rs; simp)+
  obtain v where v: "eligible_resources fe (hd rs) (re_resources prior) = Inr v" "resources_ok v"
    using eligible_ok [OF hd_tl(1) _ fe] prior by (auto simp: valid_estimate_iff)
  obtain x where x: "average_resources fe (tl rs) v = Inr x" "resources_ok x"
    using average_resources_ok [OF fe hd_tl(2) v(2)] by blast
  obtain c where c: "historical_cash rs (re_cash prior) = Inr c" "is_ok (validate_cash_estimate c)"
    using historical_cash_ok [OF assms(2)] prior by (auto simp: valid_estimate_iff)
  have success: "1 / 1000 \<le> recent_success fe rs" "recent_success fe rs \<le> 1"
    using least_success_bounds [OF fe] by (auto simp: recent_success_def le_max_iff_disj)
  have risk: "recent_risk fe rs \<le> 1" by (simp add: recent_risk_def)
  have "0 \<le> es_round fe (of_nat (length rs) / 20)"
    by (simp add: rounding_nonneg floatsD [OF fe])
  then show ?thesis
    using prior x(2) c(2) success risk
    by (simp add: historical_def v(1) x(1) c(1) mk_estimate_iff valid_estimate_iff)
      (simp add: unit_interval_def le_max_iff_disj)
qed

lemma percentile_ok:
  assumes "rs \<noteq> []" and "\<forall>r \<in> set rs. resources_ok r" and "0 < p" and "p \<le> 1" and fe: "sound_floats fe"
  shows "is_ok (resource_percentile fe rs p)"
proof -
  have rat: "0 \<le> nearest_rank (map f rs) p" if "\<And>r. r \<in> set rs \<Longrightarrow> 0 \<le> f r" for f
    using nearest_rank_in [of "map f rs" p] assms that by auto
  have int: "0 \<le> percentile_count fe rs p f" if "\<And>r. r \<in> set rs \<Longrightarrow> 0 \<le> f r" for f
    using rat [of "\<lambda>r. es_round fe (of_int (f r))"] that
    by (simp add: percentile_count_def round_even_nonneg rounding_nonneg floatsD [OF fe])
  show ?thesis
    using assms(2) by (auto simp: resource_percentile_def mk_resources_def resources_ok_def intro!: rat int)
qed

lemma wilson_unit:
  assumes "successes \<le> trials" and "0 < trials" and fe: "sound_floats fe"
  shows "unit_interval (wilson_lower_bound fe successes trials)"
proof -
  note laws = floatsD(1) [OF fe]
  note nonneg = rounding_nonneg [OF laws] and mono = rounding_mono [OF laws]
  define n :: rat where "n = of_nat trials"
  define z where "z = es_round fe (196 / 100)"
  define zz where "zz = es_round fe (z * z)"
  define p where "p = es_round fe (of_nat successes / n)"
  define denominator where "denominator = es_round fe (1 + es_round fe (zz / n))"
  define centre where "centre = es_round fe (p + es_round fe (zz / (2 * n)))"
  define margin where "margin = es_round fe (z * es_root fe
    (es_round fe (es_round fe (es_round fe (p * es_round fe (1 - p)) / n) + es_round fe (zz / (4 * n * n)))))"
  have n: "0 < n" using assms(2) by (simp add: n_def)
  have z: "0 \<le> z" "0 \<le> zz" by (simp_all add: z_def zz_def nonneg)
  have p: "0 \<le> p" "p \<le> 1"
    using assms(1) n by (simp_all add: p_def nonneg rounding_le_1 [OF laws] n_def divide_le_eq)
  have "0 \<le> es_round fe (1 - p)" using p by (intro nonneg) simp
  then have "0 \<le> margin"
    unfolding margin_def using n z p by (intro nonneg mult_nonneg_nonneg floatsD(4) [OF fe] add_nonneg_nonneg divide_nonneg_nonneg) simp_all
  then have "es_round fe (centre - margin) \<le> es_round fe centre" by (intro mono) simp
  also have "\<dots> = centre" by (simp add: centre_def rounding_idem [OF laws])
  also have "centre \<le> denominator"
  proof -
    have "zz / (2 * n) \<le> zz / n" using n z by (simp add: field_simps)
    then have "es_round fe (zz / (2 * n)) \<le> es_round fe (zz / n)" by (rule mono)
    then show ?thesis unfolding centre_def denominator_def using p(2) by (intro mono [OF add_mono])
  qed
  finally have low: "es_round fe (centre - margin) \<le> denominator" .
  have "es_round fe 1 \<le> denominator"
    unfolding denominator_def using n z by (intro mono) (simp add: nonneg)
  then have "1 \<le> denominator" using laws by (simp add: float_rounding_def)
  then have "es_round fe (es_round fe (centre - margin) / denominator) \<le> 1"
    using low by (intro rounding_le_1 [OF laws]) (simp add: divide_le_eq)
  moreover have "wilson_lower_bound fe successes trials
      = max 0 (es_round fe (es_round fe (centre - margin) / denominator))"
    unfolding wilson_lower_bound_def Let_def margin_def centre_def denominator_def p_def zz_def z_def n_def
    by (rule refl)
  ultimately show ?thesis by (simp add: unit_interval_def)
qed

lemma cash_p95_nonneg:
  assumes "list_all receipt_valid rs" and "rs \<noteq> []"
  shows "opt_all (\<lambda>q. 0 \<le> q) (cash_p95 rs)"
proof (cases "length (List.map_filter observed_cash rs) = length rs")
  case True
  let ?k = "List.map_filter observed_cash rs"
  have k: "?k \<noteq> []" using True assms(2) by auto
  have max_zero: "nat (max 0 i) = nat i" for i :: int by simp
  have "nearest_rank ?k (19 / 20) = sort ?k ! nat (ceiling (19 / 20 * of_nat (length rs) :: rat) - 1)"
    using True max_zero by (simp add: nearest_rank_def)
  moreover have "nearest_rank ?k (19 / 20) \<in> set ?k" using nearest_rank_in [OF k, of "19 / 20"] by simp
  moreover have "\<forall>q \<in> set ?k. 0 \<le> q"
    using assms(1) observed_cash_nonneg by (auto simp: List.map_filter_def list_all_iff)
  ultimately show ?thesis using True by (auto simp: cash_p95_def Let_def)
qed (simp add: cash_p95_def)

lemma uncertainty_ok:
  assumes "list_all receipt_valid rs" and "sha256_digest cohort" and fe: "sound_floats fe"
  shows "is_ok (empirical_uncertainty fe rs cohort)"
proof (cases "length rs < 5")
  case False
  then have rs: "rs \<noteq> []" by auto
  have res: "map ob_actual_resources rs \<noteq> []" "\<forall>r \<in> set (map ob_actual_resources rs). resources_ok r"
    using rs assms(1) by (auto simp: list_all_iff receipt_valid_def)
  obtain p50 p95 where p: "resource_percentile fe (map ob_actual_resources rs) (1 / 2) = Inr p50"
      "resource_percentile fe (map ob_actual_resources rs) (19 / 20) = Inr p95"
    using percentile_ok [OF res _ _ fe, of "1 / 2"] percentile_ok [OF res _ _ fe, of "19 / 20"] by (auto simp: is_ok_iff)
  have "unit_interval (wilson_lower_bound fe (length (filter receipt_success rs)) (length rs))"
    using rs fe by (intro wilson_unit) auto
  then show ?thesis
    using False assms(2) cash_p95_nonneg [OF assms(1) rs]
    by (simp add: empirical_uncertainty_def p Let_def mk_uncertainty_def quality_bound_def unit_interval_def)
qed (simp add: empirical_uncertainty_def)

section \<open>Shared evidence keeps an estimate valid\<close>

definition policy_sane :: "EstimatorPolicy \<Rightarrow> bool" where
  "policy_sane policy =
     (unit_interval (ep_history_weight policy) \<and> 1 \<le> ep_history_prior_samples policy
      \<and> unit_interval (ep_max_shared_weight policy) \<and> 1 \<le> ep_shared_prior_samples policy)"

lemma share_tokens_ok:
  "share_tokens env tokens w fs r = Inr r' \<Longrightarrow> resources_ok r \<Longrightarrow> resources_ok r'"
  by (induction env tokens w fs r rule: share_tokens.induct)
    (auto simp: mk_resources_iff split: option.splits sum.splits)

lemma share_correctness_ok:
  assumes "sound_floats env" and "valid_estimate e"
  shows "valid_estimate (share_correctness env v w e)"
proof -
  have rate: "valid_estimate (e\<lparr>re_success_probability := min 1 (max (least_success env) q)\<rparr>)" for q
    using assms(2) least_success_bounds(1) [OF assms(1)] by (auto simp: valid_estimate_iff le_max_iff_disj)
  have quality: "valid_estimate (d\<lparr>re_quality_score := min 1 (max 0 q)\<rparr>)" if "valid_estimate d" for d q
    using that by (simp add: valid_estimate_iff unit_interval_def)
  show ?thesis
    using rate quality assms(2) by (simp add: share_correctness_def Let_def split: option.split)
qed

lemma share_metric_ok:
  assumes "share_metric env a summary w e = Inr e'" and "valid_estimate e" and fe: "sound_floats env"
  shows "valid_estimate e' \<and> re_confidence e' = re_confidence e"
proof -
  have res: "valid_estimate (e\<lparr>re_resources := v\<rparr>)" if "resources_ok v" for v
    using assms(2) that by (simp add: valid_estimate_iff)
  have cash: "valid_estimate (e\<lparr>re_cash := c\<rparr>)" if "is_ok (validate_cash_estimate c)" for c
    using assms(2) that by (simp add: valid_estimate_iff)
  have conf: "re_confidence (share_correctness env v w e) = re_confidence e" for v
    by (simp add: share_correctness_def Let_def split: option.splits)
  have ok: "resources_ok (re_resources e)" "is_ok (validate_cash_estimate (re_cash e))"
    using assms(2) by (simp_all add: valid_estimate_iff)
  have latency: "resources_ok v" if "share_latency env summary w (re_resources e) = Inr v" for v
    using that ok(1) by (auto simp: share_latency_def mk_resources_iff split: option.splits)
  have cost: "is_ok (validate_cash_estimate c)" if "share_cost env a v w (re_cash e) = Inr c" for c v
    using that ok(2) by (auto simp: share_cost_def mk_cash_estimate_iff split: option.splits if_splits)
  show ?thesis
    using assms res cash conf latency cost share_correctness_ok [OF fe assms(2)] share_tokens_ok [OF _ ok(1)]
    by (auto simp: share_metric_def set_resources_def split: if_splits option.splits json.splits sum.splits)
qed

lemma shared_weight_unit:
  "policy_sane policy \<Longrightarrow> 0 < shared_weight fe policy a n \<Longrightarrow> unit_interval (shared_weight fe policy a n)"
  by (simp add: shared_weight_def policy_sane_def unit_interval_def min_le_iff_disj)

lemma share_all_ok:
  "share_all env policy as e best = Inr (e', m) \<Longrightarrow> policy_sane policy \<Longrightarrow> sound_floats env \<Longrightarrow>
     \<forall>a \<in> set as. unit_interval (ac_confidence a) \<Longrightarrow> valid_estimate e \<Longrightarrow> valid_estimate e'"
proof (induction as arbitrary: e best)
  case (Cons a as)
  show ?case
  proof (cases "summary_of env a")
    case None
    then show ?thesis using Cons by simp
  next
    case (Some summary)
    let ?n = "summary_samples (es_parse env) summary"
    let ?w = "shared_weight env policy a ?n"
    show ?thesis
    proof (cases "?w \<le> 0")
      case True
      then show ?thesis using Cons Some by (simp add: Let_def)
    next
      case False
      then obtain d where d: "share_metric env a summary ?w e = Inr d"
        using Cons.prems(1) Some by (auto simp: Let_def split: sum.splits)
      let ?d = "d\<lparr>re_confidence := min 1 (blend env (re_confidence d) (es_to_float env (ac_confidence a)) ?w)\<rparr>"
      have valid: "valid_estimate d" using share_metric_ok [OF d Cons.prems(5,3)] by simp
      have "unit_interval ?w" using False by (intro shared_weight_unit [OF Cons.prems(2)]) simp
      then have "0 \<le> blend env (re_confidence d) (es_to_float env (ac_confidence a)) ?w"
        using valid Cons.prems(3,4)
        by (intro blend_nonneg) (simp_all add: valid_estimate_iff unit_interval_def floatsD)
      then have "valid_estimate ?d" using valid by (simp add: valid_estimate_iff unit_interval_def)
      then show ?thesis
        using Cons.IH [of ?d "max best ?n"] Cons.prems(1-4) Some False d by (simp add: Let_def)
    qed
  qed
qed simp

lemma find_in: "List.find p xs = Some x \<Longrightarrow> x \<in> set xs"
  by (induction xs) (auto split: if_splits)

lemma latest_accepted_subset: "set (latest_accepted acs) \<subseteq> set acs"
proof
  fix a assume "a \<in> set (latest_accepted acs)"
  then obtain m where "List.find (\<lambda>a. ac_metric a = m)
      (rev (filter (\<lambda>a. ac_status a \<in> {Acc_ACCEPTED, Acc_ACCEPTED_AS_PRIOR}) acs)) = Some a"
    by (auto simp: latest_accepted_def Let_def List.map_filter_def)
  then show "a \<in> set acs" by (auto dest: find_in)
qed

lemma shared_prior_ok:
  assumes "shared_prior env policy se = Inr base" and "policy_sane policy" and "valid_estimate se"
    and "\<forall>a \<in> set (es_acceptances env). unit_interval (ac_confidence a)"
    and "sound_floats env"
  shows "valid_estimate base"
proof (cases "ep_reuse_enabled policy")
  case True
  let ?l = "latest_accepted (es_acceptances env)"
  obtain e m where e: "share_all env policy ?l se 0 = Inr (e, m)"
      "base = (if ?l = [] then e else e\<lparr>le_source := Est_BLENDED, le_sample_size := m\<rparr>)"
    using assms(1) True by (auto simp: shared_prior_def Let_def split: sum.splits)
  have "\<forall>a \<in> set ?l. unit_interval (ac_confidence a)"
    using assms(4) latest_accepted_subset by blast
  then have "valid_estimate e" using share_all_ok [OF e(1) assms(2,5) _ assms(3)] by blast
  then show ?thesis using e(2) by (simp add: valid_estimate_iff)
qed (use assms in \<open>simp add: shared_prior_def\<close>)

section \<open>Where an estimate fails\<close>

lemma history_share_ok:
  assumes "policy_sane policy" and fe: "sound_floats fe"
  shows "weight_ok fe (history_share fe policy n)"
proof -
  note laws = floatsD(1) [OF fe]
  have "unit_interval (of_nat n / of_nat (n + ep_history_prior_samples policy))"
    using assms(1) by (simp add: policy_sane_def divide_le_eq unit_interval_def)
  then have "unit_interval (es_round fe (of_nat n / of_nat (n + ep_history_prior_samples policy)))"
    by (rule rounding_unit [OF laws])
  then have "unit_interval (ep_history_weight policy * es_round fe (of_nat n / of_nat (n + ep_history_prior_samples policy)))"
    using assms(1) by (auto simp: policy_sane_def unit_interval_def intro: mult_le_one)
  then show ?thesis
    by (simp add: weight_ok_def history_share_def rounding_unit [OF laws] rounding_idem [OF laws])
qed

lemma historical_success: "historical fe rs prior = Inr h \<Longrightarrow> re_success_probability h = recent_success fe rs"
  by (auto simp: historical_def mk_estimate_iff split: sum.splits)

definition mixed_success :: "'z float_env_scheme \<Rightarrow> EstimatorPolicy \<Rightarrow> LearnedEstimate \<Rightarrow> ObservedReceipt list \<Rightarrow> rat" where
  "mixed_success fe policy se rs =
     blend fe (re_success_probability se) (recent_success fe rs) (history_share fe policy (length rs))"

lemma blended_ok:
  assumes "rs \<noteq> []" and "list_all receipt_valid rs" and base: "valid_estimate base" and se: "valid_estimate se"
    and "policy_sane policy" and "sha256_digest cohort" and fe: "sound_floats env"
  shows "is_ok (blended_estimate env policy se base cohort rs) \<longleftrightarrow> 1 / 1000 \<le> mixed_success env policy se rs"
proof -
  let ?w = "history_share env policy (length rs)"
  have w: "weight_ok env ?w" by (rule history_share_ok [OF assms(5) fe])
  then have unit: "unit_interval ?w" by (simp add: weight_ok_def)
  obtain h where h: "historical env rs base = Inr h" "valid_estimate h"
    using historical_ok [OF assms(1,2) base fe] by blast
  obtain u where u: "empirical_uncertainty env rs cohort = Inr u"
    using uncertainty_ok [OF assms(2,6) fe] by (auto simp: is_ok_iff)
  obtain v where v: "blend_resources env (re_resources base) (re_resources h) ?w = Inr v" "resources_ok v"
    using blend_resources_ok [OF fe _ _ unit, of "re_resources base" "re_resources h"] base h(2)
    by (auto simp: valid_estimate_iff)
  obtain c where c: "blend_cash env (re_cash base) (re_cash h) ?w = Inr c" "is_ok (validate_cash_estimate c)"
    using blend_cash_ok [OF _ _ unit fe, of "re_cash base" "re_cash h"] base h(2) by (auto simp: valid_estimate_iff)
  have parts: "blend env (re_success_probability se) (recent_success env rs) ?w \<le> 1"
      "unit_interval (blend env (re_quality_score se) (re_quality_score h) ?w)"
      "unit_interval (blend env (re_risk_score se) (re_risk_score h) ?w)"
      "unit_interval (min 1 (blend env (re_confidence base) (re_confidence h) ?w))"
    using base se h(2) w fe historical_success [OF h(1)]
    by (auto simp only: valid_estimate_iff intro: blend_le_1 blend_unit min_unit)
  show ?thesis
    unfolding blended_estimate_def h(1) u Let_def sum.case v(1) c(1) is_ok_iff mk_estimate_iff mixed_success_def
    using v(2) c(2) parts se h(2) by (simp add: valid_estimate_iff historical_success [OF h(1)])
qed

lemma blended_valid: "blended_estimate env policy se base cohort rs = Inr e \<Longrightarrow> valid_estimate e"
  by (auto simp: blended_estimate_def Let_def mk_estimate_iff split: sum.splits)

text \<open>The receipts an estimate is mixed with.\<close>

definition estimate_receipts :: "estimator_env \<Rightarrow> ExecutorSpec \<Rightarrow> ObservedReceipt list" where
  "estimate_receipts env spec =
     (if ex_kind spec = Kind_MANAGED_HOST
      then (case known_runtime env of None \<Rightarrow> [] | Some d \<Rightarrow> cohort_receipts env (Some d))
      else cohort_receipts env None)"

lemma estimate_cases:
  assumes "shared_prior env policy se = Inr base"
  shows "estimate env policy spec se =
    (if estimate_receipts env spec = [] then Ok base
     else blended_estimate env policy se base
       (snd (es_cohort env (if ex_kind spec = Kind_MANAGED_HOST then known_runtime env else None)))
       (estimate_receipts env spec))"
  using assms by (auto simp: estimate_def estimate_receipts_def Let_def split: option.splits)

text \<open>
  C20 For validated receipts, evidence and policies an estimate is built exactly when the shared
  evidence can be mixed in and, once the cohort has receipts, the declared success probability
  mixed with the recent one is not below a thousandth, which the rounding of the mix can cause
  although neither of the two is. Every estimate that is built has probabilities, scores, counts
  and cash within the ranges its model demands.
\<close>

theorem estimate_valid:
  assumes "valid_estimate se" and "policy_sane policy"
    and "\<forall>a \<in> set (es_acceptances env). unit_interval (ac_confidence a)"
    and "\<And>f c. list_all receipt_valid (es_receipts env f c)"
    and "\<And>runtime. sha256_digest (snd (es_cohort env runtime))"
    and "sound_floats env"
  shows "is_ok (estimate env policy spec se) =
      (is_ok (shared_prior env policy se)
       \<and> (estimate_receipts env spec = [] \<or> 1 / 1000 \<le> mixed_success env policy se (estimate_receipts env spec)))
    \<and> (\<forall>e. estimate env policy spec se = Inr e \<longrightarrow> valid_estimate e)"
proof (cases "shared_prior env policy se")
  case (Inr base)
  have base: "valid_estimate base" by (rule shared_prior_ok [OF Inr assms(2,1,3,6)])
  have "list_all receipt_valid (cohort_receipts env runtime)" for runtime
    using assms(4) by (cases "es_cohort env runtime") (auto simp: cohort_receipts_def list_all_iff)
  then have "list_all receipt_valid (estimate_receipts env spec)"
    by (simp add: estimate_receipts_def split: option.split)
  then show ?thesis
    using base blended_ok [OF _ _ base assms(1,2,5,6), of "estimate_receipts env spec"] blended_valid Inr
    by (auto simp: estimate_cases [OF Inr] split: if_splits)
qed (simp add: estimate_def)

end
