(* ===== verification/Estimator_Evidence.thy ===== *)
theory Estimator_Evidence
  imports Estimator_Laws
begin

text \<open>
  How shared evidence reaches an estimate: dearer cost evidence than the declared bound stops the
  estimate, and shared correctness evidence is lost at the first receipt. Samples at the end.
\<close>

section \<open>Cost evidence against the declared bound\<close>

lemma mk_cash_estimate_above_bound:
  assumes "0 \<le> q" and "0 \<le> u" and "u < q" and "me_status m \<noteq> Stat_UNAVAILABLE"
  shows "mk_cash_estimate (Some q) (Some u) m = Inl (ValueError ''upper_bound_usd must be >= amount_usd'')"
  using assms by (simp add: mk_cash_estimate_def validate_cash_estimate_def Let_def)

text \<open>
  C21 An executor that declares an amount with an upper bound cannot be estimated once the only
  accepted evidence is of a cost so high that the mixed amount passes the bound: the bound is
  kept, the amount is not clamped to it, and the estimate ends in an error.
\<close>

theorem shared_cost_breaks_estimate:
  assumes "ep_reuse_enabled policy" and "latest_accepted (es_acceptances env) = [a]"
    and "ac_metric a = ''cost''" and "summary_of env a = Some summary"
    and "json_field ''cost'' summary = Some (J_object cost)"
    and "cost_amount (es_parse env) (J_object cost) = Some q" and "0 \<le> q"
    and "cs_amount_usd (re_cash se) = Some x" and "cs_upper_bound_usd (re_cash se) = Some u"
    and "0 < shared_weight env policy a (summary_samples (es_parse env) summary)"
    and "u < es_decimal env (blend env (es_to_float env x) q (shared_weight env policy a (summary_samples (es_parse env) summary)))"
    and "0 \<le> u"
  shows "estimate env policy spec se = Err (ValueError ''upper_bound_usd must be >= amount_usd'')"
proof -
  let ?w = "shared_weight env policy a (summary_samples (es_parse env) summary)"
  let ?m = "unavailable_evidence\<lparr>me_status := Stat_COMPLETE, me_source := Src_STATIC_ESTIMATE,
    me_trust := ac_effective_trust a, me_evidence_id := Some (ac_evidence_id a),
    me_observed_at := Some (ac_evaluated_at a)\<rparr>"
  have "mk_cash_estimate (Some (es_decimal env (blend env (es_to_float env x) q ?w))) (Some u) ?m
      = Inl (ValueError ''upper_bound_usd must be >= amount_usd'')"
    using assms(11,12) by (intro mk_cash_estimate_above_bound) simp_all
  then have "share_metric env a summary ?w se = Inl (ValueError ''upper_bound_usd must be >= amount_usd'')"
    using assms(3,5-9) by (simp add: share_metric_def share_cost_def)
  then have "shared_prior env policy se = Inl (ValueError ''upper_bound_usd must be >= amount_usd'')"
    using assms(1,2,4,10) by (simp add: shared_prior_def Let_def)
  then show ?thesis by (simp add: estimate_def)
qed

section \<open>Correctness evidence beside receipts\<close>

lemma share_metric_risk: "share_metric env a summary w e = Inr e' \<Longrightarrow> re_risk_score e' = re_risk_score e"
  by (auto simp: share_metric_def set_resources_def share_correctness_def Let_def
      split: if_splits option.splits json.splits sum.splits)

lemma share_all_risk: "share_all env policy as e best = Inr (e', m) \<Longrightarrow> re_risk_score e' = re_risk_score e"
proof (induction as arbitrary: e best)
  case (Cons a as)
  then show ?case by (auto simp: Let_def dest: share_metric_risk split: option.splits if_splits sum.splits)
qed simp

lemma shared_prior_risk: "shared_prior env policy se = Inr base \<Longrightarrow> re_risk_score base = re_risk_score se"
  by (auto simp: shared_prior_def Let_def dest: share_all_risk split: if_splits sum.splits)

lemma historical_scores:
  assumes "historical fe rs prior = Inr h"
  shows "re_success_probability h = recent_success fe rs"
    "re_risk_score h = max (re_risk_score prior) (recent_risk fe rs)"
    "re_quality_score h = max 0 (min 1 (quality_ratio fe rs (re_quality_score prior)))"
  using assms by (auto simp: historical_def mk_estimate_iff split: sum.splits)

lemma blended_scores:
  assumes "blended_estimate env policy se base cohort rs = Inr e"
  obtains h where "historical env rs base = Inr h"
    and "re_success_probability e =
      blend env (re_success_probability se) (re_success_probability h) (history_share env policy (length rs))"
    and "re_risk_score e = blend env (re_risk_score se) (re_risk_score h) (history_share env policy (length rs))"
    and "re_quality_score e = blend env (re_quality_score se) (re_quality_score h) (history_share env policy (length rs))"
  using assms unfolding blended_estimate_def Let_def
  by (auto simp only: mk_estimate_iff LearnedEstimate.simps RouteEstimate.simps split: sum.splits)

text \<open>The runtime whose receipts an estimate reads.\<close>

definition estimate_runtime :: "estimator_env \<Rightarrow> ExecutorSpec \<Rightarrow> string option" where
  "estimate_runtime env spec = (if ex_kind spec = Kind_MANAGED_HOST then known_runtime env else None)"

lemma estimate_from_receipts:
  assumes "estimate env policy spec se = Inr e" and "ex_kind spec = Kind_MANAGED_HOST \<Longrightarrow> known_runtime env \<noteq> None"
    and "cohort_receipts env (estimate_runtime env spec) \<noteq> []"
  obtains base where "shared_prior env policy se = Inr base"
    and "blended_estimate env policy se base (snd (es_cohort env (estimate_runtime env spec)))
      (cohort_receipts env (estimate_runtime env spec)) = Inr e"
  using assms by (auto simp: estimate_def estimate_runtime_def Let_def split: sum.splits if_splits)

text \<open>
  C22 Once a cohort has a receipt, an estimate has the success probability and the risk it
  would have with the reuse of shared evidence turned off: what correctness evidence had said of
  the success of the executor no longer counts, whatever its weight. The quality too, when a
  receipt says whether its output was valid.
\<close>

theorem receipts_hide_shared_correctness:
  assumes "estimate env policy spec se = Inr e"
    and "estimate env (policy\<lparr>ep_reuse_enabled := False\<rparr>) spec se = Inr e'"
    and "ex_kind spec = Kind_MANAGED_HOST \<Longrightarrow> known_runtime env \<noteq> None"
    and "cohort_receipts env (estimate_runtime env spec) \<noteq> []"
  shows "re_success_probability e = re_success_probability e' \<and> re_risk_score e = re_risk_score e'
    \<and> (List.map_filter ob_output_valid (cohort_receipts env (estimate_runtime env spec)) \<noteq> []
        \<longrightarrow> re_quality_score e = re_quality_score e')"
proof -
  let ?rs = "cohort_receipts env (estimate_runtime env spec)"
  let ?c = "snd (es_cohort env (estimate_runtime env spec))"
  let ?p = "policy\<lparr>ep_reuse_enabled := False\<rparr>"
  have share: "history_share env ?p n = history_share env policy n" for n by (simp add: history_share_def)
  obtain b where b: "shared_prior env policy se = Inr b" "blended_estimate env policy se b ?c ?rs = Inr e"
    using estimate_from_receipts [OF assms(1,3,4)] by blast
  obtain b' where b': "shared_prior env ?p se = Inr b'" "blended_estimate env ?p se b' ?c ?rs = Inr e'"
    using estimate_from_receipts [OF assms(2,3,4)] by blast
  obtain h where h: "historical env ?rs b = Inr h" and
    e: "re_success_probability e =
          blend env (re_success_probability se) (re_success_probability h) (history_share env policy (length ?rs))"
       "re_risk_score e = blend env (re_risk_score se) (re_risk_score h) (history_share env policy (length ?rs))"
       "re_quality_score e = blend env (re_quality_score se) (re_quality_score h) (history_share env policy (length ?rs))"
    by (rule blended_scores [OF b(2)])
  obtain h' where h': "historical env ?rs b' = Inr h'" and
    e': "re_success_probability e' =
          blend env (re_success_probability se) (re_success_probability h') (history_share env ?p (length ?rs))"
        "re_risk_score e' = blend env (re_risk_score se) (re_risk_score h') (history_share env ?p (length ?rs))"
        "re_quality_score e' = blend env (re_quality_score se) (re_quality_score h') (history_share env ?p (length ?rs))"
    by (rule blended_scores [OF b'(2)])
  have "re_success_probability e = re_success_probability e'"
    unfolding e(1) e'(1) historical_scores(1) [OF h] historical_scores(1) [OF h'] share ..
  moreover have "re_risk_score e = re_risk_score e'"
    unfolding e(2) e'(2) historical_scores(2) [OF h] historical_scores(2) [OF h'] share
      shared_prior_risk [OF b(1)] shared_prior_risk [OF b'(1)] ..
  moreover have "re_quality_score e = re_quality_score e'" if "List.map_filter ob_output_valid ?rs \<noteq> []"
    unfolding e(3) e'(3) historical_scores(3) [OF h] historical_scores(3) [OF h'] share
    using that by (simp add: quality_ratio_def Let_def)
  ultimately show ?thesis by blast
qed

end
