(* ===== verification/Estimator_Samples.thy ===== *)
theory Estimator_Samples
  imports Estimator_Evidence Capacity_Policy
begin

text \<open>
  A sample executor with one receipt and, in turn, accepted correctness and cost evidence, with
  an arithmetic that rounds to a grid: half to even, to multiples of \<open>2\<^sup>-\<^sup>6\<^sup>2\<close> up to 1 and of
  \<open>2\<^sup>-\<^sup>5\<^sup>2\<close>, the spacing of binary64, above.
\<close>

section \<open>A rounding\<close>

lemma round_even_near: "2 * of_int (round_even q) \<le> 2 * q + 1" "2 * q \<le> 2 * of_int (round_even q) + 1"
  unfolding round_even_def Let_def by (simp_all, linarith+)

lemma round_even_int [simp]: "round_even (of_int n) = n"
  by (simp add: round_even_def)

lemma round_even_mono:
  assumes "p \<le> q"
  shows "round_even p \<le> round_even q"
proof (cases "floor p = floor q")
  case True
  then show ?thesis using assms by (auto simp: round_even_def Let_def)
next
  case False
  then have "floor p + 1 \<le> floor q" using floor_mono [OF assms] by linarith
  moreover have "round_even p \<le> floor p + 1" "floor q \<le> round_even q"
    by (simp_all add: round_even_def Let_def)
  ultimately show ?thesis by linarith
qed

definition round_to :: "int \<Rightarrow> rat \<Rightarrow> rat" where
  "round_to n q = of_int (round_even (q * of_int n)) / of_int n"

lemma round_to_mono: "0 < n \<Longrightarrow> p \<le> q \<Longrightarrow> round_to n p \<le> round_to n q"
  by (simp add: round_to_def divide_right_mono round_even_mono mult_right_mono)

lemma round_to_idem: "0 < n \<Longrightarrow> round_to n (round_to n q) = round_to n q"
  by (simp add: round_to_def)

lemma round_to_1: "0 < n \<Longrightarrow> round_to n 1 = 1"
  by (simp add: round_to_def)

lemma round_to_error: "0 < n \<Longrightarrow> round_to n q \<le> q + 1 / (2 * of_int n)"
  using round_even_near(1) [of "q * of_int n"] by (simp add: round_to_def field_simps)

definition grid :: "rat \<Rightarrow> rat" where
  "grid q = (if q \<le> 1 then round_to (2 ^ 62) q else round_to (2 ^ 52) q)"

lemma grid_le_1: "q \<le> 1 \<Longrightarrow> grid q \<le> 1" and grid_ge_1: "1 < q \<Longrightarrow> 1 \<le> grid q"
  using round_to_mono [of "2 ^ 62" q 1] round_to_mono [of "2 ^ 52" 1 q]
  by (simp_all add: grid_def round_to_1)

lemma grid_rounding: "float_rounding grid"
  unfolding float_rounding_def
proof (intro conjI allI impI)
  fix p q :: rat
  show "grid p \<le> grid q" if "p \<le> q"
  proof (cases "p \<le> 1 \<and> 1 < q")
    case True
    then show ?thesis using grid_le_1 grid_ge_1 by (blast intro: order_trans)
  next
    case False
    then show ?thesis using that by (auto simp: grid_def intro: round_to_mono)
  qed
  show "grid (grid q) = grid q"
  proof (cases "q \<le> 1")
    case True
    then show ?thesis using grid_le_1 [OF True] by (simp add: grid_def round_to_idem)
  next
    case False
    then have "1 \<le> grid q" using grid_ge_1 by simp
    then show ?thesis
    proof (cases "grid q = 1")
      case one: True
      then show ?thesis by (simp add: grid_def round_to_1)
    next
      case False
      then have "1 < grid q" using \<open>1 \<le> grid q\<close> by simp
      then have "grid (grid q) = round_to (2 ^ 52) (grid q)" by (simp add: grid_def [of "grid q"])
      moreover have "grid q = round_to (2 ^ 52) q" using \<open>\<not> q \<le> 1\<close> by (simp add: grid_def)
      ultimately show ?thesis using round_to_idem [of "2 ^ 52" q] by (metis zero_less_numeral zero_less_power)
    qed
  qed
  show "grid 0 = 0" "grid 1 = 1" by (simp_all add: grid_def round_to_1) (simp add: round_to_def round_even_def)
  show "grid q \<le> q + 1 / 2 ^ 53" if "0 \<le> q \<and> q \<le> 1"
    using round_to_error [of "2 ^ 62" q] that by (simp add: grid_def)
  show "grid q \<le> 1" if q: "q \<le> 1 + 1 / 2 ^ 53"
  proof (cases "q \<le> 1")
    case False
    have "round_even (q * 2 ^ 52) \<le> round_even ((1 + 1 / 2 ^ 53) * 2 ^ 52)"
      using q by (intro round_even_mono mult_right_mono) simp_all
    also have "round_even ((1 + 1 / 2 ^ 53) * 2 ^ 52) = 2 ^ 52"
    proof -
      have "\<lfloor>9007199254740993 / 2 :: rat\<rfloor> = 4503599627370496" by (rule floor_unique) simp_all
      then show ?thesis by (simp add: round_even_def Let_def)
    qed
    finally have "(of_int (round_even (q * 2 ^ 52)) :: rat) \<le> of_int (2 ^ 52)" by (simp only: of_int_le_iff)
    then show ?thesis using False by (simp add: grid_def round_to_def)
  qed (rule grid_le_1)
  show "1 / 1000 \<le> grid (1 / 1000)" by code_simp
qed

lemma grid_values: "grid 15 = 15" "grid (3 / 4) = 3 / 4"
  by (simp_all add: grid_def round_to_def round_even_def Let_def)

section \<open>The executor\<close>

definition declared :: LearnedEstimate where
  "declared = RouteEstimate.extend sample_estimate
     \<lparr>le_source = Est_STATIC, le_sample_size = 0, le_uncertainty = None\<rparr>"

definition learning_policy :: EstimatorPolicy where
  "learning_policy = PolicyConfig.extend balanced_policy
     \<lparr>ep_history_weight = 7/10, ep_history_prior_samples = 5, ep_reuse_enabled = True,
      ep_max_shared_weight = 17/20, ep_shared_prior_samples = 5\<rparr>"

definition observed :: ObservedReceipt where
  "observed = ExecutionReceipt.extend (sample_receipt ''r1'' ''c1'' 3 None)
     \<lparr>ob_status = Exec_SUCCESS, ob_actual_resources = sample_resources, ob_output_valid = Some True,
      ob_task_valid = None, ob_quality_score = None\<rparr>"

definition acceptance :: "string \<Rightarrow> EvidenceAcceptance" where
  "acceptance metric = \<lparr>ac_evidence_id = ''e1'', ac_metric = metric, ac_status = Acc_ACCEPTED,
     ac_confidence = 1, ac_effective_trust = Trust_VERIFIED, ac_evaluated_at = Aware 0\<rparr>"

definition shared_env :: "string \<Rightarrow> json \<Rightarrow> estimator_env" where
  "shared_env metric summary =
     \<lparr>es_to_float = id, es_round = grid, es_decimal = id, es_root = id, es_parse = (\<lambda>_. None),
      es_evidence = [\<lparr>ev_evidence_id = ''e1'', ev_summary = Some summary\<rparr>],
      es_acceptances = [acceptance metric], es_behavior = ''b'', es_binding = None,
      es_cohort = (\<lambda>_. (''f'', sample_digest)), es_receipts = (\<lambda>_ _. [observed])\<rparr>"

definition success_summary :: json where
  "success_summary = J_object [(''sample_size'', J_int 15), (''success'', J_object [(''success_rate'', J_float (1/2))])]"

definition cost_summary :: json where
  "cost_summary = J_object [(''sample_size'', J_int 15), (''cost'', J_object [(''actual_cash_usd'', J_int 5)])]"

lemmas shared_defs = shared_env_def acceptance_def learning_policy_def PolicyConfig.extend_def

lemma declared_valid: "valid_estimate declared"
  unfolding valid_estimate_iff
  by (simp add: declared_def RouteEstimate.extend_def routing_sample_defs resources_ok_def unit_interval_def
      validate_cash_estimate_def Let_def)

lemma learning_policy_sane: "policy_sane learning_policy"
  by (simp add: policy_sane_def learning_policy_def PolicyConfig.extend_def unit_interval_def)

lemma observed_valid: "receipt_valid observed"
  by (simp add: receipt_valid_def observed_def ExecutionReceipt.extend_def sample_receipt_def sample_charge_def
      routing_sample_defs resources_ok_def)

lemma accepted_once: "latest_accepted (es_acceptances (shared_env metric summary)) = [acceptance metric]"
  by (simp add: latest_accepted_def shared_defs first_places_def List.map_filter_def)

lemma summary_shared: "summary_of (shared_env metric summary) (acceptance metric) = Some summary"
  by (simp add: summary_of_def shared_defs)

lemma shared_env_facts:
  "\<forall>a \<in> set (es_acceptances (shared_env metric summary)). unit_interval (ac_confidence a)"
  "list_all receipt_valid (es_receipts (shared_env metric summary) f c)"
  "sha256_digest (snd (es_cohort (shared_env metric summary) runtime))"
  "sound_floats (shared_env metric summary)"
  using sample_digest_ok observed_valid grid_rounding
  by (simp_all add: shared_defs unit_interval_def sound_floats_def)

lemma sample_receipts: "estimate_receipts (shared_env metric summary) sample_spec = [observed]"
  by (simp add: estimate_receipts_def cohort_receipts_def shared_env_def observed_def ExecutionReceipt.extend_def
      sample_spec_def)

lemma success_mixed:
  "1 / 1000 \<le> mixed_success (shared_env ''correctness'' success_summary) learning_policy declared [observed]"
  by code_simp

lemma success_shared: "is_ok (shared_prior (shared_env ''correctness'' success_summary) learning_policy declared)"
  unfolding shared_prior_def accepted_once
  by (simp add: summary_shared Let_def share_metric_def success_summary_def json_field_def)
    (simp add: shared_defs)

theorem nearest_rank_bounds_witness:
  "nearest_rank [3, 1, 2, 5, 4] (19 / 20) = 5
   \<and> (19 / 20 * 5 :: rat) \<le> of_nat (length (filter (\<lambda>x. x \<le> nearest_rank [3, 1, 2, 5, 4] (19 / 20)) [3, 1, 2, 5, 4]))"
proof -
  have "ceiling (19 / 4 :: rat) = 5" by (rule ceiling_unique) simp_all
  then have "nearest_rank [3, 1, 2, 5, 4] (19 / 20) = 5" by (simp add: nearest_rank_def)
  then show ?thesis using nearest_rank_bounds [of "[3, 1, 2, 5, 4]" "19 / 20"] by simp
qed

theorem estimate_valid_witness:
  "\<exists>e. estimate (shared_env ''correctness'' success_summary) learning_policy sample_spec declared = Inr e
     \<and> valid_estimate e"
proof -
  note valid = estimate_valid [where env = "shared_env ''correctness'' success_summary" and spec = sample_spec,
      OF declared_valid learning_policy_sane shared_env_facts]
  then have "is_ok (estimate (shared_env ''correctness'' success_summary) learning_policy sample_spec declared)"
    using success_shared success_mixed by (simp add: sample_receipts)
  then show ?thesis using valid by (auto simp: is_ok_iff)
qed

lemma cost_shared:
  "cost_amount (es_parse (shared_env metric summary)) (J_object [(''actual_cash_usd'', J_int 5)]) = Some 5"
  by (simp add: cost_amount_def median_of_def field_number_def json_field_def shared_env_def)

theorem shared_cost_breaks_estimate_witness:
  "estimate (shared_env ''cost'' cost_summary) learning_policy sample_spec declared
   = Err (ValueError ''upper_bound_usd must be >= amount_usd'')"
proof (rule shared_cost_breaks_estimate [where cost = "[(''actual_cash_usd'', J_int 5)]", OF _ accepted_once _ summary_shared])
  let ?w = "shared_weight (shared_env ''cost'' cost_summary) learning_policy (acceptance ''cost'')
    (summary_samples (es_parse (shared_env ''cost'' cost_summary)) cost_summary)"
  have w: "?w = 3 / 4"
    by (simp add: shared_weight_def summary_samples_def integer_value_def json_field_def cost_summary_def shared_defs grid_values)
  show "0 < ?w" unfolding w by simp
  show "1 / 50 < es_decimal (shared_env ''cost'' cost_summary)
      (blend (shared_env ''cost'' cost_summary) (es_to_float (shared_env ''cost'' cost_summary) (1 / 100)) 5 ?w)"
    unfolding w by code_simp
qed (simp_all add: learning_policy_def PolicyConfig.extend_def acceptance_def cost_summary_def json_field_def
    cost_shared declared_def RouteEstimate.extend_def sample_estimate_def)

lemma sample_built:
  assumes "policy_sane policy" and "is_ok (shared_prior (shared_env metric summary) policy declared)"
    and "1 / 1000 \<le> mixed_success (shared_env metric summary) policy declared [observed]"
  shows "\<exists>e. estimate (shared_env metric summary) policy sample_spec declared = Inr e"
proof -
  let ?env = "shared_env metric summary"
  obtain base where base: "shared_prior ?env policy declared = Inr base" using assms(2) by (auto simp: is_ok_iff)
  have valid: "valid_estimate base"
    by (rule shared_prior_ok [OF base assms(1) declared_valid shared_env_facts(1) shared_env_facts(4)])
  have "list_all receipt_valid [observed]" using observed_valid by simp
  then have "is_ok (blended_estimate ?env policy declared base (snd (es_cohort ?env runtime)) [observed])" for runtime
    using assms(3) blended_ok [OF _ _ valid declared_valid assms(1) shared_env_facts(3,4), of "[observed]"] by simp
  then show ?thesis
    by (simp add: estimate_cases [OF base] sample_receipts is_ok_iff del: is_ok_def)
qed

theorem receipts_hide_shared_correctness_witness:
  "\<exists>e e'. estimate (shared_env ''correctness'' success_summary) learning_policy sample_spec declared = Inr e
     \<and> estimate (shared_env ''correctness'' success_summary) (learning_policy\<lparr>ep_reuse_enabled := False\<rparr>) sample_spec declared = Inr e'
     \<and> re_success_probability e = re_success_probability e' \<and> re_quality_score e = re_quality_score e'"
proof -
  let ?env = "shared_env ''correctness'' success_summary" and ?off = "learning_policy\<lparr>ep_reuse_enabled := False\<rparr>"
  have sane: "policy_sane ?off"
    using learning_policy_sane by (simp add: policy_sane_def)
  have "mixed_success ?env ?off declared [observed] = mixed_success ?env learning_policy declared [observed]"
    by (simp add: mixed_success_def history_share_def)
  then have off: "1 / 1000 \<le> mixed_success ?env ?off declared [observed]" using success_mixed by simp
  obtain e where e: "estimate ?env learning_policy sample_spec declared = Inr e"
    using sample_built [OF learning_policy_sane success_shared success_mixed] by blast
  have "is_ok (shared_prior ?env ?off declared)" by (simp add: shared_prior_def)
  then obtain e' where e': "estimate ?env ?off sample_spec declared = Inr e'"
    using sample_built [OF sane _ off] by blast
  have kind: "ex_kind sample_spec \<noteq> Kind_MANAGED_HOST" by (simp add: sample_spec_def)
  have rs: "cohort_receipts ?env r = [observed]" for r
    by (simp add: cohort_receipts_def shared_env_def observed_def ExecutionReceipt.extend_def)
  have "List.map_filter ob_output_valid [observed] = [True]"
    by (simp add: observed_def ExecutionReceipt.extend_def List.map_filter_simps)
  then show ?thesis
    using receipts_hide_shared_correctness [OF e e'] kind e e' by (auto simp: rs)
qed

section \<open>A mix below the least success probability\<close>

text \<open>
  Binary64 itself between \<open>2\<^sup>-\<^sup>2\<^sup>0\<close> and 1: 53 significant bits. With a history weight of 1, 57 prior
  samples and one failed receipt, a declared success probability of 0.001 mixes with the recent
  one of 0.001 to less than either, which the validation of an estimate refuses.
\<close>

fun leading_scale :: "nat \<Rightarrow> rat \<Rightarrow> int \<Rightarrow> int" where
  "leading_scale 0 q m = m"
| "leading_scale (Suc n) q m = (if 4503599627370496 \<le> q * of_int m then m else leading_scale n q (2 * m))"

definition binary64 :: "rat \<Rightarrow> rat" where
  "binary64 q = (if q \<le> 0 then 0 else round_to (leading_scale 20 q 4503599627370496) q)"

definition binary_floats :: float_env where
  "binary_floats = \<lparr>es_to_float = binary64, es_round = binary64, es_decimal = id, es_root = id\<rparr>"

definition failed_receipt :: ObservedReceipt where
  "failed_receipt = observed\<lparr>ob_status := Exec_FAILED\<rparr>"

lemma mixed_below_least:
  "mixed_success binary_floats (learning_policy\<lparr>ep_history_weight := 1, ep_history_prior_samples := 57\<rparr>)
     (declared\<lparr>re_success_probability := least_success binary_floats\<rparr>) [failed_receipt] < 1 / 1000"
  by code_simp

end
