(* ===== verification/Workflow_Run.thy ===== *)
theory Workflow_Run
  imports Workflow_Engine
begin

text \<open>
  The ends of a workflow (\<open>aeep/router.py\<close>): the checks before the first wave, the result that
  \<open>_workflow_result\<close> builds and the checkpoint it saves, and \<open>resume_workflow\<close>. The hash of the
  workflow and the measured wall time are arguments; policy valuations and peak memory of the
  result only report and are left out.
\<close>

section \<open>Before the first wave\<close>

fun any_schema_misses :: "json option list \<Rightarrow> string \<Rightarrow> bool result" where
  "any_schema_misses [] p = Ok False"
| "any_schema_misses (s # ss) p =
     (case schema_pointer_exists s p of
        Inl e \<Rightarrow> Err e
      | Inr there \<Rightarrow> if there then any_schema_misses ss p else Ok True)"

definition check_source ::
  "'w workflow_env \<Rightarrow> 'w \<Rightarrow> WorkflowRequest \<Rightarrow> string \<Rightarrow> string \<Rightarrow> string \<Rightarrow> unit result" where
  "check_source env w req step path msg =
     (case step_of (wr_steps req) step of
        None \<Rightarrow> Err (ExternalError ''KeyError'')
      | Some s \<Rightarrow>
          (case any_schema_misses (we_schemas env (aq_capability (ws_action s)) w) path of
             Inl e \<Rightarrow> Err e
           | Inr missing \<Rightarrow> if missing then Err (ConfigurationError msg) else Ok ()))"

fun check_binding_sources ::
  "'w workflow_env \<Rightarrow> 'w \<Rightarrow> WorkflowRequest \<Rightarrow> WorkflowInputBinding list \<Rightarrow> unit result" where
  "check_binding_sources env w req [] = Ok ()"
| "check_binding_sources env w req (b # bs) =
     (case wb_source_step_id b of
        None \<Rightarrow> check_binding_sources env w req bs
      | Some src \<Rightarrow>
          (case check_source env w req src (wb_source_path b)
                  ''workflow binding source path is not in route schema'' of
             Inl e \<Rightarrow> Err e | Inr _ \<Rightarrow> check_binding_sources env w req bs))"

fun check_output_sources ::
  "'w workflow_env \<Rightarrow> 'w \<Rightarrow> WorkflowRequest \<Rightarrow> WorkflowOutputProjection list \<Rightarrow> unit result" where
  "check_output_sources env w req [] = Ok ()"
| "check_output_sources env w req (p # ps) =
     (case check_source env w req (wp_step_id p) (wp_path p) ''workflow output path is not in route schema'' of
        Inl e \<Rightarrow> Err e | Inr _ \<Rightarrow> check_output_sources env w req ps)"

definition check_schemas :: "'w workflow_env \<Rightarrow> 'w \<Rightarrow> WorkflowRequest \<Rightarrow> unit result" where
  "check_schemas env w req =
     (case check_binding_sources env w req (concat (map ws_bindings (wr_steps req))) of
        Inl e \<Rightarrow> Err e | Inr _ \<Rightarrow> check_output_sources env w req (wr_outputs req))"

definition initial_run ::
  "WorkflowRequest \<Rightarrow> (string \<times> json) list \<Rightarrow> ExecutionReceipt list \<Rightarrow> 'w \<Rightarrow> 'w run" where
  "initial_run req outputs receipts w =
     \<lparr>run_outputs = outputs, run_receipts = receipts, run_durations = [],
      run_pending = filter (\<lambda>s. ws_step_id s \<notin> fst ` set outputs) (wr_steps req),
      run_quota_start = [], run_quota_consumed = (\<lambda>_. 0), run_world = w\<rparr>"

section \<open>The critical path\<close>

text \<open>
  \<open>total\<close> of \<open>_workflow_critical_path\<close>, with fuel for its recursion over dependencies; \<open>None\<close>
  is a recursion that does not end within the fuel, or an unknown step. The memo of the code
  is not modelled: the value of a step is the same each time.
\<close>

definition duration_of :: "(string \<times> rat) list \<Rightarrow> string \<Rightarrow> rat" where
  "duration_of durations i = (case map_of durations i of None \<Rightarrow> 0 | Some d \<Rightarrow> d)"

definition max_of :: "rat \<Rightarrow> rat list \<Rightarrow> rat" where
  "max_of d xs = (case xs of [] \<Rightarrow> d | x # _ \<Rightarrow> Max (set xs))"

fun path_total :: "nat \<Rightarrow> WorkflowStep list \<Rightarrow> (string \<times> rat) list \<Rightarrow> string \<Rightarrow> rat option" where
  "path_total 0 steps durations i = None"
| "path_total (Suc n) steps durations i =
     (case step_of steps i of
        None \<Rightarrow> None
      | Some s \<Rightarrow>
          (let below = map (path_total n steps durations) (ws_depends_on s) in
           if None \<in> set below then None
           else Some (duration_of durations i + max_of 0 (map the below))))"

definition workflow_critical_path ::
  "nat \<Rightarrow> WorkflowStep list \<Rightarrow> (string \<times> rat) list \<Rightarrow> rat \<Rightarrow> rat option" where
  "workflow_critical_path fuel steps durations elapsed =
     (if durations = [] then Some elapsed
      else (let totals = map (path_total fuel steps durations) (map fst durations) in
            if None \<in> set totals then None else Some (max_of elapsed (map the totals))))"

section \<open>The result\<close>

record WorkflowExecutionOutcome =
  wo_workflow_id :: string
  wo_workflow_hash :: string
  wo_status :: WorkflowStatus
  wo_outputs :: "(string \<times> json) list"
  wo_step_outputs :: "(string \<times> json) list"
  wo_receipts :: "ExecutionReceipt list"
  wo_accounting :: ResourceAccounting
  wo_known_cash_subtotal_usd :: rat
  wo_actual_cash_total_usd :: "rat option"
  wo_critical_path_ms :: rat
  wo_waiting_step_id :: "string option"
  wo_waiting_decision_id :: "string option"
  wo_error :: "string option"

record WorkflowCheckpoint =
  wk_workflow_hash :: string
  wk_status :: WorkflowStatus
  wk_waiting_step_id :: "string option"
  wk_waiting_decision_id :: "string option"

text \<open>
  The entry points of the router that the ends of a workflow use: the stored checkpoints and
  decisions, the activity check of a route, a new routing decision, the validation of an
  output against its schema and the report of an external result.
\<close>

record 'w router_env = "'w workflow_env" +
  re_hash :: "WorkflowRequest \<Rightarrow> string"
  re_elapsed :: rat
  re_checkpoint :: "string \<Rightarrow> 'w \<Rightarrow> WorkflowCheckpoint option"
  re_save_checkpoint :: "string \<Rightarrow> WorkflowCheckpoint \<Rightarrow> 'w \<Rightarrow> 'w"
  re_decision :: "string \<Rightarrow> 'w \<Rightarrow> RouteDecision option"
  re_require_active :: "WorkflowExecutor \<Rightarrow> RouteDecision \<Rightarrow> 'w \<Rightarrow> unit result"
  re_route_now :: "ActionRequest \<Rightarrow> 'w \<Rightarrow> RouteDecision result \<times> 'w"
  re_check_output :: "WorkflowExecutor \<Rightarrow> json \<Rightarrow> unit result"
  re_record_external :: "RouteDecision \<Rightarrow> WorkflowExecutor \<Rightarrow> 'w \<Rightarrow> ExecutionReceipt result \<times> 'w"

fun project_outputs ::
  "(string \<times> json) list \<Rightarrow> WorkflowOutputProjection list \<Rightarrow> (string \<times> json) list \<Rightarrow> (string \<times> json) list result"
where
  "project_outputs step_outputs [] acc = Ok acc"
| "project_outputs step_outputs (p # ps) acc =
     (case map_of step_outputs (wp_step_id p) of
        None \<Rightarrow> Err (ExternalError ''KeyError'')
      | Some v \<Rightarrow>
          (case pointer_get v (wp_path p) of
             Inl e \<Rightarrow> Err e
           | Inr x \<Rightarrow> project_outputs step_outputs ps (put_key (wp_name p) x acc)))"

definition outcome_of ::
  "'w router_env \<Rightarrow> WorkflowRequest \<Rightarrow> stop \<Rightarrow> 'w run \<Rightarrow> ResourceAccounting \<Rightarrow> (string \<times> json) list \<Rightarrow> rat
   \<Rightarrow> WorkflowExecutionOutcome" where
  "outcome_of env req st run a outputs path =
     \<lparr>wo_workflow_id = wr_workflow_id req, wo_workflow_hash = re_hash env req, wo_status = stop_status st,
      wo_outputs = outputs, wo_step_outputs = run_outputs run, wo_receipts = run_receipts run,
      wo_accounting = a, wo_known_cash_subtotal_usd = known_subtotal (acc_cash a) ''USD'',
      wo_actual_cash_total_usd = actual_cash_cost (acc_cash a) ''USD'', wo_critical_path_ms = path,
      wo_waiting_step_id = map_option fst (stop_waiting st),
      wo_waiting_decision_id = map_option snd (stop_waiting st), wo_error = stop_error st\<rparr>"

definition workflow_result ::
  "'w router_env \<Rightarrow> WorkflowRequest \<Rightarrow> stop \<Rightarrow> 'w run \<Rightarrow> WorkflowExecutionOutcome result \<times> 'w" where
  "workflow_result env req st run =
     (let w = run_world run; durations = (if stop_timed st then run_durations run else []) in
      case aggregate_accounting (we_loads env) (run_receipts run) of
        Inl e \<Rightarrow> (Err e, w)
      | Inr a \<Rightarrow>
          (case (if stop_status st = Flow_SUCCESS then project_outputs (run_outputs run) (wr_outputs req) []
                 else Ok []) of
             Inl e \<Rightarrow> (Err e, w)
           | Inr outputs \<Rightarrow>
               (case workflow_critical_path (Suc (length (wr_steps req))) (wr_steps req) durations (re_elapsed env) of
                  None \<Rightarrow> (Err (ExternalError ''RecursionError''), w)
                | Some path \<Rightarrow>
                    (Ok (outcome_of env req st run a outputs path),
                     re_save_checkpoint env (wr_workflow_id req)
                       \<lparr>wk_workflow_hash = re_hash env req, wk_status = stop_status st,
                        wk_waiting_step_id = map_option fst (stop_waiting st),
                        wk_waiting_decision_id = map_option snd (stop_waiting st)\<rparr> w))))"

definition execute_workflow ::
  "'w router_env \<Rightarrow> WorkflowRequest \<Rightarrow> (string \<times> json) list \<Rightarrow> ExecutionReceipt list \<Rightarrow> 'w
   \<Rightarrow> WorkflowExecutionOutcome result \<times> 'w" where
  "execute_workflow env req outputs receipts w =
     (case check_schemas (workflow_env.truncate env) w req of
        Inl e \<Rightarrow> (Err e, w)
      | Inr _ \<Rightarrow>
          (case workflow_loop (workflow_env.truncate env) req (initial_run req outputs receipts w) of
             Raise e r \<Rightarrow> (Err e, run_world r)
           | Return st r \<Rightarrow> workflow_result env req st r
           | Go _ r \<Rightarrow> workflow_result env req succeeded r))"

section \<open>Resuming\<close>

definition continuation_matches ::
  "'w router_env \<Rightarrow> WorkflowRequest \<Rightarrow> WorkflowExecutionOutcome \<Rightarrow> string \<Rightarrow> 'w \<Rightarrow> bool" where
  "continuation_matches env req prior step w =
     (wo_status prior = Flow_WAITING \<and> wo_workflow_hash prior = re_hash env req
      \<and> (case re_checkpoint env (wr_workflow_id req) w of
           None \<Rightarrow> False
         | Some c \<Rightarrow> wk_workflow_hash c = re_hash env req \<and> wk_waiting_step_id c = Some step)
      \<and> wo_waiting_step_id prior = Some step)"

definition waiting_route ::
  "'w router_env \<Rightarrow> WorkflowExecutionOutcome \<Rightarrow> 'w \<Rightarrow> (RouteDecision \<times> WorkflowExecutor) result" where
  "waiting_route env prior w =
     (case re_decision env (case wo_waiting_decision_id prior of None \<Rightarrow> [] | Some d \<Rightarrow> d) w of
        None \<Rightarrow> Err (ConfigurationError ''waiting workflow decision is unavailable'')
      | Some d \<Rightarrow>
          (case rd_selected_executor_id d of
             None \<Rightarrow> Err (ConfigurationError ''waiting workflow decision is unavailable'')
           | Some eid \<Rightarrow>
               (case we_executor env eid w of
                  Inl e \<Rightarrow> Err e
                | Inr spec \<Rightarrow>
                    if \<not> wx_enabled spec
                    then Err (ConfigurationError ''waiting workflow route is no longer active'')
                    else (case re_require_active env spec d w of Inl e \<Rightarrow> Err e | Inr _ \<Rightarrow> Ok (d, spec)))))"

definition still_feasible :: "RouteDecision \<Rightarrow> WorkflowExecutor \<Rightarrow> bool" where
  "still_feasible d spec =
     (case List.find (\<lambda>c. cd_executor_id c = ex_id spec) (rd_candidates d) of
        None \<Rightarrow> False | Some c \<Rightarrow> cd_feasible c)"

definition resume_workflow ::
  "'w router_env \<Rightarrow> WorkflowRequest \<Rightarrow> WorkflowExecutionOutcome \<Rightarrow> string \<Rightarrow> json \<Rightarrow> 'w
   \<Rightarrow> WorkflowExecutionOutcome result \<times> 'w" where
  "resume_workflow env req prior step output w =
     (if \<not> continuation_matches env req prior step w
      then (Err (ConfigurationError ''workflow continuation does not match the waiting checkpoint''), w)
      else case waiting_route env prior w of
        Inl e \<Rightarrow> (Err e, w)
      | Inr (d, spec) \<Rightarrow>
          (case step_of (wr_steps req) step of
             None \<Rightarrow> (Err (ExternalError ''RuntimeError''), w)
           | Some s \<Rightarrow>
               (case bind_inputs (wr_input req) (wo_step_outputs prior) (ws_bindings s) (aq_input (ws_action s)) of
                  Inl e \<Rightarrow> (Err e, w)
                | Inr input \<Rightarrow>
                    (case re_route_now env ((constrained req (ws_action s))\<lparr>aq_input := input\<rparr>) w of
                       (Inl e, w1) \<Rightarrow> (Err e, w1)
                     | (Inr current, w1) \<Rightarrow>
                         if \<not> still_feasible current spec
                         then (Err (ConfigurationError ''waiting workflow route is no longer policy-feasible''), w1)
                         else (case re_check_output env spec output of
                           Inl e \<Rightarrow> (Err e, w1)
                         | Inr _ \<Rightarrow>
                             (case re_record_external env d spec w1 of
                                (Inl e, w2) \<Rightarrow> (Err e, w2)
                              | (Inr terminal, w2) \<Rightarrow>
                                  execute_workflow env req (put_key step output (wo_step_outputs prior))
                                    (wo_receipts prior @ [terminal]) w2))))))"

end
