(* ===== verification/Workflow_Order.thy ===== *)
theory Workflow_Order
  imports Workflow_Run
begin

text \<open>
  The order of a workflow's steps. States between waves are reached by the inductive relation
  \<open>wave_reach\<close>; an accepted workflow is never stuck between waves. What the waves execute is
  observed through the locale \<open>observed_workflow\<close>, interpreted on an environment that keeps a
  log: no step is executed twice, and none before all it depends on.
\<close>

section \<open>States between waves\<close>

inductive wave_reach :: "'w workflow_env \<Rightarrow> WorkflowRequest \<Rightarrow> 'w run \<Rightarrow> 'w run \<Rightarrow> bool"
  for env :: "'w workflow_env" and req :: WorkflowRequest where
  here: "wave_reach env req r r"
| wave: "wave_reach env req r s \<Longrightarrow> ready_steps s \<noteq> [] \<Longrightarrow>
     workflow_wave env req (ready_steps s) s = Go () t \<Longrightarrow> wave_reach env req r t"

definition keys :: "('k \<times> 'v) list \<Rightarrow> 'k set" where
  "keys kvs = fst ` set kvs"

lemma keys_map: "keys kvs = set (map fst kvs)"
  by (simp add: keys_def)

text \<open>Pending are the steps without an output.\<close>

definition pending_open :: "WorkflowRequest \<Rightarrow> 'w run \<Rightarrow> bool" where
  "pending_open req r =
     (run_pending r = filter (\<lambda>s. ws_step_id s \<notin> keys (run_outputs r)) (wr_steps req))"

lemma initial_open: "pending_open req (initial_run req outputs receipts w)"
  by (simp add: pending_open_def initial_run_def keys_def)

lemma ready_subset: "set (ready_steps r) \<subseteq> set (run_pending r)"
  by (auto simp: ready_steps_def)

lemma ready_distinct: "distinct (map ws_step_id (run_pending r)) \<Longrightarrow> distinct (map ws_step_id (ready_steps r))"
proof -
  assume "distinct (map ws_step_id (run_pending r))"
  then have "distinct (map ws_step_id (filter p (run_pending r)))" for p by (rule distinct_map_filter)
  then show "distinct (map ws_step_id (ready_steps r))"
    by (simp add: ready_steps_def distinct_map)
qed

lemma pending_distinct:
  "distinct (map ws_step_id (wr_steps req)) \<Longrightarrow> pending_open req r \<Longrightarrow> distinct (map ws_step_id (run_pending r))"
  by (simp add: pending_open_def distinct_map_filter)

text \<open>Advancing ready steps of an open state appends their outputs.\<close>

lemma advanced_open:
  assumes open_r: "pending_open req r" and dist: "distinct (map ws_step_id (wr_steps req))"
    and "distinct is" and sub: "set is \<subseteq> ws_step_id ` set (ready_steps r)" and adv: "advanced is r s"
  shows "map fst (run_outputs s) = map fst (run_outputs r) @ is" "pending_open req s"
proof -
  have "ws_step_id s \<notin> keys (run_outputs r)" if "s \<in> set (ready_steps r)" for s
    using that ready_subset [of r] open_r by (auto simp: pending_open_def)
  then have "ws_step_id ` set (ready_steps r) \<inter> keys (run_outputs r) = {}" by blast
  then have "set is \<inter> fst ` set (run_outputs r) = {}"
    unfolding keys_def using sub by (metis Int_mono order_refl subset_empty)
  then show outs: "map fst (run_outputs s) = map fst (run_outputs r) @ is"
    using adv assms(3) by (simp add: advanced_def)
  then have "keys (run_outputs s) = keys (run_outputs r) \<union> set is" by (simp add: keys_map)
  then show "pending_open req s"
    using adv open_r by (auto simp: advanced_def pending_open_def intro: filter_cong)
qed

lemma wave_open:
  assumes "pending_open req r" and "distinct (map ws_step_id (wr_steps req))"
    and "workflow_wave env req (ready_steps r) r = Go () s" and "ready_steps r \<noteq> []"
  shows "pending_open req s"
proof -
  obtain "is" where i: "set is \<subseteq> ws_step_id ` set (ready_steps r)" "advanced is r s"
      "distinct (map ws_step_id (ready_steps r)) \<longrightarrow> distinct is"
    using workflow_wave_Go [OF assms(3,4)] by (auto simp: advances_some_def)
  then have "distinct is" using ready_distinct [OF pending_distinct [OF assms(2,1)]] by simp
  then show ?thesis using advanced_open [OF assms(1,2) _ i(1,2)] by simp
qed

lemma reach_open:
  assumes "wave_reach env req r s" and "distinct (map ws_step_id (wr_steps req))" and "pending_open req r"
  shows "pending_open req s"
  using assms(1,3)
proof induction
  case (wave r s t)
  then show ?case using wave_open [OF _ assms(2)] by blast
qed

section \<open>Some step is always ready\<close>

lemma accepted_steps:
  assumes "is_ok (valid_dag req)"
  shows "distinct (map ws_step_id (wr_steps req))" "acyclic (depends (wr_steps req))"
    "\<And>s. s \<in> set (wr_steps req) \<Longrightarrow> step_resolves req s"
proof -
  show dist: "distinct (map ws_step_id (wr_steps req))"
    and steps: "\<And>s. s \<in> set (wr_steps req) \<Longrightarrow> step_resolves req s"
    using assms by (auto simp: valid_dag_def Let_def is_ok_chain check_steps_iff)
  show "acyclic (depends (wr_steps req))"
    using assms steps by (subst cycle_check [symmetric])
      (auto simp: valid_dag_def Let_def is_ok_chain step_resolves_def)
qed

lemma finite_depends: "finite (depends steps)"
proof (rule finite_subset)
  show "depends steps \<subseteq> (\<Union>s \<in> set steps. {ws_step_id s} \<times> set (ws_depends_on s))"
    using step_of_SomeD by (fastforce simp: depends_def)
qed simp

lemma some_step_ready:
  assumes "is_ok (valid_dag req)" and open_r: "pending_open req r" and "run_pending r \<noteq> []"
  shows "ready_steps r \<noteq> []"
proof -
  note ok = accepted_steps [OF assms(1)]
  let ?P = "ws_step_id ` set (run_pending r)"
  have "wf ((depends (wr_steps req))\<inverse>)"
    by (rule finite_acyclic_wf_converse [OF finite_depends ok(2)])
  moreover obtain i where "i \<in> ?P" using assms(3) by (cases "run_pending r") auto
  ultimately obtain m where m: "m \<in> ?P" "\<And>d. (d, m) \<in> (depends (wr_steps req))\<inverse> \<Longrightarrow> d \<notin> ?P"
    by (rule wfE_min) blast
  then obtain s where s: "s \<in> set (run_pending r)" "ws_step_id s = m" by auto
  then have steps: "s \<in> set (wr_steps req)" using open_r by (simp add: pending_open_def)
  have "d \<in> fst ` set (run_outputs r)" if d: "d \<in> set (ws_depends_on s)" for d
  proof -
    have "(m, d) \<in> depends (wr_steps req)"
      using d s(2) step_of_distinct [OF ok(1) steps] by (auto simp: depends_def)
    then have "d \<notin> ?P" using m(2) by blast
    moreover have "d \<in> ws_step_id ` set (wr_steps req)" using ok(3) [OF steps] d by (auto simp: step_resolves_def)
    ultimately show ?thesis using open_r by (auto simp: pending_open_def keys_def)
  qed
  then have "s \<in> set (ready_steps r)" using s(1) by (simp add: ready_steps_def list_all_iff)
  then show ?thesis by auto
qed

text \<open>
  C14 An accepted workflow is never stuck: in every state that waves reach from the start, also
  from a start with outputs of earlier steps, either every step has its output or some step is
  ready, so the branch that reports a workflow without an executable step is never taken.
\<close>

theorem accepted_workflow_never_stuck:
  assumes "is_ok (valid_dag req)"
    and "wave_reach env req (initial_run req outputs receipts w) r"
  shows "ready_steps r \<noteq> [] \<or> ws_step_id ` set (wr_steps req) \<subseteq> keys (run_outputs r)"
proof -
  have open_r: "pending_open req r"
    by (rule reach_open [OF assms(2) accepted_steps(1) [OF assms(1)] initial_open])
  then show ?thesis
    using some_step_ready [OF assms(1) open_r] by (auto simp: pending_open_def filter_empty_conv)
qed

section \<open>The fuel of the critical path is enough\<close>

lemma path_total_chain:
  assumes ac: "acyclic (depends steps)"
    and closed: "\<And>i d. (i, d) \<in> depends steps \<Longrightarrow> step_of steps d \<noteq> None"
    and "step_of steps i \<noteq> None" and "path_total n steps durations i = None"
  shows "\<exists>xs. length xs = n \<and> distinct xs \<and> (\<forall>x \<in> set xs. (i, x) \<in> (depends steps)\<^sup>+ \<and> step_of steps x \<noteq> None)"
  using assms(3,4)
proof (induction n arbitrary: i)
  case (Suc n)
  obtain s where s: "step_of steps i = Some s" using Suc.prems(1) by blast
  then obtain d where d: "d \<in> set (ws_depends_on s)" "path_total n steps durations d = None"
    using Suc.prems(2) by (auto simp: Let_def split: if_splits)
  then have edge: "(i, d) \<in> depends steps" using s by (auto simp: depends_def)
  obtain xs where xs: "length xs = n" "distinct xs"
      "\<forall>x \<in> set xs. (d, x) \<in> (depends steps)\<^sup>+ \<and> step_of steps x \<noteq> None"
    using Suc.IH [OF closed [OF edge] d(2)] by blast
  have "d \<notin> set xs" using xs(3) ac by (auto simp: acyclic_def)
  then show ?case
    using xs edge closed [OF edge] by (intro exI [of _ "d # xs"]) (auto intro: trancl_into_trancl2)
qed simp

lemma critical_path_ends:
  assumes "is_ok (valid_dag req)" and "keys durations \<subseteq> ws_step_id ` set (wr_steps req)"
  shows "workflow_critical_path (Suc (length (wr_steps req))) (wr_steps req) durations elapsed \<noteq> None"
proof -
  note ok = accepted_steps [OF assms(1)]
  let ?steps = "wr_steps req" and ?n = "Suc (length (wr_steps req))"
  have closed: "step_of ?steps d \<noteq> None" if "(i, d) \<in> depends ?steps" for i d
    using that step_of_SomeD [of ?steps i] ok(3) unfolding step_of_known
    by (fastforce simp: depends_def step_resolves_def)
  have "path_total ?n ?steps durations i \<noteq> None" if "i \<in> keys durations" for i
  proof
    assume none: "path_total ?n ?steps durations i = None"
    have known: "step_of ?steps i \<noteq> None" unfolding step_of_known using that assms(2) by blast
    obtain xs where xs: "length xs = ?n" "distinct xs"
        "\<forall>x \<in> set xs. (i, x) \<in> (depends ?steps)\<^sup>+ \<and> step_of ?steps x \<noteq> None"
      using path_total_chain [OF ok(2) _ known none] closed by blast
    then have "set xs \<subseteq> ws_step_id ` set ?steps" using step_of_known [of ?steps] by blast
    then have "length xs \<le> card (ws_step_id ` set ?steps)"
      using xs(2) by (metis card_mono distinct_card finite_imageI finite_set)
    also have "\<dots> \<le> length ?steps" by (metis card_image_le card_length finite_set le_trans)
    finally show False using xs(1) by simp
  qed
  then have "None \<notin> set (map (path_total ?n ?steps durations) (map fst durations))"
    unfolding keys_map by force
  then show ?thesis by (simp add: workflow_critical_path_def Let_def del: path_total.simps)
qed

section \<open>What the waves execute\<close>

primrec flow_end :: "('w, 'a) flow \<Rightarrow> 'w run" where
  "flow_end (Raise e r) = r"
| "flow_end (Return st r) = r"
| "flow_end (Go v r) = r"

lemma flow_end_of: "flow_end (flow_of r run k) = (case r of Inl e \<Rightarrow> run | Inr v \<Rightarrow> flow_end (k v))"
  by (simp add: flow_of_def split: sum.splits)

lemma collect_offline_world: "run_world (flow_end (collect_offline outcomes is run)) = run_world run"
  by (induction outcomes "is" run rule: collect_offline.induct)
    (auto simp: Let_def record_receipts_def record_output_def split: sum.splits)

lemma keep_receipts_world: "run_world (keep_receipts outcomes is run) = run_world run"
  by (induction outcomes "is" run rule: keep_receipts.induct)
    (auto simp: record_receipts_def split: sum.splits)

lemma keep_outputs_world: "keep_outputs outcomes is w b run = (w', b', r) \<Longrightarrow> run_world r = run_world run"
  by (induction outcomes "is" w b run rule: keep_outputs.induct)
    (auto simp: record_output_def split: sum.splits if_splits)

lemma finish_economic_world: "run_world (flow_end (finish_economic env outcomes is res run)) = run_world run"
  by (cases "keep_outputs outcomes is None False run")
    (auto simp: finish_economic_def flow_end_of Let_def keep_outputs_world split: sum.splits option.splits)

section \<open>What a wave that goes on has produced\<close>

text \<open>The result of a step counts as its output: it is a success that was not handed over.\<close>

definition produced :: "(string \<Rightarrow> ExecutionOutcome result) \<Rightarrow> string \<Rightarrow> bool" where
  "produced outcomes i =
     (case outcomes i of Inl _ \<Rightarrow> False | Inr out \<Rightarrow> eo_ok out \<and> \<not> hands_over out)"

lemma producedE:
  assumes "produced outcomes i"
  obtains out where "outcomes i = Inr out" "eo_ok out" "\<not> hands_over out"
  using assms by (auto simp: produced_def split: sum.splits)

lemma collect_offline_produced: "collect_offline outcomes is run = Go () r \<Longrightarrow> list_all (produced outcomes) is"
  by (induction outcomes "is" run rule: collect_offline.induct)
    (auto simp: produced_def Let_def split: sum.splits if_splits)

lemma keep_outputs_produced:
  "keep_outputs outcomes is waiting bad run = (None, False, r) \<Longrightarrow> \<forall>i \<in> set is. is_ok (outcomes i)
     \<Longrightarrow> waiting = None \<and> \<not> bad \<and> list_all (produced outcomes) is"
  by (induction outcomes "is" waiting bad run rule: keep_outputs.induct)
    (auto simp: produced_def is_ok_iff split: sum.splits if_splits)

primrec went_on :: "('w, 'a) flow \<Rightarrow> bool" where
  "went_on (Raise e r) = False"
| "went_on (Return st r) = False"
| "went_on (Go v r) = True"

lemma went_on_flow_of: "went_on (flow_of r run k) \<longleftrightarrow> (\<exists>x. r = Inr x \<and> went_on (k x))"
  by (cases r) (simp_all add: flow_of_def)

lemma stopped [simp]: "\<not> went_on (stop_cancelled env ps st run)"
  by (simp add: stop_cancelled_def split: prod.splits sum.splits)

lemma finish_economic_produced:
  "went_on (finish_economic env outcomes is res run) \<Longrightarrow> \<forall>i \<in> set is. is_ok (outcomes i)
     \<Longrightarrow> list_all (produced outcomes) is"
proof -
  obtain w b r where kept: "keep_outputs outcomes is None False run = (w, b, r)"
    by (cases "keep_outputs outcomes is None False run")
  assume "went_on (finish_economic env outcomes is res run)" and ok: "\<forall>i \<in> set is. is_ok (outcomes i)"
  then have "w = None \<and> \<not> b"
    by (cases w) (auto simp: finish_economic_def kept went_on_flow_of Let_def split: option.splits if_splits)
  then show ?thesis using keep_outputs_produced [of outcomes "is" None False run r] kept ok by simp
qed

text \<open>
  The record of a run is the list of its waves, each the executed steps with whether the step
  produced its output. A step is in order when everything it depends on had its output before
  the run or produced it in an earlier wave.
\<close>

type_synonym wave_log = "(string \<times> bool) list list"

definition marks :: "(string \<Rightarrow> ExecutionOutcome result) \<Rightarrow> string list \<Rightarrow> (string \<times> bool) list" where
  "marks outcomes is = map (\<lambda>i. (i, produced outcomes i)) is"

definition executed :: "wave_log \<Rightarrow> string list" where
  "executed past = map fst (concat past)"

definition in_order :: "WorkflowRequest \<Rightarrow> string set \<Rightarrow> wave_log \<Rightarrow> bool" where
  "in_order req before past =
     (\<forall>n < length past. \<forall>i \<in> fst ` set (past ! n).
        case step_of (wr_steps req) i of
          None \<Rightarrow> True
        | Some s \<Rightarrow> (\<forall>d \<in> set (ws_depends_on s). d \<in> before \<or> (d, True) \<in> set (concat (take n past))))"

definition adds_wave :: "string list \<Rightarrow> bool \<Rightarrow> wave_log \<Rightarrow> wave_log \<Rightarrow> bool" where
  "adds_wave is went l l' \<longleftrightarrow> (\<exists>fl. l' = l @ [fl] \<and> map fst fl = is \<and> (went \<longrightarrow> list_all snd fl))"

lemma adds_marks: "(went \<Longrightarrow> list_all (produced outcomes) is) \<Longrightarrow> adds_wave is went l (l @ [marks outcomes is])"
  by (auto simp: adds_wave_def marks_def o_def list_all_iff)

lemma in_order_append:
  assumes "in_order req before past"
    and "\<And>i s. i \<in> fst ` set fl \<Longrightarrow> step_of (wr_steps req) i = Some s
      \<Longrightarrow> \<forall>d \<in> set (ws_depends_on s). d \<in> before \<or> (d, True) \<in> set (concat past)"
  shows "in_order req before (past @ [fl])"
  unfolding in_order_def
proof (intro allI impI ballI)
  fix n i
  assume n: "n < length (past @ [fl])" and i: "i \<in> fst ` set ((past @ [fl]) ! n)"
  show "case step_of (wr_steps req) i of None \<Rightarrow> True
    | Some s \<Rightarrow> (\<forall>d \<in> set (ws_depends_on s). d \<in> before \<or> (d, True) \<in> set (concat (take n (past @ [fl]))))"
  proof (cases "n < length past")
    case True
    then have here: "\<forall>i \<in> fst ` set (past ! n). case step_of (wr_steps req) i of None \<Rightarrow> True
        | Some s \<Rightarrow> (\<forall>d \<in> set (ws_depends_on s). d \<in> before \<or> (d, True) \<in> set (concat (take n past)))"
      using assms(1) unfolding in_order_def by blast
    have "i \<in> fst ` set (past ! n)" using i True by (simp add: nth_append)
    from bspec [OF here this] True show ?thesis by (simp split: option.split_asm option.split)
  next
    case False
    then have "n = length past" using n by simp
    then show ?thesis using assms(2) [of i] i by (simp split: option.split)
  qed
qed

text \<open>
  Between waves all executed steps have produced their outputs: they are the steps with an
  output that had none at the start.
\<close>

definition recorded :: "WorkflowRequest \<Rightarrow> string list \<Rightarrow> wave_log \<Rightarrow> 'w run \<Rightarrow> bool" where
  "recorded req before past r =
     (pending_open req r \<and> map fst (run_outputs r) = before @ executed past \<and> list_all snd (concat past)
      \<and> distinct (executed past) \<and> set (executed past) \<subseteq> ws_step_id ` set (wr_steps req) - set before
      \<and> in_order req (set before) past)"

lemma ready_facts:
  assumes "recorded req before past r" and "x \<in> set (ready_steps r)"
  shows "x \<in> set (wr_steps req)" "ws_step_id x \<notin> set before \<union> set (executed past)"
    "\<forall>d \<in> set (ws_depends_on x). d \<in> set before \<or> (d, True) \<in> set (concat past)"
proof -
  have keys: "keys (run_outputs r) = set before \<union> set (executed past)"
    using assms(1) by (simp add: recorded_def keys_map)
  have "x \<in> set (run_pending r)" using assms(2) ready_subset by blast
  then show "x \<in> set (wr_steps req)" "ws_step_id x \<notin> set before \<union> set (executed past)"
    using assms(1) keys by (simp_all add: recorded_def pending_open_def)
  have "(d, True) \<in> set (concat past)" if "d \<in> set (executed past)" for d
    using assms(1) that by (force simp: recorded_def executed_def list_all_iff)
  then show "\<forall>d \<in> set (ws_depends_on x). d \<in> set before \<or> (d, True) \<in> set (concat past)"
    using assms(2) keys by (auto simp: ready_steps_def list_all_iff keys_def)
qed

lemma recorded_more:
  assumes rec: "recorded req before past r" and dist: "distinct (map ws_step_id (wr_steps req))"
    and "distinct (map fst fl)" and sub: "set (map fst fl) \<subseteq> ws_step_id ` set (ready_steps r)"
  shows "distinct (executed (past @ [fl]))"
    "set (executed (past @ [fl])) \<subseteq> ws_step_id ` set (wr_steps req) - set before"
    "in_order req (set before) (past @ [fl])"
proof -
  have ready: "\<exists>x. x \<in> set (ready_steps r) \<and> ws_step_id x = i" if "i \<in> set (map fst fl)" for i
    using subsetD [OF sub that] by (elim imageE) (rule exI, rule conjI, assumption, simp)
  have facts: "i \<notin> set before \<union> set (executed past) \<and> i \<in> ws_step_id ` set (wr_steps req)
      \<and> (\<forall>s. step_of (wr_steps req) i = Some s
          \<longrightarrow> (\<forall>d \<in> set (ws_depends_on s). d \<in> set before \<or> (d, True) \<in> set (concat past)))"
    if mem: "i \<in> set (map fst fl)" for i
  proof -
    obtain x where x: "x \<in> set (ready_steps r)" "ws_step_id x = i" using ready [OF mem] by blast
    note f = ready_facts [OF rec x(1)]
    show ?thesis using f step_of_distinct [OF dist f(1)] x(2) by (auto intro: rev_image_eqI)
  qed
  have new: "set (map fst fl) \<inter> set (executed past) = {}"
    "set (map fst fl) \<subseteq> ws_step_id ` set (wr_steps req) - set before"
    using facts by (fast, fast)
  have split: "executed (past @ [fl]) = executed past @ map fst fl"
    by (simp add: executed_def)
  show "distinct (executed (past @ [fl]))"
    "set (executed (past @ [fl])) \<subseteq> ws_step_id ` set (wr_steps req) - set before"
    unfolding split using assms(3) rec new by (simp_all add: recorded_def Int_commute)
  have "in_order req (set before) past" using rec by (simp add: recorded_def)
  then show "in_order req (set before) (past @ [fl])"
    by (rule in_order_append) (use facts in \<open>simp (no_asm_use), fast\<close>)
qed

text \<open>
  The contract of an environment whose world keeps the record: only executing adds to it, one
  wave with the steps of the call in their order and what became of them.
\<close>

locale observed_workflow =
  fixes env :: "'w workflow_env" and obs :: "'w \<Rightarrow> wave_log"
  assumes route_obs: "obs (snd (we_route env a w)) = obs w"
    and prepare_obs: "obs (snd (we_prepare env actions w)) = obs w"
    and cancel_obs: "obs (snd (we_cancel env p w)) = obs w"
    and execute_obs: "obs (snd (we_execute env calls w)) = obs w @ [marks (fst (we_execute env calls w)) (map fst calls)]"
    and execute_prepared_obs: "obs (snd (we_execute_prepared env paid w))
      = obs w @ [marks (fst (we_execute_prepared env paid w)) (map fst paid)]"
begin

abbreviation seen :: "'w run \<Rightarrow> wave_log" where
  "seen r \<equiv> obs (run_world r)"

text \<open>A part of a wave that executes the steps \<open>is\<close>, or ends before it executes anything.\<close>

definition executes :: "string list \<Rightarrow> 'w run \<Rightarrow> ('w, unit) flow \<Rightarrow> bool" where
  "executes is run f \<longleftrightarrow>
     \<not> went_on f \<and> seen (flow_end f) = seen run \<or> adds_wave is (went_on f) (seen run) (seen (flow_end f))"

lemma route_ready_seen: "seen (flow_end (route_ready env req ss routed run)) = seen run"
proof (induction ss arbitrary: routed run)
  case (Cons s ss)
  have route: "we_route env a w = (d, w') \<Longrightarrow> obs w' = obs w" for a w d w'
    using route_obs [of a w] by simp
  show ?case
    using Cons.IH by (auto simp: flow_end_of Let_def route split: sum.splits option.splits prod.splits)
qed simp

lemma cancel_uninvoked_seen: "obs (snd (cancel_uninvoked env ps w)) = obs w"
proof (induction ps arbitrary: w)
  case (Cons p ps)
  have "we_cancel env p w = (r, w') \<Longrightarrow> obs w' = obs w" for r w'
    using cancel_obs [of p w] by simp
  then show ?case using Cons.IH by (auto split: sum.splits prod.splits)
qed simp

lemma stop_cancelled_seen: "seen (flow_end (stop_cancelled env ps st run)) = seen run"
  using cancel_uninvoked_seen [of ps "run_world run"]
  by (auto simp: stop_cancelled_def split: sum.splits prod.splits)

text \<open>What one wave adds to the record.\<close>

lemma execute_offline_seen: "executes (map rt_step wave) run (execute_offline env wave res run)"
proof -
  obtain outcomes w where x: "we_execute env (map (\<lambda>r. (rt_step r, rt_decision r)) wave) (run_world run) = (outcomes, w)"
    by (cases "we_execute env (map (\<lambda>r. (rt_step r, rt_decision r)) wave) (run_world run)")
  then have w: "obs w = seen run @ [marks outcomes (map rt_step wave)]"
    using execute_obs [of "map (\<lambda>r. (rt_step r, rt_decision r)) wave" "run_world run"] by (simp add: o_def)
  have "seen (flow_end (execute_offline env wave res run)) = obs w"
    using collect_offline_world [of outcomes "map rt_step wave" "run\<lparr>run_world := w\<rparr>"]
    by (auto simp: execute_offline_def x flow_end_of split: flow.splits sum.splits)
  moreover have "list_all (produced outcomes) (map rt_step wave)" if "went_on (execute_offline env wave res run)"
    using that collect_offline_produced [of outcomes "map rt_step wave" "run\<lparr>run_world := w\<rparr>"]
    by (auto simp: execute_offline_def x split: flow.splits)
  ultimately show ?thesis
    unfolding executes_def by (intro disjI2) (simp add: w adds_marks)
qed

lemma execute_economic_seen: "executes (map am_step wave) run (execute_economic env wave res run)"
proof -
  obtain outcomes w where x: "we_execute_prepared env (map (\<lambda>a. (am_step a, am_prepared a)) wave) (run_world run) = (outcomes, w)"
    by (cases "we_execute_prepared env (map (\<lambda>a. (am_step a, am_prepared a)) wave) (run_world run)")
  then have w: "obs w = seen run @ [marks outcomes (map am_step wave)]"
    using execute_prepared_obs [of "map (\<lambda>a. (am_step a, am_prepared a)) wave" "run_world run"] by (simp add: o_def)
  have "seen (flow_end (execute_economic env wave res run)) = obs w"
    by (simp add: execute_economic_def x Let_def stop_cancelled_seen finish_economic_world keep_receipts_world)
  moreover have "list_all (produced outcomes) (map am_step wave)" if "went_on (execute_economic env wave res run)"
    using that by (auto simp: execute_economic_def x Let_def list_ex_iff split: if_splits
        intro!: finish_economic_produced)
  ultimately show ?thesis
    unfolding executes_def by (intro disjI2) (simp add: w adds_marks)
qed

lemma executes_stop: "executes is run (stop_cancelled env ps st run)"
  by (simp add: executes_def stop_cancelled_seen)

lemma executes_change: "seen r = seen run \<Longrightarrow> executes is r f \<Longrightarrow> executes is run f"
  by (simp add: executes_def)

lemma executes_flow_of: "(\<And>x. r = Inr x \<Longrightarrow> executes is run (k x)) \<Longrightarrow> executes is run (flow_of r run k)"
  by (cases r) (simp_all add: flow_of_def executes_def)

lemma run_admitted_seen: "executes (map am_step wave) run (run_admitted env ids wave run)"
  unfolding run_admitted_def
proof (rule executes_flow_of)
  fix x :: "(quota_key \<times> rat) list \<times> (quota_key \<times> SubscriptionQuota) list"
  obtain res quotas where x: "x = (res, quotas)" by (cases x)
  show "executes (map am_step wave) run (case x of (res, quotas) \<Rightarrow>
      let r = run\<lparr>run_quota_start := quotas\<rparr> in
      if over_quota env quotas (run_quota_consumed r) res
      then stop_cancelled env ids (failed ''parallel subscription reservation exceeds'' False) r
      else execute_economic env wave res r)"
    by (simp add: x Let_def)
      (auto intro!: executes_change [of "run\<lparr>run_quota_start := quotas\<rparr>"] executes_stop execute_economic_seen)
qed

lemma prepare_wave_seen: "executes (map fst wave) run (prepare_wave env req accounted wave run)"
proof -
  obtain results w where x: "we_prepare env wave (run_world run) = (results, w)"
    by (cases "we_prepare env wave (run_world run)")
  let ?r = "run\<lparr>run_world := w\<rparr>"
  have w: "seen ?r = seen run" using prepare_obs [of wave "run_world run"] x by simp
  show ?thesis
  proof (cases "list_ex (\<lambda>x. \<not> is_ok (results (fst x))) wave")
    case True
    then show ?thesis
      by (simp add: prepare_wave_def x Let_def executes_change [OF w executes_stop])
  next
    case False
    then have all: "\<forall>i \<in> set (map fst wave). is_ok (results i)" by (auto simp: list_ex_iff)
    have step: "executes (map fst wave) ?r (case a of Inl reason \<Rightarrow> stop_cancelled env ids (failed reason False) ?r
        | Inr (admitted, tot) \<Rightarrow> if over_budget req accounted tot then stop_cancelled env ids st ?r
            else run_admitted env ids admitted ?r)"
      if a: "admit_wave env w (wave_items results wave) [] 0 = Inr a" for a ids st
    proof (cases a)
      case (Inr y)
      obtain adm tot where y: "y = (adm, tot)" by (cases y)
      have "map am_step adm = map fst wave"
        using a Inr y admit_wave_steps [of env w "wave_items results wave" "[]" 0 adm tot] prepared_of_length [OF all]
        by (simp add: wave_items_def)
      then show ?thesis
        using run_admitted_seen [of adm ?r ids] by (simp add: Inr y executes_stop)
    qed (simp add: executes_stop)
    show ?thesis
      using False by (simp add: prepare_wave_def x Let_def wave_items_def [symmetric])
        (intro executes_change [OF w] executes_flow_of step)
  qed
qed

text \<open>
  A wave of either kind executes some of the ready steps, or ends before; when it goes on,
  these steps have advanced.
\<close>

definition some_executed :: "WorkflowStep list \<Rightarrow> 'w run \<Rightarrow> ('w, unit) flow \<Rightarrow> bool" where
  "some_executed ready run f \<longleftrightarrow>
     (\<exists>is. set is \<subseteq> ws_step_id ` set ready \<and> (distinct (map ws_step_id ready) \<longrightarrow> distinct is)
       \<and> executes is run f \<and> (\<forall>r. f = Go () r \<longrightarrow> advanced is run r))"

lemma none_executed: "\<not> went_on f \<Longrightarrow> seen (flow_end f) = seen run \<Longrightarrow> some_executed ready run f"
  unfolding some_executed_def by (rule exI [of _ "[]"]) (auto simp: executes_def)

lemma some_executed_flow_of:
  "(\<And>x. r = Inr x \<Longrightarrow> some_executed ready run (k x)) \<Longrightarrow> some_executed ready run (flow_of r run k)"
  by (cases r) (simp_all add: flow_of_def none_executed)

lemma offline_wave_seen: "some_executed ready run (offline_wave env req ready run)"
proof (cases "route_ready env req ready [] run")
  case (Go routed r1)
  let ?is = "map rt_step (wave_of offline_exclusive routed)"
  have steps: "map rt_step routed = map ws_step_id ready" "same_progress run r1" "seen r1 = seen run"
    using route_ready_Go [OF Go] route_ready_seen [of req ready "[]" run] Go by simp_all
  have "executes ?is run (offline_wave env req ready run)"
    unfolding offline_wave_def Go flow.case Let_def
  proof (intro executes_change [OF steps(3)] executes_flow_of)
    fix x :: "(quota_key \<times> rat) list \<times> (quota_key \<times> SubscriptionQuota) list"
    obtain res quotas where x: "x = (res, quotas)" by (cases x)
    show "executes ?is r1 (case x of (res, quotas) \<Rightarrow>
        if over_quota env quotas (run_quota_consumed (r1\<lparr>run_quota_start := quotas\<rparr>)) res
        then Return (failed ''parallel subscription reservation exceeds'' False) (r1\<lparr>run_quota_start := quotas\<rparr>)
        else execute_offline env (wave_of offline_exclusive routed) res (r1\<lparr>run_quota_start := quotas\<rparr>))"
      by (simp add: x) (auto intro!: executes_change [of "r1\<lparr>run_quota_start := quotas\<rparr>"] execute_offline_seen
          simp: executes_def [of _ _ "Return _ _"])
  qed
  moreover have "advanced ?is run r" if went: "offline_wave env req ready run = Go () r" for r
  proof -
    obtain res quotas where "execute_offline env (wave_of offline_exclusive routed) res
        (r1\<lparr>run_quota_start := quotas\<rparr>) = Go () r"
      using went Go by (auto simp: offline_wave_def Let_def split: prod.splits if_splits)
    then show ?thesis
      using steps(2) by (intro advanced_change [OF _ execute_offline_Go]) (auto simp: same_progress_def)
  qed
  ultimately show ?thesis
    unfolding some_executed_def using wave_steps(1,2) [OF steps(1), of offline_exclusive] by blast
qed (use route_ready_seen [of req ready "[]" run] in \<open>simp_all add: offline_wave_def none_executed\<close>)

lemma economic_wave_seen: "some_executed ready run (economic_wave env req ready run)"
  unfolding economic_wave_def
proof (rule some_executed_flow_of)
  fix b
  assume b: "economic_budget env req (run_receipts run) = Inr b"
  let ?p = "economic_exclusive env (run_world run)"
  have "some_executed ready run (prepare_wave env req accounted (wave_of ?p actions) run)"
    if "resolve_actions env req remaining (run_outputs run) ready = Inr actions" for remaining accounted actions
    unfolding some_executed_def
    using wave_steps(1,2) [OF resolve_actions_steps [OF that], of ?p]
      prepare_wave_advanced prepare_wave_seen by blast
  then show "some_executed ready run (case b of Inl reason \<Rightarrow> Return (failed reason False) run
      | Inr (accounted, remaining) \<Rightarrow>
          flow_of (resolve_actions env req remaining (run_outputs run) ready) run (\<lambda>actions.
            prepare_wave env req accounted (wave_of ?p actions) run))"
    by (cases b) (auto simp: none_executed intro!: some_executed_flow_of)
qed

lemma wave_seen: "some_executed ready run (workflow_wave env req ready run)"
  using offline_wave_seen economic_wave_seen by (simp add: workflow_wave_def)

lemma loop_seen:
  assumes "recorded req before past r" and dist: "distinct (map ws_step_id (wr_steps req))"
    and "seen r = past"
  shows "\<exists>l. seen (flow_end (workflow_loop env req r)) = l \<and> distinct (executed l)
    \<and> set (executed l) \<subseteq> ws_step_id ` set (wr_steps req) - set before \<and> in_order req (set before) l"
  using assms(1,3)
proof (induction "length (run_pending r)" arbitrary: r past rule: less_induct)
  case less
  have steps: "distinct (map ws_step_id (ready_steps r))"
    using less.prems(1) by (intro ready_distinct pending_distinct [OF dist]) (simp add: recorded_def)
  have stay: ?case if "seen (flow_end (workflow_loop env req r)) = seen r"
    using that less.prems by (simp add: recorded_def)
  show ?case
  proof (cases "run_pending r = [] \<or> ready_steps r = []")
    case True
    then show ?thesis by (intro stay) (auto simp: workflow_loop.simps [of env req r])
  next
    case False
    then have ne: "run_pending r \<noteq> []" "ready_steps r \<noteq> []" by simp_all
    let ?f = "workflow_wave env req (ready_steps r) r"
    obtain "is" where i: "set is \<subseteq> ws_step_id ` set (ready_steps r)" "distinct is" "executes is r ?f"
        "\<And>s. ?f = Go () s \<Longrightarrow> advanced is r s"
      using wave_seen [of "ready_steps r" r req] steps unfolding some_executed_def by blast
    have last: ?thesis if "flow_end (workflow_loop env req r) = flow_end ?f"
    proof (cases "seen (flow_end ?f) = seen r")
      case same: True
      then show ?thesis using stay that by simp
    next
      case False
      then obtain fl where fl: "seen (flow_end ?f) = past @ [fl]" "map fst fl = is"
        using i(3) less.prems(2) by (auto simp: executes_def adds_wave_def)
      show ?thesis
        using recorded_more [OF less.prems(1) dist, of fl, unfolded fl(2), OF i(2,1)] fl(1) that by simp
    qed
    show ?thesis
    proof (cases ?f)
      case (Go u s)
      obtain fl where fl: "seen s = past @ [fl]" "map fst fl = is" "list_all snd fl"
        using i(3) Go less.prems(2) by (auto simp: executes_def adds_wave_def)
      note more = recorded_more [OF less.prems(1) dist, of fl, unfolded fl(2), OF i(2,1)]
      have adv: "advanced is r s" using i(4) Go by simp
      have "pending_open req s" "map fst (run_outputs s) = before @ executed (past @ [fl])"
        using advanced_open [OF _ dist i(2,1) adv] less.prems(1) fl(2) by (auto simp: recorded_def executed_def)
      then have "recorded req before (past @ [fl]) s"
        using more fl(3) less.prems(1) by (simp add: recorded_def)
      moreover have "length (run_pending s) < length (run_pending r)"
        using wave_progress [of env req r s] Go ne by simp
      ultimately show ?thesis using less.hyps fl(1) Go ne by (simp add: workflow_loop.simps [of env req r])
    next
      case (Raise e s)
      then show ?thesis by (intro last) (simp add: workflow_loop.simps [of env req r] ne)
    next
      case (Return st s)
      then show ?thesis by (intro last) (simp add: workflow_loop.simps [of env req r] ne)
    qed
  qed
qed

end

section \<open>Logging the executions\<close>

text \<open>An environment whose world also lists the waves it was asked to execute.\<close>

definition logging :: "'w workflow_env \<Rightarrow> ('w \<times> wave_log) workflow_env" where
  "logging env =
     \<lparr>we_loads = we_loads env, we_to_float = we_to_float env, we_currency = we_currency env,
       we_economic = we_economic env, we_schemas = (\<lambda>c (w, l). we_schemas env c w),
       we_executor = (\<lambda>i (w, l). we_executor env i w), we_compatible = (\<lambda>c v (w, l). we_compatible env c v w),
       we_quota = (\<lambda>s cx (w, l). we_quota env s cx w), we_resource_unit = we_resource_unit env,
       we_route = (\<lambda>a (w, l). case we_route env a w of (v, w') \<Rightarrow> (v, (w', l))),
       we_execute = (\<lambda>calls (w, l).
         case we_execute env calls w of (v, w') \<Rightarrow> (v, (w', l @ [marks v (map fst calls)]))),
       we_prepare = (\<lambda>a (w, l). case we_prepare env a w of (v, w') \<Rightarrow> (v, (w', l))),
       we_prepared_state = (\<lambda>p (w, l). we_prepared_state env p w),
       we_cancel = (\<lambda>p (w, l). case we_cancel env p w of (v, w') \<Rightarrow> (v, (w', l))),
       we_context = (\<lambda>p (w, l). we_context env p w),
       we_execute_prepared = (\<lambda>calls (w, l).
         case we_execute_prepared env calls w of (v, w') \<Rightarrow> (v, (w', l @ [marks v (map fst calls)])))\<rparr>"

interpretation logs: observed_workflow "logging env" snd for env :: "'w workflow_env"
  by unfold_locales (auto simp: logging_def Let_def split: prod.splits)

text \<open>
  C12 Whatever the routes, quotas and results are, and also when the workflow is resumed with
  the outputs of earlier steps, a run executes every step at most once, only steps of the
  workflow without an output, and each only when everything it depends on had an output at the
  start or was executed in an earlier wave of the run with a successful result that was not
  handed over.
\<close>

theorem steps_run_once_in_order:
  assumes "distinct (map ws_step_id (wr_steps req))"
  shows "let past = snd (run_world (flow_end (workflow_loop (logging env) req
      (initial_run req outputs receipts (w, []))))) in
    distinct (executed past) \<and> set (executed past) \<subseteq> ws_step_id ` set (wr_steps req) - keys outputs
    \<and> in_order req (keys outputs) past"
proof -
  let ?r = "initial_run req outputs receipts (w, [])"
  have "recorded req (map fst outputs) [] ?r"
    using initial_open by (simp add: recorded_def in_order_def initial_run_def keys_map executed_def)
  then show ?thesis
    using logs.loop_seen [OF _ assms, of "map fst outputs" "[]" ?r env]
    by (auto simp: initial_run_def keys_map Let_def)
qed

end
