(* ===== verification/Workflow_Budget.thy ===== *)
theory Workflow_Budget
  imports Workflow_Order
begin

text \<open>
  The budget of a workflow with economic networking: a wave is executed only when the cash
  accounted so far and the maxima of its prepared decisions fit, so a workflow whose prepared
  executions stay within their maxima never costs more than its budget.
\<close>

section \<open>Receipts of a wave\<close>

lemma keep_receipts_all: "run_receipts (keep_receipts outcomes is run) = run_receipts run @ receipts_of outcomes is"
  by (induction outcomes "is" run rule: keep_receipts.induct)
    (auto simp: record_receipts_def receipts_of_def split: sum.splits)

lemma keep_outputs_receipts: "keep_outputs outcomes is w b run = (w', b', r) \<Longrightarrow> run_receipts r = run_receipts run"
  by (induction outcomes "is" w b run rule: keep_outputs.induct)
    (auto simp: record_output_def split: sum.splits if_splits)

lemma finish_economic_receipts:
  "run_receipts (flow_end (finish_economic env outcomes is res run)) = run_receipts run"
  by (cases "keep_outputs outcomes is None False run")
    (auto simp: finish_economic_def flow_end_of Let_def keep_outputs_receipts split: sum.splits option.splits)

lemma stop_cancelled_receipts: "run_receipts (flow_end (stop_cancelled env ps st run)) = run_receipts run"
  by (auto simp: stop_cancelled_def split: sum.splits prod.splits)

definition paid_calls :: "admitted list \<Rightarrow> (string \<times> PreparedRouteDecision) list" where
  "paid_calls wave = map (\<lambda>a. (am_step a, am_prepared a)) wave"

lemma execute_economic_receipts:
  "run_receipts (flow_end (execute_economic env wave res run)) =
     run_receipts run @ receipts_of (fst (we_execute_prepared env (paid_calls wave) (run_world run))) (map am_step wave)"
  by (simp add: execute_economic_def paid_calls_def Let_def stop_cancelled_receipts finish_economic_receipts
      keep_receipts_all split: prod.splits)

text \<open>The cash of a list of receipts, zero when it is not known.\<close>

definition known_cash_of :: "'w workflow_env \<Rightarrow> ExecutionReceipt list \<Rightarrow> rat" where
  "known_cash_of env rs = (case cash_of env rs (we_currency env) of Inr (Some q) \<Rightarrow> q | _ \<Rightarrow> 0)"

text \<open>Calls of decisions that the environment itself prepared.\<close>

definition prepared_by :: "'w workflow_env \<Rightarrow> (string \<times> PreparedRouteDecision) list \<Rightarrow> bool" where
  "prepared_by env paid =
     (\<forall>x \<in> set paid. \<exists>actions w. fst (we_prepare env actions w) (fst x) = Inr (snd x))"

text \<open>
  What the router relies on when it executes after the receipts \<open>rs\<close>: executing prepared
  decisions adds at most the sum of their maxima to the cash, whenever the sum can be named.
\<close>

definition adds_within_maxima :: "'w workflow_env \<Rightarrow> ExecutionReceipt list \<Rightarrow> bool" where
  "adds_within_maxima env rs =
     (\<forall>paid w c. prepared_by env paid
        \<and> cash_of env (rs @ receipts_of (fst (we_execute_prepared env paid w)) (map fst paid)) (we_currency env)
            = Inr (Some c)
        \<longrightarrow> c \<le> known_cash_of env rs + sum_list (map (\<lambda>x. maximum_of (snd x)) paid))"

section \<open>A wave stays within the budget\<close>

definition within_budget :: "'w workflow_env \<Rightarrow> rat \<Rightarrow> ExecutionReceipt list \<Rightarrow> bool" where
  "within_budget env b rs =
     (case cash_of env rs (we_currency env) of Inr (Some c) \<Rightarrow> c \<le> b | _ \<Rightarrow> True)"

lemma admit_wave_total:
  "admit_wave env w items acc tot = Inr (Inr (wave, tot2)) \<Longrightarrow>
     tot2 - sum_list (map (\<lambda>a. maximum_of (am_prepared a)) wave)
       = tot - sum_list (map (\<lambda>a. maximum_of (am_prepared a)) acc)"
  by (induction env w items acc tot rule: admit_wave.induct) (auto split: option.splits sum.splits)

lemma run_admitted_receipts:
  "run_receipts (flow_end (run_admitted env ids wave run)) = run_receipts run
   \<or> run_receipts (flow_end (run_admitted env ids wave run)) =
       run_receipts run @ receipts_of (fst (we_execute_prepared env (paid_calls wave) (run_world run))) (map fst (paid_calls wave))"
  by (auto simp: run_admitted_def flow_end_of Let_def stop_cancelled_receipts execute_economic_receipts
      paid_calls_def o_def split: sum.splits prod.splits)

lemma run_admitted_budget:
  assumes "adds_within_maxima env (run_receipts run)" and "within_budget env b (run_receipts run)"
    and "prepared_by env (paid_calls wave)"
    and fits: "known_cash_of env (run_receipts run) + sum_list (map (\<lambda>a. maximum_of (am_prepared a)) wave) \<le> b"
  shows "within_budget env b (run_receipts (flow_end (run_admitted env ids wave run)))"
  using run_admitted_receipts [of env ids wave run]
proof
  let ?rs = "run_receipts run @ receipts_of (fst (we_execute_prepared env (paid_calls wave) (run_world run)))
      (map fst (paid_calls wave))"
  assume "run_receipts (flow_end (run_admitted env ids wave run)) = ?rs"
  moreover have "c \<le> b" if "cash_of env ?rs (we_currency env) = Inr (Some c)" for c
  proof -
    have "c \<le> known_cash_of env (run_receipts run) + sum_list (map (\<lambda>x. maximum_of (snd x)) (paid_calls wave))"
      using assms(1,3) that unfolding adds_within_maxima_def by blast
    then show ?thesis using fits by (simp add: paid_calls_def o_def)
  qed
  ultimately show ?thesis by (simp add: within_budget_def split: sum.splits option.splits)
qed (simp add: assms(2))

text \<open>What is admitted was prepared for its step.\<close>

lemma admit_wave_prepared:
  "admit_wave env w items acc tot = Inr (Inr (wave, tot2)) \<Longrightarrow> a \<in> set wave \<Longrightarrow>
     a \<in> set acc \<or> (\<exists>action. (am_step a, action, am_prepared a) \<in> set items)"
proof (induction env w items acc tot rule: admit_wave.induct)
  case (2 env w i action p rest acc tot)
  obtain d spec where go: "prepared_problem (we_currency env) p = None" "we_context env (pd_prepared_id p) w = Some d"
      "we_executor env (the (pd_selected_executor_id p)) w = Inr spec"
    using 2(2) by (auto split: option.splits sum.splits)
  show ?case using 2(1) [OF go] 2(2,3) go by auto
qed simp

lemma wave_items_prepared:
  "\<forall>i \<in> set (map fst wave). is_ok (results i) \<Longrightarrow> (i, action, p) \<in> set (wave_items results wave) \<Longrightarrow> results i = Inr p"
  by (induction wave) (auto simp: wave_items_def prepared_of_def List.map_filter_simps is_ok_iff)

text \<open>What the check of the budget has established when it lets a wave pass.\<close>

lemma economic_budget_accounts:
  assumes "economic_budget env req rs = Inr (Inr (accounted, remaining))"
  shows "accounted = known_cash_of env rs"
  using assms by (auto simp: economic_budget_def known_cash_of_def Let_def split: if_splits sum.splits option.splits)

lemma prepare_wave_budget:
  assumes "adds_within_maxima env (run_receipts run)" and "within_budget env b (run_receipts run)"
    and "wr_max_cash_usd req = Some b"
  shows "within_budget env b (run_receipts (flow_end (prepare_wave env req (known_cash_of env (run_receipts run)) wave run)))"
proof -
  let ?k = "known_cash_of env (run_receipts run)"
  obtain results w where x: "we_prepare env wave (run_world run) = (results, w)"
    by (cases "we_prepare env wave (run_world run)")
  let ?ids = "map pd_prepared_id (prepared_of results (map fst wave))"
  have stays: ?thesis if "run_receipts (flow_end (prepare_wave env req ?k wave run)) = run_receipts run"
    using that assms(2) by simp
  show ?thesis
  proof (cases "list_ex (\<lambda>x. \<not> is_ok (results (fst x))) wave")
    case True
    then show ?thesis by (intro stays) (simp add: prepare_wave_def x Let_def stop_cancelled_receipts)
  next
    case False
    have unfold: "prepare_wave env req ?k wave run = flow_of (admit_wave env w (wave_items results wave) [] 0) (run\<lparr>run_world := w\<rparr>)
        (\<lambda>a. case a of Inl reason \<Rightarrow> stop_cancelled env ?ids (failed reason False) (run\<lparr>run_world := w\<rparr>)
         | Inr (admitted, tot) \<Rightarrow>
             if over_budget req ?k tot
             then stop_cancelled env ?ids (failed ''prepared workflow cash maxima exceed the workflow budget'' False)
                    (run\<lparr>run_world := w\<rparr>)
             else run_admitted env ?ids admitted (run\<lparr>run_world := w\<rparr>))"
      using False by (simp add: prepare_wave_def x Let_def wave_items_def)
    show ?thesis
    proof (cases "admit_wave env w (wave_items results wave) [] 0")
      case (Inl e)
      then show ?thesis by (intro stays) (simp add: unfold flow_of_def)
    next
      case (Inr a)
      show ?thesis
      proof (cases "\<exists>adm tot. a = Inr (adm, tot) \<and> \<not> over_budget req ?k tot")
        case True
        then obtain adm tot where a: "a = Inr (adm, tot)" "\<not> over_budget req ?k tot" by blast
        have "tot = sum_list (map (\<lambda>a. maximum_of (am_prepared a)) adm)"
          using admit_wave_total [of env w "wave_items results wave" "[]" 0 adm tot] Inr a(1) by simp
        then have "?k + sum_list (map (\<lambda>a. maximum_of (am_prepared a)) adm) \<le> b"
          using a(2) assms(3) by (simp add: over_budget_def)
        moreover have "prepared_by env (paid_calls adm)"
        proof -
          have all: "\<forall>i \<in> set (map fst wave). is_ok (results i)"
            using \<open>\<not> list_ex (\<lambda>x. \<not> is_ok (results (fst x))) wave\<close> by (auto simp: list_ex_iff)
          have "fst (we_prepare env wave (run_world run)) (am_step y) = Inr (am_prepared y)" if "y \<in> set adm" for y
            using admit_wave_prepared [of env w _ "[]" 0 adm tot y] Inr a(1) that wave_items_prepared [OF all] x
            by fastforce
          then show ?thesis unfolding prepared_by_def paid_calls_def by auto
        qed
        ultimately show ?thesis
          using run_admitted_budget [of env "run\<lparr>run_world := w\<rparr>" b adm ?ids] assms(1,2) Inr a
          by (simp add: unfold flow_of_def)
      next
        case False
        then show ?thesis
          using Inr by (intro stays)
            (auto simp: unfold flow_of_def stop_cancelled_receipts split: sum.splits prod.splits)
      qed
    qed
  qed
qed

lemma economic_wave_budget:
  assumes "adds_within_maxima env (run_receipts run)" and "within_budget env b (run_receipts run)"
    and "wr_max_cash_usd req = Some b"
  shows "within_budget env b (run_receipts (flow_end (economic_wave env req ready run)))"
proof -
  have stays: ?thesis if "run_receipts (flow_end (economic_wave env req ready run)) = run_receipts run"
    using that assms(2) by simp
  show ?thesis
  proof (cases "\<exists>accounted remaining actions. economic_budget env req (run_receipts run) = Inr (Inr (accounted, remaining))
      \<and> resolve_actions env req remaining (run_outputs run) ready = Inr actions")
    case True
    then obtain accounted remaining actions where
      x: "economic_budget env req (run_receipts run) = Inr (Inr (accounted, remaining))"
        "resolve_actions env req remaining (run_outputs run) ready = Inr actions" by blast
    show ?thesis
      using prepare_wave_budget [OF assms] economic_budget_accounts [OF x(1)]
      by (simp add: economic_wave_def flow_of_def x)
  next
    case False
    then show ?thesis
      by (intro stays) (auto simp: economic_wave_def flow_end_of split: sum.splits prod.splits)
  qed
qed

section \<open>The whole workflow\<close>

lemma loop_budget:
  assumes maxima: "\<And>s. wave_reach env req start s \<Longrightarrow> adds_within_maxima env (run_receipts s)"
    and "we_economic env" and "wr_max_cash_usd req = Some b"
    and "wave_reach env req start run" and "within_budget env b (run_receipts run)"
  shows "within_budget env b (run_receipts (flow_end (workflow_loop env req run)))"
  using assms(4,5)
proof (induction "length (run_pending run)" arbitrary: run rule: less_induct)
  case less
  show ?case
  proof (cases "run_pending run = [] \<or> ready_steps run = []")
    case True
    then show ?thesis using less.prems(2) by (auto simp: workflow_loop.simps [of env req run])
  next
    case False
    have wave: "within_budget env b (run_receipts (flow_end (workflow_wave env req (ready_steps run) run)))"
      using economic_wave_budget [OF maxima [OF less.prems(1)] less.prems(2) assms(3)] assms(2)
      by (simp add: workflow_wave_def)
    show ?thesis
    proof (cases "workflow_wave env req (ready_steps run) run")
      case (Go u s)
      have "wave_reach env req start s"
        by (rule wave_reach.wave [OF less.prems(1)]) (use False Go in auto)
      then show ?thesis
        using less.hyps [of s] wave wave_progress [of env req run s] False Go
        by (simp add: workflow_loop.simps [of env req run])
    qed (use wave False in \<open>simp_all add: workflow_loop.simps [of env req run]\<close>)
  qed
qed

lemma workflow_result_ok:
  assumes "workflow_result env req st run = (Inr out, w)"
  shows "\<exists>a outputs path. aggregate_accounting (we_loads env) (run_receipts run) = Inr a
    \<and> out = outcome_of env req st run a outputs path"
proof (cases "aggregate_accounting (we_loads env) (run_receipts run)")
  case (Inr a)
  let ?p = "if stop_status st = Flow_SUCCESS then project_outputs (run_outputs run) (wr_outputs req) [] else Ok []"
  obtain outputs where outputs: "?p = Inr outputs"
    using assms Inr by (cases ?p) (simp_all add: workflow_result_def Let_def)
  let ?c = "workflow_critical_path (Suc (length (wr_steps req))) (wr_steps req)
    (if stop_timed st then run_durations run else []) (re_elapsed env)"
  obtain path where "?c = Some path"
    using assms Inr outputs by (cases ?c) (simp_all add: workflow_result_def Let_def)
  then show ?thesis
    using assms Inr outputs by (auto simp: workflow_result_def Let_def)
qed (use assms in \<open>simp add: workflow_result_def Let_def\<close>)

text \<open>
  C13 With economic networking a workflow never costs more than its budget: when executing
  prepared decisions adds at most their authorized maxima, the actual cash of the result is
  within the maximum the caller set, however the workflow ends.
\<close>

theorem workflow_cash_within_budget:
  assumes maxima: "\<And>s. wave_reach (workflow_env.truncate env) req (initial_run req outputs [] w) s
      \<Longrightarrow> adds_within_maxima (workflow_env.truncate env) (run_receipts s)"
    and "we_economic env" and "we_currency env = ''USD''"
    and "wr_max_cash_usd req = Some b"
    and "execute_workflow env req outputs [] w = (Inr out, w')"
    and "wo_actual_cash_total_usd out = Some c"
  shows "c \<le> b"
proof -
  let ?e = "workflow_env.truncate env"
  let ?f = "workflow_loop ?e req (initial_run req outputs [] w)"
  have e: "we_economic ?e" "we_currency ?e = ''USD''" "we_loads ?e = we_loads env"
    using assms(2,3) by (simp_all add: workflow_env.truncate_def)
  obtain st where "workflow_result env req st (flow_end ?f) = (Inr out, w')"
    using assms(5) by (auto simp: execute_workflow_def split: sum.splits flow.splits)
  from workflow_result_ok [OF this] have "cash_of ?e (run_receipts (flow_end ?f)) ''USD'' = Inr (Some c)"
    using assms(6) by (auto simp: outcome_of_def cash_of_def e)
  moreover have "within_budget ?e b (run_receipts (initial_run req outputs [] w))"
    by (simp add: within_budget_def cash_of_def initial_run_def aggregate_accounting_def Let_def
        independent_receipts_def latest_receipts_def first_places_def List.map_filter_simps aggregate_status_def
        mk_cash_accounting_def actual_cash_cost_def)
  then have "within_budget ?e b (run_receipts (flow_end ?f))"
    using loop_budget [OF maxima e(1) assms(4) wave_reach.here] by blast
  ultimately show "c \<le> b" by (simp add: within_budget_def e(2))
qed

end
