(* ===== verification/Workflow_Waiting.thy ===== *)
theory Workflow_Waiting
  imports Workflow_Budget
begin

text \<open>
  What a wave keeps when one of its steps hands over to a host or a delegate. The prepared
  path collects all results of the wave before it returns; the offline path returns at the
  first step that hands over, and what the steps after it produced is not kept.
\<close>

section \<open>Offline\<close>

definition handed_over :: "(string \<Rightarrow> ExecutionOutcome result) \<Rightarrow> string \<Rightarrow> bool" where
  "handed_over outcomes i = (case outcomes i of Inl _ \<Rightarrow> False | Inr out \<Rightarrow> hands_over out)"

text \<open>The outputs after those of the steps \<open>is\<close> are recorded.\<close>

definition outputs_with ::
  "(string \<Rightarrow> ExecutionOutcome result) \<Rightarrow> string list \<Rightarrow> (string \<times> json) list \<Rightarrow> (string \<times> json) list" where
  "outputs_with outcomes is outs =
     foldl (\<lambda>os k. case outcomes k of Inl _ \<Rightarrow> os | Inr out \<Rightarrow> put_key k (eo_output out) os) outs is"

lemma keys_put_key: "keys (put_key k v kvs) = insert k (keys kvs)"
  by (simp add: keys_map keys_put) (auto simp: insert_absorb)

lemma keys_outputs_with:
  "list_all (produced outcomes) is \<Longrightarrow> keys (outputs_with outcomes is outs) = keys outs \<union> set is"
  unfolding outputs_with_def
  by (induction "is" arbitrary: outs) (auto simp: keys_put_key produced_def split: sum.splits)

lemma collect_stops:
  assumes "list_all (produced outcomes) is" and "outcomes i = Inr out" and "hands_over out"
  shows "\<exists>r. collect_offline outcomes (is @ i # js) run = Return (waiting_on i (eo_decision_id out)) r
    \<and> run_receipts r = run_receipts run @ receipts_of outcomes (is @ [i])
    \<and> run_outputs r = outputs_with outcomes is (run_outputs run)
    \<and> run_pending r = filter (\<lambda>s. ws_step_id s \<notin> set is) (run_pending run)"
  using assms(1)
proof (induction "is" arbitrary: run)
  case Nil
  show ?case using assms(2,3) by (simp add: record_receipts_def receipts_of_def outputs_with_def)
next
  case (Cons k "is")
  obtain o' where o': "outcomes k = Inr o'" "eo_ok o'" "\<not> hands_over o'"
    using Cons.prems by (auto elim: producedE)
  have "list_all (produced outcomes) is" using Cons.prems by simp
  from Cons.IH [OF this, of "record_output k (eo_output o') (record_receipts k (eo_receipts o') run)"]
  show ?case using o'
    by (auto simp: record_output_def record_receipts_def receipts_of_def outputs_with_def conj_commute Let_def)
qed

text \<open>Resuming starts from these outputs and the one of the host, so the rest of the wave is ready again.\<close>

lemma rest_ready_again:
  assumes open_r: "pending_open req run" and s: "s \<in> set (ready_steps run)" "ws_step_id s \<in> set js"
    and "distinct (is @ i # js)" and "list_all (produced outcomes) is"
  shows "s \<in> set (ready_steps (initial_run req
      (put_key i answer (outputs_with outcomes is (run_outputs run))) receipts w))"
proof -
  have keys: "keys (put_key i answer (outputs_with outcomes is (run_outputs run)))
      = insert i (keys (run_outputs run) \<union> set is)"
    using assms(5) by (simp add: keys_put_key keys_outputs_with)
  have "s \<in> set (run_pending run)" using s(1) ready_subset by blast
  then have "s \<in> set (wr_steps req)" "ws_step_id s \<notin> insert i (keys (run_outputs run) \<union> set is)"
    using open_r s(2) assms(4) by (auto simp: pending_open_def)
  moreover have "set (ws_depends_on s) \<subseteq> keys (run_outputs run)"
    using s(1) by (auto simp: ready_steps_def list_all_iff keys_def)
  ultimately show ?thesis
    using keys by (auto simp: ready_steps_def initial_run_def list_all_iff keys_def [symmetric])
qed

text \<open>
  C16 When a step of a parallel offline wave hands over, the run keeps the receipts and outputs
  only up to that step. The steps after it were executed in the same call, but their receipts
  are not counted, their outputs are not recorded and they stay pending: the run that resuming
  starts from the recorded outputs and the answer finds each of them ready once more, so that
  it is executed a second time.
\<close>

theorem waiting_wave_loses_results:
  assumes "we_execute env (map (\<lambda>r. (rt_step r, rt_decision r)) wave) (run_world run) = (outcomes, w)"
    and "map rt_step wave = is @ i # js" and "distinct (map rt_step wave)" and "pending_open req run"
    and "list_all (produced outcomes) is" and "outcomes i = Inr out" and "hands_over out"
  shows "\<exists>r. execute_offline env wave res run = Return (waiting_on i (eo_decision_id out)) r
    \<and> run_receipts r = run_receipts run @ receipts_of outcomes (is @ [i])
    \<and> run_outputs r = outputs_with outcomes is (run_outputs run)
    \<and> run_pending r = filter (\<lambda>s. ws_step_id s \<notin> set is) (run_pending run)
    \<and> (\<forall>s \<in> set (ready_steps run). ws_step_id s \<in> set js \<longrightarrow>
        s \<in> set (ready_steps (initial_run req (put_key i answer (run_outputs r)) receipts w')))"
  using collect_stops [OF assms(5-7), of js "run\<lparr>run_world := w\<rparr>"]
    rest_ready_again [OF assms(4) _ _ _ assms(5), of _ js i answer receipts w'] assms(3)
  by (auto simp: execute_offline_def assms(1,2))

section \<open>Prepared\<close>

lemma keep_outputs_pending:
  "keep_outputs outcomes is w b run = (w', b', r) \<Longrightarrow>
     run_pending r = filter (\<lambda>s. \<not> (ws_step_id s \<in> set is \<and> produced outcomes (ws_step_id s))) (run_pending run)"
proof (induction outcomes "is" w b run rule: keep_outputs.induct)
  case (2 outcomes i "is" waiting bad run)
  show ?case
  proof (cases "produced outcomes i")
    case True
    then obtain out where "outcomes i = Inr out" "eo_ok out" "\<not> hands_over out" by (rule producedE)
    then show ?thesis
      using 2 True by (auto simp: record_output_def intro!: filter_cong)
  next
    case False
    then have "\<exists>w b. keep_outputs outcomes is w b run = (w', b', r)"
      using "2.prems" by (auto simp: produced_def split: sum.splits if_splits)
    then show ?thesis
      using 2 False by (auto simp: produced_def split: sum.splits if_splits intro!: filter_cong)
  qed
qed simp

lemma keep_outputs_waiting:
  "keep_outputs outcomes is w b run = (w', b', r) \<Longrightarrow>
     w' = w \<and> (\<forall>i \<in> set is. \<not> handed_over outcomes i)
     \<or> (\<exists>i d. w' = Some (i, d) \<and> i \<in> set is \<and> handed_over outcomes i)"
proof (induction outcomes "is" w b run rule: keep_outputs.induct)
  case (2 outcomes i "is" waiting bad run)
  show ?case
  proof (cases "handed_over outcomes i")
    case True
    then obtain out where out: "outcomes i = Inr out" "hands_over out"
      by (auto simp: handed_over_def split: sum.splits)
    then show ?thesis using 2(2) [OF out(1,2)] "2.prems" True by auto
  next
    case False
    then show ?thesis using 2 by (auto simp: handed_over_def split: sum.splits if_splits)
  qed
qed simp

lemma keep_receipts_pending: "run_pending (keep_receipts outcomes is run) = run_pending run"
  by (induction outcomes "is" run rule: keep_receipts.induct)
    (auto simp: record_receipts_def split: sum.splits)

text \<open>
  When a step of a prepared wave hands over and none raised, everything the wave produced is
  kept: all its receipts are counted, every step that produced a result has its output and is
  no longer pending, and the workflow waits on a step that handed over.
\<close>

theorem prepared_wave_keeps_results:
  assumes exec: "we_execute_prepared env (map (\<lambda>a. (am_step a, am_prepared a)) wave) (run_world run) = (outcomes, w)"
    and ids: "map am_step wave = is"
    and "list_all (\<lambda>i. is_ok (outcomes i)) is" and "list_ex (handed_over outcomes) is"
    and "is_ok (aggregate_accounting (we_loads env) (receipts_of outcomes is))"
  shows "\<exists>i d r. execute_economic env wave res run = Return (waiting_on i d) r
    \<and> i \<in> set is \<and> handed_over outcomes i
    \<and> run_receipts r = run_receipts run @ receipts_of outcomes is
    \<and> run_pending r = filter (\<lambda>s. \<not> (ws_step_id s \<in> set is \<and> produced outcomes (ws_step_id s))) (run_pending run)"
proof -
  let ?r = "keep_receipts outcomes is (run\<lparr>run_world := w\<rparr>)"
  obtain w' b r where kept: "keep_outputs outcomes is None False ?r = (w', b, r)"
    by (cases "keep_outputs outcomes is None False ?r")
  obtain i d where i: "w' = Some (i, d)" "i \<in> set is" "handed_over outcomes i"
    using keep_outputs_waiting [OF kept] assms(4) by (auto simp: list_ex_iff)
  obtain consumed where "consume_wave env (receipts_of outcomes is) res (run_quota_consumed r) = Inr consumed"
    using assms(5) by (auto simp: consume_wave_def is_ok_iff Let_def)
  moreover have "\<not> list_ex (\<lambda>i. \<not> is_ok (outcomes i)) is"
    using assms(3) by (auto simp: list_ex_iff list_all_iff)
  moreover have "finish_economic env outcomes is res ?r = Return (waiting_on i d) (r\<lparr>run_quota_consumed := consumed\<rparr>)"
    using calculation(1) by (simp add: finish_economic_def kept i(1) flow_of_def)
  ultimately have "execute_economic env wave res run = Return (waiting_on i d) (r\<lparr>run_quota_consumed := consumed\<rparr>)"
    by (simp add: execute_economic_def exec ids Let_def)
  moreover have "run_receipts r = run_receipts run @ receipts_of outcomes is"
    using keep_outputs_receipts [OF kept] by (simp add: keep_receipts_all)
  ultimately show ?thesis
    using i(2,3) keep_outputs_pending [OF kept] by (auto simp: keep_receipts_pending)
qed

end
