(* ===== verification/Workflow_Samples.thy ===== *)
theory Workflow_Samples
  imports Workflow_Waiting Payment_Samples
begin

text \<open>
  Sample workflows: a second step that reads the output of the first, run without and with
  economic networking, and two parallel steps of which the first hands over to a host. What an
  offline wave keeps when one of its steps hands over is stated here as well.
\<close>

section \<open>A workflow of two steps\<close>

definition flow_action :: "string \<Rightarrow> json \<Rightarrow> ActionRequest" where
  "flow_action i input =
     \<lparr>aq_action_id = i, aq_capability = ''text.summarize'', aq_input = input, aq_policy = ''balanced'',
      aq_constraints = default_constraints, aq_context = sample_context\<rparr>"

definition first_step :: WorkflowStep where
  "first_step = \<lparr>ws_step_id = ''fetch'', ws_action = flow_action ''a1'' (J_object []), ws_depends_on = [],
     ws_bindings = []\<rparr>"

definition second_step :: WorkflowStep where
  "second_step = \<lparr>ws_step_id = ''digest'', ws_action = flow_action ''a2'' (J_object [(''text'', J_null)]),
     ws_depends_on = [''fetch''],
     ws_bindings = [\<lparr>wb_target_path = ''/text'', wb_source_step_id = Some ''fetch'', wb_source_path = ''''\<rparr>]\<rparr>"

definition sample_flow :: WorkflowRequest where
  "sample_flow = \<lparr>wr_workflow_id = ''w1'', wr_input = J_object [], wr_constraints = default_constraints,
     wr_max_cash_usd = None, wr_steps = [second_step, first_step],
     wr_outputs = [\<lparr>wp_name = ''summary'', wp_step_id = ''digest'', wp_path = ''''\<rparr>]\<rparr>"

lemmas flow_defs = sample_flow_def first_step_def second_step_def flow_action_def

definition flow_spec :: WorkflowExecutor where
  "flow_spec = ExecutorSpec.extend sample_spec \<lparr>wx_enabled = True, wx_exclusive_resource = False\<rparr>"

definition flow_decision :: RouteDecision where
  "flow_decision = \<lparr>rd_decision_id = ''d1'', rd_selected_executor_id = Some ''summarize.http'',
     rd_candidates = [], rd_explanation = ''''\<rparr>"

definition flow_result :: "ExecutionStatus \<Rightarrow> ExecutionReceipt list \<Rightarrow> ExecutionOutcome" where
  "flow_result st rs = \<lparr>eo_ok = (st = Exec_SUCCESS), eo_status = st, eo_output = J_string ''done'',
     eo_decision_id = ''d1'', eo_receipts = rs\<rparr>"

text \<open>A router whose executions give the results of a function of the step.\<close>

definition sample_router ::
  "bool \<Rightarrow> (string \<Rightarrow> ExecutionOutcome result) \<Rightarrow> PreparedRouteDecision \<Rightarrow> unit workflow_env" where
  "sample_router economic results p =
     \<lparr>we_loads = (\<lambda>_. None), we_to_float = id, we_currency = ''USD'', we_economic = economic,
       we_schemas = (\<lambda>_ _. []), we_executor = (\<lambda>_ _. Ok flow_spec), we_compatible = (\<lambda>_ _ _. [flow_spec]),
       we_quota = (\<lambda>_ _ _. Ok None), we_resource_unit = (\<lambda>_. None),
       we_route = (\<lambda>_ w. (Ok flow_decision, w)), we_execute = (\<lambda>_ w. (results, w)),
       we_prepare = (\<lambda>_ w. (\<lambda>_. Ok p, w)), we_prepared_state = (\<lambda>_ _. None),
       we_cancel = (\<lambda>_ w. (Ok (), w)), we_context = (\<lambda>_ _. Some flow_decision),
       we_execute_prepared = (\<lambda>_ w. (results, w))\<rparr>"

definition free_results :: "string \<Rightarrow> ExecutionOutcome result" where
  "free_results i = Ok (flow_result Exec_SUCCESS [])"

abbreviation offline_router :: "unit workflow_env" where
  "offline_router \<equiv> sample_router False free_results paid_decision"

definition after_first :: "unit run" where
  "after_first = flow_end (workflow_wave offline_router sample_flow
     (ready_steps (initial_run sample_flow [] [] ())) (initial_run sample_flow [] [] ()))"

lemma sample_flow_valid: "is_ok (valid_dag sample_flow)"
  by code_simp

definition cyclic_flow :: WorkflowRequest where
  "cyclic_flow = sample_flow\<lparr>wr_steps := [second_step, first_step\<lparr>ws_depends_on := [''digest'']\<rparr>]\<rparr>"

text \<open>The sample is accepted, hence acyclic; with a dependency back it is refused.\<close>

theorem workflow_accepted_iff_witness:
  "is_ok (valid_dag sample_flow) \<and> acyclic (depends (wr_steps sample_flow)) \<and> is_ok (valid_dag cyclic_flow) = False"
proof -
  have "is_ok (valid_dag cyclic_flow) = False" by code_simp
  then show ?thesis using workflow_accepted_iff [of sample_flow] sample_flow_valid by blast
qed

lemma first_wave: "ready_steps (initial_run sample_flow [] [] ()) \<noteq> []"
  "map fst (run_outputs after_first) = [''fetch'']"
  by code_simp+

lemma first_wave_goes_on:
  "workflow_wave offline_router sample_flow (ready_steps (initial_run sample_flow [] [] ()))
     (initial_run sample_flow [] [] ()) = Go () after_first"
proof -
  have "(case workflow_wave offline_router sample_flow (ready_steps (initial_run sample_flow [] [] ()))
      (initial_run sample_flow [] [] ()) of Go _ _ \<Rightarrow> True | _ \<Rightarrow> False)" by code_simp
  then show ?thesis by (simp add: after_first_def split: flow.splits)
qed

theorem accepted_workflow_never_stuck_witness:
  "is_ok (valid_dag sample_flow) \<and> map fst (run_outputs after_first) = [''fetch''] \<and> ready_steps after_first \<noteq> []"
proof -
  have "wave_reach offline_router sample_flow (initial_run sample_flow [] [] ()) after_first"
    by (rule wave_reach.wave [OF wave_reach.here first_wave(1) first_wave_goes_on])
  from accepted_workflow_never_stuck [OF sample_flow_valid this]
  have "ready_steps after_first \<noteq> []"
    by (auto simp: keys_map first_wave(2) flow_defs)
  then show ?thesis using sample_flow_valid first_wave(2) by blast
qed

text \<open>The whole run, observed: both steps, in the order of their dependency.\<close>

theorem steps_run_once_in_order_witness:
  "(let past = snd (run_world (flow_end (workflow_loop (logging offline_router) sample_flow
      (initial_run sample_flow [] [] ((), []))))) in
    distinct (executed past) \<and> in_order sample_flow {} past
    \<and> past = [[(''fetch'', True)], [(''digest'', True)]])"
proof -
  let ?past = "snd (run_world (flow_end (workflow_loop (logging offline_router) sample_flow
      (initial_run sample_flow [] [] ((), [])))))"
  have "?past = [[(''fetch'', True)], [(''digest'', True)]]" by code_simp
  moreover have "distinct (map ws_step_id (wr_steps sample_flow))" by (simp add: flow_defs)
  ultimately show ?thesis
    using steps_run_once_in_order [of sample_flow offline_router "[]" "[]" "()"] by (simp add: Let_def keys_def)
qed

section \<open>A workflow with a budget\<close>

definition priced_flow :: WorkflowRequest where
  "priced_flow = sample_flow\<lparr>wr_max_cash_usd := Some 5, wr_steps := [first_step], wr_outputs := []\<rparr>"

definition priced_receipt :: ExecutionReceipt where
  "priced_receipt = sample_receipt ''r1'' ''c1'' 3 None"

definition priced_results :: "string \<Rightarrow> ExecutionOutcome result" where
  "priced_results i = Ok (flow_result Exec_SUCCESS [priced_receipt])"

definition priced_env :: "unit router_env" where
  "priced_env = workflow_env.extend (sample_router True priced_results paid_decision)
     \<lparr>re_hash = (\<lambda>_. ''h''), re_elapsed = 1, re_checkpoint = (\<lambda>_ _. None), re_save_checkpoint = (\<lambda>_ _ w. w),
       re_decision = (\<lambda>_ _. None), re_require_active = (\<lambda>_ _ _. Ok ()),
       re_route_now = (\<lambda>_ w. (Ok flow_decision, w)), re_check_output = (\<lambda>_ _. Ok ()),
       re_record_external = (\<lambda>_ _ w. (Ok priced_receipt, w))\<rparr>"

abbreviation priced_router :: "unit workflow_env" where
  "priced_router \<equiv> sample_router True priced_results paid_decision"

lemma priced_truncate: "workflow_env.truncate priced_env = priced_router"
  by (simp add: priced_env_def workflow_env.truncate_def workflow_env.extend_def sample_router_def)

text \<open>However often the receipt is listed, it counts once.\<close>

lemma remdups_single:
  assumes "set xs = {x}" shows "remdups xs = [x]"
proof (cases "remdups xs")
  case (Cons y ys)
  have "distinct (y # ys)" "set (y # ys) = {x}" using assms Cons distinct_remdups [of xs] set_remdups [of xs] by auto
  then show ?thesis using Cons by (cases ys) auto
qed (use assms in auto)

lemma receipt_counts_once:
  assumes "set rs = {r}" and "xr_component_receipt_ids r = None"
  shows "independent_receipts loads rs = [r]"
proof -
  have "set (rev rs) = {r}" using assms(1) by simp
  then have "List.find (\<lambda>x. xr_receipt_id x = xr_receipt_id r) (rev rs) = Some r"
    by (cases "rev rs") auto
  moreover have "remdups (rev (map xr_receipt_id rs)) = [xr_receipt_id r]"
    by (rule remdups_single) (simp add: assms(1))
  ultimately have "latest_receipts rs = [r]"
    by (simp add: latest_receipts_def first_places_def List.map_filter_simps)
  then show ?thesis using assms(2) by (simp add: independent_receipts_def component_ids_def)
qed

lemma priced_cash:
  "set rs = {priced_receipt} \<Longrightarrow> cash_of priced_router rs ''USD'' = Inr (Some 3)"
proof -
  assume "set rs = {priced_receipt}"
  then have "independent_receipts (\<lambda>_. None) rs = [priced_receipt]"
    by (rule receipt_counts_once) (simp add: priced_receipt_def sample_receipt_def)
  moreover have "independent_receipts (\<lambda>_. None) [priced_receipt] = [priced_receipt]"
    by (rule receipt_counts_once) (simp_all add: priced_receipt_def sample_receipt_def)
  ultimately have "cash_of priced_router rs ''USD'' = cash_of priced_router [priced_receipt] ''USD''"
    by (simp add: cash_of_def aggregate_accounting_def sample_router_def)
  moreover have "cash_of priced_router [priced_receipt] ''USD'' = Inr (Some 3)" by code_simp
  ultimately show ?thesis by simp
qed

lemma priced_maxima:
  assumes "set rs \<subseteq> {priced_receipt}"
  shows "adds_within_maxima priced_router rs"
  unfolding adds_within_maxima_def
proof (intro allI impI, elim conjE)
  fix paid :: "(string \<times> PreparedRouteDecision) list" and w c
  let ?rs = "rs @ receipts_of (fst (we_execute_prepared priced_router paid w)) (map fst paid)"
  assume paid: "prepared_by priced_router paid" and "cash_of priced_router ?rs (we_currency priced_router) = Inr (Some c)"
  then have c: "cash_of priced_router ?rs ''USD'' = Inr (Some c)" by (simp add: sample_router_def)
  have cash: "we_currency priced_router = ''USD''" by (simp add: sample_router_def)
  have new: "set (receipts_of (fst (we_execute_prepared priced_router paid w)) (map fst paid)) = (if paid = [] then {} else {priced_receipt})"
    by (auto simp: receipts_of_def sample_router_def priced_results_def flow_result_def)
  have "snd x = paid_decision" if "x \<in> set paid" for x
    using paid that by (auto simp: prepared_by_def sample_router_def)
  moreover have "maximum_of paid_decision = 4" by (simp add: maximum_of_def paid_decision_def dollars_def)
  ultimately have max: "maximum_of (snd x) = 4" if "x \<in> set paid" for x using that by metis
  show "c \<le> known_cash_of priced_router rs + sum_list (map (\<lambda>x. maximum_of (snd x)) paid)"
  proof (cases paid)
    case Nil
    then show ?thesis using c by (simp add: known_cash_of_def cash receipts_of_def)
  next
    case (Cons x paid')
    have "c = 3" using c priced_cash [of ?rs] new Cons assms by auto
    moreover have "0 \<le> known_cash_of priced_router rs"
    proof (cases "rs = []")
      case True
      have "cash_of priced_router [] ''USD'' = Inr None" by code_simp
      then show ?thesis using True by (simp add: known_cash_of_def cash)
    next
      case False
      then have "set rs = {priced_receipt}" using assms by (simp add: subset_singleton_iff)
      then show ?thesis using priced_cash by (simp add: known_cash_of_def cash)
    qed
    moreover have "0 \<le> sum_list (map (\<lambda>x. maximum_of (snd x)) paid')"
      using max Cons by (intro sum_list_nonneg) auto
    ultimately show ?thesis using max Cons by simp
  qed
qed

text \<open>Between the waves there is the start and the state after the only wave.\<close>

abbreviation priced_start :: "unit run" where
  "priced_start \<equiv> initial_run priced_flow [] [] ()"

definition priced_end :: "unit run" where
  "priced_end = flow_end (workflow_wave priced_router priced_flow (ready_steps priced_start) priced_start)"

lemma priced_end_rows: "run_receipts priced_end = [priced_receipt]" "run_pending priced_end = []"
proof -
  have "map xr_receipt_id (run_receipts priced_end) = [''r1'']" by code_simp
  moreover have "list_all (\<lambda>r. r = priced_receipt) (run_receipts priced_end)" by code_simp
  ultimately show "run_receipts priced_end = [priced_receipt]" by (cases "run_receipts priced_end") auto
  have "length (run_pending priced_end) = 0" by code_simp
  then show "run_pending priced_end = []" by simp
qed

lemma priced_reach:
  "wave_reach priced_router priced_flow priced_start r \<Longrightarrow> r = priced_start \<or> r = priced_end"
proof (induction priced_start r rule: wave_reach.induct)
  case (wave s t)
  show ?case
  proof (cases "s = priced_start")
    case True
    then show ?thesis using wave.hyps by (simp add: priced_end_def)
  next
    case False
    then have "ready_steps s = []" using wave.hyps by (simp add: ready_steps_def priced_end_rows(2))
    then show ?thesis using wave.hyps by simp
  qed
qed simp

theorem workflow_cash_within_budget_witness:
  "(\<exists>out w. execute_workflow priced_env priced_flow [] [] () = (Inr out, w)
     \<and> wo_actual_cash_total_usd out = Some 3) \<and> (3 :: rat) \<le> 5"
proof -
  have "(case fst (execute_workflow priced_env priced_flow [] [] ()) of
      Inl _ \<Rightarrow> False | Inr out \<Rightarrow> wo_actual_cash_total_usd out = Some 3)" by code_simp
  then obtain out w where out: "execute_workflow priced_env priced_flow [] [] () = (Inr out, w)"
      "wo_actual_cash_total_usd out = Some 3"
    by (cases "execute_workflow priced_env priced_flow [] [] ()") (auto split: sum.splits)
  have maxima: "adds_within_maxima (workflow_env.truncate priced_env) (run_receipts s)"
    if "wave_reach (workflow_env.truncate priced_env) priced_flow priced_start s" for s
  proof -
    have "s = priced_start \<or> s = priced_end" using priced_reach that by (simp only: priced_truncate)
    then have "set (run_receipts s) \<subseteq> {priced_receipt}"
      by (elim disjE) (simp_all add: priced_end_rows initial_run_def)
    then show ?thesis unfolding priced_truncate by (rule priced_maxima)
  qed
  have "(3 :: rat) \<le> 5"
    by (rule workflow_cash_within_budget [OF maxima _ _ _ out])
      (simp_all add: priced_env_def workflow_env.extend_def sample_router_def priced_flow_def)
  then show ?thesis using out by blast
qed

section \<open>Parallel steps, one of which hands over\<close>

definition split_results :: "string \<Rightarrow> ExecutionOutcome result" where
  "split_results i = Ok (if i = ''ask'' then flow_result Exec_HOST_SELECTED []
     else flow_result Exec_SUCCESS [priced_receipt])"

definition split_flow :: WorkflowRequest where
  "split_flow = sample_flow\<lparr>wr_steps := [first_step\<lparr>ws_step_id := ''ask''\<rparr>, first_step], wr_outputs := []\<rparr>"

abbreviation split_start :: "unit run" where
  "split_start \<equiv> initial_run split_flow [] [] ()"

definition split_wave :: "routed list" where
  "split_wave = map (\<lambda>s. \<lparr>rt_step = ws_step_id s, rt_action = ws_action s, rt_decision = flow_decision,
     rt_spec = flow_spec\<rparr>) (wr_steps split_flow)"

definition split_admitted :: "admitted list" where
  "split_admitted = map (\<lambda>s. \<lparr>am_step = ws_step_id s, am_action = ws_action s, am_prepared = paid_decision,
     am_decision = flow_decision, am_spec = flow_spec\<rparr>) (wr_steps split_flow)"

lemmas split_defs = split_wave_def split_admitted_def split_flow_def sample_flow_def first_step_def
  split_results_def flow_result_def sample_router_def produced_def handed_over_def hands_over_def

lemma split_start_ready: "first_step \<in> set (ready_steps split_start)"
  by (simp add: ready_steps_def initial_run_def split_flow_def sample_flow_def first_step_def)

theorem waiting_wave_loses_results_witness:
  "(\<exists>r. execute_offline (sample_router False split_results paid_decision) split_wave [] split_start
        = Return (waiting_on ''ask'' ''d1'') r
      \<and> run_receipts r = [] \<and> run_outputs r = [] \<and> map ws_step_id (run_pending r) = [''ask'', ''fetch'']
      \<and> first_step \<in> set (ready_steps (initial_run split_flow (put_key ''ask'' J_null (run_outputs r)) [] ())))
   \<and> receipts_of split_results [''ask'', ''fetch''] = [priced_receipt]"
proof -
  have exec: "we_execute (sample_router False split_results paid_decision)
      (map (\<lambda>r. (rt_step r, rt_decision r)) split_wave) (run_world split_start) = (split_results, ())"
    by (simp add: sample_router_def)
  have steps: "map rt_step split_wave = [] @ ''ask'' # [''fetch'']" "distinct (map rt_step split_wave)"
    by (simp_all add: split_defs)
  have out: "list_all (produced split_results) []" "split_results ''ask'' = Inr (flow_result Exec_HOST_SELECTED [])"
    "hands_over (flow_result Exec_HOST_SELECTED [])"
    by (simp_all add: split_defs)
  obtain r where r: "execute_offline (sample_router False split_results paid_decision) split_wave [] split_start
        = Return (waiting_on ''ask'' (eo_decision_id (flow_result Exec_HOST_SELECTED []))) r"
      "run_receipts r = run_receipts split_start @ receipts_of split_results ([] @ [''ask''])"
      "run_outputs r = outputs_with split_results [] (run_outputs split_start)"
      "run_pending r = filter (\<lambda>s. ws_step_id s \<notin> set []) (run_pending split_start)"
      "\<forall>s \<in> set (ready_steps split_start). ws_step_id s \<in> set [''fetch''] \<longrightarrow>
        s \<in> set (ready_steps (initial_run split_flow (put_key ''ask'' J_null (run_outputs r)) [] ()))"
    using waiting_wave_loses_results [OF exec steps initial_open out, of "[]" J_null "[]" "()"] by blast
  have "first_step \<in> set (ready_steps (initial_run split_flow (put_key ''ask'' J_null (run_outputs r)) [] ()))"
    using bspec [OF r(5) split_start_ready] by (simp add: first_step_def)
  moreover have "run_receipts r = []" "run_outputs r = []" "map ws_step_id (run_pending r) = [''ask'', ''fetch'']"
    using r(2-4) by (simp_all add: split_defs receipts_of_def initial_run_def outputs_with_def)
  ultimately show ?thesis
    using r(1) by (auto simp: split_defs receipts_of_def)
qed

theorem prepared_wave_keeps_results_witness:
  "(\<exists>r. execute_economic (sample_router True split_results paid_decision) split_admitted [] split_start
        = Return (waiting_on ''ask'' ''d1'') r
      \<and> run_receipts r = [priced_receipt] \<and> map ws_step_id (run_pending r) = [''ask''])"
proof -
  let ?env = "sample_router True split_results paid_decision"
  have exec: "we_execute_prepared ?env (map (\<lambda>a. (am_step a, am_prepared a)) split_admitted) (run_world split_start)
      = (split_results, ())"
    by (simp add: sample_router_def)
  have steps: "map am_step split_admitted = [''ask'', ''fetch'']"
    "list_all (\<lambda>i. is_ok (split_results i)) [''ask'', ''fetch'']"
    "list_ex (handed_over split_results) [''ask'', ''fetch'']"
    by (simp_all add: split_defs)
  have sum_ok: "is_ok (aggregate_accounting (we_loads ?env) (receipts_of split_results [''ask'', ''fetch'']))"
    by code_simp
  from prepared_wave_keeps_results [OF exec steps sum_ok, of "[]"]
  obtain i d r where r: "execute_economic ?env split_admitted [] split_start = Return (waiting_on i d) r"
    "handed_over split_results i"
    "run_receipts r = run_receipts split_start @ receipts_of split_results [''ask'', ''fetch'']"
    "run_pending r = filter (\<lambda>s. \<not> (ws_step_id s \<in> set [''ask'', ''fetch''] \<and> produced split_results (ws_step_id s)))
      (run_pending split_start)"
    by blast
  have "i = ''ask''" using r(2) by (simp add: split_defs split: if_splits)
  moreover have "(case execute_economic ?env split_admitted [] split_start of
      Return st _ \<Rightarrow> stop_waiting st = Some (''ask'', ''d1'') | _ \<Rightarrow> False)"
    by code_simp
  ultimately show ?thesis using r
    by (simp add: split_defs receipts_of_def initial_run_def waiting_on_def)
qed

end
