(* ===== verification/Spec2Isabelle.thy ===== *)
theory Spec2Isabelle
  imports Attempt_Authority Capacity_Behaviour Rail_Protocol Pricing Routing_Choice Canonical_Laws Manager_Retry
    Idempotency_Runs Rate_Pricing Estimator_Samples Workflow_Samples
begin

text \<open>
  A model of the accounting core of AEEP, a router that sends actions of an agent to
  executors and pays for them (\<open>src/src/aeep\<close>).

  The program. A router chooses an executor for an action, reserves capacity and money for it,
  runs it as an execution attempt, and settles what it cost. The choice is made by \<open>policy.py\<close>,
  \<open>scoring.py\<close> and \<open>Router.route\<close>. Every promise about capacity and money is kept by two
  components: \<open>ReceiptStore\<close> (\<open>store.py\<close>), an SQLite database whose write operations are
  immediate transactions, and the payment rails of \<open>payments.py\<close>, in-memory ledgers whose calls
  pass through a cache of completed operations; \<open>BudgetManager\<close> drives both. What is signed or
  hashed is written by \<open>economic/canonical.py\<close>. The models they store (\<open>models.py\<close>,
  \<open>attempts.py\<close>, \<open>capacity/models.py\<close>) are pydantic classes: construction validates.

  How the code is represented. A pydantic class is a record and its validators a function
  \<open>validate_...\<close> to a result; an exception is a value of \<open>error\<close>; a Decimal is an exact
  rational (the rounding of the 28-digit decimal context and differences of notation such as
  1.0 and 1.00 are abstracted); a datetime is an instant or a naive value; a table is the list of
  its rows in rowid order, and its unique and foreign-key constraints are branches that return
  an \<open>IntegrityError\<close>. An operation takes the store and returns its result and the store; in an
  immediate transaction an error restores the store, as the rollback does. The clock, digests,
  fresh identifiers, signature checks and what external services answer are arguments.

  Theories and what they show.
  \<^item> \<open>Prelude\<close>: errors, time, tables, the transaction, and the locale \<open>bounded_holds\<close> of ledgers
    that admit holds against a limit.
  \<^item> \<open>Capacity_Models\<close>, \<open>Capacity_Policy\<close>: the capacity records and their validation, the
    reduction of an observation to a quota, the authority of entitlements.
  \<^item> \<open>Attempt_Models\<close>, \<open>Economic_Models\<close>: attempts and their transition table; money, pricing
    rules, reservations, settlements and refunds. \<open>Pricing\<close>: evaluating a rule is total, within
    its bounds and monotone.
  \<^item> \<open>Store\<close>, \<open>Capacity_Store\<close>: the store's tables; observations, reservations, entitlements and
    redemptions. \<open>Capacity_Ledger\<close> interprets \<open>bounded_holds\<close> for the reservations and shows that
    no sequence of operations overcommits a resource or an entitlement; \<open>Capacity_Behaviour\<close>
    shows what retries return, when a claim succeeds, and that expiry is never recorded.
  \<^item> \<open>Attempt_Store\<close>: creating, claiming and moving attempts and the capacity bound to them.
    \<open>Attempt_Life\<close> and \<open>Attempt_Authority\<close> show over all reachable stores that an attempt is
    invoked at most once, that delegation stays within its task scope, that capacity held by
    attempts is bounded, and what recovery after a lease may do.
  \<^item> \<open>Refund_Store\<close>: refund authorizations and receipts; refunds stay within the capture.
  \<^item> \<open>Idempotency\<close>: keys are claimed by one caller. \<open>Idempotency_Runs\<close>: over all operations of the
    store, those of prepared actions included, a key once executing is never claimed again.
  \<^item> \<open>Payment_Rail\<close>, \<open>Rail_Contract\<close>, \<open>Rail_Protocol\<close>: the local ledger and the adapters built on
    it; over all calls the holds exceed the balance by no more than the maxima of reservations
    the rail settled or released without having held them; duplicate calls are suppressed and a
    held reservation can be settled within its maximum.

  \<^item> \<open>Cash_Accounting\<close>: what the components of cash evidence say together; the result depends
    neither on their order nor on repetitions, and every counted amount is supported.
    \<open>Authorization_Basis\<close>: offers and rate cards and the maximum each authorizes; a pinned card
    is unambiguous and its maximum covers every use within the pinned quantities.
    \<open>Prepared_Models\<close>: decisions, their transitions, usage statements and disputes.
    \<open>Billing\<close>: what an execution costs under signed terms; a charge stays within the
    authorization and is due by the terms, and an overclaim opens a dispute.
  \<^item> \<open>Prepared_Store\<close>, \<open>Payment_Store\<close>, \<open>Settlement_Store\<close>, \<open>Prepared_Recovery\<close>: the exact-money
    path of the store: a decision is stored, claimed, reserved, invoked, settled, abandoned or
    recovered. \<open>Payment_Ledger\<close> and \<open>Payment_Authority\<close> collect the changes these operations make
    and prove their invariants; \<open>Payment_Protocol\<close> shows that each operation makes such changes;
    \<open>Payment_Runs\<close> states what holds in every run: the prepaid limit is never exceeded,
    reservations are backed by decisions, a decision is invoked at most once and never after it
    was abandoned, a receipt can be saved again, and a receipt that is not final is the last
    one. \<open>Payment_Samples\<close> runs the operations on one decision.

  \<^item> \<open>Budget_Manager\<close>: \<open>BudgetManager\<close> over a pair of a store and a rail; \<open>and_then\<close> sequences
    statements that may raise and \<open>or_recover\<close> is the handler of a failed rail call.
    \<open>Manager_Runs\<close> shows that every call is a sequence of payment steps of the store and keeps
    what the rail promises, \<open>Manager_Safety\<close> that a run of the manager stays within the prepaid
    balance and reserves only within its authority, \<open>Manager_Retry\<close> what a repeated settlement
    returns and when money that moved can no longer be recorded.
  \<^item> \<open>Routing_Models\<close>, \<open>Routing_Policy\<close>, \<open>Routing_Feasibility\<close>, \<open>Routing_Score\<close>,
    \<open>Routing_Choice\<close>: the routing models, the built-in policies and the merge of constraints,
    the rejection rules, the score, and the choice of \<open>Router.route\<close>. \<open>Routing_Dominance\<close> shows
    that a better estimate is never at a disadvantage; a selected executor satisfies the policy
    and the request, and its total is within the abstention slack of the best.
  \<^item> \<open>Canonical_Decimal\<close>, \<open>Canonical_JSON\<close>, \<open>Canonical_Laws\<close>: the canonical texts and payloads. A
    decimal's text reads back and is the same for equal amounts, the legacy conversion is a
    normal form, and the payload domains cannot be confused.
  \<^item> \<open>Cash_Reporting\<close>, \<open>Receipt_Accounting\<close>: \<open>accounting.py\<close>, the cash of statements,
    settlements, reconciliations and refunds, the report that nets them, and the aggregation of
    receipts; what is reported is the net charge, and the costs of the receipts that count add
    up. \<open>Rate_Pricing\<close>: the price of model usage under a rate card; the usage is charged without
    a gap and not twice, and the order of the rates on the card is irrelevant.
  \<^item> \<open>Estimator\<close>: \<open>estimator.py\<close>, the estimate of an executor mixed from the declared one,
    shared evidence and receipts. \<open>Estimator_Laws\<close> shows that an estimate is valid and fails only
    in its shared evidence or by rounding, \<open>Estimator_Evidence\<close> when it fails and which evidence it
    forgets; \<open>Estimator_Samples\<close> computes a mix that binary64 rounds below the least value.
  \<^item> \<open>Json_Pointer\<close>, \<open>Workflow_Models\<close>: pointers into JSON values and the workflow request of
    \<open>workflow.py\<close>, whose validation decides exactly acyclicity and resolved references.
    \<open>Workflow_Engine\<close>, \<open>Workflow_Run\<close>: \<open>Router.execute_workflow\<close> wave by wave, its result and
    \<open>Router.resume_workflow\<close>. \<open>Workflow_Order\<close> shows that no accepted workflow gets stuck and that
    steps run once and each only after its dependencies have produced their outputs (the locale
    \<open>observed_workflow\<close> on an environment that logs every wave), \<open>Workflow_Budget\<close> that prepared waves stay within the budget,
    \<open>Workflow_Waiting\<close> what is kept when a step hands over and what resuming repeats; \<open>Workflow_Samples\<close> runs small workflows.

  Bounds. The operations are total functions: every loop is over a list or has a termination
  proof. The one recursion with fuel is \<open>path_total\<close>, given the number of steps and one, more than
  the longest chain of dependencies of an accepted workflow (\<open>critical_path_ends\<close>). A limit on a
  listing is clamped as in the code. The scoring computes with exact rationals; \<open>log\<close> and
  \<open>log1p\<close> are arguments with the laws \<open>log_laws\<close>. The estimator rounds every float operation with
  an argument that has the laws \<open>float_rounding\<close> of binary64. JSON values are replaced by value, which is what
  the code's update in place gives as long as no binding's target lies below another's.

  Not modelled, and why: the rest of the router (preparation, execution and metrics) acts on
  workflows through arguments of their environment; the command line, hosts, executors, MCP and
  the market server orchestrate or perform input and output; quote negotiation, trust and
  signing rest on a network and a third-party cryptography package; assessment controls
  processes; \<open>reconcile_v2\<close> needs the store's billing reconciliations.
\<close>

end
